(* ===== verification/Prelude.thy ===== *)
theory Prelude
  imports Main "HOL-Library.Word"
begin

text \<open>
  What every component of the development shares: the machine types of the code as words, the
  little-endian memory image of an integer (the target boxes are little-endian), the collections
  of facts the component proofs draw on, and generic lemmas on lists.
\<close>

unbundle bit_operations_syntax

type_synonym byte = "8 word"
type_synonym u16 = "16 word"
type_synonym u32 = "32 word"
type_synonym u64 = "64 word"

named_theorems byte_simps \<open>memory images of integers and structures\<close>
named_theorems wf_intros \<open>introduction rules for well-formedness predicates\<close>

subsection \<open>Memory images of integers\<close>

text \<open>The first \<open>n\<close> bytes of an integer in memory, least significant byte first.\<close>

fun le_bytes :: "nat \<Rightarrow> 'a::len word \<Rightarrow> byte list" where
  "le_bytes 0 w = []"
| "le_bytes (Suc n) w = ucast w # le_bytes n (drop_bit 8 w)"

text \<open>The integer a byte sequence is the image of.\<close>

fun le_word :: "byte list \<Rightarrow> 'a::len word" where
  "le_word [] = 0"
| "le_word (b # bs) = ucast b OR push_bit 8 (le_word bs)"

lemma length_le_bytes [simp, byte_simps]: "length (le_bytes n w) = n"
  by (induction n arbitrary: w) auto

lemma le_word_le_bytes: "le_word (le_bytes n w) = take_bit (8 * n) (w :: 'a::len word)"
proof (induction n arbitrary: w)
  case 0
  then show ?case by simp
next
  case (Suc n)
  have "le_word (le_bytes (Suc n) w) =
      (ucast (ucast w :: byte) :: 'a word) OR push_bit 8 (take_bit (8 * n) (drop_bit 8 w))"
    by (simp add: Suc.IH)
  also have "\<dots> = take_bit (8 * Suc n) w"
    by (rule bit_word_eqI) (auto simp: bit_simps)
  finally show ?case .
qed

lemma le_word_le_bytes_32 [simp, byte_simps]: "le_word (le_bytes 4 w) = (w :: u32)"
  using le_word_le_bytes [of 4 w] take_bit_word_eq_self [of 32 w] by simp

lemma le_word_le_bytes_64 [simp, byte_simps]: "le_word (le_bytes 8 w) = (w :: u64)"
  using le_word_le_bytes [of 8 w] take_bit_word_eq_self [of 64 w] by simp

lemma le_word_le_bytes_16 [simp, byte_simps]: "le_word (le_bytes 2 w) = (w :: u16)"
  using le_word_le_bytes [of 2 w] take_bit_word_eq_self [of 16 w] by simp

lemma le_word_le_bytes_8 [simp, byte_simps]: "le_word (le_bytes (Suc 0) w) = (w :: byte)"
  by simp

lemma le_bytes_inject_32: "le_bytes 4 a = le_bytes 4 b \<longleftrightarrow> a = (b :: u32)"
  by (metis le_word_le_bytes_32)

text \<open>Reading bytes as an integer and storing it back.\<close>

lemma bit_le_word_beyond: "8 * length xs \<le> n \<Longrightarrow> \<not> bit (le_word xs :: 'a::len word) n"
proof (induction xs arbitrary: n)
  case (Cons b xs)
  then have "\<not> bit (le_word xs :: 'a word) (n - 8)" "8 \<le> n"
    by auto
  then show ?case
    by (auto simp: bit_simps dest: bit_imp_le_length)
qed simp

lemma le_bytes_le_word_all:
  "8 * length xs \<le> LENGTH('a) \<Longrightarrow> le_bytes (length xs) (le_word xs :: 'a::len word) = xs"
proof (induction xs)
  case (Cons b xs)
  have "drop_bit 8 (le_word (b # xs) :: 'a word) = le_word xs"
  proof (rule bit_word_eqI)
    fix n assume n: "n < LENGTH('a)"
    show "bit (drop_bit 8 (le_word (b # xs)) :: 'a word) n = bit (le_word xs :: 'a word) n"
    proof (cases "8 * length xs \<le> n")
      case True
      then have "\<not> bit (le_word xs :: 'a word) n" "\<not> bit (le_word (b # xs) :: 'a word) (8 + n)"
        by (auto intro!: bit_le_word_beyond simp del: le_word.simps)
      then show ?thesis
        by (simp only: bit_drop_bit_eq comp_def)
    next
      case False
      then have "8 + n < LENGTH('a)"
        using Cons.prems by simp
      then show ?thesis
        by (auto simp: bit_simps dest: bit_imp_le_length)
    qed
  qed
  moreover have "ucast (le_word (b # xs) :: 'a word) = b"
    using Cons.prems by (intro bit_word_eqI) (auto simp: bit_simps dest: bit_imp_le_length)
  ultimately show ?case
    using Cons by simp
qed simp

lemma take_chunk:
  "i + m = j \<Longrightarrow> take m (drop i b) @ take n (drop j b) = take (m + n) (drop i b)"
  by (auto simp: take_add add.commute)

lemma le_bytes_chunk:
  assumes "8 * n \<le> LENGTH('a)" "n + i \<le> length b"
  shows "le_bytes n (le_word (take n (drop i b)) :: 'a::len word) = take n (drop i b)"
proof -
  have "length (take n (drop i b)) = n"
    using assms by simp
  then show ?thesis
    using le_bytes_le_word_all [of "take n (drop i b)", where 'a = 'a] assms by simp
qed

subsection \<open>Exclusive or cancels\<close>

lemma xor_right_cancel [simp]: "a XOR c = b XOR c \<longleftrightarrow> a = (b :: 'a::len word)"
proof
  assume "a XOR c = b XOR c"
  then have "(a XOR c) XOR c = (b XOR c) XOR c"
    by simp
  then show "a = b"
    by (simp add: xor.assoc)
qed simp

lemma xor_left_cancel [simp]: "c XOR a = c XOR b \<longleftrightarrow> a = (b :: 'a::len word)"
  using xor_right_cancel [of a c b] by (simp add: xor.commute)

subsection \<open>Lists\<close>

lemma take_append_exact [simp]: "length xs = n \<Longrightarrow> take n (xs @ ys) = xs"
  by simp

lemma drop_append_exact [simp]: "length xs = n \<Longrightarrow> drop n (xs @ ys) = ys"
  by simp

lemma take_drop_append_skip:
  "length xs = n \<Longrightarrow> take k (drop (n + m) (xs @ ys)) = take k (drop m ys)"
  by simp

text \<open>Storing bytes into a buffer at an offset, as \<^verbatim>\<open>memcpy(buf + offs, data, len)\<close> does.\<close>

definition store_at :: "nat \<Rightarrow> byte list \<Rightarrow> byte list \<Rightarrow> byte list" where
  "store_at offs data buf = take offs buf @ data @ drop (offs + length data) buf"

lemma length_store_at [simp]:
  "offs + length data \<le> length buf \<Longrightarrow> length (store_at offs data buf) = length buf"
  by (simp add: store_at_def)

lemma take_drop_store_at [simp]:
  "offs \<le> length buf \<Longrightarrow> take (length data) (drop offs (store_at offs data buf)) = data"
  by (simp add: store_at_def)

lemma take_store_at: "n \<le> offs \<Longrightarrow> offs \<le> length buf \<Longrightarrow> take n (store_at offs data buf) = take n buf"
  by (simp add: store_at_def)

lemma drop_store_at:
  "offs + length data \<le> n \<Longrightarrow> offs + length data \<le> length buf
   \<Longrightarrow> drop n (store_at offs data buf) = drop n buf"
  by (simp add: store_at_def)

lemma store_at_whole [simp]: "length data = length buf \<Longrightarrow> store_at 0 data buf = data"
  by (simp add: store_at_def)

end
