(* ===== verification/CInt.thy ===== *)
theory CInt
  imports Prelude
begin

text \<open>
  C integers of the 32-bit targets as mathematical integers with the conversions written out:
  \<^verbatim>\<open>int\<close> is 32 bits signed, \<^verbatim>\<open>unsigned\<close> and \<^verbatim>\<open>size_t\<close> 32 bits, \<^verbatim>\<open>long long\<close> and
  \<^verbatim>\<open>off_t\<close> 64 bits signed. Division truncates towards zero.
\<close>

definition c_uint :: "int \<Rightarrow> int" where
  "c_uint x = x mod 2 ^ 32"

definition c_int :: "int \<Rightarrow> int" where
  "c_int x = (x + 2 ^ 31) mod 2 ^ 32 - 2 ^ 31"

definition c_ulonglong :: "int \<Rightarrow> int" where
  "c_ulonglong x = x mod 2 ^ 64"

definition c_longlong :: "int \<Rightarrow> int" where
  "c_longlong x = (x + 2 ^ 63) mod 2 ^ 64 - 2 ^ 63"

definition c_div :: "int \<Rightarrow> int \<Rightarrow> int" where
  "c_div a b = sgn a * sgn b * (\<bar>a\<bar> div \<bar>b\<bar>)"

definition c_mod :: "int \<Rightarrow> int \<Rightarrow> int" where
  "c_mod a b = a - c_div a b * b"

lemma c_uint_id [simp]: "0 \<le> x \<Longrightarrow> x < 2 ^ 32 \<Longrightarrow> c_uint x = x"
  by (simp add: c_uint_def)

lemma c_int_id [simp]: "- (2 ^ 31) \<le> x \<Longrightarrow> x < 2 ^ 31 \<Longrightarrow> c_int x = x"
  by (simp add: c_int_def)

lemma c_longlong_id [simp]: "- (2 ^ 63) \<le> x \<Longrightarrow> x < 2 ^ 63 \<Longrightarrow> c_longlong x = x"
  by (simp add: c_longlong_def)

lemma c_int_range: "- (2 ^ 31) \<le> c_int x" "c_int x < 2 ^ 31"
  by (simp_all add: c_int_def)

lemma c_div_nonneg [simp]: "0 \<le> a \<Longrightarrow> 0 \<le> b \<Longrightarrow> c_div a b = a div b"
  by (cases "a = 0"; cases "b = 0") (auto simp: c_div_def)

lemma c_mod_nonneg [simp]: "0 \<le> a \<Longrightarrow> 0 \<le> b \<Longrightarrow> c_mod a b = a mod b"
  by (simp add: c_mod_def minus_div_mult_eq_mod)

lemma c_div_trunc: "c_div (-7) 2 = -3" "c_mod (-7) 2 = -1"
  by (simp_all add: c_div_def c_mod_def)

subsection \<open>Rounding up to a multiple\<close>

text \<open>\<^verbatim>\<open>x = x + a - 1; x /= a; x *= a\<close> for non-negative values.\<close>

lemma round_up_ge:
  fixes x a :: int
  assumes "0 < a"
  shows "x \<le> (x + a - 1) div a * a"
proof -
  have "(x + a - 1) div a * a = x + a - 1 - (x + a - 1) mod a"
    by (simp add: minus_mod_eq_div_mult [symmetric])
  moreover have "(x + a - 1) mod a < a"
    using assms by simp
  ultimately show ?thesis by linarith
qed

lemma round_up_less:
  fixes x a :: int
  assumes "0 < a"
  shows "(x + a - 1) div a * a < x + a"
proof -
  have "(x + a - 1) div a * a = x + a - 1 - (x + a - 1) mod a"
    by (simp add: minus_mod_eq_div_mult [symmetric])
  moreover have "0 \<le> (x + a - 1) mod a"
    using assms by simp
  ultimately show ?thesis by linarith
qed

end
