(* ===== verification/Libmtd.thy ===== *)
theory Libmtd
  imports CInt "HOL-Library.Monad_Syntax"
begin

text \<open>
  \<^verbatim>\<open>lib/libmtd.c\<close>: operations on the eraseblocks of an open MTD device. The kernel behind the
  file descriptor is not code of the repository: it is the record \<open>'k kernel\<close> of its system
  calls over a state of its own, a parameter of every operation. An operation returns
  \<open>None\<close> when the C code does not return (an endless loop, a division by zero).
\<close>

subsection \<open>The kernel's side of an open MTD device\<close>

datatype errno = EIO | EINVAL | ENOTTY | EOPNOTSUPP | ENODEV | ENOENT | EINTR | EAGAIN | EOTHER nat

text \<open>What \<^verbatim>\<open>read\<close> delivers: bytes (none of them at the end of the file), or an error.\<close>

datatype rd = Bytes "byte list" | ReadErr errno

record nand_oobinfo =
  oob_useecc :: int
  oob_eccbytes :: int
  oob_oobfree :: "(int \<times> int) list"

record mtd_write_req =
  wr_start :: u64
  wr_len :: u64
  wr_ooblen :: u64
  wr_data :: "byte list option"
  wr_oob :: "byte list"
  wr_mode :: int

text \<open>
  An \<open>errno option\<close> result is \<open>None\<close> for a return value of 0 and \<open>Some e\<close> for -1 with
  \<^verbatim>\<open>errno\<close> \<open>e\<close>. The OOB calls also return the caller's data buffer as the kernel leaves it.
\<close>

record 'k kernel =
  k_memerase64 :: "u64 \<Rightarrow> u64 \<Rightarrow> 'k \<Rightarrow> errno option \<times> 'k"
  k_memerase :: "u32 \<Rightarrow> u32 \<Rightarrow> 'k \<Rightarrow> errno option \<times> 'k"
  k_memlock :: "u32 \<Rightarrow> u32 \<Rightarrow> 'k \<Rightarrow> errno option \<times> 'k"
  k_memunlock :: "u32 \<Rightarrow> u32 \<Rightarrow> 'k \<Rightarrow> errno option \<times> 'k"
  k_memislocked :: "u32 \<Rightarrow> u32 \<Rightarrow> 'k \<Rightarrow> (errno + int) \<times> 'k"
  k_getbadblock :: "int \<Rightarrow> 'k \<Rightarrow> (errno + int) \<times> 'k"
  k_setbadblock :: "int \<Rightarrow> 'k \<Rightarrow> errno option \<times> 'k"
  k_lseek :: "int \<Rightarrow> 'k \<Rightarrow> int \<times> 'k"
  k_read :: "nat \<Rightarrow> 'k \<Rightarrow> rd \<times> 'k"
  k_write :: "byte list \<Rightarrow> 'k \<Rightarrow> (errno + int) \<times> 'k"
  k_memwrite :: "mtd_write_req \<Rightarrow> 'k \<Rightarrow> errno option \<times> 'k"
  k_memgetoobsel :: "'k \<Rightarrow> (errno + nand_oobinfo) \<times> 'k"
  k_oob64 :: "bool \<Rightarrow> u64 \<Rightarrow> u64 \<Rightarrow> byte list \<Rightarrow> 'k \<Rightarrow> errno option \<times> byte list \<times> 'k"
  k_oob :: "bool \<Rightarrow> u32 \<Rightarrow> u32 \<Rightarrow> byte list \<Rightarrow> 'k \<Rightarrow> errno option \<times> byte list \<times> 'k"
  k_pwrite :: "byte list \<Rightarrow> int \<Rightarrow> 'k \<Rightarrow> (errno + int) \<times> 'k"
  k_mtdfilemode_raw :: "'k \<Rightarrow> errno option \<times> 'k"
  k_img_stat :: "'k \<Rightarrow> (errno + int) \<times> 'k"
  k_img_open :: "'k \<Rightarrow> errno option \<times> 'k"
  k_img_lseek :: "int \<Rightarrow> 'k \<Rightarrow> errno option \<times> 'k"
  k_img_read :: "nat \<Rightarrow> 'k \<Rightarrow> rd \<times> 'k"
  k_getline :: "'k \<Rightarrow> string option \<times> 'k"

text \<open>
  The \<open>k_img\<close> calls concern the image file a flashing tool has open beside the device,
  \<open>k_getline\<close> the standard input (\<open>None\<close> at its end).
\<close>

subsection \<open>Device description\<close>

definition MTD_ABSENT :: int where "MTD_ABSENT = 0"
definition MTD_RAM :: int where "MTD_RAM = 1"
definition MTD_ROM :: int where "MTD_ROM = 2"
definition MTD_NORFLASH :: int where "MTD_NORFLASH = 3"
definition MTD_NANDFLASH :: int where "MTD_NANDFLASH = 4"
definition MTD_DATAFLASH :: int where "MTD_DATAFLASH = 6"
definition MTD_UBIVOLUME :: int where "MTD_UBIVOLUME = 7"
definition MTD_MLCNANDFLASH :: int where "MTD_MLCNANDFLASH = 8"
definition MTD_OPS_PLACE_OOB :: int where "MTD_OPS_PLACE_OOB = 0"
definition MTD_OPS_AUTO_OOB :: int where "MTD_OPS_AUTO_OOB = 1"
definition MTD_OPS_RAW :: int where "MTD_OPS_RAW = 2"
definition MTD_NANDECC_AUTOPLACE :: int where "MTD_NANDECC_AUTOPLACE = 2"

lemmas mtd_type_defs = MTD_ABSENT_def MTD_RAM_def MTD_ROM_def MTD_NORFLASH_def MTD_NANDFLASH_def
  MTD_DATAFLASH_def MTD_UBIVOLUME_def MTD_MLCNANDFLASH_def

record mtd_dev_info =
  mtd_num :: int
  mtd_type :: int
  mtd_name :: string
  mtd_size :: int
  mtd_eb_cnt :: int
  mtd_eb_size :: int
  mtd_min_io_size :: int
  mtd_subpage_size :: int
  mtd_oob_size :: int
  mtd_writable :: bool
  mtd_bb_allowed :: bool

definition type_str2int :: "string \<Rightarrow> int" where
  "type_str2int str =
     (if str = ''nand'' then MTD_NANDFLASH
      else if str = ''mlc-nand'' then MTD_MLCNANDFLASH
      else if str = ''nor'' then MTD_NORFLASH
      else if str = ''rom'' then MTD_ROM
      else if str = ''absent'' then MTD_ABSENT
      else if str = ''dataflash'' then MTD_DATAFLASH
      else if str = ''ram'' then MTD_RAM
      else if str = ''ubi'' then MTD_UBIVOLUME
      else -1)"

text \<open>What the library remembers of the kernel's 64-bit ioctls, and the state of an operation.\<close>

datatype offs64 = OFFS64_IOCTLS_UNKNOWN | OFFS64_IOCTLS_NOT_SUPPORTED | OFFS64_IOCTLS_SUPPORTED

type_synonym 'k st = "offs64 \<times> 'k"

subsection \<open>Asking the user\<close>

text \<open>
  \<^verbatim>\<open>prompt\<close> of \<^verbatim>\<open>include/common.h\<close>: an empty line is the default, a line that is neither yes nor no is
  asked for again. At the end of the input the code compares an unset line pointer: \<open>None\<close>.
\<close>

definition rpmatch :: "string \<Rightarrow> int" where
  "rpmatch line =
     (if line \<noteq> [] \<and> hd line \<in> {CHR ''y'', CHR ''Y''} then 1
      else if line \<noteq> [] \<and> hd line \<in> {CHR ''n'', CHR ''N''} then 0 else -1)"

partial_function (option) prompt :: "'k kernel \<Rightarrow> bool \<Rightarrow> 'k \<Rightarrow> (bool \<times> 'k) option" where
  "prompt K dflt k =
     (case k_getline K k of
        (None, k') \<Rightarrow> None
      | (Some line, k') \<Rightarrow>
          if line = [CHR 0x0A] then Some (dflt, k')
          else if rpmatch line = 0 then Some (False, k')
          else if rpmatch line = 1 then Some (True, k')
          else prompt K dflt k')"

definition is_power_of_2 :: "u64 \<Rightarrow> bool" where
  "is_power_of_2 n \<longleftrightarrow> n \<noteq> 0 \<and> n AND (n - 1) = 0"

subsection \<open>Eraseblock operations\<close>

definition mtd_valid_erase_block :: "mtd_dev_info \<Rightarrow> int \<Rightarrow> errno option" where
  "mtd_valid_erase_block mtd eb = (if eb < 0 \<or> eb \<ge> mtd_eb_cnt mtd then Some EINVAL else None)"

text \<open>\<open>req\<close> is \<^verbatim>\<open>MEMLOCK\<close> or \<^verbatim>\<open>MEMUNLOCK\<close>; the 32-bit start is computed in \<^verbatim>\<open>int\<close>.\<close>

definition mtd_xlock ::
  "(u32 \<Rightarrow> u32 \<Rightarrow> 'k \<Rightarrow> errno option \<times> 'k) \<Rightarrow> mtd_dev_info \<Rightarrow> int \<Rightarrow> 'k st \<Rightarrow> errno option \<times> 'k st" where
  "mtd_xlock req mtd eb st =
     (case mtd_valid_erase_block mtd eb of
        Some e \<Rightarrow> (Some e, st)
      | None \<Rightarrow>
          let (r, k) = req (word_of_int (eb * mtd_eb_size mtd)) (word_of_int (mtd_eb_size mtd)) (snd st)
          in (r, fst st, k))"

definition mtd_lock :: "'k kernel \<Rightarrow> mtd_dev_info \<Rightarrow> int \<Rightarrow> 'k st \<Rightarrow> errno option \<times> 'k st" where
  "mtd_lock K = mtd_xlock (k_memlock K)"

definition mtd_unlock :: "'k kernel \<Rightarrow> mtd_dev_info \<Rightarrow> int \<Rightarrow> 'k st \<Rightarrow> errno option \<times> 'k st" where
  "mtd_unlock K = mtd_xlock (k_memunlock K)"

text \<open>The 32-bit fallback of \<^verbatim>\<open>mtd_erase\<close>, after the range check of its caller's offsets.\<close>

definition mtd_erase32 :: "'k kernel \<Rightarrow> u64 \<Rightarrow> u64 \<Rightarrow> 'k st \<Rightarrow> errno option \<times> 'k st" where
  "mtd_erase32 K start len st =
     (if start + len > 0xFFFFFFFF then (Some EINVAL, st)
      else let (r, k) = k_memerase K (ucast start) (ucast len) (snd st) in (r, fst st, k))"

definition mtd_erase :: "'k kernel \<Rightarrow> mtd_dev_info \<Rightarrow> int \<Rightarrow> 'k st \<Rightarrow> errno option \<times> 'k st" where
  "mtd_erase K mtd eb st =
     (case mtd_valid_erase_block mtd eb of
        Some e \<Rightarrow> (Some e, st)
      | None \<Rightarrow>
          let start = word_of_int (eb * mtd_eb_size mtd); len = word_of_int (mtd_eb_size mtd);
              (l, k) = st
          in if l = OFFS64_IOCTLS_SUPPORTED \<or> l = OFFS64_IOCTLS_UNKNOWN then
               (case k_memerase64 K start len k of
                  (None, k') \<Rightarrow> (None, l, k')
                | (Some e, k') \<Rightarrow>
                    if e \<noteq> ENOTTY \<or> l \<noteq> OFFS64_IOCTLS_UNKNOWN then (Some e, l, k')
                    else mtd_erase32 K start len (OFFS64_IOCTLS_NOT_SUPPORTED, k'))
             else mtd_erase32 K start len st)"

definition mtd_is_locked ::
  "'k kernel \<Rightarrow> mtd_dev_info \<Rightarrow> int \<Rightarrow> 'k st \<Rightarrow> (errno + int) \<times> 'k st" where
  "mtd_is_locked K mtd eb st =
     (case k_memislocked K (word_of_int (eb * mtd_eb_size mtd)) (word_of_int (mtd_eb_size mtd)) (snd st) of
        (Inl e, k) \<Rightarrow>
          (Inl (if e \<noteq> ENOTTY \<and> e \<noteq> EOPNOTSUPP then e else EOPNOTSUPP), fst st, k)
      | (Inr r, k) \<Rightarrow> (Inr r, fst st, k))"

definition mtd_is_bad :: "'k kernel \<Rightarrow> mtd_dev_info \<Rightarrow> int \<Rightarrow> 'k st \<Rightarrow> (errno + int) \<times> 'k st" where
  "mtd_is_bad K mtd eb st =
     (case mtd_valid_erase_block mtd eb of
        Some e \<Rightarrow> (Inl e, st)
      | None \<Rightarrow>
          if \<not> mtd_bb_allowed mtd then (Inr 0, st)
          else let (r, k) = k_getbadblock K (eb * mtd_eb_size mtd) (snd st) in (r, fst st, k))"

definition mtd_mark_bad :: "'k kernel \<Rightarrow> mtd_dev_info \<Rightarrow> int \<Rightarrow> 'k st \<Rightarrow> errno option \<times> 'k st" where
  "mtd_mark_bad K mtd eb st =
     (if \<not> mtd_bb_allowed mtd then (Some EINVAL, st)
      else case mtd_valid_erase_block mtd eb of
        Some e \<Rightarrow> (Some e, st)
      | None \<Rightarrow>
          let (r, k) = k_setbadblock K (eb * mtd_eb_size mtd) (snd st) in (r, fst st, k))"

subsection \<open>Reading\<close>

text \<open>
  The loop of \<^verbatim>\<open>mtd_read\<close>: every \<^verbatim>\<open>read(fd, buf, len)\<close> asks for the whole length again and
  stores at the start of the buffer again; only \<^verbatim>\<open>rd\<close> advances.
\<close>

partial_function (option) mtd_read_loop ::
  "'k kernel \<Rightarrow> nat \<Rightarrow> byte list \<Rightarrow> nat \<Rightarrow> 'k \<Rightarrow> (errno option \<times> byte list \<times> 'k) option" where
  "mtd_read_loop K len buf rd k =
     (if rd < len then
        (case k_read K len k of
           (ReadErr e, k') \<Rightarrow> Some (Some e, buf, k')
         | (Bytes d, k') \<Rightarrow> mtd_read_loop K len (store_at 0 d buf) (rd + length d) k')
      else Some (None, buf, k))"

text \<open>Returns the code's result and the buffer. A failing seek reports the errno of \<^verbatim>\<open>lseek\<close>.\<close>

definition mtd_read ::
  "'k kernel \<Rightarrow> mtd_dev_info \<Rightarrow> int \<Rightarrow> int \<Rightarrow> byte list \<Rightarrow> nat \<Rightarrow> 'k st
     \<Rightarrow> (errno option \<times> byte list \<times> 'k st) option" where
  "mtd_read K mtd eb offs buf len st =
     (case mtd_valid_erase_block mtd eb of
        Some e \<Rightarrow> Some (Some e, buf, st)
      | None \<Rightarrow>
          if offs < 0 \<or> offs + int len > mtd_eb_size mtd then Some (Some EINVAL, buf, st)
          else
            let seek = eb * mtd_eb_size mtd + offs; (r, k) = k_lseek K seek (snd st)
            in if r \<noteq> seek then Some (Some (EOTHER 0), buf, fst st, k)
               else do {
                 (e, buf', k') \<leftarrow> mtd_read_loop K len buf 0 k;
                 Some (e, buf', fst st, k')
               })"

subsection \<open>OOB access\<close>

text \<open>
  \<^verbatim>\<open>do_oob_op\<close>, for reading (\<open>wr\<close> false) and writing. A failing 64-bit ioctl is reported
  but not returned: the code goes on to note that 64-bit ioctls are not supported and to try
  the 32-bit one.
\<close>

definition do_oob_op ::
  "'k kernel \<Rightarrow> mtd_dev_info \<Rightarrow> bool \<Rightarrow> u64 \<Rightarrow> u64 \<Rightarrow> byte list \<Rightarrow> 'k st
     \<Rightarrow> errno option \<times> byte list \<times> 'k st" where
  "do_oob_op K mtd wr start len data st =
     (let max_offs = (word_of_int (mtd_eb_cnt mtd) * word_of_int (mtd_eb_size mtd) :: u64);
          oob_offs = start AND word_of_int (mtd_min_io_size mtd - 1)
      in if start \<ge> max_offs then (Some EINVAL, data, st)
         else if oob_offs + len > word_of_int (mtd_oob_size mtd) \<or> len = 0
         then (Some EINVAL, data, st)
         else
           let (l, k) = st;
               (r64, data64, k64) =
                 (if l = OFFS64_IOCTLS_SUPPORTED \<or> l = OFFS64_IOCTLS_UNKNOWN
                  then k_oob64 K wr start len data k else (Some ENOTTY, data, k));
               l' = (if l = OFFS64_IOCTLS_SUPPORTED \<or> l = OFFS64_IOCTLS_UNKNOWN
                     then OFFS64_IOCTLS_NOT_SUPPORTED else l)
           in if r64 = None then (None, data64, l, k64)
              else if start > 0xFFFFFFFF then (Some EINVAL, data64, l', k64)
              else
                let (r, data', k') = k_oob K wr (ucast start) (ucast len) data64 k64
                in (r, data', l', k'))"

definition mtd_write_oob ::
  "'k kernel \<Rightarrow> mtd_dev_info \<Rightarrow> u64 \<Rightarrow> u64 \<Rightarrow> byte list \<Rightarrow> 'k st \<Rightarrow> errno option \<times> 'k st" where
  "mtd_write_oob K mtd start len data st =
     (let (r, _, st') = do_oob_op K mtd True start len data st in (r, st'))"

definition mtd_read_oob ::
  "'k kernel \<Rightarrow> mtd_dev_info \<Rightarrow> u64 \<Rightarrow> u64 \<Rightarrow> byte list \<Rightarrow> 'k st \<Rightarrow> errno option \<times> byte list \<times> 'k st" where
  "mtd_read_oob K mtd start len data st = do_oob_op K mtd False start len data st"

text \<open>
  \<^verbatim>\<open>legacy_auto_oob_layout\<close> moves the user's bytes into the free positions of the OOB area; the
  list of free regions ends at the first of length 0.
\<close>

fun spread_oob :: "(int \<times> int) list \<Rightarrow> byte list \<Rightarrow> nat \<Rightarrow> byte list \<Rightarrow> byte list" where
  "spread_oob [] tmp tags_pos oob = oob"
| "spread_oob ((start, len) # free) tmp tags_pos oob =
     (if len = 0 then oob
      else spread_oob free tmp (tags_pos + nat len)
             (store_at (nat start) (take (nat len) (drop tags_pos tmp)) oob))"

definition legacy_auto_oob_layout ::
  "'k kernel \<Rightarrow> mtd_dev_info \<Rightarrow> byte list \<Rightarrow> 'k \<Rightarrow> (errno + byte list) \<times> 'k" where
  "legacy_auto_oob_layout K mtd oob k =
     (case k_memgetoobsel K k of
        (Inl e, k') \<Rightarrow> (Inl e, k')
      | (Inr info, k') \<Rightarrow>
          if oob_useecc info = MTD_NANDECC_AUTOPLACE
          then (Inr (spread_oob (oob_oobfree info) oob 0 oob), k')
          else
            let start = nat (oob_eccbytes info); len = nat (mtd_oob_size mtd - oob_eccbytes info)
            in (Inr (store_at start (take len (drop start oob)) oob), k'))"

subsection \<open>Writing\<close>

text \<open>The data part of \<^verbatim>\<open>mtd_write\<close>: seek, then one \<^verbatim>\<open>write\<close> that must take every byte.\<close>

definition mtd_write_data :: "'k kernel \<Rightarrow> int \<Rightarrow> byte list \<Rightarrow> 'k \<Rightarrow> errno option \<times> 'k" where
  "mtd_write_data K seek data k =
     (let (r, k1) = k_lseek K seek k
      in if r \<noteq> seek then (Some (EOTHER 0), k1)
         else case k_write K data k1 of
           (Inl e, k2) \<Rightarrow> (Some e, k2)
         | (Inr n, k2) \<Rightarrow> (if n \<noteq> int (length data) then Some (EOTHER 0) else None, k2))"

text \<open>The OOB part, tried first: \<open>Inr True\<close> means everything, data included, is written.\<close>

definition mtd_write_with_oob ::
  "'k kernel \<Rightarrow> mtd_dev_info \<Rightarrow> int \<Rightarrow> byte list option \<Rightarrow> nat \<Rightarrow> byte list \<Rightarrow> int \<Rightarrow> 'k st
     \<Rightarrow> (errno + bool) \<times> 'k st" where
  "mtd_write_with_oob K mtd seek data len oob mode st =
     (case k_memwrite K \<lparr> wr_start = word_of_int seek, wr_len = word_of_nat len,
             wr_ooblen = word_of_nat (length oob), wr_data = data, wr_oob = oob, wr_mode = mode \<rparr>
             (snd st) of
        (None, k) \<Rightarrow> (Inr True, fst st, k)
      | (Some e, k) \<Rightarrow>
          if e \<noteq> ENOTTY \<and> e \<noteq> EOPNOTSUPP then (Inl e, fst st, k)
          else
            let (lay, k1) = (if mode = MTD_OPS_AUTO_OOB then legacy_auto_oob_layout K mtd oob k
                             else (Inr oob, k))
            in case lay of
                 Inl e \<Rightarrow> (Inl e, fst st, k1)
               | Inr oob' \<Rightarrow>
                   (case mtd_write_oob K mtd (word_of_int seek) (word_of_nat (length oob)) oob' (fst st, k1) of
                      (Some e, st') \<Rightarrow> (Inl e, st')
                    | (None, st') \<Rightarrow> (Inr False, st')))"

text \<open>
  \<^verbatim>\<open>mtd_write\<close>; a null \<^verbatim>\<open>data\<close> or \<^verbatim>\<open>oob\<close> pointer is \<open>None\<close>, \<open>len\<close> is the code's
  \<^verbatim>\<open>len\<close>, the length of \<open>data\<close> where it is given.
\<close>

definition mtd_write ::
  "'k kernel \<Rightarrow> mtd_dev_info \<Rightarrow> int \<Rightarrow> int \<Rightarrow> byte list option \<Rightarrow> nat \<Rightarrow> byte list option \<Rightarrow> int \<Rightarrow> 'k st
     \<Rightarrow> (errno option \<times> 'k st) option" where
  "mtd_write K mtd eb offs data len oob mode st =
     (case mtd_valid_erase_block mtd eb of
        Some e \<Rightarrow> Some (Some e, st)
      | None \<Rightarrow>
          if offs < 0 \<or> offs + int len > mtd_eb_size mtd then Some (Some EINVAL, st)
          else if mtd_subpage_size mtd = 0 then None
          else if c_mod offs (mtd_subpage_size mtd) \<noteq> 0 then Some (Some EINVAL, st)
          else if c_mod (int len) (mtd_subpage_size mtd) \<noteq> 0 then Some (Some EINVAL, st)
          else
            let seek = eb * mtd_eb_size mtd + offs;
                (o_r, st1) = (case oob of
                    None \<Rightarrow> (Inr False, st)
                  | Some ob \<Rightarrow> mtd_write_with_oob K mtd seek data len ob mode st)
            in case o_r of
                 Inl e \<Rightarrow> Some (Some e, st1)
               | Inr True \<Rightarrow> Some (None, st1)
               | Inr False \<Rightarrow>
                   (case data of
                      None \<Rightarrow> Some (None, st1)
                    | Some d \<Rightarrow>
                        let (r, k) = mtd_write_data K seek d (snd st1) in Some (r, fst st1, k)))"

subsection \<open>The torture test\<close>

definition check_pattern :: "byte list \<Rightarrow> byte \<Rightarrow> bool" where
  "check_pattern buf patt \<longleftrightarrow> list_all (\<lambda>b. b = patt) buf"

definition torture_patterns :: "byte list" where
  "torture_patterns = [0xa5, 0x5a, 0x0]"

text \<open>
  One round per pattern: erase, check for 0xFF, write the pattern, read it back. The flag tells
  whether the round failed; the function's \<^verbatim>\<open>out\<close> label is reached either way.
\<close>

definition torture_round ::
  "'k kernel \<Rightarrow> mtd_dev_info \<Rightarrow> int \<Rightarrow> byte \<Rightarrow> byte list \<Rightarrow> 'k st \<Rightarrow> (bool \<times> byte list \<times> 'k st) option" where
  "torture_round K mtd eb patt buf st =
     (let n = nat (mtd_eb_size mtd); (e1, st1) = mtd_erase K mtd eb st
      in if e1 \<noteq> None then Some (True, buf, st1)
         else do {
           (e2, buf2, st2) \<leftarrow> mtd_read K mtd eb 0 buf n st1;
           if e2 \<noteq> None then Some (True, buf2, st2)
           else if \<not> check_pattern buf2 0xFF then Some (True, buf2, st2)
           else do {
             (e3, st3) \<leftarrow> mtd_write K mtd eb 0 (Some (replicate n patt)) n None 0 st2;
             if e3 \<noteq> None then Some (True, replicate n patt, st3)
             else do {
               (e4, buf4, st4) \<leftarrow> mtd_read K mtd eb 0 (replicate n (NOT patt)) n st3;
               if e4 \<noteq> None then Some (True, buf4, st4)
               else Some (\<not> check_pattern buf4 patt, buf4, st4)
             }
           }
         })"

fun torture_rounds ::
  "'k kernel \<Rightarrow> mtd_dev_info \<Rightarrow> int \<Rightarrow> byte list \<Rightarrow> byte list \<Rightarrow> 'k st \<Rightarrow> (bool \<times> 'k st) option" where
  "torture_rounds K mtd eb [] buf st = Some (False, st)"
| "torture_rounds K mtd eb (p # ps) buf st = do {
     (failed, buf', st') \<leftarrow> torture_round K mtd eb p buf st;
     if failed then Some (True, st') else torture_rounds K mtd eb ps buf' st'
   }"

text \<open>
  \<^verbatim>\<open>mtd_torture\<close>; \<open>buf\<close> is what \<^verbatim>\<open>xmalloc\<close> returned. After the rounds the code sets
  \<^verbatim>\<open>err = 0\<close> and falls through to the label \<^verbatim>\<open>out\<close>, which returns -1.
\<close>

definition mtd_torture ::
  "'k kernel \<Rightarrow> mtd_dev_info \<Rightarrow> int \<Rightarrow> byte list \<Rightarrow> 'k st \<Rightarrow> (int \<times> 'k st) option" where
  "mtd_torture K mtd eb buf st = do {
     (_, st') \<leftarrow> torture_rounds K mtd eb torture_patterns buf st;
     Some (- 1, st')
   }"

end
