(* ===== verification/Crc32.thy ===== *)
theory Crc32
  imports Prelude
begin

text \<open>
  The checksum of \<^verbatim>\<open>lib/libcrc32.c\<close>: the table as the source has it, the table-driven routine,
  and the bit-serial reference (one shift of the reflected polynomial 0xEDB88320 per message bit)
  it is an optimisation of.
\<close>

subsection \<open>The table and the routine\<close>

definition crc32_table :: "u32 list" where
  "crc32_table = [
     0x00000000, 0x77073096, 0xee0e612c, 0x990951ba, 0x076dc419, 0x706af48f,
     0xe963a535, 0x9e6495a3, 0x0edb8832, 0x79dcb8a4, 0xe0d5e91e, 0x97d2d988,
     0x09b64c2b, 0x7eb17cbd, 0xe7b82d07, 0x90bf1d91, 0x1db71064, 0x6ab020f2,
     0xf3b97148, 0x84be41de, 0x1adad47d, 0x6ddde4eb, 0xf4d4b551, 0x83d385c7,
     0x136c9856, 0x646ba8c0, 0xfd62f97a, 0x8a65c9ec, 0x14015c4f, 0x63066cd9,
     0xfa0f3d63, 0x8d080df5, 0x3b6e20c8, 0x4c69105e, 0xd56041e4, 0xa2677172,
     0x3c03e4d1, 0x4b04d447, 0xd20d85fd, 0xa50ab56b, 0x35b5a8fa, 0x42b2986c,
     0xdbbbc9d6, 0xacbcf940, 0x32d86ce3, 0x45df5c75, 0xdcd60dcf, 0xabd13d59,
     0x26d930ac, 0x51de003a, 0xc8d75180, 0xbfd06116, 0x21b4f4b5, 0x56b3c423,
     0xcfba9599, 0xb8bda50f, 0x2802b89e, 0x5f058808, 0xc60cd9b2, 0xb10be924,
     0x2f6f7c87, 0x58684c11, 0xc1611dab, 0xb6662d3d, 0x76dc4190, 0x01db7106,
     0x98d220bc, 0xefd5102a, 0x71b18589, 0x06b6b51f, 0x9fbfe4a5, 0xe8b8d433,
     0x7807c9a2, 0x0f00f934, 0x9609a88e, 0xe10e9818, 0x7f6a0dbb, 0x086d3d2d,
     0x91646c97, 0xe6635c01, 0x6b6b51f4, 0x1c6c6162, 0x856530d8, 0xf262004e,
     0x6c0695ed, 0x1b01a57b, 0x8208f4c1, 0xf50fc457, 0x65b0d9c6, 0x12b7e950,
     0x8bbeb8ea, 0xfcb9887c, 0x62dd1ddf, 0x15da2d49, 0x8cd37cf3, 0xfbd44c65,
     0x4db26158, 0x3ab551ce, 0xa3bc0074, 0xd4bb30e2, 0x4adfa541, 0x3dd895d7,
     0xa4d1c46d, 0xd3d6f4fb, 0x4369e96a, 0x346ed9fc, 0xad678846, 0xda60b8d0,
     0x44042d73, 0x33031de5, 0xaa0a4c5f, 0xdd0d7cc9, 0x5005713c, 0x270241aa,
     0xbe0b1010, 0xc90c2086, 0x5768b525, 0x206f85b3, 0xb966d409, 0xce61e49f,
     0x5edef90e, 0x29d9c998, 0xb0d09822, 0xc7d7a8b4, 0x59b33d17, 0x2eb40d81,
     0xb7bd5c3b, 0xc0ba6cad, 0xedb88320, 0x9abfb3b6, 0x03b6e20c, 0x74b1d29a,
     0xead54739, 0x9dd277af, 0x04db2615, 0x73dc1683, 0xe3630b12, 0x94643b84,
     0x0d6d6a3e, 0x7a6a5aa8, 0xe40ecf0b, 0x9309ff9d, 0x0a00ae27, 0x7d079eb1,
     0xf00f9344, 0x8708a3d2, 0x1e01f268, 0x6906c2fe, 0xf762575d, 0x806567cb,
     0x196c3671, 0x6e6b06e7, 0xfed41b76, 0x89d32be0, 0x10da7a5a, 0x67dd4acc,
     0xf9b9df6f, 0x8ebeeff9, 0x17b7be43, 0x60b08ed5, 0xd6d6a3e8, 0xa1d1937e,
     0x38d8c2c4, 0x4fdff252, 0xd1bb67f1, 0xa6bc5767, 0x3fb506dd, 0x48b2364b,
     0xd80d2bda, 0xaf0a1b4c, 0x36034af6, 0x41047a60, 0xdf60efc3, 0xa867df55,
     0x316e8eef, 0x4669be79, 0xcb61b38c, 0xbc66831a, 0x256fd2a0, 0x5268e236,
     0xcc0c7795, 0xbb0b4703, 0x220216b9, 0x5505262f, 0xc5ba3bbe, 0xb2bd0b28,
     0x2bb45a92, 0x5cb36a04, 0xc2d7ffa7, 0xb5d0cf31, 0x2cd99e8b, 0x5bdeae1d,
     0x9b64c2b0, 0xec63f226, 0x756aa39c, 0x026d930a, 0x9c0906a9, 0xeb0e363f,
     0x72076785, 0x05005713, 0x95bf4a82, 0xe2b87a14, 0x7bb12bae, 0x0cb61b38,
     0x92d28e9b, 0xe5d5be0d, 0x7cdcefb7, 0x0bdbdf21, 0x86d3d2d4, 0xf1d4e242,
     0x68ddb3f8, 0x1fda836e, 0x81be16cd, 0xf6b9265b, 0x6fb077e1, 0x18b74777,
     0x88085ae6, 0xff0f6a70, 0x66063bca, 0x11010b5c, 0x8f659eff, 0xf862ae69,
     0x616bffd3, 0x166ccf45, 0xa00ae278, 0xd70dd2ee, 0x4e048354, 0x3903b3c2,
     0xa7672661, 0xd06016f7, 0x4969474d, 0x3e6e77db, 0xaed16a4a, 0xd9d65adc,
     0x40df0b66, 0x37d83bf0, 0xa9bcae53, 0xdebb9ec5, 0x47b2cf7f, 0x30b5ffe9,
     0xbdbdf21c, 0xcabac28a, 0x53b39330, 0x24b4a3a6, 0xbad03605, 0xcdd70693,
     0x54de5729, 0x23d967bf, 0xb3667a2e, 0xc4614ab8, 0x5d681b02, 0x2a6f2b94,
     0xb40bbe37, 0xc30c8ea1, 0x5a05df1b, 0x2d02ef8d]"

text \<open>
  \<^verbatim>\<open>while (--len >= 0) val = crc32_table[(val ^ *s++) & 0xff] ^ (val >> 8)\<close>, over the bytes
  \<^verbatim>\<open>ss[0..len-1]\<close>.
\<close>

fun mtd_crc32 :: "u32 \<Rightarrow> byte list \<Rightarrow> u32" where
  "mtd_crc32 val [] = val"
| "mtd_crc32 val (b # s) =
     mtd_crc32 (crc32_table ! unat ((val XOR ucast b) AND 0xff) XOR drop_bit 8 val) s"

subsection \<open>The bit-serial reference\<close>

definition crc32_bit :: "u32 \<Rightarrow> u32" where
  "crc32_bit c = (if bit c 0 then drop_bit 1 c XOR 0xEDB88320 else drop_bit 1 c)"

definition crc32_byte :: "u32 \<Rightarrow> u32" where
  "crc32_byte c = crc32_bit (crc32_bit (crc32_bit (crc32_bit
     (crc32_bit (crc32_bit (crc32_bit (crc32_bit c)))))))"

fun crc32_ref :: "u32 \<Rightarrow> byte list \<Rightarrow> u32" where
  "crc32_ref val [] = val"
| "crc32_ref val (b # s) = crc32_ref (crc32_byte (val XOR ucast b)) s"

lemma crc32_bit_xor: "crc32_bit (x XOR y) = crc32_bit x XOR crc32_bit y"
  by (rule bit_word_eqI) (auto simp: crc32_bit_def bit_simps)

lemma crc32_byte_xor: "crc32_byte (x XOR y) = crc32_byte x XOR crc32_byte y"
  by (simp add: crc32_byte_def crc32_bit_xor)

lemma crc32_byte_0 [simp]: "crc32_byte 0 = 0"
  by (simp add: crc32_byte_def crc32_bit_def)

subsection \<open>The table holds the reference's results\<close>

text \<open>A table of a linear map doubles: its upper half is the lower half plus a basis value.\<close>

definition dbl :: "u32 \<Rightarrow> u32 list \<Rightarrow> u32 list" where
  "dbl b t = t @ map (\<lambda>x. x XOR b) t"

lemma crc32_basis:
  "crc32_byte 1 = 0x77073096" "crc32_byte 2 = 0xEE0E612C" "crc32_byte 4 = 0x076DC419"
  "crc32_byte 8 = 0x0EDB8832" "crc32_byte 16 = 0x1DB71064" "crc32_byte 32 = 0x3B6E20C8"
  "crc32_byte 64 = 0x76DC4190" "crc32_byte 128 = 0xEDB88320"
  by (simp_all add: crc32_byte_def crc32_bit_def)

lemma crc32_table_dbl:
  "crc32_table = dbl 0xEDB88320 (dbl 0x76DC4190 (dbl 0x3B6E20C8 (dbl 0x1DB71064
     (dbl 0x0EDB8832 (dbl 0x076DC419 (dbl 0xEE0E612C (dbl 0x77073096 [0])))))))"
  by (simp add: crc32_table_def dbl_def)

lemma word_of_nat_add_pow2:
  assumes "i < 2 ^ k"
  shows "(word_of_nat (2 ^ k + i) :: u32) = word_of_nat i XOR word_of_nat (2 ^ k)"
proof -
  have "2 ^ k + i = i XOR 2 ^ k"
    by (rule bit_eqI)
      (metis assms bit_eq_iff disjunctive_add_eq_xor add.commute take_bit_nat_eq_self
        and_exp_eq_0_iff_not_bit bit_take_bit_iff less_irrefl)
  then show ?thesis
    by (simp add: of_nat_xor_eq)
qed

lemma dbl_map:
  assumes "\<And>i. i < 2 ^ k \<Longrightarrow> f (2 ^ k + i) = f i XOR b"
  shows "dbl b (map f [0..<2 ^ k]) = map f [0..<2 ^ Suc k]"
proof -
  have "[0..<2 ^ Suc k] = [0..<2 ^ k] @ [2 ^ k..<2 ^ k + 2 ^ k]"
    using upt_add_eq_append [of 0 "2 ^ k" "2 ^ k"] by (simp add: mult_2)
  moreover have "[2 ^ k..<2 ^ k + 2 ^ k] = map (\<lambda>i. i + 2 ^ k) [0..<2 ^ k]"
    by (simp add: map_add_upt)
  ultimately show ?thesis
    using assms by (simp add: dbl_def add.commute)
qed

lemma dbl_crc32_byte:
  "crc32_byte (word_of_nat (2 ^ k)) = b \<Longrightarrow>
   dbl b (map (\<lambda>i. crc32_byte (word_of_nat i)) [0..<2 ^ k]) =
   map (\<lambda>i. crc32_byte (word_of_nat i)) [0..<2 ^ Suc k]"
  by (rule dbl_map) (simp only: word_of_nat_add_pow2 crc32_byte_xor)

lemma crc32_table_byte: "crc32_table = map (\<lambda>i. crc32_byte (word_of_nat i)) [0..<256]"
proof -
  note step = dbl_crc32_byte [symmetric]
  have "[0] = map (\<lambda>i. crc32_byte (word_of_nat i)) [0..<2 ^ 0]"
    by simp
  moreover have "map (\<lambda>i. crc32_byte (word_of_nat i)) [0..<256] =
      map (\<lambda>i. crc32_byte (word_of_nat i)) [0..<2 ^ 8]"
    by simp
  ultimately show ?thesis
    unfolding crc32_table_dbl
    using step [of 0 "0x77073096"] step [of 1 "0xEE0E612C"] step [of 2 "0x076DC419"]
      step [of 3 "0x0EDB8832"] step [of 4 "0x1DB71064"] step [of 5 "0x3B6E20C8"]
      step [of 6 "0x76DC4190"] step [of 7 "0xEDB88320"]
    by (simp add: crc32_basis numeral_eq_Suc del: upt_Suc)
qed

lemma crc32_table_nth: "i < 256 \<Longrightarrow> crc32_table ! i = crc32_byte (word_of_nat i)"
  by (simp add: crc32_table_byte)

subsection \<open>The table-driven step is eight bit steps\<close>

lemma crc32_byte_low_clear:
  assumes "\<And>n. n < 8 \<Longrightarrow> \<not> bit y n"
  shows "crc32_byte y = drop_bit 8 y"
proof -
  have shift: "crc32_bit (drop_bit n y) = drop_bit (Suc n) y" if "n < 8" for n
    using assms [OF that] by (simp add: crc32_bit_def bit_drop_bit_eq)
  from shift [of 0] have "crc32_bit y = drop_bit 1 y" by simp
  then show ?thesis
    using shift [of 1] shift [of 2] shift [of 3] shift [of 4] shift [of 5] shift [of 6] shift [of 7]
    by (simp add: crc32_byte_def numeral_eq_Suc)
qed

lemma crc32_split_low: "(x :: u32) = (x AND 0xff) XOR (x AND NOT 0xff)"
  by (rule bit_word_eqI) (auto simp: bit_simps)

lemma and_ff_mask: "(0xff :: u32) = mask 8"
  by (simp add: mask_eq_exp_minus_1)

lemma crc32_table_index:
  "crc32_table ! unat ((x :: u32) AND 0xff) = crc32_byte (x AND 0xff)"
proof -
  have "unat (x AND 0xff) < 256"
    using word_and_le1 [of x "0xff"] by (simp add: word_le_nat_alt)
  then show ?thesis
    by (simp add: crc32_table_nth)
qed

lemma crc32_step:
  "crc32_table ! unat ((val XOR ucast b) AND 0xff) XOR drop_bit 8 val =
   crc32_byte (val XOR ucast (b :: byte))"
proof -
  let ?x = "val XOR ucast b"
  have "crc32_byte ?x = crc32_byte (?x AND 0xff) XOR crc32_byte (?x AND NOT 0xff)"
    by (subst crc32_split_low) (simp add: crc32_byte_xor)
  also have "crc32_byte (?x AND NOT 0xff) = drop_bit 8 (?x AND NOT 0xff)"
    by (rule crc32_byte_low_clear) (simp add: bit_simps and_ff_mask)
  also have "drop_bit 8 (?x AND NOT 0xff) = drop_bit 8 val"
    by (rule bit_word_eqI) (auto simp: bit_simps and_ff_mask dest: bit_imp_le_length)
  finally show ?thesis
    by (simp only: crc32_table_index)
qed

lemma mtd_crc32_ref_aux: "mtd_crc32 val s = crc32_ref val s"
  by (induction s arbitrary: val) (simp_all add: crc32_step)

lemma mtd_crc32_append: "mtd_crc32 val (s @ t) = mtd_crc32 (mtd_crc32 val s) t"
  by (induction s arbitrary: val) simp_all

subsection \<open>What the checksum detects\<close>

lemma crc32_bit_inj: "crc32_bit x = crc32_bit y \<Longrightarrow> x = y"
proof -
  assume eq: "crc32_bit x = crc32_bit y"
  have top: "bit (crc32_bit c) 31 = bit c 0" for c
    by (auto simp: crc32_bit_def bit_simps dest: bit_imp_le_length)
  from eq have low: "bit x 0 = bit y 0"
    by (metis top)
  with eq have drop: "drop_bit 1 x = drop_bit 1 y"
    by (auto simp: crc32_bit_def split: if_splits)
  from drop have high: "bit x (Suc n) = bit y (Suc n)" for n
    by (metis bit_drop_bit_eq comp_apply plus_1_eq_Suc)
  have "bit x n = bit y n" for n
    by (cases n) (simp_all add: low high)
  then show "x = y"
    by (simp add: bit_eq_iff)
qed

lemma crc32_byte_inj: "crc32_byte x = crc32_byte y \<Longrightarrow> x = y"
  unfolding crc32_byte_def by (drule crc32_bit_inj)+

lemma crc32_ref_inj: "crc32_ref v s = crc32_ref w s \<Longrightarrow> v = w"
proof (induction s arbitrary: v w)
  case (Cons b s)
  from Cons.prems have "crc32_byte (v XOR ucast b) = crc32_byte (w XOR ucast b)"
    by (auto dest: Cons.IH)
  then have "v XOR ucast b = w XOR ucast b"
    by (rule crc32_byte_inj)
  then show ?case by simp
qed simp

lemma crc32_byte_push:
  assumes "\<And>n. 24 \<le> n \<Longrightarrow> \<not> bit z n"
  shows "crc32_byte (push_bit 8 z) = (z :: u32)"
proof -
  have "drop_bit 8 (push_bit 8 z) = z"
    by (rule bit_word_eqI) (use assms in \<open>auto simp: bit_simps not_less [symmetric]\<close>)
  then show ?thesis
    by (subst crc32_byte_low_clear) (auto simp: bit_simps)
qed

lemma le_word_high: "8 * length xs \<le> n \<Longrightarrow> \<not> bit (le_word xs :: u32) n"
  by (induction xs arbitrary: n) (auto simp: bit_simps dest: bit_imp_le_length)

lemma le_word_high3: "length xs \<le> 3 \<Longrightarrow> 24 \<le> n \<Longrightarrow> \<not> bit (le_word xs :: u32) n"
  by (rule le_word_high) simp

lemma crc32_ref_short:
  "length xs \<le> 4 \<Longrightarrow> crc32_ref v xs = (crc32_byte ^^ length xs) (v XOR le_word xs)"
proof (induction xs arbitrary: v)
  case Nil
  then show ?case by simp
next
  case (Cons b xs)
  have rest: "le_word xs = crc32_byte (push_bit 8 (le_word xs))"
    using Cons.prems crc32_byte_push [of "le_word xs"] le_word_high3 [of xs] by simp
  have join: "le_word (b # xs) = (ucast b :: u32) XOR push_bit 8 (le_word xs)"
    by (rule bit_word_eqI) (auto simp: bit_simps dest: bit_imp_le_length)
  have "crc32_ref v (b # xs) =
      (crc32_byte ^^ length xs) (crc32_byte (v XOR ucast b) XOR le_word xs)"
    using Cons by simp
  also have "\<dots> = (crc32_byte ^^ length xs) (crc32_byte (v XOR le_word (b # xs)))"
    by (subst rest) (simp only: crc32_byte_xor [symmetric] join xor.assoc)
  finally show ?case
    by (simp add: funpow_swap1)
qed

lemma crc32_funpow_inj: "(crc32_byte ^^ n) x = (crc32_byte ^^ n) y \<Longrightarrow> x = y"
  by (induction n) (auto dest: crc32_byte_inj)

lemma le_bytes_le_word:
  "length xs \<le> 4 \<Longrightarrow> le_bytes (length xs) (le_word xs :: u32) = xs"
proof (induction xs)
  case (Cons b xs)
  have "\<not> bit (le_word xs :: u32) n" if "24 \<le> n" for n
    using that Cons.prems by (intro le_word_high3) auto
  then have "drop_bit 8 (le_word (b # xs) :: u32) = le_word xs"
    by (intro bit_word_eqI)
      (auto simp: bit_simps not_less [symmetric] dest: bit_imp_le_length)
  moreover have "ucast (le_word (b # xs) :: u32) = b"
    by (rule bit_word_eqI) (auto simp: bit_simps dest: bit_imp_le_length)
  ultimately show ?case
    using Cons by simp
qed simp

lemma crc32_ref_window_inj:
  assumes "crc32_ref v x = crc32_ref v y" and "length x = length y" and "length x \<le> 4"
  shows "x = y"
proof -
  have "(crc32_byte ^^ length x) (v XOR le_word x) = (crc32_byte ^^ length x) (v XOR le_word y)"
    using assms by (simp add: crc32_ref_short)
  then have "v XOR le_word x = v XOR (le_word y :: u32)"
    by (rule crc32_funpow_inj)
  then have eq: "(le_word x :: u32) = le_word y"
    by simp
  have "x = le_bytes (length x) (le_word x :: u32)"
    using assms(3) by (rule le_bytes_le_word [symmetric])
  also have "\<dots> = le_bytes (length y) (le_word y :: u32)"
    by (simp only: assms(2) eq)
  also have "\<dots> = y"
    using assms(2,3) by (intro le_bytes_le_word) simp
  finally show ?thesis .
qed

lemma mtd_crc32_window_aux:
  assumes "mtd_crc32 v (p @ x @ s) = mtd_crc32 v (p @ y @ s)"
    and "length x = length y" and "length x \<le> 4"
  shows "x = y"
proof -
  have "crc32_ref (mtd_crc32 (mtd_crc32 v p) x) s = crc32_ref (mtd_crc32 (mtd_crc32 v p) y) s"
    using assms(1) by (simp only: mtd_crc32_append mtd_crc32_ref_aux [symmetric])
  then have "mtd_crc32 (mtd_crc32 v p) x = mtd_crc32 (mtd_crc32 v p) y"
    by (rule crc32_ref_inj)
  then show ?thesis
    using assms(2,3) crc32_ref_window_inj by (simp add: mtd_crc32_ref_aux)
qed

subsection \<open>What a stored checksum is good for\<close>

text \<open>
  The interface the users of a checksum rely on: it runs over a message piece by piece, and a
  change of up to four adjacent bytes shows.
\<close>

locale checksum =
  fixes crc :: "u32 \<Rightarrow> byte list \<Rightarrow> u32"
  assumes crc_append: "crc v (s @ t) = crc (crc v s) t"
    and crc_window: "crc v (p @ x @ s) = crc v (p @ y @ s) \<Longrightarrow> length x = length y \<Longrightarrow> length x \<le> 4 \<Longrightarrow> x = y"
begin

lemma damage_shows:
  assumes "crc v (p @ x @ s) = c" "length x = length y" "length x \<le> 4" "x \<noteq> y"
  shows "crc v (p @ y @ s) \<noteq> c"
  using assms crc_window by metis

lemma prefix_state: "crc v (p @ x) = crc v (q @ x)" if "crc v p = crc v q"
  using that by (simp add: crc_append)

text \<open>Damage within the first \<open>n\<close> bytes of a longer buffer, the checksum being taken over those.\<close>

lemma damage_in_prefix:
  assumes "crc v (take n (p @ x @ s)) = c" "length x = length y" "length x \<le> 4" "x \<noteq> y"
    and "length p + length x \<le> n"
  shows "crc v (take n (p @ y @ s)) \<noteq> c"
proof -
  have tk: "take n (p @ z @ s) = p @ z @ take (n - length p - length x) s" if "length z = length x" for z
    using assms(5) that by simp
  have "crc v (p @ x @ take (n - length p - length x) s) = c"
    using assms(1) by (simp only: tk [OF refl])
  then show ?thesis
    unfolding tk [OF assms(2) [symmetric]] by (rule damage_shows [OF _ assms(2-4)])
qed

end

interpretation mtd: checksum mtd_crc32
  by unfold_locales (rule mtd_crc32_append, rule mtd_crc32_window_aux)

text \<open>
  Property C14. The table-driven checksum of \<^verbatim>\<open>lib/libcrc32.c\<close> is the bit-serial CRC-32 of the
  reflected polynomial 0xEDB88320, for every start value and every message.
\<close>

theorem mtd_crc32_is_bit_serial: "mtd_crc32 val s = crc32_ref val s"
  by (rule mtd_crc32_ref_aux)

text \<open>
  A message in which up to four adjacent bytes were replaced by others of the same
  number has another checksum.
\<close>

theorem mtd_crc32_detects_window:
  assumes "length x = length y" "length x \<le> 4" "x \<noteq> y"
  shows "mtd_crc32 v (p @ x @ s) \<noteq> mtd_crc32 v (p @ y @ s)"
  using assms mtd.damage_shows by metis

theorem mtd_crc32_detects_window_witness:
  "mtd_crc32 0 ([1, 2] @ [3, 4, 5, 6] @ [7]) \<noteq> mtd_crc32 0 ([1, 2] @ [3, 4, 6, 5] @ [7])"
  by (rule mtd_crc32_detects_window) simp_all

end
