(* ===== verification/UbiMedia.thy ===== *)
theory UbiMedia
  imports Prelude
begin

text \<open>
  The on-flash structures of UBI (\<^verbatim>\<open>include/mtd/ubi-media.h\<close>) and the byte swaps that store them
  big-endian (\<^verbatim>\<open>include/mtd_swab.h\<close>). A structure is a record whose multi-byte fields hold the raw
  memory value, as the code's \<^verbatim>\<open>__be32\<close> fields do; its memory image is the little-endian image
  of the fields in order.
\<close>

subsection \<open>Byte swaps\<close>

definition swab16 :: "u16 \<Rightarrow> u16" where
  "swab16 x = push_bit 8 (x AND 0x00ff) OR drop_bit 8 (x AND 0xff00)"

definition swab32 :: "u32 \<Rightarrow> u32" where
  "swab32 x = push_bit 24 (x AND 0x000000ff) OR push_bit 8 (x AND 0x0000ff00)
     OR drop_bit 8 (x AND 0x00ff0000) OR drop_bit 24 (x AND 0xff000000)"

definition swab64 :: "u64 \<Rightarrow> u64" where
  "swab64 x = push_bit 56 (x AND 0x00000000000000ff) OR push_bit 40 (x AND 0x000000000000ff00)
     OR push_bit 24 (x AND 0x0000000000ff0000) OR push_bit 8 (x AND 0x00000000ff000000)
     OR drop_bit 8 (x AND 0x000000ff00000000) OR drop_bit 24 (x AND 0x0000ff0000000000)
     OR drop_bit 40 (x AND 0x00ff000000000000) OR drop_bit 56 (x AND 0xff00000000000000)"

text \<open>On the little-endian targets \<^verbatim>\<open>cpu_to_beN\<close> and \<^verbatim>\<open>beN_to_cpu\<close> are the swaps.\<close>

abbreviation cpu_to_be16 :: "u16 \<Rightarrow> u16" where "cpu_to_be16 \<equiv> swab16"
abbreviation cpu_to_be32 :: "u32 \<Rightarrow> u32" where "cpu_to_be32 \<equiv> swab32"
abbreviation cpu_to_be64 :: "u64 \<Rightarrow> u64" where "cpu_to_be64 \<equiv> swab64"
abbreviation be32_to_cpu :: "u32 \<Rightarrow> u32" where "be32_to_cpu \<equiv> swab32"
abbreviation be64_to_cpu :: "u64 \<Rightarrow> u64" where "be64_to_cpu \<equiv> swab64"

lemma swab_masks_16: "(0x00ff :: u16) = mask 8" "(0xff00 :: u16) = push_bit 8 (mask 8)"
  by (simp_all add: mask_eq_exp_minus_1 push_bit_eq_mult)

lemma swab_masks_32:
  "(0x000000ff :: u32) = mask 8" "(0x0000ff00 :: u32) = push_bit 8 (mask 8)"
  "(0x00ff0000 :: u32) = push_bit 16 (mask 8)" "(0xff000000 :: u32) = push_bit 24 (mask 8)"
  by (simp_all add: mask_eq_exp_minus_1 push_bit_eq_mult)

lemma swab_masks_64:
  "(0x00000000000000ff :: u64) = mask 8" "(0x000000000000ff00 :: u64) = push_bit 8 (mask 8)"
  "(0x0000000000ff0000 :: u64) = push_bit 16 (mask 8)" "(0x00000000ff000000 :: u64) = push_bit 24 (mask 8)"
  "(0x000000ff00000000 :: u64) = push_bit 32 (mask 8)" "(0x0000ff0000000000 :: u64) = push_bit 40 (mask 8)"
  "(0x00ff000000000000 :: u64) = push_bit 48 (mask 8)" "(0xff00000000000000 :: u64) = push_bit 56 (mask 8)"
  by (simp_all add: mask_eq_exp_minus_1 push_bit_eq_mult)

lemma bit_swab32:
  "bit (swab32 x) n \<longleftrightarrow>
     (if n < 8 then bit x (n + 24) else if n < 16 then bit x (n + 8)
      else if n < 24 then bit x (n - 8) else n < 32 \<and> bit x (n - 24))"
  unfolding swab32_def swab_masks_32
  by (auto simp: bit_simps add.commute dest: bit_imp_le_length)

lemma byte_cases:
  fixes n :: nat
  obtains (b0) "n < 8" | (b1) "8 \<le> n" "n < 16" | (b2) "16 \<le> n" "n < 24" | (b3) "24 \<le> n" "n < 32"
  | (b4) "32 \<le> n" "n < 40" | (b5) "40 \<le> n" "n < 48" | (b6) "48 \<le> n" "n < 56" | (b7) "56 \<le> n"
  by linarith

lemma bit_swab64:
  "bit (swab64 x) n \<longleftrightarrow>
     (if n < 8 then bit x (n + 56) else if n < 16 then bit x (n + 40)
      else if n < 24 then bit x (n + 24) else if n < 32 then bit x (n + 8)
      else if n < 40 then bit x (n - 8) else if n < 48 then bit x (n - 24)
      else if n < 56 then bit x (n - 40) else n < 64 \<and> bit x (n - 56))"
  unfolding swab64_def swab_masks_64
  by (cases n rule: byte_cases) (simp_all add: bit_simps add.commute, auto dest: bit_imp_le_length)

lemma swab32_swab32 [simp]: "swab32 (swab32 x) = x"
proof (rule bit_word_eqI)
  fix n
  assume "n < LENGTH(32)"
  then show "bit (swab32 (swab32 x)) n = bit x n"
    by (cases n rule: byte_cases) (simp_all add: bit_swab32, auto)
qed

lemma swab64_swab64 [simp]: "swab64 (swab64 x) = x"
proof (rule bit_word_eqI)
  fix n
  assume "n < LENGTH(64)"
  then show "bit (swab64 (swab64 x)) n = bit x n"
    by (cases n rule: byte_cases) (simp_all add: bit_swab64, auto)
qed

lemma swab32_inject [simp]: "swab32 x = swab32 y \<longleftrightarrow> x = y"
  by (metis swab32_swab32)

lemma swab64_inject [simp]: "swab64 x = swab64 y \<longleftrightarrow> x = y"
  by (metis swab64_swab64)

text \<open>A swapped integer in little-endian memory is the big-endian byte sequence.\<close>

lemma le_bytes_swab32_aux: "le_bytes 4 (swab32 x) = rev (le_bytes 4 x)"
proof -
  have "ucast (drop_bit k (swab32 x)) = (ucast (drop_bit (24 - k) x) :: byte)"
    if "k = 0 \<or> k = 8 \<or> k = 16 \<or> k = 24" for k
    using that by (auto intro!: bit_word_eqI simp: bit_simps bit_swab32 add.commute)
  from this [of 0] this [of 8] this [of 16] this [of 24] show ?thesis
    by (simp add: numeral_eq_Suc)
qed

subsection \<open>Constants\<close>

definition UBI_EC_HDR_MAGIC :: u32 where "UBI_EC_HDR_MAGIC = 0x55424923"
definition UBI_VID_HDR_MAGIC :: u32 where "UBI_VID_HDR_MAGIC = 0x55424921"
definition UBI_CRC32_INIT :: u32 where "UBI_CRC32_INIT = 0xFFFFFFFF"
definition UBI_VID_DYNAMIC :: int where "UBI_VID_DYNAMIC = 1"
definition UBI_VID_STATIC :: int where "UBI_VID_STATIC = 2"
definition UBI_LAYOUT_VOLUME_ID :: int where "UBI_LAYOUT_VOLUME_ID = 0x7FFFFFFF - 4096"
definition UBI_COMPAT_REJECT :: int where "UBI_COMPAT_REJECT = 5"
definition UBI_MAX_VOLUMES :: int where "UBI_MAX_VOLUMES = 128"

subsection \<open>Headers\<close>

record ubi_ec_hdr =
  ech_magic :: u32
  ech_version :: byte
  ech_padding1 :: "byte list"
  ech_ec :: u64
  ech_vid_hdr_offset :: u32
  ech_data_offset :: u32
  ech_image_seq :: u32
  ech_padding2 :: "byte list"
  ech_hdr_crc :: u32

record ubi_vid_hdr =
  vid_magic :: u32
  vid_version :: byte
  vid_vol_type :: byte
  vid_copy_flag :: byte
  vid_compat :: byte
  vid_vol_id :: u32
  vid_lnum :: u32
  vid_leb_ver :: u32
  vid_data_size :: u32
  vid_used_ebs :: u32
  vid_data_pad :: u32
  vid_data_crc :: u32
  vid_padding2 :: "byte list"
  vid_sqnum :: u64
  vid_padding3 :: "byte list"
  vid_hdr_crc :: u32

record ubi_vtbl_record =
  vtbl_reserved_pebs :: u32
  vtbl_alignment :: u32
  vtbl_data_pad :: u32
  vtbl_vol_type :: byte
  vtbl_upd_marker :: byte
  vtbl_name_len :: u16
  vtbl_name :: "byte list"
  vtbl_flags :: byte
  vtbl_padding :: "byte list"
  vtbl_crc :: u32

text \<open>The lengths of the byte arrays inside the structures.\<close>

definition wf_ec_hdr :: "ubi_ec_hdr \<Rightarrow> bool" where
  "wf_ec_hdr h \<longleftrightarrow> length (ech_padding1 h) = 3 \<and> length (ech_padding2 h) = 32"

definition wf_vid_hdr :: "ubi_vid_hdr \<Rightarrow> bool" where
  "wf_vid_hdr h \<longleftrightarrow> length (vid_padding2 h) = 4 \<and> length (vid_padding3 h) = 12"

definition wf_vtbl_record :: "ubi_vtbl_record \<Rightarrow> bool" where
  "wf_vtbl_record r \<longleftrightarrow> length (vtbl_name r) = 128 \<and> length (vtbl_padding r) = 23"

text \<open>
  The memory images, first without the closing checksum field (what the checksum is computed
  over), then whole.
\<close>

definition ec_hdr_body :: "ubi_ec_hdr \<Rightarrow> byte list" where
  "ec_hdr_body h = le_bytes 4 (ech_magic h) @ [ech_version h] @ ech_padding1 h @ le_bytes 8 (ech_ec h)
     @ le_bytes 4 (ech_vid_hdr_offset h) @ le_bytes 4 (ech_data_offset h)
     @ le_bytes 4 (ech_image_seq h) @ ech_padding2 h"

definition ec_hdr_bytes :: "ubi_ec_hdr \<Rightarrow> byte list" where
  "ec_hdr_bytes h = ec_hdr_body h @ le_bytes 4 (ech_hdr_crc h)"

definition vid_hdr_body :: "ubi_vid_hdr \<Rightarrow> byte list" where
  "vid_hdr_body h = le_bytes 4 (vid_magic h)
     @ [vid_version h, vid_vol_type h, vid_copy_flag h, vid_compat h]
     @ le_bytes 4 (vid_vol_id h) @ le_bytes 4 (vid_lnum h) @ le_bytes 4 (vid_leb_ver h)
     @ le_bytes 4 (vid_data_size h) @ le_bytes 4 (vid_used_ebs h) @ le_bytes 4 (vid_data_pad h)
     @ le_bytes 4 (vid_data_crc h) @ vid_padding2 h @ le_bytes 8 (vid_sqnum h) @ vid_padding3 h"

definition vid_hdr_bytes :: "ubi_vid_hdr \<Rightarrow> byte list" where
  "vid_hdr_bytes h = vid_hdr_body h @ le_bytes 4 (vid_hdr_crc h)"

definition vtbl_body :: "ubi_vtbl_record \<Rightarrow> byte list" where
  "vtbl_body r = le_bytes 4 (vtbl_reserved_pebs r) @ le_bytes 4 (vtbl_alignment r)
     @ le_bytes 4 (vtbl_data_pad r) @ [vtbl_vol_type r, vtbl_upd_marker r]
     @ le_bytes 2 (vtbl_name_len r) @ vtbl_name r @ [vtbl_flags r] @ vtbl_padding r"

definition vtbl_bytes :: "ubi_vtbl_record \<Rightarrow> byte list" where
  "vtbl_bytes r = vtbl_body r @ le_bytes 4 (vtbl_crc r)"

text \<open>The structure a memory area is read as (a cast of the buffer pointer).\<close>

definition ec_hdr_of_bytes :: "byte list \<Rightarrow> ubi_ec_hdr" where
  "ec_hdr_of_bytes b = \<lparr>
     ech_magic = le_word (take 4 b), ech_version = b ! 4, ech_padding1 = take 3 (drop 5 b),
     ech_ec = le_word (take 8 (drop 8 b)), ech_vid_hdr_offset = le_word (take 4 (drop 16 b)),
     ech_data_offset = le_word (take 4 (drop 20 b)), ech_image_seq = le_word (take 4 (drop 24 b)),
     ech_padding2 = take 32 (drop 28 b), ech_hdr_crc = le_word (take 4 (drop 60 b)) \<rparr>"

text \<open>\<^verbatim>\<open>memset(hdr, 0, sizeof(...))\<close>.\<close>

definition zero_ec_hdr :: ubi_ec_hdr where
  "zero_ec_hdr = \<lparr> ech_magic = 0, ech_version = 0, ech_padding1 = replicate 3 0, ech_ec = 0,
     ech_vid_hdr_offset = 0, ech_data_offset = 0, ech_image_seq = 0,
     ech_padding2 = replicate 32 0, ech_hdr_crc = 0 \<rparr>"

definition zero_vid_hdr :: ubi_vid_hdr where
  "zero_vid_hdr = \<lparr> vid_magic = 0, vid_version = 0, vid_vol_type = 0, vid_copy_flag = 0,
     vid_compat = 0, vid_vol_id = 0, vid_lnum = 0, vid_leb_ver = 0, vid_data_size = 0,
     vid_used_ebs = 0, vid_data_pad = 0, vid_data_crc = 0, vid_padding2 = replicate 4 0,
     vid_sqnum = 0, vid_padding3 = replicate 12 0, vid_hdr_crc = 0 \<rparr>"

definition zero_vtbl_record :: ubi_vtbl_record where
  "zero_vtbl_record = \<lparr> vtbl_reserved_pebs = 0, vtbl_alignment = 0, vtbl_data_pad = 0,
     vtbl_vol_type = 0, vtbl_upd_marker = 0, vtbl_name_len = 0, vtbl_name = replicate 128 0,
     vtbl_flags = 0, vtbl_padding = replicate 23 0, vtbl_crc = 0 \<rparr>"

lemma wf_zero [simp, wf_intros]:
  "wf_ec_hdr zero_ec_hdr" "wf_vid_hdr zero_vid_hdr" "wf_vtbl_record zero_vtbl_record"
  by (simp_all add: wf_ec_hdr_def zero_ec_hdr_def wf_vid_hdr_def zero_vid_hdr_def
      wf_vtbl_record_def zero_vtbl_record_def)

lemma length_ec_hdr [simp]:
  "wf_ec_hdr h \<Longrightarrow> length (ec_hdr_body h) = 60" "wf_ec_hdr h \<Longrightarrow> length (ec_hdr_bytes h) = 64"
  by (simp_all add: wf_ec_hdr_def ec_hdr_body_def ec_hdr_bytes_def)

lemma length_vid_hdr [simp]:
  "wf_vid_hdr h \<Longrightarrow> length (vid_hdr_body h) = 60" "wf_vid_hdr h \<Longrightarrow> length (vid_hdr_bytes h) = 64"
  by (simp_all add: wf_vid_hdr_def vid_hdr_body_def vid_hdr_bytes_def)

lemma length_vtbl [simp]:
  "wf_vtbl_record r \<Longrightarrow> length (vtbl_body r) = 168" "wf_vtbl_record r \<Longrightarrow> length (vtbl_bytes r) = 172"
  by (simp_all add: wf_vtbl_record_def vtbl_body_def vtbl_bytes_def)

lemma wf_ec_hdr_of_bytes [simp]: "64 \<le> length b \<Longrightarrow> wf_ec_hdr (ec_hdr_of_bytes b)"
  by (simp add: wf_ec_hdr_def ec_hdr_of_bytes_def)

lemma ec_hdr_of_bytes_ec_hdr_bytes:
  assumes "wf_ec_hdr h"
  shows "ec_hdr_of_bytes (ec_hdr_bytes h @ rest) = h"
proof -
  obtain p1 p2 p3 where p: "ech_padding1 h = [p1, p2, p3]"
    using assms by (auto simp: wf_ec_hdr_def numeral_eq_Suc length_Suc_conv)
  have q: "length (ech_padding2 h) = 32"
    using assms by (simp add: wf_ec_hdr_def)
  show ?thesis
    unfolding ec_hdr_of_bytes_def ec_hdr_bytes_def ec_hdr_body_def p
    by (rule ubi_ec_hdr.equality) (simp_all add: q p nth_append)
qed

text \<open>Any 64 bytes are the image of the header they are read as.\<close>

lemma ec_hdr_bytes_of_bytes:
  assumes "64 \<le> length b"
  shows "ec_hdr_body (ec_hdr_of_bytes b) = take 60 b"
    "ec_hdr_bytes (ec_hdr_of_bytes b) = take 64 b"
proof -
  have one: "[b ! 4] = take 1 (drop 4 b)"
    using assms by (simp add: take_Suc_conv_app_nth [of 0, simplified] hd_drop_conv_nth take_Suc)
  show "ec_hdr_body (ec_hdr_of_bytes b) = take 60 b"
    using assms le_bytes_chunk [where 'a = 32, of 4 0] le_bytes_chunk [where 'a = 32, of 4 16] le_bytes_chunk [where 'a = 32, of 4 20]
      le_bytes_chunk [where 'a = 32, of 4 24] le_bytes_chunk [where 'a = 64, of 8 8]
      take_chunk [of 0 4 4 b 56] take_chunk [of 4 1 5 b 55] take_chunk [of 5 3 8 b 52]
      take_chunk [of 8 8 16 b 44] take_chunk [of 16 4 20 b 40] take_chunk [of 20 4 24 b 36]
      take_chunk [of 24 4 28 b 32]
    by (simp only: ec_hdr_body_def ec_hdr_of_bytes_def ubi_ec_hdr.simps one drop_0 append_assoc) simp
  then show "ec_hdr_bytes (ec_hdr_of_bytes b) = take 64 b"
    using assms le_bytes_chunk [where 'a = 32, of 4 60] take_chunk [of 0 60 60 b 4]
    by (simp only: ec_hdr_bytes_def ec_hdr_of_bytes_def ubi_ec_hdr.simps) simp
qed

subsection \<open>Interfaces\<close>

text \<open>A conversion between the byte orders is its own inverse, so no value is lost.\<close>

locale byte_order =
  fixes swap :: "'a::len word \<Rightarrow> 'a word"
  assumes swap_swap: "swap (swap x) = x"
begin

lemma swap_eq_iff: "swap x = swap y \<longleftrightarrow> x = y"
  by (metis swap_swap)

lemma swap_eq_swap: "swap x = y \<longleftrightarrow> x = swap y"
  by (metis swap_swap)

lemma bij_swap: "bij swap"
  by (rule involuntory_imp_bij) (simp add: swap_swap)

end

interpretation be32: byte_order swab32
  by unfold_locales simp

interpretation be64: byte_order swab64
  by unfold_locales simp

text \<open>A structure read back from the bytes it was written as, whatever follows them.\<close>

locale codec =
  fixes wf :: "'h \<Rightarrow> bool" and enc :: "'h \<Rightarrow> byte list" and dec :: "byte list \<Rightarrow> 'h" and size :: nat
  assumes dec_enc: "wf h \<Longrightarrow> dec (enc h @ rest) = h"
    and length_enc: "wf h \<Longrightarrow> length (enc h) = size"
    and wf_dec: "size \<le> length b \<Longrightarrow> wf (dec b)"
    and enc_dec: "size \<le> length b \<Longrightarrow> enc (dec b) = take size b"
begin

lemma enc_inject: "wf h \<Longrightarrow> wf h' \<Longrightarrow> enc h = enc h' \<longleftrightarrow> h = h'"
  by (metis append_Nil2 dec_enc)

lemma dec_store: "wf h \<Longrightarrow> size \<le> length b \<Longrightarrow> dec (store_at 0 (enc h) b) = h"
  by (simp add: store_at_def dec_enc)

lemma dec_take: "size \<le> length b \<Longrightarrow> dec (take size b) = dec b"
  by (metis append_Nil2 append_take_drop_id dec_enc enc_dec wf_dec)

end

interpretation ech: codec wf_ec_hdr ec_hdr_bytes ec_hdr_of_bytes 64
  by unfold_locales (simp_all add: ec_hdr_of_bytes_ec_hdr_bytes ec_hdr_bytes_of_bytes)

text \<open>
  A multi-byte header field is stored big-endian: the memory image of the converted
  value is the reversed image of the value, and converting again gives the value back.
\<close>

theorem big_endian_fields:
  "le_bytes 4 (cpu_to_be32 x) = rev (le_bytes 4 x) \<and> be32_to_cpu (cpu_to_be32 x) = x
   \<and> be64_to_cpu (cpu_to_be64 y) = y"
  by (simp add: le_bytes_swab32_aux)

text \<open>
  The 64 bytes of an EC header and the header determine each other: reading what was
  written gives the header, whatever follows it, and writing what was read gives the bytes.
\<close>

theorem ec_hdr_roundtrip:
  assumes "wf_ec_hdr h" "64 \<le> length b"
  shows "ec_hdr_of_bytes (ec_hdr_bytes h @ rest) = h \<and> length (ec_hdr_bytes h) = 64
    \<and> ec_hdr_bytes (ec_hdr_of_bytes b) = take 64 b"
  using assms ech.dec_enc ech.enc_dec by simp

theorem ec_hdr_roundtrip_witness:
  "ec_hdr_of_bytes (ec_hdr_bytes zero_ec_hdr @ [1]) = zero_ec_hdr \<and> length (ec_hdr_bytes zero_ec_hdr) = 64
    \<and> ec_hdr_bytes (ec_hdr_of_bytes (replicate 70 (7 :: byte))) = take 64 (replicate 70 7)"
  by (rule ec_hdr_roundtrip) simp_all

end
