(* ===== verification/Libubigen.thy ===== *)
theory Libubigen
  imports Libmtd Crc32 UbiMedia
begin

text \<open>
  \<^verbatim>\<open>libubigen.c\<close>: the geometry of an UBI device, the EC and VID headers, the volume table and its
  layout volume. Sizes are C \<^verbatim>\<open>int\<close>s; \<^verbatim>\<open>sizeof\<close> is unsigned, so the mixed expressions of the
  code are converted as C converts them.
\<close>

subsection \<open>Geometry\<close>

record ubigen_info =
  ui_leb_size :: int
  ui_peb_size :: int
  ui_min_io_size :: int
  ui_vid_hdr_offs :: int
  ui_data_offs :: int
  ui_ubi_ver :: int
  ui_vtbl_size :: int
  ui_max_volumes :: int
  ui_image_seq :: u32

record ubigen_vol_info =
  vi_id :: int
  vi_type :: int
  vi_alignment :: int
  vi_data_pad :: int
  vi_usable_leb_size :: int
  vi_name :: "byte list"
  vi_name_len :: int
  vi_compat :: int
  vi_used_ebs :: int
  vi_bytes :: int
  vi_flags :: byte

text \<open>
  \<^verbatim>\<open>ubigen_info_init\<close>. The divisions by \<^verbatim>\<open>subpage_size\<close> (only when no VID header offset is given)
  and by \<^verbatim>\<open>min_io_size\<close> trap on zero: the result is \<open>None\<close>.
\<close>

definition ubigen_vid_hdr_offs :: "int \<Rightarrow> int \<Rightarrow> int option" where
  "ubigen_vid_hdr_offs subpage_size vid_hdr_offs =
     (if vid_hdr_offs = 0 then
        (if subpage_size = 0 then None
         else Some (c_div (c_int (c_uint (64 + c_uint subpage_size - 1))) subpage_size * subpage_size))
      else Some vid_hdr_offs)"

definition ubigen_info_init ::
  "int \<Rightarrow> int \<Rightarrow> int \<Rightarrow> int \<Rightarrow> int \<Rightarrow> u32 \<Rightarrow> ubigen_info option" where
  "ubigen_info_init peb_size min_io_size subpage_size vid_hdr_offs ubi_ver image_seq =
     (case ubigen_vid_hdr_offs subpage_size vid_hdr_offs of
        None \<Rightarrow> None
      | Some vid \<Rightarrow>
          if min_io_size = 0 then None
          else
            let data = c_div (c_int (c_uint (c_uint vid + 64 + c_uint min_io_size - 1)))
                         min_io_size * min_io_size;
                leb = peb_size - data;
                vols = c_int (c_uint leb div 172);
                vols = (if vols > UBI_MAX_VOLUMES then UBI_MAX_VOLUMES else vols)
            in Some \<lparr> ui_leb_size = leb, ui_peb_size = peb_size, ui_min_io_size = min_io_size,
                 ui_vid_hdr_offs = vid, ui_data_offs = data, ui_ubi_ver = ubi_ver,
                 ui_vtbl_size = c_int (c_uint (vols * 172)), ui_max_volumes = vols,
                 ui_image_seq = image_seq \<rparr>)"

subsection \<open>Headers\<close>

definition ec_hdr_crc :: "ubi_ec_hdr \<Rightarrow> u32" where
  "ec_hdr_crc h = mtd_crc32 UBI_CRC32_INIT (ec_hdr_body h)"

definition vid_hdr_crc_of :: "ubi_vid_hdr \<Rightarrow> u32" where
  "vid_hdr_crc_of h = mtd_crc32 UBI_CRC32_INIT (vid_hdr_body h)"

definition vtbl_record_crc :: "ubi_vtbl_record \<Rightarrow> u32" where
  "vtbl_record_crc r = mtd_crc32 UBI_CRC32_INIT (vtbl_body r)"

definition ubigen_init_ec_hdr :: "ubigen_info \<Rightarrow> int \<Rightarrow> ubi_ec_hdr" where
  "ubigen_init_ec_hdr ui ec =
     (let hdr = zero_ec_hdr \<lparr> ech_magic := cpu_to_be32 UBI_EC_HDR_MAGIC,
            ech_version := word_of_int (ui_ubi_ver ui),
            ech_ec := cpu_to_be64 (word_of_int ec),
            ech_vid_hdr_offset := cpu_to_be32 (word_of_int (ui_vid_hdr_offs ui)),
            ech_data_offset := cpu_to_be32 (word_of_int (ui_data_offs ui)),
            ech_image_seq := cpu_to_be32 (ui_image_seq ui) \<rparr>
      in hdr \<lparr> ech_hdr_crc := cpu_to_be32 (ec_hdr_crc hdr) \<rparr>)"

text \<open>\<open>data\<close> is the LEB's contents, its length the argument \<^verbatim>\<open>data_size\<close> of the code.\<close>

definition ubigen_init_vid_hdr ::
  "ubigen_info \<Rightarrow> ubigen_vol_info \<Rightarrow> int \<Rightarrow> byte list \<Rightarrow> ubi_vid_hdr" where
  "ubigen_init_vid_hdr ui vi lnum data =
     (let hdr = zero_vid_hdr \<lparr> vid_magic := cpu_to_be32 UBI_VID_HDR_MAGIC,
            vid_version := word_of_int (ui_ubi_ver ui),
            vid_vol_type := word_of_int (vi_type vi),
            vid_vol_id := cpu_to_be32 (word_of_int (vi_id vi)),
            vid_lnum := cpu_to_be32 (word_of_int lnum),
            vid_data_pad := cpu_to_be32 (word_of_int (vi_data_pad vi)),
            vid_compat := word_of_int (vi_compat vi) \<rparr>;
          hdr = (if vi_type vi = UBI_VID_STATIC
                 then hdr \<lparr> vid_data_size := cpu_to_be32 (word_of_nat (length data)),
                        vid_used_ebs := cpu_to_be32 (word_of_int (vi_used_ebs vi)),
                        vid_data_crc := cpu_to_be32 (mtd_crc32 UBI_CRC32_INIT data) \<rparr>
                 else hdr)
      in hdr \<lparr> vid_hdr_crc := cpu_to_be32 (vid_hdr_crc_of hdr) \<rparr>)"

subsection \<open>The volume table\<close>

text \<open>\<open>alloc\<close> says whether \<^verbatim>\<open>calloc\<close> succeeds; its failure is the code's \<^verbatim>\<open>NULL\<close>.\<close>

definition ubigen_create_empty_vtbl :: "bool \<Rightarrow> ubigen_info \<Rightarrow> ubi_vtbl_record list option" where
  "ubigen_create_empty_vtbl alloc ui =
     (if \<not> alloc then None
      else Some (map (\<lambda>i. zero_vtbl_record \<lparr> vtbl_crc := cpu_to_be32 (vtbl_record_crc zero_vtbl_record) \<rparr>)
                   [0..<nat (ui_max_volumes ui)]))"

text \<open>
  \<^verbatim>\<open>ubigen_add_volume\<close>. \<open>BadArg\<close> is the code's \<^verbatim>\<open>-1\<close> with \<^verbatim>\<open>EINVAL\<close>; \<open>Undef\<close> are the inputs on
  which the C code divides by zero or leaves the array bounds.
\<close>

datatype ubigen_error = BadArg | Undef

definition ubigen_add_volume ::
  "ubigen_info \<Rightarrow> ubigen_vol_info \<Rightarrow> ubi_vtbl_record list \<Rightarrow> ubigen_error + ubi_vtbl_record list" where
  "ubigen_add_volume ui vi vtbl =
     (if vi_id vi \<ge> ui_max_volumes ui then Inl BadArg
      else if vi_alignment vi \<ge> ui_leb_size ui then Inl BadArg
      else if vi_id vi < 0 \<or> nat (vi_id vi) \<ge> length vtbl \<or> ui_leb_size ui = 0 \<or> vi_alignment vi = 0
        \<or> vi_name_len vi < 0 \<or> vi_name_len vi > 127 \<or> vi_name_len vi > int (length (vi_name vi))
      then Inl Undef
      else
        let n = nat (vi_name_len vi);
            rec = zero_vtbl_record \<lparr>
              vtbl_reserved_pebs := cpu_to_be32
                (word_of_int (c_div (vi_bytes vi + ui_leb_size ui - 1) (ui_leb_size ui))),
              vtbl_alignment := cpu_to_be32 (word_of_int (vi_alignment vi)),
              vtbl_vol_type := word_of_int (vi_type vi),
              vtbl_data_pad := cpu_to_be32 (word_of_int (c_mod (ui_leb_size ui) (vi_alignment vi))),
              vtbl_flags := vi_flags vi,
              vtbl_name := take n (vi_name vi) @ replicate (128 - n) 0,
              vtbl_name_len := cpu_to_be16 (word_of_int (vi_name_len vi)) \<rparr>
        in Inr (vtbl[nat (vi_id vi) := rec \<lparr> vtbl_crc := cpu_to_be32 (vtbl_record_crc rec) \<rparr>]))"

subsection \<open>The layout volume\<close>

text \<open>
  The volume \<^verbatim>\<open>ubigen_write_layout_vol\<close> writes, and the eraseblock image it prepares: 0xFF up to
  the data, then the table, then 0xFF; the EC header at offset 0 and the VID header at
  \<^verbatim>\<open>vid_hdr_offs\<close> are stored over it before each write.
\<close>

definition layout_vol_info :: "ubigen_info \<Rightarrow> ubigen_vol_info" where
  "layout_vol_info ui =
     (let usable = ui_leb_size ui - c_mod (ui_leb_size ui) 1
      in \<lparr> vi_id = UBI_LAYOUT_VOLUME_ID, vi_type = UBI_VID_DYNAMIC, vi_alignment = 1,
           vi_data_pad = ui_leb_size ui - usable, vi_usable_leb_size = usable,
           vi_name = map (\<lambda>c. of_char c) ''layout volume'', vi_name_len = 13,
           vi_compat = UBI_COMPAT_REJECT, vi_used_ebs = 0, vi_bytes = ui_leb_size ui * 2,
           vi_flags = 0 \<rparr>)"

definition layout_outbuf :: "ubigen_info \<Rightarrow> ubi_vtbl_record list \<Rightarrow> byte list" where
  "layout_outbuf ui vtbl =
     replicate (nat (ui_data_offs ui)) 0xFF
     @ take (nat (ui_vtbl_size ui)) (concat (map vtbl_bytes vtbl))
     @ replicate (nat (ui_peb_size ui - ui_data_offs ui - ui_vtbl_size ui)) 0xFF"

definition layout_peb :: "ubigen_info \<Rightarrow> ubi_vtbl_record list \<Rightarrow> int \<Rightarrow> int \<Rightarrow> byte list" where
  "layout_peb ui vtbl ec lnum =
     store_at (nat (ui_vid_hdr_offs ui))
       (vid_hdr_bytes (ubigen_init_vid_hdr ui (layout_vol_info ui) lnum []))
       (store_at 0 (ec_hdr_bytes (ubigen_init_ec_hdr ui ec)) (layout_outbuf ui vtbl))"

text \<open>
  \<^verbatim>\<open>ubigen_write_layout_vol\<close>: both copies of the table are written, at the two given
  eraseblocks, each after a seek. \<open>alloc\<close> says whether \<^verbatim>\<open>malloc\<close> succeeds.
\<close>

definition ubigen_write_layout_vol ::
  "'k kernel \<Rightarrow> bool \<Rightarrow> ubigen_info \<Rightarrow> int \<Rightarrow> int \<Rightarrow> int \<Rightarrow> int \<Rightarrow> ubi_vtbl_record list \<Rightarrow> 'k
     \<Rightarrow> errno option \<times> 'k" where
  "ubigen_write_layout_vol K alloc ui peb1 peb2 ec1 ec2 vtbl k =
     (if \<not> alloc then (Some (EOTHER 12), k)
      else
        (case mtd_write_data K (peb1 * ui_peb_size ui) (layout_peb ui vtbl ec1 0) k of
           (Some e, k1) \<Rightarrow> (Some e, k1)
         | (None, k1) \<Rightarrow> mtd_write_data K (peb2 * ui_peb_size ui) (layout_peb ui vtbl ec2 1) k1))"

subsection \<open>Writing a volume image\<close>

text \<open>
  The loop of \<^verbatim>\<open>ubigen_write_volume\<close>. The inner \<^verbatim>\<open>do ... while (l)\<close> gives up on a read that is
  short, so its body runs once. \<open>outbuf\<close> is the eraseblock image, its EC header in place. A
  negative LEB size has no meaning in C either: the result is \<open>None\<close>, as when the loop runs on.
\<close>

definition volume_peb ::
  "ubigen_info \<Rightarrow> ubigen_vol_info \<Rightarrow> int \<Rightarrow> byte list \<Rightarrow> byte list \<Rightarrow> byte list" where
  "volume_peb ui vi lnum data outbuf =
     (let buf = store_at (nat (ui_vid_hdr_offs ui))
                  (vid_hdr_bytes (ubigen_init_vid_hdr ui vi lnum data)) outbuf
      in take (nat (ui_data_offs ui)) buf @ data
         @ replicate (nat (ui_peb_size ui - ui_data_offs ui - int (length data))) 0xFF)"

partial_function (option) write_volume_loop ::
  "'k kernel \<Rightarrow> ubigen_info \<Rightarrow> ubigen_vol_info \<Rightarrow> byte list \<Rightarrow> int \<Rightarrow> int \<Rightarrow> int \<Rightarrow> 'k
     \<Rightarrow> (errno option \<times> 'k) option" where
  "write_volume_loop K ui vi outbuf len bytes lnum k =
     (if bytes = 0 then Some (None, k)
      else
        let len' = (if bytes < len then bytes else len)
        in if len' < 0 then None
           else case k_img_read K (nat len') k of
             (ReadErr e, k1) \<Rightarrow> Some (Some e, k1)
           | (Bytes d, k1) \<Rightarrow>
               if int (length d) \<noteq> len' then Some (Some (EOTHER 0), k1)
               else
                 let peb = volume_peb ui vi lnum d outbuf
                 in case k_write K peb k1 of
                      (Inl e, k2) \<Rightarrow> Some (Some e, k2)
                    | (Inr n, k2) \<Rightarrow>
                        if n \<noteq> ui_peb_size ui then Some (Some (EOTHER 0), k2)
                        else write_volume_loop K ui vi peb len' (bytes - len') (lnum + 1) k2)"

text \<open>\<open>junk\<close> is what \<^verbatim>\<open>malloc\<close> returned for \<^verbatim>\<open>outbuf\<close>; \<open>None\<close> for an allocation is a failure.\<close>

definition ubigen_write_volume ::
  "'k kernel \<Rightarrow> byte list option \<Rightarrow> ubigen_info \<Rightarrow> ubigen_vol_info \<Rightarrow> int \<Rightarrow> int \<Rightarrow> 'k
     \<Rightarrow> (errno option \<times> 'k) option" where
  "ubigen_write_volume K junk ui vi ec bytes k =
     (if vi_id vi \<ge> ui_max_volumes ui then Some (Some EINVAL, k)
      else if vi_alignment vi \<ge> ui_leb_size ui then Some (Some EINVAL, k)
      else case junk of
        None \<Rightarrow> Some (Some (EOTHER 12), k)
      | Some buf \<Rightarrow>
          let n = nat (ui_data_offs ui);
              outbuf = store_at 0 (ec_hdr_bytes (ubigen_init_ec_hdr ui ec))
                         (store_at 0 (replicate n 0xFF) buf)
          in write_volume_loop K ui vi outbuf (vi_usable_leb_size vi) bytes 0 k)"

end
