(* ===== verification/Libscan.thy ===== *)
theory Libscan
  imports Libubigen
begin

text \<open>
  \<^verbatim>\<open>libscan.c\<close>: reading the erase counter header of every eraseblock of a device and classifying
  the eraseblocks. The messages and the progress output are left out.
\<close>

definition EB_EMPTY :: u32 where "EB_EMPTY = 0xFFFFFFFF"
definition EB_CORRUPTED :: u32 where "EB_CORRUPTED = 0xFFFFFFFE"
definition EB_ALIEN :: u32 where "EB_ALIEN = 0xFFFFFFFD"
definition EB_BAD :: u32 where "EB_BAD = 0xFFFFFFFC"
definition EC_MAX :: int where "EC_MAX = 0x7FFFFFFF"

lemmas eb_defs = EB_EMPTY_def EB_CORRUPTED_def EB_ALIEN_def EB_BAD_def EC_MAX_def

record ubi_scan_info =
  si_ec :: "u32 list"
  si_mean_ec :: int
  si_ok_cnt :: int
  si_empty_cnt :: int
  si_corrupted_cnt :: int
  si_alien_cnt :: int
  si_bad_cnt :: int
  si_good_cnt :: int
  si_vid_hdr_offs :: int
  si_data_offs :: int

definition all_ff :: "byte list \<Rightarrow> bool" where
  "all_ff buf \<longleftrightarrow> list_all (\<lambda>b. b = 0xFF) buf"

text \<open>The four ways an eraseblock is entered into the table.\<close>

definition si_bad :: "int \<Rightarrow> ubi_scan_info \<Rightarrow> ubi_scan_info" where
  "si_bad eb si = si \<lparr> si_bad_cnt := si_bad_cnt si + 1, si_ec := (si_ec si)[nat eb := EB_BAD] \<rparr>"

definition si_empty :: "int \<Rightarrow> ubi_scan_info \<Rightarrow> ubi_scan_info" where
  "si_empty eb si = si \<lparr> si_empty_cnt := si_empty_cnt si + 1, si_ec := (si_ec si)[nat eb := EB_EMPTY] \<rparr>"

definition si_alien :: "int \<Rightarrow> ubi_scan_info \<Rightarrow> ubi_scan_info" where
  "si_alien eb si = si \<lparr> si_alien_cnt := si_alien_cnt si + 1, si_ec := (si_ec si)[nat eb := EB_ALIEN] \<rparr>"

definition si_corrupted :: "int \<Rightarrow> ubi_scan_info \<Rightarrow> ubi_scan_info" where
  "si_corrupted eb si =
     si \<lparr> si_corrupted_cnt := si_corrupted_cnt si + 1, si_ec := (si_ec si)[nat eb := EB_CORRUPTED] \<rparr>"

definition si_ok :: "int \<Rightarrow> u32 \<Rightarrow> ubi_scan_info \<Rightarrow> ubi_scan_info" where
  "si_ok eb ec si = si \<lparr> si_ok_cnt := si_ok_cnt si + 1, si_ec := (si_ec si)[nat eb := ec] \<rparr>"

text \<open>
  What the loop body of \<^verbatim>\<open>ubi_scan\<close> does with the 64 bytes read from a good eraseblock: \<open>Inl True\<close>
  is the exit through \<^verbatim>\<open>out_ec\<close> (an erase counter out of range), \<open>Inl False\<close> the trap of a
  division by a minimum I/O size of 0.
\<close>

definition scan_header :: "mtd_dev_info \<Rightarrow> int \<Rightarrow> byte list \<Rightarrow> ubi_scan_info \<Rightarrow> bool + ubi_scan_info" where
  "scan_header mtd eb buf si =
     (let ech = ec_hdr_of_bytes buf
      in if be32_to_cpu (ech_magic ech) \<noteq> UBI_EC_HDR_MAGIC
         then (if all_ff buf then Inr (si_empty eb si) else Inr (si_alien eb si))
         else if be32_to_cpu (ech_hdr_crc ech) \<noteq> mtd_crc32 UBI_CRC32_INIT (take 60 buf)
         then Inr (si_corrupted eb si)
         else
           let ec = be64_to_cpu (ech_ec ech)
           in if uint ec > EC_MAX then Inl True
              else if si_vid_hdr_offs si = -1 then
                let si' = si \<lparr> si_vid_hdr_offs := sint (be32_to_cpu (ech_vid_hdr_offset ech)),
                               si_data_offs := sint (be32_to_cpu (ech_data_offset ech)) \<rparr>
                in if mtd_min_io_size mtd = 0 then Inl False
                   else if c_mod (si_data_offs si') (mtd_min_io_size mtd) \<noteq> 0
                   then Inr (si_corrupted eb si')
                   else Inr (si_ok eb (ucast ec) si')
              else if sint (be32_to_cpu (ech_vid_hdr_offset ech)) \<noteq> si_vid_hdr_offs si
              then Inr (si_corrupted eb si)
              else if sint (be32_to_cpu (ech_data_offset ech)) \<noteq> si_data_offs si
              then Inr (si_corrupted eb si)
              else Inr (si_ok eb (ucast ec) si))"

text \<open>
  The loop over the eraseblocks. \<open>junk\<close> is the uninitialised header variable of an iteration. The
  inner \<open>None\<close> is the exit through \<^verbatim>\<open>out_ec\<close>.
\<close>

fun scan_ebs ::
  "'k kernel \<Rightarrow> mtd_dev_info \<Rightarrow> byte list \<Rightarrow> int list \<Rightarrow> ubi_scan_info \<Rightarrow> 'k st
     \<Rightarrow> (ubi_scan_info option \<times> 'k st) option" where
  "scan_ebs K mtd junk [] si st = Some (Some si, st)"
| "scan_ebs K mtd junk (eb # ebs) si st =
     (case mtd_is_bad K mtd eb st of
        (Inl e, st1) \<Rightarrow> Some (None, st1)
      | (Inr r, st1) \<Rightarrow>
          if r = -1 then Some (None, st1)
          else if r \<noteq> 0 then scan_ebs K mtd junk ebs (si_bad eb si) st1
          else do {
            (e, buf, st2) \<leftarrow> mtd_read K mtd eb 0 junk 64 st1;
            if e \<noteq> None then Some (None, st2)
            else case scan_header mtd eb buf si of
              Inl fault \<Rightarrow> if fault then Some (None, st2) else None
            | Inr si' \<Rightarrow> scan_ebs K mtd junk ebs si' st2
          })"

definition scan_init :: "mtd_dev_info \<Rightarrow> ubi_scan_info" where
  "scan_init mtd = \<lparr> si_ec = replicate (nat (mtd_eb_cnt mtd)) 0, si_mean_ec = 0, si_ok_cnt = 0,
     si_empty_cnt = 0, si_corrupted_cnt = 0, si_alien_cnt = 0, si_bad_cnt = 0, si_good_cnt = 0,
     si_vid_hdr_offs = -1, si_data_offs = -1 \<rparr>"

text \<open>The mean erase counter and the count of good eraseblocks, after the loop.\<close>

definition scan_finish :: "mtd_dev_info \<Rightarrow> ubi_scan_info \<Rightarrow> ubi_scan_info" where
  "scan_finish mtd si =
     (let si1 = (if si_ok_cnt si \<noteq> 0
                 then si \<lparr> si_mean_ec :=
                   sum_list (map uint (filter (\<lambda>e. uint e \<le> EC_MAX) (si_ec si))) div si_ok_cnt si \<rparr>
                 else si)
      in si1 \<lparr> si_good_cnt := mtd_eb_cnt mtd - si_bad_cnt si \<rparr>)"

text \<open>\<open>alloc1\<close> and \<open>alloc2\<close> say whether the two \<^verbatim>\<open>calloc\<close>s succeed; \<open>None\<close> is the code's -1.\<close>

definition ubi_scan ::
  "'k kernel \<Rightarrow> bool \<Rightarrow> bool \<Rightarrow> byte list \<Rightarrow> mtd_dev_info \<Rightarrow> 'k st
     \<Rightarrow> (ubi_scan_info option \<times> 'k st) option" where
  "ubi_scan K alloc1 alloc2 junk mtd st =
     (if \<not> alloc1 \<or> \<not> alloc2 then Some (None, st)
      else do {
        (r, st') \<leftarrow> scan_ebs K mtd junk [0..mtd_eb_cnt mtd - 1] (scan_init mtd) st;
        Some (map_option (scan_finish mtd) r, st')
      })"

subsection \<open>The counters describe the table\<close>

text \<open>
  After the first \<open>n\<close> eraseblocks: every counter is the number of entries of its kind among
  them, the table is as long as the device, and the mean is not computed yet.
\<close>

definition scan_inv :: "mtd_dev_info \<Rightarrow> nat \<Rightarrow> ubi_scan_info \<Rightarrow> bool" where
  "scan_inv mtd n si \<longleftrightarrow>
     length (si_ec si) = nat (mtd_eb_cnt mtd) \<and> si_mean_ec si = 0
     \<and> si_bad_cnt si = int (count_list (take n (si_ec si)) EB_BAD)
     \<and> si_empty_cnt si = int (count_list (take n (si_ec si)) EB_EMPTY)
     \<and> si_alien_cnt si = int (count_list (take n (si_ec si)) EB_ALIEN)
     \<and> si_corrupted_cnt si = int (count_list (take n (si_ec si)) EB_CORRUPTED)
     \<and> si_ok_cnt si = int (length (filter (\<lambda>e. uint e \<le> EC_MAX) (take n (si_ec si))))
     \<and> (\<forall>e \<in> set (take n (si_ec si)). uint e \<le> EC_MAX \<or> e \<in> {EB_BAD, EB_EMPTY, EB_ALIEN, EB_CORRUPTED})"

lemma take_Suc_update:
  "n < length xs \<Longrightarrow> take (Suc n) (xs[n := x]) = take n xs @ [x]"
  by (simp add: take_Suc_conv_app_nth)

lemma scan_inv_init: "scan_inv mtd 0 (scan_init mtd)"
  by (simp add: scan_inv_def scan_init_def)

lemma scan_inv_step:
  assumes "scan_inv mtd n si" "int n < mtd_eb_cnt mtd"
  shows "scan_inv mtd (Suc n) (si_bad (int n) si)" "scan_inv mtd (Suc n) (si_empty (int n) si)"
    "scan_inv mtd (Suc n) (si_alien (int n) si)" "scan_inv mtd (Suc n) (si_corrupted (int n) si)"
    "uint e \<le> EC_MAX \<Longrightarrow> scan_inv mtd (Suc n) (si_ok (int n) e si)"
  using assms
  by (auto simp: scan_inv_def si_bad_def si_empty_def si_alien_def si_corrupted_def si_ok_def
      take_Suc_update eb_defs)

lemma scan_inv_offs [simp]:
  "scan_inv mtd n (si \<lparr> si_vid_hdr_offs := a, si_data_offs := b \<rparr>) = scan_inv mtd n si"
  by (simp add: scan_inv_def)

lemma scan_header_inv:
  assumes "scan_inv mtd n si" "int n < mtd_eb_cnt mtd" "scan_header mtd (int n) buf si = Inr si'"
  shows "scan_inv mtd (Suc n) si'"
proof -
  have "uint (ucast ec :: u32) \<le> EC_MAX" if "uint (ec :: u64) \<le> EC_MAX" for ec
    using that by (simp add: EC_MAX_def unsigned_ucast_eq take_bit_eq_mod)
  then show ?thesis
    using assms scan_inv_step
    by (auto simp: scan_header_def Let_def not_less split: if_splits)
qed

lemma upt_int_Cons:
  "n < m \<Longrightarrow> map int [n..<m] = int n # map int [Suc n..<m]"
  by (simp add: upt_conv_Cons)

text \<open>One iteration that does not leave the loop: what it did to the table, and the rest of the run.\<close>

lemma scan_ebs_Cons_Some:
  assumes "scan_ebs K mtd junk (eb # ebs) si st = Some (Some si', st')"
  obtains st1 where "scan_ebs K mtd junk ebs (si_bad eb si) st1 = Some (Some si', st')"
  | buf si1 st1 where "scan_header mtd eb buf si = Inr si1"
      "scan_ebs K mtd junk ebs si1 st1 = Some (Some si', st')"
proof -
  obtain r st1 where bad: "mtd_is_bad K mtd eb st = (Inr r, st1)"
    using assms by (cases "mtd_is_bad K mtd eb st"; cases "fst (mtd_is_bad K mtd eb st)") auto
  show thesis
  proof (cases "r = 0")
    case False
    then show ?thesis
      using assms bad that(1) by (simp split: if_splits)
  next
    case True
    then obtain e buf st2 where rd: "mtd_read K mtd eb 0 junk 64 st1 = Some (e, buf, st2)"
      using assms bad by (auto simp: bind_eq_Some_conv)
    then show ?thesis
      using assms bad True that(2) [of buf]
      by (cases "scan_header mtd eb buf si") (simp_all split: if_splits)
  qed
qed

lemma scan_ebs_inv:
  assumes "scan_ebs K mtd junk (map int [n..<nat (mtd_eb_cnt mtd)]) si st = Some (Some si', st')"
    and "scan_inv mtd n si" and "n \<le> nat (mtd_eb_cnt mtd)"
  shows "scan_inv mtd (nat (mtd_eb_cnt mtd)) si'"
  using assms
proof (induction "nat (mtd_eb_cnt mtd) - n" arbitrary: n si st)
  case 0
  then show ?case by simp
next
  case (Suc d)
  then have n: "n < nat (mtd_eb_cnt mtd)" by simp
  have IH: "scan_inv mtd (nat (mtd_eb_cnt mtd)) si'"
    if "scan_ebs K mtd junk (map int [Suc n..<nat (mtd_eb_cnt mtd)]) s t = Some (Some si', st')"
      "scan_inv mtd (Suc n) s" for s t
    using Suc.hyps(1) [of "Suc n"] Suc.hyps(2) n that by simp
  have "scan_ebs K mtd junk (int n # map int [Suc n..<nat (mtd_eb_cnt mtd)]) si st = Some (Some si', st')"
    using Suc.prems(1) by (simp only: upt_int_Cons [OF n])
  then show ?case
  proof (cases rule: scan_ebs_Cons_Some)
    case (1 st1)
    then show ?thesis
      using IH scan_inv_step(1) Suc.prems(2) n by simp
  next
    case (2 buf si1 st1)
    then show ?thesis
      using IH scan_header_inv [OF Suc.prems(2) _ 2(1)] n by simp
  qed
qed

lemma upto_map_int: "[0..n - 1] = map int [0..<nat n]"
  by (rule nth_equalityI) (auto simp: nth_upto)

lemma scan_totals_aux:
  assumes "ubi_scan K a1 a2 junk mtd st = Some (Some si, st')"
  shows "\<exists>si0. scan_inv mtd (nat (mtd_eb_cnt mtd)) si0 \<and> si = scan_finish mtd si0"
proof -
  obtain si0 where run: "scan_ebs K mtd junk (map int [0..<nat (mtd_eb_cnt mtd)]) (scan_init mtd) st
      = Some (Some si0, st')" and si: "si = scan_finish mtd si0"
    using assms by (auto simp: ubi_scan_def upto_map_int bind_eq_Some_conv split: if_splits)
  have "scan_inv mtd (nat (mtd_eb_cnt mtd)) si0"
    by (rule scan_ebs_inv [OF run scan_inv_init]) simp
  with si show ?thesis by blast
qed

end
