(* ===== verification/CStrings.thy ===== *)
theory CStrings
  imports CInt "HOL-Library.Sublist"
begin

text \<open>
  The C string functions the code calls: searching, prefix comparison, number parsing
  (\<^verbatim>\<open>strtol\<close> and its relatives) and the number formats of \<^verbatim>\<open>sprintf\<close>. A string is the list of its
  characters before the terminating zero.
\<close>

subsection \<open>Searching and comparing\<close>

text \<open>\<^verbatim>\<open>strstr(hay, needle)\<close>: the rest of \<open>hay\<close> from the first occurrence on.\<close>

fun strstr :: "string \<Rightarrow> string \<Rightarrow> string option" where
  "strstr [] needle = (if needle = [] then Some [] else None)"
| "strstr (c # hay) needle =
     (if prefix needle (c # hay) then Some (c # hay) else strstr hay needle)"

text \<open>\<^verbatim>\<open>strncmp(s, t, n) == 0\<close>; characters after the end of a string do not count.\<close>

definition strncmp_eq :: "string \<Rightarrow> string \<Rightarrow> nat \<Rightarrow> bool" where
  "strncmp_eq s t n \<longleftrightarrow> take n s = take n t"

lemma strstr_Some: "strstr hay needle = Some t \<Longrightarrow> suffix t hay \<and> prefix needle t"
proof (induction hay)
  case Nil
  then show ?case by (simp split: if_splits)
next
  case (Cons c hay)
  then show ?case
    by (auto split: if_splits intro: suffix_ConsI)
qed

lemma strstr_None: "strstr hay needle = None \<longleftrightarrow> \<not> sublist needle hay"
proof (induction hay)
  case Nil
  then show ?case by simp
next
  case (Cons c hay)
  then show ?case by (auto simp: sublist_Cons_right)
qed

lemma strstr_append: "sublist needle (pre @ needle @ post)"
  by (simp add: sublist_appendI)

subsection \<open>Parsing numbers\<close>

definition c_isspace :: "char \<Rightarrow> bool" where
  "c_isspace c \<longleftrightarrow> c \<in> {CHR '' '', CHR 0x09, CHR 0x0A, CHR 0x0B, CHR 0x0C, CHR 0x0D}"

definition digit_val :: "char \<Rightarrow> int option" where
  "digit_val c =
     (let n = (of_char c :: nat)
      in if 48 \<le> n \<and> n \<le> 57 then Some (int n - 48)
         else if 97 \<le> n \<and> n \<le> 122 then Some (int n - 87)
         else if 65 \<le> n \<and> n \<le> 90 then Some (int n - 55)
         else None)"

definition is_digit_of :: "int \<Rightarrow> char \<Rightarrow> bool" where
  "is_digit_of base c = (case digit_val c of None \<Rightarrow> False | Some d \<Rightarrow> d < base)"

fun digits_value :: "int \<Rightarrow> int \<Rightarrow> string \<Rightarrow> int" where
  "digits_value base acc [] = acc"
| "digits_value base acc (c # cs) = digits_value base (acc * base + the (digit_val c)) cs"

text \<open>
  The number at the start of a string with a given base (10 or 16, or 0 for the C prefixes): sign,
  magnitude and the rest. \<open>None\<close>: there are no digits.
\<close>

definition scan_magnitude :: "int \<Rightarrow> string \<Rightarrow> (int \<times> string) option" where
  "scan_magnitude base s =
     (let ds = takeWhile (is_digit_of base) s
      in if ds = [] then None else Some (digits_value base 0 ds, dropWhile (is_digit_of base) s))"

definition scan_prefixed :: "int \<Rightarrow> string \<Rightarrow> (int \<times> string) option" where
  "scan_prefixed base s =
     (let hex = (case s of
            z # x # d # _ \<Rightarrow> z = CHR ''0'' \<and> x \<in> {CHR ''x'', CHR ''X''} \<and> is_digit_of 16 d
          | _ \<Rightarrow> False)
      in if (base = 0 \<or> base = 16) \<and> hex then scan_magnitude 16 (drop 2 s)
         else if base = 0
         then scan_magnitude (if s \<noteq> [] \<and> hd s = CHR ''0'' then 8 else 10) s
         else scan_magnitude base s)"

definition scan_number :: "int \<Rightarrow> string \<Rightarrow> (bool \<times> int \<times> string) option" where
  "scan_number base s =
     (let t = dropWhile c_isspace s;
          signed = (t \<noteq> [] \<and> hd t \<in> {CHR ''-'', CHR ''+''})
      in map_option (Pair (t \<noteq> [] \<and> hd t = CHR ''-''))
           (scan_prefixed base (if signed then tl t else t)))"

text \<open>
  The library functions return the value and the rest of the string (\<^verbatim>\<open>endptr\<close>, the whole string
  when there is no number); out of range values saturate. \<open>w\<close> is the width of the type.
\<close>

definition strtou :: "nat \<Rightarrow> int \<Rightarrow> string \<Rightarrow> int \<times> string" where
  "strtou w base s =
     (case scan_number base s of
        None \<Rightarrow> (0, s)
      | Some (neg, m, rest) \<Rightarrow>
          (if m \<ge> 2 ^ w then 2 ^ w - 1 else if neg then (- m) mod 2 ^ w else m, rest))"

definition strtos :: "nat \<Rightarrow> int \<Rightarrow> string \<Rightarrow> int \<times> string" where
  "strtos w base s =
     (case scan_number base s of
        None \<Rightarrow> (0, s)
      | Some (neg, m, rest) \<Rightarrow>
          (if neg then (if m > 2 ^ (w - 1) then - (2 ^ (w - 1)) else - m)
           else if m \<ge> 2 ^ (w - 1) then 2 ^ (w - 1) - 1 else m, rest))"

definition atoi :: "string \<Rightarrow> int" where
  "atoi s = fst (strtos 32 10 s)"

text \<open>\<^verbatim>\<open>simple_strtoX\<close> of \<^verbatim>\<open>include/common.h\<close>: the value, and whether the string is not one number.\<close>

definition simple_strtoul :: "string \<Rightarrow> int \<times> bool" where
  "simple_strtoul s = (let (r, rest) = strtou 32 0 s in (r, s = [] \<or> rest \<noteq> []))"

definition simple_strtoull :: "string \<Rightarrow> int \<times> bool" where
  "simple_strtoull s = (let (r, rest) = strtou 64 0 s in (r, s = [] \<or> rest \<noteq> []))"

definition simple_strtol :: "string \<Rightarrow> int \<times> bool" where
  "simple_strtol s = (let (r, rest) = strtos 32 0 s in (r, s = [] \<or> rest \<noteq> []))"

definition simple_strtoll :: "string \<Rightarrow> int \<times> bool" where
  "simple_strtoll s = (let (r, rest) = strtos 64 0 s in (r, s = [] \<or> rest \<noteq> []))"

subsection \<open>Printing numbers\<close>

definition digit_char :: "nat \<Rightarrow> char" where
  "digit_char d = char_of (if d < 10 then 48 + d else 87 + d)"

text \<open>The digits of a number, least significant first, at least one; \<open>base\<close> is 10 or 16.\<close>

fun digits_rev :: "nat \<Rightarrow> nat \<Rightarrow> string" where
  "digits_rev base n =
     (if n < base \<or> base < 2 then [digit_char n] else digit_char (n mod base) # digits_rev base (n div base))"

declare digits_rev.simps [simp del]

definition print_nat :: "nat \<Rightarrow> nat \<Rightarrow> string" where
  "print_nat base n = rev (digits_rev base n)"

text \<open>The \<^verbatim>\<open>%d\<close> and \<^verbatim>\<open>%lld\<close>, \<^verbatim>\<open>%u\<close> and \<^verbatim>\<open>%x\<close> formats.\<close>

definition fmt_d :: "int \<Rightarrow> string" where
  "fmt_d n = (if n < 0 then CHR ''-'' # print_nat 10 (nat (- n)) else print_nat 10 (nat n))"

definition fmt_x :: "nat \<Rightarrow> string" where
  "fmt_x n = print_nat 16 n"

lemma of_char_digit_char: "d < 10 \<Longrightarrow> (of_char (digit_char d) :: nat) = 48 + d"
  by (simp add: digit_char_def)

lemma digit_val_digit_char: "d < 10 \<Longrightarrow> digit_val (digit_char d) = Some (int d)"
  by (simp add: digit_val_def of_char_digit_char)

lemma digits_value_append:
  "digits_value base acc (xs @ ys) = digits_value base (digits_value base acc xs) ys"
  by (induction xs arbitrary: acc) auto

lemma digits_value_print_nat: "digits_value 10 0 (print_nat 10 n) = int n"
proof (induction n rule: less_induct)
  case (less n)
  show ?case
  proof (cases "n < 10")
    case True
    then show ?thesis
      by (simp add: print_nat_def digits_rev.simps [of _ n] digit_val_digit_char)
  next
    case False
    then have "digits_value 10 0 (print_nat 10 n) =
        digits_value 10 0 (print_nat 10 (n div 10)) * 10 + int (n mod 10)"
      by (simp add: print_nat_def digits_rev.simps [of _ n] digits_value_append digit_val_digit_char)
    also have "\<dots> = int (n div 10 * 10 + n mod 10)"
      using False less.IH [of "n div 10"] by (simp only: of_nat_add of_nat_mult)
    also have "\<dots> = int n"
      by (simp only: div_mult_mod_eq)
    finally show ?thesis .
  qed
qed

lemma print_nat_digits: "list_all (is_digit_of 10) (print_nat 10 n)"
proof (induction n rule: less_induct)
  case (less n)
  show ?case
    using less.IH [of "n div 10"]
    by (cases "n < 10")
      (simp_all add: print_nat_def digits_rev.simps [of _ n] is_digit_of_def digit_val_digit_char)
qed

lemma print_nat_not_Nil [simp]: "print_nat b n \<noteq> []"
  by (simp add: print_nat_def digits_rev.simps [of _ n])

text \<open>Reading back what was printed, whatever follows it.\<close>

lemma scan_print_nat:
  assumes "rest = [] \<or> \<not> is_digit_of 10 (hd rest)"
  shows "scan_magnitude 10 (print_nat 10 n @ rest) = Some (int n, rest)"
proof -
  have tw: "takeWhile (is_digit_of 10) rest = []" "dropWhile (is_digit_of 10) rest = rest"
    using assms by (cases rest; simp)+
  have all: "\<forall>c \<in> set (print_nat 10 n). is_digit_of 10 c"
    using print_nat_digits [of n] by (simp add: list_all_iff)
  show ?thesis
    using all tw by (simp add: scan_magnitude_def takeWhile_append dropWhile_append digits_value_print_nat)
qed

end
