(* ===== verification/Getopt.thy ===== *)
theory Getopt
  imports CStrings
begin

text \<open>
  \<^verbatim>\<open>getopt_long\<close> of the C library, as the tools' option loops call it: short options in clusters,
  required and optional (\<^verbatim>\<open>::\<close>) arguments, long options with unambiguous abbreviations, and
  permutation: the arguments that are no options are left for the positional part. The option
  loop of a tool runs over the list of results, in order.
\<close>

datatype has_arg = no_argument | required_argument | optional_argument

text \<open>A result: the returned character, the index of a long option, \<^verbatim>\<open>optarg\<close>.\<close>

type_synonym opt_result = "char \<times> nat option \<times> string option"

type_synonym long_option = "string \<times> has_arg \<times> char"

text \<open>The option string, e.g. \<open>''ac::k::ns:''\<close>.\<close>

fun parse_optstring :: "string \<Rightarrow> (char \<times> has_arg) list" where
  "parse_optstring [] = []"
| "parse_optstring (c # s) =
     (case s of
        d # e # t \<Rightarrow>
          if d = CHR '':'' \<and> e = CHR '':'' then (c, optional_argument) # parse_optstring t
          else if d = CHR '':'' then (c, required_argument) # parse_optstring (e # t)
          else (c, no_argument) # parse_optstring s
      | [d] \<Rightarrow> if d = CHR '':'' then [(c, required_argument)] else (c, no_argument) # parse_optstring s
      | [] \<Rightarrow> [(c, no_argument)])"

text \<open>
  The rest of one argument after its \<^verbatim>\<open>-\<close>. The second result is a final option whose required
  argument has to come from the next argument.
\<close>

fun short_cluster :: "(char \<times> has_arg) list \<Rightarrow> string \<Rightarrow> opt_result list \<times> char option" where
  "short_cluster spec [] = ([], None)"
| "short_cluster spec (c # cs) =
     (case map_of spec c of
        None \<Rightarrow> (let (rs, need) = short_cluster spec cs in ((CHR ''?'', None, None) # rs, need))
      | Some no_argument \<Rightarrow>
          (let (rs, need) = short_cluster spec cs in ((c, None, None) # rs, need))
      | Some optional_argument \<Rightarrow> ([(c, None, if cs = [] then None else Some cs)], None)
      | Some required_argument \<Rightarrow> if cs = [] then ([], Some c) else ([(c, None, Some cs)], None))"

text \<open>
  The long options a name can stand for: the exact one, or those it abbreviates. Abbreviations of
  several options that agree in argument and value are not ambiguous.
\<close>

definition long_matches :: "long_option list \<Rightarrow> string \<Rightarrow> (nat \<times> long_option) list" where
  "long_matches longs name =
     (let all = zip [0..<length longs] longs;
          exact = filter (\<lambda>(i, n, a, v). n = name) all
      in if exact \<noteq> [] then [hd exact]
         else
           let abbr = filter (\<lambda>(i, n, a, v). prefix name n) all
           in if abbr \<noteq> [] \<and> list_all (\<lambda>(i, n, a, v). (a, v) = snd (snd (hd abbr))) abbr
              then [hd abbr] else abbr)"

fun getopt_long ::
  "(char \<times> has_arg) list \<Rightarrow> long_option list \<Rightarrow> string list \<Rightarrow> opt_result list \<times> string list" where
  "getopt_long spec longs [] = ([], [])"
| "getopt_long spec longs (arg # args) =
     (if arg = ''--'' then ([], args)
      else if prefix ''--'' arg then
        let body = drop 2 arg;
            name = takeWhile (\<lambda>c. c \<noteq> CHR ''='') body;
            eq = dropWhile (\<lambda>c. c \<noteq> CHR ''='') body;
            val = (if eq = [] then None else Some (tl eq))
        in (case long_matches longs name of
             [(i, n, a, v)] \<Rightarrow>
               (case a of
                  no_argument \<Rightarrow>
                    let (rs, pos) = getopt_long spec longs args
                    in ((if val = None then (v, Some i, None) else (CHR ''?'', None, None)) # rs, pos)
                | optional_argument \<Rightarrow>
                    let (rs, pos) = getopt_long spec longs args in ((v, Some i, val) # rs, pos)
                | required_argument \<Rightarrow>
                    if val \<noteq> None then
                      let (rs, pos) = getopt_long spec longs args in ((v, Some i, val) # rs, pos)
                    else (case args of
                      [] \<Rightarrow> ([(CHR ''?'', None, None)], [])
                    | next # args' \<Rightarrow>
                        let (rs, pos) = getopt_long spec longs args'
                        in ((v, Some i, Some next) # rs, pos)))
           | _ \<Rightarrow> let (rs, pos) = getopt_long spec longs args in ((CHR ''?'', None, None) # rs, pos))
      else if prefix ''-'' arg \<and> arg \<noteq> ''-'' then
        let (rs0, need) = short_cluster spec (tl arg)
        in (case need of
             None \<Rightarrow> let (rs, pos) = getopt_long spec longs args in (rs0 @ rs, pos)
           | Some c \<Rightarrow>
               (case args of
                  [] \<Rightarrow> (rs0 @ [(CHR ''?'', None, None)], [])
                | next # args' \<Rightarrow>
                    let (rs, pos) = getopt_long spec longs args'
                    in (rs0 @ (c, None, Some next) # rs, pos)))
      else
        let (rs, pos) = getopt_long spec longs args in (rs, arg # pos))"

text \<open>Arguments that do not start with a dash are all positional.\<close>

lemma getopt_long_plain:
  "list_all (\<lambda>a. \<not> prefix ''-'' a \<or> a = ''-'') args \<Longrightarrow> getopt_long spec longs args = ([], args)"
proof (induction args)
  case Nil
  then show ?case by simp
next
  case (Cons a args)
  then have "\<not> prefix ''--'' a"
    by (cases a) auto
  then show ?case
    using Cons by (auto)
qed

end
