(* ===== verification/Ubiformat.thy ===== *)
theory Ubiformat
  imports Libscan Getopt
begin

text \<open>
  \<^verbatim>\<open>ubiformat.c\<close>: formatting an MTD device for UBI and flashing an UBI image, eraseblock by
  eraseblock. Messages and progress output are left out, except where computing the progress
  divides by zero.
\<close>

subsection \<open>Arguments\<close>

record ubi_args =
  ua_yes :: bool
  ua_quiet :: bool
  ua_verbose :: bool
  ua_override_ec :: bool
  ua_novtbl :: bool
  ua_manual_subpage :: bool
  ua_no_detach_check :: bool
  ua_subpage_size :: int
  ua_vid_hdr_offs :: int
  ua_ubi_ver :: int
  ua_image_seq :: u32
  ua_image_sz :: int
  ua_ec :: int
  ua_image :: "string option"
  ua_node :: string

text \<open>The static \<^verbatim>\<open>args\<close> at the start of the program.\<close>

definition ubi_args_initial :: ubi_args where
  "ubi_args_initial = \<lparr>ua_yes = False, ua_quiet = False, ua_verbose = False, ua_override_ec = False,
     ua_novtbl = False, ua_manual_subpage = False, ua_no_detach_check = False, ua_subpage_size = 0,
     ua_vid_hdr_offs = 0, ua_ubi_ver = 1, ua_image_seq = 0, ua_image_sz = 0, ua_ec = 0,
     ua_image = None, ua_node = []\<rparr>"

definition get_multiplier :: "string \<Rightarrow> int" where
  "get_multiplier str =
     (let s = dropWhile (\<lambda>c. c = CHR '' '' \<or> c = CHR 0x09) str
      in if s = ''KiB'' then 1024 else if s = ''MiB'' then 1024 * 1024
         else if s = ''GiB'' then 1024 * 1024 * 1024 else -1)"

definition ubiutils_get_bytes :: "string \<Rightarrow> int" where
  "ubiutils_get_bytes str =
     (let (v, endp) = strtou 64 0 str; bytes = c_longlong v
      in if endp = str \<or> bytes < 0 then -1
         else if endp \<noteq> [] then
           (let mult = get_multiplier endp in if mult = -1 then -1 else c_longlong (bytes * mult))
         else bytes)"

definition ubiformat_long_options :: "long_option list" where
  "ubiformat_long_options =
     [(''sub-page-size'', required_argument, CHR ''s''), (''vid-hdr-offset'', required_argument, CHR ''O''),
      (''no-volume-table'', no_argument, CHR ''n''), (''flash-image'', required_argument, CHR ''f''),
      (''image-size'', required_argument, CHR ''S''), (''yes'', no_argument, CHR ''y''),
      (''erase-counter'', required_argument, CHR ''e''), (''quiet'', no_argument, CHR ''q''),
      (''verbose'', no_argument, CHR ''v''), (''ubi-ver'', required_argument, CHR ''x''),
      (''help'', no_argument, CHR ''h''), (''version'', no_argument, CHR ''V''),
      (''no-detach-check'', no_argument, CHR ''D'')]"

text \<open>The outcome of parsing: -1, \<^verbatim>\<open>exit(EXIT_SUCCESS)\<close>, or the arguments.\<close>

datatype 'a parsed = ParseError | ParseExit | Parsed 'a

text \<open>
  One round of the option loop. The case for \<^verbatim>\<open>Q\<close> is in the code, but no result of
  \<^verbatim>\<open>getopt_long\<close> has that value: neither the option string nor the table holds it.
\<close>

definition ubiformat_opt :: "opt_result \<Rightarrow> ubi_args \<Rightarrow> ubi_args parsed" where
  "ubiformat_opt r a =
     (let (key, _, optarg) = r; arg = (case optarg of None \<Rightarrow> [] | Some s \<Rightarrow> s)
      in if key = CHR ''s'' then
           (let v = c_int (ubiutils_get_bytes arg)
            in if v \<le> 0 then ParseError else if \<not> is_power_of_2 (word_of_int v) then ParseError
               else Parsed (a \<lparr> ua_subpage_size := v \<rparr>))
         else if key = CHR ''O'' then
           (let (u, err) = simple_strtoul arg; v = c_int u
            in if err \<or> v \<le> 0 then ParseError else Parsed (a \<lparr> ua_vid_hdr_offs := v \<rparr>))
         else if key = CHR ''e'' then
           (let (u, err) = simple_strtoull arg; v = c_longlong u
            in if err \<or> v < 0 then ParseError else if v \<ge> EC_MAX then ParseError
               else Parsed (a \<lparr> ua_ec := v, ua_override_ec := True \<rparr>))
         else if key = CHR ''f'' then Parsed (a \<lparr> ua_image := Some arg \<rparr>)
         else if key = CHR ''S'' then
           (let v = ubiutils_get_bytes arg
            in if v \<le> 0 then ParseError else Parsed (a \<lparr> ua_image_sz := v \<rparr>))
         else if key = CHR ''n'' then Parsed (a \<lparr> ua_novtbl := True \<rparr>)
         else if key = CHR ''y'' then Parsed (a \<lparr> ua_yes := True \<rparr>)
         else if key = CHR ''q'' then Parsed (a \<lparr> ua_quiet := True \<rparr>)
         else if key = CHR ''D'' then Parsed (a \<lparr> ua_no_detach_check := True \<rparr>)
         else if key = CHR ''x'' then
           (let (u, err) = simple_strtoul arg; v = c_int u
            in if err \<or> v < 0 then ParseError else Parsed (a \<lparr> ua_ubi_ver := v \<rparr>))
         else if key = CHR ''Q'' then
           (let (u, err) = simple_strtoul arg
            in if err then ParseError else Parsed (a \<lparr> ua_image_seq := word_of_int u \<rparr>))
         else if key = CHR ''v'' then Parsed (a \<lparr> ua_verbose := True \<rparr>)
         else if key = CHR ''V'' then ParseExit
         else if key = CHR ''h'' \<or> key = CHR ''?'' then ParseExit
         else ParseError)"

fun ubiformat_opts :: "opt_result list \<Rightarrow> ubi_args \<Rightarrow> ubi_args parsed" where
  "ubiformat_opts [] a = Parsed a"
| "ubiformat_opts (r # rs) a =
     (case ubiformat_opt r a of
        Parsed a' \<Rightarrow> ubiformat_opts rs a'
      | ParseError \<Rightarrow> ParseError
      | ParseExit \<Rightarrow> ParseExit)"

text \<open>
  \<^verbatim>\<open>parse_opt\<close>, on the static \<^verbatim>\<open>args\<close> as the previous call left it; \<open>rnd\<close> is the value of
  \<^verbatim>\<open>rand()\<close>, \<open>argv\<close> the arguments after the program name.
\<close>

definition ubiformat_parse_opt :: "u32 \<Rightarrow> string list \<Rightarrow> ubi_args \<Rightarrow> ubi_args parsed" where
  "ubiformat_parse_opt rnd argv a0 =
     (let (rs, pos) = getopt_long (parse_optstring ''nh?Vyqve:x:s:O:f:S:D'') ubiformat_long_options argv
      in case ubiformat_opts rs (a0 \<lparr> ua_image_seq := rnd \<rparr>) of
           Parsed a \<Rightarrow>
             if ua_quiet a \<and> ua_verbose a then ParseError
             else (case pos of
               [] \<Rightarrow> ParseError
             | [node] \<Rightarrow>
                 if ua_image a \<noteq> None \<and> ua_novtbl a then ParseError
                 else Parsed (a \<lparr> ua_node := node \<rparr>)
             | _ # _ # _ \<Rightarrow> ParseError)
         | ParseError \<Rightarrow> ParseError
         | ParseExit \<Rightarrow> ParseExit)"

subsection \<open>Erase counter headers and trailing 0xFF bytes\<close>

text \<open>\<^verbatim>\<open>change_ech\<close> on the buffer whose start is the header; \<open>None\<close> is the code's -1.\<close>

definition change_ech :: "byte list \<Rightarrow> u32 \<Rightarrow> int \<Rightarrow> byte list option" where
  "change_ech buf image_seq ec =
     (let hdr = ec_hdr_of_bytes buf
      in if be32_to_cpu (ech_magic hdr) \<noteq> UBI_EC_HDR_MAGIC then None
         else if be32_to_cpu (ech_hdr_crc hdr) \<noteq> mtd_crc32 UBI_CRC32_INIT (take 60 buf) then None
         else
           let hdr1 = hdr \<lparr> ech_image_seq := cpu_to_be32 image_seq, ech_ec := cpu_to_be64 (word_of_int ec) \<rparr>;
               hdr2 = hdr1 \<lparr> ech_hdr_crc := cpu_to_be32 (ec_hdr_crc hdr1) \<rparr>
           in Some (store_at 0 (ec_hdr_bytes hdr2) buf))"

text \<open>\<^verbatim>\<open>drop_ffs\<close>: the length up to the last byte that is not 0xFF, rounded up to the I/O unit.\<close>

fun last_non_ff :: "byte list \<Rightarrow> nat \<Rightarrow> nat" where
  "last_non_ff buf 0 = 0"
| "last_non_ff buf (Suc i) = (if buf ! i \<noteq> 0xFF then Suc i else last_non_ff buf i)"

definition drop_ffs :: "mtd_dev_info \<Rightarrow> byte list \<Rightarrow> nat \<Rightarrow> int" where
  "drop_ffs mtd buf len =
     c_div (int (last_non_ff buf len) + mtd_min_io_size mtd - 1) (mtd_min_io_size mtd) * mtd_min_io_size mtd"

subsection \<open>The state of a run\<close>

text \<open>The scan table, the statics of \<^verbatim>\<open>consecutive_bad_check\<close>, and libmtd and the kernel.\<close>

record 'k ufmt =
  uf_si :: ubi_scan_info
  uf_consecutive :: int
  uf_prev_bb :: int
  uf_st :: "'k st"

definition MAX_CONSECUTIVE_BAD_BLOCKS :: int where "MAX_CONSECUTIVE_BAD_BLOCKS = 4"

text \<open>The new values of the statics and whether the check passes (returns 0).\<close>

definition consecutive_bad_check :: "int \<Rightarrow> int \<times> int \<Rightarrow> bool \<times> int \<times> int" where
  "consecutive_bad_check eb statics =
     (let (consecutive_bad_blocks, prev_bb) = statics;
          prev_bb = (if prev_bb = -1 then eb else prev_bb);
          n = (if eb = prev_bb + 1 then consecutive_bad_blocks + 1 else 1)
      in (n < MAX_CONSECUTIVE_BAD_BLOCKS, n, eb))"

text \<open>\<^verbatim>\<open>mark_bad\<close>; \<open>True\<close> is the code's 0. \<open>None\<close>: the question has no answer.\<close>

definition mark_bad ::
  "'k kernel \<Rightarrow> ubi_args \<Rightarrow> mtd_dev_info \<Rightarrow> int \<Rightarrow> 'k ufmt \<Rightarrow> (bool \<times> 'k ufmt) option" where
  "mark_bad K a mtd eb u = do {
     (go, k) \<leftarrow> (if ua_yes a then Some (True, snd (uf_st u)) else prompt K False (snd (uf_st u)));
     let u1 = u \<lparr> uf_st := (fst (uf_st u), k) \<rparr>;
     if \<not> go then Some (False, u1)
     else if \<not> mtd_bb_allowed mtd then Some (False, u1)
     else
       let (e, st) = mtd_mark_bad K mtd eb (uf_st u1); u2 = u1 \<lparr> uf_st := st \<rparr>
       in if e \<noteq> None then Some (False, u2)
          else
            let (ok, n, prev) = consecutive_bad_check eb (uf_consecutive u2, uf_prev_bb u2)
            in Some (ok, u2 \<lparr> uf_si := si_bad eb (uf_si u2), uf_consecutive := n, uf_prev_bb := prev \<rparr>)
   }"

text \<open>The erase counter an eraseblock is given.\<close>

definition next_ec :: "ubi_args \<Rightarrow> ubi_scan_info \<Rightarrow> int \<Rightarrow> int" where
  "next_ec a si eb =
     (if ua_override_ec a then ua_ec a
      else let e = uint (si_ec si ! nat eb) in if e \<le> EC_MAX then e + 1 else si_mean_ec si)"

subsection \<open>Flashing an image\<close>

text \<open>\<^verbatim>\<open>open_file\<close>: the size of the image, or \<open>None\<close> for -1; \<^verbatim>\<open>-\<close> is the standard input.\<close>

definition open_file :: "'k kernel \<Rightarrow> ubi_args \<Rightarrow> 'k \<Rightarrow> int option \<times> 'k" where
  "open_file K a k =
     (if ua_image a = Some ''-'' then
        (if ua_image_sz a = 0 then (None, k)
         else (case k_img_open K k of
             (Some e, k') \<Rightarrow> (None, k')
           | (None, k') \<Rightarrow> (Some (ua_image_sz a), k')))
      else (case k_img_stat K k of
          (Inl e, k1) \<Rightarrow> (None, k1)
        | (Inr sz, k1) \<Rightarrow> (case k_img_open K k1 of
              (Some e, k2) \<Rightarrow> (None, k2)
            | (None, k2) \<Rightarrow> (Some sz, k2))))"

text \<open>\<^verbatim>\<open>read_all\<close>: exactly \<open>len\<close> bytes, or \<open>None\<close> for -1. It may retry forever.\<close>

partial_function (option) read_all ::
  "'k kernel \<Rightarrow> nat \<Rightarrow> 'k \<Rightarrow> (byte list option \<times> 'k) option" where
  "read_all K len k =
     (if len = 0 then Some (Some [], k)
      else case k_img_read K len k of
        (Bytes d, k1) \<Rightarrow>
          if d = [] then Some (None, k1)
          else do {
            (r, k2) \<leftarrow> read_all K (len - length d) k1;
            Some (map_option (append d) r, k2)
          }
      | (ReadErr e, k1) \<Rightarrow>
          if e = EINTR \<or> e = EAGAIN then read_all K len k1 else Some (None, k1))"

text \<open>
  One eraseblock of \<^verbatim>\<open>flash_image\<close> that is not marked bad in the table. Besides the run's state
  the loop carries the buffer, \<^verbatim>\<open>skip_data_read\<close> and \<^verbatim>\<open>written_ebs\<close>; a block of the image whose
  write failed stays in the buffer for the next eraseblock.
\<close>

datatype flash_verdict = FlashNext | FlashDone | FlashFail

type_synonym flash_work = "byte list \<times> bool \<times> int"

definition flash_write_failed ::
  "'k kernel \<Rightarrow> byte list \<Rightarrow> ubi_args \<Rightarrow> mtd_dev_info \<Rightarrow> int \<Rightarrow> errno \<Rightarrow> 'k ufmt
     \<Rightarrow> (bool \<times> 'k ufmt) option" where
  "flash_write_failed K junk a mtd eb e u =
     (if e \<noteq> EIO then Some (False, u)
      else do {
        (err, st) \<leftarrow> mtd_torture K mtd eb junk (uf_st u);
        let u1 = u \<lparr> uf_st := st \<rparr>;
        if err \<noteq> 0 then mark_bad K a mtd eb u1 else Some (True, u1)
      })"

definition flash_data ::
  "'k kernel \<Rightarrow> byte list \<Rightarrow> ubi_args \<Rightarrow> mtd_dev_info \<Rightarrow> ubigen_info \<Rightarrow> int \<Rightarrow> int \<Rightarrow> byte list \<Rightarrow> int
     \<Rightarrow> 'k ufmt \<Rightarrow> (flash_verdict \<times> flash_work \<times> 'k ufmt) option" where
  "flash_data K junk a mtd ui img_ebs eb data written u =
     (case change_ech data (ui_image_seq ui) (next_ec a (uf_si u) eb) of
        None \<Rightarrow> Some (FlashFail, (data, False, written), u)
      | Some buf \<Rightarrow>
          let new_len = nat (drop_ffs mtd buf (nat (mtd_eb_size mtd)))
          in do {
            (e, st) \<leftarrow> mtd_write K mtd eb 0 (Some (take new_len buf)) new_len None 0 (uf_st u);
            let u1 = u \<lparr> uf_st := st \<rparr>;
            case e of
              None \<Rightarrow>
                Some (if written + 1 \<ge> img_ebs then FlashDone else FlashNext, (buf, False, written + 1), u1)
            | Some er \<Rightarrow> do {
                (ok, u2) \<leftarrow> flash_write_failed K junk a mtd eb er u1;
                Some (if ok then FlashNext else FlashFail, (buf, True, written), u2)
              }
          })"

definition flash_eb ::
  "'k kernel \<Rightarrow> byte list \<Rightarrow> ubi_args \<Rightarrow> mtd_dev_info \<Rightarrow> ubigen_info \<Rightarrow> int \<Rightarrow> int \<Rightarrow> flash_work
     \<Rightarrow> 'k ufmt \<Rightarrow> (flash_verdict \<times> flash_work \<times> 'k ufmt) option" where
  "flash_eb K junk a mtd ui img_ebs eb w u =
     (let (buf, skip, written) = w;
          (e, st) = mtd_erase K mtd eb (uf_st u); u1 = u \<lparr> uf_st := st \<rparr>
      in case e of
           Some er \<Rightarrow>
             if er \<noteq> EIO then Some (FlashFail, w, u1)
             else do {
               (ok, u2) \<leftarrow> mark_bad K a mtd eb u1;
               Some (if ok then FlashNext else FlashFail, w, u2)
             }
         | None \<Rightarrow> do {
             (r, k) \<leftarrow> (if skip then Some (Some buf, snd st)
                       else read_all K (nat (mtd_eb_size mtd)) (snd st));
             let u2 = u1 \<lparr> uf_st := (fst st, k) \<rparr>;
             case r of
               None \<Rightarrow> Some (FlashFail, w, u2)
             | Some data \<Rightarrow> flash_data K junk a mtd ui img_ebs eb data written u2
           })"

text \<open>
  The loop. The result is the code's return value, one more than the last eraseblock looked at,
  or \<open>None\<close> for -1. The progress display divides by the number of blocks of the image so far.
\<close>

fun flash_loop ::
  "'k kernel \<Rightarrow> byte list \<Rightarrow> ubi_args \<Rightarrow> mtd_dev_info \<Rightarrow> ubigen_info \<Rightarrow> int \<Rightarrow> int list \<Rightarrow> int \<Rightarrow> flash_work
     \<Rightarrow> 'k ufmt \<Rightarrow> (int option \<times> 'k ufmt) option" where
  "flash_loop K junk a mtd ui img_ebs [] divisor w u = Some (Some (mtd_eb_cnt mtd + 1), u)"
| "flash_loop K junk a mtd ui img_ebs (eb # ebs) divisor w u =
     (if \<not> ua_quiet a \<and> \<not> ua_verbose a \<and> divisor = 0 then None
      else if si_ec (uf_si u) ! nat eb = EB_BAD
      then flash_loop K junk a mtd ui img_ebs ebs (divisor + 1) w u
      else do {
        (v, w', u') \<leftarrow> flash_eb K junk a mtd ui img_ebs eb w u;
        case v of
          FlashNext \<Rightarrow> flash_loop K junk a mtd ui img_ebs ebs divisor w' u'
        | FlashDone \<Rightarrow> Some (Some (eb + 1), u')
        | FlashFail \<Rightarrow> Some (None, u')
      })"

definition flash_image ::
  "'k kernel \<Rightarrow> byte list \<Rightarrow> ubi_args \<Rightarrow> mtd_dev_info \<Rightarrow> ubigen_info \<Rightarrow> 'k ufmt
     \<Rightarrow> (int option \<times> 'k ufmt) option" where
  "flash_image K junk a mtd ui u =
     (let (size, k) = open_file K a (snd (uf_st u)); u1 = u \<lparr> uf_st := (fst (uf_st u), k) \<rparr>
      in case size of
           None \<Rightarrow> Some (None, u1)
         | Some sz \<Rightarrow>
             if mtd_eb_size mtd = 0 then None
             else
               let img_ebs = c_int (c_div sz (mtd_eb_size mtd))
               in if img_ebs > si_good_cnt (uf_si u) then Some (None, u1)
                  else if c_mod sz (mtd_eb_size mtd) \<noteq> 0 then Some (None, u1)
                  else flash_loop K junk a mtd ui img_ebs [0..mtd_eb_cnt mtd - 1] img_ebs ([], False, 0) u1)"

subsection \<open>Formatting\<close>

text \<open>
  \<^verbatim>\<open>format\<close>. The loop carries the two eraseblocks left for the volume table, with their erase
  counters (-1: none yet).
\<close>

record vtbl_ebs =
  ve_eb1 :: int
  ve_ec1 :: int
  ve_eb2 :: int
  ve_ec2 :: int

definition ec_write_size :: "mtd_dev_info \<Rightarrow> int" where
  "ec_write_size mtd = c_div (64 + mtd_subpage_size mtd - 1) (mtd_subpage_size mtd) * mtd_subpage_size mtd"

definition format_hdr :: "mtd_dev_info \<Rightarrow> ubigen_info \<Rightarrow> int \<Rightarrow> byte list" where
  "format_hdr mtd ui ec =
     store_at 0 (ec_hdr_bytes (ubigen_init_ec_hdr ui ec)) (replicate (nat (ec_write_size mtd)) 0xFF)"

definition format_eb ::
  "'k kernel \<Rightarrow> byte list \<Rightarrow> ubi_args \<Rightarrow> mtd_dev_info \<Rightarrow> ubigen_info \<Rightarrow> bool \<Rightarrow> int \<Rightarrow> vtbl_ebs
     \<Rightarrow> 'k ufmt \<Rightarrow> (bool \<times> vtbl_ebs \<times> 'k ufmt) option" where
  "format_eb K junk a mtd ui novtbl eb v u =
     (let ec = next_ec a (uf_si u) eb;
          (e, st) = mtd_erase K mtd eb (uf_st u); u1 = u \<lparr> uf_st := st \<rparr>
      in case e of
           Some er \<Rightarrow>
             if er \<noteq> EIO then Some (False, v, u1)
             else do { (ok, u2) \<leftarrow> mark_bad K a mtd eb u1; Some (ok, v, u2) }
         | None \<Rightarrow>
             if (ve_eb1 v = -1 \<or> ve_eb2 v = -1) \<and> \<not> novtbl then
               Some (True, (if ve_eb1 v = -1 then v \<lparr> ve_eb1 := eb, ve_ec1 := ec \<rparr>
                            else v \<lparr> ve_eb2 := eb, ve_ec2 := ec \<rparr>), u1)
             else do {
               (e2, st2) \<leftarrow> mtd_write K mtd eb 0 (Some (format_hdr mtd ui ec)) (nat (ec_write_size mtd))
                              None 0 (uf_st u1);
               let u2 = u1 \<lparr> uf_st := st2 \<rparr>;
               case e2 of
                 None \<Rightarrow> Some (True, v, u2)
               | Some er \<Rightarrow> do {
                   (ok, u3) \<leftarrow> flash_write_failed K junk a mtd eb er u2;
                   Some (ok, v, u3)
                 }
             })"

fun format_loop ::
  "'k kernel \<Rightarrow> byte list \<Rightarrow> ubi_args \<Rightarrow> mtd_dev_info \<Rightarrow> ubigen_info \<Rightarrow> bool \<Rightarrow> int list \<Rightarrow> vtbl_ebs
     \<Rightarrow> 'k ufmt \<Rightarrow> (bool \<times> vtbl_ebs \<times> 'k ufmt) option" where
  "format_loop K junk a mtd ui novtbl [] v u = Some (True, v, u)"
| "format_loop K junk a mtd ui novtbl (eb # ebs) v u =
     (if si_ec (uf_si u) ! nat eb = EB_BAD then format_loop K junk a mtd ui novtbl ebs v u
      else do {
        (ok, v', u') \<leftarrow> format_eb K junk a mtd ui novtbl eb v u;
        if ok then format_loop K junk a mtd ui novtbl ebs v' u' else Some (False, v', u')
      })"

text \<open>\<open>alloc\<close> says which of the three allocations succeed; \<open>True\<close> is the code's 0.\<close>

definition ubi_format ::
  "'k kernel \<Rightarrow> (nat \<Rightarrow> bool) \<Rightarrow> byte list \<Rightarrow> ubi_args \<Rightarrow> mtd_dev_info \<Rightarrow> ubigen_info \<Rightarrow> int \<Rightarrow> bool
     \<Rightarrow> 'k ufmt \<Rightarrow> (bool \<times> 'k ufmt) option" where
  "ubi_format K alloc junk a mtd ui start_eb novtbl u =
     (if mtd_subpage_size mtd = 0 then None
      else if \<not> alloc 0 then Some (False, u)
      else do {
        (ok, v, u1) \<leftarrow> format_loop K junk a mtd ui novtbl [start_eb..mtd_eb_cnt mtd - 1]
                         \<lparr> ve_eb1 = -1, ve_ec1 = -1, ve_eb2 = -1, ve_ec2 = -1 \<rparr> u;
        if \<not> ok then Some (False, u1)
        else if novtbl then Some (True, u1)
        else if ve_eb1 v = -1 \<or> ve_eb2 v = -1 then Some (False, u1)
        else case ubigen_create_empty_vtbl (alloc 1) ui of
          None \<Rightarrow> Some (False, u1)
        | Some vtbl \<Rightarrow>
            let (e, k) = ubigen_write_layout_vol K (alloc 2) ui (ve_eb1 v) (ve_eb2 v) (ve_ec1 v) (ve_ec2 v)
                           vtbl (snd (uf_st u1))
            in Some (e = None, u1 \<lparr> uf_st := (fst (uf_st u1), k) \<rparr>)
      })"

subsection \<open>The program\<close>

text \<open>
  What \<^verbatim>\<open>ubiformat_main\<close> learns from libmtd, libubi and the system before it touches the device:
  whether \<^verbatim>\<open>libmtd_open\<close> succeeds, a random number, \<^verbatim>\<open>mtd_get_info\<close> (\<open>None\<close>: it fails) with its
  \<^verbatim>\<open>sysfs_supported\<close>, \<^verbatim>\<open>mtd_get_dev_info\<close> of the node, whether the node opens, and whether
  \<^verbatim>\<open>mtd_num2ubi_dev\<close> finds an UBI device attached.
\<close>

record ubi_env =
  ue_libmtd :: bool
  ue_rand :: u32
  ue_sysfs :: "bool option"
  ue_dev :: "string \<Rightarrow> mtd_dev_info option"
  ue_node_opens :: bool
  ue_attached :: bool

definition ubiformat_subpage ::
  "bool \<Rightarrow> ubi_args \<Rightarrow> mtd_dev_info \<Rightarrow> (ubi_args \<times> mtd_dev_info) option" where
  "ubiformat_subpage sysfs a mtd =
     (let sub = ua_subpage_size a;
          set = (if \<not> sysfs then sub \<noteq> 0 else sub \<noteq> 0 \<and> sub \<noteq> mtd_subpage_size mtd);
          a' = (if set then a \<lparr> ua_manual_subpage := True \<rparr> else a);
          mtd' = (if set then mtd \<lparr> mtd_subpage_size := sub \<rparr> else mtd)
      in if ua_manual_subpage a' \<and> (sub > mtd_min_io_size mtd \<or> c_mod (mtd_min_io_size mtd) sub \<noteq> 0)
         then None else Some (a', mtd'))"

text \<open>The checks before the scan: \<open>None\<close> is an exit with -1.\<close>

definition ubiformat_prepare :: "ubi_env \<Rightarrow> ubi_args \<Rightarrow> (ubi_args \<times> mtd_dev_info) option" where
  "ubiformat_prepare env a = do {
     sysfs \<leftarrow> ue_sysfs env;
     mtd \<leftarrow> ue_dev env (ua_node a);
     (if \<not> is_power_of_2 (word_of_int (mtd_min_io_size mtd)) then None else Some ());
     (a', mtd') \<leftarrow> ubiformat_subpage sysfs a mtd;
     (if \<not> ue_node_opens env then None else Some ());
     (if ua_vid_hdr_offs a' \<noteq> 0
        \<and> (c_mod (ua_vid_hdr_offs a') 8 \<noteq> 0 \<or> ua_vid_hdr_offs a' + 64 > mtd_eb_size mtd') then None
      else Some ());
     (if \<not> mtd_writable mtd' then None else Some ());
     (if \<not> ua_no_detach_check a' \<and> ue_attached env then None else Some ());
     Some (a', mtd')
   }"

text \<open>\<^verbatim>\<open>want_exit\<close>, asked only without \<^verbatim>\<open>-y\<close>. The flag tells whether to go on.\<close>

definition confirm :: "'k kernel \<Rightarrow> ubi_args \<Rightarrow> 'k \<Rightarrow> (bool \<times> 'k) option" where
  "confirm K a k = (if ua_yes a then Some (True, k) else prompt K False k)"

text \<open>
  The erase counter policy. The code computes the percentage of good eraseblocks with a valid
  counter in floating point and truncates; it is compared with 50 and 95 only, where the
  truncated quotient agrees.
\<close>

definition ubiformat_ec_policy ::
  "'k kernel \<Rightarrow> ubi_args \<Rightarrow> ubi_scan_info \<Rightarrow> 'k \<Rightarrow> (ubi_args option \<times> 'k) option" where
  "ubiformat_ec_policy K a si k =
     (if \<not> ua_override_ec a \<and> si_empty_cnt si < si_good_cnt si then
        let percent = si_ok_cnt si * 100 div si_good_cnt si
        in if percent < 50 then do {
             (go, k') \<leftarrow> confirm K a k;
             Some (if go then Some (a \<lparr> ua_ec := 0, ua_override_ec := True \<rparr>) else None, k')
           }
           else if percent < 95 then do {
             (go, k') \<leftarrow> confirm K a k;
             Some (if go then Some (a \<lparr> ua_ec := si_mean_ec si, ua_override_ec := True \<rparr>) else None, k')
           }
           else Some (Some a, k)
      else Some (Some a, k))"

text \<open>
  \<^verbatim>\<open>print_bad_eraseblocks\<close>: the text for the display, and the numbers printed behind the message. \<open>None\<close>
  where \<^verbatim>\<open>sprintf\<close> writes behind the end of the array \<^verbatim>\<open>info\<close> of 30 bytes.
\<close>

definition bad_info :: "int \<Rightarrow> string" where
  "bad_info n = ''Bad blocks: '' @ fmt_d n @ '' (uncritical, when no changes)''"

fun bad_numbers :: "u32 list \<Rightarrow> int list \<Rightarrow> bool \<Rightarrow> string" where
  "bad_numbers ec [] first = ''''"
| "bad_numbers ec (eb # ebs) first =
     (if ec ! nat eb \<noteq> EB_BAD then bad_numbers ec ebs first
      else if first then fmt_d eb @ bad_numbers ec ebs False
      else '', '' @ fmt_d eb @ bad_numbers ec ebs first)"

definition print_bad_eraseblocks :: "mtd_dev_info \<Rightarrow> ubi_scan_info \<Rightarrow> string option" where
  "print_bad_eraseblocks mtd si =
     (if si_bad_cnt si = 0 then Some ''''
      else let info = bad_info (si_bad_cnt si)
           in if length info + 1 > 30 then None
              else Some (bad_numbers (si_ec si) [0..mtd_eb_cnt mtd - 1] True))"

lemma print_bad_overflows:
  "print_bad_eraseblocks mtd si = (if si_bad_cnt si = 0 then Some '''' else None)"
  by (simp add: print_bad_eraseblocks_def bad_info_def)

definition ubiformat_checks ::
  "'k kernel \<Rightarrow> ubi_args \<Rightarrow> mtd_dev_info \<Rightarrow> ubi_scan_info \<Rightarrow> 'k \<Rightarrow> (ubi_args option \<times> 'k) option" where
  "ubiformat_checks K a mtd si k =
     (if si_good_cnt si = 0 then Some (None, k)
      else if si_good_cnt si < 2 \<and> (\<not> ua_novtbl a \<or> ua_image a \<noteq> None) then Some (None, k)
      else do {
        _ \<leftarrow> (if ua_quiet a then Some '''' else print_bad_eraseblocks mtd si);
        (go, k') \<leftarrow> (if si_alien_cnt si \<noteq> 0 then confirm K a k else Some (True, k));
        if \<not> go then Some (None, k') else ubiformat_ec_policy K a si k'
      })"

definition ubiformat_geometry ::
  "'k kernel \<Rightarrow> ubi_args \<Rightarrow> mtd_dev_info \<Rightarrow> ubi_scan_info \<Rightarrow> 'k \<Rightarrow> (ubigen_info \<times> 'k) option" where
  "ubiformat_geometry K a mtd si k = do {
     ui \<leftarrow> ubigen_info_init (mtd_eb_size mtd) (mtd_min_io_size mtd) (mtd_subpage_size mtd)
             (ua_vid_hdr_offs a) (ua_ubi_ver a) (ua_image_seq a);
     if si_vid_hdr_offs si \<noteq> -1 \<and> ui_vid_hdr_offs ui \<noteq> si_vid_hdr_offs si then do {
       (go, k') \<leftarrow> confirm K a k;
       if go then Some (ui, k')
       else do {
         ui' \<leftarrow> ubigen_info_init (mtd_eb_size mtd) (mtd_min_io_size mtd) 0 (si_vid_hdr_offs si)
                  (ua_ubi_ver a) (ua_image_seq a);
         Some (ui', k')
       }
     } else Some (ui, k)
   }"

definition ubiformat_write ::
  "'k kernel \<Rightarrow> (nat \<Rightarrow> bool) \<Rightarrow> byte list \<Rightarrow> ubi_args \<Rightarrow> mtd_dev_info \<Rightarrow> ubigen_info \<Rightarrow> 'k ufmt
     \<Rightarrow> (bool \<times> 'k ufmt) option" where
  "ubiformat_write K alloc junk a mtd ui u =
     (if ua_image a \<noteq> None then do {
        (r, u1) \<leftarrow> flash_image K junk a mtd ui u;
        case r of
          None \<Rightarrow> Some (False, u1)
        | Some start \<Rightarrow>
            if start < 0 then Some (False, u1)
            else ubi_format K alloc junk a mtd ui start True u1
      } else ubi_format K alloc junk a mtd ui 0 (ua_novtbl a) u)"

text \<open>
  \<^verbatim>\<open>ubiformat_main\<close>, on the statics of earlier calls: the arguments \<open>a0\<close> and the two of
  \<^verbatim>\<open>consecutive_bad_check\<close>. The outcome is the returned value or an \<^verbatim>\<open>exit\<close>. \<open>alloc\<close> says which
  allocations succeed: 0 to 2 those of \<^verbatim>\<open>format\<close>, 3 and 4 those of \<^verbatim>\<open>ubi_scan\<close>; \<open>junk\<close> and
  \<open>ech\<close> are uninitialised buffers.
\<close>

datatype outcome = Returns int | Exits int

definition ubiformat_run ::
  "'k kernel \<Rightarrow> (nat \<Rightarrow> bool) \<Rightarrow> byte list \<Rightarrow> byte list \<Rightarrow> ubi_args \<Rightarrow> mtd_dev_info \<Rightarrow> int \<times> int
     \<Rightarrow> 'k st \<Rightarrow> (bool \<times> (int \<times> int) \<times> 'k st) option" where
  "ubiformat_run K alloc junk ech a mtd statics st = do {
     (r, st1) \<leftarrow> ubi_scan K (alloc 3) (alloc 4) ech mtd st;
     case r of
       None \<Rightarrow> Some (False, statics, st1)
     | Some si \<Rightarrow> do {
         (r2, k2) \<leftarrow> ubiformat_checks K a mtd si (snd st1);
         case r2 of
           None \<Rightarrow> Some (False, statics, fst st1, k2)
         | Some a' \<Rightarrow> do {
             (ui, k3) \<leftarrow> ubiformat_geometry K a' mtd si k2;
             (ok, u) \<leftarrow> ubiformat_write K alloc junk a' mtd ui
               \<lparr> uf_si = si, uf_consecutive = fst statics, uf_prev_bb = snd statics, uf_st = (fst st1, k3) \<rparr>;
             Some (ok, (uf_consecutive u, uf_prev_bb u), uf_st u)
           }
       }
   }"

definition ubiformat_main ::
  "'k kernel \<Rightarrow> ubi_env \<Rightarrow> (nat \<Rightarrow> bool) \<Rightarrow> byte list \<Rightarrow> byte list \<Rightarrow> string list \<Rightarrow> ubi_args \<Rightarrow> int \<times> int
     \<Rightarrow> 'k st \<Rightarrow> (outcome \<times> (int \<times> int) \<times> 'k st) option" where
  "ubiformat_main K env alloc junk ech argv a0 statics st =
     (if \<not> ue_libmtd env then Some (Returns (-1), statics, st)
      else case ubiformat_parse_opt (ue_rand env) argv a0 of
        ParseError \<Rightarrow> Some (Returns (-1), statics, st)
      | ParseExit \<Rightarrow> Some (Exits 0, statics, st)
      | Parsed a \<Rightarrow>
          (case ubiformat_prepare env a of
             None \<Rightarrow> Some (Returns (-1), statics, st)
           | Some (a', mtd) \<Rightarrow> do {
               (ok, statics', st') \<leftarrow> ubiformat_run K alloc junk ech a' mtd statics st;
               Some (Returns (if ok then 0 else -1), statics', st')
             }))"

end
