(* ===== verification/EraseblockFrame.thy ===== *)
theory EraseblockFrame
  imports Libmtd
begin

text \<open>
  Which eraseblocks the operations of libmtd can change. \<open>frame_kernel K mtd S P\<close> is what a driver
  promises: a system call that addresses an eraseblock of \<open>S\<close>, or none, keeps the property \<open>P\<close> of
  the device (say, the contents of an eraseblock outside \<open>S\<close>). Every operation on an eraseblock of
  \<open>S\<close> then keeps \<open>P\<close>; the tools are shown to call no other.
\<close>

definition in_block :: "mtd_dev_info \<Rightarrow> int \<Rightarrow> bool" where
  "in_block mtd eb \<longleftrightarrow> 0 \<le> eb \<and> eb < mtd_eb_cnt mtd"

definition frame_kernel :: "'k kernel \<Rightarrow> mtd_dev_info \<Rightarrow> int set \<Rightarrow> ('k \<Rightarrow> bool) \<Rightarrow> bool" where
  "frame_kernel K mtd S P \<longleftrightarrow>
     (\<forall>k. P k \<longrightarrow>
        P (snd (k_getline K k)) \<and> P (snd (k_img_stat K k)) \<and> P (snd (k_img_open K k))
        \<and> (\<forall>n. P (snd (k_img_read K n k))) \<and> (\<forall>n. P (snd (k_read K n k)))
        \<and> (\<forall>n. P (snd (k_lseek K n k))) \<and> (\<forall>n. P (snd (k_getbadblock K n k)))
        \<and> (\<forall>eb \<in> S. in_block mtd eb \<longrightarrow>
             P (snd (k_memerase64 K (word_of_int (eb * mtd_eb_size mtd)) (word_of_int (mtd_eb_size mtd)) k))
             \<and> P (snd (k_memerase K (word_of_int (eb * mtd_eb_size mtd)) (word_of_int (mtd_eb_size mtd)) k))
             \<and> P (snd (k_setbadblock K (eb * mtd_eb_size mtd) k))
             \<and> (\<forall>offs d k1. 0 \<le> offs \<longrightarrow> offs + int (length d) \<le> mtd_eb_size mtd
                  \<longrightarrow> k_lseek K (eb * mtd_eb_size mtd + offs) k = (eb * mtd_eb_size mtd + offs, k1)
                  \<longrightarrow> P (snd (k_write K d k1)))))"

named_theorems keeps \<open>operations that keep a property of the device\<close>

lemma frame_kernelD:
  assumes "frame_kernel K mtd S P" "P k"
  shows "P (snd (k_getline K k))" "P (snd (k_img_stat K k))" "P (snd (k_img_open K k))"
    "P (snd (k_img_read K n k))" "P (snd (k_read K n k))" "P (snd (k_lseek K s k))"
    "P (snd (k_getbadblock K s k))"
    "eb \<in> S \<Longrightarrow> in_block mtd eb \<Longrightarrow>
       P (snd (k_memerase64 K (word_of_int (eb * mtd_eb_size mtd)) (word_of_int (mtd_eb_size mtd)) k))"
    "eb \<in> S \<Longrightarrow> in_block mtd eb \<Longrightarrow>
       P (snd (k_memerase K (word_of_int (eb * mtd_eb_size mtd)) (word_of_int (mtd_eb_size mtd)) k))"
    "eb \<in> S \<Longrightarrow> in_block mtd eb \<Longrightarrow> P (snd (k_setbadblock K (eb * mtd_eb_size mtd) k))"
    "eb \<in> S \<Longrightarrow> in_block mtd eb \<Longrightarrow> 0 \<le> offs \<Longrightarrow> offs + int (length d) \<le> mtd_eb_size mtd
       \<Longrightarrow> k_lseek K (eb * mtd_eb_size mtd + offs) k = (eb * mtd_eb_size mtd + offs, k1)
       \<Longrightarrow> P (snd (k_write K d k1))"
proof -
  note A = assms(1) [unfolded frame_kernel_def, rule_format, OF assms(2)]
  note B = A [THEN conjunct2, THEN conjunct2, THEN conjunct2, THEN conjunct2, THEN conjunct2,
      THEN conjunct2, THEN conjunct2, rule_format]
  show "P (snd (k_getline K k))" "P (snd (k_img_stat K k))" "P (snd (k_img_open K k))"
    "P (snd (k_img_read K n k))" "P (snd (k_read K n k))" "P (snd (k_lseek K s k))"
    "P (snd (k_getbadblock K s k))"
    using A by simp_all
  show "eb \<in> S \<Longrightarrow> in_block mtd eb \<Longrightarrow>
       P (snd (k_memerase64 K (word_of_int (eb * mtd_eb_size mtd)) (word_of_int (mtd_eb_size mtd)) k))"
    by (rule B [THEN conjunct1])
  show "eb \<in> S \<Longrightarrow> in_block mtd eb \<Longrightarrow>
       P (snd (k_memerase K (word_of_int (eb * mtd_eb_size mtd)) (word_of_int (mtd_eb_size mtd)) k))"
    by (rule B [THEN conjunct2, THEN conjunct1])
  show "eb \<in> S \<Longrightarrow> in_block mtd eb \<Longrightarrow> P (snd (k_setbadblock K (eb * mtd_eb_size mtd) k))"
    by (rule B [THEN conjunct2, THEN conjunct2, THEN conjunct1])
  show "eb \<in> S \<Longrightarrow> in_block mtd eb \<Longrightarrow> 0 \<le> offs \<Longrightarrow> offs + int (length d) \<le> mtd_eb_size mtd
       \<Longrightarrow> k_lseek K (eb * mtd_eb_size mtd + offs) k = (eb * mtd_eb_size mtd + offs, k1)
       \<Longrightarrow> P (snd (k_write K d k1))"
    using B [THEN conjunct2, THEN conjunct2, THEN conjunct2] by simp
qed

lemma mtd_valid_erase_block_None [simp]:
  "mtd_valid_erase_block mtd eb = None \<longleftrightarrow> in_block mtd eb"
  by (auto simp: mtd_valid_erase_block_def in_block_def)

lemma mtd_valid_erase_block_in [simp]: "in_block mtd eb \<Longrightarrow> mtd_valid_erase_block mtd eb = None"
  by simp

lemma ucast_word_of_int_32: "(ucast (word_of_int x :: u64) :: u32) = word_of_int x"
  by (rule bit_word_eqI) (simp add: bit_simps)

lemma mtd_erase_keeps [keeps]:
  assumes "frame_kernel K mtd S P" "eb \<in> S" "P (snd st)" "mtd_erase K mtd eb st = (r, st')"
  shows "P (snd st')"
proof (cases "in_block mtd eb")
  case True
  define s where "s = eb * mtd_eb_size mtd"
  define l where "l = mtd_eb_size mtd"
  note D = frame_kernelD(8,9) [OF assms(1) _ assms(2) True, folded s_def l_def]
  have sl: "eb * l = s"
    by (simp add: s_def l_def)
  obtain r1 k1 where e1: "k_memerase64 K (word_of_int s) (word_of_int l) (snd st) = (r1, k1)"
    by fastforce
  obtain r2 k2 where e2: "k_memerase K (word_of_int s) (word_of_int l) (snd st) = (r2, k2)"
    by fastforce
  obtain r3 k3 where e3: "k_memerase K (word_of_int s) (word_of_int l) k1 = (r3, k3)"
    by fastforce
  have P: "P k1" "P k2" "P k3"
    using D(1) [of "snd st"] D(2) [of "snd st"] D(2) [of k1] assms(3) e1 e2 e3 by simp_all
  show ?thesis
    using assms(3,4) True P e1 e2 e3
    by (cases st) (simp add: mtd_erase_def mtd_erase32_def Let_def ucast_word_of_int_32
        l_def [symmetric] sl del: of_int_mult split: option.splits if_splits, auto)
next
  case False
  then show ?thesis
    using assms(3,4) by (auto simp: mtd_erase_def split: option.splits)
qed

lemma mtd_is_bad_keeps [keeps]:
  assumes "frame_kernel K mtd S P" "P (snd st)" "mtd_is_bad K mtd eb st = (r, st')"
  shows "P (snd st')"
  using assms(2,3)
  by (auto simp: mtd_is_bad_def Let_def split: option.splits prod.splits if_splits)
    (metis frame_kernelD(7) [OF assms(1)] snd_conv)

lemma mtd_mark_bad_keeps [keeps]:
  assumes "frame_kernel K mtd S P" "eb \<in> S" "P (snd st)" "mtd_mark_bad K mtd eb st = (r, st')"
  shows "P (snd st')"
  using assms(3,4)
  by (auto simp: mtd_mark_bad_def Let_def split: option.splits prod.splits if_splits)
    (metis frame_kernelD(10) [OF assms(1) _ assms(2)] snd_conv)

lemma mtd_read_loop_keeps:
  assumes "mtd_read_loop K len buf rd k = Some y" "frame_kernel K mtd S P" "P k"
  shows "P (snd (snd y))"
proof -
  have "frame_kernel K mtd S P \<longrightarrow> P k \<longrightarrow> P (snd (snd y))"
    using assms(1)
  proof (rule mtd_read_loop.raw_induct [rotated, where P = "\<lambda>K len buf rd k y.
        frame_kernel K mtd S P \<longrightarrow> P k \<longrightarrow> P (snd (snd y))"])
    fix loop :: "'a kernel \<Rightarrow> nat \<Rightarrow> byte list \<Rightarrow> nat \<Rightarrow> 'a \<Rightarrow> (errno option \<times> byte list \<times> 'a) option"
      and K len buf rd k y
    assume "\<And>K len buf rd k y. loop K len buf rd k = Some y \<Longrightarrow>
        frame_kernel K mtd S P \<longrightarrow> P k \<longrightarrow> P (snd (snd y))"
      and "(if rd < len
          then case k_read K len k of
               (ReadErr e, k') \<Rightarrow> Some (Some e, buf, k')
             | (Bytes d, k') \<Rightarrow> loop K len (store_at 0 d buf) (rd + length d) k'
          else Some (None, buf, k)) = Some y"
    then show "frame_kernel K mtd S P \<longrightarrow> P k \<longrightarrow> P (snd (snd y))"
      using frame_kernelD(5) [of K mtd S P k len]
      by (cases "k_read K len k") (auto split: if_splits rd.splits)
  qed
  with assms show ?thesis by blast
qed

lemma mtd_read_keeps [keeps]:
  assumes "frame_kernel K mtd S P" "P (snd st)" "mtd_read K mtd eb offs buf len st = Some (r, buf', st')"
  shows "P (snd st')"
proof -
  obtain n k1 where s: "k_lseek K (eb * mtd_eb_size mtd + offs) (snd st) = (n, k1)"
    by fastforce
  then have "P k1"
    using frame_kernelD(6) [OF assms(1,2), of "eb * mtd_eb_size mtd + offs"] by simp
  moreover have "P k2" if "mtd_read_loop K len buf 0 k1 = Some (e, b, k2)" for e b k2
    using mtd_read_loop_keeps [OF that assms(1) \<open>P k1\<close>] by simp
  ultimately show ?thesis
    using assms(2,3) s
    by (auto simp: mtd_read_def Let_def bind_eq_Some_conv split: option.splits if_splits)
qed

lemma mtd_write_data_keeps:
  assumes "frame_kernel K mtd S P" "eb \<in> S" "in_block mtd eb" "P k"
    and "0 \<le> offs" "offs + int (length d) \<le> mtd_eb_size mtd"
    and "mtd_write_data K (eb * mtd_eb_size mtd + offs) d k = (r, k')"
  shows "P k'"
proof -
  obtain n k1 where s: "k_lseek K (eb * mtd_eb_size mtd + offs) k = (n, k1)"
    by fastforce
  then have "P k1"
    using frame_kernelD(6) [OF assms(1,4), of "eb * mtd_eb_size mtd + offs"] by simp
  moreover have "P (snd (k_write K d k1))" if "n = eb * mtd_eb_size mtd + offs"
    using frame_kernelD(11) [OF assms(1,4,2,3,5,6)] s that by simp
  ultimately show ?thesis
    using assms(7) s by (auto simp: mtd_write_data_def split: prod.splits if_splits sum.splits)
qed

text \<open>Writes without OOB data, the way the UBI tools write.\<close>

lemma mtd_write_keeps [keeps]:
  assumes "frame_kernel K mtd S P" "eb \<in> S" "P (snd st)" "length d \<le> len"
    and "mtd_write K mtd eb offs (Some d) len None mode st = Some (r, st')"
  shows "P (snd st')"
proof (cases "in_block mtd eb \<and> 0 \<le> offs \<and> offs + int len \<le> mtd_eb_size mtd")
  case True
  obtain r1 k1 where w: "mtd_write_data K (eb * mtd_eb_size mtd + offs) d (snd st) = (r1, k1)"
    by fastforce
  have "P k1"
    using True assms(4) by (intro mtd_write_data_keeps [OF assms(1,2) _ assms(3) _ _ w]) auto
  then show ?thesis
    using assms(3,5) w by (simp add: mtd_write_def Let_def split: option.splits if_splits) auto
next
  case False
  then show ?thesis
    using assms(3,5) by (simp add: mtd_write_def Let_def split: option.splits if_splits)
qed

lemma torture_round_keeps:
  assumes F: "frame_kernel K mtd S P" "eb \<in> S" and P: "P (snd st)"
    and run: "torture_round K mtd eb patt buf st = Some (failed, buf', st')"
  shows "P (snd st')"
proof -
  let ?n = "nat (mtd_eb_size mtd)"
  obtain e1 st1 where 1: "mtd_erase K mtd eb st = (e1, st1)"
    by (cases "mtd_erase K mtd eb st") blast
  have P1: "P (snd st1)" by (rule mtd_erase_keeps [OF F P 1])
  show ?thesis
  proof (cases "e1 = None")
    case False
    then show ?thesis using run 1 P1 by (simp add: torture_round_def)
  next
    case True
    then obtain e2 buf2 st2 where 2: "mtd_read K mtd eb 0 buf ?n st1 = Some (e2, buf2, st2)"
      using run 1 by (auto simp: torture_round_def Let_def bind_eq_Some_conv)
    have P2: "P (snd st2)" by (rule mtd_read_keeps [OF F(1) P1 2])
    show ?thesis
    proof (cases "e2 = None \<and> check_pattern buf2 0xFF")
      case False
      then show ?thesis
        using run 1 True 2 P2 by (auto simp: torture_round_def Let_def split: if_splits)
    next
      case checked: True
      then obtain e3 st3 where
        3: "mtd_write K mtd eb 0 (Some (replicate ?n patt)) ?n None 0 st2 = Some (e3, st3)"
        using run 1 True 2 by (auto simp: torture_round_def Let_def bind_eq_Some_conv)
      have P3: "P (snd st3)" by (rule mtd_write_keeps [OF F P2 _ 3]) simp
      have "\<exists>e4 buf4. (e3 = None \<longrightarrow> mtd_read K mtd eb 0 (replicate ?n (NOT patt)) ?n st3 = Some (e4, buf4, st'))
          \<and> (e3 \<noteq> None \<longrightarrow> st' = st3)"
        using run 1 True 2 checked 3
        by (auto simp: torture_round_def Let_def bind_eq_Some_conv split: if_splits)
      then show ?thesis
        using P3 by (cases "e3 = None") (auto dest: mtd_read_keeps [OF F(1) P3])
    qed
  qed
qed

lemma torture_rounds_keeps:
  assumes F: "frame_kernel K mtd S P" "eb \<in> S"
  shows "torture_rounds K mtd eb ps buf st = Some (failed, st') \<Longrightarrow> P (snd st) \<Longrightarrow> P (snd st')"
proof (induction ps arbitrary: buf st)
  case (Cons p ps)
  from Cons.prems(1) obtain f buf1 st1
    where r: "torture_round K mtd eb p buf st = Some (f, buf1, st1)"
    by (auto simp: bind_eq_Some_conv)
  have "P (snd st1)"
    by (rule torture_round_keeps [OF F Cons.prems(2) r])
  then show ?case
    using Cons.IH Cons.prems(1) r by (auto split: if_splits)
qed simp

lemma mtd_torture_keeps [keeps]:
  assumes "frame_kernel K mtd S P" "eb \<in> S" "P (snd st)" "mtd_torture K mtd eb buf st = Some (r, st')"
  shows "P (snd st')"
proof -
  obtain f where "torture_rounds K mtd eb torture_patterns buf st = Some (f, st')"
    using assms(4) by (auto simp: mtd_torture_def bind_eq_Some_conv)
  then show ?thesis
    by (rule torture_rounds_keeps [OF assms(1,2) _ assms(3)])
qed

lemma prompt_keeps [keeps]:
  assumes "prompt K d k = Some y" "frame_kernel K mtd S P" "P k"
  shows "P (snd y)"
proof -
  have "frame_kernel K mtd S P \<longrightarrow> P k \<longrightarrow> P (snd y)"
    using assms(1)
  proof (rule prompt.raw_induct [rotated, where P = "\<lambda>K d k y.
        frame_kernel K mtd S P \<longrightarrow> P k \<longrightarrow> P (snd y)"])
    fix loop :: "'a kernel \<Rightarrow> bool \<Rightarrow> 'a \<Rightarrow> (bool \<times> 'a) option" and K d k y
    assume "\<And>K d k y. loop K d k = Some y \<Longrightarrow> frame_kernel K mtd S P \<longrightarrow> P k \<longrightarrow> P (snd y)"
      and "(case k_getline K k of
          (None, k') \<Rightarrow> None
        | (Some line, k') \<Rightarrow>
            if line = [CHR 0x0A] then Some (d, k')
            else if rpmatch line = 0 then Some (False, k')
            else if rpmatch line = 1 then Some (True, k')
            else loop K d k') = Some y"
    then show "frame_kernel K mtd S P \<longrightarrow> P k \<longrightarrow> P (snd y)"
      using frame_kernelD(1) [of K mtd S P k]
      by (cases "k_getline K k") (auto split: if_splits option.splits)
  qed
  with assms show ?thesis by blast
qed

end
