(* ===== verification/LibubigenProps.thy ===== *)
theory LibubigenProps
  imports Libubigen
begin

text \<open>
  What \<^verbatim>\<open>libubigen\<close> promises: the geometry it computes leaves room for the headers and the volume
  table, and every structure it writes carries a checksum that a reader accepts.
\<close>

subsection \<open>Geometry\<close>

text \<open>An eraseblock holds the EC header, the VID header and the table without overlap.\<close>

definition wf_ubigen_info :: "ubigen_info \<Rightarrow> bool" where
  "wf_ubigen_info ui \<longleftrightarrow>
     64 \<le> ui_vid_hdr_offs ui \<and> ui_vid_hdr_offs ui + 64 \<le> ui_data_offs ui
     \<and> ui_leb_size ui = ui_peb_size ui - ui_data_offs ui
     \<and> 0 \<le> ui_max_volumes ui \<and> ui_max_volumes ui \<le> UBI_MAX_VOLUMES
     \<and> ui_vtbl_size ui = ui_max_volumes ui * 172 \<and> ui_vtbl_size ui \<le> ui_leb_size ui"

lemma c_int_c_uint: "0 \<le> x \<Longrightarrow> x < 2 ^ 31 \<Longrightarrow> c_int (c_uint x) = x"
  by simp

lemma ubigen_vid_hdr_offs_default:
  assumes "0 < sub" "sub \<le> 2 ^ 28"
  shows "ubigen_vid_hdr_offs sub 0 = Some ((64 + sub - 1) div sub * sub)"
  using assms by (simp add: ubigen_vid_hdr_offs_def)

lemma ubigen_info_init_aux:
  assumes sub: "0 < sub" "sub \<le> 2 ^ 28" and io: "0 < min_io" "min_io \<le> 2 ^ 28"
    and peb: "peb < 2 ^ 31" "sub + min_io + 128 \<le> peb"
  shows "\<exists>ui. ubigen_info_init peb min_io sub 0 ver seq = Some ui \<and> wf_ubigen_info ui
    \<and> ui_vid_hdr_offs ui mod sub = 0 \<and> ui_vid_hdr_offs ui < 64 + sub
    \<and> ui_data_offs ui mod min_io = 0 \<and> ui_data_offs ui < ui_vid_hdr_offs ui + 64 + min_io
    \<and> ui_peb_size ui = peb \<and> ui_image_seq ui = seq \<and> ui_ubi_ver ui = ver"
proof -
  define vid where "vid = (64 + sub - 1) div sub * sub"
  have vid: "64 \<le> vid" "vid < 64 + sub" "vid mod sub = 0"
    using round_up_ge [OF sub(1), of 64] round_up_less [OF sub(1), of 64] by (simp_all add: vid_def)
  define data where "data = (vid + 64 + min_io - 1) div min_io * min_io"
  have data: "vid + 64 \<le> data" "data < vid + 64 + min_io" "data mod min_io = 0"
    using round_up_ge [OF io(1), of "vid + 64"] round_up_less [OF io(1), of "vid + 64"]
    by (simp_all add: data_def)
  define leb where "leb = peb - data"
  have leb: "0 \<le> leb" "leb < 2 ^ 31"
    using data vid peb by (simp_all add: leb_def)
  define vols where "vols = min (leb div 172) 128"
  have vols: "0 \<le> vols" "vols \<le> 128" "vols * 172 \<le> leb"
    using leb(1) by (auto simp: vols_def min_def)
  define ui where "ui = \<lparr> ui_leb_size = leb, ui_peb_size = peb, ui_min_io_size = min_io,
      ui_vid_hdr_offs = vid, ui_data_offs = data, ui_ubi_ver = ver,
      ui_vtbl_size = vols * 172, ui_max_volumes = vols, ui_image_seq = seq \<rparr>"
  have offs: "c_div (c_int (c_uint (c_uint vid + 64 + c_uint min_io - 1))) min_io * min_io = data"
  proof -
    have c: "c_uint vid = vid" "c_uint min_io = min_io"
      using vid(1,2) io sub by (simp_all add: c_uint_id)
    have "c_int (c_uint (vid + 64 + min_io - 1)) = vid + 64 + min_io - 1"
      using vid(1,2) io sub by (intro c_int_c_uint) simp_all
    moreover have "0 \<le> vid + 64 + min_io - 1" "0 \<le> min_io"
      using vid(1) io by simp_all
    ultimately show ?thesis
      by (simp only: c c_div_nonneg data_def)
  qed
  have vol: "c_int (c_uint leb div 172) = leb div 172" "c_int (c_uint (vols * 172)) = vols * 172"
  proof -
    have "c_uint leb = leb"
      using leb by (intro c_uint_id) simp_all
    moreover have "c_int (leb div 172) = leb div 172"
      using leb by (intro c_int_id) simp_all
    ultimately show "c_int (c_uint leb div 172) = leb div 172"
      by simp
    show "c_int (c_uint (vols * 172)) = vols * 172"
      using vols by (intro c_int_c_uint) simp_all
  qed
  have max: "(if leb div 172 > UBI_MAX_VOLUMES then UBI_MAX_VOLUMES else leb div 172) = vols"
    by (simp add: UBI_MAX_VOLUMES_def vols_def min_def)
  have vd: "ubigen_vid_hdr_offs sub 0 = Some vid"
    by (simp only: ubigen_vid_hdr_offs_default [OF sub] vid_def)
  have init: "ubigen_info_init peb min_io sub 0 ver seq = Some ui"
    unfolding ubigen_info_init_def vd option.case Let_def offs leb_def [symmetric] vol(1) max vol(2) ui_def
    using io(1) by simp
  have wf: "wf_ubigen_info ui"
    using vid data vols by (simp add: ui_def wf_ubigen_info_def leb_def UBI_MAX_VOLUMES_def)
  show ?thesis
    using init wf vid data by (simp add: ui_def)
qed

subsection \<open>Sealed structures\<close>

lemma wf_ubigen_init_ec_hdr [simp, wf_intros]: "wf_ec_hdr (ubigen_init_ec_hdr ui ec)"
  by (simp add: ubigen_init_ec_hdr_def wf_ec_hdr_def zero_ec_hdr_def Let_def)

lemma wf_ubigen_init_vid_hdr [simp, wf_intros]: "wf_vid_hdr (ubigen_init_vid_hdr ui vi lnum data)"
  by (simp add: ubigen_init_vid_hdr_def wf_vid_hdr_def zero_vid_hdr_def Let_def)

lemma ec_hdr_body_crc [simp]: "ec_hdr_body (h \<lparr> ech_hdr_crc := c \<rparr>) = ec_hdr_body h"
  by (simp add: ec_hdr_body_def)

lemma vid_hdr_body_crc [simp]: "vid_hdr_body (h \<lparr> vid_hdr_crc := c \<rparr>) = vid_hdr_body h"
  by (simp add: vid_hdr_body_def)

lemma vtbl_body_crc [simp]: "vtbl_body (r \<lparr> vtbl_crc := c \<rparr>) = vtbl_body r"
  by (simp add: vtbl_body_def)

text \<open>A structure is sealed when its last field is the checksum of the bytes before it.\<close>

definition ec_hdr_sealed :: "ubi_ec_hdr \<Rightarrow> bool" where
  "ec_hdr_sealed h \<longleftrightarrow> be32_to_cpu (ech_hdr_crc h) = ec_hdr_crc h"

definition vid_hdr_sealed :: "ubi_vid_hdr \<Rightarrow> bool" where
  "vid_hdr_sealed h \<longleftrightarrow> be32_to_cpu (vid_hdr_crc h) = vid_hdr_crc_of h"

definition vtbl_sealed :: "ubi_vtbl_record \<Rightarrow> bool" where
  "vtbl_sealed r \<longleftrightarrow> be32_to_cpu (vtbl_crc r) = vtbl_record_crc r"

lemma ubigen_init_ec_hdr_sealed [simp]: "ec_hdr_sealed (ubigen_init_ec_hdr ui ec)"
  by (simp add: ec_hdr_sealed_def ubigen_init_ec_hdr_def ec_hdr_crc_def Let_def)

lemma ubigen_init_ec_hdr_fields [simp]:
  "be32_to_cpu (ech_magic (ubigen_init_ec_hdr ui ec)) = UBI_EC_HDR_MAGIC"
  "be64_to_cpu (ech_ec (ubigen_init_ec_hdr ui ec)) = word_of_int ec"
  "be32_to_cpu (ech_vid_hdr_offset (ubigen_init_ec_hdr ui ec)) = word_of_int (ui_vid_hdr_offs ui)"
  "be32_to_cpu (ech_data_offset (ubigen_init_ec_hdr ui ec)) = word_of_int (ui_data_offs ui)"
  "be32_to_cpu (ech_image_seq (ubigen_init_ec_hdr ui ec)) = ui_image_seq ui"
  by (simp_all add: ubigen_init_ec_hdr_def Let_def)

lemma ubigen_init_vid_hdr_sealed [simp]: "vid_hdr_sealed (ubigen_init_vid_hdr ui vi lnum data)"
  by (simp add: vid_hdr_sealed_def ubigen_init_vid_hdr_def vid_hdr_crc_of_def Let_def)

lemma empty_vtbl_record_sealed [simp]:
  "vtbl_sealed (zero_vtbl_record \<lparr> vtbl_crc := cpu_to_be32 (vtbl_record_crc zero_vtbl_record) \<rparr>)"
  by (simp add: vtbl_sealed_def vtbl_record_crc_def)

text \<open>Adding a volume keeps every record of the table sealed and well-formed.\<close>

definition vtbl_ok :: "ubi_vtbl_record list \<Rightarrow> bool" where
  "vtbl_ok vtbl \<longleftrightarrow> list_all (\<lambda>r. wf_vtbl_record r \<and> vtbl_sealed r) vtbl"

lemma wf_vtbl_record_crc [simp]: "wf_vtbl_record (r \<lparr> vtbl_crc := c \<rparr>) = wf_vtbl_record r"
  by (simp add: wf_vtbl_record_def)

lemma vtbl_sealed_crc [simp]: "vtbl_sealed (r \<lparr> vtbl_crc := cpu_to_be32 (vtbl_record_crc r) \<rparr>)"
  by (simp add: vtbl_sealed_def vtbl_record_crc_def)

lemma empty_vtbl_ok: "ubigen_create_empty_vtbl al ui = Some vtbl \<Longrightarrow> vtbl_ok vtbl"
  by (auto simp: ubigen_create_empty_vtbl_def vtbl_ok_def list_all_iff split: if_splits)

lemma length_empty_vtbl:
  "ubigen_create_empty_vtbl al ui = Some vtbl \<Longrightarrow> length vtbl = nat (ui_max_volumes ui)"
  by (auto simp: ubigen_create_empty_vtbl_def split: if_splits)

lemma vtbl_ok_update: "vtbl_ok vtbl \<Longrightarrow> wf_vtbl_record r \<Longrightarrow> vtbl_sealed r \<Longrightarrow> vtbl_ok (vtbl[i := r])"
  by (auto simp: vtbl_ok_def list_all_iff dest!: subsetD [OF set_update_subset_insert])

lemma ubigen_add_volume_record:
  assumes "ubigen_add_volume ui vi vtbl = Inr vtbl'"
  shows "\<exists>r. vtbl' = vtbl[nat (vi_id vi) := r \<lparr> vtbl_crc := cpu_to_be32 (vtbl_record_crc r) \<rparr>]
    \<and> wf_vtbl_record r"
proof -
  have n: "vi_name_len vi \<le> 127" "vi_name_len vi \<le> int (length (vi_name vi))" "0 \<le> vi_name_len vi"
    using assms(1) by (auto simp: ubigen_add_volume_def split: if_splits)
  show ?thesis
    using assms n unfolding ubigen_add_volume_def Let_def
    by (auto split: if_splits intro!: exI simp: wf_vtbl_record_def zero_vtbl_record_def [THEN arg_cong [of _ _ vtbl_padding]])
qed

text \<open>What the record of the volume holds.\<close>

lemma ubigen_add_volume_fields:
  assumes "ubigen_add_volume ui vi vtbl = Inr vtbl'"
  shows "take (nat (vi_name_len vi)) (vtbl_name (vtbl' ! nat (vi_id vi))) = take (nat (vi_name_len vi)) (vi_name vi)
    \<and> be32_to_cpu (vtbl_alignment (vtbl' ! nat (vi_id vi))) = word_of_int (vi_alignment vi)
    \<and> be32_to_cpu (vtbl_reserved_pebs (vtbl' ! nat (vi_id vi)))
        = word_of_int (c_div (vi_bytes vi + ui_leb_size ui - 1) (ui_leb_size ui))"
  using assms by (auto simp: ubigen_add_volume_def Let_def split: if_splits)

lemma ubigen_add_volume_ok_aux:
  assumes "ubigen_add_volume ui vi vtbl = Inr vtbl'" "vtbl_ok vtbl"
  shows "vtbl_ok vtbl' \<and> length vtbl' = length vtbl
    \<and> (\<forall>i < length vtbl. i \<noteq> nat (vi_id vi) \<longrightarrow> vtbl' ! i = vtbl ! i)"
  using ubigen_add_volume_record [OF assms(1)] assms(2) by (auto intro!: vtbl_ok_update)

subsection \<open>The layout volume\<close>

lemma length_concat_vtbl: "vtbl_ok vtbl \<Longrightarrow> length (concat (map vtbl_bytes vtbl)) = 172 * length vtbl"
  by (induction vtbl) (auto simp: vtbl_ok_def)

lemma length_layout_outbuf:
  assumes "wf_ubigen_info ui" "vtbl_ok vtbl" "length vtbl = nat (ui_max_volumes ui)"
  shows "length (layout_outbuf ui vtbl) = nat (ui_peb_size ui)"
  using assms length_concat_vtbl [OF assms(2)]
  by (auto simp: layout_outbuf_def wf_ubigen_info_def)

lemma length_layout_peb:
  assumes "wf_ubigen_info ui" "vtbl_ok vtbl" "length vtbl = nat (ui_max_volumes ui)"
  shows "length (layout_peb ui vtbl ec lnum) = nat (ui_peb_size ui)"
  using length_layout_outbuf [OF assms] assms(1)
  by (auto simp: layout_peb_def wf_ubigen_info_def)

end
