(* ===== verification/UbiformatFrame.thy ===== *)
theory UbiformatFrame
  imports Ubiformat EraseblockFrame LibubigenProps
begin

text \<open>
  \<^verbatim>\<open>ubiformat\<close> leaves the eraseblocks alone that its scan table calls bad: flashing and formatting
  keep every property of the device that the system calls on the other eraseblocks keep.
\<close>

definition live_ebs :: "ubi_scan_info \<Rightarrow> int set" where
  "live_ebs si = {eb. si_ec si ! nat eb \<noteq> EB_BAD}"

text \<open>The operations only ever take eraseblocks out of the table.\<close>

lemma live_ebs_si_bad: "live_ebs (si_bad eb si) \<inter> {x. 0 \<le> x} \<subseteq> live_ebs si"
  by (cases "nat eb < length (si_ec si)")
    (auto simp: live_ebs_def si_bad_def nth_list_update list_update_beyond split: if_splits)

lemma read_all_keeps [keeps]:
  assumes "read_all K len k = Some y" "frame_kernel K mtd S P" "P k"
  shows "P (snd y)"
proof -
  have "frame_kernel K mtd S P \<longrightarrow> P k \<longrightarrow> P (snd y)"
    using assms(1)
  proof (rule read_all.raw_induct [rotated, where P = "\<lambda>K len k y.
        frame_kernel K mtd S P \<longrightarrow> P k \<longrightarrow> P (snd y)"])
    fix loop :: "'a kernel \<Rightarrow> nat \<Rightarrow> 'a \<Rightarrow> (byte list option \<times> 'a) option" and K len k y
    assume "\<And>K len k y. loop K len k = Some y \<Longrightarrow> frame_kernel K mtd S P \<longrightarrow> P k \<longrightarrow> P (snd y)"
      and "(if len = 0 then Some (Some [], k)
       else case k_img_read K len k of
         (Bytes d, k1) \<Rightarrow>
           if d = [] then Some (None, k1)
           else do {
             (r, k2) \<leftarrow> loop K (len - length d) k1;
             Some (map_option (append d) r, k2)
           }
       | (ReadErr e, k1) \<Rightarrow>
           if e = EINTR \<or> e = EAGAIN then loop K len k1 else Some (None, k1)) = Some y"
    note step = this
    show "frame_kernel K mtd S P \<longrightarrow> P k \<longrightarrow> P (snd y)"
    proof (intro impI)
      assume F: "frame_kernel K mtd S P" and P: "P k"
      obtain r k1 where r: "k_img_read K len k = (r, k1)"
        by fastforce
      with F P have "P k1"
        using frame_kernelD(4) [of K mtd S P k len] by simp
      then show "P (snd y)"
        using step(2) r P step(1) [of K _ k1] F
        by (cases r) (auto simp: bind_eq_Some_conv split: if_splits)
    qed
  qed
  with assms show ?thesis by blast
qed

text \<open>What a step of the run keeps: the device's property, and the live eraseblocks within \<open>S\<close>.\<close>

definition kept :: "int set \<Rightarrow> ('k \<Rightarrow> bool) \<Rightarrow> 'k ufmt \<Rightarrow> bool" where
  "kept S P u \<longleftrightarrow> P (snd (uf_st u)) \<and> live_ebs (uf_si u) \<inter> {x. 0 \<le> x} \<subseteq> S"

lemma keptD: "kept S P u \<Longrightarrow> P (snd (uf_st u))"
  by (simp add: kept_def)

lemma kept_st [simp]: "kept S P (u \<lparr> uf_st := st \<rparr>) \<longleftrightarrow> P (snd st) \<and> live_ebs (uf_si u) \<inter> {x. 0 \<le> x} \<subseteq> S"
  by (simp add: kept_def)

lemma mark_bad_keeps [keeps]:
  assumes F: "frame_kernel K mtd S P" "eb \<in> S" and P: "kept S P u"
    and run: "mark_bad K a mtd eb u = Some (ok, u')"
  shows "kept S P u'"
proof -
  obtain go k where g: "(if ua_yes a then Some (True, snd (uf_st u)) else prompt K False (snd (uf_st u)))
      = Some (go, k)"
    using run by (auto simp: mark_bad_def bind_eq_Some_conv)
  have Pk: "P k"
    using g P prompt_keeps [OF _ F(1)] by (cases "ua_yes a") (auto simp: kept_def)
  obtain e st where m: "mtd_mark_bad K mtd eb (fst (uf_st u), k) = (e, st)"
    by (cases "mtd_mark_bad K mtd eb (fst (uf_st u), k)") blast
  have Pst: "P (snd st)"
    using mtd_mark_bad_keeps [OF F _ m] Pk by simp
  show ?thesis
    using run g m P Pk Pst live_ebs_si_bad [of eb "uf_si u"]
    by (auto simp: mark_bad_def Let_def kept_def split: if_splits prod.splits)
qed

lemma flash_write_failed_keeps [keeps]:
  assumes F: "frame_kernel K mtd S P" "eb \<in> S" and P: "kept S P u"
    and run: "flash_write_failed K junk a mtd eb e u = Some (ok, u')"
  shows "kept S P u'"
proof (cases "e = EIO")
  case True
  then obtain err st where t: "mtd_torture K mtd eb junk (uf_st u) = Some (err, st)"
    using run by (auto simp: flash_write_failed_def bind_eq_Some_conv)
  have "kept S P (u \<lparr> uf_st := st \<rparr>)"
    using P mtd_torture_keeps [OF F keptD [OF P] t] by (simp add: kept_def)
  then show ?thesis
    using run True t mark_bad_keeps [OF F, of "u \<lparr> uf_st := st \<rparr>" a ok u']
    by (auto simp: flash_write_failed_def Let_def split: if_splits)
next
  case False
  then show ?thesis
    using run P by (simp add: flash_write_failed_def)
qed

lemma flash_data_keeps [keeps]:
  assumes F: "frame_kernel K mtd S P" "eb \<in> S" and P: "kept S P u"
    and run: "flash_data K junk a mtd ui n eb data written u = Some (v, w, u')"
  shows "kept S P u'"
proof (cases "change_ech data (ui_image_seq ui) (next_ec a (uf_si u) eb)")
  case None
  then show ?thesis using run P by (simp add: flash_data_def)
next
  case (Some buf)
  let ?l = "nat (drop_ffs mtd buf (nat (mtd_eb_size mtd)))"
  obtain e st where w: "mtd_write K mtd eb 0 (Some (take ?l buf)) ?l None 0 (uf_st u) = Some (e, st)"
    using run Some by (auto simp: flash_data_def Let_def bind_eq_Some_conv)
  have u1: "kept S P (u \<lparr> uf_st := st \<rparr>)"
    using P mtd_write_keeps [OF F keptD [OF P] _ w] by (simp add: kept_def)
  show ?thesis
    using run Some w u1 flash_write_failed_keeps [OF F u1]
    by (cases e) (auto simp: flash_data_def Let_def bind_eq_Some_conv)
qed

lemma flash_eb_keeps [keeps]:
  assumes F: "frame_kernel K mtd S P" "eb \<in> S" and P: "kept S P u"
    and run: "flash_eb K junk a mtd ui n eb w u = Some (v, w', u')"
  shows "kept S P u'"
proof -
  obtain buf skip written where w: "w = (buf, skip, written)"
    by (cases w)
  obtain e st where e: "mtd_erase K mtd eb (uf_st u) = (e, st)"
    by (cases "mtd_erase K mtd eb (uf_st u)") blast
  have Pst: "P (snd st)"
    by (rule mtd_erase_keeps [OF F keptD [OF P] e])
  have u1: "kept S P (u \<lparr> uf_st := st \<rparr>)"
    using P Pst by (simp add: kept_def)
  show ?thesis
  proof (cases e)
    case (Some er)
    then show ?thesis
      using run w e u1 mark_bad_keeps [OF F u1]
      by (auto simp: flash_eb_def Let_def bind_eq_Some_conv split: if_splits)
  next
    case None
    then obtain r k where r: "(if skip then Some (Some buf, snd st)
        else read_all K (nat (mtd_eb_size mtd)) (snd st)) = Some (r, k)"
      using run w e by (auto simp: flash_eb_def Let_def bind_eq_Some_conv)
    have "P k"
      using r Pst read_all_keeps [OF _ F(1)] by (cases skip) auto
    then have u2: "kept S P (u \<lparr> uf_st := (fst st, k) \<rparr>)"
      using P by (simp add: kept_def)
    show ?thesis
      using run w e None r u2 flash_data_keeps [OF F u2]
      by (cases r) (auto simp: flash_eb_def Let_def)
  qed
qed

lemma flash_loop_keeps [keeps]:
  assumes F: "frame_kernel K mtd S P"
  shows "flash_loop K junk a mtd ui n ebs divisor w u = Some (r, u') \<Longrightarrow> list_all (\<lambda>eb. 0 \<le> eb) ebs
     \<Longrightarrow> kept S P u \<Longrightarrow> kept S P u'"
proof (induction ebs arbitrary: divisor w u)
  case (Cons eb ebs)
  show ?case
  proof (cases "si_ec (uf_si u) ! nat eb = EB_BAD")
    case True
    then show ?thesis
      using Cons by (auto split: if_splits)
  next
    case False
    then have eb: "eb \<in> S"
      using Cons.prems by (auto simp: kept_def live_ebs_def)
    obtain v w' u1 where s: "flash_eb K junk a mtd ui n eb w u = Some (v, w', u1)"
      using Cons.prems(1) False by (auto simp: bind_eq_Some_conv split: if_splits)
    have "kept S P u1"
      by (rule flash_eb_keeps [OF F eb Cons.prems(3) s])
    then show ?thesis
      using Cons False s by (cases v) (auto split: if_splits)
  qed
qed simp

lemma flash_image_keeps [keeps]:
  assumes F: "frame_kernel K mtd S P" and P: "kept S P u"
    and run: "flash_image K junk a mtd ui u = Some (r, u')"
  shows "kept S P u'"
proof -
  obtain sz k where o: "open_file K a (snd (uf_st u)) = (sz, k)"
    by fastforce
  have P2: "P (snd (k_img_open K k'))" if "P k'" for k'
    using frame_kernelD(3) [OF F that] .
  have "P k"
    using o P2 [OF keptD [OF P]] keptD [OF P] frame_kernelD(2) [OF F keptD [OF P]]
      P2 [of "snd (k_img_stat K (snd (uf_st u)))"]
    by (auto simp: open_file_def split: if_splits option.splits prod.splits sum.splits)
  then have u1: "kept S P (u \<lparr> uf_st := (fst (uf_st u), k) \<rparr>)"
    using P by (simp add: kept_def)
  show ?thesis
  proof (cases sz)
    case None
    then show ?thesis using run o u1 by (simp add: flash_image_def)
  next
    case (Some n)
    then show ?thesis
      using run o u1 flash_loop_keeps [OF F _ _ u1]
      by (auto simp: flash_image_def Let_def list_all_iff split: if_splits)
  qed
qed

subsection \<open>Formatting\<close>

text \<open>The eraseblocks set aside for the volume table are live.\<close>

definition vtbl_ebs_in :: "mtd_dev_info \<Rightarrow> int set \<Rightarrow> vtbl_ebs \<Rightarrow> bool" where
  "vtbl_ebs_in mtd S v \<longleftrightarrow> (ve_eb1 v \<noteq> -1 \<longrightarrow> ve_eb1 v \<in> S \<and> in_block mtd (ve_eb1 v))
     \<and> (ve_eb2 v \<noteq> -1 \<longrightarrow> ve_eb2 v \<in> S \<and> in_block mtd (ve_eb2 v))"

lemma length_format_hdr: "64 \<le> ec_write_size mtd \<Longrightarrow> length (format_hdr mtd ui ec) = nat (ec_write_size mtd)"
  by (simp add: format_hdr_def)

lemma ec_write_size_ge: "0 < mtd_subpage_size mtd \<Longrightarrow> 64 \<le> ec_write_size mtd"
  using round_up_ge [of "mtd_subpage_size mtd" 64] by (simp add: ec_write_size_def)

lemma format_eb_keeps [keeps]:
  assumes F: "frame_kernel K mtd S P" "eb \<in> S" "in_block mtd eb" and sub: "0 < mtd_subpage_size mtd"
    and P: "kept S P u" and V: "vtbl_ebs_in mtd S v"
    and run: "format_eb K junk a mtd ui novtbl eb v u = Some (ok, v', u')"
  shows "kept S P u' \<and> vtbl_ebs_in mtd S v'"
proof -
  obtain e st where e: "mtd_erase K mtd eb (uf_st u) = (e, st)"
    by (cases "mtd_erase K mtd eb (uf_st u)") blast
  have u1: "kept S P (u \<lparr> uf_st := st \<rparr>)"
    using P mtd_erase_keeps [OF F(1,2) keptD [OF P] e] by (simp add: kept_def)
  show ?thesis
  proof (cases e)
    case (Some er)
    then show ?thesis
      using run e u1 V mark_bad_keeps [OF F(1,2) u1]
      by (auto simp: format_eb_def Let_def bind_eq_Some_conv split: if_splits)
  next
    case None
    show ?thesis
    proof (cases "(ve_eb1 v = -1 \<or> ve_eb2 v = -1) \<and> \<not> novtbl")
      case True
      then have "kept S P u' \<and> v' = (if ve_eb1 v = -1 then v \<lparr> ve_eb1 := eb, ve_ec1 := next_ec a (uf_si u) eb \<rparr>
          else v \<lparr> ve_eb2 := eb, ve_ec2 := next_ec a (uf_si u) eb \<rparr>)"
        using run e None u1 by (auto simp: format_eb_def Let_def)
      then show ?thesis
        using V F(2,3) by (auto simp: vtbl_ebs_in_def)
    next
      case False
      let ?h = "format_hdr mtd ui (next_ec a (uf_si u) eb)" and ?l = "nat (ec_write_size mtd)"
      obtain e2 st2 where w: "mtd_write K mtd eb 0 (Some ?h) ?l None 0 st = Some (e2, st2)"
        using run e None False by (auto simp: format_eb_def Let_def bind_eq_Some_conv)
      have "P (snd st2)"
        using mtd_write_keeps [OF F(1,2) _ _ w] u1 length_format_hdr [OF ec_write_size_ge [OF sub]] by simp
      then have u2: "kept S P (u \<lparr> uf_st := st2 \<rparr>)"
        using P by (simp add: kept_def)
      show ?thesis
        using run e None False w u2 V flash_write_failed_keeps [OF F(1,2) u2]
        by (cases e2) (auto simp: format_eb_def Let_def bind_eq_Some_conv)
    qed
  qed
qed

lemma format_loop_keeps [keeps]:
  assumes F: "frame_kernel K mtd S P" and sub: "0 < mtd_subpage_size mtd"
  shows "format_loop K junk a mtd ui novtbl ebs v u = Some (ok, v', u') \<Longrightarrow> list_all (in_block mtd) ebs
    \<Longrightarrow> kept S P u \<Longrightarrow> vtbl_ebs_in mtd S v \<Longrightarrow> kept S P u' \<and> vtbl_ebs_in mtd S v'"
proof (induction ebs arbitrary: v u)
  case (Cons eb ebs)
  show ?case
  proof (cases "si_ec (uf_si u) ! nat eb = EB_BAD")
    case True
    then show ?thesis
      using Cons by auto
  next
    case False
    then have eb: "eb \<in> S" "in_block mtd eb"
      using Cons.prems by (auto simp: kept_def live_ebs_def in_block_def)
    obtain ok1 v1 u1 where s: "format_eb K junk a mtd ui novtbl eb v u = Some (ok1, v1, u1)"
      using Cons.prems(1) False by (auto simp: bind_eq_Some_conv)
    have "kept S P u1 \<and> vtbl_ebs_in mtd S v1"
      by (rule format_eb_keeps [OF F eb sub Cons.prems(3,4) s])
    then show ?thesis
      using Cons False s by (auto split: if_splits)
  qed
qed simp

lemma ubigen_write_layout_vol_keeps [keeps]:
  assumes F: "frame_kernel K mtd S P" and eb: "eb1 \<in> S" "in_block mtd eb1" "eb2 \<in> S" "in_block mtd eb2"
    and ui: "wf_ubigen_info ui" "ui_peb_size ui = mtd_eb_size mtd"
    and vtbl: "vtbl_ok vtbl" "length vtbl = nat (ui_max_volumes ui)" and P: "P k"
    and run: "ubigen_write_layout_vol K al ui eb1 eb2 ec1 ec2 vtbl k = (e, k')"
  shows "P k'"
proof -
  have sz: "0 \<le> mtd_eb_size mtd"
    using ui by (auto simp: wf_ubigen_info_def)
  have len: "0 + int (length (layout_peb ui vtbl ec n)) \<le> mtd_eb_size mtd" for ec n
    using length_layout_peb [OF ui(1) vtbl] ui(2) sz by simp
  have W: "P k2" if "mtd_write_data K (eb * ui_peb_size ui) (layout_peb ui vtbl ec n) k1 = (r, k2)"
    "P k1" "eb \<in> S" "in_block mtd eb" for r k1 k2 eb ec n
    using mtd_write_data_keeps [OF F that(3,4,2) order.refl len [of ec n]] that(1) ui(2) by simp
  show ?thesis
    using run P eb W by (auto simp: ubigen_write_layout_vol_def split: if_splits prod.splits option.splits)
qed

lemma ubi_format_keeps [keeps]:
  assumes F: "frame_kernel K mtd S P" and sub: "0 < mtd_subpage_size mtd" and start: "0 \<le> start"
    and ui: "wf_ubigen_info ui" "ui_peb_size ui = mtd_eb_size mtd" and P: "kept S P u"
    and run: "ubi_format K alloc junk a mtd ui start novtbl u = Some (ok, u')"
  shows "kept S P u'"
proof (cases "alloc 0")
  case False
  then show ?thesis using run P by (simp add: ubi_format_def split: if_splits)
next
  case True
  let ?v0 = "\<lparr> ve_eb1 = -1, ve_ec1 = -1, ve_eb2 = -1, ve_ec2 = -1 \<rparr>"
  obtain ok1 v u1 where l: "format_loop K junk a mtd ui novtbl [start..mtd_eb_cnt mtd - 1] ?v0 u
      = Some (ok1, v, u1)"
    using run True sub by (auto simp: ubi_format_def bind_eq_Some_conv)
  have v0: "vtbl_ebs_in mtd S ?v0"
    by (simp add: vtbl_ebs_in_def)
  have ebs: "list_all (in_block mtd) [start..mtd_eb_cnt mtd - 1]"
    using start by (auto simp: list_all_iff in_block_def)
  have K1: "kept S P u1" and V1: "vtbl_ebs_in mtd S v"
    using format_loop_keeps [OF F sub l ebs P v0] by simp_all
  show ?thesis
  proof (cases "ok1 \<and> \<not> novtbl \<and> ve_eb1 v \<noteq> -1 \<and> ve_eb2 v \<noteq> -1 \<and> ubigen_create_empty_vtbl (alloc 1) ui \<noteq> None")
    case False
    then show ?thesis
      using run True sub l K1 by (auto simp: ubi_format_def split: if_splits option.splits)
  next
    case go: True
    then obtain vtbl where vt: "ubigen_create_empty_vtbl (alloc 1) ui = Some vtbl"
      by blast
    obtain e k where w: "ubigen_write_layout_vol K (alloc 2) ui (ve_eb1 v) (ve_eb2 v) (ve_ec1 v) (ve_ec2 v)
        vtbl (snd (uf_st u1)) = (e, k)"
      by fastforce
    have "P k"
      using go V1 by (intro ubigen_write_layout_vol_keeps [OF F _ _ _ _ ui empty_vtbl_ok [OF vt]
            length_empty_vtbl [OF vt] keptD [OF K1] w]) (auto simp: vtbl_ebs_in_def)
    then show ?thesis
      using run True sub l go vt w K1 by (auto simp: ubi_format_def kept_def)
  qed
qed

lemma ubiformat_write_keeps_aux:
  assumes F: "frame_kernel K mtd (live_ebs si) P" and sub: "0 < mtd_subpage_size mtd"
    and ui: "wf_ubigen_info ui" "ui_peb_size ui = mtd_eb_size mtd"
    and u: "uf_si u = si" "P (snd (uf_st u))"
    and run: "ubiformat_write K alloc junk a mtd ui u = Some (ok, u')"
  shows "P (snd (uf_st u'))"
proof -
  have P: "kept (live_ebs si) P u"
    using u by (simp add: kept_def)
  have "kept (live_ebs si) P u'"
  proof (cases "ua_image a")
    case None
    then show ?thesis
      using run by (auto simp: ubiformat_write_def intro: ubi_format_keeps [OF F sub _ ui P])
  next
    case (Some f)
    then obtain r u1 where r: "flash_image K junk a mtd ui u = Some (r, u1)"
      using run by (auto simp: ubiformat_write_def bind_eq_Some_conv)
    have u1: "kept (live_ebs si) P u1"
      by (rule flash_image_keeps [OF F P r])
    show ?thesis
    proof (cases "\<exists>n. r = Some n \<and> 0 \<le> n")
      case True
      then obtain n where n: "r = Some n" "0 \<le> n" by blast
      have "ubi_format K alloc junk a mtd ui n True u1 = Some (ok, u')"
        using run Some r n by (simp add: ubiformat_write_def)
      then show ?thesis
        by (rule ubi_format_keeps [OF F sub n(2) ui u1])
    next
      case False
      then show ?thesis
        using run Some r u1 by (auto simp: ubiformat_write_def split: option.splits if_splits)
    qed
  qed
  then show ?thesis by (rule keptD)
qed

end
