(* ===== verification/UbiformatFlash.thy ===== *)
theory UbiformatFlash
  imports UbiformatFrame
begin

text \<open>
  Flashing an image with \<^verbatim>\<open>ubiformat\<close>: what \<^verbatim>\<open>change_ech\<close> and \<^verbatim>\<open>drop_ffs\<close> do to a block of the image,
  and where the blocks end up on a device whose good eraseblocks do not fail.
\<close>

subsection \<open>Erase counter headers\<close>

text \<open>A buffer that starts with an EC header \<^verbatim>\<open>change_ech\<close> accepts.\<close>

definition valid_ech :: "byte list \<Rightarrow> bool" where
  "valid_ech buf \<longleftrightarrow>
     be32_to_cpu (ech_magic (ec_hdr_of_bytes buf)) = UBI_EC_HDR_MAGIC \<and> ec_hdr_sealed (ec_hdr_of_bytes buf)"

lemma ec_hdr_crc_bytes: "64 \<le> length b \<Longrightarrow> ec_hdr_crc (ec_hdr_of_bytes b) = mtd_crc32 UBI_CRC32_INIT (take 60 b)"
  by (simp add: ec_hdr_crc_def ec_hdr_bytes_of_bytes)

lemma change_ech_Some_iff: "64 \<le> length b \<Longrightarrow> change_ech b seq ec \<noteq> None \<longleftrightarrow> valid_ech b"
  by (auto simp: change_ech_def valid_ech_def ec_hdr_sealed_def ec_hdr_crc_bytes Let_def)

text \<open>The header the changed buffer starts with.\<close>

definition changed_hdr :: "ubi_ec_hdr \<Rightarrow> u32 \<Rightarrow> int \<Rightarrow> ubi_ec_hdr" where
  "changed_hdr h seq ec =
     (let h1 = h \<lparr> ech_image_seq := cpu_to_be32 seq, ech_ec := cpu_to_be64 (word_of_int ec) \<rparr>
      in h1 \<lparr> ech_hdr_crc := cpu_to_be32 (ec_hdr_crc h1) \<rparr>)"

lemma wf_changed_hdr [simp]: "wf_ec_hdr (changed_hdr h seq ec) = wf_ec_hdr h"
  by (simp add: changed_hdr_def wf_ec_hdr_def Let_def)

lemma changed_hdr_sealed [simp]: "ec_hdr_sealed (changed_hdr h seq ec)"
  by (simp add: changed_hdr_def ec_hdr_sealed_def ec_hdr_crc_def Let_def)

lemma changed_hdr_fields [simp]:
  "ech_magic (changed_hdr h seq ec) = ech_magic h" "ech_version (changed_hdr h seq ec) = ech_version h"
  "be64_to_cpu (ech_ec (changed_hdr h seq ec)) = word_of_int ec"
  "be32_to_cpu (ech_image_seq (changed_hdr h seq ec)) = seq"
  "ech_vid_hdr_offset (changed_hdr h seq ec) = ech_vid_hdr_offset h"
  "ech_data_offset (changed_hdr h seq ec) = ech_data_offset h"
  "ech_padding1 (changed_hdr h seq ec) = ech_padding1 h" "ech_padding2 (changed_hdr h seq ec) = ech_padding2 h"
  by (simp_all add: changed_hdr_def Let_def)

lemma change_ech_Some:
  assumes "64 \<le> length b" "change_ech b seq ec = Some b'"
  shows "valid_ech b \<and> length b' = length b \<and> drop 64 b' = drop 64 b
    \<and> ec_hdr_of_bytes b' = changed_hdr (ec_hdr_of_bytes b) seq ec"
proof -
  have v: "valid_ech b"
    using assms change_ech_Some_iff [of b seq ec] by auto
  have wf: "wf_ec_hdr (ec_hdr_of_bytes b)"
    using assms(1) by simp
  have b': "b' = ec_hdr_bytes (changed_hdr (ec_hdr_of_bytes b) seq ec) @ drop 64 b"
    using assms wf by (auto simp: change_ech_def changed_hdr_def store_at_def Let_def wf_ec_hdr_def
        ec_hdr_bytes_def ec_hdr_body_def split: if_splits)
  have "ec_hdr_of_bytes b' = changed_hdr (ec_hdr_of_bytes b) seq ec"
    unfolding b' using wf by (intro ec_hdr_of_bytes_ec_hdr_bytes) simp
  then show ?thesis
    using v b' wf assms(1) by simp
qed

text \<open>A changed block is accepted again, so a block whose write failed can be changed once more.\<close>

lemma change_ech_valid:
  "64 \<le> length b \<Longrightarrow> change_ech b seq ec = Some b' \<Longrightarrow> valid_ech b'"
  using change_ech_Some [of b seq ec b'] by (simp add: valid_ech_def)

subsection \<open>Trailing 0xFF bytes\<close>

lemma last_non_ff_le: "last_non_ff buf n \<le> n"
  by (induction n) auto

lemma last_non_ff_tail: "last_non_ff buf n \<le> i \<Longrightarrow> i < n \<Longrightarrow> buf ! i = 0xFF"
proof (induction n)
  case (Suc n)
  then show ?case
    by (cases "i = n") (auto split: if_splits)
qed simp

lemma last_non_ff_last: "0 < last_non_ff buf n \<Longrightarrow> buf ! (last_non_ff buf n - 1) \<noteq> 0xFF"
  by (induction n) auto

lemma drop_ffs_eq:
  assumes "0 < mtd_min_io_size mtd"
  shows "drop_ffs mtd buf n =
    (int (last_non_ff buf n) + mtd_min_io_size mtd - 1) div mtd_min_io_size mtd * mtd_min_io_size mtd"
  using assms by (simp add: drop_ffs_def)

lemma drop_ffs_aux:
  assumes io: "0 < mtd_min_io_size mtd" and n: "int n mod mtd_min_io_size mtd = 0" "n \<le> length buf"
  shows "drop_ffs mtd buf n mod mtd_min_io_size mtd = 0" "0 \<le> drop_ffs mtd buf n" "drop_ffs mtd buf n \<le> int n"
    "take (nat (drop_ffs mtd buf n)) buf @ replicate (n - nat (drop_ffs mtd buf n)) 0xFF = take n buf"
proof -
  let ?l = "int (last_non_ff buf n)" and ?io = "mtd_min_io_size mtd"
  show "drop_ffs mtd buf n mod ?io = 0"
    by (simp add: drop_ffs_eq [OF io])
  have ge: "?l \<le> drop_ffs mtd buf n"
    unfolding drop_ffs_eq [OF io] by (rule round_up_ge [OF io])
  then show ge0: "0 \<le> drop_ffs mtd buf n"
    by linarith
  obtain q where q: "int n = q * ?io"
    using n(1) by (metis dvd_def mod_0_imp_dvd mult.commute)
  have "?l \<le> q * ?io"
    using last_non_ff_le [of buf n] q by linarith
  then have "(?l + ?io - 1) div ?io \<le> (q * ?io + ?io - 1) div ?io"
    using io by (intro zdiv_mono1) auto
  also have "\<dots> = q"
  proof -
    have "(q * ?io + ?io - 1) div ?io = (q * ?io + (?io - 1)) div ?io"
      by (simp add: algebra_simps)
    also have "\<dots> = q"
      using io by (simp add: div_mult_self3 div_pos_pos_trivial)
    finally show ?thesis .
  qed
  finally show le: "drop_ffs mtd buf n \<le> int n"
    unfolding drop_ffs_eq [OF io] q using io by (simp add: mult_right_mono)
  show "take (nat (drop_ffs mtd buf n)) buf @ replicate (n - nat (drop_ffs mtd buf n)) 0xFF = take n buf"
  proof (rule nth_equalityI)
    show "length (take (nat (drop_ffs mtd buf n)) buf @ replicate (n - nat (drop_ffs mtd buf n)) 0xFF)
      = length (take n buf)"
      using n(2) le ge0 by simp
  next
    fix i
    assume "i < length (take (nat (drop_ffs mtd buf n)) buf @ replicate (n - nat (drop_ffs mtd buf n)) 0xFF)"
    then have i: "i < n"
      using n(2) le ge0 by simp
    show "(take (nat (drop_ffs mtd buf n)) buf @ replicate (n - nat (drop_ffs mtd buf n)) 0xFF) ! i
      = take n buf ! i"
    proof (cases "i < nat (drop_ffs mtd buf n)")
      case True
      then show ?thesis
        using i n(2) by (simp add: nth_append)
    next
      case False
      then have "buf ! i = 0xFF"
        using ge i by (intro last_non_ff_tail [of buf n]) auto
      then show ?thesis
        using False i n(2) le by (simp add: nth_append)
    qed
  qed
qed

subsection \<open>A device without failures\<close>

text \<open>
  What the driver of a NAND device promises for eraseblocks that are good: erasing fills with 0xFF,
  a write from the start of an erased eraseblock is stored, and no eraseblock but the addressed
  one changes. \<open>mem\<close> reads the contents of an eraseblock from the device's state, \<open>img\<close> the part
  of the image file not read yet; reads of the image may be short.
\<close>

definition ideal_nand ::
  "'k kernel \<Rightarrow> mtd_dev_info \<Rightarrow> int set \<Rightarrow> ('k \<Rightarrow> int \<Rightarrow> byte list) \<Rightarrow> ('k \<Rightarrow> byte list) \<Rightarrow> bool" where
  "ideal_nand K mtd good mem img \<longleftrightarrow>
     (\<forall>k. \<forall>eb \<in> good. in_block mtd eb \<longrightarrow>
        (\<exists>k'. k_memerase64 K (word_of_int (eb * mtd_eb_size mtd)) (word_of_int (mtd_eb_size mtd)) k = (None, k')
           \<and> mem k' = (mem k)(eb := replicate (nat (mtd_eb_size mtd)) 0xFF) \<and> img k' = img k))
     \<and> (\<forall>k d. \<forall>eb \<in> good. in_block mtd eb \<longrightarrow> mem k eb = replicate (nat (mtd_eb_size mtd)) 0xFF
          \<longrightarrow> length d \<le> nat (mtd_eb_size mtd) \<longrightarrow>
        (\<exists>k1 k2. k_lseek K (eb * mtd_eb_size mtd) k = (eb * mtd_eb_size mtd, k1)
           \<and> k_write K d k1 = (Inr (int (length d)), k2)
           \<and> mem k2 = (mem k)(eb := d @ replicate (nat (mtd_eb_size mtd) - length d) 0xFF) \<and> img k2 = img k))
     \<and> (\<forall>k n. 0 < n \<longrightarrow> img k \<noteq> [] \<longrightarrow>
        (\<exists>d k'. k_img_read K n k = (Bytes d, k') \<and> d \<noteq> [] \<and> length d \<le> n \<and> img k = d @ img k' \<and> mem k' = mem k))"

lemma ideal_erase:
  assumes "ideal_nand K mtd good mem img" "eb \<in> good" "in_block mtd eb" "fst st \<noteq> OFFS64_IOCTLS_NOT_SUPPORTED"
  shows "\<exists>k'. mtd_erase K mtd eb st = (None, fst st, k')
    \<and> mem k' = (mem (snd st))(eb := replicate (nat (mtd_eb_size mtd)) 0xFF) \<and> img k' = img (snd st)"
proof -
  obtain k' where k': "k_memerase64 K (word_of_int (eb * mtd_eb_size mtd)) (word_of_int (mtd_eb_size mtd)) (snd st)
      = (None, k')" "mem k' = (mem (snd st))(eb := replicate (nat (mtd_eb_size mtd)) 0xFF)" "img k' = img (snd st)"
    using assms(1-3) unfolding ideal_nand_def by blast
  have "fst st = OFFS64_IOCTLS_SUPPORTED \<or> fst st = OFFS64_IOCTLS_UNKNOWN"
    using assms(4) by (cases "fst st") auto
  then show ?thesis
    using k' assms(3) by (cases st) (auto simp: mtd_erase_def Let_def simp del: of_int_mult)
qed

lemma ideal_read_all:
  assumes "ideal_nand K mtd good mem img"
  shows "img k = d @ rest \<Longrightarrow>
    \<exists>k'. read_all K (length d) k = Some (Some d, k') \<and> img k' = rest \<and> mem k' = mem k"
proof (induction "length d" arbitrary: d k rule: less_induct)
  case less
  show ?case
  proof (cases "d = []")
    case True
    then show ?thesis
      using less.prems by (simp add: read_all.simps)
  next
    case False
    have ne: "0 < length d" "img k \<noteq> []"
      using False less.prems by auto
    have "\<forall>k n. 0 < n \<longrightarrow> img k \<noteq> [] \<longrightarrow>
        (\<exists>d k'. k_img_read K n k = (Bytes d, k') \<and> d \<noteq> [] \<and> length d \<le> n \<and> img k = d @ img k' \<and> mem k' = mem k)"
      using assms unfolding ideal_nand_def by (elim conjE)
    then obtain e k1 where r: "k_img_read K (length d) k = (Bytes e, k1)" "e \<noteq> []" "length e \<le> length d"
      "img k = e @ img k1" "mem k1 = mem k"
      using ne by meson
    obtain d' where d': "d = e @ d'" "img k1 = d' @ rest"
      using r(3,4) less.prems by (auto simp: append_eq_append_conv2)
    obtain k2 where k2: "read_all K (length d') k1 = Some (Some d', k2)" "img k2 = rest" "mem k2 = mem k1"
      using less.hyps [of d' k1] d' r(2) by auto
    have len: "length d - length e = length d'"
      using d'(1) by simp
    have pos: "length d \<noteq> 0"
      using ne(1) by simp
    have "read_all K (length d) k = Some (Some (e @ d'), k2)"
      by (subst read_all.simps) (simp only: r(1,2) len pos, simp add: r(2) len k2(1))
    then show ?thesis
      using k2(2,3) r(5) d'(1) by simp
  qed
qed

lemma ideal_write:
  assumes "ideal_nand K mtd good mem img" "eb \<in> good" "in_block mtd eb"
    and "mem (snd st) eb = replicate (nat (mtd_eb_size mtd)) 0xFF"
    and "int (length d) \<le> mtd_eb_size mtd" "0 < mtd_subpage_size mtd" "int (length d) mod mtd_subpage_size mtd = 0"
  shows "\<exists>k'. mtd_write K mtd eb 0 (Some d) (length d) None 0 st = Some (None, fst st, k')
    \<and> mem k' = (mem (snd st))(eb := d @ replicate (nat (mtd_eb_size mtd) - length d) 0xFF) \<and> img k' = img (snd st)"
proof -
  have "length d \<le> nat (mtd_eb_size mtd)"
    using assms(5) by linarith
  then obtain k1 k2 where k: "k_lseek K (eb * mtd_eb_size mtd) (snd st) = (eb * mtd_eb_size mtd, k1)"
    "k_write K d k1 = (Inr (int (length d)), k2)"
    "mem k2 = (mem (snd st))(eb := d @ replicate (nat (mtd_eb_size mtd) - length d) 0xFF)" "img k2 = img (snd st)"
    using assms(1-4) unfolding ideal_nand_def by blast
  show ?thesis
    using k assms(3,5-7) by (auto simp: mtd_write_def mtd_write_data_def Let_def)
qed

subsection \<open>Where the blocks of the image go\<close>

text \<open>The geometry a run needs: eraseblocks of whole I/O units, and those of whole sub-pages.\<close>

definition wf_geometry :: "mtd_dev_info \<Rightarrow> bool" where
  "wf_geometry mtd \<longleftrightarrow> 64 \<le> mtd_eb_size mtd \<and> 0 < mtd_min_io_size mtd
     \<and> mtd_eb_size mtd mod mtd_min_io_size mtd = 0 \<and> 0 < mtd_subpage_size mtd
     \<and> mtd_min_io_size mtd mod mtd_subpage_size mtd = 0"

lemma drop_ffs_subpage:
  assumes "wf_geometry mtd" "length buf = nat (mtd_eb_size mtd)"
  shows "drop_ffs mtd buf (length buf) mod mtd_subpage_size mtd = 0"
proof -
  have "int (length buf) mod mtd_min_io_size mtd = 0"
    using assms by (simp add: wf_geometry_def)
  then have "mtd_min_io_size mtd dvd drop_ffs mtd buf (length buf)"
    using drop_ffs_aux(1) [of mtd "length buf" buf] assms(1) by (simp add: wf_geometry_def mod_0_imp_dvd)
  moreover have "mtd_subpage_size mtd dvd mtd_min_io_size mtd"
    using assms(1) by (simp add: wf_geometry_def mod_0_imp_dvd)
  ultimately have "mtd_subpage_size mtd dvd drop_ffs mtd buf (length buf)"
    by (rule dvd_trans [rotated])
  then show ?thesis by simp
qed

text \<open>One good eraseblock takes the next block of the image.\<close>

lemma ideal_flash_eb:
  assumes I: "ideal_nand K mtd good mem img" "eb \<in> good" "in_block mtd eb" and geo: "wf_geometry mtd"
    and L: "fst (uf_st u) \<noteq> OFFS64_IOCTLS_NOT_SUPPORTED"
    and d: "length d = nat (mtd_eb_size mtd)" "valid_ech d" "img (snd (uf_st u)) = d @ rest"
  shows "\<exists>buf k'. change_ech d (ui_image_seq ui) (next_ec a (uf_si u) eb) = Some buf
    \<and> flash_eb K junk a mtd ui n eb (b0, False, written) u =
        Some (if written + 1 \<ge> n then FlashDone else FlashNext, (buf, False, written + 1),
              u \<lparr> uf_st := (fst (uf_st u), k') \<rparr>)
    \<and> mem k' = (mem (snd (uf_st u)))(eb := buf) \<and> img k' = rest"
proof -
  have "64 \<le> mtd_eb_size mtd"
    using geo by (simp add: wf_geometry_def)
  then have sz: "64 \<le> length d" "int (length d) = mtd_eb_size mtd"
    using d(1) by linarith+
  obtain buf where buf: "change_ech d (ui_image_seq ui) (next_ec a (uf_si u) eb) = Some buf"
    using change_ech_Some_iff [OF sz(1)] d(2) by blast
  have lb: "length buf = length d"
    using change_ech_Some [OF sz(1) buf] by simp
  obtain k1 where e: "mtd_erase K mtd eb (uf_st u) = (None, fst (uf_st u), k1)"
    "mem k1 = (mem (snd (uf_st u)))(eb := replicate (nat (mtd_eb_size mtd)) 0xFF)" "img k1 = d @ rest"
    using ideal_erase [OF I L] d(3) by auto
  obtain k2 where r: "read_all K (nat (mtd_eb_size mtd)) k1 = Some (Some d, k2)" "img k2 = rest" "mem k2 = mem k1"
    using ideal_read_all [OF I(1) e(3)] d(1) by auto
  let ?l = "nat (drop_ffs mtd buf (nat (mtd_eb_size mtd)))"
  have geo': "0 < mtd_min_io_size mtd" "int (length buf) mod mtd_min_io_size mtd = 0" "0 < mtd_subpage_size mtd"
    using geo lb sz by (simp_all add: wf_geometry_def)
  note ff = drop_ffs_aux [OF geo'(1,2) order.refl]
  have nl: "nat (mtd_eb_size mtd) = length buf"
    using d(1) lb by simp
  have lt: "length (take ?l buf) = ?l"
    using ff(2,3) nl by simp
  have "\<exists>k3. mtd_write K mtd eb 0 (Some (take ?l buf)) (length (take ?l buf)) None 0 (fst (uf_st u), k2)
      = Some (None, fst (uf_st u), k3)
    \<and> mem k3 = (mem k2)(eb := take ?l buf @ replicate (nat (mtd_eb_size mtd) - length (take ?l buf)) 0xFF)
    \<and> img k3 = img k2"
    using ideal_write [OF I, of "(fst (uf_st u), k2)" "take ?l buf"] e(2) r(3) geo'(3) ff(2,3) nl sz(2) lb
      drop_ffs_subpage [OF geo, of buf] by simp
  then obtain k3 where w: "mtd_write K mtd eb 0 (Some (take ?l buf)) ?l None 0 (fst (uf_st u), k2)
      = Some (None, fst (uf_st u), k3)"
    "mem k3 = (mem k2)(eb := buf)" "img k3 = rest"
    using lt ff(4) nl r(2) by auto
  have "flash_data K junk a mtd ui n eb d written (u \<lparr> uf_st := (fst (uf_st u), k2) \<rparr>) =
      Some (if written + 1 \<ge> n then FlashDone else FlashNext, (buf, False, written + 1),
            u \<lparr> uf_st := (fst (uf_st u), k3) \<rparr>)"
    using buf w(1) by (simp add: flash_data_def Let_def)
  then have "flash_eb K junk a mtd ui n eb (b0, False, written) u =
      Some (if written + 1 \<ge> n then FlashDone else FlashNext, (buf, False, written + 1),
            u \<lparr> uf_st := (fst (uf_st u), k3) \<rparr>)"
    using e(1) r(1) by (simp add: flash_eb_def Let_def)
  then show ?thesis
    using buf w(2,3) r(3) e(2) by auto
qed

text \<open>The eraseblocks that get blocks of the image, in order: those not bad in the table.\<close>

definition live_list :: "ubi_scan_info \<Rightarrow> int list \<Rightarrow> int list" where
  "live_list si ebs = filter (\<lambda>eb. si_ec si ! nat eb \<noteq> EB_BAD) ebs"

text \<open>The result of a run that wrote the blocks \<open>imgs\<close> to the first eraseblocks of \<open>live\<close>.\<close>

definition flashed ::
  "('k \<Rightarrow> int \<Rightarrow> byte list) \<Rightarrow> ubi_args \<Rightarrow> u32 \<Rightarrow> ubi_scan_info \<Rightarrow> byte list list \<Rightarrow> int list \<Rightarrow> 'k \<Rightarrow> 'k \<Rightarrow> bool" where
  "flashed mem a seq si imgs live k k' \<longleftrightarrow>
     (\<forall>i < length imgs. change_ech (imgs ! i) seq (next_ec a si (live ! i)) = Some (mem k' (live ! i)))
     \<and> (\<forall>eb. eb \<notin> set (take (length imgs) live) \<longrightarrow> mem k' eb = mem k eb)"

lemma flashed_Cons:
  assumes "change_ech d seq (next_ec a si eb) = Some buf" "mem k1 = (mem k)(eb := buf)"
    and "flashed mem a seq si imgs live k1 k'" "eb \<notin> set live"
  shows "flashed mem a seq si (d # imgs) (eb # live) k k'"
proof -
  have "mem k' eb = buf"
    using assms(2-4) by (auto simp: flashed_def dest: in_set_takeD)
  then show ?thesis
    using assms by (auto simp: flashed_def nth_Cons split: nat.splits)
qed

lemma ideal_flash_loop:
  assumes I: "ideal_nand K mtd good mem img" and geo: "wf_geometry mtd"
  shows "distinct ebs \<Longrightarrow> list_all (in_block mtd) ebs \<Longrightarrow> set (live_list (uf_si u) ebs) \<subseteq> good
    \<Longrightarrow> fst (uf_st u) \<noteq> OFFS64_IOCTLS_NOT_SUPPORTED \<Longrightarrow> imgs \<noteq> []
    \<Longrightarrow> length imgs \<le> length (live_list (uf_si u) ebs)
    \<Longrightarrow> list_all (\<lambda>d. length d = nat (mtd_eb_size mtd) \<and> valid_ech d) imgs
    \<Longrightarrow> img (snd (uf_st u)) = concat imgs \<Longrightarrow> n = written + int (length imgs) \<Longrightarrow> 0 < divisor
    \<Longrightarrow> \<exists>u'. flash_loop K junk a mtd ui n ebs divisor (b0, False, written) u =
          Some (Some (live_list (uf_si u) ebs ! (length imgs - 1) + 1), u')
        \<and> uf_si u' = uf_si u \<and> fst (uf_st u') = fst (uf_st u)
        \<and> flashed mem a (ui_image_seq ui) (uf_si u) imgs (live_list (uf_si u) ebs) (snd (uf_st u)) (snd (uf_st u'))"
proof (induction ebs arbitrary: imgs divisor b0 written u)
  case Nil
  then show ?case by (simp add: live_list_def)
next
  case (Cons eb ebs)
  show ?case
  proof (cases "si_ec (uf_si u) ! nat eb = EB_BAD")
    case True
    then show ?thesis
      using Cons.IH [of u imgs written "divisor + 1" b0] Cons.prems by (simp add: live_list_def)
  next
    case False
    obtain d imgs' where imgs: "imgs = d # imgs'"
      using Cons.prems(5) by (cases imgs) auto
    have eb: "eb \<in> good" "in_block mtd eb"
      using Cons.prems(2,3) False by (auto simp: live_list_def)
    have d: "length d = nat (mtd_eb_size mtd)" "valid_ech d" "img (snd (uf_st u)) = d @ concat imgs'"
      using Cons.prems(7,8) imgs by simp_all
    obtain buf k' where s: "change_ech d (ui_image_seq ui) (next_ec a (uf_si u) eb) = Some buf"
      "flash_eb K junk a mtd ui n eb (b0, False, written) u =
        Some (if written + 1 \<ge> n then FlashDone else FlashNext, (buf, False, written + 1),
              u \<lparr> uf_st := (fst (uf_st u), k') \<rparr>)"
      "mem k' = (mem (snd (uf_st u)))(eb := buf)" "img k' = concat imgs'"
      using ideal_flash_eb [OF I eb geo Cons.prems(4) d] by blast
    let ?u1 = "u \<lparr> uf_st := (fst (uf_st u), k') \<rparr>"
    have notin: "eb \<notin> set (live_list (uf_si u) ebs)"
      using Cons.prems(1) by (simp add: live_list_def)
    show ?thesis
    proof (cases "imgs' = []")
      case True
      then show ?thesis
        using s False Cons.prems(9,10) imgs notin
        by (auto simp: live_list_def flashed_def)
    next
      case more: False
      obtain u' where u': "flash_loop K junk a mtd ui n ebs divisor (buf, False, written + 1) ?u1 =
          Some (Some (live_list (uf_si u) ebs ! (length imgs' - 1) + 1), u')" "uf_si u' = uf_si u" "fst (uf_st u') = fst (uf_st u)"
        "flashed mem a (ui_image_seq ui) (uf_si u) imgs' (live_list (uf_si u) ebs) k' (snd (uf_st u'))"
        using Cons.IH [of ?u1 imgs' "written + 1" divisor buf] Cons.prems more imgs s(4) False
        by (auto simp: live_list_def)
      have fl: "flashed mem a (ui_image_seq ui) (uf_si u) imgs (eb # live_list (uf_si u) ebs)
          (snd (uf_st u)) (snd (uf_st u'))"
        unfolding imgs by (rule flashed_Cons [OF s(1,3) u'(4) notin])
      have "live_list (uf_si u) (eb # ebs) = eb # live_list (uf_si u) ebs"
        using False by (simp add: live_list_def)
      then show ?thesis
        using fl u'(1-3) s(2) False Cons.prems(9,10) imgs more by (auto simp: neq_Nil_conv)
    qed
  qed
qed

lemma flash_image_ideal_aux:
  assumes I: "ideal_nand K mtd good mem img" and geo: "wf_geometry mtd"
    and live: "set (live_list (uf_si u) [0..mtd_eb_cnt mtd - 1]) \<subseteq> good"
    and L: "fst (uf_st u) \<noteq> OFFS64_IOCTLS_NOT_SUPPORTED"
    and imgs: "imgs \<noteq> []" "length imgs \<le> length (live_list (uf_si u) [0..mtd_eb_cnt mtd - 1])"
      "list_all (\<lambda>d. length d = nat (mtd_eb_size mtd) \<and> valid_ech d) imgs"
      "int (length imgs) \<le> si_good_cnt (uf_si u)" "length imgs < 2 ^ 31"
    and op: "open_file K a (snd (uf_st u)) = (Some (int (length (concat imgs))), k)"
      "mem k = mem (snd (uf_st u))" "img k = concat imgs"
  shows "\<exists>u'. flash_image K junk a mtd ui u =
          Some (Some (live_list (uf_si u) [0..mtd_eb_cnt mtd - 1] ! (length imgs - 1) + 1), u')
        \<and> uf_si u' = uf_si u \<and> fst (uf_st u') = fst (uf_st u)
        \<and> flashed mem a (ui_image_seq ui) (uf_si u) imgs (live_list (uf_si u) [0..mtd_eb_cnt mtd - 1])
            (snd (uf_st u)) (snd (uf_st u'))"
proof -
  let ?u1 = "u \<lparr> uf_st := (fst (uf_st u), k) \<rparr>" and ?n = "int (length imgs)"
  have sz: "0 < mtd_eb_size mtd"
    using geo by (simp add: wf_geometry_def)
  have "length (concat imgs) = length imgs * nat (mtd_eb_size mtd)"
    using imgs(3) by (induction imgs) (auto simp: list_all_iff)
  then have len: "int (length (concat imgs)) = ?n * mtd_eb_size mtd"
    using sz by simp
  have cnt: "c_int (c_div (int (length (concat imgs))) (mtd_eb_size mtd)) = ?n"
    using sz imgs(5) by (simp add: len)
  have "list_all (in_block mtd) [0..mtd_eb_cnt mtd - 1]"
    by (auto simp: list_all_iff in_block_def)
  then obtain u' where u': "flash_loop K junk a mtd ui ?n [0..mtd_eb_cnt mtd - 1] ?n ([], False, 0) ?u1 =
        Some (Some (live_list (uf_si u) [0..mtd_eb_cnt mtd - 1] ! (length imgs - 1) + 1), u')"
      "uf_si u' = uf_si u" "fst (uf_st u') = fst (uf_st u)"
      "flashed mem a (ui_image_seq ui) (uf_si u) imgs (live_list (uf_si u) [0..mtd_eb_cnt mtd - 1]) k (snd (uf_st u'))"
    using ideal_flash_loop [OF I geo, of "[0..mtd_eb_cnt mtd - 1]" ?u1 imgs ?n 0 ?n junk a ui "[]"]
      live L imgs op(3) by auto
  have "flash_image K junk a mtd ui u = flash_loop K junk a mtd ui ?n [0..mtd_eb_cnt mtd - 1] ?n ([], False, 0) ?u1"
    using op(1) sz cnt imgs(4) by (simp add: flash_image_def len Let_def del: length_concat)
  then show ?thesis
    using u' op(2) by (auto simp: flashed_def)
qed

end
