(* ===== verification/NandSim.thy ===== *)
theory NandSim
  imports EraseblockFrame
begin

text \<open>
  A NAND device in memory: the instance of the kernel the examples of the development run on. It
  erases to 0xFF, programs by clearing bits, remembers bad eraseblocks, and fails with EIO where
  its state says so. It is not a model of code of the repository.
\<close>

record nsim =
  ns_blocks :: "byte list list"
  ns_pos :: int
  ns_bad :: "int list"
  ns_eio :: "int list"
  ns_img :: "byte list"

definition ns_erase :: "int \<Rightarrow> int \<Rightarrow> nsim \<Rightarrow> errno option \<times> nsim" where
  "ns_erase sz start s =
     (let b = start div sz
      in if b \<in> set (ns_bad s) \<or> nat b \<ge> length (ns_blocks s) then (Some EIO, s)
         else (None, s \<lparr> ns_blocks := (ns_blocks s)[nat b := replicate (nat sz) 0xFF] \<rparr>))"

definition ns_read :: "int \<Rightarrow> nat \<Rightarrow> nsim \<Rightarrow> rd \<times> nsim" where
  "ns_read sz n s =
     (let b = nat (ns_pos s div sz)
      in if b \<ge> length (ns_blocks s) then (Bytes [], s)
         else
           let d = take n (drop (nat (ns_pos s mod sz)) (ns_blocks s ! b))
           in (Bytes d, s \<lparr> ns_pos := ns_pos s + int (length d) \<rparr>))"

text \<open>Programming: a bit is 1 only where it was 1 before.\<close>

definition ns_program :: "nat \<Rightarrow> byte list \<Rightarrow> byte list \<Rightarrow> byte list" where
  "ns_program offs d old = take offs old @ map2 (AND) d (drop offs old) @ drop (offs + length d) old"

definition ns_write :: "int \<Rightarrow> byte list \<Rightarrow> nsim \<Rightarrow> (errno + int) \<times> nsim" where
  "ns_write sz d s =
     (let b = ns_pos s div sz
      in if b \<in> set (ns_eio s) \<or> nat b \<ge> length (ns_blocks s) then (Inl EIO, s)
         else (Inr (int (length d)),
               s \<lparr> ns_pos := ns_pos s + int (length d),
                   ns_blocks := (ns_blocks s)[nat b :=
                     ns_program (nat (ns_pos s mod sz)) d (ns_blocks s ! nat b)] \<rparr>))"

definition nand_kernel :: "int \<Rightarrow> nsim kernel" where
  "nand_kernel sz = \<lparr>
     k_memerase64 = (\<lambda>start len. ns_erase sz (uint start)),
     k_memerase = (\<lambda>start len. ns_erase sz (uint start)),
     k_memlock = (\<lambda>start len s. (None, s)),
     k_memunlock = (\<lambda>start len s. (None, s)),
     k_memislocked = (\<lambda>start len s. (Inl EOPNOTSUPP, s)),
     k_getbadblock = (\<lambda>seek s. (Inr (if seek div sz \<in> set (ns_bad s) then 1 else 0), s)),
     k_setbadblock = (\<lambda>seek s. (None, s \<lparr> ns_bad := seek div sz # ns_bad s \<rparr>)),
     k_lseek = (\<lambda>seek s. (seek, s \<lparr> ns_pos := seek \<rparr>)),
     k_read = ns_read sz,
     k_write = ns_write sz,
     k_memwrite = (\<lambda>req s. (Some ENOTTY, s)),
     k_memgetoobsel = (\<lambda>s. (Inl EOPNOTSUPP, s)),
     k_oob64 = (\<lambda>wr start len d s. (Some ENOTTY, d, s)),
     k_oob = (\<lambda>wr start len d s. (Some EOPNOTSUPP, d, s)),
     k_pwrite = (\<lambda>d seek s. ns_write sz d (s \<lparr> ns_pos := seek \<rparr>)),
     k_mtdfilemode_raw = (\<lambda>s. (None, s)),
     k_img_stat = (\<lambda>s. (Inr (int (length (ns_img s))), s)),
     k_img_open = (\<lambda>s. (None, s)),
     k_img_lseek = (\<lambda>n s. (None, s \<lparr> ns_img := drop (nat n) (ns_img s) \<rparr>)),
     k_img_read = (\<lambda>n s. (Bytes (take n (ns_img s)), s \<lparr> ns_img := drop n (ns_img s) \<rparr>)),
     k_getline = (\<lambda>s. (None, s)) \<rparr>"

text \<open>An MTD description that fits the device.\<close>

definition nand_mtd :: "int \<Rightarrow> int \<Rightarrow> int \<Rightarrow> mtd_dev_info" where
  "nand_mtd cnt sz io = \<lparr> mtd_num = 0, mtd_type = MTD_NANDFLASH, mtd_name = ''rootfs'',
     mtd_size = cnt * sz, mtd_eb_cnt = cnt, mtd_eb_size = sz, mtd_min_io_size = io,
     mtd_subpage_size = io, mtd_oob_size = 64, mtd_writable = True, mtd_bb_allowed = True \<rparr>"

lemma nand_mtd_simps [simp]:
  "mtd_eb_cnt (nand_mtd cnt sz io) = cnt" "mtd_eb_size (nand_mtd cnt sz io) = sz"
  "mtd_min_io_size (nand_mtd cnt sz io) = io" "mtd_subpage_size (nand_mtd cnt sz io) = io"
  "mtd_bb_allowed (nand_mtd cnt sz io)" "mtd_writable (nand_mtd cnt sz io)"
  "mtd_size (nand_mtd cnt sz io) = cnt * sz" "mtd_oob_size (nand_mtd cnt sz io) = 64"
  "mtd_type (nand_mtd cnt sz io) = MTD_NANDFLASH" "mtd_num (nand_mtd cnt sz io) = 0"
  by (simp_all add: nand_mtd_def)

text \<open>The device keeps an eraseblock no operation addresses.\<close>

lemma ns_block_keeps:
  assumes "0 < sz" "nat eb \<noteq> j" "0 \<le> eb" "eb * sz < 2 ^ 32" "ns_blocks s ! j = x"
  shows "ns_blocks (snd (ns_erase sz (uint (word_of_int (eb * sz) :: u64)) s)) ! j = x"
    "ns_blocks (snd (ns_erase sz (uint (word_of_int (eb * sz) :: u32)) s)) ! j = x"
proof -
  have "uint (word_of_int (eb * sz) :: u64) = eb * sz" "uint (word_of_int (eb * sz) :: u32) = eb * sz"
    using assms by (simp_all add: uint_word_of_int_eq take_bit_eq_mod del: of_int_mult)
  then show "ns_blocks (snd (ns_erase sz (uint (word_of_int (eb * sz) :: u64)) s)) ! j = x"
    "ns_blocks (snd (ns_erase sz (uint (word_of_int (eb * sz) :: u32)) s)) ! j = x"
    using assms by (auto simp: ns_erase_def Let_def nth_list_update)
qed

lemma nand_frame:
  assumes sz: "0 < sz" and cnt: "cnt * sz < 2 ^ 32" and S: "\<forall>eb \<in> S. 0 \<le> eb \<longrightarrow> nat eb \<noteq> j"
  shows "frame_kernel (nand_kernel sz) (nand_mtd cnt sz io) S (\<lambda>s. ns_blocks s ! j = x)"
proof -
  have addr: "eb * sz < 2 ^ 32" if "in_block (nand_mtd cnt sz io) eb" for eb
  proof -
    have "eb * sz \<le> cnt * sz"
      using that sz by (intro mult_right_mono) (auto simp: in_block_def)
    then show ?thesis using cnt by linarith
  qed
  have blk: "(eb * sz + offs) div sz = eb" if "0 \<le> offs" "offs + int (length (d :: byte list)) \<le> sz" "d \<noteq> []" for eb offs d
  proof -
    have "offs < sz"
      using that by (cases d) auto
    then show ?thesis using that(1) sz by simp
  qed
  show ?thesis
    unfolding frame_kernel_def
  proof (intro allI impI conjI ballI)
    fix s eb offs and d :: "byte list" and s1
    assume s: "ns_blocks s ! j = x" and eb: "eb \<in> S" "in_block (nand_mtd cnt sz io) eb"
      and d: "0 \<le> offs" "offs + int (length d) \<le> mtd_eb_size (nand_mtd cnt sz io)"
      and sk: "k_lseek (nand_kernel sz) (eb * mtd_eb_size (nand_mtd cnt sz io) + offs) s =
        (eb * mtd_eb_size (nand_mtd cnt sz io) + offs, s1)"
    have s1: "s1 = s \<lparr> ns_pos := eb * sz + offs \<rparr>"
      using sk by (simp add: nand_kernel_def)
    show "ns_blocks (snd (k_write (nand_kernel sz) d s1)) ! j = x"
    proof (cases "d = []")
      case True
      then show ?thesis
        using s s1 by (auto simp: nand_kernel_def ns_write_def ns_program_def Let_def nth_list_update)
    next
      case False
      then show ?thesis
        using s s1 blk [of offs d eb] d eb S
        by (auto simp: nand_kernel_def ns_write_def Let_def nth_list_update in_block_def)
    qed
  qed (use addr sz S ns_block_keeps in \<open>auto simp: nand_kernel_def ns_read_def Let_def in_block_def simp del: of_int_mult\<close>)
qed

end
