(* ===== verification/PerfectNand.thy ===== *)
theory PerfectNand
  imports UbiformatFlash NandSim
begin

text \<open>
  A NAND device on which nothing fails, as an instance of \<^const>\<open>ideal_nand\<close>. Like \<^verbatim>\<open>NandSim\<close>, it
  serves the examples.
\<close>

record pnand =
  pn_mem :: "int \<Rightarrow> byte list"
  pn_pos :: int
  pn_img :: "byte list"

definition perfect_kernel :: "int \<Rightarrow> pnand kernel" where
  "perfect_kernel sz = \<lparr>
     k_memerase64 = (\<lambda>start len s.
       (None, s \<lparr> pn_mem := (pn_mem s)(uint start div sz := replicate (nat sz) 0xFF) \<rparr>)),
     k_memerase = (\<lambda>start len s. (Some ENOTTY, s)),
     k_memlock = (\<lambda>start len s. (None, s)),
     k_memunlock = (\<lambda>start len s. (None, s)),
     k_memislocked = (\<lambda>start len s. (Inr 0, s)),
     k_getbadblock = (\<lambda>seek s. (Inr 0, s)),
     k_setbadblock = (\<lambda>seek s. (None, s)),
     k_lseek = (\<lambda>seek s. (seek, s \<lparr> pn_pos := seek \<rparr>)),
     k_read = (\<lambda>n s.
       let d = take n (drop (nat (pn_pos s mod sz)) (pn_mem s (pn_pos s div sz)))
       in (Bytes d, s \<lparr> pn_pos := pn_pos s + int (length d) \<rparr>)),
     k_write = (\<lambda>d s.
       (Inr (int (length d)),
        s \<lparr> pn_pos := pn_pos s + int (length d),
            pn_mem := (pn_mem s)(pn_pos s div sz :=
              ns_program (nat (pn_pos s mod sz)) d (pn_mem s (pn_pos s div sz))) \<rparr>)),
     k_memwrite = (\<lambda>req s. (Some ENOTTY, s)),
     k_memgetoobsel = (\<lambda>s. (Inl EOPNOTSUPP, s)),
     k_oob64 = (\<lambda>wr start len d s. (None, d, s)),
     k_oob = (\<lambda>wr start len d s. (None, d, s)),
     k_pwrite = (\<lambda>d seek s. (Inr (int (length d)), s)),
     k_mtdfilemode_raw = (\<lambda>s. (None, s)),
     k_img_stat = (\<lambda>s. (Inr (int (length (pn_img s))), s)),
     k_img_open = (\<lambda>s. (None, s)),
     k_img_lseek = (\<lambda>n s. (None, s \<lparr> pn_img := drop (nat n) (pn_img s) \<rparr>)),
     k_img_read = (\<lambda>n s. (Bytes (take n (pn_img s)), s \<lparr> pn_img := drop n (pn_img s) \<rparr>)),
     k_getline = (\<lambda>s. (None, s)) \<rparr>"

lemma and_ff: "(b :: byte) AND 0xFF = b"
proof -
  have "(0xFF :: byte) = - 1"
    by simp
  then show ?thesis
    by (simp only: and.right_neutral)
qed

lemma map2_and_ff: "length d \<le> n \<Longrightarrow> map2 (AND) d (replicate n (0xFF :: byte)) = d"
proof (induction d arbitrary: n)
  case (Cons b d)
  then show ?case
    by (cases n) (auto simp: and_ff)
qed simp

lemma ns_program_erased:
  "length d \<le> n \<Longrightarrow> ns_program 0 d (replicate n 0xFF) = d @ replicate (n - length d) 0xFF"
  by (simp add: ns_program_def map2_and_ff)

text \<open>The driver finds the eraseblock of an erase request.\<close>

lemma erase_address:
  assumes "0 < sz" "cnt * sz < 2 ^ 64" "in_block (nand_mtd cnt sz io) eb"
  shows "uint (word_of_int (eb * sz) :: u64) div sz = eb"
proof -
  have "eb * sz \<le> cnt * sz"
    using assms by (intro mult_right_mono) (auto simp: in_block_def)
  then have "eb * sz < 2 ^ 64" "0 \<le> eb * sz"
    using assms by (linarith, simp add: in_block_def)
  then have "uint (word_of_int (eb * sz) :: u64) = eb * sz"
    using mod_pos_pos_trivial [of "eb * sz" "2 ^ 64"]
    by (simp only: uint_word_of_int_eq take_bit_eq_mod) simp
  then show ?thesis
    using assms by simp
qed

lemma perfect_nand_ideal:
  assumes "0 < sz" "cnt * sz < 2 ^ 64"
  shows "ideal_nand (perfect_kernel sz) (nand_mtd cnt sz io) good pn_mem pn_img"
proof -
  note addr = erase_address [OF assms]
  show ?thesis
    unfolding ideal_nand_def
    using addr assms
    by (auto simp: perfect_kernel_def ns_program_erased fun_upd_def simp del: of_int_mult)
qed

end
