(* ===== verification/UbiProps.thy ===== *)
theory UbiProps
  imports PerfectNand
begin

text \<open>
  The properties of the UBI tools: scanning, formatting and flashing, over the lemmas of
  \<^verbatim>\<open>LibubigenProps\<close>, \<^verbatim>\<open>UbiformatFrame\<close> and \<^verbatim>\<open>UbiformatFlash\<close>, each with an example on an in-memory
  device where it has hypotheses.
\<close>

subsection \<open>Geometry, table and layout volume\<close>

text \<open>
  Property C15. \<^verbatim>\<open>ubigen_info_init\<close> without an explicit VID header offset (offset 0), for sub-pages and I/O
  units of at most 2^28 bytes and an eraseblock with room for a sub-page, an I/O unit and 128 bytes,
  places the VID header at the first sub-page after the EC header and the data at the first I/O unit
  after the VID header; what is left is the LEB, and the volume table fits into it.
\<close>

theorem ubigen_geometry:
  assumes "0 < sub" "sub \<le> 2 ^ 28" "0 < min_io" "min_io \<le> 2 ^ 28"
    and "peb < 2 ^ 31" "sub + min_io + 128 \<le> peb"
  shows "\<exists>ui. ubigen_info_init peb min_io sub 0 ver seq = Some ui \<and> wf_ubigen_info ui
    \<and> ui_vid_hdr_offs ui mod sub = 0 \<and> ui_vid_hdr_offs ui < 64 + sub
    \<and> ui_data_offs ui mod min_io = 0 \<and> ui_data_offs ui < ui_vid_hdr_offs ui + 64 + min_io
    \<and> ui_peb_size ui = peb \<and> ui_image_seq ui = seq \<and> ui_ubi_ver ui = ver"
  by (rule ubigen_info_init_aux [OF assms])

theorem ubigen_geometry_witness:
  "\<exists>ui. ubigen_info_init 131072 2048 512 0 1 7 = Some ui \<and> wf_ubigen_info ui
    \<and> ui_vid_hdr_offs ui mod 512 = 0 \<and> ui_vid_hdr_offs ui < 64 + 512
    \<and> ui_data_offs ui mod 2048 = 0 \<and> ui_data_offs ui < ui_vid_hdr_offs ui + 64 + 2048
    \<and> ui_peb_size ui = 131072 \<and> ui_image_seq ui = 7 \<and> ui_ubi_ver ui = 1"
  by (rule ubigen_geometry) simp_all

text \<open>
  Property C17. A volume table whose records are well-formed and carry the checksum the kernel checks
  is such a table after every \<^verbatim>\<open>ubigen_add_volume\<close> that succeeds, with as many records and every
  record but the volume's own unchanged; the own one holds the name, the alignment and the number of
  eraseblocks of the volume. The empty table is one.
\<close>

theorem volume_table_checksums:
  assumes "ubigen_add_volume ui vi vtbl = Inr vtbl'" "vtbl_ok vtbl"
  shows "vtbl_ok vtbl' \<and> length vtbl' = length vtbl
    \<and> (\<forall>i < length vtbl. i \<noteq> nat (vi_id vi) \<longrightarrow> vtbl' ! i = vtbl ! i)
    \<and> take (nat (vi_name_len vi)) (vtbl_name (vtbl' ! nat (vi_id vi))) = take (nat (vi_name_len vi)) (vi_name vi)
    \<and> be32_to_cpu (vtbl_alignment (vtbl' ! nat (vi_id vi))) = word_of_int (vi_alignment vi)
    \<and> be32_to_cpu (vtbl_reserved_pebs (vtbl' ! nat (vi_id vi)))
        = word_of_int (c_div (vi_bytes vi + ui_leb_size ui - 1) (ui_leb_size ui))
    \<and> (\<forall>v0. ubigen_create_empty_vtbl al ui = Some v0 \<longrightarrow> vtbl_ok v0 \<and> length v0 = nat (ui_max_volumes ui))"
  using ubigen_add_volume_ok_aux [OF assms] ubigen_add_volume_fields [OF assms(1)]
    empty_vtbl_ok [of al ui] length_empty_vtbl [of al ui] by blast

definition example_ui :: ubigen_info where
  "example_ui = \<lparr> ui_leb_size = 1000, ui_peb_size = 1128, ui_min_io_size = 1, ui_vid_hdr_offs = 64,
     ui_data_offs = 128, ui_ubi_ver = 1, ui_vtbl_size = 2 * 172, ui_max_volumes = 2, ui_image_seq = 5 \<rparr>"

definition example_vi :: ubigen_vol_info where
  "example_vi = \<lparr> vi_id = 1, vi_type = 1, vi_alignment = 1, vi_data_pad = 0, vi_usable_leb_size = 1000,
     vi_name = [114, 111], vi_name_len = 2, vi_compat = 0, vi_used_ebs = 0, vi_bytes = 3000, vi_flags = 0 \<rparr>"

text \<open>A table that already has a volume gets a second one.\<close>

definition example_vtbl :: "ubi_vtbl_record list" where
  "example_vtbl = projr (ubigen_add_volume example_ui example_vi (the (ubigen_create_empty_vtbl True example_ui)))"

theorem volume_table_checksums_witness:
  "let vi = example_vi\<lparr>vi_id := 0\<rparr>; vtbl = projr (ubigen_add_volume example_ui vi example_vtbl)
   in vtbl_ok vtbl \<and> length vtbl = 2 \<and> vtbl ! 1 = example_vtbl ! 1 \<and> take 2 (vtbl_name (vtbl ! 0)) = [114, 111]
    \<and> be32_to_cpu (vtbl_reserved_pebs (vtbl ! 0)) = 3"
proof -
  let ?v0 = "the (ubigen_create_empty_vtbl True example_ui)" and ?vi = "example_vi\<lparr>vi_id := 0\<rparr>"
  have 0: "ubigen_create_empty_vtbl True example_ui = Some ?v0"
    by (simp add: ubigen_create_empty_vtbl_def)
  have 1: "ubigen_add_volume example_ui example_vi ?v0 = Inr example_vtbl"
    by (simp add: example_vtbl_def ubigen_create_empty_vtbl_def ubigen_add_volume_def example_ui_def example_vi_def Let_def)
  note one = ubigen_add_volume_ok_aux [OF 1 empty_vtbl_ok [OF 0]]
  have len: "length ?v0 = 2"
    using length_empty_vtbl [OF 0] by (simp add: example_ui_def)
  then have 2: "ubigen_add_volume example_ui ?vi example_vtbl = Inr (projr (ubigen_add_volume example_ui ?vi example_vtbl))"
    using one by (simp add: ubigen_add_volume_def example_ui_def example_vi_def Let_def)
  have c: "c_div (vi_bytes ?vi + ui_leb_size example_ui - 1) (ui_leb_size example_ui) = 3"
    by (simp add: example_ui_def example_vi_def c_div_def)
  show ?thesis
    using volume_table_checksums [OF 2, of True] one len c by (simp add: Let_def) (simp add: example_vi_def)
qed

text \<open>
  Property C16. An eraseblock of the layout volume starts with its EC header, has its VID header at
  the VID header offset and the whole volume table at the data offset, and fills the eraseblock.
\<close>

theorem layout_peb_contents:
  assumes "wf_ubigen_info ui" "vtbl_ok vtbl" "length vtbl = nat (ui_max_volumes ui)"
  shows "length (layout_peb ui vtbl ec n) = nat (ui_peb_size ui)
    \<and> ec_hdr_of_bytes (layout_peb ui vtbl ec n) = ubigen_init_ec_hdr ui ec
    \<and> take 64 (drop (nat (ui_vid_hdr_offs ui)) (layout_peb ui vtbl ec n)) =
        vid_hdr_bytes (ubigen_init_vid_hdr ui (layout_vol_info ui) n [])
    \<and> take (nat (ui_vtbl_size ui)) (drop (nat (ui_data_offs ui)) (layout_peb ui vtbl ec n)) =
        concat (map vtbl_bytes vtbl)"
proof -
  let ?e = "ec_hdr_bytes (ubigen_init_ec_hdr ui ec)" and ?o = "layout_outbuf ui vtbl"
  let ?v = "vid_hdr_bytes (ubigen_init_vid_hdr ui (layout_vol_info ui) n [])"
  let ?vo = "nat (ui_vid_hdr_offs ui)" and ?do = "nat (ui_data_offs ui)"
  have geo: "64 \<le> ?vo" "?vo + 64 \<le> ?do" "?do + nat (ui_vtbl_size ui) \<le> nat (ui_peb_size ui)"
    "nat (ui_vtbl_size ui) = 172 * length vtbl"
    using assms(1,3) by (auto simp: wf_ubigen_info_def)
  have lo: "length ?o = nat (ui_peb_size ui)"
    by (rule length_layout_outbuf [OF assms])
  have ls: "length (store_at 0 ?e ?o) = nat (ui_peb_size ui)"
    using geo lo by simp
  have "take 64 (layout_peb ui vtbl ec n) = take 64 (store_at 0 ?e ?o)"
    unfolding layout_peb_def using geo ls by (intro take_store_at) simp_all
  also have "\<dots> = ?e"
    by (simp add: store_at_def)
  finally have "ec_hdr_of_bytes (layout_peb ui vtbl ec n) = ubigen_init_ec_hdr ui ec"
    using ech.dec_take [of "layout_peb ui vtbl ec n"] length_layout_peb [OF assms, of ec n] geo
      ech.dec_enc [of "ubigen_init_ec_hdr ui ec" "[]"] by simp
  moreover have "take 64 (drop ?vo (layout_peb ui vtbl ec n)) = ?v"
    unfolding layout_peb_def using take_drop_store_at [of ?vo "store_at 0 ?e ?o" ?v] geo ls by simp
  moreover have "drop ?do (layout_peb ui vtbl ec n) = drop ?do ?o"
    unfolding layout_peb_def using geo ls lo by (simp add: drop_store_at)
  moreover have "take (nat (ui_vtbl_size ui)) (drop ?do ?o) = concat (map vtbl_bytes vtbl)"
    using length_concat_vtbl [OF assms(2)] geo by (simp add: layout_outbuf_def)
  ultimately show ?thesis
    using length_layout_peb [OF assms] by simp
qed

theorem layout_peb_contents_witness:
  "let vtbl = the (ubigen_create_empty_vtbl True example_ui); b = layout_peb example_ui vtbl 3 0
   in length b = nat (ui_peb_size example_ui) \<and> ec_hdr_of_bytes b = ubigen_init_ec_hdr example_ui 3
    \<and> take 64 (drop (nat (ui_vid_hdr_offs example_ui)) b) =
        vid_hdr_bytes (ubigen_init_vid_hdr example_ui (layout_vol_info example_ui) 0 [])
    \<and> take (nat (ui_vtbl_size example_ui)) (drop (nat (ui_data_offs example_ui)) b) =
        concat (map vtbl_bytes vtbl)"
proof -
  have 1: "ubigen_create_empty_vtbl True example_ui = Some (the (ubigen_create_empty_vtbl True example_ui))"
    by (simp add: ubigen_create_empty_vtbl_def)
  have 2: "wf_ubigen_info example_ui"
    by (simp add: wf_ubigen_info_def example_ui_def UBI_MAX_VOLUMES_def)
  show ?thesis
    unfolding Let_def by (rule layout_peb_contents [OF 2 empty_vtbl_ok [OF 1] length_empty_vtbl [OF 1]])
qed

subsection \<open>Scanning\<close>

lemma count_kinds:
  assumes "\<forall>e \<in> set xs. uint e \<le> EC_MAX \<or> e \<in> {EB_BAD, EB_EMPTY, EB_ALIEN, EB_CORRUPTED}"
  shows "length (filter (\<lambda>e. uint e \<le> EC_MAX) xs) + count_list xs EB_BAD + count_list xs EB_EMPTY
    + count_list xs EB_ALIEN + count_list xs EB_CORRUPTED = length xs"
  using assms by (induction xs) (auto simp: eb_defs)

lemma sum_list_le: "list_all (\<lambda>x. x \<le> (m :: int)) xs \<Longrightarrow> sum_list xs \<le> m * int (length xs)"
  by (induction xs) (auto simp: algebra_simps)

lemma mean_ec_bounds:
  assumes "scan_inv mtd n si" "length (si_ec si) \<le> n"
  shows "0 \<le> si_mean_ec (scan_finish mtd si) \<and> si_mean_ec (scan_finish mtd si) \<le> EC_MAX"
proof (cases "si_ok_cnt si = 0")
  case True
  then show ?thesis using assms(1) by (simp add: scan_finish_def scan_inv_def Let_def EC_MAX_def)
next
  case False
  let ?es = "map uint (filter (\<lambda>e. uint e \<le> EC_MAX) (si_ec si))"
  have cnt: "si_ok_cnt si = int (length ?es)"
    using assms(1,2) by (simp add: scan_inv_def)
  have pos: "0 < int (length ?es)"
    using False cnt by linarith
  have "sum_list ?es \<le> EC_MAX * int (length ?es)"
    by (rule sum_list_le) (simp add: list_all_iff)
  then have "sum_list ?es div int (length ?es) \<le> EC_MAX"
    using pos zdiv_mono1 [of "sum_list ?es" "EC_MAX * int (length ?es)" "int (length ?es)"] by simp
  moreover have "0 \<le> sum_list ?es div int (length ?es)"
    using pos by (intro pos_imp_zdiv_nonneg_iff [THEN iffD2] sum_list_nonneg) auto
  ultimately show ?thesis
    using False cnt by (simp add: scan_finish_def Let_def)
qed

lemma mean_ec_value:
  assumes "scan_inv mtd n si" "length (si_ec si) \<le> n"
  shows "si_mean_ec (scan_finish mtd si) = (let ecs = map uint (filter (\<lambda>e. uint e \<le> EC_MAX) (si_ec si))
    in if ecs = [] then 0 else sum_list ecs div int (length ecs))"
proof -
  have "si_ok_cnt si = int (length (map uint (filter (\<lambda>e. uint e \<le> EC_MAX) (si_ec si))))" "si_mean_ec si = 0"
    using assms by (simp_all add: scan_inv_def)
  then show ?thesis
    by (simp add: scan_finish_def Let_def del: length_map)
qed

text \<open>
  Property C9. A completed scan classifies every eraseblock: each counter is the number of table
  entries of its kind, the kinds add up to the device, and the mean erase counter is the sum of the
  counters in the table divided by their number, 0 when there is none, and in range.
\<close>

theorem scan_counts:
  assumes "ubi_scan K a1 a2 junk mtd st = Some (Some si, st')"
  shows "length (si_ec si) = nat (mtd_eb_cnt mtd)
    \<and> si_bad_cnt si = int (count_list (si_ec si) EB_BAD)
    \<and> si_empty_cnt si = int (count_list (si_ec si) EB_EMPTY)
    \<and> si_alien_cnt si = int (count_list (si_ec si) EB_ALIEN)
    \<and> si_corrupted_cnt si = int (count_list (si_ec si) EB_CORRUPTED)
    \<and> si_ok_cnt si = int (length (filter (\<lambda>e. uint e \<le> EC_MAX) (si_ec si)))
    \<and> si_ok_cnt si + si_bad_cnt si + si_empty_cnt si + si_alien_cnt si + si_corrupted_cnt si
        = int (length (si_ec si))
    \<and> si_good_cnt si = mtd_eb_cnt mtd - si_bad_cnt si
    \<and> si_mean_ec si = (let ecs = map uint (filter (\<lambda>e. uint e \<le> EC_MAX) (si_ec si))
        in if ecs = [] then 0 else sum_list ecs div int (length ecs))
    \<and> 0 \<le> si_mean_ec si \<and> si_mean_ec si \<le> EC_MAX"
proof -
  obtain si0 where inv: "scan_inv mtd (nat (mtd_eb_cnt mtd)) si0" and si: "si = scan_finish mtd si0"
    using scan_totals_aux [OF assms] by blast
  have len: "take (nat (mtd_eb_cnt mtd)) (si_ec si0) = si_ec si0"
    using inv by (simp add: scan_inv_def)
  show ?thesis
    using inv count_kinds [of "si_ec si0"] mean_ec_bounds [OF inv] mean_ec_value [OF inv]
    by (auto simp: si scan_inv_def len scan_finish_def Let_def)
qed

text \<open>Two eraseblocks, one erased and one bad.\<close>

definition two_blocks :: nsim where
  "two_blocks = \<lparr> ns_blocks = [replicate 64 0xFF, []], ns_pos = 0, ns_bad = [1], ns_eio = [], ns_img = [] \<rparr>"

theorem scan_counts_witness:
  "\<exists>si st'. ubi_scan (nand_kernel 64) True True (replicate 64 0) (nand_mtd 2 64 64) (OFFS64_IOCTLS_UNKNOWN, two_blocks)
      = Some (Some si, st')
    \<and> si_ec si = [EB_EMPTY, EB_BAD]
    \<and> si_ok_cnt si + si_bad_cnt si + si_empty_cnt si + si_alien_cnt si + si_corrupted_cnt si = 2"
proof -
  let ?mtd = "nand_mtd 2 64 64" and ?ff = "replicate 64 0xFF :: byte list"
  have "ech_magic (ec_hdr_of_bytes ?ff) = - 1"
  proof -
    have "replicate 4 b = [b, b, b, b]" for b :: byte
      by (simp add: numeral_eq_Suc)
    then have "take 4 ?ff = [0xFF, 0xFF, 0xFF, 0xFF]"
      by simp
    then show ?thesis
      by (simp add: ec_hdr_of_bytes_def)
  qed
  then have hdr: "scan_header ?mtd 0 ?ff si = Inr (si_empty 0 si)" for si
  proof -
    have "(- 1 :: u32) \<noteq> swab32 UBI_EC_HDR_MAGIC"
      by (simp add: swab32_def UBI_EC_HDR_MAGIC_def)
    then have "be32_to_cpu (ech_magic (ec_hdr_of_bytes ?ff)) \<noteq> UBI_EC_HDR_MAGIC"
      by (simp only: \<open>ech_magic (ec_hdr_of_bytes ?ff) = - 1\<close> be32.swap_eq_swap not_False_eq_True)
    then show ?thesis
      by (simp add: scan_header_def all_ff_def list_all_iff)
  qed
  have run: "ubi_scan (nand_kernel 64) True True (replicate 64 0) ?mtd (OFFS64_IOCTLS_UNKNOWN, two_blocks)
      = Some (Some (scan_finish ?mtd (si_bad 1 (si_empty 0 (scan_init ?mtd)))),
          OFFS64_IOCTLS_UNKNOWN, two_blocks \<lparr> ns_pos := 64 \<rparr>)"
    by (simp add: ubi_scan_def upto.simps mtd_is_bad_def mtd_valid_erase_block_def nand_kernel_def Let_def
        mtd_read_def mtd_read_loop.simps ns_read_def two_blocks_def store_at_def hdr)
  have ec: "si_ec (scan_finish ?mtd (si_bad 1 (si_empty 0 (scan_init ?mtd)))) = [EB_EMPTY, EB_BAD]"
    by (simp add: scan_finish_def si_bad_def si_empty_def scan_init_def Let_def numeral_2_eq_2)
  show ?thesis
    using scan_counts [OF run] run ec by auto
qed

text \<open>
  Property C11. The scan accepts the EC header \<^verbatim>\<open>ubigen_init_ec_hdr\<close> writes: the eraseblock counts as
  good with exactly the erase counter written, and the first one fixes the header offsets.
\<close>

theorem scan_accepts_generated_header:
  assumes "0 \<le> ec" "ec \<le> EC_MAX" "0 < mtd_min_io_size mtd"
    and "0 \<le> ui_data_offs ui" "ui_data_offs ui < 2 ^ 31" "ui_data_offs ui mod mtd_min_io_size mtd = 0"
    and "0 \<le> ui_vid_hdr_offs ui" "ui_vid_hdr_offs ui < 2 ^ 31"
    and "si_vid_hdr_offs si = -1 \<or> si_vid_hdr_offs si = ui_vid_hdr_offs ui \<and> si_data_offs si = ui_data_offs ui"
  shows "scan_header mtd eb (ec_hdr_bytes (ubigen_init_ec_hdr ui ec)) si =
    Inr (si_ok eb (word_of_int ec) (si \<lparr> si_vid_hdr_offs := ui_vid_hdr_offs ui, si_data_offs := ui_data_offs ui \<rparr>))"
proof -
  let ?h = "ubigen_init_ec_hdr ui ec" and ?b = "ec_hdr_bytes (ubigen_init_ec_hdr ui ec)"
  have dec: "ec_hdr_of_bytes ?b = ?h"
    using ech.dec_enc [of ?h "[]"] by simp
  have crc: "be32_to_cpu (ech_hdr_crc ?h) = mtd_crc32 UBI_CRC32_INIT (take 60 ?b)"
    using ubigen_init_ec_hdr_sealed [of ui ec] by (simp add: ec_hdr_sealed_def ec_hdr_crc_def ec_hdr_bytes_def)
  have ec: "uint (word_of_int ec :: u64) = ec" "(ucast (word_of_int ec :: u64) :: u32) = word_of_int ec"
    using assms(1,2) by (simp_all add: EC_MAX_def uint_word_of_int_eq take_bit_eq_mod ucast_eq)
  have offs: "sint (word_of_int x :: u32) = x" if "0 \<le> x" "x < 2 ^ 31" for x :: int
    using that by (simp add: sint_sbintrunc' signed_take_bit_int_eq_self)
  note o = offs [OF assms(4,5)] offs [OF assms(7,8)]
  have same: "si \<lparr> si_vid_hdr_offs := si_vid_hdr_offs si, si_data_offs := si_data_offs si \<rparr> = si"
    by (cases si) simp
  have ok: "be32_to_cpu (ech_magic ?h) = UBI_EC_HDR_MAGIC" "\<not> uint (be64_to_cpu (ech_ec ?h)) > EC_MAX"
    using assms(2) ec(1) by simp_all
  have mod: "c_mod (ui_data_offs ui) (mtd_min_io_size mtd) = 0" "mtd_min_io_size mtd \<noteq> 0"
    using assms(3,4,6) by simp_all
  have run: "scan_header mtd eb ?b si =
      (if si_vid_hdr_offs si = -1 then
         Inr (si_ok eb (word_of_int ec) (si \<lparr> si_vid_hdr_offs := ui_vid_hdr_offs ui, si_data_offs := ui_data_offs ui \<rparr>))
       else if ui_vid_hdr_offs ui \<noteq> si_vid_hdr_offs si then Inr (si_corrupted eb si)
       else if ui_data_offs ui \<noteq> si_data_offs si then Inr (si_corrupted eb si)
       else Inr (si_ok eb (word_of_int ec) si))"
    unfolding scan_header_def Let_def dec
    by (simp only: ok crc ubigen_init_ec_hdr_fields ec o mod refl not_True_eq_False if_False if_True simp_thms
        ubi_scan_info.select_convs ubi_scan_info.update_convs) (use assms(2) mod ec in auto)
  show ?thesis
    unfolding run using assms(9) same by (auto simp: same)
qed

theorem scan_accepts_generated_header_witness:
  "scan_header (nand_mtd 2 1128 1) 0 (ec_hdr_bytes (ubigen_init_ec_hdr example_ui 7)) (scan_init (nand_mtd 2 1128 1)) =
    Inr (si_ok 0 (word_of_int 7) (scan_init (nand_mtd 2 1128 1)
      \<lparr> si_vid_hdr_offs := ui_vid_hdr_offs example_ui, si_data_offs := ui_data_offs example_ui \<rparr>))"
  by (rule scan_accepts_generated_header) (simp_all add: example_ui_def scan_init_def EC_MAX_def)

text \<open>
  Property C10. Up to four adjacent damaged bytes of a valid EC header that lie within the 60 bytes the
  checksum covers, or within the four bytes of the checksum itself, never go unnoticed: the scan
  counts the eraseblock as corrupted, alien or empty, never as good. (Damage that straddles the two
  parts is not covered: there are such patterns that pass.)
\<close>

theorem scan_detects_damage:
  assumes "valid_ech (p @ x @ s)" "length (p @ x @ s) = 64"
    and "length p + length x \<le> 60 \<or> 60 \<le> length p"
    and "length x = length y" "length x \<le> 4" "x \<noteq> y"
  shows "scan_header mtd eb (p @ y @ s) si \<in>
    {Inr (si_corrupted eb si), Inr (si_alien eb si), Inr (si_empty eb si)}"
proof -
  let ?b = "p @ x @ s" and ?b' = "p @ y @ s"
  have valid: "mtd_crc32 UBI_CRC32_INIT (take 60 ?b) = be32_to_cpu (ech_hdr_crc (ec_hdr_of_bytes ?b))"
    using assms(1,2) ec_hdr_crc_bytes [of ?b] by (simp only: valid_ech_def ec_hdr_sealed_def)
  have "mtd_crc32 UBI_CRC32_INIT (take 60 ?b') \<noteq> be32_to_cpu (ech_hdr_crc (ec_hdr_of_bytes ?b'))"
  proof (cases "length p + length x \<le> 60")
    case True
    then have "drop 60 ?b' = drop 60 ?b"
      using assms(4) by simp
    then have crc: "ech_hdr_crc (ec_hdr_of_bytes ?b') = ech_hdr_crc (ec_hdr_of_bytes ?b)"
      by (simp only: ec_hdr_of_bytes_def ubi_ec_hdr.simps)
    show ?thesis
      unfolding crc by (rule mtd.damage_in_prefix [OF valid assms(4-6) True])
  next
    case False
    then have same: "take 60 ?b' = take 60 ?b"
      using assms(3) by simp
    have "ec_hdr_bytes (ec_hdr_of_bytes ?b') \<noteq> ec_hdr_bytes (ec_hdr_of_bytes ?b)"
      using ec_hdr_bytes_of_bytes(2) [of ?b] ec_hdr_bytes_of_bytes(2) [of ?b'] assms(2,4,6) by simp
    moreover have "ec_hdr_body (ec_hdr_of_bytes ?b') = ec_hdr_body (ec_hdr_of_bytes ?b)"
      using ec_hdr_bytes_of_bytes(1) [of ?b] ec_hdr_bytes_of_bytes(1) [of ?b'] assms(2,4) same by simp
    ultimately have "ech_hdr_crc (ec_hdr_of_bytes ?b') \<noteq> ech_hdr_crc (ec_hdr_of_bytes ?b)"
      by (auto simp: ec_hdr_bytes_def)
    then show ?thesis
      unfolding same valid by simp
  qed
  then show ?thesis
    by (simp add: scan_header_def Let_def del: take_append)
qed

lemma valid_ech_generated: "valid_ech (ec_hdr_bytes (ubigen_init_ec_hdr ui ec) @ rest)"
  using ech.dec_enc [of "ubigen_init_ec_hdr ui ec" rest] ubigen_init_ec_hdr_sealed [of ui ec]
  by (simp add: valid_ech_def)

theorem scan_detects_damage_witness:
  "let b = ec_hdr_bytes (ubigen_init_ec_hdr example_ui 7)
   in scan_header (nand_mtd 2 1128 1) 0 (take 16 b @ map (\<lambda>v. v + 1) (take 4 (drop 16 b)) @ drop 20 b)
        (scan_init (nand_mtd 2 1128 1)) \<in>
      {Inr (si_corrupted 0 (scan_init (nand_mtd 2 1128 1))), Inr (si_alien 0 (scan_init (nand_mtd 2 1128 1))),
       Inr (si_empty 0 (scan_init (nand_mtd 2 1128 1)))}"
proof -
  let ?b = "ec_hdr_bytes (ubigen_init_ec_hdr example_ui 7)"
  have len: "length ?b = 64"
    by simp
  have whole: "take 16 ?b @ take 4 (drop 16 ?b) @ drop 20 ?b = ?b"
    using append_take_drop_id [of 4 "drop 16 ?b"] by simp
  have ne: "take 4 (drop 16 ?b) \<noteq> map (\<lambda>v. v + 1) (take 4 (drop 16 ?b))"
  proof
    assume "take 4 (drop 16 ?b) = map (\<lambda>v. v + 1) (take 4 (drop 16 ?b))"
    then have "take 4 (drop 16 ?b) ! 0 = map (\<lambda>v. v + 1) (take 4 (drop 16 ?b)) ! 0"
      by (rule arg_cong)
    then show False
      using len by simp
  qed
  show ?thesis
    unfolding Let_def
    by (rule scan_detects_damage [of _ "take 4 (drop 16 ?b)"])
      (use ne len whole valid_ech_generated [of example_ui 7 "[]"] in simp_all)
qed

end
