(* ===== verification/UbiformatProps.thy ===== *)
theory UbiformatProps
  imports UbiProps
begin

text \<open>
  The properties of \<^verbatim>\<open>ubiformat\<close>: what it writes where, what it leaves alone, and how it deals with
  failing eraseblocks.
\<close>

subsection \<open>Flashing\<close>

text \<open>
  Property C3. On a device whose good eraseblocks do not fail, flashing an image of \<open>n\<close> blocks
  succeeds, stores the \<open>i\<close>-th block, with its erase counter and sequence number changed, in the
  \<open>i\<close>-th eraseblock that the scan did not find bad, changes no other eraseblock, and returns the
  eraseblock after the last one written. Dropping trailing 0xFF bytes loses nothing.
\<close>

theorem flash_image_places_blocks:
  assumes "ideal_nand K mtd good mem img" "wf_geometry mtd"
    and "set (live_list (uf_si u) [0..mtd_eb_cnt mtd - 1]) \<subseteq> good"
    and "fst (uf_st u) \<noteq> OFFS64_IOCTLS_NOT_SUPPORTED"
    and "imgs \<noteq> []" "length imgs \<le> length (live_list (uf_si u) [0..mtd_eb_cnt mtd - 1])"
    and "list_all (\<lambda>d. length d = nat (mtd_eb_size mtd) \<and> valid_ech d) imgs"
    and "int (length imgs) \<le> si_good_cnt (uf_si u)" "length imgs < 2 ^ 31"
    and "open_file K a (snd (uf_st u)) = (Some (int (length (concat imgs))), k)"
    and "mem k = mem (snd (uf_st u))" "img k = concat imgs"
  shows "\<exists>u'. flash_image K junk a mtd ui u =
          Some (Some (live_list (uf_si u) [0..mtd_eb_cnt mtd - 1] ! (length imgs - 1) + 1), u')
        \<and> uf_si u' = uf_si u
        \<and> flashed mem a (ui_image_seq ui) (uf_si u) imgs (live_list (uf_si u) [0..mtd_eb_cnt mtd - 1])
            (snd (uf_st u)) (snd (uf_st u'))"
  using flash_image_ideal_aux [OF assms] by blast

text \<open>Two eraseblocks of 64 bytes, the first bad; the image is one EC header.\<close>

definition example_args :: ubi_args where
  "example_args = \<lparr> ua_yes = True, ua_quiet = True, ua_verbose = False, ua_override_ec = False,
     ua_novtbl = False, ua_manual_subpage = False, ua_no_detach_check = True, ua_subpage_size = 0,
     ua_vid_hdr_offs = 0, ua_ubi_ver = 1, ua_image_seq = 9, ua_image_sz = 0, ua_ec = 0,
     ua_image = Some ''rootfs.ubi'', ua_node = ''/dev/mtd1'' \<rparr>"

definition example_si :: "u32 list \<Rightarrow> int \<Rightarrow> ubi_scan_info" where
  "example_si ec bad = \<lparr> si_ec = ec, si_mean_ec = 3, si_ok_cnt = 0, si_empty_cnt = 0,
     si_corrupted_cnt = 0, si_alien_cnt = 0, si_bad_cnt = bad, si_good_cnt = int (length ec) - bad,
     si_vid_hdr_offs = -1, si_data_offs = -1 \<rparr>"

definition example_block :: "byte list" where
  "example_block = ec_hdr_bytes (ubigen_init_ec_hdr example_ui 0)"

definition example_run :: "pnand ufmt" where
  "example_run = \<lparr> uf_si = example_si [EB_BAD, EB_EMPTY] 1, uf_consecutive = 1, uf_prev_bb = -1,
     uf_st = (OFFS64_IOCTLS_UNKNOWN, \<lparr> pn_mem = (\<lambda>_. replicate 64 0), pn_pos = 0, pn_img = example_block \<rparr>) \<rparr>"

lemma example_block [simp]: "length example_block = 64" "valid_ech example_block"
  using valid_ech_generated [of example_ui 0 "[]"] by (simp_all add: example_block_def)

theorem flash_image_places_blocks_witness:
  "\<exists>u'. flash_image (perfect_kernel 64) [] example_args (nand_mtd 2 64 64) example_ui example_run =
          Some (Some (live_list (uf_si example_run) [0..mtd_eb_cnt (nand_mtd 2 64 64) - 1] ! (length [example_block] - 1) + 1), u')
        \<and> uf_si u' = uf_si example_run
        \<and> flashed pn_mem example_args (ui_image_seq example_ui) (uf_si example_run) [example_block]
            (live_list (uf_si example_run) [0..mtd_eb_cnt (nand_mtd 2 64 64) - 1])
            (snd (uf_st example_run)) (snd (uf_st u'))"
proof (rule flash_image_places_blocks [where k = "snd (uf_st example_run)"])
  show "ideal_nand (perfect_kernel 64) (nand_mtd 2 64 64) {1} pn_mem pn_img"
    by (rule perfect_nand_ideal) simp_all
  have live: "live_list (uf_si example_run) [0..mtd_eb_cnt (nand_mtd 2 64 64) - 1] = [1]"
    by (simp add: live_list_def example_run_def example_si_def eb_defs upto.simps)
  show "set (live_list (uf_si example_run) [0..mtd_eb_cnt (nand_mtd 2 64 64) - 1]) \<subseteq> {1}"
    "length [example_block] \<le> length (live_list (uf_si example_run) [0..mtd_eb_cnt (nand_mtd 2 64 64) - 1])"
    by (simp_all only: live) simp_all
qed (simp_all add: wf_geometry_def example_run_def example_si_def open_file_def perfect_kernel_def example_args_def)

text \<open>
  Property C5. Formatting and flashing never erase, write or mark an eraseblock that the scan found
  bad: whatever the driver keeps while only other eraseblocks are addressed is kept by the run,
  on every path, failures included.
\<close>

theorem ubiformat_leaves_bad_blocks:
  assumes "frame_kernel K mtd (live_ebs (uf_si u)) P" "0 < mtd_subpage_size mtd"
    and "wf_ubigen_info ui" "ui_peb_size ui = mtd_eb_size mtd"
    and "P (snd (uf_st u))" "ubiformat_write K alloc junk a mtd ui u = Some (ok, u')"
  shows "P (snd (uf_st u'))"
  by (rule ubiformat_write_keeps_aux [OF assms(1-4) refl assms(5,6)])

text \<open>
  In the example formatting erases eraseblock 1 and then fails for want of a second eraseblock for
  the volume table; the bad eraseblock 0 is as it was.
\<close>

definition example_nand :: "nsim ufmt" where
  "example_nand = \<lparr> uf_si = example_si [EB_BAD, EB_EMPTY] 1, uf_consecutive = 1, uf_prev_bb = -1,
     uf_st = (OFFS64_IOCTLS_UNKNOWN, \<lparr> ns_blocks = [[1, 2, 3], replicate 1128 0], ns_pos = 0, ns_bad = [],
       ns_eio = [], ns_img = [] \<rparr>) \<rparr>"

theorem ubiformat_leaves_bad_blocks_witness:
  "\<exists>u'. ubiformat_write (nand_kernel 1128) (\<lambda>_. True) [] (example_args \<lparr> ua_image := None \<rparr>)
      (nand_mtd 2 1128 1) example_ui example_nand = Some (False, u')
    \<and> ns_blocks (snd (uf_st u')) ! 1 = replicate 1128 0xFF \<and> ns_blocks (snd (uf_st u')) ! 0 = [1, 2, 3]"
proof -
  define u' where "u' = example_nand \<lparr> uf_st := (OFFS64_IOCTLS_UNKNOWN, \<lparr> ns_blocks = [[1, 2, 3], replicate 1128 0xFF],
    ns_pos = 0, ns_bad = [], ns_eio = [], ns_img = [] \<rparr>) \<rparr>"
  have run: "ubiformat_write (nand_kernel 1128) (\<lambda>_. True) [] (example_args \<lparr> ua_image := None \<rparr>)
      (nand_mtd 2 1128 1) example_ui example_nand = Some (False, u')"
    by (simp add: ubiformat_write_def ubi_format_def u'_def example_nand_def example_si_def example_args_def
        upto.simps eb_defs format_eb_def mtd_erase_def mtd_valid_erase_block_def nand_kernel_def ns_erase_def
        Let_def)
  have "ns_blocks (snd (uf_st u')) ! 0 = [1, 2, 3]"
  proof (rule ubiformat_leaves_bad_blocks [where P = "\<lambda>s. ns_blocks s ! 0 = [1, 2, 3]", OF _ _ _ _ _ run])
    show "frame_kernel (nand_kernel 1128) (nand_mtd 2 1128 1) (live_ebs (uf_si example_nand))
        (\<lambda>s. ns_blocks s ! 0 = [1, 2, 3])"
      by (rule nand_frame) (auto simp: live_ebs_def example_nand_def example_si_def)
    show "wf_ubigen_info example_ui"
      by (simp add: wf_ubigen_info_def example_ui_def UBI_MAX_VOLUMES_def)
  qed (simp_all add: example_ui_def example_nand_def)
  with run show ?thesis
    by (auto simp: u'_def del: exI intro!: exI [of _ u'])
qed

subsection \<open>Blocks of the image\<close>

text \<open>
  Property C12. \<^verbatim>\<open>change_ech\<close> accepts exactly the blocks that start with a valid EC header; it changes
  the erase counter, the sequence number and the checksum, leaves every other field of the header, the
  padding included, and the rest of the block as they are, and the changed block is valid again.
\<close>

theorem change_ech_exact:
  assumes "64 \<le> length b"
  shows "case change_ech b seq ec of
      None \<Rightarrow> \<not> valid_ech b
    | Some b' \<Rightarrow> valid_ech b \<and> valid_ech b' \<and> length b' = length b \<and> drop 64 b' = drop 64 b
        \<and> be64_to_cpu (ech_ec (ec_hdr_of_bytes b')) = word_of_int ec
        \<and> be32_to_cpu (ech_image_seq (ec_hdr_of_bytes b')) = seq
        \<and> ech_magic (ec_hdr_of_bytes b') = ech_magic (ec_hdr_of_bytes b)
        \<and> ech_version (ec_hdr_of_bytes b') = ech_version (ec_hdr_of_bytes b)
        \<and> ech_padding1 (ec_hdr_of_bytes b') = ech_padding1 (ec_hdr_of_bytes b)
        \<and> ech_padding2 (ec_hdr_of_bytes b') = ech_padding2 (ec_hdr_of_bytes b)
        \<and> ech_vid_hdr_offset (ec_hdr_of_bytes b') = ech_vid_hdr_offset (ec_hdr_of_bytes b)
        \<and> ech_data_offset (ec_hdr_of_bytes b') = ech_data_offset (ec_hdr_of_bytes b)"
  using change_ech_Some_iff [OF assms, of seq ec] change_ech_Some [OF assms, of seq ec]
    change_ech_valid [OF assms, of seq ec]
  by (auto split: option.splits)

theorem change_ech_exact_witness:
  "case change_ech example_block 5 8 of
      None \<Rightarrow> \<not> valid_ech example_block
    | Some b' \<Rightarrow> valid_ech example_block \<and> valid_ech b' \<and> length b' = length example_block
        \<and> drop 64 b' = drop 64 example_block
        \<and> be64_to_cpu (ech_ec (ec_hdr_of_bytes b')) = word_of_int 8
        \<and> be32_to_cpu (ech_image_seq (ec_hdr_of_bytes b')) = 5
        \<and> ech_magic (ec_hdr_of_bytes b') = ech_magic (ec_hdr_of_bytes example_block)
        \<and> ech_version (ec_hdr_of_bytes b') = ech_version (ec_hdr_of_bytes example_block)
        \<and> ech_padding1 (ec_hdr_of_bytes b') = ech_padding1 (ec_hdr_of_bytes example_block)
        \<and> ech_padding2 (ec_hdr_of_bytes b') = ech_padding2 (ec_hdr_of_bytes example_block)
        \<and> ech_vid_hdr_offset (ec_hdr_of_bytes b') = ech_vid_hdr_offset (ec_hdr_of_bytes example_block)
        \<and> ech_data_offset (ec_hdr_of_bytes b') = ech_data_offset (ec_hdr_of_bytes example_block)"
  by (rule change_ech_exact) simp

text \<open>
  Property C13. \<^verbatim>\<open>drop_ffs\<close> keeps a whole number of I/O units, what it drops is 0xFF only, and it drops
  every whole unit of 0xFF at the end.
\<close>

theorem drop_ffs_keeps_data:
  assumes "0 < mtd_min_io_size mtd" "int n mod mtd_min_io_size mtd = 0" "n \<le> length buf"
  shows "drop_ffs mtd buf n mod mtd_min_io_size mtd = 0 \<and> 0 \<le> drop_ffs mtd buf n \<and> drop_ffs mtd buf n \<le> int n
    \<and> take (nat (drop_ffs mtd buf n)) buf @ replicate (n - nat (drop_ffs mtd buf n)) 0xFF = take n buf
    \<and> (\<forall>m. 0 \<le> m \<and> m mod mtd_min_io_size mtd = 0
          \<and> (\<forall>i < n. m \<le> int i \<longrightarrow> buf ! i = 0xFF) \<longrightarrow> drop_ffs mtd buf n \<le> m)"
proof -
  have "drop_ffs mtd buf n \<le> m"
    if m: "0 \<le> m" "m mod mtd_min_io_size mtd = 0" "\<forall>i < n. m \<le> int i \<longrightarrow> buf ! i = 0xFF" for m
  proof -
    have "int (last_non_ff buf n) \<le> m"
    proof (rule ccontr)
      assume "\<not> int (last_non_ff buf n) \<le> m"
      then have "0 < last_non_ff buf n" "m \<le> int (last_non_ff buf n - 1)" "last_non_ff buf n - 1 < n"
        using m(1) last_non_ff_le [of buf n] by auto
      then show False
        using m(3) last_non_ff_last [of buf n] by blast
    qed
    then have "drop_ffs mtd buf n < m + mtd_min_io_size mtd"
      unfolding drop_ffs_eq [OF assms(1)]
      using round_up_less [OF assms(1), of "int (last_non_ff buf n)"] by linarith
    moreover obtain p q where "m = p * mtd_min_io_size mtd" "drop_ffs mtd buf n = q * mtd_min_io_size mtd"
      using m(2) drop_ffs_aux(1) [OF assms] by (metis dvd_def mod_0_imp_dvd mult.commute)
    ultimately have "q * mtd_min_io_size mtd < (p + 1) * mtd_min_io_size mtd"
      by (simp add: algebra_simps)
    then have "q \<le> p"
      using assms(1) by (simp add: mult_less_cancel_right)
    then show ?thesis
      using \<open>m = _\<close> \<open>drop_ffs mtd buf n = _\<close> assms(1) by (simp add: mult_right_mono)
  qed
  then show ?thesis
    using drop_ffs_aux [OF assms] by simp
qed

theorem drop_ffs_keeps_data_witness:
  "let mtd = nand_mtd 1 4 2; buf = [1, 0xFF, 2, 0xFF, 0xFF, 0xFF]; n = 6
   in drop_ffs mtd buf n mod mtd_min_io_size mtd = 0 \<and> 0 \<le> drop_ffs mtd buf n \<and> drop_ffs mtd buf n \<le> int n
    \<and> take (nat (drop_ffs mtd buf n)) buf @ replicate (n - nat (drop_ffs mtd buf n)) 0xFF = take n buf
    \<and> (\<forall>m. 0 \<le> m \<and> m mod mtd_min_io_size mtd = 0
          \<and> (\<forall>i < n. m \<le> int i \<longrightarrow> buf ! i = 0xFF) \<longrightarrow> drop_ffs mtd buf n \<le> m)"
  unfolding Let_def by (rule drop_ffs_keeps_data) simp_all

subsection \<open>Failing eraseblocks\<close>

text \<open>The statics of \<^verbatim>\<open>consecutive_bad_check\<close> after a sequence of calls.\<close>

definition bad_statics :: "int list \<Rightarrow> int \<times> int" where
  "bad_statics ebs = fold (\<lambda>eb s. snd (consecutive_bad_check eb s)) ebs (1, -1)"

text \<open>The length of the run of adjacent numbers at the end of a sequence, given reversed.\<close>

fun run_len :: "int list \<Rightarrow> int" where
  "run_len [] = 1"
| "run_len [e] = 1"
| "run_len (e # d # r) = (if e = d + 1 then run_len (d # r) + 1 else 1)"

lemma bad_statics_run:
  "list_all (\<lambda>e. 0 \<le> e) ebs \<Longrightarrow> bad_statics ebs = (run_len (rev ebs), if ebs = [] then -1 else last ebs)"
proof (induction ebs rule: rev_induct)
  case Nil
  then show ?case by (simp add: bad_statics_def)
next
  case (snoc e ebs)
  then have IH: "bad_statics ebs = (run_len (rev ebs), if ebs = [] then -1 else last ebs)"
    by simp
  have step: "bad_statics (ebs @ [e]) = snd (consecutive_bad_check e (bad_statics ebs))"
    by (simp add: bad_statics_def)
  show ?case
  proof (cases ebs rule: rev_cases)
    case Nil
    then show ?thesis
      using step by (simp add: bad_statics_def consecutive_bad_check_def)
  next
    case (snoc ds d)
    then have "d \<noteq> -1"
      using snoc.prems by auto
    then show ?thesis
      using step IH snoc by (simp add: consecutive_bad_check_def Let_def)
  qed
qed

lemma run_len_pos: "1 \<le> run_len r"
  by (induction r rule: run_len.induct) auto

lemma run_len_4: "4 \<le> run_len r \<longleftrightarrow> (\<exists>e t. r = e # (e - 1) # (e - 2) # (e - 3) # t)"
proof
  assume r: "4 \<le> run_len r"
  then obtain e d c b t where "r = e # d # c # b # t"
    by (cases r; cases "tl r"; cases "tl (tl r)"; cases "tl (tl (tl r))") (auto split: if_splits)
  then show "\<exists>e t. r = e # (e - 1) # (e - 2) # (e - 3) # t"
    using r by (auto split: if_splits)
next
  assume "\<exists>e t. r = e # (e - 1) # (e - 2) # (e - 3) # t"
  then show "4 \<le> run_len r"
    using run_len_pos by (auto simp: run_len_pos)
qed

text \<open>
  Over any sequence of eraseblocks marked bad since the program started, the check
  stops the run exactly when the last four of them are adjacent and ascending.
\<close>

theorem consecutive_bad_check_exact:
  assumes "list_all (\<lambda>e. 0 \<le> e) ebs" "0 \<le> eb"
  shows "fst (consecutive_bad_check eb (bad_statics ebs)) = False \<longleftrightarrow> suffix [eb - 3, eb - 2, eb - 1] ebs"
proof -
  have "snd (consecutive_bad_check eb (bad_statics ebs)) = bad_statics (ebs @ [eb])"
    by (simp add: bad_statics_def)
  also have "\<dots> = (run_len (rev (ebs @ [eb])), eb)"
    using bad_statics_run [of "ebs @ [eb]"] assms by simp
  finally have "fst (consecutive_bad_check eb (bad_statics ebs)) \<longleftrightarrow> run_len (eb # rev ebs) < 4"
    by (auto simp: consecutive_bad_check_def MAX_CONSECUTIVE_BAD_BLOCKS_def Let_def split: prod.splits)
  also have "\<dots> \<longleftrightarrow> \<not> (\<exists>t. rev ebs = (eb - 1) # (eb - 2) # (eb - 3) # t)"
    using run_len_4 [of "eb # rev ebs"] by auto
  also have "(\<exists>t. rev ebs = (eb - 1) # (eb - 2) # (eb - 3) # t) \<longleftrightarrow> suffix [eb - 3, eb - 2, eb - 1] ebs"
    by (auto simp: suffix_to_prefix prefix_def)
  finally show ?thesis by simp
qed

theorem consecutive_bad_check_exact_witness:
  "fst (consecutive_bad_check 9 (bad_statics [2, 6, 7, 8])) = False \<longleftrightarrow> suffix [9 - 3, 9 - 2, 9 - 1] [2, 6, 7, 8 :: int]"
  by (rule consecutive_bad_check_exact) simp_all

text \<open>
  Property C18. When a write fails with EIO, the eraseblock is tortured; the verdict is lost, since
  \<^verbatim>\<open>mtd_torture\<close> returns -1 also when every pattern was read back. So for an eraseblock that passes the
  whole test the tool goes on as for one that fails: without -y it asks on the standard input whether
  to mark it bad. With the answer no the run ends without marking; with yes, or with -y, the kernel is
  asked to mark it, and when that succeeds the eraseblock is bad on the device and in the table, and
  flashing goes on unless it is the fourth bad one in a row; when it fails the run ends.
\<close>

theorem passed_torture_marks_bad:
  assumes "torture_rounds K mtd eb torture_patterns junk (uf_st u) = Some (False, st1)"
    and "(if ua_yes a then Some (True, snd st1) else prompt K False (snd st1)) = Some (yes, k1)"
    and "k_setbadblock K (eb * mtd_eb_size mtd) k1 = (err, k2)"
    and "mtd_bb_allowed mtd" "in_block mtd eb" "nat eb < length (si_ec (uf_si u))"
  shows "\<exists>ok u'. flash_write_failed K junk a mtd eb EIO u = Some (ok, u')
    \<and> (if yes \<and> err = None then snd (uf_st u') = k2 \<and> si_ec (uf_si u') = (si_ec (uf_si u))[nat eb := EB_BAD]
          \<and> si_bad_cnt (uf_si u') = si_bad_cnt (uf_si u) + 1
          \<and> ok = fst (consecutive_bad_check eb (uf_consecutive u, uf_prev_bb u))
        else \<not> ok \<and> uf_si u' = uf_si u \<and> snd (uf_st u') = (if yes then k2 else k1))"
proof -
  have t: "mtd_torture K mtd eb junk (uf_st u) = Some (- 1, st1)"
    using assms(1) by (simp add: mtd_torture_def)
  show ?thesis
    using assms(2-6) by (cases "ua_yes a"; cases yes; cases err)
      (auto simp: flash_write_failed_def t mark_bad_def mtd_mark_bad_def mtd_valid_erase_block_def in_block_def si_bad_def Let_def
        split: prod.splits)
qed

definition tiny_nand :: "int list \<Rightarrow> byte list list \<Rightarrow> byte list \<Rightarrow> nsim" where
  "tiny_nand eio blocks im = \<lparr> ns_blocks = blocks, ns_pos = 0, ns_bad = [], ns_eio = eio, ns_img = im \<rparr>"

text \<open>
  The way ofgwrite calls the tool, without -y: the eraseblock of a device passes the test, and the
  standard input says yes.
\<close>

definition answering :: "string \<Rightarrow> nsim kernel" where
  "answering line = (nand_kernel 2)\<lparr>k_getline := (\<lambda>s. (Some line, s))\<rparr>"

theorem passed_torture_marks_bad_witness:
  "\<exists>ok u'. flash_write_failed (answering [CHR ''y'', CHR 0x0A]) [0, 0] (example_args\<lparr>ua_yes := False\<rparr>) (nand_mtd 1 2 1) 0 EIO
      (example_nand \<lparr> uf_st := (OFFS64_IOCTLS_UNKNOWN, tiny_nand [] [[7, 7]] []) \<rparr>) = Some (ok, u')
    \<and> snd (uf_st u') = tiny_nand [] [[0, 0]] [] \<lparr> ns_bad := [0], ns_pos := 2 \<rparr>
    \<and> si_ec (uf_si u') ! 0 = EB_BAD"
proof -
  let ?K = "answering [CHR ''y'', CHR 0x0A]"
  let ?u = "example_nand \<lparr> uf_st := (OFFS64_IOCTLS_UNKNOWN, tiny_nand [] [[7, 7]] []) \<rparr>"
  let ?s1 = "tiny_nand [] [[0, 0]] [] \<lparr> ns_pos := 2 \<rparr>"
  have t: "torture_rounds ?K (nand_mtd 1 2 1) 0 torture_patterns [0, 0] (uf_st ?u) = Some (False, OFFS64_IOCTLS_UNKNOWN, ?s1)"
    by (simp add: torture_patterns_def torture_round_def mtd_erase_def mtd_valid_erase_block_def nand_kernel_def answering_def
        tiny_nand_def ns_erase_def Let_def mtd_read_def mtd_read_loop.simps ns_read_def store_at_def
        check_pattern_def mtd_write_def mtd_write_data_def ns_write_def ns_program_def numeral_2_eq_2)
  have p: "(if ua_yes (example_args\<lparr>ua_yes := False\<rparr>) then Some (True, snd (OFFS64_IOCTLS_UNKNOWN, ?s1))
      else prompt ?K False (snd (OFFS64_IOCTLS_UNKNOWN, ?s1))) = Some (True, ?s1)"
    by (simp add: prompt.simps answering_def rpmatch_def)
  have b: "k_setbadblock ?K (0 * mtd_eb_size (nand_mtd 1 2 1)) ?s1 = (None, ?s1 \<lparr> ns_bad := [0] \<rparr>)"
    by (simp add: answering_def nand_kernel_def tiny_nand_def)
  show ?thesis
    using passed_torture_marks_bad [OF t p b] by (auto simp: in_block_def example_nand_def example_si_def tiny_nand_def)
qed

text \<open>
  Flashing can report success with the image missing: here the only eraseblock fails
  to take the only block of the image and is marked bad, the loop runs out of eraseblocks, and
  \<^verbatim>\<open>flash_image\<close> returns the eraseblock after the end of the device, as after a complete run.
\<close>

definition failing_run :: "nsim ufmt" where
  "failing_run = \<lparr> uf_si = example_si [EB_EMPTY] 0, uf_consecutive = 1, uf_prev_bb = -1,
     uf_st = (OFFS64_IOCTLS_UNKNOWN, tiny_nand [0] [replicate 64 0] example_block) \<rparr>"

theorem flash_image_success_without_image:
  "\<exists>u'. flash_image (nand_kernel 64) (replicate 64 0) example_args (nand_mtd 1 64 64) example_ui failing_run
      = Some (Some 2, u')
    \<and> ns_blocks (snd (uf_st u')) = [replicate 64 0xFF] \<and> si_ec (uf_si u') = [EB_BAD]"
proof -
  let ?K = "nand_kernel 64" and ?mtd = "nand_mtd 1 64 64" and ?ff = "replicate 64 0xFF :: byte list"
  let ?ec = "next_ec example_args (uf_si failing_run) 0"
  obtain buf where buf: "change_ech example_block (ui_image_seq example_ui) ?ec = Some buf"
    using change_ech_Some_iff [of example_block] by auto
  have lb: "length buf = 64"
    using change_ech_Some [OF _ buf] by simp
  define l where "l = nat (drop_ffs ?mtd buf 64)"
  have l: "int l mod 64 = 0" "int l \<le> 64"
    using drop_ffs_aux [of ?mtd 64 buf] lb by (simp_all add: l_def)
  have ff: "check_pattern ?ff 0xFF"
    by (simp add: check_pattern_def list_all_iff)
  have w: "mtd_write ?K ?mtd 0 0 (Some d) n None 0 (q, tiny_nand [0] [?ff] [])
      = Some (Some EIO, q, tiny_nand [0] [?ff] [])" if "int n mod 64 = 0" "int n \<le> 64" for d n q
    using that by (simp add: mtd_write_def mtd_valid_erase_block_def Let_def mtd_write_data_def nand_kernel_def
        ns_write_def tiny_nand_def)
  have e: "mtd_erase ?K ?mtd 0 (OFFS64_IOCTLS_UNKNOWN, tiny_nand [0] [b] im)
      = (None, OFFS64_IOCTLS_UNKNOWN, tiny_nand [0] [?ff] im)" for b im
    by (simp add: mtd_erase_def mtd_valid_erase_block_def Let_def nand_kernel_def ns_erase_def tiny_nand_def)
  have r: "read_all ?K 64 (tiny_nand [0] b example_block) = Some (Some example_block, tiny_nand [0] b [])" for b
  proof -
    have "example_block \<noteq> []"
      using example_block(1) by (metis list.size(3) zero_neq_numeral)
    then show ?thesis
      by (simp add: read_all.simps nand_kernel_def tiny_nand_def)
  qed
  have rd: "mtd_read ?K ?mtd 0 0 (replicate 64 0) 64 (q, tiny_nand [0] [?ff] [])
      = Some (None, ?ff, q, tiny_nand [0] [?ff] [] \<lparr> ns_pos := 64 \<rparr>)" for q
    by (simp add: mtd_read_def mtd_valid_erase_block_def Let_def nand_kernel_def ns_read_def tiny_nand_def
        mtd_read_loop.simps store_at_def)
  have w64: "mtd_write ?K ?mtd 0 0 (Some d) 64 None 0 (q, tiny_nand [0] [?ff] [] \<lparr> ns_pos := 64 \<rparr>)
      = Some (Some EIO, q, tiny_nand [0] [?ff] [])" for d q
    by (simp add: mtd_write_def mtd_valid_erase_block_def Let_def mtd_write_data_def nand_kernel_def
        ns_write_def tiny_nand_def)
  have t: "mtd_torture ?K ?mtd 0 (replicate 64 0) (OFFS64_IOCTLS_UNKNOWN, tiny_nand [0] [?ff] [])
      = Some (-1, OFFS64_IOCTLS_UNKNOWN, tiny_nand [0] [?ff] [])"
    by (simp add: mtd_torture_def torture_patterns_def torture_round_def Let_def e rd ff w64)
  have m: "mark_bad ?K example_args ?mtd 0 u =
      Some (True, u \<lparr> uf_si := si_bad 0 (uf_si u), uf_consecutive := 1, uf_prev_bb := 0,
        uf_st := (OFFS64_IOCTLS_UNKNOWN, tiny_nand [0] [?ff] [] \<lparr> ns_bad := [0] \<rparr>) \<rparr>)"
    if "uf_st u = (OFFS64_IOCTLS_UNKNOWN, tiny_nand [0] [?ff] [])" "uf_prev_bb u = -1" for u
    using that by (simp add: mark_bad_def example_args_def mtd_mark_bad_def mtd_valid_erase_block_def Let_def
        nand_kernel_def tiny_nand_def consecutive_bad_check_def MAX_CONSECUTIVE_BAD_BLOCKS_def)
  have fd: "flash_data ?K (replicate 64 0) example_args ?mtd example_ui 1 0 example_block 0
      (failing_run \<lparr> uf_st := (OFFS64_IOCTLS_UNKNOWN, tiny_nand [0] [?ff] []) \<rparr>)
      = Some (FlashNext, (buf, True, 0), failing_run \<lparr> uf_si := si_bad 0 (uf_si failing_run), uf_consecutive := 1,
          uf_prev_bb := 0, uf_st := (OFFS64_IOCTLS_UNKNOWN, tiny_nand [0] [?ff] [] \<lparr> ns_bad := [0] \<rparr>) \<rparr>)"
  proof -
    have "uf_prev_bb failing_run = -1"
      by (simp add: failing_run_def)
    then show ?thesis
      using l by (simp add: flash_data_def buf Let_def l_def [symmetric] w flash_write_failed_def t m)
  qed
  have "flash_image ?K (replicate 64 0) example_args ?mtd example_ui failing_run =
      flash_loop ?K (replicate 64 0) example_args ?mtd example_ui 1 [0] 1 ([], False, 0) failing_run"
    by (simp add: flash_image_def open_file_def example_args_def failing_run_def example_si_def nand_kernel_def
        tiny_nand_def Let_def upto.simps)
  also have "\<dots> = Some (Some 2, failing_run \<lparr> uf_si := si_bad 0 (uf_si failing_run), uf_consecutive := 1,
          uf_prev_bb := 0, uf_st := (OFFS64_IOCTLS_UNKNOWN, tiny_nand [0] [?ff] [] \<lparr> ns_bad := [0] \<rparr>) \<rparr>)"
    using fd by (simp add: flash_eb_def Let_def failing_run_def e r)
      (simp add: example_si_def eb_defs example_args_def)
  finally show ?thesis
    by (simp add: failing_run_def tiny_nand_def si_bad_def example_si_def)
qed

lemma ubiformat_unknown_first:
  assumes "getopt_long (parse_optstring ''nh?Vyqve:x:s:O:f:S:D'') ubiformat_long_options argv
    = ((CHR ''?'', None, None) # rs, pos)"
  shows "ubiformat_parse_opt rnd argv a0 = ParseExit"
  using assms by (simp add: ubiformat_parse_opt_def ubiformat_opt_def)

text \<open>
  The option \<^verbatim>\<open>-Q\<close> of the usage text does not exist: no value for the image sequence
  number can be given, the program prints its help and exits with success.
\<close>

theorem ubiformat_no_image_seq_option:
  "ubiformat_parse_opt rnd (''-Q'' # n # args) a0 = ParseExit
   \<and> ubiformat_parse_opt rnd ((''--image-seq='' @ n) # args) a0 = ParseExit"
proof
  let ?s = "parse_optstring ''nh?Vyqve:x:s:O:f:S:D''"
  have "getopt_long ?s ubiformat_long_options (''-Q'' # n # args)
      = ((CHR ''?'', None, None) # fst (getopt_long ?s ubiformat_long_options (n # args)),
         snd (getopt_long ?s ubiformat_long_options (n # args)))"
    by (subst getopt_long.simps) (simp split: prod.splits del: getopt_long.simps)
  then show "ubiformat_parse_opt rnd (''-Q'' # n # args) a0 = ParseExit"
    by (rule ubiformat_unknown_first)
  have "getopt_long ?s ubiformat_long_options ((''--image-seq='' @ n) # args)
      = ((CHR ''?'', None, None) # fst (getopt_long ?s ubiformat_long_options args),
         snd (getopt_long ?s ubiformat_long_options args))"
    by (subst getopt_long.simps)
      (simp add: ubiformat_long_options_def long_matches_def upt_rec split: prod.splits del: getopt_long.simps)
  then show "ubiformat_parse_opt rnd ((''--image-seq='' @ n) # args) a0 = ParseExit"
    by (rule ubiformat_unknown_first)
qed

end
