(* ===== verification/LibmtdProps.thy ===== *)
theory LibmtdProps
  imports NandSim
begin

text \<open>
  The properties of libmtd: which requests reach the driver, and three places where the library
  does not do what its callers count on.
\<close>

subsection \<open>Powers of two\<close>

lemma nat_and_pred:
  fixes n :: nat
  shows "0 < n \<Longrightarrow> n AND (n - 1) = 0 \<longleftrightarrow> (\<exists>k. n = 2 ^ k)"
proof (induction n rule: less_induct)
  case (less n)
  show ?case
  proof (cases "even n")
    case True
    then obtain m where m: "n = 2 * m" "0 < m"
      using less.prems by (auto elim!: evenE)
    have "n AND (n - 1) = 2 * (m AND (m - 1))"
    proof -
      have "(n - 1) div 2 = m - 1" "n div 2 = m"
        using m by auto
      then show ?thesis
        using True by (subst and_rec) simp
    qed
    also have "\<dots> = 0 \<longleftrightarrow> (\<exists>k. m = 2 ^ k)"
      using less.IH [of m] m by simp
    also have "\<dots> \<longleftrightarrow> (\<exists>k. n = 2 ^ k)"
    proof
      assume "\<exists>k. m = 2 ^ k"
      then show "\<exists>k. n = 2 ^ k"
        using m(1) by (metis power_Suc)
    next
      assume "\<exists>k. n = 2 ^ k"
      then obtain k where k: "n = 2 ^ k" by blast
      with True obtain j where "k = Suc j"
        by (cases k) auto
      then show "\<exists>k. m = 2 ^ k"
        using k m(1) by auto
    qed
    finally show ?thesis .
  next
    case False
    then obtain m where m: "n = 2 * m + 1"
      by (auto elim!: oddE)
    have "n AND (n - 1) = 2 * m"
      using m by (subst and_rec) simp
    moreover have "(\<exists>k. n = 2 ^ k) \<longleftrightarrow> m = 0"
    proof
      assume "\<exists>k. n = 2 ^ k"
      then obtain k where "n = 2 ^ k" by blast
      then show "m = 0"
        using False m by (cases k) auto
    next
      assume "m = 0"
      then show "\<exists>k. n = 2 ^ k"
        using m by (intro exI [of _ 0]) simp
    qed
    ultimately show ?thesis by simp
  qed
qed

text \<open>
  \<^verbatim>\<open>is_power_of_2\<close>, which the tools check flash geometries with, accepts exactly the
  powers of two that fit the argument.
\<close>

theorem is_power_of_2_exact: "is_power_of_2 n \<longleftrightarrow> (\<exists>k. k < 64 \<and> n = 2 ^ k)"
proof (cases "n = 0")
  case True
  have "(2 :: u64) ^ k \<noteq> 0" if "k < 64" for k
    using that by (simp add: exp_eq_zero_iff)
  then show ?thesis
    using True by (auto simp: is_power_of_2_def)
next
  case False
  then have pos: "0 < unat n" "unat (n - 1) = unat n - 1"
    by (simp_all add: unat_gt_0 unat_minus_one)
  have "n AND (n - 1) = 0 \<longleftrightarrow> unat n AND (unat n - 1) = 0"
  proof -
    have "n AND (n - 1) = 0 \<longleftrightarrow> unat (n AND (n - 1)) = 0"
      by (simp only: unat_eq_zero)
    also have "unat (n AND (n - 1)) = unat n AND unat (n - 1)"
      by (rule unsigned_and_eq)
    finally show ?thesis
      by (simp only: pos(2))
  qed
  also have "\<dots> \<longleftrightarrow> (\<exists>k. unat n = 2 ^ k)"
    by (rule nat_and_pred [OF pos(1)])
  also have "\<dots> \<longleftrightarrow> (\<exists>k. k < 64 \<and> n = 2 ^ k)"
  proof
    assume "\<exists>k. unat n = 2 ^ k"
    then obtain k where k: "unat n = 2 ^ k" by blast
    have "2 ^ k < (2 :: nat) ^ 64"
      using unsigned_less [of n, where 'a = nat] k by simp
    then have "k < 64"
      by (simp only: power_strict_increasing_iff)
    moreover have "n = 2 ^ k"
      using arg_cong [OF k, of "word_of_nat :: nat \<Rightarrow> u64"] by simp
    ultimately show "\<exists>k. k < 64 \<and> n = 2 ^ k" by blast
  next
    assume "\<exists>k. k < 64 \<and> n = 2 ^ k"
    then obtain k where k: "k < 64" "n = 2 ^ k" by blast
    have "(2 :: nat) ^ k < 2 ^ 64"
      using k(1) by (rule power_strict_increasing) simp
    then have "unat (2 ^ k :: u64) = 2 ^ k"
      by (intro of_nat_inverse) simp_all
    with k(2) show "\<exists>k. unat n = 2 ^ k" by blast
  qed
  finally show ?thesis
    using False by (simp add: is_power_of_2_def)
qed

subsection \<open>Reading\<close>

text \<open>
  A driver that delivers the requested bytes in two pieces breaks \<^verbatim>\<open>mtd_read\<close>: it asks
  for the full length again and stores every piece at the start of the buffer, so it reports
  success with the second piece at the start and what is left of the first behind it.
\<close>

theorem mtd_read_short_read:
  assumes "in_block mtd eb" "0 \<le> offs" "offs + int len \<le> mtd_eb_size mtd"
    and "k_lseek K (eb * mtd_eb_size mtd + offs) (snd st) = (eb * mtd_eb_size mtd + offs, k0)"
    and "k_read K len k0 = (Bytes d1, k1)" "k_read K len k1 = (Bytes d2, k2)"
    and "d1 \<noteq> []" "length d1 + length d2 = len" "d2 \<noteq> []" "length buf = len" "length d2 \<le> length d1"
  shows "mtd_read K mtd eb offs buf len st
    = Some (None, d2 @ drop (length d2) d1 @ drop (length d1) buf, fst st, k2)"
proof -
  have "length d1 < len" "0 < len"
    using assms(8,9) by (auto simp: length_greater_0_conv [symmetric] simp del: length_greater_0_conv)
  then show ?thesis
    using assms by (simp add: mtd_read_def Let_def mtd_read_loop.simps store_at_def)
qed

text \<open>A driver that delivers one byte at a time: of 1, 2 the buffer gets 2 and keeps its 9.\<close>

definition slow_kernel :: "byte list kernel" where
  "slow_kernel = \<lparr>
     k_memerase64 = (\<lambda>start len s. (None, s)), k_memerase = (\<lambda>start len s. (None, s)),
     k_memlock = (\<lambda>start len s. (None, s)), k_memunlock = (\<lambda>start len s. (None, s)),
     k_memislocked = (\<lambda>start len s. (Inr 0, s)), k_getbadblock = (\<lambda>seek s. (Inr 0, s)),
     k_setbadblock = (\<lambda>seek s. (None, s)), k_lseek = (\<lambda>seek s. (seek, s)),
     k_read = (\<lambda>n s. (Bytes (take 1 s), drop 1 s)), k_write = (\<lambda>d s. (Inr (int (length d)), s)),
     k_memwrite = (\<lambda>req s. (Some ENOTTY, s)), k_memgetoobsel = (\<lambda>s. (Inl EOPNOTSUPP, s)),
     k_oob64 = (\<lambda>wr start len d s. (Some EIO, d, s)), k_oob = (\<lambda>wr start len d s. (Some EIO, d, s)),
     k_pwrite = (\<lambda>d seek s. (Inr (int (length d)), s)), k_mtdfilemode_raw = (\<lambda>s. (None, s)),
     k_img_stat = (\<lambda>s. (Inr 0, s)), k_img_open = (\<lambda>s. (None, s)), k_img_lseek = (\<lambda>n s. (None, s)),
     k_img_read = (\<lambda>n s. (Bytes [], s)), k_getline = (\<lambda>s. (None, s)) \<rparr>"

theorem mtd_read_short_read_witness:
  "mtd_read slow_kernel (nand_mtd 1 4 1) 0 0 [9, 9] 2 (OFFS64_IOCTLS_UNKNOWN, [1, 2])
    = Some (None, [2] @ drop (length [2 :: byte]) [1] @ drop (length [1 :: byte]) [9, 9],
        fst (OFFS64_IOCTLS_UNKNOWN, [1 :: byte, 2]), [])"
  by (rule mtd_read_short_read [where ?d1.0 = "[1]" and ?d2.0 = "[2]" and ?k0.0 = "[1, 2]" and ?k1.0 = "[2]"])
    (simp_all add: slow_kernel_def in_block_def)

subsection \<open>Addresses beyond 4 GiB\<close>

text \<open>
  A failed 64-bit OOB request, whatever its error, makes the library forget that the
  driver has 64-bit requests; from then on no eraseblock ending beyond 4 GiB can be erased any
  more, and the driver is not even asked.
\<close>

theorem failed_oob_disables_64_bit:
  assumes "fst st \<noteq> OFFS64_IOCTLS_NOT_SUPPORTED" "snd st = k"
    and "k_oob64 K wr start len data k = (Some e, data', k')"
    and "start < word_of_int (mtd_eb_cnt mtd) * word_of_int (mtd_eb_size mtd)"
    and "(start AND word_of_int (mtd_min_io_size mtd - 1)) + len \<le> word_of_int (mtd_oob_size mtd)" "len \<noteq> 0"
    and "do_oob_op K mtd wr start len data st = (r, out, st')"
    and "in_block mtd eb"
    and "word_of_int (eb * mtd_eb_size mtd) + word_of_int (mtd_eb_size mtd) > (0xFFFFFFFF :: u64)"
  shows "fst st' = OFFS64_IOCTLS_NOT_SUPPORTED \<and> mtd_erase K mtd eb st' = (Some EINVAL, st')"
proof -
  have l: "fst st = OFFS64_IOCTLS_SUPPORTED \<or> fst st = OFFS64_IOCTLS_UNKNOWN"
    using assms(1) by (cases "fst st") auto
  have "fst st' = OFFS64_IOCTLS_NOT_SUPPORTED"
    using l assms(2-7) by (cases st) (auto simp: do_oob_op_def Let_def not_le not_less split: if_splits prod.splits)
  moreover have "mtd_erase K mtd eb (OFFS64_IOCTLS_NOT_SUPPORTED, k2) = (Some EINVAL, OFFS64_IOCTLS_NOT_SUPPORTED, k2)" for k2
    using assms(8,9) by (simp add: mtd_erase_def mtd_erase32_def Let_def del: of_int_mult)
  ultimately show ?thesis
    by (cases st') simp
qed

theorem failed_oob_disables_64_bit_witness:
  "let mtd = nand_mtd 65536 131072 2048; (r, out, st') = do_oob_op slow_kernel mtd False 2048 8 [] (OFFS64_IOCTLS_UNKNOWN, [])
   in fst st' = OFFS64_IOCTLS_NOT_SUPPORTED \<and> mtd_erase slow_kernel mtd 40000 st' = (Some EINVAL, st')"
proof -
  let ?mtd = "nand_mtd 65536 131072 2048"
  have run: "do_oob_op slow_kernel ?mtd False 2048 8 [] (OFFS64_IOCTLS_UNKNOWN, [])
      = (Some EIO, [], OFFS64_IOCTLS_NOT_SUPPORTED, [])"
    by (simp add: do_oob_op_def slow_kernel_def Let_def)
  have "fst (OFFS64_IOCTLS_NOT_SUPPORTED, [] :: byte list) = OFFS64_IOCTLS_NOT_SUPPORTED
      \<and> mtd_erase slow_kernel ?mtd 40000 (OFFS64_IOCTLS_NOT_SUPPORTED, [])
        = (Some EINVAL, OFFS64_IOCTLS_NOT_SUPPORTED, [])"
    by (rule failed_oob_disables_64_bit [OF _ refl _ _ _ _ run])
      (simp_all add: slow_kernel_def in_block_def)
  then show ?thesis
    by (simp add: Let_def run)
qed

end
