(* ===== verification/LibmtdImage.thy ===== *)
theory LibmtdImage
  imports Libmtd
begin

text \<open>
  The rest of \<^verbatim>\<open>lib/libmtd.c\<close>: \<^verbatim>\<open>mtd_write_img\<close>, which copies a file to a device from an eraseblock and
  an offset in it on, and \<^verbatim>\<open>mtd_regioninfo\<close>. None of the programs of ofgwrite calls them.
\<close>

subsection \<open>Erase regions\<close>

text \<open>
  The request fills the structure of the caller for the index that is in it; the index that is the
  argument is checked and not put there.
\<close>

record region_info_user =
  ri_offset :: u32
  ri_erasesize :: u32
  ri_numblocks :: u32
  ri_regionindex :: u32

definition mtd_regioninfo ::
  "(region_info_user \<Rightarrow> 'k \<Rightarrow> (errno + region_info_user) \<times> 'k) \<Rightarrow> int \<Rightarrow> region_info_user \<Rightarrow> 'k
     \<Rightarrow> (errno + region_info_user) \<times> 'k" where
  "mtd_regioninfo memgetregioninfo regidx reginfo k =
     (if regidx < 0 then (Inl ENODEV, k) else memgetregioninfo reginfo k)"

subsection \<open>Writing a file\<close>

text \<open>
  A buffer for one eraseblock is filled with as many reads as it takes; each of them stores at the
  start of the buffer. \<open>want\<close> is what fits behind the offset.
\<close>

function fill_block ::
  "'k kernel \<Rightarrow> nat \<Rightarrow> nat \<Rightarrow> byte list \<Rightarrow> 'k \<Rightarrow> (errno + byte list \<times> nat) \<times> 'k" where
  "fill_block K want rd buf k =
     (case k_img_read K (want - rd) k of
        (ReadErr e, k1) \<Rightarrow> (Inl e, k1)
      | (Bytes d, k1) \<Rightarrow>
          let buf1 = store_at 0 d buf; rd1 = rd + length d
          in if d \<noteq> [] \<and> rd1 < want then fill_block K want rd1 buf1 k1 else (Inr (buf1, rd1), k1))"
  by pat_completeness auto
termination
  by (relation "measure (\<lambda>(K, want, rd, buf, k). want - rd)") (auto simp: neq_Nil_conv)

declare fill_block.simps [simp del]

text \<open>
  The loop over the eraseblocks; the write goes on where the one before has ended. A file that gives
  no more bytes is read and written again, for ever.
\<close>

partial_function (option) write_img_loop ::
  "'k kernel \<Rightarrow> nat \<Rightarrow> nat \<Rightarrow> int \<Rightarrow> int \<Rightarrow> byte list \<Rightarrow> 'k \<Rightarrow> (errno option \<times> 'k) option" where
  "write_img_loop K eb_size offs written len buf k =
     (if written < len then
        (case fill_block K (eb_size - offs) 0 buf k of
           (Inl e, k1) \<Rightarrow> Some (Some e, k1)
         | (Inr (buf1, rd), k1) \<Rightarrow>
             (case k_write K (take rd buf1) k1 of
                (Inl e, k2) \<Rightarrow> Some (Some e, k2)
              | (Inr n, k2) \<Rightarrow>
                  if n \<noteq> int rd then Some (Some (EOTHER 0), k2)
                  else write_img_loop K eb_size 0 (c_int (written + int rd)) len buf1 k2))
      else Some (None, k))"

text \<open>
  The size of the file is kept in an \<^verbatim>\<open>int\<close>. \<open>None\<close> is the division by a subpage size of 0 as well as a
  loop that does not end.
\<close>

definition mtd_write_img ::
  "'k kernel \<Rightarrow> mtd_dev_info \<Rightarrow> int \<Rightarrow> int \<Rightarrow> byte list \<Rightarrow> 'k \<Rightarrow> (errno option \<times> 'k) option" where
  "mtd_write_img K mtd eb offs buf k =
     (case mtd_valid_erase_block mtd eb of
        Some e \<Rightarrow> Some (Some e, k)
      | None \<Rightarrow>
          if offs < 0 \<or> offs \<ge> mtd_eb_size mtd then Some (Some EINVAL, k)
          else if mtd_subpage_size mtd = 0 then None
          else if c_mod offs (mtd_subpage_size mtd) \<noteq> 0 then Some (Some EINVAL, k)
          else
            (case k_img_open K k of
               (Some e, k1) \<Rightarrow> Some (Some e, k1)
             | (None, k1) \<Rightarrow>
                 (case k_img_stat K k1 of
                    (Inl e, k2) \<Rightarrow> Some (Some e, k2)
                  | (Inr st_size, k2) \<Rightarrow>
                      let len = c_int st_size;
                          tmp = c_div (c_int (offs + len + mtd_eb_size mtd - 1)) (mtd_eb_size mtd)
                      in if c_mod len (mtd_subpage_size mtd) \<noteq> 0 then Some (Some EINVAL, k2)
                         else if c_int (eb + tmp) > mtd_eb_cnt mtd then Some (Some EINVAL, k2)
                         else
                           let seek = eb * mtd_eb_size mtd + offs; (r, k3) = k_lseek K seek k2
                           in if r \<noteq> seek then Some (Some (EOTHER 0), k3)
                              else write_img_loop K (nat (mtd_eb_size mtd)) (nat offs) 0 len buf k3)))"

subsection \<open>A file that is cut off\<close>

text \<open>The loop goes on for ever when the file ends before the size that was found out for it.\<close>

definition file_at_end :: "'k kernel \<Rightarrow> bool" where
  "file_at_end K \<longleftrightarrow> (\<forall>n k. k_img_read K n k = (Bytes [], k)) \<and> (\<forall>k. k_write K [] k = (Inr 0, k))"

lemma write_img_loop_stuck:
  assumes "file_at_end K" and "0 \<le> written" "written < len" "len < 2 ^ 31"
  shows "write_img_loop K eb_size offs written len buf k = None"
proof (rule ccontr)
  assume "write_img_loop K eb_size offs written len buf k \<noteq> None"
  then obtain y where "write_img_loop K eb_size offs written len buf k = Some y"
    by blast
  then have "\<not> (file_at_end K \<and> 0 \<le> written \<and> written < len \<and> len < 2 ^ 31)"
  proof (rule write_img_loop.raw_induct [rotated, where P = "\<lambda>K eb_size offs written len buf k y.
      \<not> (file_at_end K \<and> 0 \<le> written \<and> written < len \<and> len < 2 ^ 31)"])
    fix rec :: "'a kernel \<Rightarrow> nat \<Rightarrow> nat \<Rightarrow> int \<Rightarrow> int \<Rightarrow> byte list \<Rightarrow> 'a \<Rightarrow> (errno option \<times> 'a) option"
    fix K :: "'a kernel" and eb_size offs written len buf k y
    assume IH: "\<And>K eb_size offs written len buf k y. rec K eb_size offs written len buf k = Some y \<Longrightarrow>
        \<not> (file_at_end K \<and> 0 \<le> written \<and> written < len \<and> len < 2 ^ 31)"
      and step: "(if written < len then
        (case fill_block K (eb_size - offs) 0 buf k of
           (Inl e, k1) \<Rightarrow> Some (Some e, k1)
         | (Inr (buf1, rd), k1) \<Rightarrow>
             (case k_write K (take rd buf1) k1 of
                (Inl e, k2) \<Rightarrow> Some (Some e, k2)
              | (Inr n, k2) \<Rightarrow>
                  if n \<noteq> int rd then Some (Some (EOTHER 0), k2)
                  else rec K eb_size 0 (c_int (written + int rd)) len buf1 k2))
      else Some (None, k)) = Some y"
    show "\<not> (file_at_end K \<and> 0 \<le> written \<and> written < len \<and> len < 2 ^ 31)"
    proof
      assume *: "file_at_end K \<and> 0 \<le> written \<and> written < len \<and> len < 2 ^ 31"
      then have "fill_block K want 0 b k = (Inr (b, 0), k)" "c_int written = written" for want b
        by (auto simp: fill_block.simps file_at_end_def store_at_def intro!: c_int_id)
      then have "rec K eb_size 0 written len buf k = Some y"
        using step * by (auto simp: file_at_end_def)
      then show False
        using IH * by blast
    qed
  qed
  then show False
    using assms by blast
qed

text \<open>
  A file that is cut off after its size was found out is written for ever: at its end the loop reads no
  bytes, writes none and goes on.
\<close>
theorem shrunk_file_never_ends:
  assumes "file_at_end K" and "mtd_valid_erase_block mtd eb = None" and "0 \<le> offs" "offs < mtd_eb_size mtd"
    and "mtd_subpage_size mtd \<noteq> 0" "c_mod offs (mtd_subpage_size mtd) = 0"
    and "k_img_open K k = (None, k1)" and "k_img_stat K k1 = (Inr st_size, k2)" and "0 < st_size" "st_size < 2 ^ 31"
    and "c_mod st_size (mtd_subpage_size mtd) = 0"
    and "c_int (eb + c_div (c_int (offs + st_size + mtd_eb_size mtd - 1)) (mtd_eb_size mtd)) \<le> mtd_eb_cnt mtd"
    and "k_lseek K (eb * mtd_eb_size mtd + offs) k2 = (eb * mtd_eb_size mtd + offs, k3)"
  shows "mtd_write_img K mtd eb offs buf k = None"
proof -
  have "c_int st_size = st_size"
    using assms(9,10) by (intro c_int_id) simp_all
  then show ?thesis
    using assms write_img_loop_stuck [OF assms(1), of 0 st_size] by (simp add: mtd_write_img_def Let_def)
qed

end
