(* ===== verification/SysfsFiles.thy ===== *)
theory SysfsFiles
  imports CStrings Libmtd
begin

text \<open>
  What libmtd and libubi share: the files under \<^verbatim>\<open>/sys\<close>, names of files made with \<^verbatim>\<open>sprintf\<close>, and numbers
  read with \<^verbatim>\<open>sscanf\<close>. Both libraries have a copy of the reading functions; the ones of libubi end
  the buffer with a NUL where the one of libmtd for decimal numbers does not.
\<close>

subsection \<open>The files\<close>

text \<open>
  A parameter of everything: for a path the contents or the error of opening and reading it (a file of
  sysfs delivers its contents to one \<^verbatim>\<open>read\<close> that asks for enough), the names in a directory, and for a
  node whether it is a character device and its numbers; the last three are opening a node and the
  requests \<^verbatim>\<open>MEMGETINFO\<close> and \<^verbatim>\<open>MEMGETBADBLOCK\<close> on it. \<open>sf_junk\<close> is what an uninitialised buffer of
  a function holds.
\<close>

record mem_info =
  ui_type :: int
  ui_flags :: int
  ui_size :: int
  ui_erasesize :: int
  ui_writesize :: int
  ui_oobsize :: int

record sysfs =
  sf_file :: "string \<Rightarrow> errno + string"
  sf_dir :: "string \<Rightarrow> errno + string list"
  sf_stat :: "string \<Rightarrow> errno + bool \<times> int \<times> int"
  sf_junk :: string
  sf_open_node :: "string \<Rightarrow> errno option"
  sf_memgetinfo :: "string \<Rightarrow> errno + mem_info"
  sf_memgetbadblock :: "string \<Rightarrow> errno option"

definition file_there :: "sysfs \<Rightarrow> string \<Rightarrow> bool" where
  "file_there F path = (case sf_file F path of Inl _ \<Rightarrow> False | Inr _ \<Rightarrow> True)"

definition stat_ok :: "sysfs \<Rightarrow> string \<Rightarrow> bool" where
  "stat_ok F path = (case sf_stat F path of Inl _ \<Rightarrow> False | Inr _ \<Rightarrow> True)"

subsection \<open>Strings\<close>

text \<open>A C string ends at the first NUL.\<close>

definition c_string :: "string \<Rightarrow> string" where
  "c_string s = takeWhile (\<lambda>c. c \<noteq> CHR 0x00) s"

definition mkpath :: "string \<Rightarrow> string \<Rightarrow> string" where
  "mkpath path name = path @ (if path = [] \<or> last path \<noteq> CHR ''/'' then ''/'' else []) @ name"

text \<open>\<^verbatim>\<open>sprintf\<close> with a pattern that has nothing but \<^verbatim>\<open>%d\<close>.\<close>

fun sprintf_d :: "string \<Rightarrow> int list \<Rightarrow> string" where
  "sprintf_d [] args = []"
| "sprintf_d [c] args = [c]"
| "sprintf_d (c # d # s) [] = c # sprintf_d (d # s) []"
| "sprintf_d (c # d # s) (n # args) =
     (if c = CHR ''%'' \<and> d = CHR ''d'' then fmt_d n @ sprintf_d s args else c # sprintf_d (d # s) (n # args))"

text \<open>
  The number conversions of \<^verbatim>\<open>sscanf\<close>: \<^verbatim>\<open>%d\<close> (\<open>w\<close> is 32) and \<^verbatim>\<open>%lld\<close> (64), which saturate, and
  \<^verbatim>\<open>%llx\<close>, read as \<^verbatim>\<open>long long\<close>.
\<close>

definition scan_d :: "nat \<Rightarrow> string \<Rightarrow> (int \<times> string) option" where
  "scan_d w s = (if scan_number 10 s = None then None else Some (strtos w 10 s))"

definition scan_llx :: "string \<Rightarrow> (int \<times> string) option" where
  "scan_llx s =
     (if scan_number 16 s = None then None
      else (case strtou 64 16 s of (v, rest) \<Rightarrow> Some (c_longlong v, rest)))"

text \<open>A character of the format, and the \<^verbatim>\<open>%s\<close> at its end that must find nothing.\<close>

definition scan_char :: "char \<Rightarrow> string \<Rightarrow> string option" where
  "scan_char c s = (if s \<noteq> [] \<and> hd s = c then Some (tl s) else None)"

fun scan_word :: "string \<Rightarrow> string \<Rightarrow> string option" where
  "scan_word [] s = Some s"
| "scan_word (c # cs) s = (case scan_char c s of None \<Rightarrow> None | Some t \<Rightarrow> scan_word cs t)"

definition scan_end :: "string \<Rightarrow> bool" where
  "scan_end s \<longleftrightarrow> list_all c_isspace s"

text \<open>
  \<^verbatim>\<open>sscanf(name, "mtd%d%s", &num, tmp) == 1\<close>: a name of just the letters and the number; with two
  numbers for the volumes of UBI.
\<close>

definition scan_dev_name :: "string \<Rightarrow> string \<Rightarrow> int option" where
  "scan_dev_name stem name =
     (case scan_word stem name of
        None \<Rightarrow> None
      | Some t \<Rightarrow> (case scan_d 32 t of None \<Rightarrow> None | Some (n, rest) \<Rightarrow> if scan_end rest then Some n else None))"

definition scan_vol_name :: "string \<Rightarrow> (int \<times> int) option" where
  "scan_vol_name name =
     (case scan_word ''ubi'' name of
        None \<Rightarrow> None
      | Some t \<Rightarrow>
          (case scan_d 32 t of
             None \<Rightarrow> None
           | Some (dev, r) \<Rightarrow>
               (case scan_char (CHR ''_'') r of
                  None \<Rightarrow> None
                | Some u \<Rightarrow>
                    (case scan_d 32 u of
                       None \<Rightarrow> None
                     | Some (vol, rest) \<Rightarrow> if scan_end rest then Some (dev, vol) else None))))"

subsection \<open>Reading directories\<close>

definition INT_MAX :: int where "INT_MAX = 2 ^ 31 - 1"

text \<open>The devices among the entries of a directory; \<open>None\<close>: an entry is too long.\<close>

fun device_entries :: "string \<Rightarrow> string list \<Rightarrow> int list option" where
  "device_entries stem [] = Some []"
| "device_entries stem (name # names) =
     (if length name \<ge> 255 then None
      else
        let rest = device_entries stem names
        in case scan_dev_name stem name of None \<Rightarrow> rest | Some n \<Rightarrow> map_option (Cons n) rest)"

text \<open>A directory can be opened for reading as well as a file.\<close>

definition path_opens :: "sysfs \<Rightarrow> string \<Rightarrow> bool" where
  "path_opens F path = (file_there F path \<or> (case sf_dir F path of Inl _ \<Rightarrow> False | Inr _ \<Rightarrow> True))"

subsection \<open>Reading files\<close>

definition read_data :: "sysfs \<Rightarrow> string \<Rightarrow> nat \<Rightarrow> errno + string" where
  "read_data F file buf_len =
     (case sf_file F file of
        Inl e \<Rightarrow> Inl e
      | Inr s \<Rightarrow> if length s \<ge> buf_len then Inl EINVAL else Inr s)"

definition read_major :: "sysfs \<Rightarrow> string \<Rightarrow> errno + int \<times> int" where
  "read_major F file =
     (case read_data F file 50 of
        Inl e \<Rightarrow> Inl e
      | Inr s \<Rightarrow>
          (case scan_d 32 (c_string s) of
             None \<Rightarrow> Inl EINVAL
           | Some (major, r) \<Rightarrow>
               (case scan_char (CHR '':'') r of
                  None \<Rightarrow> Inl EINVAL
                | Some t \<Rightarrow>
                    (case scan_d 32 t of
                       None \<Rightarrow> Inl EINVAL
                     | Some (minor, _) \<Rightarrow>
                         if major < 0 \<or> minor < 0 then Inl EINVAL else Inr (major, minor)))))"

text \<open>The value of a file: contents of less than 50 bytes that begin with a number that is not negative.\<close>

definition read_ll :: "(string \<Rightarrow> (int \<times> string) option) \<Rightarrow> string \<Rightarrow> sysfs \<Rightarrow> string \<Rightarrow> errno + int" where
  "read_ll scan junk F file =
     (case sf_file F file of
        Inl e \<Rightarrow> Inl e
      | Inr s \<Rightarrow>
          if length s \<ge> 50 then Inl EINVAL
          else (case scan (c_string (s @ junk)) of
                  None \<Rightarrow> Inl EINVAL
                | Some (v, _) \<Rightarrow> if v < 0 then Inl EINVAL else Inr v))"

definition read_hex_ll :: "sysfs \<Rightarrow> string \<Rightarrow> errno + int" where
  "read_hex_ll = read_ll scan_llx []"

text \<open>The buffer is not ended behind the bytes read.\<close>

definition read_pos_ll :: "sysfs \<Rightarrow> string \<Rightarrow> errno + int" where
  "read_pos_ll F = read_ll (scan_d 64) (sf_junk F) F"

definition read_hex_int :: "sysfs \<Rightarrow> string \<Rightarrow> errno + int" where
  "read_hex_int F file =
     (case read_hex_ll F file of
        Inl e \<Rightarrow> Inl e
      | Inr v \<Rightarrow> if v > 2 ^ 32 - 1 \<or> v < - (2 ^ 31) then Inl EINVAL else Inr (c_int v))"

definition read_pos_int :: "sysfs \<Rightarrow> string \<Rightarrow> errno + int" where
  "read_pos_int F file =
     (case read_pos_ll F file of Inl e \<Rightarrow> Inl e | Inr v \<Rightarrow> if v > 2 ^ 31 - 1 then Inl EINVAL else Inr v)"

text \<open>The ones of libubi.\<close>

definition read_positive_ll :: "sysfs \<Rightarrow> string \<Rightarrow> errno + int" where
  "read_positive_ll = read_ll (scan_d 64) []"

definition read_positive_int :: "sysfs \<Rightarrow> string \<Rightarrow> errno + int" where
  "read_positive_int F file =
     (case read_positive_ll F file of Inl e \<Rightarrow> Inl e | Inr v \<Rightarrow> if v > 2 ^ 31 - 1 then Inl EINVAL else Inr v)"

end
