(* ===== verification/LibmtdInfo.thy ===== *)
theory LibmtdInfo
  imports SysfsFiles
begin

text \<open>
  The part of \<^verbatim>\<open>lib/libmtd.c\<close> and of \<^verbatim>\<open>lib/libmtd_legacy.c\<close> that finds out about MTD devices. An
  operation on a device that is described wrongly can divide by 0 or store in front of a buffer: that
  is \<open>None\<close>; an error is \<open>Inl\<close> with the value of \<^verbatim>\<open>errno\<close>.
\<close>

subsection \<open>The library\<close>

record libmtd =
  lib_sysfs_mtd :: string
  lib_mtd :: string
  lib_mtd_dev :: string
  lib_mtd_name :: string
  lib_mtd_type :: string
  lib_mtd_eb_size :: string
  lib_mtd_size :: string
  lib_mtd_min_io_size :: string
  lib_mtd_subpage_size :: string
  lib_mtd_oob_size :: string
  lib_mtd_region_cnt :: string
  lib_mtd_flags :: string
  lib_sysfs_supported :: bool
  lib_offs64_ioctls :: offs64

record mtd_info =
  mi_mtd_dev_cnt :: int
  mi_lowest_mtd_num :: int
  mi_highest_mtd_num :: int
  mi_sysfs_supported :: bool

text \<open>The rest of \<^verbatim>\<open>struct mtd_dev_info\<close>.\<close>

record mtd_dev = mtd_dev_info +
  mtd_major :: int
  mtd_minor :: int
  mtd_type_str :: string
  mtd_region_cnt :: int

definition MTD_NAME_MAX :: nat where "MTD_NAME_MAX = 127"
definition MTD_TYPE_MAX :: nat where "MTD_TYPE_MAX = 64"
definition MTD_WRITEABLE :: int where "MTD_WRITEABLE = 0x400"

definition dev_get_major :: "sysfs \<Rightarrow> libmtd \<Rightarrow> int \<Rightarrow> errno + int \<times> int" where
  "dev_get_major F lib num = read_major F (sprintf_d (lib_mtd_dev lib) [num])"

definition dev_read_data :: "sysfs \<Rightarrow> string \<Rightarrow> int \<Rightarrow> nat \<Rightarrow> errno + string" where
  "dev_read_data F patt num buf_len = read_data F (sprintf_d patt [num]) buf_len"

definition dev_read_hex_int :: "sysfs \<Rightarrow> string \<Rightarrow> int \<Rightarrow> errno + int" where
  "dev_read_hex_int F patt num = read_hex_int F (sprintf_d patt [num])"

definition dev_read_pos_int :: "sysfs \<Rightarrow> string \<Rightarrow> int \<Rightarrow> errno + int" where
  "dev_read_pos_int F patt num = read_pos_int F (sprintf_d patt [num])"

definition dev_read_pos_ll :: "sysfs \<Rightarrow> string \<Rightarrow> int \<Rightarrow> errno + int" where
  "dev_read_pos_ll F patt num = read_pos_ll F (sprintf_d patt [num])"

subsection \<open>Opening the library\<close>

text \<open>The first directory entry that is a device, unless an entry in front of it is too long.\<close>

fun first_device :: "string list \<Rightarrow> errno + int option" where
  "first_device [] = Inr None"
| "first_device (name # names) =
     (if length name \<ge> 255 then Inl EINVAL
      else case scan_dev_name ''mtd'' name of Some n \<Rightarrow> Inr (Some n) | None \<Rightarrow> first_device names)"

definition sysfs_is_supported :: "sysfs \<Rightarrow> libmtd \<Rightarrow> int" where
  "sysfs_is_supported F lib =
     (case sf_dir F (lib_sysfs_mtd lib) of
        Inl e \<Rightarrow> if e = ENOENT then 0 else -1
      | Inr names \<Rightarrow>
          (case first_device names of
             Inl _ \<Rightarrow> -1
           | Inr None \<Rightarrow> 0
           | Inr (Some num) \<Rightarrow>
               if num = -1 then 0
               else if file_there F (sprintf_d (lib_mtd_name lib) [num]) then 1 else 0))"

definition no_libmtd :: libmtd where
  "no_libmtd = \<lparr>lib_sysfs_mtd = [], lib_mtd = [], lib_mtd_dev = [], lib_mtd_name = [], lib_mtd_type = [],
     lib_mtd_eb_size = [], lib_mtd_size = [], lib_mtd_min_io_size = [], lib_mtd_subpage_size = [],
     lib_mtd_oob_size = [], lib_mtd_region_cnt = [], lib_mtd_flags = [], lib_sysfs_supported = False,
     lib_offs64_ioctls = OFFS64_IOCTLS_UNKNOWN\<rparr>"

text \<open>A failing check of sysfs counts as support.\<close>

definition libmtd_open :: "sysfs \<Rightarrow> libmtd" where
  "libmtd_open F =
     (let mtds = mkpath ''/sys'' ''class/mtd''; mtd = mkpath mtds ''mtd%d'';
          lib = no_libmtd\<lparr>lib_sysfs_mtd := mtds, lib_mtd := mtd, lib_mtd_name := mkpath mtd ''name''\<rparr>
      in if sysfs_is_supported F lib = 0 then no_libmtd
         else lib\<lparr>lib_mtd_dev := mkpath mtd ''dev'', lib_mtd_type := mkpath mtd ''type'',
                 lib_mtd_eb_size := mkpath mtd ''erasesize'', lib_mtd_size := mkpath mtd ''size'',
                 lib_mtd_min_io_size := mkpath mtd ''writesize'', lib_mtd_subpage_size := mkpath mtd ''subpagesize'',
                 lib_mtd_oob_size := mkpath mtd ''oobsize'', lib_mtd_region_cnt := mkpath mtd ''numeraseregions'',
                 lib_mtd_flags := mkpath mtd ''flags'', lib_sysfs_supported := True\<rparr>)"

subsection \<open>Kernels without sysfs\<close>

text \<open>
  The text of \<^verbatim>\<open>/proc/mtd\<close>: at most 4096 bytes of it are read, it has to begin with a heading, and each
  line has the number, the size, the eraseblock size and the name between quotes. A line that is not of
  this form is -1, after which the callers do not stop: they use what was stored so far and parse the
  line again, for ever.
\<close>

definition PROC_MTD_FIRST :: string where
  "PROC_MTD_FIRST = ''dev:    size   erasesize  name'' @ [CHR 0x0A]"

definition legacy_libmtd_open :: "sysfs \<Rightarrow> errno option" where
  "legacy_libmtd_open F =
     (case sf_file F ''/proc/mtd'' of Inl e \<Rightarrow> Some (if e = ENOENT then EOTHER 0 else e) | Inr _ \<Rightarrow> None)"

definition proc_parse_start :: "sysfs \<Rightarrow> errno + string" where
  "proc_parse_start F =
     (case sf_file F ''/proc/mtd'' of
        Inl e \<Rightarrow> Inl e
      | Inr s \<Rightarrow>
          let n = length PROC_MTD_FIRST; buf = take 4096 s
          in if length buf < n \<or> take n buf \<noteq> PROC_MTD_FIRST then Inl (EOTHER 0) else Inr (drop n buf))"

record proc_line =
  pl_mtd_num :: int
  pl_size :: int
  pl_eb_size :: int
  pl_name :: string

text \<open>\<^verbatim>\<open>sscanf(next, "mtd%d: %llx %x", ...) == 3\<close>.\<close>

definition scan_proc_line :: "string \<Rightarrow> (int \<times> int \<times> int) option" where
  "scan_proc_line s =
     do {
       t \<leftarrow> scan_word ''mtd'' s;
       (num, t1) \<leftarrow> scan_d 32 t;
       t2 \<leftarrow> scan_char (CHR '':'') t1;
       (size, t3) \<leftarrow> scan_llx t2;
       (eb, _) \<leftarrow> (if scan_number 16 t3 = None then None else Some (strtou 32 16 t3));
       Some (num, size, c_int eb)
     }"

text \<open>What follows the next quote.\<close>

definition behind_quote :: "string \<Rightarrow> string option" where
  "behind_quote s = (case dropWhile (\<lambda>c. c \<noteq> CHR 0x22) s of [] \<Rightarrow> None | q # t \<Rightarrow> Some t)"

definition proc_parse_next :: "string \<Rightarrow> string \<Rightarrow> (proc_line \<times> string) option option" where
  "proc_parse_next junk s =
     (if s = [] then Some None
      else do {
        (num, size, eb) \<leftarrow> scan_proc_line (c_string (s @ junk));
        p \<leftarrow> behind_quote s;
        rest \<leftarrow> behind_quote p;
        let name = takeWhile (\<lambda>c. c \<noteq> CHR 0x22) p;
        if length name > MTD_NAME_MAX then None
        else if rest @ junk \<noteq> [] \<and> hd (rest @ junk) = CHR 0x0A
        then Some (Some (\<lparr>pl_mtd_num = num, pl_size = size, pl_eb_size = eb, pl_name = name\<rparr>, tl rest))
        else None
      })"

lemma dropWhile_shorter: "length (dropWhile P s) \<le> length s"
  by (simp add: length_dropWhile_le)

lemma behind_quote_shorter: "behind_quote s = Some t \<Longrightarrow> length t < length s"
  using dropWhile_shorter [of "\<lambda>c. c \<noteq> CHR 0x22" s] by (auto simp: behind_quote_def split: list.splits)

lemma proc_parse_next_shorter: "proc_parse_next junk s = Some (Some (l, rest)) \<Longrightarrow> length rest < length s"
  by (auto simp: proc_parse_next_def Let_def bind_eq_Some_conv split: if_splits dest!: behind_quote_shorter)

text \<open>All lines up to the end.\<close>

function proc_lines :: "string \<Rightarrow> string \<Rightarrow> proc_line list option" where
  "proc_lines junk s =
     (case proc_parse_next junk s of
        None \<Rightarrow> None
      | Some None \<Rightarrow> Some []
      | Some (Some (l, rest)) \<Rightarrow> map_option (Cons l) (proc_lines junk rest))"
  by pat_completeness auto
termination
  by (relation "measure (length \<circ> snd)") (auto dest: proc_parse_next_shorter)

text \<open>
  The number and the name that are stored after a malformed line: those of the line, as far as it was read, or of
  the line before; \<open>None\<close> is uninitialised.
\<close>

type_synonym stored = "int option \<times> string option"

definition stored_name :: "string \<Rightarrow> string \<Rightarrow> string option" where
  "stored_name junk s =
     do {
       _ \<leftarrow> scan_proc_line (c_string (s @ junk));
       p \<leftarrow> behind_quote s;
       _ \<leftarrow> behind_quote p;
       let name = takeWhile (\<lambda>c. c \<noteq> CHR 0x22) p;
       if length name > MTD_NAME_MAX then None else Some name
     }"

definition stored_line :: "string \<Rightarrow> string \<Rightarrow> stored \<Rightarrow> stored" where
  "stored_line junk s pi =
     ((case scan_word ''mtd'' (c_string (s @ junk)) of
         None \<Rightarrow> fst pi
       | Some t \<Rightarrow> (case scan_d 32 t of None \<Rightarrow> fst pi | Some (n, _) \<Rightarrow> Some n)),
      (case stored_name junk s of None \<Rightarrow> snd pi | Some name \<Rightarrow> Some name))"

text \<open>
  The search for a device: \<open>Some None\<close> when there is no line for it, otherwise the name that is stored;
  \<open>None\<close> when the search does not end or compares uninitialised memory.
\<close>

function find_line :: "int \<Rightarrow> string \<Rightarrow> stored \<Rightarrow> string \<Rightarrow> string option option option" where
  "find_line num junk pi s =
     (case proc_parse_next junk s of
        None \<Rightarrow> (case stored_line junk s pi of (n, name) \<Rightarrow> if n = Some num then Some (Some name) else None)
      | Some None \<Rightarrow> Some None
      | Some (Some (l, rest)) \<Rightarrow>
          if pl_mtd_num l = num then Some (Some (Some (pl_name l)))
          else find_line num junk (Some (pl_mtd_num l), Some (pl_name l)) rest)"
  by pat_completeness auto
termination
  by (relation "measure (\<lambda>(num, junk, pi, s). length s)") (auto dest: proc_parse_next_shorter)

declare proc_lines.simps [simp del] find_line.simps [simp del]

text \<open>-1 when \<^verbatim>\<open>/proc/mtd\<close> cannot be read.\<close>

definition legacy_dev_present :: "sysfs \<Rightarrow> int \<Rightarrow> int option" where
  "legacy_dev_present F num =
     (case proc_parse_start F of
        Inl _ \<Rightarrow> Some (-1)
      | Inr s \<Rightarrow> map_option (\<lambda>r. if r = None then 0 else 1) (find_line num (sf_junk F) (None, None) s))"

fun count_devices :: "int list \<Rightarrow> mtd_info \<Rightarrow> mtd_info" where
  "count_devices [] info = info"
| "count_devices (num # nums) info =
     count_devices nums (info\<lparr>mi_mtd_dev_cnt := c_int (mi_mtd_dev_cnt info + 1),
       mi_highest_mtd_num := (if num > mi_highest_mtd_num info then num else mi_highest_mtd_num info),
       mi_lowest_mtd_num := (if num < mi_lowest_mtd_num info then num else mi_lowest_mtd_num info)\<rparr>)"

definition legacy_mtd_get_info :: "sysfs \<Rightarrow> mtd_info \<Rightarrow> (errno + mtd_info) option" where
  "legacy_mtd_get_info F info =
     (case proc_parse_start F of
        Inl e \<Rightarrow> Some (Inl e)
      | Inr s \<Rightarrow>
          map_option (\<lambda>ls. Inr (count_devices (map pl_mtd_num ls) (info\<lparr>mi_lowest_mtd_num := INT_MAX\<rparr>))) (proc_lines (sf_junk F) s))"


definition no_dev :: "int \<Rightarrow> mtd_dev" where
  "no_dev num = \<lparr>mtd_num = num, mtd_type = 0, mtd_name = [], mtd_size = 0, mtd_eb_cnt = 0, mtd_eb_size = 0,
     mtd_min_io_size = 0, mtd_subpage_size = 0, mtd_oob_size = 0, mtd_writable = False, mtd_bb_allowed = False,
     mtd_major = 0, mtd_minor = 0, mtd_type_str = [], mtd_region_cnt = 0\<rparr>"

definition type_int2str :: "int \<Rightarrow> string option" where
  "type_int2str t =
     (if t = MTD_RAM then Some ''ram''
      else if t = MTD_ROM then Some ''rom''
      else if t = MTD_NORFLASH then Some ''nor''
      else if t = MTD_NANDFLASH then Some ''nand''
      else if t = MTD_MLCNANDFLASH then Some ''mlc-nand''
      else if t = MTD_DATAFLASH then Some ''dataflash''
      else if t = MTD_UBIVOLUME then Some ''ubi'' else None)"

text \<open>What the kernel reports of a node, checked.\<close>

definition legacy_geometry :: "int \<Rightarrow> bool \<Rightarrow> mem_info \<Rightarrow> mtd_dev \<Rightarrow> errno + mtd_dev" where
  "legacy_geometry num bad ui mtd =
     (let io = c_int (ui_writesize ui); eb = c_int (ui_erasesize ui); size = ui_size ui
      in if io \<le> 0 then Inl (EOTHER 0)
         else if eb \<le> 0 \<or> eb < io then Inl (EOTHER 0)
         else if size \<le> 0 \<or> size < eb then Inl (EOTHER 0)
         else
           (case type_int2str (ui_type ui) of
              None \<Rightarrow> Inl (EOTHER 0)
            | Some str \<Rightarrow>
                Inr (mtd\<lparr>mtd_bb_allowed := bad, mtd_type := ui_type ui, mtd_size := size, mtd_eb_size := eb,
                       mtd_min_io_size := io, mtd_oob_size := c_int (ui_oobsize ui), mtd_eb_cnt := c_int (c_div size eb),
                       mtd_type_str := str, mtd_writable := (ui_flags ui AND MTD_WRITEABLE \<noteq> 0),
                       mtd_subpage_size := io\<rparr>)))"

text \<open>A node whose numbers cannot be read is reported, but the uninitialised numbers are used; that and an
  uninitialised name are \<open>None\<close>.\<close>

definition legacy_get_dev_info :: "sysfs \<Rightarrow> string \<Rightarrow> (errno + mtd_dev) option" where
  "legacy_get_dev_info F node =
     (case sf_stat F node of
        Inl _ \<Rightarrow> None
      | Inr (chr, major, minor) \<Rightarrow>
          if \<not> chr then Some (Inl EINVAL)
          else if major \<noteq> 90 then Some (Inl EINVAL)
          else
            let num = c_div minor 2
            in case sf_open_node F node of
                 Some e \<Rightarrow> Some (Inl e)
               | None \<Rightarrow>
                   (case sf_memgetinfo F node of
                      Inl e \<Rightarrow> Some (Inl e)
                    | Inr ui \<Rightarrow>
                        let bad = sf_memgetbadblock F node
                        in if bad \<noteq> None \<and> bad \<noteq> Some EOPNOTSUPP then Some (Inl (the bad))
                           else
                             (case legacy_geometry num (bad = None) ui ((no_dev num)\<lparr>mtd_major := major, mtd_minor := minor\<rparr>) of
                                Inl e \<Rightarrow> Some (Inl e)
                              | Inr mtd \<Rightarrow>
                                  (case proc_parse_start F of
                                     Inl e \<Rightarrow> Some (Inl e)
                                   | Inr s \<Rightarrow>
                                       (case find_line num (sf_junk F) (None, None) s of
                                          None \<Rightarrow> None
                                        | Some None \<Rightarrow> Some (Inl ENOENT)
                                        | Some (Some None) \<Rightarrow> None
                                        | Some (Some (Some name)) \<Rightarrow> Some (Inr (mtd\<lparr>mtd_name := c_string name\<rparr>)))))))"

definition legacy_get_dev_info1 :: "sysfs \<Rightarrow> int \<Rightarrow> (errno + mtd_dev) option" where
  "legacy_get_dev_info1 F num = legacy_get_dev_info F (sprintf_d ''/dev/mtd%d'' [num])"

subsection \<open>Information about devices\<close>

definition mtd_dev_present :: "sysfs \<Rightarrow> libmtd \<Rightarrow> int \<Rightarrow> bool option" where
  "mtd_dev_present F lib num =
     (if \<not> lib_sysfs_supported lib then map_option (\<lambda>r. r \<noteq> 0) (legacy_dev_present F num)
      else Some (stat_ok F (sprintf_d (lib_mtd lib) [num])))"

definition no_info :: mtd_info where
  "no_info = \<lparr>mi_mtd_dev_cnt = 0, mi_lowest_mtd_num = 0, mi_highest_mtd_num = 0, mi_sysfs_supported = False\<rparr>"

definition mtd_get_info :: "sysfs \<Rightarrow> libmtd \<Rightarrow> (errno + mtd_info) option" where
  "mtd_get_info F lib =
     (if \<not> lib_sysfs_supported lib then legacy_mtd_get_info F no_info
      else
        (case sf_dir F (lib_sysfs_mtd lib) of
           Inl e \<Rightarrow> Some (Inl (if e = ENOENT then ENODEV else e))
         | Inr names \<Rightarrow>
             (case device_entries ''mtd'' names of
                None \<Rightarrow> Some (Inl EINVAL)
              | Some nums \<Rightarrow>
                  let info = count_devices nums (no_info\<lparr>mi_sysfs_supported := True, mi_lowest_mtd_num := INT_MAX\<rparr>)
                  in Some (Inr (if mi_lowest_mtd_num info = INT_MAX then info\<lparr>mi_lowest_mtd_num := 0\<rparr> else info)))))"

text \<open>Contents without the line end; an empty file makes the code store in front of the string.\<close>

definition without_line_end :: "string \<Rightarrow> string option" where
  "without_line_end s = (if s = [] then None else Some (c_string (butlast s)))"

definition mtd_get_dev_info1 :: "sysfs \<Rightarrow> libmtd \<Rightarrow> int \<Rightarrow> (errno + mtd_dev) option" where
  "mtd_get_dev_info1 F lib num = do {
     present \<leftarrow> mtd_dev_present F lib num;
     if \<not> present then Some (Inl ENODEV)
     else if \<not> lib_sysfs_supported lib then legacy_get_dev_info1 F num
     else case dev_get_major F lib num of Inl e \<Rightarrow> Some (Inl e) | Inr (major, minor) \<Rightarrow>
     (case dev_read_data F (lib_mtd_name lib) num (MTD_NAME_MAX + 1) of Inl e \<Rightarrow> Some (Inl e) | Inr name_line \<Rightarrow> do {
     name \<leftarrow> without_line_end name_line;
     case dev_read_data F (lib_mtd_type lib) num (MTD_TYPE_MAX + 1) of Inl e \<Rightarrow> Some (Inl e) | Inr type_line \<Rightarrow> do {
     type_str \<leftarrow> without_line_end type_line;
     case dev_read_pos_int F (lib_mtd_eb_size lib) num of Inl e \<Rightarrow> Some (Inl e) | Inr eb_size \<Rightarrow>
     (case dev_read_pos_ll F (lib_mtd_size lib) num of Inl e \<Rightarrow> Some (Inl e) | Inr bytes \<Rightarrow>
     (case dev_read_pos_int F (lib_mtd_min_io_size lib) num of Inl e \<Rightarrow> Some (Inl e) | Inr io \<Rightarrow>
     (case dev_read_pos_int F (lib_mtd_subpage_size lib) num of Inl e \<Rightarrow> Some (Inl e) | Inr subpage \<Rightarrow>
     (case dev_read_pos_int F (lib_mtd_oob_size lib) num of Inl e \<Rightarrow> Some (Inl e) | Inr oob \<Rightarrow>
     (case dev_read_pos_int F (lib_mtd_region_cnt lib) num of Inl e \<Rightarrow> Some (Inl e) | Inr regions \<Rightarrow>
     (case dev_read_hex_int F (lib_mtd_flags lib) num of Inl e \<Rightarrow> Some (Inl e) | Inr flags \<Rightarrow>
       if eb_size = 0 then None
       else
         let type = type_str2int type_str
         in Some (Inr \<lparr>mtd_num = num, mtd_type = type, mtd_name = name, mtd_size = bytes,
              mtd_eb_cnt = c_int (c_div bytes eb_size), mtd_eb_size = eb_size, mtd_min_io_size = io,
              mtd_subpage_size = subpage, mtd_oob_size = oob, mtd_writable = (flags AND MTD_WRITEABLE \<noteq> 0),
              mtd_bb_allowed = (type = MTD_NANDFLASH \<or> type = MTD_MLCNANDFLASH),
              mtd_major = major, mtd_minor = minor, mtd_type_str = type_str, mtd_region_cnt = regions\<rparr>)))))))
     }})
   }"

text \<open>The device with the numbers of a node, among all of them; a device that is not there is skipped.\<close>

fun find_major :: "(int \<Rightarrow> errno + int \<times> int) \<Rightarrow> int \<Rightarrow> int \<Rightarrow> int list \<Rightarrow> errno + int option" where
  "find_major get major minor [] = Inr None"
| "find_major get major minor (i # is) =
     (case get i of
        Inl e \<Rightarrow> if e = ENOENT then find_major get major minor is else Inl e
      | Inr (mj, mn) \<Rightarrow> if mj = major \<and> mn = minor then Inr (Some i) else find_major get major minor is)"

definition dev_node2num :: "sysfs \<Rightarrow> libmtd \<Rightarrow> string \<Rightarrow> (errno + int) option" where
  "dev_node2num F lib node =
     (case sf_stat F node of
        Inl e \<Rightarrow> Some (Inl e)
      | Inr (chr, major, minor) \<Rightarrow>
          if \<not> chr then Some (Inl EINVAL)
          else do {
            r \<leftarrow> mtd_get_info F lib;
            case r of
              Inl e \<Rightarrow> Some (Inl e)
            | Inr info \<Rightarrow>
                (case find_major (dev_get_major F lib) major minor [mi_lowest_mtd_num info..mi_highest_mtd_num info] of
                   Inl e \<Rightarrow> Some (Inl e)
                 | Inr None \<Rightarrow> Some (Inl ENODEV)
                 | Inr (Some i) \<Rightarrow> Some (Inr i))
          })"

definition mtd_get_dev_info :: "sysfs \<Rightarrow> libmtd \<Rightarrow> string \<Rightarrow> (errno + mtd_dev) option" where
  "mtd_get_dev_info F lib node =
     (if \<not> lib_sysfs_supported lib then legacy_get_dev_info F node
      else do {
        r \<leftarrow> dev_node2num F lib node;
        case r of Inl e \<Rightarrow> Some (Inl e) | Inr num \<Rightarrow> mtd_get_dev_info1 F lib num
      })"

text \<open>1 for a node of an MTD device, 0 where sysfs cannot tell, an error otherwise.\<close>

definition mtd_probe_node :: "sysfs \<Rightarrow> libmtd \<Rightarrow> string \<Rightarrow> (errno + int) option" where
  "mtd_probe_node F lib node =
     (case sf_stat F node of
        Inl e \<Rightarrow> Some (Inl e)
      | Inr (chr, major, minor) \<Rightarrow>
          if \<not> chr then Some (Inl EINVAL)
          else do {
            r \<leftarrow> mtd_get_info F lib;
            case r of
              Inl e \<Rightarrow> Some (Inl e)
            | Inr info \<Rightarrow>
                if \<not> lib_sysfs_supported lib then Some (Inr 0)
                else
                  (case find_major (dev_get_major F lib) major minor [mi_lowest_mtd_num info..mi_highest_mtd_num info] of
                     Inl e \<Rightarrow> Some (Inl e)
                   | Inr None \<Rightarrow> Some (Inl (EOTHER 0))
                   | Inr (Some i) \<Rightarrow> Some (Inr 1))
          })"

end
