(* ===== verification/SysfsProps.thy ===== *)
theory SysfsProps
  imports SysfsFiles
begin

text \<open>Numbers that the kernel prints into the files under \<^verbatim>\<open>/sys\<close> are read back.\<close>

subsection \<open>Digits\<close>

lemma digit_val_digit_char_16:
  assumes "d < 16"
  shows "digit_val (digit_char d) = Some (int d)"
proof (cases "d < 10")
  case True
  then show ?thesis by (rule digit_val_digit_char)
next
  case False
  then have "(of_char (digit_char d) :: nat) = 87 + d"
    using assms by (simp add: digit_char_def)
  then show ?thesis
    using False assms by (simp add: digit_val_def)
qed

lemma digits_value_print:
  assumes "2 \<le> b" "b \<le> 16"
  shows "digits_value (int b) 0 (print_nat b n) = int n"
proof (induction n rule: less_induct)
  case (less n)
  show ?case
  proof (cases "n < b")
    case True
    then show ?thesis
      using assms digit_val_digit_char_16 [of n] by (simp add: print_nat_def digits_rev.simps [of _ n])
  next
    case False
    then have "n div b < n"
      using assms by simp
    moreover have "print_nat b n = print_nat b (n div b) @ [digit_char (n mod b)]"
      using False assms by (simp add: print_nat_def digits_rev.simps [of _ n])
    moreover have "n mod b < 16"
      using assms mod_less_divisor [of b n] by linarith
    moreover have "int (n div b) * int b + int (n mod b) = int n"
      by (metis div_mult_mod_eq of_nat_add of_nat_mult)
    ultimately show ?thesis
      using less.IH [of "n div b"] digit_val_digit_char_16 [of "n mod b"] by (simp add: digits_value_append)
  qed
qed

lemma print_digits:
  assumes "2 \<le> b" "b \<le> 16"
  shows "list_all (is_digit_of (int b)) (print_nat b n)"
proof (induction n rule: less_induct)
  case (less n)
  have digit: "is_digit_of (int b) (digit_char d)" if "d < b" for d
    using digit_val_digit_char_16 [of d] that assms by (simp add: is_digit_of_def)
  show ?case
  proof (cases "n < b")
    case True
    then show ?thesis
      using digit assms by (simp add: print_nat_def digits_rev.simps [of _ n])
  next
    case False
    then have "n div b < n" and "n mod b < b"
      using assms by simp_all
    moreover have "print_nat b n = print_nat b (n div b) @ [digit_char (n mod b)]"
      using False assms by (simp add: print_nat_def digits_rev.simps [of _ n])
    ultimately show ?thesis
      using less.IH [of "n div b"] digit by simp
  qed
qed

lemma scan_print:
  assumes "2 \<le> b" "b \<le> 16" "rest = [] \<or> \<not> is_digit_of (int b) (hd rest)"
  shows "scan_magnitude (int b) (print_nat b n @ rest) = Some (int n, rest)"
proof -
  have tw: "takeWhile (is_digit_of (int b)) rest = []" "dropWhile (is_digit_of (int b)) rest = rest"
    using assms(3) by (cases rest; simp)+
  have all: "\<forall>c \<in> set (print_nat b n). is_digit_of (int b) c"
    using print_digits [OF assms(1,2), of n] by (simp add: list_all_iff)
  show ?thesis
    using all tw assms by (simp add: scan_magnitude_def takeWhile_append dropWhile_append digits_value_print)
qed

lemma length_print_nat:
  assumes "n < b ^ k" "0 < k" "2 \<le> b"
  shows "length (print_nat b n) \<le> k"
  using assms(1,2)
proof (induction k arbitrary: n)
  case 0
  then show ?case by simp
next
  case (Suc k)
  show ?case
  proof (cases "n < b")
    case True
    then show ?thesis by (simp add: print_nat_def digits_rev.simps [of _ n])
  next
    case False
    then have "0 < k"
      using Suc.prems(1) by (cases k) simp_all
    moreover have "n div b < b ^ k"
      using Suc.prems(1) assms(3) by (simp add: less_mult_imp_div_less mult.commute)
    ultimately have "length (print_nat b (n div b)) \<le> k"
      by (rule Suc.IH [rotated])
    moreover have "print_nat b n = print_nat b (n div b) @ [digit_char (n mod b)]"
      using False assms(3) by (simp add: print_nat_def digits_rev.simps [of _ n])
    ultimately show ?thesis
      by simp
  qed
qed

lemma not_digits:
  "\<not> is_digit_of 16 (CHR 0x00)" "\<not> is_digit_of 16 (CHR '' '')" "\<not> is_digit_of 16 (CHR 0x09)" "\<not> is_digit_of 16 (CHR 0x0A)"
  "\<not> is_digit_of 16 (CHR 0x0B)" "\<not> is_digit_of 16 (CHR 0x0C)" "\<not> is_digit_of 16 (CHR 0x0D)"
  "\<not> is_digit_of 16 (CHR ''-'')" "\<not> is_digit_of 16 (CHR ''+'')" "\<not> is_digit_of 16 (CHR '':'')"
  "\<not> is_digit_of 16 (CHR ''_'')" "\<not> is_digit_of 16 (CHR ''r'')" "\<not> is_digit_of 16 (CHR ''x'')"
  by (simp_all add: is_digit_of_def digit_val_def)

lemma digit_10_16: "is_digit_of 10 c \<Longrightarrow> is_digit_of 16 c"
  by (auto simp: is_digit_of_def split: option.splits)

lemma digit_not_space: "is_digit_of 16 c \<Longrightarrow> \<not> c_isspace c"
  using not_digits by (auto simp: c_isspace_def)

subsection \<open>Numbers\<close>

definition number_ends :: "string \<Rightarrow> bool" where
  "number_ends rest \<longleftrightarrow> rest = [] \<or> \<not> is_digit_of 16 (hd rest)"

lemma number_ends_simps [simp]:
  "number_ends []" "number_ends (CHR 0x0A # s)" "number_ends (CHR '':'' # s)" "number_ends (CHR ''_'' # s)"
  "number_ends (CHR ''r'' # s)"
  by (simp_all add: number_ends_def not_digits)

lemma scan_number_digit:
  assumes "is_digit_of 16 c"
  shows "scan_number base (c # s) = map_option (Pair False) (scan_prefixed base (c # s))"
  using digit_not_space [OF assms] assms not_digits(8,9) by (auto simp: scan_number_def Let_def)

lemma print_Cons: "\<exists>c s. print_nat 10 n = c # s \<and> is_digit_of 16 c"
proof -
  obtain c s where "print_nat 10 n = c # s"
    by (cases "print_nat 10 n") simp_all
  moreover from this have "is_digit_of 10 c"
    using print_nat_digits [of n] by simp
  ultimately show ?thesis
    using digit_10_16 by blast
qed

lemma scan_number_print:
  assumes "number_ends rest"
  shows "scan_number 10 (print_nat 10 n @ rest) = Some (False, int n, rest)"
proof -
  obtain c s where c: "print_nat 10 n = c # s" "is_digit_of 16 c"
    using print_Cons by blast
  have "rest = [] \<or> \<not> is_digit_of 10 (hd rest)"
    using assms digit_10_16 by (auto simp: number_ends_def)
  then have "scan_magnitude 10 (print_nat 10 n @ rest) = Some (int n, rest)"
    by (rule scan_print_nat)
  then show ?thesis
    using scan_number_digit [OF c(2), of 10 "s @ rest"] by (simp add: c(1) scan_prefixed_def)
qed

lemma scan_d_print:
  assumes "number_ends rest" "0 \<le> n" "n < 2 ^ (w - 1)"
  shows "scan_d w (fmt_d n @ rest) = Some (n, rest)"
proof -
  have f: "fmt_d n = print_nat 10 (nat n)"
    using assms(2) by (simp add: fmt_d_def)
  show ?thesis
    unfolding f scan_d_def strtos_def scan_number_print [OF assms(1)] using assms(2,3) by simp
qed

lemma scan_llx_print:
  assumes "number_ends rest" "n < 2 ^ 63"
  shows "scan_llx (''0x'' @ fmt_x n @ rest) = Some (int n, rest)"
proof -
  obtain c s where c: "print_nat 16 n = c # s"
    by (cases "print_nat 16 n") simp_all
  then have digit: "is_digit_of 16 c"
    using print_digits [of 16 n] by simp
  have "scan_magnitude 16 (print_nat 16 n @ rest) = Some (int n, rest)"
    using scan_print [of 16 rest n] assms(1) by (simp add: number_ends_def)
  then have "scan_prefixed 16 (''0x'' @ print_nat 16 n @ rest) = Some (int n, rest)"
    using digit by (simp add: scan_prefixed_def c)
  moreover have "is_digit_of 16 (CHR ''0'')"
    by (simp add: is_digit_of_def digit_val_def)
  ultimately have "scan_number 16 (''0x'' @ print_nat 16 n @ rest) = Some (False, int n, rest)"
    using scan_number_digit [of "CHR ''0''" 16 "''x'' @ print_nat 16 n @ rest"] by simp
  moreover have "int n < 2 ^ 63"
    using assms(2) by simp
  ultimately show ?thesis
    by (simp add: scan_llx_def fmt_x_def strtou_def)
qed

subsection \<open>Files\<close>

lemma digits_no_nul:
  assumes "list_all (is_digit_of 16) s"
  shows "c_string (s @ t) = s @ c_string t"
proof -
  have "\<forall>c \<in> set s. c \<noteq> CHR 0x00"
    using assms not_digits(1) by (auto simp: list_all_iff)
  then show ?thesis
    by (simp add: c_string_def)
qed

lemma fmt_d_digits16: "0 \<le> n \<Longrightarrow> list_all (is_digit_of 16) (fmt_d n)"
  using print_nat_digits [of "nat n"] digit_10_16 by (auto simp: fmt_d_def list_all_iff)

lemma c_string_Cons [simp]: "c \<noteq> CHR 0x00 \<Longrightarrow> c_string (c # s) = c # c_string s"
  by (simp add: c_string_def)

definition text_line :: "string \<Rightarrow> string" where
  "text_line s = s @ [CHR 0x0A]"

lemma length_fmt_d: "0 \<le> n \<Longrightarrow> n < 2 ^ 63 \<Longrightarrow> length (fmt_d n) \<le> 19"
proof -
  assume n: "0 \<le> n" "n < 2 ^ 63"
  then have "nat n < 10 ^ 19"
    by (simp add: nat_less_iff)
  then have "length (print_nat 10 (nat n)) \<le> 19"
    by (rule length_print_nat) simp_all
  then show ?thesis
    using n(1) by (simp add: fmt_d_def)
qed

lemma read_ll_line:
  assumes "sf_file F file = Inr (text_line (fmt_d n))" "0 \<le> n" "n < 2 ^ 63"
  shows "read_ll (scan_d 64) junk F file = Inr n"
proof -
  have "length (text_line (fmt_d n)) < 50"
    using length_fmt_d [OF assms(2,3)] by (simp add: text_line_def)
  moreover have "c_string (text_line (fmt_d n) @ junk) = fmt_d n @ CHR 0x0A # c_string junk"
    using digits_no_nul [OF fmt_d_digits16 [OF assms(2)]] by (simp add: text_line_def)
  moreover have "scan_d 64 (fmt_d n @ CHR 0x0A # c_string junk) = Some (n, CHR 0x0A # c_string junk)"
    by (rule scan_d_print) (use assms(2,3) in simp_all)
  ultimately show ?thesis
    using assms(1,2) by (simp add: read_ll_def)
qed

lemma read_pos_line:
  assumes "sf_file F file = Inr (text_line (fmt_d n))" "0 \<le> n"
  shows "n < 2 ^ 63 \<Longrightarrow> read_pos_ll F file = Inr n" "n < 2 ^ 31 \<Longrightarrow> read_pos_int F file = Inr n"
    "n < 2 ^ 63 \<Longrightarrow> read_positive_ll F file = Inr n" "n < 2 ^ 31 \<Longrightarrow> read_positive_int F file = Inr n"
  using read_ll_line [OF assms]
  by (simp_all add: read_pos_ll_def read_pos_int_def read_positive_ll_def read_positive_int_def)

lemma read_hex_line:
  assumes "sf_file F file = Inr (text_line (''0x'' @ fmt_x n))" "n < 2 ^ 31"
  shows "read_hex_int F file = Inr (int n)"
proof -
  have "n < 16 ^ 8"
    using assms(2) by simp
  then have "length (print_nat 16 n) \<le> 8"
    by (rule length_print_nat) simp_all
  then have len: "length (text_line (''0x'' @ fmt_x n)) < 50"
    by (simp add: text_line_def fmt_x_def)
  have "list_all (is_digit_of 16) (fmt_x n)"
    using print_digits [of 16 n] by (simp add: fmt_x_def)
  then have "c_string (text_line (''0x'' @ fmt_x n)) = ''0x'' @ fmt_x n @ [CHR 0x0A]"
    using digits_no_nul [of "fmt_x n" "[CHR 0x0A]"] by (simp add: text_line_def c_string_def)
  moreover have "scan_llx (''0x'' @ fmt_x n @ [CHR 0x0A]) = Some (int n, [CHR 0x0A])"
    by (rule scan_llx_print) (use assms(2) in simp_all)
  ultimately have "read_hex_ll F file = Inr (int n)"
    using assms(1) len by (simp add: read_hex_ll_def read_ll_def)
  moreover have "int n < 2 ^ 31"
    using assms(2) by simp
  ultimately show ?thesis
    by (simp add: read_hex_int_def)
qed

lemma read_major_line:
  assumes "sf_file F file = Inr (text_line (fmt_d major @ '':'' @ fmt_d minor))"
    and "0 \<le> major" "major < 2 ^ 31" "0 \<le> minor" "minor < 2 ^ 31"
  shows "read_major F file = Inr (major, minor)"
proof -
  have "length (fmt_d major) \<le> 19" "length (fmt_d minor) \<le> 19"
    using assms(2-5) by (simp_all add: length_fmt_d)
  then have len: "length (text_line (fmt_d major @ '':'' @ fmt_d minor)) < 50"
    by (simp add: text_line_def)
  have "c_string (text_line (fmt_d major @ '':'' @ fmt_d minor)) = fmt_d major @ CHR '':'' # fmt_d minor @ [CHR 0x0A]"
    using digits_no_nul [OF fmt_d_digits16 [OF assms(2)], of "CHR '':'' # fmt_d minor @ [CHR 0x0A]"]
      digits_no_nul [OF fmt_d_digits16 [OF assms(4)], of "[CHR 0x0A]"]
    by (simp add: text_line_def c_string_def)
  moreover have "scan_d 32 (fmt_d major @ CHR '':'' # fmt_d minor @ [CHR 0x0A])
      = Some (major, CHR '':'' # fmt_d minor @ [CHR 0x0A])"
    by (rule scan_d_print) (use assms(2,3) in simp_all)
  moreover have "scan_d 32 (fmt_d minor @ [CHR 0x0A]) = Some (minor, [CHR 0x0A])"
    by (rule scan_d_print) (use assms(4,5) in simp_all)
  ultimately show ?thesis
    using assms(1,2,4) len by (simp add: read_major_def read_data_def scan_char_def)
qed

lemma scan_word_append [simp]: "scan_word w (w @ s) = Some s"
  by (induction w) (simp_all add: scan_char_def)

lemma scan_dev_name_print:
  assumes "0 \<le> n" "n < 2 ^ 31"
  shows "scan_dev_name stem (stem @ fmt_d n) = Some n"
    and "scan_dev_name stem (stem @ fmt_d n @ CHR ''r'' # s) = None"
    and "scan_dev_name stem (stem @ fmt_d n @ CHR ''_'' # s) = None"
proof -
  have "scan_d 32 (fmt_d n @ rest) = Some (n, rest)" if "number_ends rest" for rest
    by (rule scan_d_print [OF that]) (use assms in simp_all)
  note s = this
  show "scan_dev_name stem (stem @ fmt_d n) = Some n"
    using s [of "[]"] by (simp add: scan_dev_name_def scan_end_def)
  show "scan_dev_name stem (stem @ fmt_d n @ CHR ''r'' # s) = None"
    using s [of "CHR ''r'' # s"] by (simp add: scan_dev_name_def scan_end_def c_isspace_def)
  show "scan_dev_name stem (stem @ fmt_d n @ CHR ''_'' # s) = None"
    using s [of "CHR ''_'' # s"] by (simp add: scan_dev_name_def scan_end_def c_isspace_def)
qed

lemma scan_vol_name_print:
  assumes "0 \<le> dev" "dev < 2 ^ 31" "0 \<le> vol" "vol < 2 ^ 31"
  shows "scan_vol_name (''ubi'' @ fmt_d dev @ CHR ''_'' # fmt_d vol) = Some (dev, vol)"
    and "scan_vol_name (''ubi'' @ fmt_d dev) = None"
proof -
  have "scan_d 32 (fmt_d dev @ CHR ''_'' # fmt_d vol) = Some (dev, CHR ''_'' # fmt_d vol)"
    by (rule scan_d_print) (use assms in simp_all)
  moreover have "scan_d 32 (fmt_d dev) = Some (dev, [])" "scan_d 32 (fmt_d vol) = Some (vol, [])"
    using scan_d_print [of "[]" dev 32] scan_d_print [of "[]" vol 32] assms by simp_all
  moreover have "scan_word ''ubi'' (''ubi'' @ t) = Some t" for t
    by (rule scan_word_append)
  ultimately show "scan_vol_name (''ubi'' @ fmt_d dev @ CHR ''_'' # fmt_d vol) = Some (dev, vol)"
    "scan_vol_name (''ubi'' @ fmt_d dev) = None"
    by (simp_all add: scan_vol_name_def scan_char_def scan_end_def)
qed

text \<open>Entries of a directory.\<close>

lemma entry_devices:
  assumes "\<And>name. name \<in> set names \<Longrightarrow> length name < 255"
  shows "\<exists>nums. device_entries stem names = Some nums
    \<and> set nums = {n. \<exists>name \<in> set names. scan_dev_name stem name = Some n}"
  using assms
proof (induction names)
  case Nil
  then show ?case by simp
next
  case (Cons name names)
  then obtain nums where "device_entries stem names = Some nums"
    "set nums = {n. \<exists>name \<in> set names. scan_dev_name stem name = Some n}"
    by auto
  moreover have "\<not> length name \<ge> 255"
    using Cons.prems [of name] by simp
  ultimately show ?case
    by (cases "scan_dev_name stem name") auto
qed

text \<open>Printed numbers in paths.\<close>

lemma print_nat_inj: "print_nat 10 m = print_nat 10 n \<longleftrightarrow> m = n"
  using digits_value_print_nat [of m] digits_value_print_nat [of n] by (metis of_nat_eq_iff)

lemma fmt_d_inj: "fmt_d m = fmt_d n \<longleftrightarrow> m = n"
proof -
  have "CHR ''-'' # s \<noteq> print_nat 10 k" for s k
  proof
    assume "CHR ''-'' # s = print_nat 10 k"
    then have "is_digit_of 16 (CHR ''-'')"
      using print_Cons [of k] by auto
    then show False
      using not_digits(8) by simp
  qed
  then have "CHR ''-'' # s \<noteq> print_nat 10 k" "print_nat 10 k \<noteq> CHR ''-'' # s" for s k
    by metis+
  then show ?thesis
    by (auto simp: fmt_d_def print_nat_inj)
qed

definition number_char :: "char \<Rightarrow> bool" where
  "number_char c \<longleftrightarrow> c = CHR ''-'' \<or> is_digit_of 16 c"

lemma number_char_simps [simp]: "\<not> number_char (CHR ''/'')" "\<not> number_char (CHR ''_'')"
  by (simp_all add: number_char_def is_digit_of_def digit_val_def)

lemma fmt_d_number_chars: "\<forall>c \<in> set (fmt_d n). number_char c"
  using print_nat_digits digit_10_16 by (auto simp: fmt_d_def number_char_def list_all_iff)

lemma fmt_d_split:
  assumes "\<not> number_char c" "\<not> number_char d"
  shows "fmt_d n @ c # s = fmt_d m @ d # t \<longleftrightarrow> n = m \<and> c = d \<and> s = t"
proof
  assume eq: "fmt_d n @ c # s = fmt_d m @ d # t"
  have "takeWhile number_char (fmt_d k @ e # r) = fmt_d k" if "\<not> number_char e" for k e r
    using that fmt_d_number_chars [of k] by (subst takeWhile_append2) auto
  from arg_cong [OF eq, of "takeWhile number_char"] this [OF assms(1)] this [OF assms(2)]
  have "fmt_d n = fmt_d m" by simp
  then show "n = m \<and> c = d \<and> s = t"
    using eq by (simp add: fmt_d_inj)
qed simp

end
