(* ===== verification/LibmtdInfoProps.thy ===== *)
theory LibmtdInfoProps
  imports LibmtdInfo SysfsProps
begin

text \<open>
  What libmtd reports of a device: the numbers of the node it was asked for, a geometry that fits
  together, and with the files that the kernel makes for its devices exactly what the kernel says.
\<close>

subsection \<open>Consistent descriptions\<close>

definition geometry_ok :: "mtd_dev \<Rightarrow> bool" where
  "geometry_ok d \<longleftrightarrow> 0 < mtd_eb_size d \<and> mtd_eb_size d < 2 ^ 31 \<and> 0 \<le> mtd_size d
     \<and> mtd_eb_cnt d = c_int (mtd_size d div mtd_eb_size d)"

lemma c_int_upper [simp]: "c_int x < 2147483648"
  using c_int_range(2) [of x] by simp

lemma read_ll_nonneg: "read_ll scan junk F file = Inr v \<Longrightarrow> 0 \<le> v"
  by (auto simp: read_ll_def split: sum.splits if_splits option.splits prod.splits)

lemma read_pos_nonneg:
  "read_pos_ll F file = Inr v \<Longrightarrow> 0 \<le> v" "read_pos_int F file = Inr v \<Longrightarrow> 0 \<le> v \<and> v < 2 ^ 31"
  by (auto simp: read_pos_ll_def read_pos_int_def dest: read_ll_nonneg split: sum.splits if_splits)

lemma find_major_found:
  "find_major get major minor is = Inr (Some i) \<Longrightarrow> get i = Inr (major, minor)"
  by (induction "is") (auto split: sum.splits if_splits prod.splits)

lemma legacy_info_of_node:
  assumes "legacy_get_dev_info F node = Some (Inr d)"
  shows "sf_stat F node = Inr (True, mtd_major d, mtd_minor d) \<and> geometry_ok d"
  using assms
  by (auto simp: legacy_get_dev_info_def legacy_geometry_def Let_def geometry_ok_def
      split: sum.splits prod.splits if_splits option.splits)

lemma sysfs_info1:
  assumes "mtd_get_dev_info1 F lib num = Some (Inr d)" "lib_sysfs_supported lib"
  shows "dev_get_major F lib num = Inr (mtd_major d, mtd_minor d) \<and> geometry_ok d \<and> mtd_num d = num
    \<and> mtd_type d = type_str2int (mtd_type_str d)
    \<and> mtd_bb_allowed d = (mtd_type d = MTD_NANDFLASH \<or> mtd_type d = MTD_MLCNANDFLASH)"
  using assms
  by (auto simp: mtd_get_dev_info1_def Let_def geometry_ok_def dev_read_pos_int_def dev_read_pos_ll_def
      dest!: read_pos_nonneg intro!: arg_cong [where f = c_int] c_div_nonneg split: sum.split_asm prod.split_asm if_split_asm bind_split_asm)

text \<open>
  Property C21. A description that \<^verbatim>\<open>mtd_get_dev_info\<close> returns, read from sysfs or made from what an old kernel
  reports, is one of the device behind the node, with its major and minor number; its eraseblocks have
  a size above 0, and their number is the size of the device divided by it.
\<close>
theorem mtd_info_of_node:
  assumes "mtd_get_dev_info F (libmtd_open F) node = Some (Inr d)"
  shows "sf_stat F node = Inr (True, mtd_major d, mtd_minor d) \<and> geometry_ok d"
proof (cases "lib_sysfs_supported (libmtd_open F)")
  case False
  then show ?thesis
    using assms legacy_info_of_node by (simp add: mtd_get_dev_info_def)
next
  case True
  then obtain num where num: "dev_node2num F (libmtd_open F) node = Some (Inr num)"
    "mtd_get_dev_info1 F (libmtd_open F) num = Some (Inr d)"
    using assms by (auto simp: mtd_get_dev_info_def split: sum.split_asm bind_split_asm)
  obtain major minor where "sf_stat F node = Inr (True, major, minor)"
    "dev_get_major F (libmtd_open F) num = Inr (major, minor)"
    using num(1) by (auto simp: dev_node2num_def
        split: sum.split_asm prod.split_asm if_split_asm option.split_asm bind_split_asm dest!: find_major_found)
  then show ?thesis
    using sysfs_info1 [OF num(2) True] by simp
qed


subsection \<open>What the kernel says of its devices\<close>

text \<open>The paths that the library makes.\<close>

definition mtd_path :: "int \<Rightarrow> string" where
  "mtd_path num = ''/sys/class/mtd/mtd'' @ fmt_d num"

lemma opened_paths:
  assumes "lib_sysfs_supported (libmtd_open F)"
  shows "lib_sysfs_mtd (libmtd_open F) = ''/sys/class/mtd''"
    "sprintf_d (lib_mtd (libmtd_open F)) [n] = mtd_path n"
    "sprintf_d (lib_mtd_dev (libmtd_open F)) [n] = mtd_path n @ ''/dev''"
    "sprintf_d (lib_mtd_name (libmtd_open F)) [n] = mtd_path n @ ''/name''"
    "sprintf_d (lib_mtd_type (libmtd_open F)) [n] = mtd_path n @ ''/type''"
    "sprintf_d (lib_mtd_eb_size (libmtd_open F)) [n] = mtd_path n @ ''/erasesize''"
    "sprintf_d (lib_mtd_size (libmtd_open F)) [n] = mtd_path n @ ''/size''"
    "sprintf_d (lib_mtd_min_io_size (libmtd_open F)) [n] = mtd_path n @ ''/writesize''"
    "sprintf_d (lib_mtd_subpage_size (libmtd_open F)) [n] = mtd_path n @ ''/subpagesize''"
    "sprintf_d (lib_mtd_oob_size (libmtd_open F)) [n] = mtd_path n @ ''/oobsize''"
    "sprintf_d (lib_mtd_region_cnt (libmtd_open F)) [n] = mtd_path n @ ''/numeraseregions''"
    "sprintf_d (lib_mtd_flags (libmtd_open F)) [n] = mtd_path n @ ''/flags''"
  using assms by (auto simp: libmtd_open_def Let_def mkpath_def mtd_path_def no_libmtd_def split: if_split_asm)

text \<open>A device as the kernel has it, and its files.\<close>

definition good_dev :: "mtd_dev \<Rightarrow> bool" where
  "good_dev d \<longleftrightarrow>
     0 \<le> mtd_num d \<and> mtd_num d < 2 ^ 31 \<and> 0 \<le> mtd_major d \<and> mtd_major d < 2 ^ 31 \<and> 0 \<le> mtd_minor d \<and> mtd_minor d < 2 ^ 31
   \<and> CHR 0x00 \<notin> set (mtd_name d) \<and> length (mtd_name d) < MTD_NAME_MAX
   \<and> mtd_type_str d \<in> {''nand'', ''mlc-nand'', ''nor'', ''rom'', ''absent'', ''dataflash'', ''ram'', ''ubi''}
   \<and> mtd_type d = type_str2int (mtd_type_str d)
   \<and> mtd_bb_allowed d = (mtd_type d = MTD_NANDFLASH \<or> mtd_type d = MTD_MLCNANDFLASH)
   \<and> 0 < mtd_eb_size d \<and> mtd_eb_size d < 2 ^ 31 \<and> 0 \<le> mtd_size d \<and> mtd_size d < 2 ^ 63
   \<and> mtd_eb_cnt d = mtd_size d div mtd_eb_size d \<and> mtd_eb_cnt d < 2 ^ 31
   \<and> 0 \<le> mtd_min_io_size d \<and> mtd_min_io_size d < 2 ^ 31 \<and> 0 \<le> mtd_subpage_size d \<and> mtd_subpage_size d < 2 ^ 31
   \<and> 0 \<le> mtd_oob_size d \<and> mtd_oob_size d < 2 ^ 31 \<and> 0 \<le> mtd_region_cnt d \<and> mtd_region_cnt d < 2 ^ 31"

text \<open>
  The flags of a device, as \<^verbatim>\<open>mtd-abi.h\<close> numbers them: 0x400 (bit 10) says that it can be written, the others
  that single bits can be flipped (0x800), that it needs no erasing (0x1000), that it is locked after a
  reset (0x2000). A NAND device has 0x400, a NOR device 0xC00, RAM 0x1C00 and ROM none.
\<close>

definition good_flags :: "mtd_dev \<Rightarrow> nat \<Rightarrow> bool" where
  "good_flags d flags \<longleftrightarrow> flags < 2 ^ 31 \<and> mtd_writable d = bit flags 10"

definition mtd_files :: "(mtd_dev \<Rightarrow> nat) \<Rightarrow> mtd_dev \<Rightarrow> (string \<times> string) list" where
  "mtd_files fl d = map (\<lambda>(a, s). (mtd_path (mtd_num d) @ a, text_line s))
     [(''/dev'', fmt_d (mtd_major d) @ '':'' @ fmt_d (mtd_minor d)), (''/name'', mtd_name d), (''/type'', mtd_type_str d),
      (''/erasesize'', fmt_d (mtd_eb_size d)), (''/size'', fmt_d (mtd_size d)), (''/writesize'', fmt_d (mtd_min_io_size d)),
      (''/subpagesize'', fmt_d (mtd_subpage_size d)), (''/oobsize'', fmt_d (mtd_oob_size d)),
      (''/numeraseregions'', fmt_d (mtd_region_cnt d)), (''/flags'', ''0x'' @ fmt_x (fl d))]"

text \<open>
  Sysfs with the devices, each with a directory for its two nodes; in any order. There are no other
  devices.
\<close>

definition describes :: "sysfs \<Rightarrow> (mtd_dev \<Rightarrow> nat) \<Rightarrow> mtd_dev set \<Rightarrow> bool" where
  "describes F fl devs \<longleftrightarrow>
     (\<exists>names. sf_dir F ''/sys/class/mtd'' = Inr names
        \<and> set names = {''.'', ''..''} \<union> (\<Union>d \<in> devs. {''mtd'' @ fmt_d (mtd_num d), ''mtd'' @ fmt_d (mtd_num d) @ ''ro''}))
   \<and> (\<forall>d \<in> devs. good_dev d \<and> good_flags d (fl d) \<and> (\<forall>(path, s) \<in> set (mtd_files fl d). sf_file F path = Inr s) \<and> stat_ok F (mtd_path (mtd_num d)))
   \<and> (\<forall>n. n \<notin> mtd_num ` devs \<longrightarrow> sf_file F (mtd_path n @ ''/dev'') = Inl ENOENT)
   \<and> (\<forall>d \<in> devs. \<forall>e \<in> devs. mtd_major d = mtd_major e \<and> mtd_minor d = mtd_minor e \<longrightarrow> d = e)"

lemma first_device_there:
  assumes "\<And>name. name \<in> set names \<Longrightarrow> length name < 255"
  shows "first_device names = Inr None \<and> (\<forall>name \<in> set names. scan_dev_name ''mtd'' name = None)
    \<or> (\<exists>n. first_device names = Inr (Some n) \<and> (\<exists>name \<in> set names. scan_dev_name ''mtd'' name = Some n))"
  using assms
proof (induction names)
  case Nil
  then show ?case by simp
next
  case (Cons name names)
  have "\<not> length name \<ge> 255"
    using Cons.prems [of name] by simp
  moreover have "first_device names = Inr None \<and> (\<forall>name \<in> set names. scan_dev_name ''mtd'' name = None)
    \<or> (\<exists>n. first_device names = Inr (Some n) \<and> (\<exists>name \<in> set names. scan_dev_name ''mtd'' name = Some n))"
    using Cons by simp
  ultimately show ?case
    by (cases "scan_dev_name ''mtd'' name") auto
qed

lemma count_bounds:
  "mi_lowest_mtd_num (count_devices nums i) \<le> mi_lowest_mtd_num i"
  "mi_highest_mtd_num i \<le> mi_highest_mtd_num (count_devices nums i)"
  "n \<in> set nums \<Longrightarrow> mi_lowest_mtd_num (count_devices nums i) \<le> n \<and> n \<le> mi_highest_mtd_num (count_devices nums i)"
proof -
  have "mi_lowest_mtd_num (count_devices nums i) \<le> mi_lowest_mtd_num i \<and> mi_highest_mtd_num i \<le> mi_highest_mtd_num (count_devices nums i)
    \<and> (\<forall>n \<in> set nums. mi_lowest_mtd_num (count_devices nums i) \<le> n \<and> n \<le> mi_highest_mtd_num (count_devices nums i))"
  proof (induction nums arbitrary: i)
    case Nil
    then show ?case by simp
  next
    case (Cons m nums)
    let ?i = "i\<lparr>mi_mtd_dev_cnt := c_int (mi_mtd_dev_cnt i + 1),
       mi_highest_mtd_num := (if m > mi_highest_mtd_num i then m else mi_highest_mtd_num i),
       mi_lowest_mtd_num := (if m < mi_lowest_mtd_num i then m else mi_lowest_mtd_num i)\<rparr>"
    have i: "mi_lowest_mtd_num ?i \<le> mi_lowest_mtd_num i" "mi_lowest_mtd_num ?i \<le> m"
      "mi_highest_mtd_num i \<le> mi_highest_mtd_num ?i" "m \<le> mi_highest_mtd_num ?i"
      by simp_all
    have eq: "count_devices (m # nums) i = count_devices nums ?i"
      by simp
    note IH = Cons.IH [of ?i]
    show ?case
      unfolding eq list.set
      using IH order_trans [OF conjunct1 [OF IH] i(1)] order_trans [OF conjunct1 [OF IH] i(2)]
        order_trans [OF i(3) conjunct1 [OF conjunct2 [OF IH]]] order_trans [OF i(4) conjunct1 [OF conjunct2 [OF IH]]]
      by blast
  qed
  then show "mi_lowest_mtd_num (count_devices nums i) \<le> mi_lowest_mtd_num i"
    "mi_highest_mtd_num i \<le> mi_highest_mtd_num (count_devices nums i)"
    "n \<in> set nums \<Longrightarrow> mi_lowest_mtd_num (count_devices nums i) \<le> n \<and> n \<le> mi_highest_mtd_num (count_devices nums i)"
    by blast+
qed

lemma find_major_there:
  assumes "n \<in> set is" "get n = Inr (major, minor)"
    and "\<And>i. i \<in> set is \<Longrightarrow> get i = Inl ENOENT \<or> (\<exists>mj mn. get i = Inr (mj, mn) \<and> (mj = major \<and> mn = minor \<longrightarrow> i = n))"
  shows "find_major get major minor is = Inr (Some n)"
  using assms(1,3)
proof (induction "is")
  case Nil
  then show ?case by simp
next
  case (Cons i "is")
  show ?case
  proof (cases "i = n")
    case True
    then show ?thesis using assms(2) by simp
  next
    case False
    then have "find_major get major minor is = Inr (Some n)"
      using Cons by simp
    moreover have "get i = Inl ENOENT \<or> (\<exists>mj mn. get i = Inr (mj, mn) \<and> (mj = major \<and> mn = minor \<longrightarrow> i = n))"
      using Cons.prems(2) by simp
    ultimately show ?thesis
      using False by auto
  qed
qed

lemma good_names:
  assumes "good_dev d"
  shows "length (''mtd'' @ fmt_d (mtd_num d)) < 255" "length (''mtd'' @ fmt_d (mtd_num d) @ ''ro'') < 255"
    "scan_dev_name ''mtd'' (''mtd'' @ fmt_d (mtd_num d)) = Some (mtd_num d)"
    "scan_dev_name ''mtd'' (''mtd'' @ fmt_d (mtd_num d) @ ''ro'') = None"
proof -
  have n: "0 \<le> mtd_num d" "mtd_num d < 2 ^ 31"
    using assms by (simp_all add: good_dev_def)
  then have "length (fmt_d (mtd_num d)) \<le> 19"
    by (intro length_fmt_d) simp_all
  then show "length (''mtd'' @ fmt_d (mtd_num d)) < 255" "length (''mtd'' @ fmt_d (mtd_num d) @ ''ro'') < 255"
    by simp_all
  show "scan_dev_name ''mtd'' (''mtd'' @ fmt_d (mtd_num d)) = Some (mtd_num d)"
    "scan_dev_name ''mtd'' (''mtd'' @ fmt_d (mtd_num d) @ ''ro'') = None"
    using scan_dev_name_print [OF n, of "''mtd''"] by simp_all
qed

lemma described_names:
  assumes "describes F fl devs"
  obtains names where "sf_dir F ''/sys/class/mtd'' = Inr names"
    "\<And>name. name \<in> set names \<Longrightarrow> length name < 255"
    "{n. \<exists>name \<in> set names. scan_dev_name ''mtd'' name = Some n} = mtd_num ` devs"
proof -
  obtain names where names: "sf_dir F ''/sys/class/mtd'' = Inr names"
    "set names = {''.'', ''..''} \<union> (\<Union>d \<in> devs. {''mtd'' @ fmt_d (mtd_num d), ''mtd'' @ fmt_d (mtd_num d) @ ''ro''})"
    and good: "\<And>d. d \<in> devs \<Longrightarrow> good_dev d"
    using assms by (auto simp: describes_def)
  have dots: "scan_dev_name ''mtd'' ''.'' = None" "scan_dev_name ''mtd'' ''..'' = None"
    by (simp_all add: scan_dev_name_def scan_char_def)
  show thesis
  proof (rule that [OF names(1)])
    show "length name < 255" if "name \<in> set names" for name
      using that good_names(1,2) good unfolding names(2) by fastforce
    show "{n. \<exists>name \<in> set names. scan_dev_name ''mtd'' name = Some n} = mtd_num ` devs"
      unfolding names(2) using good_names(3,4) [OF good] dots by (fastforce simp: image_iff)
  qed
qed


lemma described_file:
  assumes "describes F fl devs" "d \<in> devs"
  shows "sf_file F (mtd_path (mtd_num d) @ ''/dev'') = Inr (text_line (fmt_d (mtd_major d) @ '':'' @ fmt_d (mtd_minor d)))"
    "sf_file F (mtd_path (mtd_num d) @ ''/name'') = Inr (text_line (mtd_name d))"
    "sf_file F (mtd_path (mtd_num d) @ ''/type'') = Inr (text_line (mtd_type_str d))"
    "sf_file F (mtd_path (mtd_num d) @ ''/erasesize'') = Inr (text_line (fmt_d (mtd_eb_size d)))"
    "sf_file F (mtd_path (mtd_num d) @ ''/size'') = Inr (text_line (fmt_d (mtd_size d)))"
    "sf_file F (mtd_path (mtd_num d) @ ''/writesize'') = Inr (text_line (fmt_d (mtd_min_io_size d)))"
    "sf_file F (mtd_path (mtd_num d) @ ''/subpagesize'') = Inr (text_line (fmt_d (mtd_subpage_size d)))"
    "sf_file F (mtd_path (mtd_num d) @ ''/oobsize'') = Inr (text_line (fmt_d (mtd_oob_size d)))"
    "sf_file F (mtd_path (mtd_num d) @ ''/numeraseregions'') = Inr (text_line (fmt_d (mtd_region_cnt d)))"
    "sf_file F (mtd_path (mtd_num d) @ ''/flags'') = Inr (text_line (''0x'' @ fmt_x (fl d)))"
    "good_dev d" "stat_ok F (mtd_path (mtd_num d))" "good_flags d (fl d)"
  using assms by (auto simp: describes_def mtd_files_def)

lemma described_supported:
  assumes "describes F fl devs" "d \<in> devs"
  shows "lib_sysfs_supported (libmtd_open F)"
proof -
  obtain names where names: "sf_dir F ''/sys/class/mtd'' = Inr names"
    "\<And>name. name \<in> set names \<Longrightarrow> length name < 255"
    "{n. \<exists>name \<in> set names. scan_dev_name ''mtd'' name = Some n} = mtd_num ` devs"
    using described_names [OF assms(1)] by blast
  obtain name where "name \<in> set names" "scan_dev_name ''mtd'' name = Some (mtd_num d)"
    using names(3) assms(2) by blast
  then obtain n where first: "first_device names = Inr (Some n)" "n \<in> mtd_num ` devs"
    using first_device_there [OF names(2)] names(3) by fastforce
  then obtain e where e: "e \<in> devs" "n = mtd_num e"
    by blast
  have "n \<noteq> -1"
    using described_file(11) [OF assms(1) e(1)] e(2) by (simp add: good_dev_def)
  moreover have "file_there F (mtd_path n @ ''/name'')"
    using described_file(2) [OF assms(1) e(1)] e(2) by (simp add: file_there_def)
  ultimately show ?thesis
    using names(1) first(1) by (simp add: libmtd_open_def Let_def sysfs_is_supported_def mkpath_def mtd_path_def)
qed

lemma described_major:
  assumes "describes F fl devs" "d \<in> devs"
  shows "dev_get_major F (libmtd_open F) (mtd_num d) = Inr (mtd_major d, mtd_minor d)"
  unfolding dev_get_major_def opened_paths [OF described_supported [OF assms]]
  by (rule read_major_line) (use described_file(1,11) [OF assms] in \<open>simp_all add: good_dev_def\<close>)

lemma described_nums:
  assumes "describes F fl devs" "d \<in> devs"
  shows "\<exists>info. mtd_get_info F (libmtd_open F) = Some (Inr info)
    \<and> (\<forall>n \<in> mtd_num ` devs. mi_lowest_mtd_num info \<le> n \<and> n \<le> mi_highest_mtd_num info)"
proof -
  note lib = described_supported [OF assms]
  obtain names where names: "sf_dir F ''/sys/class/mtd'' = Inr names"
    "\<And>name. name \<in> set names \<Longrightarrow> length name < 255"
    "{n. \<exists>name \<in> set names. scan_dev_name ''mtd'' name = Some n} = mtd_num ` devs"
    using described_names [OF assms(1)] by blast
  obtain nums where nums: "device_entries ''mtd'' names = Some nums" "set nums = mtd_num ` devs"
    using entry_devices [OF names(2), of names "''mtd''"] names(3) by auto
  let ?info = "count_devices nums (no_info\<lparr>mi_sysfs_supported := True, mi_lowest_mtd_num := INT_MAX\<rparr>)"
  have "\<forall>n \<in> mtd_num ` devs. mi_lowest_mtd_num ?info \<le> n \<and> n \<le> mi_highest_mtd_num ?info"
    using count_bounds(3) nums(2) by blast
  moreover have "\<forall>n \<in> mtd_num ` devs. 0 \<le> n"
    using described_file(11) [OF assms(1)] by (auto simp: good_dev_def)
  ultimately show ?thesis
    using lib names(1) nums(1) by (simp add: mtd_get_info_def opened_paths(1) [OF lib] Let_def)
qed

lemma described_number:
  assumes "describes F fl devs" "d \<in> devs" "sf_stat F node = Inr (True, mtd_major d, mtd_minor d)"
  shows "dev_node2num F (libmtd_open F) node = Some (Inr (mtd_num d))"
proof -
  obtain info where info: "mtd_get_info F (libmtd_open F) = Some (Inr info)"
    "\<forall>n \<in> mtd_num ` devs. mi_lowest_mtd_num info \<le> n \<and> n \<le> mi_highest_mtd_num info"
    using described_nums [OF assms(1,2)] by blast
  have other: "dev_get_major F (libmtd_open F) i = Inl ENOENT" if "i \<notin> mtd_num ` devs" for i
    unfolding dev_get_major_def opened_paths(3) [OF described_supported [OF assms(1,2)]]
    using that assms(1) by (simp add: describes_def read_major_def read_data_def)
  have "find_major (dev_get_major F (libmtd_open F)) (mtd_major d) (mtd_minor d)
      [mi_lowest_mtd_num info..mi_highest_mtd_num info] = Inr (Some (mtd_num d))"
  proof (rule find_major_there)
    show "mtd_num d \<in> set [mi_lowest_mtd_num info..mi_highest_mtd_num info]"
      using info(2) assms(2) by auto
    show "dev_get_major F (libmtd_open F) (mtd_num d) = Inr (mtd_major d, mtd_minor d)"
      by (rule described_major [OF assms(1,2)])
    fix i
    show "dev_get_major F (libmtd_open F) i = Inl ENOENT
      \<or> (\<exists>mj mn. dev_get_major F (libmtd_open F) i = Inr (mj, mn) \<and> (mj = mtd_major d \<and> mn = mtd_minor d \<longrightarrow> i = mtd_num d))"
    proof (cases "i \<in> mtd_num ` devs")
      case True
      then obtain e where e: "e \<in> devs" "i = mtd_num e"
        by blast
      have "mtd_major e = mtd_major d \<and> mtd_minor e = mtd_minor d \<longrightarrow> e = d"
        using assms(1,2) e(1) unfolding describes_def by blast
      then show ?thesis
        using described_major [OF assms(1) e(1)] e(2) by auto
    next
      case False
      then show ?thesis using other by blast
    qed
  qed
  then show ?thesis
    using assms(3) info(1) by (simp add: dev_node2num_def)
qed

lemma line_without_end: "CHR 0x00 \<notin> set s \<Longrightarrow> without_line_end (text_line s) = Some s"
  by (simp add: without_line_end_def text_line_def c_string_def takeWhile_eq_all_conv) metis

lemma described_info:
  assumes "describes F fl devs" "d \<in> devs"
  shows "mtd_get_dev_info1 F (libmtd_open F) (mtd_num d) = Some (Inr d)"
proof -
  note lib = described_supported [OF assms] and files = described_file [OF assms]
  note good = files(11) [unfolded good_dev_def]
  have present: "mtd_dev_present F (libmtd_open F) (mtd_num d) = Some True"
    using lib files(12) by (simp add: mtd_dev_present_def opened_paths(2) [OF lib])
  have name: "dev_read_data F (lib_mtd_name (libmtd_open F)) (mtd_num d) (MTD_NAME_MAX + 1) = Inr (text_line (mtd_name d))"
    using good files(2) by (simp add: dev_read_data_def opened_paths [OF lib] read_data_def text_line_def)
  have "length (mtd_type_str d) \<le> 9" and str: "CHR 0x00 \<notin> set (mtd_type_str d)"
    using good by auto
  then have type: "dev_read_data F (lib_mtd_type (libmtd_open F)) (mtd_num d) (MTD_TYPE_MAX + 1) = Inr (text_line (mtd_type_str d))"
    using files(3) by (simp add: dev_read_data_def opened_paths [OF lib] read_data_def text_line_def MTD_TYPE_MAX_def)
  have ints: "dev_read_pos_int F (lib_mtd_eb_size (libmtd_open F)) (mtd_num d) = Inr (mtd_eb_size d)"
    "dev_read_pos_ll F (lib_mtd_size (libmtd_open F)) (mtd_num d) = Inr (mtd_size d)"
    "dev_read_pos_int F (lib_mtd_min_io_size (libmtd_open F)) (mtd_num d) = Inr (mtd_min_io_size d)"
    "dev_read_pos_int F (lib_mtd_subpage_size (libmtd_open F)) (mtd_num d) = Inr (mtd_subpage_size d)"
    "dev_read_pos_int F (lib_mtd_oob_size (libmtd_open F)) (mtd_num d) = Inr (mtd_oob_size d)"
    "dev_read_pos_int F (lib_mtd_region_cnt (libmtd_open F)) (mtd_num d) = Inr (mtd_region_cnt d)"
    using read_pos_line(2) [OF files(4)] read_pos_line(1) [OF files(5)] read_pos_line(2) [OF files(6)]
      read_pos_line(2) [OF files(7)] read_pos_line(2) [OF files(8)] read_pos_line(2) [OF files(9)] good
    by (simp_all add: dev_read_pos_int_def dev_read_pos_ll_def opened_paths [OF lib])
  have flags: "dev_read_hex_int F (lib_mtd_flags (libmtd_open F)) (mtd_num d) = Inr (int (fl d))"
    using read_hex_line [OF files(10)] files(13) by (simp add: dev_read_hex_int_def opened_paths [OF lib] good_flags_def)
  have writable: "(int (fl d) AND MTD_WRITEABLE \<noteq> 0) = mtd_writable d"
    using files(13) bit_iff_and_push_bit_not_eq_0 [of "int (fl d)" 10]
    by (simp add: good_flags_def MTD_WRITEABLE_def push_bit_eq_mult bit_of_nat_iff_bit)
  have cnt: "c_int (mtd_size d div mtd_eb_size d) = mtd_size d div mtd_eb_size d"
  proof (rule c_int_id)
    have "0 \<le> mtd_size d div mtd_eb_size d"
      using good by (simp add: pos_imp_zdiv_nonneg_iff)
    then show "- (2 ^ 31) \<le> mtd_size d div mtd_eb_size d"
      by (rule order_trans [rotated]) simp
    show "mtd_size d div mtd_eb_size d < 2 ^ 31"
      using good by metis
  qed
  have "mtd_get_dev_info1 F (libmtd_open F) (mtd_num d) =
    Some (Inr \<lparr>mtd_num = mtd_num d, mtd_type = type_str2int (mtd_type_str d), mtd_name = mtd_name d, mtd_size = mtd_size d,
      mtd_eb_cnt = mtd_eb_cnt d, mtd_eb_size = mtd_eb_size d, mtd_min_io_size = mtd_min_io_size d,
      mtd_subpage_size = mtd_subpage_size d, mtd_oob_size = mtd_oob_size d, mtd_writable = mtd_writable d,
      mtd_bb_allowed = (type_str2int (mtd_type_str d) = MTD_NANDFLASH \<or> type_str2int (mtd_type_str d) = MTD_MLCNANDFLASH),
      mtd_major = mtd_major d, mtd_minor = mtd_minor d, mtd_type_str = mtd_type_str d, mtd_region_cnt = mtd_region_cnt d\<rparr>)"
    using lib good
    unfolding mtd_get_dev_info1_def present described_major [OF assms] name type ints flags
    by (simp add: line_without_end [OF str] line_without_end writable Let_def cnt)
  also have "\<dots> = Some (Inr d)"
    using good by simp
  finally show ?thesis .
qed

text \<open>
  Property C20. Of the devices that the kernel lists in sysfs, in any order and with any other contents of
  uninitialised memory, \<^verbatim>\<open>mtd_get_dev_info\<close> finds the one behind a node and returns exactly the numbers, the
  name, the type and the sizes that the kernel has printed, and the device as writable exactly when the bit
  \<^verbatim>\<open>MTD_WRITEABLE\<close> is set in the flags printed, whatever the other bits are.
\<close>
theorem mtd_info_reads_sysfs:
  assumes "describes F fl devs" and "d \<in> devs" and "sf_stat F node = Inr (True, mtd_major d, mtd_minor d)"
  shows "mtd_get_dev_info F (libmtd_open F) node = Some (Inr d)"
  using described_supported [OF assms(1,2)] described_number [OF assms] described_info [OF assms(1,2)]
  by (simp add: mtd_get_dev_info_def)

text \<open>
  A device without eraseblocks, which the kernel may register, is divided by: the description of the flash
  chip ends the program.
\<close>
theorem zero_erasesize_divides:
  assumes "lib_sysfs_supported lib" and "stat_ok F (sprintf_d (lib_mtd lib) [num])"
    and "dev_get_major F lib num = Inr numbers"
    and "dev_read_data F (lib_mtd_name lib) num (MTD_NAME_MAX + 1) = Inr name"
    and "dev_read_data F (lib_mtd_type lib) num (MTD_TYPE_MAX + 1) = Inr type"
    and "dev_read_pos_int F (lib_mtd_eb_size lib) num = Inr 0"
    and "dev_read_pos_ll F (lib_mtd_size lib) num = Inr bytes"
    and "dev_read_pos_int F (lib_mtd_min_io_size lib) num = Inr io"
    and "dev_read_pos_int F (lib_mtd_subpage_size lib) num = Inr subpage"
    and "dev_read_pos_int F (lib_mtd_oob_size lib) num = Inr oob"
    and "dev_read_pos_int F (lib_mtd_region_cnt lib) num = Inr regions"
    and "dev_read_hex_int F (lib_mtd_flags lib) num = Inr flags"
  shows "mtd_get_dev_info1 F lib num = None"
  using assms by (cases numbers) (simp add: mtd_get_dev_info1_def mtd_dev_present_def split: bind_split)

subsection \<open>An example\<close>

definition kernel_mtd :: mtd_dev where
  "kernel_mtd = \<lparr>mtd_num = 1, mtd_type = MTD_NANDFLASH, mtd_name = ''kernel'', mtd_size = 0x600000, mtd_eb_cnt = 48,
     mtd_eb_size = 0x20000, mtd_min_io_size = 2048, mtd_subpage_size = 2048, mtd_oob_size = 64, mtd_writable = True,
     mtd_bb_allowed = True, mtd_major = 90, mtd_minor = 2, mtd_type_str = ''nand'', mtd_region_cnt = 0\<rparr>"

text \<open>What the kernel prints for it are the flags of NAND.\<close>

definition kernel_flags :: "mtd_dev \<Rightarrow> nat" where
  "kernel_flags d = 0x400"

definition one_mtd :: sysfs where
  "one_mtd = \<lparr>sf_file = (\<lambda>p. case map_of (mtd_files kernel_flags kernel_mtd) p of None \<Rightarrow> Inl ENOENT | Some s \<Rightarrow> Inr s),
     sf_dir = (\<lambda>p. Inr [''.'', ''..'', ''mtd1ro'', ''mtd1'']),
     sf_stat = (\<lambda>p. Inr (True, 90, 2)), sf_junk = ''17'', sf_open_node = (\<lambda>p. None),
     sf_memgetinfo = (\<lambda>p. Inl EIO), sf_memgetbadblock = (\<lambda>p. None)\<rparr>"

lemma fmt_1: "fmt_d 1 = ''1''"
  by code_simp

lemma fmt_d_is_1: "fmt_d n = ''1'' \<Longrightarrow> n = 1"
  using digits_value_print_nat [of "nat n"] by (auto simp: fmt_d_def digit_val_def split: if_splits)

lemma fmt_d_no_slash: "CHR ''/'' \<notin> set (fmt_d n)"
proof -
  have "\<not> is_digit_of 10 (CHR ''/'')"
    by (simp add: is_digit_of_def digit_val_def)
  then have "CHR ''/'' \<notin> set (print_nat 10 k)" for k
    using print_nat_digits [of k] by (auto simp: list_all_iff)
  then show ?thesis
    by (simp add: fmt_d_def)
qed

lemma other_path:
  assumes "mtd_path n @ ''/dev'' = mtd_path 1 @ CHR ''/'' # a"
  shows "n = 1"
proof -
  have "takeWhile (\<lambda>c. c \<noteq> CHR ''/'') (fmt_d m @ CHR ''/'' # b) = fmt_d m" for m b
    using fmt_d_no_slash [of m] by (simp add: takeWhile_append)
  then have "fmt_d n = fmt_d 1"
    using assms by (simp add: mtd_path_def) metis
  then show ?thesis
    using fmt_d_is_1 fmt_1 by simp
qed

lemma same_path: "mtd_path n = mtd_path 1 \<Longrightarrow> n = 1"
  using fmt_d_is_1 fmt_1 by (simp add: mtd_path_def)

lemma one_mtd_described: "describes one_mtd kernel_flags {kernel_mtd}"
  unfolding describes_def
proof (intro conjI)
  show "\<exists>names. sf_dir one_mtd ''/sys/class/mtd'' = Inr names \<and> set names = {''.'', ''..''}
      \<union> (\<Union>d \<in> {kernel_mtd}. {''mtd'' @ fmt_d (mtd_num d), ''mtd'' @ fmt_d (mtd_num d) @ ''ro''})"
    by (auto simp: one_mtd_def kernel_mtd_def fmt_1)
  have good: "good_dev kernel_mtd"
    by (simp add: good_dev_def kernel_mtd_def type_str2int_def MTD_NAME_MAX_def mtd_type_defs)
  have flags: "good_flags kernel_mtd (kernel_flags kernel_mtd)"
    by (simp add: good_flags_def kernel_flags_def kernel_mtd_def bit_0)
  have distinct: "distinct (map fst (mtd_files kernel_flags kernel_mtd))"
    by (simp add: mtd_files_def)
  have "sf_file one_mtd path = Inr s" if "(path, s) \<in> set (mtd_files kernel_flags kernel_mtd)" for path s
    using map_of_is_SomeI [OF distinct that] by (simp add: one_mtd_def)
  then show "\<forall>d \<in> {kernel_mtd}. good_dev d \<and> good_flags d (kernel_flags d)
      \<and> (\<forall>(path, s) \<in> set (mtd_files kernel_flags d). sf_file one_mtd path = Inr s)
      \<and> stat_ok one_mtd (mtd_path (mtd_num d))"
    using good flags by (auto simp: stat_ok_def one_mtd_def)
  have "map_of (mtd_files kernel_flags kernel_mtd) (mtd_path n @ ''/dev'') = None" if "n \<noteq> 1" for n
  proof -
    have "mtd_path n \<noteq> mtd_path 1" "mtd_path n @ ''/dev'' \<noteq> mtd_path 1 @ CHR ''/'' # a" for a
      using that other_path same_path by blast+
    then show ?thesis
      by (simp add: mtd_files_def kernel_mtd_def)
  qed
  then show "\<forall>n. n \<notin> mtd_num ` {kernel_mtd} \<longrightarrow> sf_file one_mtd (mtd_path n @ ''/dev'') = Inl ENOENT"
    by (simp add: one_mtd_def kernel_mtd_def)
qed simp

theorem mtd_info_reads_sysfs_witness:
  "mtd_get_dev_info one_mtd (libmtd_open one_mtd) ''/dev/mtd1'' = Some (Inr kernel_mtd)"
  by (rule mtd_info_reads_sysfs [OF one_mtd_described]) (simp_all add: one_mtd_def kernel_mtd_def)

lemma one_mtd_read: "mtd_get_dev_info one_mtd (libmtd_open one_mtd) ''/dev/mtd1'' = Some (Inr kernel_mtd)"
  using described_supported [OF one_mtd_described] described_number [OF one_mtd_described, of kernel_mtd "''/dev/mtd1''"]
    described_info [OF one_mtd_described]
  by (simp add: mtd_get_dev_info_def one_mtd_def kernel_mtd_def)

theorem mtd_info_of_node_witness:
  "sf_stat one_mtd ''/dev/mtd1'' = Inr (True, mtd_major kernel_mtd, mtd_minor kernel_mtd) \<and> geometry_ok kernel_mtd"
  by (rule mtd_info_of_node [OF one_mtd_read])

end
