(* ===== verification/Libubi.thy ===== *)
theory Libubi
  imports SysfsFiles
begin

text \<open>
  \<^verbatim>\<open>libubi.c\<close>: what the library finds out about UBI devices and volumes from sysfs, and the requests it
  sends to the driver. An error is \<open>Inl\<close> with the value of \<^verbatim>\<open>errno\<close>; storing in front of a buffer
  is \<open>None\<close>.
\<close>

subsection \<open>The library\<close>

record libubi =
  sysfs_ctrl :: string
  ctrl_dev :: string
  sysfs_ubi :: string
  ubi_dev :: string
  ubi_version :: string
  dev_dev :: string
  dev_avail_ebs :: string
  dev_total_ebs :: string
  dev_bad_count :: string
  dev_eb_size :: string
  dev_max_ec :: string
  dev_bad_rsvd :: string
  dev_max_vols :: string
  dev_min_io_size :: string
  dev_mtd_num :: string
  ubi_vol :: string
  vol_type_file :: string
  vol_dev :: string
  vol_alignment :: string
  vol_data_bytes :: string
  vol_rsvd_ebs :: string
  vol_eb_size :: string
  vol_corrupted :: string
  vol_name :: string

record ubi_info =
  dev_count :: int
  lowest_dev_num :: int
  highest_dev_num :: int
  version :: int
  ctrl_major :: int
  ctrl_minor :: int

record ubi_dev_info =
  udi_dev_num :: int
  udi_mtd_num :: int
  udi_vol_count :: int
  udi_lowest_vol_id :: int
  udi_highest_vol_id :: int
  udi_major :: int
  udi_minor :: int
  udi_total_lebs :: int
  udi_avail_lebs :: int
  udi_total_bytes :: int
  udi_avail_bytes :: int
  udi_bad_count :: int
  udi_leb_size :: int
  udi_max_ec :: int
  udi_bad_rsvd :: int
  udi_max_vol_count :: int
  udi_min_io_size :: int

record ubi_vol_info =
  uvi_dev_num :: int
  uvi_vol_id :: int
  uvi_major :: int
  uvi_minor :: int
  uvi_type :: int
  uvi_alignment :: int
  uvi_data_bytes :: int
  uvi_rsvd_bytes :: int
  uvi_rsvd_lebs :: int
  uvi_leb_size :: int
  uvi_corrupted :: int
  uvi_name :: string

definition UBI_VOL_NAME_MAX :: nat where "UBI_VOL_NAME_MAX = 127"
definition LIBUBI_UBI_VERSION :: int where "LIBUBI_UBI_VERSION = 1"
definition UBI_DYNAMIC_VOLUME :: int where "UBI_DYNAMIC_VOLUME = 3"
definition UBI_STATIC_VOLUME :: int where "UBI_STATIC_VOLUME = 4"

definition libubi_paths :: libubi where
  "libubi_paths =
     (let ctrl = mkpath ''/sys'' ''class/misc/ubi_ctrl/''; ubi = mkpath ''/sys'' ''class/ubi'';
          dev = mkpath ubi ''ubi%d''; vol = mkpath ubi ''ubi%d_%d''
      in \<lparr>sysfs_ctrl = ctrl, ctrl_dev = mkpath ctrl ''dev'', sysfs_ubi = ubi, ubi_dev = dev,
          ubi_version = mkpath ubi ''version'', dev_dev = mkpath dev ''dev'',
          dev_avail_ebs = mkpath dev ''avail_eraseblocks'', dev_total_ebs = mkpath dev ''total_eraseblocks'',
          dev_bad_count = mkpath dev ''bad_peb_count'', dev_eb_size = mkpath dev ''eraseblock_size'',
          dev_max_ec = mkpath dev ''max_ec'', dev_bad_rsvd = mkpath dev ''reserved_for_bad'',
          dev_max_vols = mkpath dev ''max_vol_count'', dev_min_io_size = mkpath dev ''min_io_size'',
          dev_mtd_num = mkpath dev ''mtd_num'', ubi_vol = vol, vol_type_file = mkpath vol ''type'',
          vol_dev = mkpath vol ''dev'', vol_alignment = mkpath vol ''alignment'',
          vol_data_bytes = mkpath vol ''data_bytes'', vol_rsvd_ebs = mkpath vol ''reserved_ebs'',
          vol_eb_size = mkpath vol ''usable_eb_size'', vol_corrupted = mkpath vol ''corrupted'',
          vol_name = mkpath vol ''name''\<rparr>)"

definition libubi_open :: "sysfs \<Rightarrow> libubi option" where
  "libubi_open F =
     (let lib = libubi_paths
      in if \<not> path_opens F (sysfs_ubi lib) then None
         else (case read_positive_int F (ubi_version lib) of
                 Inl _ \<Rightarrow> None
               | Inr v \<Rightarrow> if v \<noteq> LIBUBI_UBI_VERSION then None else Some lib))"

subsection \<open>Files of devices and volumes\<close>

definition dev_read_int :: "sysfs \<Rightarrow> string \<Rightarrow> int \<Rightarrow> errno + int" where
  "dev_read_int F patt dev_num = read_positive_int F (sprintf_d patt [dev_num])"

definition vol_read_int :: "sysfs \<Rightarrow> string \<Rightarrow> int \<Rightarrow> int \<Rightarrow> errno + int" where
  "vol_read_int F patt dev_num vol_id = read_positive_int F (sprintf_d patt [dev_num, vol_id])"

definition dev_read_ll :: "sysfs \<Rightarrow> string \<Rightarrow> int \<Rightarrow> errno + int" where
  "dev_read_ll F patt dev_num = read_positive_ll F (sprintf_d patt [dev_num])"

definition vol_read_ll :: "sysfs \<Rightarrow> string \<Rightarrow> int \<Rightarrow> int \<Rightarrow> errno + int" where
  "vol_read_ll F patt dev_num vol_id = read_positive_ll F (sprintf_d patt [dev_num, vol_id])"

definition vol_read_data :: "sysfs \<Rightarrow> string \<Rightarrow> int \<Rightarrow> int \<Rightarrow> nat \<Rightarrow> errno + string" where
  "vol_read_data F patt dev_num vol_id buf_len = read_data F (sprintf_d patt [dev_num, vol_id]) buf_len"

definition ubi_dev_major :: "sysfs \<Rightarrow> libubi \<Rightarrow> int \<Rightarrow> errno + int \<times> int" where
  "ubi_dev_major F lib dev_num = read_major F (sprintf_d (dev_dev lib) [dev_num])"

definition vol_get_major :: "sysfs \<Rightarrow> libubi \<Rightarrow> int \<Rightarrow> int \<Rightarrow> errno + int \<times> int" where
  "vol_get_major F lib dev_num vol_id = read_major F (sprintf_d (vol_dev lib) [dev_num, vol_id])"

subsection \<open>All devices\<close>

fun count_ubi_devices :: "int list \<Rightarrow> ubi_info \<Rightarrow> ubi_info" where
  "count_ubi_devices [] info = info"
| "count_ubi_devices (num # nums) info =
     count_ubi_devices nums (info\<lparr>dev_count := c_int (dev_count info + 1),
       highest_dev_num := (if num > highest_dev_num info then num else highest_dev_num info),
       lowest_dev_num := (if num < lowest_dev_num info then num else lowest_dev_num info)\<rparr>)"

definition ubi_get_info :: "sysfs \<Rightarrow> libubi \<Rightarrow> errno + ubi_info" where
  "ubi_get_info F lib =
     (let (major, minor) = (case read_major F (ctrl_dev lib) of Inl _ \<Rightarrow> (-1, -1) | Inr p \<Rightarrow> p)
      in case sf_dir F (sysfs_ubi lib) of
           Inl e \<Rightarrow> Inl e
         | Inr names \<Rightarrow>
             (case device_entries ''ubi'' names of
                None \<Rightarrow> Inl EINVAL
              | Some nums \<Rightarrow>
                  let info = count_ubi_devices nums \<lparr>dev_count = 0, lowest_dev_num = INT_MAX, highest_dev_num = 0,
                        version = 0, ctrl_major = major, ctrl_minor = minor\<rparr>;
                      info1 = (if lowest_dev_num info = INT_MAX then info\<lparr>lowest_dev_num := 0\<rparr> else info)
                  in (case read_positive_int F (ubi_version lib) of
                        Inl e \<Rightarrow> Inl e
                      | Inr v \<Rightarrow> Inr (info1\<lparr>version := v\<rparr>))))"

text \<open>
  The loops over the devices: the first one with what is looked for. A device whose file is missing is
  skipped, any other error ends the search.
\<close>

fun find_dev :: "(int \<Rightarrow> errno + 'a) \<Rightarrow> ('a \<Rightarrow> bool) \<Rightarrow> int list \<Rightarrow> errno + (int \<times> 'a) option" where
  "find_dev get ok [] = Inr None"
| "find_dev get ok (i # is) =
     (case get i of
        Inl e \<Rightarrow> if e = ENOENT then find_dev get ok is else Inl e
      | Inr x \<Rightarrow> if ok x then Inr (Some (i, x)) else find_dev get ok is)"

definition dev_of_major :: "sysfs \<Rightarrow> libubi \<Rightarrow> int \<Rightarrow> ubi_info \<Rightarrow> errno + (int \<times> int \<times> int) option" where
  "dev_of_major F lib major info =
     find_dev (ubi_dev_major F lib) (\<lambda>(mj, mn). mj = major) [lowest_dev_num info..highest_dev_num info]"

definition vol_node2nums :: "sysfs \<Rightarrow> libubi \<Rightarrow> string \<Rightarrow> errno + int \<times> int" where
  "vol_node2nums F lib node =
     (case sf_stat F node of
        Inl e \<Rightarrow> Inl e
      | Inr (chr, major, minor) \<Rightarrow>
          if \<not> chr then Inl EINVAL
          else if minor = 0 then Inl EINVAL
          else
            (case ubi_get_info F lib of
               Inl e \<Rightarrow> Inl e
             | Inr info \<Rightarrow>
                 (case dev_of_major F lib major info of
                    Inl e \<Rightarrow> Inl e
                  | Inr None \<Rightarrow> Inl ENODEV
                  | Inr (Some (i, _)) \<Rightarrow>
                      if path_opens F (sprintf_d (ubi_vol lib) [i, minor - 1]) then Inr (i, minor - 1)
                      else Inl ENODEV)))"

definition ubi_node2num :: "sysfs \<Rightarrow> libubi \<Rightarrow> string \<Rightarrow> errno + int" where
  "ubi_node2num F lib node =
     (case sf_stat F node of
        Inl e \<Rightarrow> Inl e
      | Inr (chr, major, minor) \<Rightarrow>
          if \<not> chr then Inl EINVAL
          else if minor \<noteq> 0 then Inl EINVAL
          else
            (case ubi_get_info F lib of
               Inl e \<Rightarrow> Inl e
             | Inr info \<Rightarrow>
                 (case dev_of_major F lib major info of
                    Inl e \<Rightarrow> Inl e
                  | Inr None \<Rightarrow> Inl ENODEV
                  | Inr (Some (i, _, minor1)) \<Rightarrow> if minor1 \<noteq> 0 then Inl EINVAL else Inr i)))"

text \<open>The UBI device on an MTD device; \<^verbatim>\<open>errno\<close> is 0 when there is none.\<close>

definition mtd_num2ubi_dev :: "sysfs \<Rightarrow> libubi \<Rightarrow> int \<Rightarrow> errno + int" where
  "mtd_num2ubi_dev F lib num =
     (case ubi_get_info F lib of
        Inl e \<Rightarrow> Inl e
      | Inr info \<Rightarrow>
          (case find_dev (dev_read_int F (dev_mtd_num lib)) (\<lambda>n. n = num) [lowest_dev_num info..highest_dev_num info] of
             Inl e \<Rightarrow> Inl e
           | Inr None \<Rightarrow> Inl (EOTHER 0)
           | Inr (Some (i, _)) \<Rightarrow> Inr i))"

text \<open>1 for the node of a device, 2 for that of a volume.\<close>

definition ubi_probe_node :: "sysfs \<Rightarrow> libubi \<Rightarrow> string \<Rightarrow> errno + int" where
  "ubi_probe_node F lib node =
     (case sf_stat F node of
        Inl e \<Rightarrow> Inl e
      | Inr (chr, major, minor) \<Rightarrow>
          if \<not> chr then Inl EINVAL
          else
            (case ubi_get_info F lib of
               Inl e \<Rightarrow> Inl e
             | Inr info \<Rightarrow>
                 (case dev_of_major F lib major info of
                    Inl e \<Rightarrow> Inl e
                  | Inr None \<Rightarrow> Inl ENODEV
                  | Inr (Some (i, _)) \<Rightarrow>
                      if minor = 0 then Inr 1
                      else if path_opens F (sprintf_d (ubi_vol lib) [i, minor - 1]) then Inr 2
                      else Inl ENODEV)))"

subsection \<open>One device\<close>

definition ubi_dev_present :: "sysfs \<Rightarrow> libubi \<Rightarrow> int \<Rightarrow> bool" where
  "ubi_dev_present F lib dev_num = stat_ok F (sprintf_d (ubi_dev lib) [dev_num])"

text \<open>The volumes of a device among the entries; \<open>None\<close>: an entry is too long.\<close>

fun volume_entries :: "int \<Rightarrow> string list \<Rightarrow> int list option" where
  "volume_entries dev_num [] = Some []"
| "volume_entries dev_num (name # names) =
     (if length name \<ge> 255 then None
      else
        let rest = volume_entries dev_num names
        in case scan_vol_name name of
             None \<Rightarrow> rest
           | Some (devno, vol_id) \<Rightarrow> if devno = dev_num then map_option (Cons vol_id) rest else rest)"

fun count_volumes :: "int list \<Rightarrow> ubi_dev_info \<Rightarrow> ubi_dev_info" where
  "count_volumes [] info = info"
| "count_volumes (v # vs) info =
     count_volumes vs (info\<lparr>udi_vol_count := c_int (udi_vol_count info + 1),
       udi_highest_vol_id := (if v > udi_highest_vol_id info then v else udi_highest_vol_id info),
       udi_lowest_vol_id := (if v < udi_lowest_vol_id info then v else udi_lowest_vol_id info)\<rparr>)"

definition no_dev_info :: "int \<Rightarrow> ubi_dev_info" where
  "no_dev_info dev_num = \<lparr>udi_dev_num = dev_num, udi_mtd_num = 0, udi_vol_count = 0, udi_lowest_vol_id = 0,
     udi_highest_vol_id = 0, udi_major = 0, udi_minor = 0, udi_total_lebs = 0, udi_avail_lebs = 0,
     udi_total_bytes = 0, udi_avail_bytes = 0, udi_bad_count = 0, udi_leb_size = 0, udi_max_ec = 0,
     udi_bad_rsvd = 0, udi_max_vol_count = 0, udi_min_io_size = 0\<rparr>"

text \<open>The values of a device, read one after the other; the first error ends it.\<close>

definition dev_values :: "sysfs \<Rightarrow> libubi \<Rightarrow> int \<Rightarrow> ubi_dev_info \<Rightarrow> errno + ubi_dev_info" where
  "dev_values F lib n info =
     (case ubi_dev_major F lib n of Inl e \<Rightarrow> Inl e | Inr (major, minor) \<Rightarrow>
     (case dev_read_int F (dev_mtd_num lib) n of Inl e \<Rightarrow> Inl e | Inr mtd \<Rightarrow>
     (case dev_read_int F (dev_avail_ebs lib) n of Inl e \<Rightarrow> Inl e | Inr avail \<Rightarrow>
     (case dev_read_int F (dev_total_ebs lib) n of Inl e \<Rightarrow> Inl e | Inr tot \<Rightarrow>
     (case dev_read_int F (dev_bad_count lib) n of Inl e \<Rightarrow> Inl e | Inr bad \<Rightarrow>
     (case dev_read_int F (dev_eb_size lib) n of Inl e \<Rightarrow> Inl e | Inr leb_size \<Rightarrow>
     (case dev_read_int F (dev_bad_rsvd lib) n of Inl e \<Rightarrow> Inl e | Inr rsvd \<Rightarrow>
     (case dev_read_ll F (dev_max_ec lib) n of Inl e \<Rightarrow> Inl e | Inr max_ec \<Rightarrow>
     (case dev_read_int F (dev_max_vols lib) n of Inl e \<Rightarrow> Inl e | Inr max_vols \<Rightarrow>
     (case dev_read_int F (dev_min_io_size lib) n of Inl e \<Rightarrow> Inl e | Inr io \<Rightarrow>
       Inr (info\<lparr>udi_major := major, udi_minor := minor, udi_mtd_num := mtd, udi_avail_lebs := avail,
              udi_total_lebs := tot, udi_bad_count := bad, udi_leb_size := leb_size, udi_bad_rsvd := rsvd,
              udi_max_ec := max_ec, udi_max_vol_count := max_vols, udi_min_io_size := io,
              udi_avail_bytes := avail * leb_size, udi_total_bytes := tot * leb_size\<rparr>)))))))))))"

definition ubi_get_dev_info1 :: "sysfs \<Rightarrow> libubi \<Rightarrow> int \<Rightarrow> errno + ubi_dev_info" where
  "ubi_get_dev_info1 F lib dev_num =
     (case sf_stat F (sprintf_d (ubi_dev lib) [dev_num]) of
        Inl e \<Rightarrow> Inl e
      | Inr _ \<Rightarrow>
          (case sf_dir F (sysfs_ubi lib) of
             Inl e \<Rightarrow> Inl e
           | Inr names \<Rightarrow>
               (case volume_entries dev_num names of
                  None \<Rightarrow> Inl (EOTHER 0)
                | Some vols \<Rightarrow>
                    let info = count_volumes vols ((no_dev_info dev_num)\<lparr>udi_lowest_vol_id := INT_MAX\<rparr>);
                        info1 = (if udi_lowest_vol_id info = INT_MAX then info\<lparr>udi_lowest_vol_id := 0\<rparr> else info)
                    in dev_values F lib dev_num info1)))"

definition ubi_get_dev_info :: "sysfs \<Rightarrow> libubi \<Rightarrow> string \<Rightarrow> errno + ubi_dev_info" where
  "ubi_get_dev_info F lib node =
     (case ubi_probe_node F lib node of
        Inl e \<Rightarrow> Inl e
      | Inr kind \<Rightarrow>
          if kind \<noteq> 1 then Inl ENODEV
          else (case ubi_node2num F lib node of Inl e \<Rightarrow> Inl e | Inr n \<Rightarrow> ubi_get_dev_info1 F lib n))"

subsection \<open>One volume\<close>

text \<open>The type is compared as far as the file goes.\<close>

definition volume_type :: "string \<Rightarrow> int option" where
  "volume_type buf =
     (if strncmp_eq (c_string buf) (''static'' @ [CHR 0x0A]) (length buf) then Some UBI_STATIC_VOLUME
      else if strncmp_eq (c_string buf) (''dynamic'' @ [CHR 0x0A]) (length buf) then Some UBI_DYNAMIC_VOLUME
      else None)"

definition ubi_get_vol_info1 :: "sysfs \<Rightarrow> libubi \<Rightarrow> int \<Rightarrow> int \<Rightarrow> (errno + ubi_vol_info) option" where
  "ubi_get_vol_info1 F lib n v =
     (case vol_get_major F lib n v of Inl e \<Rightarrow> Some (Inl e) | Inr (major, minor) \<Rightarrow>
     (case vol_read_data F (vol_type_file lib) n v 50 of Inl e \<Rightarrow> Some (Inl e) | Inr buf \<Rightarrow>
     (case volume_type buf of None \<Rightarrow> Some (Inl EINVAL) | Some type \<Rightarrow>
     (case vol_read_int F (vol_alignment lib) n v of Inl e \<Rightarrow> Some (Inl e) | Inr alignment \<Rightarrow>
     (case vol_read_ll F (vol_data_bytes lib) n v of Inl e \<Rightarrow> Some (Inl e) | Inr data_bytes \<Rightarrow>
     (case vol_read_int F (vol_rsvd_ebs lib) n v of Inl e \<Rightarrow> Some (Inl e) | Inr rsvd_lebs \<Rightarrow>
     (case vol_read_int F (vol_eb_size lib) n v of Inl e \<Rightarrow> Some (Inl e) | Inr leb_size \<Rightarrow>
     (case vol_read_int F (vol_corrupted lib) n v of Inl e \<Rightarrow> Some (Inl e) | Inr corrupted \<Rightarrow>
     (case vol_read_data F (vol_name lib) n v (UBI_VOL_NAME_MAX + 2) of Inl e \<Rightarrow> Some (Inl e) | Inr name \<Rightarrow>
       if name = [] then None
       else Some (Inr \<lparr>uvi_dev_num = n, uvi_vol_id = v, uvi_major = major, uvi_minor = minor, uvi_type = type,
              uvi_alignment = alignment, uvi_data_bytes = data_bytes, uvi_rsvd_bytes = leb_size * rsvd_lebs,
              uvi_rsvd_lebs = rsvd_lebs, uvi_leb_size = leb_size, uvi_corrupted = corrupted,
              uvi_name = c_string (butlast name)\<rparr>))))))))))"

definition ubi_get_vol_info :: "sysfs \<Rightarrow> libubi \<Rightarrow> string \<Rightarrow> (errno + ubi_vol_info) option" where
  "ubi_get_vol_info F lib node =
     (case ubi_probe_node F lib node of
        Inl e \<Rightarrow> Some (Inl e)
      | Inr kind \<Rightarrow>
          if kind \<noteq> 2 then Some (Inl ENODEV)
          else (case vol_node2nums F lib node of Inl e \<Rightarrow> Some (Inl e) | Inr (n, v) \<Rightarrow> ubi_get_vol_info1 F lib n v))"

text \<open>The volume with a name among those of a device; a volume that is not there is skipped.\<close>

fun find_volume :: "(int \<Rightarrow> (errno + ubi_vol_info) option) \<Rightarrow> string \<Rightarrow> int list \<Rightarrow> (errno + ubi_vol_info) option" where
  "find_volume get name [] = Some (Inl ENOENT)"
| "find_volume get name (i # is) =
     (case get i of
        None \<Rightarrow> None
      | Some (Inl e) \<Rightarrow> if e = ENOENT then find_volume get name is else Some (Inl e)
      | Some (Inr info) \<Rightarrow> if uvi_name info = name then Some (Inr info) else find_volume get name is)"

definition ubi_get_vol_info1_nm :: "sysfs \<Rightarrow> libubi \<Rightarrow> int \<Rightarrow> string \<Rightarrow> (errno + ubi_vol_info) option" where
  "ubi_get_vol_info1_nm F lib dev_num name =
     (if name = [] then Some (Inl EINVAL)
      else case ubi_get_dev_info1 F lib dev_num of
             Inl e \<Rightarrow> Some (Inl e)
           | Inr info \<Rightarrow>
               find_volume (ubi_get_vol_info1 F lib dev_num) name [udi_lowest_vol_id info..udi_highest_vol_id info])"

end
