(* ===== verification/UbiDriver.thy ===== *)
theory UbiDriver
  imports Libubi
begin

text \<open>
  The requests of \<^verbatim>\<open>libubi.c\<close> to the UBI driver. The driver, its sysfs files and the image file of the
  tools are a parameter with the state \<open>'u\<close>; a file descriptor is the name of the node behind it.
\<close>

subsection \<open>Requests\<close>

record ubi_attach_req =
  atr_ubi_num :: int
  atr_mtd_num :: int
  atr_vid_hdr_offset :: int
  atr_max_beb_per1024 :: int

record ubi_mkvol_req =
  mvr_vol_id :: int
  mvr_alignment :: int
  mvr_bytes :: int
  mvr_vol_type :: int
  mvr_name_len :: int
  mvr_name :: string

datatype ubi_req =
    UBI_IOCATT ubi_attach_req
  | UBI_IOCDET int
  | UBI_IOCMKVOL ubi_mkvol_req
  | UBI_IOCRMVOL int
  | UBI_IOCRNVOL "(int \<times> string) list"
  | UBI_IOCRSVOL int int
  | UBI_IOCVOLUP int
  | UBI_IOCEBCH int int int
  | UBI_IOCSETVOLPROP int int
  | UBI_IOCEBUNMAP int
  | UBI_IOCEBISMAP int
  | UBI_IOCVOLCRBLK
  | UBI_IOCVOLRMBLK

text \<open>
  A request that succeeds has a return value and, for those that return a number in their structure, that
  number. The flag of \<open>u_img_read\<close> tells the standard input from the image file.
\<close>

record 'u ubi_os =
  u_sysfs :: "'u \<Rightarrow> sysfs"
  u_open :: "string \<Rightarrow> 'u \<Rightarrow> errno option"
  u_ioctl :: "string \<Rightarrow> ubi_req \<Rightarrow> 'u \<Rightarrow> (errno + int \<times> int) \<times> 'u"
  u_write :: "string \<Rightarrow> byte list \<Rightarrow> 'u \<Rightarrow> (errno + int) \<times> 'u"
  u_img_stat :: "string \<Rightarrow> 'u \<Rightarrow> errno + int"
  u_img_open :: "string \<Rightarrow> 'u \<Rightarrow> errno option \<times> 'u"
  u_img_lseek :: "int \<Rightarrow> 'u \<Rightarrow> errno option \<times> 'u"
  u_img_read :: "bool \<Rightarrow> nat \<Rightarrow> 'u \<Rightarrow> rd \<times> 'u"

text \<open>A request on a node that is opened for it and closed again.\<close>

definition node_ioctl :: "'u ubi_os \<Rightarrow> string \<Rightarrow> ubi_req \<Rightarrow> 'u \<Rightarrow> (errno + int \<times> int) \<times> 'u" where
  "node_ioctl U node req u = (case u_open U node u of Some e \<Rightarrow> (Inl e, u) | None \<Rightarrow> u_ioctl U node req u)"

definition no_value :: "errno + int \<times> int \<Rightarrow> errno option" where
  "no_value r = (case r of Inl e \<Rightarrow> Some e | Inr _ \<Rightarrow> None)"

subsection \<open>Attaching and detaching\<close>

record ubi_attach_request =
  arq_dev_num :: int
  arq_mtd_num :: int
  arq_mtd_dev_node :: "string option"
  arq_vid_hdr_offset :: int
  arq_max_beb_per1024 :: int

definition UBI_DEV_NUM_AUTO :: int where "UBI_DEV_NUM_AUTO = -1"
definition MTD_CHAR_MAJOR :: int where "MTD_CHAR_MAJOR = 90"

definition do_attach :: "'u ubi_os \<Rightarrow> string \<Rightarrow> ubi_attach_req \<Rightarrow> 'u \<Rightarrow> (errno + int \<times> int) \<times> 'u" where
  "do_attach U node r u = node_ioctl U node (UBI_IOCATT r) u"

definition mtd_node_to_num :: "sysfs \<Rightarrow> string \<Rightarrow> errno + int" where
  "mtd_node_to_num F mtd_dev_node =
     (case sf_stat F mtd_dev_node of
        Inl e \<Rightarrow> Inl e
      | Inr (chr, major, minor) \<Rightarrow>
          if \<not> chr then Inl EINVAL
          else if major \<noteq> MTD_CHAR_MAJOR then Inl EINVAL
          else Inr (c_div minor 2))"

text \<open>The number of reserved eraseblocks has 16 bits in the request.\<close>

definition c_short :: "int \<Rightarrow> int" where
  "c_short n = (n + 2 ^ 15) mod 2 ^ 16 - 2 ^ 15"

text \<open>
  The result is 0, 1 when the kernel does not know the number of reserved eraseblocks, or an error; the
  number of the new device is stored in the request. With a number of reserved eraseblocks the driver is
  first asked with the impossible number -1.
\<close>

definition attach_again :: "'u ubi_os \<Rightarrow> string \<Rightarrow> ubi_attach_req \<Rightarrow> ubi_attach_request \<Rightarrow> 'u
     \<Rightarrow> ((errno + int) \<times> ubi_attach_request) \<times> 'u" where
  "attach_again U node r req u =
     (case do_attach U node (r\<lparr>atr_max_beb_per1024 := c_short (arq_max_beb_per1024 req)\<rparr>) u of
        (Inl e, u1) \<Rightarrow> ((Inl e, req), u1)
      | (Inr (ret, num), u1) \<Rightarrow> ((Inr ret, if ret = 0 then req\<lparr>arq_dev_num := num\<rparr> else req), u1))"

definition ubi_attach :: "'u ubi_os \<Rightarrow> string \<Rightarrow> ubi_attach_request \<Rightarrow> 'u
     \<Rightarrow> ((errno + int) \<times> ubi_attach_request) \<times> 'u" where
  "ubi_attach U node req0 u =
     (case (case arq_mtd_dev_node req0 of
              None \<Rightarrow> Inr (arq_mtd_num req0)
            | Some dev \<Rightarrow> mtd_node_to_num (u_sysfs U u) dev) of
        Inl e \<Rightarrow> ((Inl e, req0\<lparr>arq_mtd_num := -1\<rparr>), u)
      | Inr num \<Rightarrow>
          let req = req0\<lparr>arq_mtd_num := num\<rparr>;
              r = \<lparr>atr_ubi_num = arq_dev_num req, atr_mtd_num = arq_mtd_num req,
                   atr_vid_hdr_offset = arq_vid_hdr_offset req, atr_max_beb_per1024 = 0\<rparr>
          in if arq_max_beb_per1024 req \<noteq> 0 then
               (case do_attach U node (r\<lparr>atr_max_beb_per1024 := -1\<rparr>) u of
                  (Inr (ret, n), u1) \<Rightarrow>
                    if ret = 0 then ((Inr 1, req\<lparr>arq_dev_num := n\<rparr>), u1) else ((Inr ret, req), u1)
                | (Inl e, u1) \<Rightarrow> if e \<noteq> EINVAL then ((Inl e, req), u1) else attach_again U node r req u1)
             else attach_again U node r req u)"

definition ubi_remove_dev :: "'u ubi_os \<Rightarrow> string \<Rightarrow> int \<Rightarrow> 'u \<Rightarrow> errno option \<times> 'u" where
  "ubi_remove_dev U node ubi u = (case node_ioctl U node (UBI_IOCDET ubi) u of (r, u1) \<Rightarrow> (no_value r, u1))"

definition ubi_detach_mtd :: "'u ubi_os \<Rightarrow> libubi \<Rightarrow> string \<Rightarrow> int \<Rightarrow> 'u \<Rightarrow> errno option \<times> 'u" where
  "ubi_detach_mtd U lib node num u =
     (case mtd_num2ubi_dev (u_sysfs U u) lib num of
        Inl _ \<Rightarrow> (Some ENODEV, u)
      | Inr ubi \<Rightarrow> ubi_remove_dev U node ubi u)"

definition ubi_detach :: "'u ubi_os \<Rightarrow> libubi \<Rightarrow> string \<Rightarrow> string option \<Rightarrow> 'u \<Rightarrow> errno option \<times> 'u" where
  "ubi_detach U lib node mtd_dev_node u =
     (case mtd_dev_node of
        None \<Rightarrow> (Some EINVAL, u)
      | Some dev \<Rightarrow>
          (case mtd_node_to_num (u_sysfs U u) dev of
             Inl e \<Rightarrow> (Some e, u)
           | Inr num \<Rightarrow> ubi_detach_mtd U lib node num u))"

subsection \<open>Volumes\<close>

record ubi_mkvol_request =
  mvq_vol_id :: int
  mvq_alignment :: int
  mvq_bytes :: int
  mvq_vol_type :: int
  mvq_name :: string

definition UBI_MAX_VOLUME_NAME :: nat where "UBI_MAX_VOLUME_NAME = 127"

text \<open>The type is stored in a signed byte.\<close>

definition c_schar :: "int \<Rightarrow> int" where
  "c_schar n = (n + 2 ^ 7) mod 2 ^ 8 - 2 ^ 7"

definition ubi_mkvol :: "'u ubi_os \<Rightarrow> string \<Rightarrow> ubi_mkvol_request \<Rightarrow> 'u
     \<Rightarrow> (errno option \<times> ubi_mkvol_request) \<times> 'u" where
  "ubi_mkvol U node req u =
     (if length (mvq_name req) > UBI_MAX_VOLUME_NAME then ((Some (EOTHER 0), req), u)
      else
        (case node_ioctl U node (UBI_IOCMKVOL \<lparr>mvr_vol_id = mvq_vol_id req, mvr_alignment = mvq_alignment req,
               mvr_bytes = mvq_bytes req, mvr_vol_type = c_schar (mvq_vol_type req),
               mvr_name_len = int (length (mvq_name req)), mvr_name = mvq_name req\<rparr>) u of
           (Inl e, u1) \<Rightarrow> ((Some e, req), u1)
         | (Inr (_, n), u1) \<Rightarrow> ((None, req\<lparr>mvq_vol_id := n\<rparr>), u1)))"

definition ubi_rmvol :: "'u ubi_os \<Rightarrow> string \<Rightarrow> int \<Rightarrow> 'u \<Rightarrow> errno option \<times> 'u" where
  "ubi_rmvol U node vol_id u = (case node_ioctl U node (UBI_IOCRMVOL vol_id) u of (r, u1) \<Rightarrow> (no_value r, u1))"

definition ubi_rnvols :: "'u ubi_os \<Rightarrow> string \<Rightarrow> (int \<times> string) list \<Rightarrow> 'u \<Rightarrow> errno option \<times> 'u" where
  "ubi_rnvols U node rnvol u = (case node_ioctl U node (UBI_IOCRNVOL rnvol) u of (r, u1) \<Rightarrow> (no_value r, u1))"

definition ubi_rsvol :: "'u ubi_os \<Rightarrow> string \<Rightarrow> int \<Rightarrow> int \<Rightarrow> 'u \<Rightarrow> (errno + int) \<times> 'u" where
  "ubi_rsvol U node vol_id bytes u =
     (case node_ioctl U node (UBI_IOCRSVOL bytes vol_id) u of
        (Inl e, u1) \<Rightarrow> (Inl e, u1)
      | (Inr (ret, _), u1) \<Rightarrow> (Inr ret, u1))"

text \<open>Requests on an open volume.\<close>

definition fd_ioctl :: "'u ubi_os \<Rightarrow> string \<Rightarrow> ubi_req \<Rightarrow> 'u \<Rightarrow> (errno + int) \<times> 'u" where
  "fd_ioctl U fd req u = (case u_ioctl U fd req u of (Inl e, u1) \<Rightarrow> (Inl e, u1) | (Inr (ret, _), u1) \<Rightarrow> (Inr ret, u1))"

definition is_zero :: "errno + int \<Rightarrow> bool" where
  "is_zero r = (case r of Inl _ \<Rightarrow> False | Inr n \<Rightarrow> n = 0)"

definition ubi_vol_block_create :: "'u ubi_os \<Rightarrow> string \<Rightarrow> 'u \<Rightarrow> (errno + int) \<times> 'u" where
  "ubi_vol_block_create U fd = fd_ioctl U fd UBI_IOCVOLCRBLK"

definition ubi_vol_block_remove :: "'u ubi_os \<Rightarrow> string \<Rightarrow> 'u \<Rightarrow> (errno + int) \<times> 'u" where
  "ubi_vol_block_remove U fd = fd_ioctl U fd UBI_IOCVOLRMBLK"

definition ubi_update_start :: "'u ubi_os \<Rightarrow> string \<Rightarrow> int \<Rightarrow> 'u \<Rightarrow> bool \<times> 'u" where
  "ubi_update_start U fd bytes u = (case fd_ioctl U fd (UBI_IOCVOLUP bytes) u of (r, u1) \<Rightarrow> (is_zero r, u1))"

definition ubi_leb_change_start :: "'u ubi_os \<Rightarrow> string \<Rightarrow> int \<Rightarrow> int \<Rightarrow> 'u \<Rightarrow> bool \<times> 'u" where
  "ubi_leb_change_start U fd lnum bytes u =
     (case fd_ioctl U fd (UBI_IOCEBCH lnum bytes 3) u of (r, u1) \<Rightarrow> (is_zero r, u1))"

definition ubi_set_property :: "'u ubi_os \<Rightarrow> string \<Rightarrow> int \<Rightarrow> int \<Rightarrow> 'u \<Rightarrow> (errno + int) \<times> 'u" where
  "ubi_set_property U fd property val = fd_ioctl U fd (UBI_IOCSETVOLPROP property val)"

definition ubi_leb_unmap :: "'u ubi_os \<Rightarrow> string \<Rightarrow> int \<Rightarrow> 'u \<Rightarrow> (errno + int) \<times> 'u" where
  "ubi_leb_unmap U fd lnum = fd_ioctl U fd (UBI_IOCEBUNMAP lnum)"

definition ubi_is_mapped :: "'u ubi_os \<Rightarrow> string \<Rightarrow> int \<Rightarrow> 'u \<Rightarrow> (errno + int) \<times> 'u" where
  "ubi_is_mapped U fd lnum = fd_ioctl U fd (UBI_IOCEBISMAP lnum)"

end
