(* ===== verification/UbiTools.thy ===== *)
theory UbiTools
  imports UbiDriver Getopt
begin

text \<open>
  The programs over libubi: \<^verbatim>\<open>ubiattach.c\<close>, \<^verbatim>\<open>ubidetach.c\<close> and \<^verbatim>\<open>ubiupdatevol.c\<close>. Their arguments are
  static, so that an option of one call is still set in the next one in the same process; each program
  takes them and gives them back. Arguments that an option sets stay set when a later one is wrong.
\<close>

text \<open>Parsing ends in an error, in \<^verbatim>\<open>exit(EXIT_SUCCESS)\<close>, or well. A program returns or exits.\<close>

datatype opt_verdict = OptBad | OptExit | OptOk

datatype tool_end = ToolReturns int | ToolExits int

definition DEFAULT_CTRL_DEV :: string where
  "DEFAULT_CTRL_DEV = ''/dev/ubi_ctrl''"

text \<open>A number that has to be a positive \<^verbatim>\<open>int\<close>, stored whether it is good or not.\<close>

definition opt_int :: "string option \<Rightarrow> int \<times> bool" where
  "opt_int v = (case simple_strtoul (case v of None \<Rightarrow> [] | Some s \<Rightarrow> s) of (n, bad) \<Rightarrow> (c_int n, bad))"

subsection \<open>ubiattach\<close>

record attach_args =
  at_devn :: int
  at_mtdn :: int
  at_vidoffs :: int
  at_node :: string
  at_dev :: "string option"
  at_max_beb_per1024 :: int

definition attach_args0 :: attach_args where
  "attach_args0 = \<lparr>at_devn = UBI_DEV_NUM_AUTO, at_mtdn = -1, at_vidoffs = 0, at_node = [], at_dev = None,
     at_max_beb_per1024 = 0\<rparr>"

definition attach_short :: "(char \<times> has_arg) list" where
  "attach_short = parse_optstring ''p:m:d:O:b:hV''"

definition attach_long :: "long_option list" where
  "attach_long =
     [(''devn'', required_argument, CHR ''d''), (''dev-path'', required_argument, CHR ''p''),
      (''mtdn'', required_argument, CHR ''m''), (''vid-hdr-offset'', required_argument, CHR ''O''),
      (''max-beb-per1024'', required_argument, CHR ''b''), (''help'', no_argument, CHR ''h''),
      (''version'', no_argument, CHR ''V'')]"

fun attach_options :: "opt_result list \<Rightarrow> attach_args \<Rightarrow> opt_verdict \<times> attach_args" where
  "attach_options [] a = (OptOk, a)"
| "attach_options ((c, i, v) # os) a =
     (let (n, bad) = opt_int v
      in if c = CHR ''p'' then attach_options os (a\<lparr>at_dev := v\<rparr>)
         else if c = CHR ''d'' then
           (let a1 = a\<lparr>at_devn := n\<rparr> in if bad \<or> n < 0 then (OptBad, a1) else attach_options os a1)
         else if c = CHR ''m'' then
           (let a1 = a\<lparr>at_mtdn := n\<rparr> in if bad \<or> n < 0 then (OptBad, a1) else attach_options os a1)
         else if c = CHR ''O'' then
           (let a1 = a\<lparr>at_vidoffs := n\<rparr> in if bad \<or> n \<le> 0 then (OptBad, a1) else attach_options os a1)
         else if c = CHR ''b'' then
           (let a1 = a\<lparr>at_max_beb_per1024 := n\<rparr>
            in if bad \<or> n < 0 \<or> n > 768 then (OptBad, a1) else attach_options os a1)
         else if c = CHR ''h'' \<or> c = CHR ''V'' then (OptExit, a)
         else (OptBad, a))"

definition attach_parse_opt :: "string list \<Rightarrow> attach_args \<Rightarrow> opt_verdict \<times> attach_args" where
  "attach_parse_opt argv a0 =
     (let (opts, pos) = getopt_long attach_short attach_long argv
      in case attach_options opts a0 of
           (OptOk, a) \<Rightarrow>
             if length pos > 1 then (OptBad, a)
             else
               let a1 = a\<lparr>at_node := (if pos = [] then DEFAULT_CTRL_DEV else hd pos)\<rparr>
               in if at_mtdn a1 = -1 \<and> at_dev a1 = None then (OptBad, a1) else (OptOk, a1)
         | r \<Rightarrow> r)"

text \<open>The kernel can attach when there is a control device.\<close>

definition can_attach :: "sysfs \<Rightarrow> libubi option" where
  "can_attach F =
     (case libubi_open F of
        None \<Rightarrow> None
      | Some lib \<Rightarrow>
          (case ubi_get_info F lib of
             Inl _ \<Rightarrow> None
           | Inr info \<Rightarrow> if ctrl_major info = -1 then None else Some lib))"

definition ubiattach_main :: "'u ubi_os \<Rightarrow> string list \<Rightarrow> attach_args \<Rightarrow> 'u \<Rightarrow> tool_end \<times> attach_args \<times> 'u" where
  "ubiattach_main U argv a0 u =
     (case attach_parse_opt argv a0 of
        (OptBad, a) \<Rightarrow> (ToolReturns (-1), a, u)
      | (OptExit, a) \<Rightarrow> (ToolExits 0, a, u)
      | (OptOk, a) \<Rightarrow>
          (case can_attach (u_sysfs U u) of
             None \<Rightarrow> (ToolReturns (-1), a, u)
           | Some _ \<Rightarrow>
               (case ubi_attach U (at_node a) \<lparr>arq_dev_num = at_devn a, arq_mtd_num = at_mtdn a,
                       arq_mtd_dev_node = at_dev a, arq_vid_hdr_offset = at_vidoffs a,
                       arq_max_beb_per1024 = at_max_beb_per1024 a\<rparr> u of
                  ((Inl _, _), u1) \<Rightarrow> (ToolReturns (-1), a, u1)
                | ((Inr err, _), u1) \<Rightarrow> (ToolReturns (if err = 1 then -1 else 0), a, u1))))"

subsection \<open>ubidetach\<close>

record detach_args =
  dt_devn :: int
  dt_mtdn :: int
  dt_node :: string
  dt_dev :: "string option"

definition detach_args0 :: detach_args where
  "detach_args0 = \<lparr>dt_devn = UBI_DEV_NUM_AUTO, dt_mtdn = -1, dt_node = [], dt_dev = None\<rparr>"

definition detach_short :: "(char \<times> has_arg) list" where
  "detach_short = parse_optstring ''p:m:d:hV''"

definition detach_long :: "long_option list" where
  "detach_long =
     [(''devn'', required_argument, CHR ''d''), (''dev-path'', required_argument, CHR ''p''),
      (''mtdn'', required_argument, CHR ''m''), (''help'', no_argument, CHR ''h''),
      (''version'', no_argument, CHR ''V'')]"

fun detach_options :: "opt_result list \<Rightarrow> detach_args \<Rightarrow> opt_verdict \<times> detach_args" where
  "detach_options [] a = (OptOk, a)"
| "detach_options ((c, i, v) # os) a =
     (let (n, bad) = opt_int v
      in if c = CHR ''p'' then detach_options os (a\<lparr>dt_dev := v\<rparr>)
         else if c = CHR ''d'' then
           (let a1 = a\<lparr>dt_devn := n\<rparr> in if bad \<or> n < 0 then (OptBad, a1) else detach_options os a1)
         else if c = CHR ''m'' then
           (let a1 = a\<lparr>dt_mtdn := n\<rparr> in if bad \<or> n < 0 then (OptBad, a1) else detach_options os a1)
         else if c = CHR ''h'' \<or> c = CHR ''V'' then (OptExit, a)
         else (OptBad, a))"

definition detach_parse_opt :: "string list \<Rightarrow> detach_args \<Rightarrow> opt_verdict \<times> detach_args" where
  "detach_parse_opt argv a0 =
     (let (opts, pos) = getopt_long detach_short detach_long argv
      in case detach_options opts a0 of
           (OptOk, a) \<Rightarrow>
             if length pos > 1 then (OptBad, a)
             else
               let a1 = a\<lparr>dt_node := (if pos = [] then DEFAULT_CTRL_DEV else hd pos)\<rparr>
               in if dt_mtdn a1 = -1 \<and> dt_devn a1 = -1 \<and> dt_dev a1 = None then (OptBad, a1)
                  else if dt_devn a1 \<noteq> -1 then
                    (if dt_mtdn a1 \<noteq> -1 \<or> dt_dev a1 \<noteq> None then (OptBad, a1) else (OptOk, a1))
                  else if dt_mtdn a1 \<noteq> -1 \<and> dt_dev a1 \<noteq> None then (OptBad, a1)
                  else (OptOk, a1)
         | r \<Rightarrow> r)"

definition ubidetach_main :: "'u ubi_os \<Rightarrow> string list \<Rightarrow> detach_args \<Rightarrow> 'u \<Rightarrow> tool_end \<times> detach_args \<times> 'u" where
  "ubidetach_main U argv a0 u =
     (case detach_parse_opt argv a0 of
        (OptBad, a) \<Rightarrow> (ToolReturns (-1), a, u)
      | (OptExit, a) \<Rightarrow> (ToolExits 0, a, u)
      | (OptOk, a) \<Rightarrow>
          (case can_attach (u_sysfs U u) of
             None \<Rightarrow> (ToolReturns (-1), a, u)
           | Some lib \<Rightarrow>
               (case (if dt_devn a \<noteq> -1 then ubi_remove_dev U (dt_node a) (dt_devn a) u
                      else if dt_dev a \<noteq> None then ubi_detach U lib (dt_node a) (dt_dev a) u
                      else ubi_detach_mtd U lib (dt_node a) (dt_mtdn a) u) of
                  (Some _, u1) \<Rightarrow> (ToolReturns (-1), a, u1)
                | (None, u1) \<Rightarrow> (ToolReturns 0, a, u1))))"

subsection \<open>ubiupdatevol\<close>

record update_args =
  up_truncate :: bool
  up_node :: string
  up_img :: "string option"
  up_size :: int
  up_skip :: int
  up_use_stdin :: bool

definition update_args0 :: update_args where
  "update_args0 = \<lparr>up_truncate = False, up_node = [], up_img = None, up_size = 0, up_skip = 0,
     up_use_stdin = False\<rparr>"

definition update_short :: "(char \<times> has_arg) list" where
  "update_short = parse_optstring ''ts:h?V''"

text \<open>\<^verbatim>\<open>--skip\<close> has the value 0.\<close>

definition update_long :: "long_option list" where
  "update_long =
     [(''skip'', required_argument, CHR 0x00), (''truncate'', no_argument, CHR ''t''),
      (''help'', no_argument, CHR ''h''), (''version'', no_argument, CHR ''V''),
      (''size'', required_argument, CHR ''s'')]"

definition opt_longlong :: "string option \<Rightarrow> int \<times> bool" where
  "opt_longlong v = (case simple_strtoull (case v of None \<Rightarrow> [] | Some s \<Rightarrow> s) of (n, bad) \<Rightarrow> (c_longlong n, bad))"

fun update_options :: "opt_result list \<Rightarrow> update_args \<Rightarrow> opt_verdict \<times> update_args" where
  "update_options [] a = (OptOk, a)"
| "update_options ((c, i, v) # os) a =
     (let (n, bad) = opt_longlong v
      in if c = CHR 0x00 then
           (let a1 = a\<lparr>up_skip := n\<rparr> in if bad \<or> n < 0 then (OptBad, a1) else update_options os a1)
         else if c = CHR ''t'' then update_options os (a\<lparr>up_truncate := True\<rparr>)
         else if c = CHR ''s'' then
           (let a1 = a\<lparr>up_size := n\<rparr> in if bad \<or> n < 0 then (OptBad, a1) else update_options os a1)
         else if c = CHR ''h'' \<or> c = CHR ''?'' \<or> c = CHR ''V'' then (OptExit, a)
         else (OptBad, a))"

definition update_parse_opt :: "string list \<Rightarrow> update_args \<Rightarrow> opt_verdict \<times> update_args" where
  "update_parse_opt argv a0 =
     (let (opts, pos) = getopt_long update_short update_long argv
      in case update_options opts a0 of
           (OptOk, a) \<Rightarrow>
             if pos = [] then (OptBad, a)
             else if length pos \<noteq> 2 \<and> \<not> up_truncate a then (OptBad, a)
             else
               let img = (if length pos \<ge> 2 then Some (pos ! 1) else None); a1 = a\<lparr>up_node := hd pos, up_img := img\<rparr>
               in (case img of
                     None \<Rightarrow> (OptOk, a1)
                   | Some name \<Rightarrow>
                       if up_truncate a1 then (OptBad, a1)
                       else
                         let a2 = (if name = ''-'' then a1\<lparr>up_use_stdin := True\<rparr> else a1)
                         in if up_use_stdin a2 \<and> up_size a2 = 0 then (OptBad, a2) else (OptOk, a2))
         | r \<Rightarrow> r)"

definition truncate_volume :: "'u ubi_os \<Rightarrow> update_args \<Rightarrow> 'u \<Rightarrow> bool \<times> 'u" where
  "truncate_volume U a u =
     (case u_open U (up_node a) u of
        Some e \<Rightarrow> (False, u)
      | None \<Rightarrow> ubi_update_start U (up_node a) 0 u)"

text \<open>
  The rest of the bytes is written until nothing is left; an interrupted write is tried again. The
  results are success and the \<^verbatim>\<open>errno\<close> left behind, which the caller looks at.
\<close>

partial_function (option) ubi_write :: "'u ubi_os \<Rightarrow> string \<Rightarrow> byte list \<Rightarrow> errno \<Rightarrow> 'u \<Rightarrow> (bool \<times> errno \<times> 'u) option" where
  "ubi_write U fd buf en u =
     (if buf = [] then Some (True, en, u)
      else
        (case u_write U fd buf u of
           (Inl e, u1) \<Rightarrow> if e = EINTR then ubi_write U fd buf EINTR u1 else Some (False, e, u1)
         | (Inr n, u1) \<Rightarrow> if n = 0 then Some (False, en, u1) else ubi_write U fd (drop (nat n) buf) en u1))"

text \<open>
  The loop of \<^verbatim>\<open>update_volume\<close>: the end of the file is told from an interruption by \<^verbatim>\<open>errno\<close>, which
  \<^verbatim>\<open>read\<close> does not change at the end of the file.
\<close>

partial_function (option) update_loop ::
  "'u ubi_os \<Rightarrow> string \<Rightarrow> bool \<Rightarrow> int \<Rightarrow> int \<Rightarrow> errno \<Rightarrow> 'u \<Rightarrow> (bool \<times> 'u) option" where
  "update_loop U fd stdin leb_size bytes en u =
     (if bytes = 0 then Some (True, u)
      else
        (case u_img_read U stdin (nat (c_uint (c_int (min leb_size bytes)))) u of
           (ReadErr e, u1) \<Rightarrow>
             if e = EINTR then update_loop U fd stdin leb_size bytes EINTR u1 else Some (False, u1)
         | (Bytes d, u1) \<Rightarrow>
             if d = [] then (if en = EINTR then update_loop U fd stdin leb_size bytes en u1 else Some (False, u1))
             else do {
               (ok, en1, u2) \<leftarrow> ubi_write U fd d en u1;
               if ok then update_loop U fd stdin leb_size (bytes - int (length d)) en1 u2 else Some (False, u2)
             }))"

text \<open>
  How many bytes are to be written; \<open>None\<close> is an error. \<^verbatim>\<open>stat\<close> of the image is the only use of its size.
\<close>

definition update_bytes :: "'u ubi_os \<Rightarrow> update_args \<Rightarrow> ubi_vol_info \<Rightarrow> 'u \<Rightarrow> int option" where
  "update_bytes U a info u =
     (case (if up_size a = 0
            then (case u_img_stat U (case up_img a of None \<Rightarrow> [] | Some s \<Rightarrow> s) u of Inl _ \<Rightarrow> None | Inr n \<Rightarrow> Some (n - up_skip a))
            else Some (up_size a)) of
        None \<Rightarrow> None
      | Some bytes \<Rightarrow> if bytes > uvi_rsvd_bytes info then None else Some bytes)"

text \<open>Opening the input behind what is to be skipped; \<open>False\<close> is an error.\<close>

definition open_image :: "'u ubi_os \<Rightarrow> update_args \<Rightarrow> 'u \<Rightarrow> bool \<times> 'u" where
  "open_image U a u =
     (if up_use_stdin a then (up_skip a = 0, u)
      else
        (case u_img_open U (case up_img a of None \<Rightarrow> [] | Some s \<Rightarrow> s) u of
           (Some e, u1) \<Rightarrow> (False, u1)
         | (None, u1) \<Rightarrow>
             if up_skip a = 0 then (True, u1)
             else (case u_img_lseek U (up_skip a) u1 of (e, u2) \<Rightarrow> (e = None, u2))))"

definition update_volume :: "'u ubi_os \<Rightarrow> update_args \<Rightarrow> ubi_vol_info \<Rightarrow> 'u \<Rightarrow> (bool \<times> 'u) option" where
  "update_volume U a info u =
     (case update_bytes U a info u of
        None \<Rightarrow> Some (False, u)
      | Some bytes \<Rightarrow>
          (case u_open U (up_node a) u of
             Some e \<Rightarrow> Some (False, u)
           | None \<Rightarrow>
               (case open_image U a u of
                  (False, u1) \<Rightarrow> Some (False, u1)
                | (True, u1) \<Rightarrow>
                    (case ubi_update_start U (up_node a) bytes u1 of
                       (False, u2) \<Rightarrow> Some (False, u2)
                     | (True, u2) \<Rightarrow>
                         update_loop U (up_node a) (up_use_stdin a) (uvi_leb_size info) bytes (EOTHER 0) u2))))"

text \<open>
  \<open>None\<close>: the loop does not end, a volume without a name, or no UBI in the system, as the library that was
  not opened is closed.
\<close>

definition ubiupdatevol_main ::
  "'u ubi_os \<Rightarrow> string list \<Rightarrow> update_args \<Rightarrow> 'u \<Rightarrow> (tool_end \<times> update_args \<times> 'u) option" where
  "ubiupdatevol_main U argv a0 u =
     (case update_parse_opt argv a0 of
        (OptBad, a) \<Rightarrow> Some (ToolReturns (-1), a, u)
      | (OptExit, a) \<Rightarrow> Some (ToolExits 0, a, u)
      | (OptOk, a) \<Rightarrow>
          (case libubi_open (u_sysfs U u) of
             None \<Rightarrow> None
           | Some lib \<Rightarrow>
               (case ubi_probe_node (u_sysfs U u) lib (up_node a) of
                  Inl _ \<Rightarrow> Some (ToolReturns (-1), a, u)
                | Inr kind \<Rightarrow>
                    if kind = 1 then Some (ToolReturns (-1), a, u)
                    else do {
                      r \<leftarrow> ubi_get_vol_info (u_sysfs U u) lib (up_node a);
                      case r of
                        Inl _ \<Rightarrow> Some (ToolReturns (-1), a, u)
                      | Inr info \<Rightarrow> do {
                          (ok, u1) \<leftarrow> (if up_truncate a then Some (truncate_volume U a u)
                                       else update_volume U a info u);
                          Some (ToolReturns (if ok then 0 else -1), a, u1)
                        }
                    })))"

end
