(* ===== verification/UbiControl.thy ===== *)
theory UbiControl
  imports UbiTools SysfsProps
begin

text \<open>
  The UBI driver behind its control device, as an interface: which MTD devices are attached, how attaching
  and detaching change that, and that the files under \<^verbatim>\<open>/sys\<close> show it. What \<^verbatim>\<open>ubiattach\<close> and
  \<^verbatim>\<open>ubidetach\<close> do on every driver that keeps these laws follows from them alone.
\<close>

subsection \<open>What sysfs shows\<close>

definition ubi_path :: "int \<Rightarrow> string" where
  "ubi_path n = ''/sys/class/ubi/ubi'' @ fmt_d n"

text \<open>The names in \<^verbatim>\<open>/sys/class/ubi\<close>: the devices, their volumes and a file.\<close>

definition ubi_entry :: "int set \<Rightarrow> string \<Rightarrow> bool" where
  "ubi_entry devs name \<longleftrightarrow> name \<in> {''.'', ''..'', ''version''}
     \<or> (\<exists>n \<in> devs. name = ''ubi'' @ fmt_d n \<or> (\<exists>v. 0 \<le> v \<and> v < 2 ^ 31 \<and> name = ''ubi'' @ fmt_d n @ ''_'' @ fmt_d v))"

definition small :: "int \<Rightarrow> bool" where
  "small n \<longleftrightarrow> 0 \<le> n \<and> n < 2 ^ 31"

definition attached_ok :: "(int \<Rightarrow> int option) \<Rightarrow> bool" where
  "attached_ok att \<longleftrightarrow> (\<forall>n mtd. att n = Some mtd \<longrightarrow> small n \<and> small mtd) \<and> inj_on att (dom att)"

definition ubi_class_shows :: "sysfs \<Rightarrow> int set \<Rightarrow> bool" where
  "ubi_class_shows F devs \<longleftrightarrow>
     (\<forall>n \<in> devs. small n)
   \<and> (\<exists>names. sf_dir F ''/sys/class/ubi'' = Inr names \<and> list_all (ubi_entry devs) names
        \<and> (\<forall>n \<in> devs. ''ubi'' @ fmt_d n \<in> set names))
   \<and> sf_file F ''/sys/class/ubi/version'' = Inr (text_line (fmt_d 1))
   \<and> (\<exists>major minor. small major \<and> small minor
        \<and> sf_file F ''/sys/class/misc/ubi_ctrl/dev'' = Inr (text_line (fmt_d major @ '':'' @ fmt_d minor)))"

definition ubi_sysfs_shows :: "sysfs \<Rightarrow> (int \<Rightarrow> int option) \<Rightarrow> bool" where
  "ubi_sysfs_shows F att \<longleftrightarrow> ubi_class_shows F (dom att)
   \<and> (\<forall>n. sf_file F (ubi_path n @ ''/mtd_num'') =
        (case att n of None \<Rightarrow> Inl ENOENT | Some mtd \<Rightarrow> Inr (text_line (fmt_d mtd))))
   \<and> (\<forall>mtd. small mtd \<longrightarrow> 2 * mtd < 2 ^ 31 \<longrightarrow> sf_stat F (''/dev/mtd'' @ fmt_d mtd) = Inr (True, 90, 2 * mtd))"

lemma libubi_path_simps:
  "sysfs_ubi libubi_paths = ''/sys/class/ubi''" "ubi_version libubi_paths = ''/sys/class/ubi/version''"
  "ctrl_dev libubi_paths = ''/sys/class/misc/ubi_ctrl/dev''"
  "sprintf_d (dev_mtd_num libubi_paths) [n] = ubi_path n @ ''/mtd_num''"
  by (simp_all add: libubi_paths_def Let_def mkpath_def ubi_path_def)

lemma entry_names:
  assumes "ubi_entry devs name" and "\<And>n. n \<in> devs \<Longrightarrow> small n"
  shows "length name < 255" "scan_dev_name ''ubi'' name = Some m \<Longrightarrow> m \<in> devs"
proof -
  have len: "length (fmt_d k) \<le> 19" if "small k" for k
    using that by (intro length_fmt_d) (simp_all add: small_def)
  from assms(1) consider "name \<in> {''.'', ''..'', ''version''}" | n where "n \<in> devs" "name = ''ubi'' @ fmt_d n"
    | n v where "n \<in> devs" "small v" "name = ''ubi'' @ fmt_d n @ ''_'' @ fmt_d v"
    unfolding ubi_entry_def small_def by auto
  then have "length name < 255 \<and> (scan_dev_name ''ubi'' name = Some m \<longrightarrow> m \<in> devs)"
  proof cases
    case 1
    then show ?thesis by (auto simp: scan_dev_name_def scan_char_def)
  next
    case 2
    with assms(2) have "small n" by blast
    with 2 show ?thesis
      using len [of n] scan_dev_name_print(1) [of n "''ubi''"] by (auto simp: small_def)
  next
    case 3
    with assms(2) have "small n" by blast
    with 3 show ?thesis
      using len [of n] len [of v] scan_dev_name_print(3) [of n "''ubi''" "fmt_d v"] by (simp add: small_def)
  qed
  then show "length name < 255" "scan_dev_name ''ubi'' name = Some m \<Longrightarrow> m \<in> devs"
    by blast+
qed

lemma count_ubi_bounds:
  "lowest_dev_num (count_ubi_devices nums i) \<le> lowest_dev_num i \<and> highest_dev_num i \<le> highest_dev_num (count_ubi_devices nums i)
    \<and> (\<forall>n \<in> set nums. lowest_dev_num (count_ubi_devices nums i) \<le> n \<and> n \<le> highest_dev_num (count_ubi_devices nums i))
    \<and> ctrl_major (count_ubi_devices nums i) = ctrl_major i"
proof (induction nums arbitrary: i)
  case Nil
  then show ?case by simp
next
  case (Cons m nums)
  let ?i = "i\<lparr>dev_count := c_int (dev_count i + 1),
     highest_dev_num := (if m > highest_dev_num i then m else highest_dev_num i),
     lowest_dev_num := (if m < lowest_dev_num i then m else lowest_dev_num i)\<rparr>"
  have i: "lowest_dev_num ?i \<le> lowest_dev_num i" "lowest_dev_num ?i \<le> m" "highest_dev_num i \<le> highest_dev_num ?i"
    "m \<le> highest_dev_num ?i" "ctrl_major ?i = ctrl_major i"
    by simp_all
  have eq: "count_ubi_devices (m # nums) i = count_ubi_devices nums ?i"
    by simp
  note IH = Cons.IH [of ?i]
  show ?case
    unfolding eq list.set
    using IH i(5) order_trans [OF conjunct1 [OF IH] i(1)] order_trans [OF conjunct1 [OF IH] i(2)]
      order_trans [OF i(3) conjunct1 [OF conjunct2 [OF IH]]] order_trans [OF i(4) conjunct1 [OF conjunct2 [OF IH]]]
    by (metis insert_iff)
qed

lemma find_dev_there:
  assumes "n \<in> set is" "get n = Inr x" "ok x"
    and "\<And>i. i \<in> set is \<Longrightarrow> get i = Inl ENOENT \<or> (\<exists>y. get i = Inr y \<and> (ok y \<longrightarrow> i = n))"
  shows "find_dev get ok is = Inr (Some (n, x))"
  using assms(1,4)
proof (induction "is")
  case Nil
  then show ?case by simp
next
  case (Cons i "is")
  show ?case
  proof (cases "i = n")
    case True
    then show ?thesis using assms(2,3) by simp
  next
    case False
    then have "find_dev get ok is = Inr (Some (n, x))"
      using Cons by simp
    moreover have "get i = Inl ENOENT \<or> (\<exists>y. get i = Inr y \<and> (ok y \<longrightarrow> i = n))"
      using Cons.prems(2) by simp
    ultimately show ?thesis
      using False by auto
  qed
qed

lemma find_dev_none:
  assumes "\<And>i. i \<in> set is \<Longrightarrow> get i = Inl ENOENT \<or> (\<exists>y. get i = Inr y \<and> \<not> ok y)"
  shows "find_dev get ok is = Inr None"
  using assms
proof (induction "is")
  case (Cons i "is")
  then have "get i = Inl ENOENT \<or> (\<exists>y. get i = Inr y \<and> \<not> ok y)" "find_dev get ok is = Inr None"
    by simp_all
  then show ?case by auto
qed simp

lemma shown_info:
  assumes "ubi_class_shows F devs"
  shows "libubi_open F = Some libubi_paths"
    and "\<exists>info. ubi_get_info F libubi_paths = Inr info \<and> ctrl_major info \<noteq> -1
      \<and> (\<forall>n \<in> devs. lowest_dev_num info \<le> n \<and> n \<le> highest_dev_num info)"
proof -
  obtain names where names: "sf_dir F ''/sys/class/ubi'' = Inr names" "list_all (ubi_entry (devs)) names"
    "\<forall>n \<in> devs. ''ubi'' @ fmt_d n \<in> set names"
    using assms unfolding ubi_class_shows_def by blast
  obtain major minor where ctrl: "small major" "small minor"
    "sf_file F ''/sys/class/misc/ubi_ctrl/dev'' = Inr (text_line (fmt_d major @ '':'' @ fmt_d minor))"
    using assms unfolding ubi_class_shows_def by blast
  have vers: "read_positive_int F ''/sys/class/ubi/version'' = Inr 1"
    using assms by (intro read_pos_line(4)) (simp_all add: ubi_class_shows_def)
  then show "libubi_open F = Some libubi_paths"
    using names(1) by (simp add: libubi_open_def libubi_path_simps path_opens_def LIBUBI_UBI_VERSION_def)
  have ctrl_read: "read_major F ''/sys/class/misc/ubi_ctrl/dev'' = Inr (major, minor)"
    by (rule read_major_line [OF ctrl(3)]) (use ctrl(1,2) in \<open>simp_all add: small_def\<close>)
  have small: "\<And>n. n \<in> devs \<Longrightarrow> small n"
    using assms by (simp add: ubi_class_shows_def)
  have entry: "\<And>name. name \<in> set names \<Longrightarrow> ubi_entry (devs) name"
    using names(2) by (simp add: list_all_iff)
  obtain nums where nums: "device_entries ''ubi'' names = Some nums"
    "set nums = {n. \<exists>name \<in> set names. scan_dev_name ''ubi'' name = Some n}"
    using entry_devices [of names "''ubi''"] entry_names(1) [OF entry small] by auto
  have "devs \<subseteq> set nums"
  proof
    fix n
    assume "n \<in> devs"
    then have "''ubi'' @ fmt_d n \<in> set names" "scan_dev_name ''ubi'' (''ubi'' @ fmt_d n) = Some n"
      using names(3) small [of n] scan_dev_name_print(1) [of n "''ubi''"] by (simp_all add: small_def)
    then show "n \<in> set nums"
      unfolding nums(2) by blast
  qed
  define i where "i = count_ubi_devices nums \<lparr>dev_count = 0, lowest_dev_num = INT_MAX, highest_dev_num = 0,
    version = 0, ctrl_major = major, ctrl_minor = minor\<rparr>"
  have bounds: "\<forall>n \<in> devs. lowest_dev_num i \<le> n \<and> n \<le> highest_dev_num i" "ctrl_major i = major"
    using count_ubi_bounds [of nums] \<open>devs \<subseteq> set nums\<close> unfolding i_def by auto
  define i1 where "i1 = (if lowest_dev_num i = INT_MAX then i\<lparr>lowest_dev_num := 0\<rparr> else i)"
  have "\<forall>n \<in> devs. lowest_dev_num i1 \<le> n \<and> n \<le> highest_dev_num i1" "ctrl_major i1 = major"
    using bounds small by (auto simp: i1_def small_def)
  moreover have "ubi_get_info F libubi_paths = Inr (i1\<lparr>version := 1\<rparr>)"
    using names(1) nums(1) vers ctrl_read
    by (simp add: ubi_get_info_def libubi_path_simps Let_def i_def i1_def)
  ultimately show "\<exists>info. ubi_get_info F libubi_paths = Inr info \<and> ctrl_major info \<noteq> -1
      \<and> (\<forall>n \<in> devs. lowest_dev_num info \<le> n \<and> n \<le> highest_dev_num info)"
    using ctrl(1) by (intro exI [of _ "i1\<lparr>version := 1\<rparr>"]) (auto simp: small_def)
qed

lemma shown_can_attach: "ubi_sysfs_shows F att \<Longrightarrow> can_attach F = Some libubi_paths"
  using shown_info [of F "dom att"] by (fastforce simp: can_attach_def ubi_sysfs_shows_def)

text \<open>The search finds the UBI device of an MTD device, and none when there is none.\<close>

lemma shown_mtd_num:
  assumes "ubi_sysfs_shows F att" "attached_ok att"
  shows "att n = None \<Longrightarrow> dev_read_int F (dev_mtd_num libubi_paths) n = Inl ENOENT"
    "att n = Some mtd \<Longrightarrow> dev_read_int F (dev_mtd_num libubi_paths) n = Inr mtd"
proof -
  have shown: "sf_file F (ubi_path n @ ''/mtd_num'') =
      (case att n of None \<Rightarrow> Inl ENOENT | Some mtd \<Rightarrow> Inr (text_line (fmt_d mtd)))"
    using assms(1) unfolding ubi_sysfs_shows_def by blast
  show "att n = None \<Longrightarrow> dev_read_int F (dev_mtd_num libubi_paths) n = Inl ENOENT"
    using shown by (simp add: dev_read_int_def libubi_path_simps read_positive_int_def read_positive_ll_def read_ll_def)
  show "att n = Some mtd \<Longrightarrow> dev_read_int F (dev_mtd_num libubi_paths) n = Inr mtd"
    unfolding dev_read_int_def libubi_path_simps
    by (rule read_pos_line(4)) (use shown assms(2) in \<open>auto simp: attached_ok_def small_def\<close>)
qed

lemma shown_search:
  assumes "ubi_sysfs_shows F att" "attached_ok att"
  shows "att n = Some mtd \<Longrightarrow> mtd_num2ubi_dev F libubi_paths mtd = Inr n"
    "mtd \<notin> ran att \<Longrightarrow> mtd_num2ubi_dev F libubi_paths mtd = Inl (EOTHER 0)"
proof -
  obtain info where info: "ubi_get_info F libubi_paths = Inr info"
    "\<forall>n \<in> dom att. lowest_dev_num info \<le> n \<and> n \<le> highest_dev_num info"
    using shown_info(2) [of F "dom att"] assms(1) unfolding ubi_sysfs_shows_def by blast
  note reads = shown_mtd_num [OF assms]
  show "mtd_num2ubi_dev F libubi_paths mtd = Inr n" if n: "att n = Some mtd"
  proof -
    have "find_dev (dev_read_int F (dev_mtd_num libubi_paths)) (\<lambda>m. m = mtd)
        [lowest_dev_num info..highest_dev_num info] = Inr (Some (n, mtd))"
    proof (rule find_dev_there)
      show "n \<in> set [lowest_dev_num info..highest_dev_num info]"
        using info(2) n by auto
      fix i
      have "att i = Some mtd \<Longrightarrow> i = n"
        using n assms(2) by (auto simp: attached_ok_def inj_on_def dom_def)
      then show "dev_read_int F (dev_mtd_num libubi_paths) i = Inl ENOENT
          \<or> (\<exists>y. dev_read_int F (dev_mtd_num libubi_paths) i = Inr y \<and> (y = mtd \<longrightarrow> i = n))"
        using reads [of i] by (cases "att i") auto
    qed (use reads n in auto)
    then show ?thesis
      using info(1) by (simp add: mtd_num2ubi_dev_def)
  qed
  show "mtd_num2ubi_dev F libubi_paths mtd = Inl (EOTHER 0)" if "mtd \<notin> ran att"
  proof -
    have "find_dev (dev_read_int F (dev_mtd_num libubi_paths)) (\<lambda>m. m = mtd)
        [lowest_dev_num info..highest_dev_num info] = Inr None"
    proof (rule find_dev_none)
      fix i
      show "dev_read_int F (dev_mtd_num libubi_paths) i = Inl ENOENT
          \<or> (\<exists>y. dev_read_int F (dev_mtd_num libubi_paths) i = Inr y \<and> y \<noteq> mtd)"
        using reads [of i] that by (cases "att i") (auto simp: ran_def)
    qed
    then show ?thesis
      using info(1) by (simp add: mtd_num2ubi_dev_def)
  qed
qed

subsection \<open>The driver\<close>

text \<open>
  \<open>att\<close> is the map from the UBI devices to the MTD devices they are on, \<open>busy\<close> a device that is in use and
  cannot be detached, \<open>ok\<close> an invariant of the driver's state. Attaching may be refused, as flash need not
  have UBI on it; where it succeeds the device is new, has the number asked for and is not in use.
\<close>

locale ubi_control =
  fixes U :: "'u ubi_os"
    and att :: "'u \<Rightarrow> int \<Rightarrow> int option"
    and busy :: "'u \<Rightarrow> int \<Rightarrow> bool"
    and ok :: "'u \<Rightarrow> bool"
  assumes ctrl_opens: "ok u \<Longrightarrow> u_open U DEFAULT_CTRL_DEV u = None"
    and sysfs_shows: "ok u \<Longrightarrow> ubi_sysfs_shows (u_sysfs U u) (att u) \<and> attached_ok (att u)"
    and attach_done: "ok u \<Longrightarrow> u_ioctl U DEFAULT_CTRL_DEV (UBI_IOCATT r) u = (Inr (v, n), u1) \<Longrightarrow>
      v = 0 \<and> (atr_ubi_num r = -1 \<or> n = atr_ubi_num r) \<and> att u n = None \<and> atr_mtd_num r \<notin> ran (att u)
      \<and> att u1 = (att u)(n \<mapsto> atr_mtd_num r) \<and> \<not> busy u1 n \<and> ok u1"
    and attach_refused: "ok u \<Longrightarrow> u_ioctl U DEFAULT_CTRL_DEV (UBI_IOCATT r) u = (Inl e, u1) \<Longrightarrow>
      att u1 = att u \<and> ok u1"
    and detach_done: "ok u \<Longrightarrow> att u n \<noteq> None \<Longrightarrow> \<not> busy u n \<Longrightarrow>
      \<exists>v u1. u_ioctl U DEFAULT_CTRL_DEV (UBI_IOCDET n) u = (Inr v, u1) \<and> att u1 = (att u)(n := None) \<and> ok u1"
    and detach_refused: "ok u \<Longrightarrow> att u n = None \<or> busy u n \<Longrightarrow>
      \<exists>e. u_ioctl U DEFAULT_CTRL_DEV (UBI_IOCDET n) u = (Inl e, u)"
begin

lemma tools_start: "ok u \<Longrightarrow> can_attach (u_sysfs U u) = Some libubi_paths"
  using shown_can_attach sysfs_shows by blast

lemma attach_without_beb:
  assumes "ok u" "arq_mtd_dev_node req = None" "arq_max_beb_per1024 req = 0"
    and "ubi_attach U DEFAULT_CTRL_DEV req u = ((r, req1), u1)"
  shows "case r of Inl e \<Rightarrow> att u1 = att u \<and> ok u1
    | Inr v \<Rightarrow> v = 0 \<and> (arq_dev_num req = -1 \<or> arq_dev_num req1 = arq_dev_num req)
        \<and> att u (arq_dev_num req1) = None \<and> arq_mtd_num req \<notin> ran (att u)
        \<and> att u1 = (att u)(arq_dev_num req1 \<mapsto> arq_mtd_num req) \<and> \<not> busy u1 (arq_dev_num req1) \<and> ok u1"
proof -
  let ?r = "\<lparr>atr_ubi_num = arq_dev_num req, atr_mtd_num = arq_mtd_num req,
    atr_vid_hdr_offset = arq_vid_hdr_offset req, atr_max_beb_per1024 = 0\<rparr>"
  obtain q u2 where io: "u_ioctl U DEFAULT_CTRL_DEV (UBI_IOCATT ?r) u = (q, u2)"
    by fastforce
  have start: "node_ioctl U DEFAULT_CTRL_DEV (UBI_IOCATT ?r) u = (q, u2)"
    using io ctrl_opens [OF assms(1)] by (simp add: node_ioctl_def)
  show ?thesis
  proof (cases q)
    case (Inl e)
    then show ?thesis
      using attach_refused [OF assms(1) io [unfolded Inl]] start assms(2-4)
      by (auto simp: ubi_attach_def attach_again_def do_attach_def c_short_def Let_def)
  next
    case (Inr p)
    obtain v n where p: "p = (v, n)"
      by fastforce
    then show ?thesis
      using attach_done [OF assms(1) io [unfolded Inr p]] start assms(2-4) Inr
      by (auto simp: ubi_attach_def attach_again_def do_attach_def c_short_def Let_def)
  qed
qed

lemma remove_device:
  assumes "ok u" "att u n \<noteq> None" "\<not> busy u n"
  shows "\<exists>u1. ubi_remove_dev U DEFAULT_CTRL_DEV n u = (None, u1) \<and> att u1 = (att u)(n := None) \<and> ok u1"
  using detach_done [OF assms] ctrl_opens [OF assms(1)]
  by (auto simp: ubi_remove_dev_def node_ioctl_def no_value_def)

lemma detach_by_node:
  assumes "ok u" "small mtd" "2 * mtd < 2 ^ 31" "att u n = Some mtd" "\<not> busy u n"
  shows "\<exists>u1. ubi_detach U libubi_paths DEFAULT_CTRL_DEV (Some (''/dev/mtd'' @ fmt_d mtd)) u = (None, u1)
    \<and> att u1 = (att u)(n := None) \<and> ok u1"
proof -
  have "sf_stat (u_sysfs U u) (''/dev/mtd'' @ fmt_d mtd) = Inr (True, 90, 2 * mtd)"
    using sysfs_shows [OF assms(1)] assms(2,3) unfolding ubi_sysfs_shows_def by blast
  then have "mtd_node_to_num (u_sysfs U u) (''/dev/mtd'' @ fmt_d mtd) = Inr mtd"
    using assms(2) by (simp add: mtd_node_to_num_def MTD_CHAR_MAJOR_def small_def)
  moreover have "mtd_num2ubi_dev (u_sysfs U u) libubi_paths mtd = Inr n"
    using shown_search(1) sysfs_shows [OF assms(1)] assms(4) by blast
  ultimately show ?thesis
    using remove_device [OF assms(1) _ assms(5)] assms(4) by (simp add: ubi_detach_def ubi_detach_mtd_def)
qed

lemma detach_unattached:
  assumes "ok u" "small mtd" "2 * mtd < 2 ^ 31" "mtd \<notin> ran (att u)"
  shows "ubi_detach U libubi_paths DEFAULT_CTRL_DEV (Some (''/dev/mtd'' @ fmt_d mtd)) u = (Some ENODEV, u)"
proof -
  have "sf_stat (u_sysfs U u) (''/dev/mtd'' @ fmt_d mtd) = Inr (True, 90, 2 * mtd)"
    using sysfs_shows [OF assms(1)] assms(2,3) unfolding ubi_sysfs_shows_def by blast
  then have "mtd_node_to_num (u_sysfs U u) (''/dev/mtd'' @ fmt_d mtd) = Inr mtd"
    using assms(2) by (simp add: mtd_node_to_num_def MTD_CHAR_MAJOR_def small_def)
  moreover have "mtd_num2ubi_dev (u_sysfs U u) libubi_paths mtd = Inl (EOTHER 0)"
    using shown_search(2) sysfs_shows [OF assms(1)] assms(4) by blast
  ultimately show ?thesis
    by (simp add: ubi_detach_def ubi_detach_mtd_def)
qed

end

end
