(* ===== verification/UbiControlProps.thy ===== *)
theory UbiControlProps
  imports UbiControl "HOL-Library.AList"
begin

text \<open>
  What \<^verbatim>\<open>ubiattach\<close> and \<^verbatim>\<open>ubidetach\<close> do with the arguments that ofgwrite gives them, and a driver that
  keeps the laws of the interface.
\<close>

subsection \<open>Printed numbers as arguments\<close>

lemma leading_digit: "0 < n \<Longrightarrow> hd (print_nat 10 n) \<noteq> CHR ''0''"
proof (induction n rule: less_induct)
  case (less n)
  show ?case
  proof (cases "n < 10")
    case True
    have "digit_val (digit_char n) \<noteq> digit_val (CHR ''0'')"
      using less.prems by (simp add: digit_val_digit_char [OF True]) (simp add: digit_val_def)
    then show ?thesis
      using True by (auto simp: print_nat_def digits_rev.simps [of _ n])
  next
    case False
    then have "print_nat 10 n = print_nat 10 (n div 10) @ [digit_char (n mod 10)]"
      by (simp add: print_nat_def digits_rev.simps [of _ n])
    then show ?thesis
      using less.IH [of "n div 10"] False by simp
  qed
qed

lemma strtou_print:
  assumes "0 \<le> n" "n < 2 ^ w"
  shows "strtou w 0 (fmt_d n) = (n, [])"
proof (cases "n = 0")
  case True
  have "print_nat 10 0 = ''0''"
    by code_simp
  then show ?thesis
    using True by (simp add: strtou_def fmt_d_def scan_number_def scan_prefixed_def scan_magnitude_def
        is_digit_of_def digit_val_def c_isspace_def)
next
  case False
  then have pos: "0 < nat n"
    using assms(1) by simp
  obtain c s where c: "print_nat 10 (nat n) = c # s" "is_digit_of 16 c"
    using print_Cons by blast
  have "c \<noteq> CHR ''0''"
    using leading_digit [OF pos] c(1) by simp
  then have "scan_prefixed 0 (c # s) = scan_magnitude 10 (c # s)"
    by (auto simp: scan_prefixed_def Let_def split: list.splits)
  also have "\<dots> = Some (n, [])"
    using scan_print_nat [of "[]" "nat n"] c(1) assms(1) by simp
  finally show ?thesis
    using c assms by (simp add: strtou_def fmt_d_def scan_number_digit)
qed

lemma opt_int_print [simp]:
  assumes "small n"
  shows "opt_int (Some (fmt_d n)) = (n, False)"
proof -
  have "strtou 32 0 (fmt_d n) = (n, [])" "fmt_d n \<noteq> []"
    using assms by (intro strtou_print) (simp_all add: small_def fmt_d_def)
  then show ?thesis
    using assms by (simp add: opt_int_def simple_strtoul_def small_def)
qed

lemma opt_int_10: "opt_int (Some ''10'') = (10, False)"
  by (simp add: opt_int_def simple_strtoul_def strtou_def scan_number_def scan_prefixed_def scan_magnitude_def
      is_digit_of_def digit_val_def c_isspace_def)

lemma attach_arguments:
  assumes "small mtd" "small offs" "0 < offs"
  shows "attach_parse_opt [''-d'', ''10'', ''-m'', fmt_d mtd, ''-O'', fmt_d offs] attach_args0
    = (OptOk, attach_args0\<lparr>at_devn := 10, at_mtdn := mtd, at_vidoffs := offs, at_node := DEFAULT_CTRL_DEV\<rparr>)"
proof -
  have "mtd \<noteq> -1"
    using assms(1) by (simp add: small_def)
  moreover have "getopt_long attach_short attach_long [''-d'', ''10'', ''-m'', fmt_d mtd, ''-O'', fmt_d offs]
      = ([(CHR ''d'', None, Some ''10''), (CHR ''m'', None, Some (fmt_d mtd)), (CHR ''O'', None, Some (fmt_d offs))], [])"
    by (simp add: attach_short_def)
  ultimately show ?thesis
    using assms by (simp add: attach_parse_opt_def Let_def opt_int_10 small_def attach_args0_def)
qed

lemma attach_offset_zero:
  assumes "small mtd"
  shows "fst (attach_parse_opt [''-d'', ''10'', ''-m'', fmt_d mtd, ''-O'', fmt_d 0] attach_args0) = OptBad"
proof -
  have "getopt_long attach_short attach_long [''-d'', ''10'', ''-m'', fmt_d mtd, ''-O'', fmt_d 0]
      = ([(CHR ''d'', None, Some ''10''), (CHR ''m'', None, Some (fmt_d mtd)), (CHR ''O'', None, Some (fmt_d 0))], [])"
    by (simp add: attach_short_def)
  then show ?thesis
    using assms by (simp add: attach_parse_opt_def Let_def opt_int_10 small_def)
qed

lemma detach_arguments:
  "detach_parse_opt [''-p'', dev] detach_args0 = (OptOk, detach_args0\<lparr>dt_dev := Some dev, dt_node := DEFAULT_CTRL_DEV\<rparr>)"
proof -
  have "getopt_long detach_short detach_long [''-p'', dev] = ([(CHR ''p'', None, Some dev)], [])"
    by (simp add: detach_short_def)
  then show ?thesis
    by (simp add: detach_parse_opt_def Let_def detach_args0_def UBI_DEV_NUM_AUTO_def split: prod.split)
qed

subsection \<open>Attaching and detaching\<close>

text \<open>
  Property C23. With the arguments of ofgwrite, \<^verbatim>\<open>ubiattach\<close> either fails and leaves the attached devices as
  they were, or the number 10 was free, the MTD device had no UBI device, and it is the MTD device of
  number 10 from then on; \<^verbatim>\<open>ubidetach\<close> with the MTD device's node then finds the UBI device and removes it,
  after which everything is attached that was attached before, and nothing else.
\<close>
theorem detach_undoes_attach:
  assumes "ubi_control U att busy ok" and "ok u" and "small mtd" "2 * mtd < 2 ^ 31" and "small offs" "0 < offs"
    and "ubiattach_main U [''-d'', ''10'', ''-m'', fmt_d mtd, ''-O'', fmt_d offs] attach_args0 u = (e, a, u1)"
  shows "e = ToolReturns (-1) \<and> att u1 = att u
    \<or> e = ToolReturns 0 \<and> att u 10 = None \<and> mtd \<notin> ran (att u) \<and> att u1 = (att u)(10 \<mapsto> mtd)
      \<and> (\<exists>d u2. ubidetach_main U [''-p'', ''/dev/mtd'' @ fmt_d mtd] detach_args0 u1 = (ToolReturns 0, d, u2)
          \<and> att u2 = att u)"
proof -
  let ?req = "\<lparr>arq_dev_num = 10, arq_mtd_num = mtd, arq_mtd_dev_node = None, arq_vid_hdr_offset = offs,
    arq_max_beb_per1024 = 0\<rparr>"
  obtain r req1 u2 where run: "ubi_attach U DEFAULT_CTRL_DEV ?req u = ((r, req1), u2)"
    by (cases "ubi_attach U DEFAULT_CTRL_DEV ?req u") auto
  note laws = ubi_control.attach_without_beb [OF assms(1,2) _ _ run, simplified]
  have main: "e = ToolReturns (case r of Inl _ \<Rightarrow> -1 | Inr v \<Rightarrow> if v = 1 then -1 else 0)" "u1 = u2"
    using assms(7) run attach_arguments [OF assms(3,5,6)] ubi_control.tools_start [OF assms(1,2)]
    by (auto simp: ubiattach_main_def attach_args0_def split: sum.splits)
  show ?thesis
  proof (cases r)
    case (Inl x)
    then show ?thesis using laws main by simp
  next
    case (Inr v)
    then have at: "e = ToolReturns 0" "att u 10 = None" "mtd \<notin> ran (att u)" "att u1 = (att u)(10 \<mapsto> mtd)"
      "\<not> busy u1 10" "ok u1"
      using laws main by auto
    obtain u3 where "ubi_detach U libubi_paths DEFAULT_CTRL_DEV (Some (''/dev/mtd'' @ fmt_d mtd)) u1 = (None, u3)"
      "att u3 = (att u1)(10 := None)"
      using ubi_control.detach_by_node [OF assms(1) at(6) assms(3,4) _ at(5)] at(4) by auto
    then have "ubidetach_main U [''-p'', ''/dev/mtd'' @ fmt_d mtd] detach_args0 u1
        = (ToolReturns 0, detach_args0\<lparr>dt_dev := Some (''/dev/mtd'' @ fmt_d mtd), dt_node := DEFAULT_CTRL_DEV\<rparr>, u3)"
      "att u3 = att u"
      using detach_arguments ubi_control.tools_start [OF assms(1) at(6)] at(2,4)
      by (auto simp: ubidetach_main_def detach_args0_def UBI_DEV_NUM_AUTO_def)
    then show ?thesis using at(1-4) by blast
  qed
qed

text \<open>
  With a VID header offset of 0, the default of the program, \<^verbatim>\<open>ubiattach\<close> rejects its arguments.
\<close>
theorem attach_rejects_offset_zero:
  assumes "small mtd"
  shows "\<exists>a. ubiattach_main U [''-d'', ''10'', ''-m'', fmt_d mtd, ''-O'', fmt_d 0] attach_args0 u = (ToolReturns (-1), a, u)"
  using attach_offset_zero [OF assms] by (auto simp: ubiattach_main_def split: prod.split)

text \<open>A device that was detached by its number keeps a later call from detaching one by its node.\<close>
theorem detach_number_sticks:
  assumes "dt_devn a \<noteq> -1"
  shows "ubidetach_main U [''-p'', dev] a u
    = (ToolReturns (-1), a\<lparr>dt_dev := Some dev, dt_node := DEFAULT_CTRL_DEV\<rparr>, u)"
proof -
  have "getopt_long detach_short detach_long [''-p'', dev] = ([(CHR ''p'', None, Some dev)], [])"
    by (simp add: detach_short_def)
  then show ?thesis
    using assms by (simp add: ubidetach_main_def detach_parse_opt_def Let_def split: prod.split)
qed

subsection \<open>A driver\<close>

text \<open>
  The state is the list of the UBI devices with their MTD devices. A number that is not asked for is the first
  free one.
\<close>

definition sim_sysfs :: "(int \<times> int) list \<Rightarrow> sysfs" where
  "sim_sysfs l =
     \<lparr>sf_file = (\<lambda>p. if p = ''/sys/class/ubi/version'' then Inr (text_line (fmt_d 1))
          else if p = ''/sys/class/misc/ubi_ctrl/dev'' then Inr (text_line (fmt_d 10 @ '':'' @ fmt_d 59))
          else case map_of (map (\<lambda>(n, mtd). (ubi_path n @ ''/mtd_num'', text_line (fmt_d mtd))) l) p of
                 None \<Rightarrow> Inl ENOENT | Some s \<Rightarrow> Inr s),
      sf_dir = (\<lambda>p. Inr ([''.'', ''..'', ''version''] @ map (\<lambda>(n, mtd). ''ubi'' @ fmt_d n) l)),
      sf_stat = (\<lambda>p. Inr (True, 90, 2 * atoi (drop 8 p))), sf_junk = [], sf_open_node = (\<lambda>p. None),
      sf_memgetinfo = (\<lambda>p. Inl EIO), sf_memgetbadblock = (\<lambda>p. None)\<rparr>"

definition sim_ioctl :: "string \<Rightarrow> ubi_req \<Rightarrow> (int \<times> int) list \<Rightarrow> (errno + int \<times> int) \<times> (int \<times> int) list" where
  "sim_ioctl node req l =
     (case req of
        UBI_IOCATT r \<Rightarrow>
          let n = (if atr_ubi_num r = -1 then hd (filter (\<lambda>i. map_of l i = None) [0..int (length l)]) else atr_ubi_num r);
              mtd = atr_mtd_num r
          in if small n \<and> small mtd \<and> map_of l n = None \<and> mtd \<notin> snd ` set l then (Inr (0, n), (n, mtd) # l)
             else (Inl EINVAL, l)
      | UBI_IOCDET n \<Rightarrow> if map_of l n = None then (Inl ENODEV, l) else (Inr (0, 0), AList.delete n l)
      | _ \<Rightarrow> (Inl ENOTTY, l))"

definition sim_ubi :: "(int \<times> int) list ubi_os" where
  "sim_ubi = \<lparr>u_sysfs = sim_sysfs, u_open = (\<lambda>node l. None), u_ioctl = sim_ioctl, u_write = (\<lambda>fd buf l. (Inl EIO, l)),
     u_img_stat = (\<lambda>name l. Inl ENOENT), u_img_open = (\<lambda>name l. (Some ENOENT, l)), u_img_lseek = (\<lambda>n l. (Some EIO, l)),
     u_img_read = (\<lambda>stdin n l. (ReadErr EIO, l))\<rparr>"

definition sim_ok :: "(int \<times> int) list \<Rightarrow> bool" where
  "sim_ok l \<longleftrightarrow> distinct (map fst l) \<and> distinct (map snd l) \<and> (\<forall>(n, mtd) \<in> set l. small n \<and> small mtd)"

lemma sim_mtd_num:
  "map_of (map (\<lambda>(n, mtd). (ubi_path n @ ''/mtd_num'', text_line (fmt_d mtd))) l) (ubi_path n @ ''/mtd_num'')
    = map_option (\<lambda>mtd. text_line (fmt_d mtd)) (map_of l n)"
  by (induction l) (auto simp: ubi_path_def fmt_d_inj)

lemma atoi_print: "small n \<Longrightarrow> atoi (fmt_d n) = n"
  using scan_number_print [of "[]" "nat n"] by (simp add: atoi_def strtos_def fmt_d_def small_def)

lemma sim_shows:
  assumes "sim_ok l"
  shows "ubi_sysfs_shows (sim_sysfs l) (map_of l)"
  unfolding ubi_sysfs_shows_def ubi_class_shows_def
proof (intro conjI exI allI impI)
  show "\<forall>n \<in> dom (map_of l). small n"
    using assms by (auto simp: sim_ok_def dest!: map_of_SomeD)
  show "sf_dir (sim_sysfs l) ''/sys/class/ubi'' = Inr ([''.'', ''..'', ''version''] @ map (\<lambda>(n, mtd). ''ubi'' @ fmt_d n) l)"
    by (simp add: sim_sysfs_def)
  show "list_all (ubi_entry (dom (map_of l))) ([''.'', ''..'', ''version''] @ map (\<lambda>(n, mtd). ''ubi'' @ fmt_d n) l)"
  proof -
    have "ubi_entry (dom (map_of l)) (''ubi'' @ fmt_d n)" if "(n, mtd) \<in> set l" for n mtd
    proof -
      have "n \<in> dom (map_of l)"
        using that unfolding dom_map_of_conv_image_fst by force
      then show ?thesis
        unfolding ubi_entry_def by blast
    qed
    moreover have "ubi_entry (dom (map_of l)) name" if "name \<in> {''.'', ''..'', ''version''}" for name
      using that unfolding ubi_entry_def by blast
    ultimately show ?thesis
      by (auto simp: list_all_iff)
  qed
  show "\<forall>n \<in> dom (map_of l). ''ubi'' @ fmt_d n
      \<in> set ([''.'', ''..'', ''version''] @ map (\<lambda>(n, mtd). ''ubi'' @ fmt_d n) l)"
    unfolding dom_map_of_conv_image_fst by force
  show "sf_file (sim_sysfs l) ''/sys/class/ubi/version'' = Inr (text_line (fmt_d 1))"
    by (simp add: sim_sysfs_def)
  show "small 10" "small 59"
    by (simp_all add: small_def)
  show "sf_file (sim_sysfs l) ''/sys/class/misc/ubi_ctrl/dev'' = Inr (text_line (fmt_d 10 @ '':'' @ fmt_d 59))"
    by (simp add: sim_sysfs_def)
  fix n
  have "ubi_path n @ ''/mtd_num'' \<noteq> ''/sys/class/ubi/version''" "ubi_path n @ ''/mtd_num'' \<noteq> ''/sys/class/misc/ubi_ctrl/dev''"
    by (simp_all add: ubi_path_def)
  then show "sf_file (sim_sysfs l) (ubi_path n @ ''/mtd_num'')
      = (case map_of l n of None \<Rightarrow> Inl ENOENT | Some mtd \<Rightarrow> Inr (text_line (fmt_d mtd)))"
    using sim_mtd_num [of l n] by (simp add: sim_sysfs_def split: option.split)
next
  fix mtd
  assume "small mtd"
  then show "sf_stat (sim_sysfs l) (''/dev/mtd'' @ fmt_d mtd) = Inr (True, 90, 2 * mtd)"
    by (simp add: sim_sysfs_def atoi_print)
qed

lemma sim_attached:
  assumes "sim_ok l"
  shows "attached_ok (map_of l)" "ran (map_of l) = snd ` set l"
proof -
  have d: "distinct (map fst l)" "distinct (map snd l)"
    using assms by (simp_all add: sim_ok_def)
  have "n = m" if "map_of l n = Some mtd" "map_of l m = Some mtd" for n m mtd
    using d(2) map_of_SomeD [OF that(1)] map_of_SomeD [OF that(2)] unfolding distinct_map inj_on_def by fastforce
  then show "attached_ok (map_of l)"
    using assms by (auto simp: attached_ok_def sim_ok_def inj_on_def dest!: map_of_SomeD)
  show "ran (map_of l) = snd ` set l"
    by (rule ran_distinct [OF d(1)])
qed

lemma sim_delete: "sim_ok l \<Longrightarrow> sim_ok (AList.delete n l)"
  by (auto simp: sim_ok_def AList.delete_eq distinct_map inj_on_def)

lemma sim_first_free: "map_of l (hd (filter (\<lambda>i. map_of l i = None) [0..int (length l)])) = None"
proof -
  have "card (fst ` set l) \<le> length l"
    by (metis card_length length_map set_map)
  then have "\<not> set [0..int (length l)] \<subseteq> fst ` set l"
    using card_mono [of "fst ` set l" "set [0..int (length l)]"] by auto
  then have "filter (\<lambda>i. map_of l i = None) [0..int (length l)] \<noteq> []"
    by (auto simp: filter_empty_conv map_of_eq_None_iff)
  then show ?thesis
    using hd_in_set by fastforce
qed

interpretation sim: ubi_control sim_ubi map_of "\<lambda>l n. False" sim_ok
proof unfold_locales
  show "ubi_sysfs_shows (u_sysfs sim_ubi u) (map_of u) \<and> attached_ok (map_of u)" if "sim_ok u" for u
    using sim_shows sim_attached(1) that by (simp add: sim_ubi_def)
  show "v = 0 \<and> (atr_ubi_num r = -1 \<or> n = atr_ubi_num r) \<and> map_of u n = None \<and> atr_mtd_num r \<notin> ran (map_of u)
      \<and> map_of u1 = (map_of u)(n \<mapsto> atr_mtd_num r) \<and> \<not> False \<and> sim_ok u1"
    if "sim_ok u" "u_ioctl sim_ubi DEFAULT_CTRL_DEV (UBI_IOCATT r) u = (Inr (v, n), u1)" for u r v n u1
    using that sim_attached(2) [OF that(1)]
    by (auto simp: sim_ubi_def sim_ioctl_def sim_ok_def Let_def map_of_eq_None_iff split: if_splits)
  show "map_of u1 = map_of u \<and> sim_ok u1"
    if "sim_ok u" "u_ioctl sim_ubi DEFAULT_CTRL_DEV (UBI_IOCATT r) u = (Inl e, u1)" for u r e u1
    using that by (auto simp: sim_ubi_def sim_ioctl_def Let_def split: if_splits)
  show "\<exists>v u1. u_ioctl sim_ubi DEFAULT_CTRL_DEV (UBI_IOCDET n) u = (Inr v, u1) \<and> map_of u1 = (map_of u)(n := None) \<and> sim_ok u1"
    if "sim_ok u" "map_of u n \<noteq> None" for u n
    using that sim_delete by (auto simp: sim_ubi_def sim_ioctl_def delete_conv')
  show "\<exists>e. u_ioctl sim_ubi DEFAULT_CTRL_DEV (UBI_IOCDET n) u = (Inl e, u)" if "map_of u n = None \<or> False" for u n
    using that by (simp add: sim_ubi_def sim_ioctl_def)
qed (simp_all add: sim_ubi_def)

lemma sim_attach:
  "ubiattach_main sim_ubi [''-d'', ''10'', ''-m'', fmt_d 3, ''-O'', fmt_d 512] attach_args0 []
    = (ToolReturns 0, attach_args0\<lparr>at_devn := 10, at_mtdn := 3, at_vidoffs := 512, at_node := DEFAULT_CTRL_DEV\<rparr>, [(10, 3)])"
proof -
  have "small 3" "small 512" "small 10" "(0::int) < 512" "sim_ok []"
    by (simp_all add: small_def sim_ok_def)
  then show ?thesis
    using attach_arguments [of 3 512] sim.tools_start [of "[]"]
    by (simp add: ubiattach_main_def ubi_attach_def attach_again_def do_attach_def node_ioctl_def sim_ubi_def
        sim_ioctl_def c_short_def attach_args0_def)
qed

theorem detach_undoes_attach_witness:
  "\<exists>d l. ubidetach_main sim_ubi [''-p'', ''/dev/mtd'' @ fmt_d 3] detach_args0 [(10, 3)] = (ToolReturns 0, d, l)
    \<and> map_of l = Map.empty"
proof -
  have "sim_ok []" "small 3" "2 * 3 < (2::int) ^ 31" "small 512" "(0::int) < 512"
    by (simp_all add: sim_ok_def small_def)
  from detach_undoes_attach [OF sim.ubi_control_axioms this sim_attach] show ?thesis
    by auto
qed

end
