(* ===== verification/UbiVolumeProps.thy ===== *)
theory UbiVolumeProps
  imports UbiControl
begin

text \<open>
  What libubi reports of a volume: with the files that the kernel makes for its volumes, exactly what the
  kernel has printed, found by the numbers of the node alone.
\<close>

subsection \<open>Volumes in sysfs\<close>

definition vol_path :: "int \<Rightarrow> int \<Rightarrow> string" where
  "vol_path n v = ''/sys/class/ubi/ubi'' @ fmt_d n @ ''_'' @ fmt_d v"

definition good_volume :: "ubi_vol_info \<Rightarrow> bool" where
  "good_volume v \<longleftrightarrow>
     small (uvi_dev_num v) \<and> small (uvi_vol_id v) \<and> small (uvi_major v)
   \<and> uvi_minor v = uvi_vol_id v + 1 \<and> small (uvi_minor v)
   \<and> uvi_type v \<in> {UBI_STATIC_VOLUME, UBI_DYNAMIC_VOLUME}
   \<and> small (uvi_alignment v) \<and> 0 \<le> uvi_data_bytes v \<and> uvi_data_bytes v < 2 ^ 63
   \<and> small (uvi_rsvd_lebs v) \<and> small (uvi_leb_size v) \<and> small (uvi_corrupted v)
   \<and> uvi_rsvd_bytes v = uvi_leb_size v * uvi_rsvd_lebs v
   \<and> CHR 0x00 \<notin> set (uvi_name v) \<and> length (uvi_name v) \<le> UBI_VOL_NAME_MAX"

definition type_name :: "ubi_vol_info \<Rightarrow> string" where
  "type_name v = (if uvi_type v = UBI_STATIC_VOLUME then ''static'' else ''dynamic'')"

definition vol_files :: "ubi_vol_info \<Rightarrow> (string \<times> string) list" where
  "vol_files v = map (\<lambda>(a, s). (vol_path (uvi_dev_num v) (uvi_vol_id v) @ a, text_line s))
     [(''/dev'', fmt_d (uvi_major v) @ '':'' @ fmt_d (uvi_minor v)), (''/type'', type_name v),
      (''/alignment'', fmt_d (uvi_alignment v)), (''/data_bytes'', fmt_d (uvi_data_bytes v)),
      (''/reserved_ebs'', fmt_d (uvi_rsvd_lebs v)), (''/usable_eb_size'', fmt_d (uvi_leb_size v)),
      (''/corrupted'', fmt_d (uvi_corrupted v)), (''/name'', uvi_name v)]"

text \<open>
  The major numbers of the devices, which differ, and the volumes, with 1 more than their number as the minor
  number.
\<close>

definition shows_volumes :: "sysfs \<Rightarrow> (int \<Rightarrow> int option) \<Rightarrow> ubi_vol_info set \<Rightarrow> bool" where
  "shows_volumes F majors vols \<longleftrightarrow> ubi_class_shows F (dom majors)
   \<and> attached_ok majors
   \<and> (\<forall>n. sf_file F (ubi_path n @ ''/dev'') =
        (case majors n of None \<Rightarrow> Inl ENOENT | Some major \<Rightarrow> Inr (text_line (fmt_d major @ '':'' @ fmt_d 0))))
   \<and> (\<forall>v \<in> vols. good_volume v \<and> majors (uvi_dev_num v) = Some (uvi_major v)
        \<and> path_opens F (vol_path (uvi_dev_num v) (uvi_vol_id v))
        \<and> (\<forall>(path, s) \<in> set (vol_files v). sf_file F path = Inr s))"

lemma volume_paths:
  "sprintf_d (dev_dev libubi_paths) [n] = ubi_path n @ ''/dev''"
  "sprintf_d (ubi_vol libubi_paths) [n, v] = vol_path n v"
  "sprintf_d (vol_dev libubi_paths) [n, v] = vol_path n v @ ''/dev''"
  "sprintf_d (vol_type_file libubi_paths) [n, v] = vol_path n v @ ''/type''"
  "sprintf_d (vol_alignment libubi_paths) [n, v] = vol_path n v @ ''/alignment''"
  "sprintf_d (vol_data_bytes libubi_paths) [n, v] = vol_path n v @ ''/data_bytes''"
  "sprintf_d (vol_rsvd_ebs libubi_paths) [n, v] = vol_path n v @ ''/reserved_ebs''"
  "sprintf_d (vol_eb_size libubi_paths) [n, v] = vol_path n v @ ''/usable_eb_size''"
  "sprintf_d (vol_corrupted libubi_paths) [n, v] = vol_path n v @ ''/corrupted''"
  "sprintf_d (vol_name libubi_paths) [n, v] = vol_path n v @ ''/name''"
  by (simp_all add: libubi_paths_def Let_def mkpath_def ubi_path_def vol_path_def)

lemma shown_files:
  assumes "shows_volumes F majors vols" "v \<in> vols"
  shows "sf_file F (vol_path (uvi_dev_num v) (uvi_vol_id v) @ ''/dev'') = Inr (text_line (fmt_d (uvi_major v) @ '':'' @ fmt_d (uvi_minor v)))"
    "sf_file F (vol_path (uvi_dev_num v) (uvi_vol_id v) @ ''/type'') = Inr (text_line (type_name v))"
    "sf_file F (vol_path (uvi_dev_num v) (uvi_vol_id v) @ ''/alignment'') = Inr (text_line (fmt_d (uvi_alignment v)))"
    "sf_file F (vol_path (uvi_dev_num v) (uvi_vol_id v) @ ''/data_bytes'') = Inr (text_line (fmt_d (uvi_data_bytes v)))"
    "sf_file F (vol_path (uvi_dev_num v) (uvi_vol_id v) @ ''/reserved_ebs'') = Inr (text_line (fmt_d (uvi_rsvd_lebs v)))"
    "sf_file F (vol_path (uvi_dev_num v) (uvi_vol_id v) @ ''/usable_eb_size'') = Inr (text_line (fmt_d (uvi_leb_size v)))"
    "sf_file F (vol_path (uvi_dev_num v) (uvi_vol_id v) @ ''/corrupted'') = Inr (text_line (fmt_d (uvi_corrupted v)))"
    "sf_file F (vol_path (uvi_dev_num v) (uvi_vol_id v) @ ''/name'') = Inr (text_line (uvi_name v))"
    "good_volume v" "majors (uvi_dev_num v) = Some (uvi_major v)" "path_opens F (vol_path (uvi_dev_num v) (uvi_vol_id v))"
  using assms unfolding shows_volumes_def vol_files_def by auto

text \<open>The device of a major number.\<close>

lemma shown_major:
  assumes "shows_volumes F majors vols" "majors n = Some major"
  shows "\<exists>info. ubi_get_info F libubi_paths = Inr info \<and> dev_of_major F libubi_paths major info = Inr (Some (n, major, 0))"
proof -
  have sys: "ubi_class_shows F (dom majors)" "attached_ok majors"
    "\<And>i. sf_file F (ubi_path i @ ''/dev'') =
      (case majors i of None \<Rightarrow> Inl ENOENT | Some mj \<Rightarrow> Inr (text_line (fmt_d mj @ '':'' @ fmt_d 0)))"
    using assms(1) unfolding shows_volumes_def by blast+
  obtain info where info: "ubi_get_info F libubi_paths = Inr info"
    "\<forall>i \<in> dom majors. lowest_dev_num info \<le> i \<and> i \<le> highest_dev_num info"
    using shown_info(2) [OF sys(1)] by blast
  have there: "ubi_dev_major F libubi_paths i = Inr (mj, 0)" if "majors i = Some mj" for i mj
    unfolding ubi_dev_major_def volume_paths
    by (rule read_major_line) (use sys that in \<open>auto simp: attached_ok_def small_def\<close>)
  have missing: "ubi_dev_major F libubi_paths i = Inl ENOENT" if "majors i = None" for i
    using sys(3) [of i] that by (simp add: ubi_dev_major_def volume_paths read_major_def read_data_def)
  have "find_dev (ubi_dev_major F libubi_paths) (\<lambda>(mj, mn). mj = major)
      [lowest_dev_num info..highest_dev_num info] = Inr (Some (n, (major, 0)))"
  proof (rule find_dev_there)
    show "n \<in> set [lowest_dev_num info..highest_dev_num info]"
      using info(2) assms(2) by auto
    fix i
    have "majors i = Some major \<Longrightarrow> i = n"
      using assms(2) sys(2) by (auto simp: attached_ok_def inj_on_def dom_def)
    then show "ubi_dev_major F libubi_paths i = Inl ENOENT
        \<or> (\<exists>y. ubi_dev_major F libubi_paths i = Inr y \<and> ((case y of (mj, mn) \<Rightarrow> mj = major) \<longrightarrow> i = n))"
      using missing [of i] there [of i] by (cases "majors i") auto
  qed (use there [OF assms(2)] in auto)
  then show ?thesis
    using info(1) by (auto simp: dev_of_major_def)
qed

lemma type_name_read:
  assumes "good_volume v"
  shows "volume_type (text_line (type_name v)) = Some (uvi_type v)" "length (text_line (type_name v)) < 50"
  using assms
  by (auto simp: volume_type_def type_name_def text_line_def strncmp_eq_def c_string_def good_volume_def
      UBI_STATIC_VOLUME_def UBI_DYNAMIC_VOLUME_def)

lemma shown_volume:
  assumes "shows_volumes F majors vols" "v \<in> vols"
  shows "ubi_get_vol_info1 F libubi_paths (uvi_dev_num v) (uvi_vol_id v) = Some (Inr v)"
proof -
  note files = shown_files [OF assms]
  note good = files(9) [unfolded good_volume_def small_def]
  have major: "vol_get_major F libubi_paths (uvi_dev_num v) (uvi_vol_id v) = Inr (uvi_major v, uvi_minor v)"
    unfolding vol_get_major_def volume_paths
    by (rule read_major_line [OF files(1)]) (use good in simp_all)
  have type: "vol_read_data F (vol_type_file libubi_paths) (uvi_dev_num v) (uvi_vol_id v) 50 = Inr (text_line (type_name v))"
    using files(2) type_name_read(2) [OF files(9)] by (simp add: vol_read_data_def volume_paths read_data_def)
  have ints: "vol_read_int F (vol_alignment libubi_paths) (uvi_dev_num v) (uvi_vol_id v) = Inr (uvi_alignment v)"
    "vol_read_ll F (vol_data_bytes libubi_paths) (uvi_dev_num v) (uvi_vol_id v) = Inr (uvi_data_bytes v)"
    "vol_read_int F (vol_rsvd_ebs libubi_paths) (uvi_dev_num v) (uvi_vol_id v) = Inr (uvi_rsvd_lebs v)"
    "vol_read_int F (vol_eb_size libubi_paths) (uvi_dev_num v) (uvi_vol_id v) = Inr (uvi_leb_size v)"
    "vol_read_int F (vol_corrupted libubi_paths) (uvi_dev_num v) (uvi_vol_id v) = Inr (uvi_corrupted v)"
    using read_pos_line(4) [OF files(3)] read_pos_line(3) [OF files(4)] read_pos_line(4) [OF files(5)]
      read_pos_line(4) [OF files(6)] read_pos_line(4) [OF files(7)] good
    by (simp_all add: vol_read_int_def vol_read_ll_def volume_paths)
  have name: "vol_read_data F (vol_name libubi_paths) (uvi_dev_num v) (uvi_vol_id v) (UBI_VOL_NAME_MAX + 2)
      = Inr (text_line (uvi_name v))"
    using good files(8) by (simp add: vol_read_data_def volume_paths read_data_def text_line_def)
  have "c_string (butlast (text_line (uvi_name v))) = uvi_name v" "text_line (uvi_name v) \<noteq> []"
    using good by (simp_all add: text_line_def c_string_def takeWhile_eq_all_conv) metis
  then show ?thesis
    unfolding ubi_get_vol_info1_def major type name
    using ints good type_name_read(1) [OF files(9)] by simp
qed

lemma shown_probe:
  assumes "shows_volumes F majors vols" and "v \<in> vols" and "sf_stat F node = Inr (True, uvi_major v, uvi_minor v)"
  shows "ubi_probe_node F libubi_paths node = Inr 2"
    "vol_node2nums F libubi_paths node = Inr (uvi_dev_num v, uvi_vol_id v)"
proof -
  note files = shown_files [OF assms(1,2)]
  obtain info where info: "ubi_get_info F libubi_paths = Inr info"
    "dev_of_major F libubi_paths (uvi_major v) info = Inr (Some (uvi_dev_num v, uvi_major v, 0))"
    using shown_major [OF assms(1) files(10)] by blast
  have "uvi_minor v - 1 = uvi_vol_id v" "uvi_minor v \<noteq> 0"
    using files(9) by (simp_all add: good_volume_def small_def)
  then show "ubi_probe_node F libubi_paths node = Inr 2" "vol_node2nums F libubi_paths node = Inr (uvi_dev_num v, uvi_vol_id v)"
    using assms(3) info files(11) by (simp_all add: ubi_probe_node_def vol_node2nums_def volume_paths)
qed

text \<open>
  Property C24. Of the volumes that the kernel lists in sysfs, on any number of UBI devices and in any
  order, \<^verbatim>\<open>ubi_get_vol_info\<close> finds the one behind a node by the node's numbers and returns exactly the type, the
  sizes and the name that the kernel has printed.
\<close>
theorem vol_info_reads_sysfs:
  assumes "shows_volumes F majors vols" and "v \<in> vols" and "sf_stat F node = Inr (True, uvi_major v, uvi_minor v)"
  shows "libubi_open F = Some libubi_paths \<and> ubi_get_vol_info F libubi_paths node = Some (Inr v)"
  using shown_probe [OF assms] shown_volume [OF assms(1,2)] shown_info(1) [of F "dom majors"] assms(1)
  by (simp add: ubi_get_vol_info_def shows_volumes_def)

end
