(* ===== verification/UbiUpdateProps.thy ===== *)
theory UbiUpdateProps
  imports UbiVolumeProps
begin

text \<open>
  \<^verbatim>\<open>ubiupdatevol\<close> on a driver and an image that deliver and take any number of bytes at a time and may be
  interrupted, finitely often: the volume gets the bytes asked for, in order, and the program returns. What it
  does at the end of an image that is too short depends on an old error number.
\<close>

subsection \<open>The volume and the image\<close>

text \<open>
  \<open>src\<close> is the rest of the image, \<open>out\<close> what was written since the update was started, \<open>intr\<close> a bound for the
  interruptions to come.
\<close>

locale volume_io =
  fixes U :: "'u ubi_os" and node name :: string and img :: "byte list"
    and src :: "'u \<Rightarrow> byte list" and out :: "'u \<Rightarrow> byte list" and intr :: "'u \<Rightarrow> nat"
  assumes node_opens: "u_open U node u = None"
    and image_size: "u_img_stat U name u = Inr (int (length img))"
    and image_opens: "\<exists>u1. u_img_open U name u = (None, u1) \<and> src u1 = img"
    and image_seeks: "0 \<le> i \<Longrightarrow> \<exists>u1. u_img_lseek U i u = (None, u1) \<and> src u1 = drop (nat i) (src u)"
    and update_starts: "\<exists>x u1. u_ioctl U node (UBI_IOCVOLUP bytes) u = (Inr (0, x), u1) \<and> out u1 = [] \<and> src u1 = src u"
    and image_read: "u_img_read U False n u = (Bytes d, u1) \<Longrightarrow>
      d = take (length d) (src u) \<and> length d \<le> n \<and> (0 < n \<longrightarrow> src u \<noteq> [] \<longrightarrow> d \<noteq> [])
      \<and> src u1 = drop (length d) (src u) \<and> out u1 = out u \<and> intr u1 \<le> intr u"
    and read_interrupted: "u_img_read U False n u = (ReadErr e, u1) \<Longrightarrow>
      e = EINTR \<and> src u1 = src u \<and> out u1 = out u \<and> intr u1 < intr u"
    and volume_write: "buf \<noteq> [] \<Longrightarrow> u_write U node buf u = (Inr k, u1) \<Longrightarrow>
      0 < k \<and> k \<le> int (length buf) \<and> out u1 = out u @ take (nat k) buf \<and> src u1 = src u \<and> intr u1 \<le> intr u"
    and write_interrupted: "buf \<noteq> [] \<Longrightarrow> u_write U node buf u = (Inl e, u1) \<Longrightarrow>
      e = EINTR \<and> src u1 = src u \<and> out u1 = out u \<and> intr u1 < intr u"
begin

lemma write_all:
  "\<exists>en1 u1. ubi_write U node buf en u = Some (True, en1, u1) \<and> out u1 = out u @ buf \<and> src u1 = src u \<and> intr u1 \<le> intr u"
proof (induction "length buf + intr u" arbitrary: buf en u rule: less_induct)
  case less
  show ?case
  proof (cases "buf = []")
    case True
    then show ?thesis by (simp add: ubi_write.simps)
  next
    case False
    obtain r u1 where w: "u_write U node buf u = (r, u1)"
      by fastforce
    show ?thesis
    proof (cases r)
      case (Inl e)
      note intd = write_interrupted [OF False w [unfolded Inl]]
      have eq: "ubi_write U node buf en u = ubi_write U node buf EINTR u1"
        using w Inl intd False by (subst ubi_write.simps) simp
      show ?thesis
        unfolding eq using less.hyps [of buf u1 EINTR] intd by auto
    next
      case (Inr k)
      note wr = volume_write [OF False w [unfolded Inr]]
      have eq: "ubi_write U node buf en u = ubi_write U node (drop (nat k) buf) en u1"
        using w Inr wr False by (subst ubi_write.simps) simp
      have k: "0 < nat k" "nat k \<le> length buf" "intr u1 \<le> intr u"
        using wr by auto
      then have "length (drop (nat k) buf) + intr u1 < length buf + intr u"
        unfolding length_drop by linarith
      from less.hyps [OF this, of en] show ?thesis
        unfolding eq using wr by (auto simp flip: append_assoc) (metis append_assoc append_take_drop_id order_trans)
    qed
  qed
qed

lemma update_all:
  assumes "0 < leb" "leb < 2 ^ 31"
  shows "0 \<le> bytes \<Longrightarrow> bytes \<le> int (length (src u)) \<Longrightarrow>
    \<exists>u1. update_loop U node False leb bytes en u = Some (True, u1) \<and> out u1 = out u @ take (nat bytes) (src u)"
proof (induction "nat bytes + intr u" arbitrary: bytes en u rule: less_induct)
  case less
  show ?case
  proof (cases "bytes = 0")
    case True
    then show ?thesis by (simp add: update_loop.simps)
  next
    case False
    let ?n = "nat (min leb bytes)"
    have n: "c_uint (c_int (min leb bytes)) = min leb bytes" "0 < ?n" "?n \<le> nat bytes"
      using assms False less.prems by (auto simp: c_uint_def min_def)
    have "src u \<noteq> []"
      using False less.prems by auto
    obtain r u1 where r: "u_img_read U False ?n u = (r, u1)"
      by fastforce
    show ?thesis
    proof (cases r)
      case (ReadErr e)
      note intd = read_interrupted [OF r [unfolded ReadErr]]
      have eq: "update_loop U node False leb bytes en u = update_loop U node False leb bytes EINTR u1"
        using r ReadErr intd False n(1) by (subst update_loop.simps) simp
      show ?thesis
        unfolding eq using less.hyps [of bytes u1 EINTR] intd less.prems by auto
    next
      case (Bytes d)
      note rd = image_read [OF r [unfolded Bytes]]
      have d: "d \<noteq> []" "length d \<le> nat bytes" "length d \<le> length (src u)"
        using rd n(2,3) \<open>src u \<noteq> []\<close> by (auto, metis length_take min.bounded_iff order_refl)
      obtain en1 u2 where w: "ubi_write U node d en u1 = Some (True, en1, u2)" "out u2 = out u1 @ d"
        "src u2 = src u1" "intr u2 \<le> intr u1"
        using write_all by blast
      have eq: "update_loop U node False leb bytes en u = update_loop U node False leb (bytes - int (length d)) en1 u2"
        using r Bytes d(1) False n(1) w(1) by (subst update_loop.simps) simp
      have less1: "nat (bytes - int (length d)) + intr u2 < nat bytes + intr u"
        using d rd w(4) by (cases d) auto
      have rest: "0 \<le> bytes - int (length d)" "bytes - int (length d) \<le> int (length (src u2))"
        using d rd w(3) less.prems by auto
      have "take (nat bytes) (src u) = d @ take (nat (bytes - int (length d))) (src u2)"
        using rd w(3) d(2,3) less.prems
        by (metis nat_diff_distrib' nat_int of_nat_0_le_iff le_add_diff_inverse take_add)
      then show ?thesis
        unfolding eq using less.hyps [OF less1 rest, of en1] rd w(2) by auto
    qed
  qed
qed

lemma update_volume_exact:
  assumes a: "up_img a = Some name" "up_node a = node" "\<not> up_use_stdin a" "0 \<le> up_skip a"
    and b: "bytes = (if up_size a = 0 then int (length img) - up_skip a else up_size a)"
      "0 \<le> bytes" "up_skip a + bytes \<le> int (length img)" "bytes \<le> uvi_rsvd_bytes info"
    and leb: "0 < uvi_leb_size info" "uvi_leb_size info < 2 ^ 31"
  shows "\<exists>u1. update_volume U a info u = Some (True, u1) \<and> out u1 = take (nat bytes) (drop (nat (up_skip a)) img)"
proof -
  have bytes: "update_bytes U a info u = Some bytes"
    using a(1) b(1,4) image_size by (cases "up_size a = 0") (simp_all add: update_bytes_def)
  obtain u1 where u1: "u_img_open U name u = (None, u1)" "src u1 = img"
    using image_opens by blast
  obtain u2 where u2: "u_img_lseek U (up_skip a) u1 = (None, u2)" "src u2 = drop (nat (up_skip a)) img"
    using image_seeks [OF a(4), of u1] u1(2) by auto
  obtain u3 where u3: "open_image U a u = (True, u3)" "src u3 = drop (nat (up_skip a)) img"
    using a(1,3) u1 u2 by (cases "up_skip a = 0") (auto simp: open_image_def)
  obtain x u4 where "u_ioctl U node (UBI_IOCVOLUP bytes) u3 = (Inr (0, x), u4)"
    and u4: "out u4 = []" "src u4 = src u3"
    using update_starts by blast
  then have start: "ubi_update_start U node bytes u3 = (True, u4)"
    by (simp add: ubi_update_start_def fd_ioctl_def is_zero_def)
  have "bytes \<le> int (length (src u4))"
    using u3(2) u4(2) a(4) b(2,3) by auto
  from update_all [OF leb b(2) this, of "EOTHER 0"] obtain u5 where
    "update_loop U node False (uvi_leb_size info) bytes (EOTHER 0) u4 = Some (True, u5)"
    "out u5 = take (nat bytes) (drop (nat (up_skip a)) img)"
    using u3(2) u4 by auto
  then show ?thesis
    using bytes u3(1) start a(2,3) node_opens by (simp add: update_volume_def)
qed

end

text \<open>
  Property C22. \<^verbatim>\<open>ubiupdatevol\<close> with an image that is large enough and fits the volume returns 0, however few bytes
  the image delivers and the volume takes at a time and however often it is interrupted (finitely often); the
  volume then was given exactly the bytes of the image, behind those that are skipped, up to the size.
\<close>
theorem updatevol_writes_image:
  assumes "volume_io U node name img src out intr"
    and "update_parse_opt argv a0 = (OptOk, a)" and "up_img a = Some name" "up_node a = node"
    and "\<not> up_truncate a" "\<not> up_use_stdin a" "0 \<le> up_skip a"
    and "shows_volumes (u_sysfs U u) majors vols" "v \<in> vols"
    and "sf_stat (u_sysfs U u) node = Inr (True, uvi_major v, uvi_minor v)" "0 < uvi_leb_size v"
    and "bytes = (if up_size a = 0 then int (length img) - up_skip a else up_size a)" "0 \<le> bytes"
    and "up_skip a + bytes \<le> int (length img)" "bytes \<le> uvi_rsvd_bytes v"
  shows "\<exists>u1. ubiupdatevol_main U argv a0 u = Some (ToolReturns 0, a, u1)
    \<and> out u1 = take (nat bytes) (drop (nat (up_skip a)) img)"
proof -
  have "good_volume v"
    using shown_files(9) assms(8,9) .
  then have "uvi_leb_size v < 2 ^ 31"
    by (simp add: good_volume_def small_def)
  with volume_io.update_volume_exact [OF assms(1,3,4,6,7,12-15) assms(11)] obtain u1 where
    "update_volume U a v u = Some (True, u1)" "out u1 = take (nat bytes) (drop (nat (up_skip a)) img)"
    by blast
  moreover have "libubi_open (u_sysfs U u) = Some libubi_paths" "ubi_get_vol_info (u_sysfs U u) libubi_paths node = Some (Inr v)"
    using shown_probe [OF assms(8-10)] shown_volume [OF assms(8,9)] shown_info(1) [of "u_sysfs U u" "dom majors"] assms(8)
    by (simp_all add: ubi_get_vol_info_def shows_volumes_def)
  ultimately show ?thesis
    using assms(2,4,5) shown_probe(1) [OF assms(8-10)] by (simp add: ubiupdatevol_main_def)
qed

subsection \<open>An image that is too short\<close>

lemma update_loop_stuck:
  assumes "\<forall>n u. P u \<longrightarrow> (\<exists>u1. u_img_read U stdin n u = (Bytes [], u1) \<and> P u1)" and "P u" "bytes \<noteq> 0"
  shows "update_loop U fd stdin leb bytes EINTR u = None"
proof (rule ccontr)
  let ?stuck = "\<lambda>U stdin u. (\<forall>n u. P u \<longrightarrow> (\<exists>u1. u_img_read U stdin n u = (Bytes [], u1) \<and> P u1)) \<and> P u"
  assume "update_loop U fd stdin leb bytes EINTR u \<noteq> None"
  then obtain y where "update_loop U fd stdin leb bytes EINTR u = Some y"
    by blast
  then have "\<not> (?stuck U stdin u \<and> bytes \<noteq> 0 \<and> EINTR = EINTR)"
  proof (rule update_loop.raw_induct [rotated, where P = "\<lambda>U fd stdin leb bytes en u y.
      \<not> (?stuck U stdin u \<and> bytes \<noteq> 0 \<and> en = EINTR)"])
    fix rec :: "'a ubi_os \<Rightarrow> string \<Rightarrow> bool \<Rightarrow> int \<Rightarrow> int \<Rightarrow> errno \<Rightarrow> 'a \<Rightarrow> (bool \<times> 'a) option"
    fix U :: "'a ubi_os" and fd stdin leb bytes en u y
    assume IH: "\<And>U fd stdin leb bytes en u y. rec U fd stdin leb bytes en u = Some y \<Longrightarrow>
        \<not> (?stuck U stdin u \<and> bytes \<noteq> 0 \<and> en = EINTR)"
      and step: "(if bytes = 0 then Some (True, u)
      else
        (case u_img_read U stdin (nat (c_uint (c_int (min leb bytes)))) u of
           (Bytes d, u1) \<Rightarrow>
             if d = [] then (if en = EINTR then rec U fd stdin leb bytes en u1 else Some (False, u1))
             else do {
               (ok, en1, u2) \<leftarrow> ubi_write U fd d en u1;
               if ok then rec U fd stdin leb (bytes - int (length d)) en1 u2 else Some (False, u2)
             }
         | (ReadErr e, u1) \<Rightarrow> if e = EINTR then rec U fd stdin leb bytes EINTR u1 else Some (False, u1))) = Some y"
    show "\<not> (?stuck U stdin u \<and> bytes \<noteq> 0 \<and> en = EINTR)"
    proof
      assume *: "?stuck U stdin u \<and> bytes \<noteq> 0 \<and> en = EINTR"
      then obtain u1 where u1: "u_img_read U stdin (nat (c_uint (c_int (min leb bytes)))) u = (Bytes [], u1)" "P u1"
        by blast
      then have "rec U fd stdin leb bytes EINTR u1 = Some y"
        using step * by simp
      then show False
        using IH * u1(2) by blast
    qed
  qed
  then show False
    using assms by blast
qed

text \<open>
  When the input ends before all bytes are written (\<open>P\<close>: no more bytes come), what happens
  depends on the error number that is left from an earlier call: if a write was interrupted, the loop of
  \<^verbatim>\<open>update_volume\<close> reads the end of the input for ever, otherwise it is an error.
\<close>
theorem short_input_errno:
  assumes "\<forall>n u. P u \<longrightarrow> (\<exists>u1. u_img_read U stdin n u = (Bytes [], u1) \<and> P u1)" and "P u" and "bytes \<noteq> 0"
  shows "update_loop U fd stdin leb bytes en u =
    (if en = EINTR then None
     else Some (False, snd (u_img_read U stdin (nat (c_uint (c_int (min leb bytes)))) u)))"
proof -
  obtain u1 where "u_img_read U stdin (nat (c_uint (c_int (min leb bytes)))) u = (Bytes [], u1)"
    using assms by blast
  then show ?thesis
    using update_loop_stuck [OF assms] assms(3) by (cases "en = EINTR") (simp, simp add: update_loop.simps)
qed

subsection \<open>An example\<close>

text \<open>
  A volume of five logical eraseblocks of 4 bytes. The image comes three bytes at a time and the volume
  takes two; \<open>vs_intr\<close> interruptions come first.
\<close>

definition root_volume :: ubi_vol_info where
  "root_volume = \<lparr>uvi_dev_num = 0, uvi_vol_id = 0, uvi_major = 250, uvi_minor = 1, uvi_type = UBI_DYNAMIC_VOLUME,
     uvi_alignment = 1, uvi_data_bytes = 20, uvi_rsvd_bytes = 20, uvi_rsvd_lebs = 5, uvi_leb_size = 4,
     uvi_corrupted = 0, uvi_name = ''rootfs''\<rparr>"

definition volume_sysfs :: sysfs where
  "volume_sysfs =
     \<lparr>sf_file = (\<lambda>p. case map_of ((''/sys/class/ubi/version'', text_line (fmt_d 1))
            # (''/sys/class/misc/ubi_ctrl/dev'', text_line (fmt_d 10 @ '':'' @ fmt_d 59))
            # (ubi_path 0 @ ''/dev'', text_line (fmt_d 250 @ '':'' @ fmt_d 0)) # vol_files root_volume) p of
          None \<Rightarrow> Inl ENOENT | Some s \<Rightarrow> Inr s),
      sf_dir = (\<lambda>p. Inr [''.'', ''..'', ''ubi'' @ fmt_d 0 @ ''_'' @ fmt_d 0, ''version'', ''ubi'' @ fmt_d 0]),
      sf_stat = (\<lambda>p. Inr (True, 250, 1)), sf_junk = [], sf_open_node = (\<lambda>p. None),
      sf_memgetinfo = (\<lambda>p. Inl EIO), sf_memgetbadblock = (\<lambda>p. None)\<rparr>"

record vol_sim =
  vs_src :: "byte list"
  vs_out :: "byte list"
  vs_intr :: nat

definition sim_image :: "byte list" where
  "sim_image = [1, 2, 3, 4, 5, 6]"

definition sim_vol_ioctl :: "string \<Rightarrow> ubi_req \<Rightarrow> vol_sim \<Rightarrow> (errno + int \<times> int) \<times> vol_sim" where
  "sim_vol_ioctl fd req s = (case req of UBI_IOCVOLUP n \<Rightarrow> (Inr (0, 0), s\<lparr>vs_out := []\<rparr>) | _ \<Rightarrow> (Inl ENOTTY, s))"

definition sim_volume :: "vol_sim ubi_os" where
  "sim_volume = \<lparr>u_sysfs = (\<lambda>s. volume_sysfs), u_open = (\<lambda>node s. None), u_ioctl = sim_vol_ioctl,
     u_write = (\<lambda>fd buf s. if vs_intr s > 0 then (Inl EINTR, s\<lparr>vs_intr := vs_intr s - 1\<rparr>)
        else let k = min 2 (length buf) in (Inr (int k), s\<lparr>vs_out := vs_out s @ take k buf\<rparr>)),
     u_img_stat = (\<lambda>name s. Inr (int (length sim_image))), u_img_open = (\<lambda>name s. (None, s\<lparr>vs_src := sim_image\<rparr>)),
     u_img_lseek = (\<lambda>n s. (None, s\<lparr>vs_src := drop (nat n) (vs_src s)\<rparr>)),
     u_img_read = (\<lambda>stdin n s. if vs_intr s > 0 then (ReadErr EINTR, s\<lparr>vs_intr := vs_intr s - 1\<rparr>)
        else let d = take (min n 3) (vs_src s) in (Bytes d, s\<lparr>vs_src := drop (length d) (vs_src s)\<rparr>))\<rparr>"

lemma take_all_min [simp]: "take (min (length xs) n) xs = take n xs"
  by (simp add: min_def)

interpretation vol: volume_io sim_volume node name sim_image vs_src vs_out vs_intr for node name
proof unfold_locales
  show "d = take (length d) (vs_src u) \<and> length d \<le> n \<and> (0 < n \<longrightarrow> vs_src u \<noteq> [] \<longrightarrow> d \<noteq> [])
      \<and> vs_src u1 = drop (length d) (vs_src u) \<and> vs_out u1 = vs_out u \<and> vs_intr u1 \<le> vs_intr u"
    if "u_img_read sim_volume False n u = (Bytes d, u1)" for n u d u1
    using that by (auto simp: sim_volume_def Let_def split: if_splits)
qed (auto simp: sim_volume_def sim_vol_ioctl_def Let_def split: if_splits)

lemma volume_shown: "shows_volumes volume_sysfs (Map.empty(0 \<mapsto> 250)) {root_volume}"
  unfolding shows_volumes_def ubi_class_shows_def
proof (intro conjI exI)
  let ?F = volume_sysfs and ?m = "Map.empty(0 \<mapsto> 250) :: int \<Rightarrow> int option"
  show "\<forall>n \<in> dom ?m. small n" "attached_ok ?m"
    by (simp_all add: small_def attached_ok_def)
  show "sf_dir ?F ''/sys/class/ubi'' = Inr [''.'', ''..'', ''ubi'' @ fmt_d 0 @ ''_'' @ fmt_d 0, ''version'', ''ubi'' @ fmt_d 0]"
    by (simp add: volume_sysfs_def)
  have "ubi_entry (dom ?m) (''ubi'' @ fmt_d 0 @ ''_'' @ fmt_d 0)" "ubi_entry (dom ?m) (''ubi'' @ fmt_d 0)"
    unfolding ubi_entry_def by (rule disjI2, rule bexI [of _ 0]; force)+
  then show "list_all (ubi_entry (dom ?m)) [''.'', ''..'', ''ubi'' @ fmt_d 0 @ ''_'' @ fmt_d 0, ''version'', ''ubi'' @ fmt_d 0]"
    by (simp add: ubi_entry_def [of _ "''.''"] ubi_entry_def [of _ "''..''"] ubi_entry_def [of _ "''version''"])
  show "\<forall>n \<in> dom ?m. ''ubi'' @ fmt_d n \<in> set [''.'', ''..'', ''ubi'' @ fmt_d 0 @ ''_'' @ fmt_d 0, ''version'', ''ubi'' @ fmt_d 0]"
    by simp
  show "sf_file ?F ''/sys/class/ubi/version'' = Inr (text_line (fmt_d 1))" "small 10" "small 59"
    by (simp_all add: volume_sysfs_def small_def)
  show "sf_file ?F ''/sys/class/misc/ubi_ctrl/dev'' = Inr (text_line (fmt_d 10 @ '':'' @ fmt_d 59))"
    by (simp add: volume_sysfs_def)
  show "\<forall>n. sf_file ?F (ubi_path n @ ''/dev'') = (case ?m n of None \<Rightarrow> Inl ENOENT
      | Some major \<Rightarrow> Inr (text_line (fmt_d major @ '':'' @ fmt_d 0)))"
    by (simp add: volume_sysfs_def ubi_path_def vol_files_def vol_path_def root_volume_def fmt_d_split fmt_d_inj)
  have good: "good_volume root_volume"
    by (simp add: good_volume_def root_volume_def small_def UBI_DYNAMIC_VOLUME_def UBI_VOL_NAME_MAX_def)
  moreover have "path_opens ?F (vol_path 0 0)"
    by (simp add: path_opens_def volume_sysfs_def)
  moreover have "sf_file ?F p = Inr t" if "(p, t) \<in> set (vol_files root_volume)" for p t
    using that by (auto simp: volume_sysfs_def vol_files_def vol_path_def ubi_path_def root_volume_def fmt_d_split fmt_d_inj)
  ultimately show "\<forall>v \<in> {root_volume}. good_volume v \<and> ?m (uvi_dev_num v) = Some (uvi_major v)
      \<and> path_opens ?F (vol_path (uvi_dev_num v) (uvi_vol_id v)) \<and> (\<forall>(path, s) \<in> set (vol_files v). sf_file ?F path = Inr s)"
    by (auto simp: root_volume_def)
qed

theorem vol_info_reads_sysfs_witness:
  "libubi_open volume_sysfs = Some libubi_paths
   \<and> ubi_get_vol_info volume_sysfs libubi_paths ''/dev/ubi0_0'' = Some (Inr root_volume)"
  by (rule vol_info_reads_sysfs [OF volume_shown]) (simp_all add: volume_sysfs_def root_volume_def)

theorem updatevol_writes_image_witness:
  "\<exists>a s. ubiupdatevol_main sim_volume [''-s'', ''4'', ''--skip'', ''1'', ''/dev/ubi0_0'', ''root.ubifs''] update_args0
      \<lparr>vs_src = [], vs_out = [], vs_intr = 3\<rparr> = Some (ToolReturns 0, a, s) \<and> vs_out s = [2, 3, 4, 5]"
proof -
  have "opt_longlong (Some ''4'') = (4, False)" "opt_longlong (Some ''1'') = (1, False)"
    by (simp_all add: opt_longlong_def simple_strtoull_def strtou_def scan_number_def scan_prefixed_def
        scan_magnitude_def is_digit_of_def digit_val_def c_isspace_def)
  then have parsed: "update_parse_opt [''-s'', ''4'', ''--skip'', ''1'', ''/dev/ubi0_0'', ''root.ubifs''] update_args0
    = (OptOk, \<lparr>up_truncate = False, up_node = ''/dev/ubi0_0'', up_img = Some ''root.ubifs'', up_size = 4, up_skip = 1,
        up_use_stdin = False\<rparr>)"
    by (simp add: update_parse_opt_def update_short_def update_long_def long_matches_def Let_def update_args0_def upt_rec)
  have files: "shows_volumes (u_sysfs sim_volume u) (Map.empty(0 \<mapsto> 250)) {root_volume}" for u
    using volume_shown by (simp add: sim_volume_def)
  have stat: "sf_stat (u_sysfs sim_volume u) node = Inr (True, 250, 1)" for u node
    by (simp add: sim_volume_def volume_sysfs_def)
  show ?thesis
    using updatevol_writes_image [OF vol.volume_io_axioms parsed _ _ _ _ _ files, where v = root_volume and bytes = 4
        and node = "''/dev/ubi0_0''" and name = "''root.ubifs''" and u = "\<lparr>vs_src = [], vs_out = [], vs_intr = 3\<rparr>"]
    by (force simp: root_volume_def sim_image_def stat)
qed

theorem short_input_errno_witness:
  "update_loop sim_volume ''/dev/ubi0_0'' False 4 6 EINTR \<lparr>vs_src = [], vs_out = [9], vs_intr = 0\<rparr> = None
   \<and> update_loop sim_volume ''/dev/ubi0_0'' False 4 6 EIO \<lparr>vs_src = [], vs_out = [9], vs_intr = 0\<rparr>
      = Some (False, \<lparr>vs_src = [], vs_out = [9], vs_intr = 0\<rparr>)"
proof -
  have at_end: "\<forall>n u. vs_src u = [] \<and> vs_intr u = 0 \<longrightarrow>
      (\<exists>u1. u_img_read sim_volume False n u = (Bytes [], u1) \<and> vs_src u1 = [] \<and> vs_intr u1 = 0)"
    by (simp add: sim_volume_def)
  note run = short_input_errno [where P = "\<lambda>u. vs_src u = [] \<and> vs_intr u = 0", OF at_end]
  show ?thesis
    by (simp add: run) (simp add: sim_volume_def)
qed

end
