(* ===== verification/OfgState.thy ===== *)
theory OfgState
  imports CStrings
begin

text \<open>
  The state of the ofgwrite process: the global variables of \<^verbatim>\<open>ofgwrite.c\<close> (declared for the other
  files in \<^verbatim>\<open>ofgwrite.h\<close>) as one record \<open>gst\<close>, its enumerations, and the record \<open>env\<close> of what the
  selection phase reads from outside the program: files under \<^verbatim>\<open>/proc\<close>, directories, file
  attributes, the mount table, partition tables and device sizes. A character array is the string
  before its terminating zero; the arrays are large enough for what is copied into them.
\<close>

subsection \<open>The enumerations of ofgwrite.h\<close>

datatype RootfsTypeEnum = UNKNOWN | UBIFS | JFFS2 | EXT4 | EXT3

datatype FlashModeTypeEnum =
  FLASH_MODE_UNKNOWN | MTD | TARBZ2 | TARBZ2_MTD | UBI_LOOP_SUBDIR | TARXZ_UBI

datatype ImageTypeEnum = IMAGE_UNKNOWN | UBI | TAR_BASED | TAR_UBI

text \<open>What \<^verbatim>\<open>struct stat\<close> contributes; \<open>st_special\<close> is \<^verbatim>\<open>S_ISBLK || S_ISCHR\<close> of the mode.\<close>

record file_stat =
  st_size :: int
  st_dev :: int
  st_rdev :: int
  st_special :: bool

definition no_stat :: file_stat where
  "no_stat = \<lparr>st_size = 0, st_dev = 0, st_rdev = 0, st_special = False\<rparr>"

subsection \<open>The global variables\<close>

record gst =
  kernel_file_stat :: file_stat
  rootfs_file_stat :: file_stat
  kernel_device_arg :: string
  rootfs_device_arg :: string
  kernel_device :: string
  rootfs_device :: string
  rootfs_sub_dir :: string
  rootfs_fs_type :: "string option"
  found_kernel_device :: bool
  found_rootfs_device :: bool
  user_kernel :: bool
  user_rootfs :: bool
  user_slotname :: bool
  user_currentslotcode :: bool
  currentslotcode :: int
  rootsubdir_check :: bool
  multiboot_partition :: int
  kexec_mode :: string
  current_rootfs_device :: string
  current_kernel_device :: string
  current_rootfs_sub_dir :: string
  ubi_fs_name :: string
  kernel_flash_mode :: FlashModeTypeEnum
  rootfs_flash_mode :: FlashModeTypeEnum
  image_type :: ImageTypeEnum
  android :: bool
  flash_kernel :: bool
  flash_rootfs :: bool
  no_write :: bool
  force_e2_stop :: bool
  g_quiet :: bool
  show_help :: bool
  newroot_mounted :: bool
  kernel_filename :: string
  rootfs_filename :: string
  nfi_filename :: string
  nfi_path :: string
  rootfs_mount_point :: string
  slotname :: string
  boxname :: "string option"
  rootfs_type :: RootfsTypeEnum
  stop_e2_needed :: bool
  chkroot_mode :: bool
  mountlist :: "string list"

text \<open>The initial values: zero, but for the initialisers of the declarations.\<close>

definition initial_gst :: gst where
  "initial_gst =
     \<lparr>kernel_file_stat = no_stat, rootfs_file_stat = no_stat,
      kernel_device_arg = '''', rootfs_device_arg = '''', kernel_device = '''',
      rootfs_device = '''', rootfs_sub_dir = '''', rootfs_fs_type = None,
      found_kernel_device = False, found_rootfs_device = False, user_kernel = False,
      user_rootfs = False, user_slotname = False, user_currentslotcode = False,
      currentslotcode = 0, rootsubdir_check = False, multiboot_partition = 0, kexec_mode = '''',
      current_rootfs_device = '''', current_kernel_device = '''', current_rootfs_sub_dir = '''',
      ubi_fs_name = '''', kernel_flash_mode = FLASH_MODE_UNKNOWN,
      rootfs_flash_mode = FLASH_MODE_UNKNOWN, image_type = IMAGE_UNKNOWN, android = False,
      flash_kernel = False, flash_rootfs = False, no_write = False, force_e2_stop = False,
      g_quiet = False, show_help = False, newroot_mounted = False, kernel_filename = '''',
      rootfs_filename = '''', nfi_filename = '''', nfi_path = '''', rootfs_mount_point = '''',
      slotname = '''', boxname = None, rootfs_type = UNKNOWN, stop_e2_needed = True,
      chkroot_mode = False, mountlist = []\<rparr>"

subsection \<open>The outside world of the selection phase\<close>

record mntent =
  mnt_fsname :: string
  mnt_dir :: string
  mnt_type :: string

text \<open>A GPT entry: whether its \<^verbatim>\<open>lba_start\<close> is not zero, and its name as \<^verbatim>\<open>partname\<close> receives it.\<close>

record gpt_part =
  gp_used :: bool
  gp_name :: string

text \<open>
  \<open>e_text\<close> is the contents of a file \<^verbatim>\<open>fopen(path, "r")\<close> can open; \<open>e_blk\<close> a device \<^verbatim>\<open>open\<close> can
  open, with what \<^verbatim>\<open>BLKGETSIZE64\<close> answers; \<open>e_gpt\<close> the disks with a GPT label in the order busybox
  \<^verbatim>\<open>fdisk -l\<close> visits them. \<open>e_char_signed\<close> is the target's choice for \<^verbatim>\<open>char\<close>, \<open>e_garbage\<close> and
  \<open>e_stack\<close> what uninitialised automatic variables hold.
\<close>

record env =
  e_realpath :: "string \<Rightarrow> string option"
  e_readdir :: "string \<Rightarrow> string list option"
  e_stat :: "string \<Rightarrow> file_stat option"
  e_text :: "string \<Rightarrow> string option"
  e_mounts :: "mntent list option"
  e_access :: "string \<Rightarrow> bool"
  e_gpt :: "(string \<times> gpt_part list) list"
  e_blk :: "string \<Rightarrow> int option option"
  e_char_signed :: bool
  e_garbage :: char
  e_stack :: "string \<times> string \<times> string \<times> string"

text \<open>A function that returns, calls \<^verbatim>\<open>exit\<close>, or dereferences a null pointer.\<close>

datatype 'a flow = Go 'a | Exit int | Crash

fun flow_bind :: "'a flow \<Rightarrow> ('a \<Rightarrow> 'b flow) \<Rightarrow> 'b flow" where
  "flow_bind (Go x) f = f x"
| "flow_bind (Exit n) f = Exit n"
| "flow_bind Crash f = Crash"

lemma flow_bind_Go: "flow_bind m f = Go y \<longleftrightarrow> (\<exists>x. m = Go x \<and> f x = Go y)"
  by (cases m) auto

subsection \<open>Cutting strings\<close>

text \<open>The string before the first occurrence of a character, and what follows it, if it occurs.\<close>

definition before_char :: "char \<Rightarrow> string \<Rightarrow> string" where
  "before_char c s = takeWhile (\<lambda>d. d \<noteq> c) s"

definition after_char :: "char \<Rightarrow> string \<Rightarrow> string option" where
  "after_char c s = (case dropWhile (\<lambda>d. d \<noteq> c) s of [] \<Rightarrow> None | _ # t \<Rightarrow> Some t)"

lemma length_after_char [termination_simp]: "after_char c s = Some t \<Longrightarrow> length t < length s"
  by (induction s) (auto simp: after_char_def split: if_splits)

text \<open>
  The pieces between the occurrences of a separator; the loops that put a zero at each separator
  and go on behind it visit them in order.
\<close>

fun pieces :: "char \<Rightarrow> string \<Rightarrow> string list" where
  "pieces c s =
     before_char c s # (case after_char c s of None \<Rightarrow> [] | Some t \<Rightarrow> pieces c t)"

declare pieces.simps [simp del]

lemma before_char_append: "c \<notin> set s \<Longrightarrow> before_char c (s @ c # t) = s"
  by (induction s) (auto simp: before_char_def)

lemma after_char_append: "c \<notin> set s \<Longrightarrow> after_char c (s @ c # t) = Some t"
  by (induction s) (auto simp: after_char_def)

lemma before_char_none: "c \<notin> set s \<Longrightarrow> before_char c s = s"
  by (induction s) (auto simp: before_char_def)

lemma after_char_none: "c \<notin> set s \<Longrightarrow> after_char c s = None"
  by (induction s) (auto simp: after_char_def)

lemma pieces_single: "c \<notin> set s \<Longrightarrow> pieces c s = [s]"
  by (simp add: pieces.simps [of c s] before_char_none after_char_none)

lemma pieces_Cons: "c \<notin> set s \<Longrightarrow> pieces c (s @ c # t) = s # pieces c t"
  by (simp add: pieces.simps [of c "s @ c # t"] before_char_append after_char_append)

end
