(* ===== verification/CmdlineParser.thy ===== *)
theory CmdlineParser
  imports OfgState
begin

text \<open>
  \<^verbatim>\<open>cmdline_parser.c\<close>: finding the kernel and rootfs partitions in the \<^verbatim>\<open>blkdevparts=\<close> table of the
  kernel command line. A table is \<^verbatim>\<open>dev:part,part,...\<close>, one per block device, separated by
  semicolons; partitions are numbered from 1.
\<close>

subsection \<open>Search by partition names\<close>

definition has_parts :: "string \<Rightarrow> string \<Rightarrow> string \<Rightarrow> bool" where
  "has_parts table a b \<longleftrightarrow> strstr table a \<noteq> None \<and> strstr table b \<noteq> None"

text \<open>The names to search for, and the rootfs directory they imply; \<open>None\<close> where 0 is returned.\<close>

definition part_names :: "env \<Rightarrow> string \<Rightarrow> gst \<Rightarrow> (string \<times> string \<times> gst) option" where
  "part_names e table g =
     (let numbered = ''(linuxkernel'' @ fmt_d (multiboot_partition g) @ '')'';
          sub = g\<lparr>rootfs_sub_dir := ''linuxrootfs'' @ fmt_d (multiboot_partition g)\<rparr>
      in if has_parts table ''(kernel)'' ''(dreambox-rootfs)''
         then Some (''(kernel)'', ''(dreambox-rootfs)'', g)
         else if has_parts table ''(kernel)'' ''(rootfs)'' then Some (''(kernel)'', ''(rootfs)'', g)
         else if has_parts table ''(ekernel)'' ''(rootfs)'' then Some (''(ekernel)'', ''(rootfs)'', g)
         else if has_parts table ''(exkernel)'' ''(exrootfs)''
         then Some (''(exkernel)'', ''(exrootfs)'', g)
         else if has_parts table ''(boot)'' ''(root)'' then Some (''(boot)'', ''(root)'', g)
         else if has_parts table ''(linuxkernel)'' ''(linuxrootfs)''
         then Some (''(linuxkernel)'', ''(linuxrootfs)'', g)
         else if e_access e ''/dev/block/by-name/flag'' \<and> current_rootfs_sub_dir g \<noteq> ''''
         then Some (numbered, ''(rootfs)'', sub)
         else if current_rootfs_sub_dir g \<noteq> '''' then Some (numbered, ''(userdata)'', sub)
         else None)"

definition part_device :: "string \<Rightarrow> int \<Rightarrow> string" where
  "part_device dev n = ''/dev/'' @ dev @ ''p'' @ fmt_d n"

definition found_kernel_at :: "string \<Rightarrow> gst \<Rightarrow> gst" where
  "found_kernel_at d g =
     g\<lparr>found_kernel_device := True, kernel_flash_mode := TARBZ2, kernel_device := d\<rparr>"

definition found_rootfs_at :: "string \<Rightarrow> gst \<Rightarrow> gst" where
  "found_rootfs_at d g =
     g\<lparr>found_rootfs_device := True, rootfs_flash_mode := TARBZ2, rootfs_device := d\<rparr>"

text \<open>The loop over the partitions of one device, from number \<open>n\<close> on.\<close>

fun name_loop :: "string \<Rightarrow> string \<Rightarrow> string \<Rightarrow> int \<Rightarrow> string list \<Rightarrow> gst \<Rightarrow> gst" where
  "name_loop dev kn rn n [] g = g"
| "name_loop dev kn rn n (p # ps) g =
     name_loop dev kn rn (n + 1) ps
       (if strstr p kn \<noteq> None then found_kernel_at (part_device dev n) g
        else if strstr p rn \<noteq> None then found_rootfs_at (part_device dev n) g
        else g)"

definition search_via_part_names :: "env \<Rightarrow> string \<Rightarrow> gst \<Rightarrow> int \<times> gst" where
  "search_via_part_names e table g =
     (case part_names e table g of
        None \<Rightarrow> (0, g)
      | Some (kn, rn, g1) \<Rightarrow>
          (case after_char CHR '':'' table of
             None \<Rightarrow> (-1, g1)
           | Some parts \<Rightarrow>
               let g2 = name_loop (before_char CHR '':'' table) kn rn 1 (pieces CHR '','' parts) g1
               in (if found_kernel_device g2 \<and> found_rootfs_device g2 then 1 else -1, g2)))"

subsection \<open>Search for the partitions the running image uses\<close>

fun current_loop :: "string \<Rightarrow> int \<Rightarrow> string list \<Rightarrow> gst \<Rightarrow> gst" where
  "current_loop dev n [] g = g"
| "current_loop dev n (p # ps) g =
     (let part = dev @ fmt_d n
      in current_loop dev (n + 1) ps
           (if strstr part (current_kernel_device g) \<noteq> None \<and> strstr p ''(linuxkernel'' \<noteq> None
              \<and> current_kernel_device g \<noteq> ''''
            then found_kernel_at (current_kernel_device g) g
            else if strstr part (current_rootfs_device g) \<noteq> None \<and> strstr p ''(userdata)'' \<noteq> None
              \<and> current_rootfs_device g \<noteq> ''''
            then found_rootfs_at (current_rootfs_device g) g
            else g))"

definition search_current_used_partitions :: "env \<Rightarrow> string \<Rightarrow> gst \<Rightarrow> int \<times> gst" where
  "search_current_used_partitions e table g =
     (case after_char CHR '':'' table of
        None \<Rightarrow> (-1, g)
      | Some parts \<Rightarrow>
          let dev = ''/dev/'' @ before_char CHR '':'' table @ ''p''
          in if strstr (current_rootfs_device g) dev = None
                \<or> strstr (current_kernel_device g) dev = None then (-1, g)
             else
               let g2 = current_loop dev 1 (pieces CHR '','' parts) g
               in if found_kernel_device g2 \<and> found_rootfs_device g2
                  then (1, g2\<lparr>rootfs_sub_dir := current_rootfs_sub_dir g2\<rparr>) else (-1, g2))"

subsection \<open>The whole table\<close>

definition search_table :: "env \<Rightarrow> string \<Rightarrow> gst \<Rightarrow> int \<times> gst" where
  "search_table e table g =
     (if current_rootfs_sub_dir g \<noteq> '''' \<and> multiboot_partition g = -1
      then search_current_used_partitions e table g else search_via_part_names e table g)"

fun devices_loop :: "env \<Rightarrow> string list \<Rightarrow> gst \<Rightarrow> gst" where
  "devices_loop e [] g = g"
| "devices_loop e (t # ts) g =
     (case search_table e t g of (ret, g') \<Rightarrow> if ret \<noteq> 0 then g' else devices_loop e ts g')"

definition parse_cmdline_partition_table :: "env \<Rightarrow> string \<Rightarrow> gst \<Rightarrow> gst" where
  "parse_cmdline_partition_table e cmdline g =
     devices_loop e (pieces CHR '';'' (before_char CHR '' '' cmdline)) g"

subsection \<open>The contract of a table search\<close>

text \<open>A state without the fields that selecting partitions may change.\<close>

definition selection_frame :: "gst \<Rightarrow> gst" where
  "selection_frame g =
     g\<lparr>found_kernel_device := False, found_rootfs_device := False,
       kernel_flash_mode := FLASH_MODE_UNKNOWN, rootfs_flash_mode := FLASH_MODE_UNKNOWN,
       kernel_device := '''', rootfs_device := '''', rootfs_sub_dir := ''''\<rparr>"

text \<open>What a selection step may do to a state: a device newly found is a block device to unpack to.\<close>

definition selects :: "gst \<Rightarrow> gst \<Rightarrow> bool" where
  "selects g g' \<longleftrightarrow>
     selection_frame g' = selection_frame g
     \<and> (found_kernel_device g \<longrightarrow> found_kernel_device g')
     \<and> (found_rootfs_device g \<longrightarrow> found_rootfs_device g')
     \<and> (kernel_flash_mode g' = TARBZ2 \<and> found_kernel_device g'
        \<or> kernel_flash_mode g' = kernel_flash_mode g \<and> kernel_device g' = kernel_device g
          \<and> found_kernel_device g' = found_kernel_device g)
     \<and> (rootfs_flash_mode g' = TARBZ2 \<and> found_rootfs_device g'
        \<or> rootfs_flash_mode g' = rootfs_flash_mode g \<and> rootfs_device g' = rootfs_device g
          \<and> found_rootfs_device g' = found_rootfs_device g)"

lemma selects_refl [simp, wf_intros]: "selects g g"
  by (simp add: selects_def)

lemma selects_trans: "selects g1 g2 \<Longrightarrow> selects g2 g3 \<Longrightarrow> selects g1 g3"
  unfolding selects_def by metis

lemma selects_found_kernel [wf_intros]: "selects g (found_kernel_at d g)"
  by (simp add: selects_def selection_frame_def found_kernel_at_def)

lemma selects_found_rootfs [wf_intros]: "selects g (found_rootfs_at d g)"
  by (simp add: selects_def selection_frame_def found_rootfs_at_def)

lemma selects_sub_dir [wf_intros]: "selects g (g\<lparr>rootfs_sub_dir := d\<rparr>)"
  by (simp add: selects_def selection_frame_def)

text \<open>
  The interface of the two searches, as the loop over the devices uses it: the result tells whether
  to go on, a result of 1 promises both devices, and only the selection is changed.
\<close>

locale table_search =
  fixes search :: "env \<Rightarrow> string \<Rightarrow> gst \<Rightarrow> int \<times> gst"
  assumes ret_cases: "search e t g = (ret, g') \<Longrightarrow> ret = 1 \<or> ret = 0 \<or> ret = -1"
    and ret_1: "search e t g = (1, g') \<Longrightarrow> found_kernel_device g' \<and> found_rootfs_device g'"
    and ret_0: "search e t g = (0, g') \<Longrightarrow> g' = g"
    and step_selects: "search e t g = (ret, g') \<Longrightarrow> selects g g'"
begin

text \<open>The loop over the devices, with any search.\<close>

fun over_devices :: "env \<Rightarrow> string list \<Rightarrow> gst \<Rightarrow> gst" where
  "over_devices e [] g = g"
| "over_devices e (t # ts) g =
     (case search e t g of (ret, g') \<Rightarrow> if ret \<noteq> 0 then g' else over_devices e ts g')"

lemma over_devices_selects: "selects g (over_devices e ts g)"
proof (induction ts arbitrary: g)
  case (Cons t ts)
  then show ?case
    by (cases "search e t g") (auto dest: step_selects ret_0)
qed simp

text \<open>The search stops at the first device that does not answer 0.\<close>

lemma over_devices_first:
  "search e t g = (ret, g') \<Longrightarrow> ret \<noteq> 0 \<Longrightarrow> over_devices e (t # ts) g = g'"
  by simp

lemma over_devices_skip:
  "\<forall>t \<in> set pre. fst (search e t g) = 0 \<Longrightarrow> over_devices e (pre @ ts) g = over_devices e ts g"
proof (induction pre)
  case (Cons t pre)
  obtain ret g' where "search e t g = (ret, g')"
    by (cases "search e t g")
  then show ?case
    using Cons ret_0 [of e t g g'] by simp
qed simp

end

lemma selects_name_loop: "selects g (name_loop dev kn rn n ps g)"
proof (induction ps arbitrary: n g)
  case (Cons p ps)
  then show ?case
    by (auto intro: selects_trans [OF selects_found_kernel] selects_trans [OF selects_found_rootfs])
qed simp

lemma selects_current_loop: "selects g (current_loop dev n ps g)"
proof (induction ps arbitrary: n g)
  case (Cons p ps)
  then show ?case
    by (auto simp: Let_def
        intro: selects_trans [OF selects_found_kernel] selects_trans [OF selects_found_rootfs])
qed simp

lemma part_names_state:
  "part_names e t g = Some (kn, rn, g1) \<Longrightarrow> g1 = g \<or> (\<exists>d. g1 = g\<lparr>rootfs_sub_dir := d\<rparr>)"
  by (auto simp: part_names_def Let_def split: if_splits)

lemma part_names_selects: "part_names e t g = Some (kn, rn, g1) \<Longrightarrow> selects g g1"
  by (auto dest!: part_names_state intro: wf_intros)

lemma search_via_selects:
  assumes "search_via_part_names e t g = (ret, g')"
  shows "selects g g'"
proof (cases "part_names e t g")
  case None
  then show ?thesis
    using assms by (simp add: search_via_part_names_def)
next
  case (Some a)
  then obtain kn rn g1 where pn: "part_names e t g = Some (kn, rn, g1)"
    by (cases a) auto
  then have "selects g g1"
    by (rule part_names_selects)
  then show ?thesis
    using assms pn selects_trans [OF _ selects_name_loop]
    by (auto simp: search_via_part_names_def Let_def split: option.splits)
qed

lemma search_via_laws:
  assumes "search_via_part_names e t g = (ret, g')"
  shows "ret = 1 \<or> ret = 0 \<or> ret = -1"
    "ret = 1 \<Longrightarrow> found_kernel_device g' \<and> found_rootfs_device g'"
    "ret = 0 \<Longrightarrow> g' = g"
  using assms by (auto simp: search_via_part_names_def Let_def split: option.splits if_splits)

lemma search_current_laws:
  assumes "search_current_used_partitions e t g = (ret, g')"
  shows "ret = 1 \<or> ret = 0 \<or> ret = -1"
    "ret = 1 \<Longrightarrow> found_kernel_device g' \<and> found_rootfs_device g'"
    "ret \<noteq> 0" "selects g g'"
  using assms selects_current_loop selects_trans [OF selects_current_loop selects_sub_dir]
  by (auto simp: search_current_used_partitions_def Let_def simp del: append_Cons
      split: option.splits if_splits)

interpretation via_names: table_search search_via_part_names
  by unfold_locales (auto dest: search_via_laws search_via_selects)

interpretation current_parts: table_search search_current_used_partitions
  by unfold_locales (auto dest: search_current_laws)

interpretation tables: table_search search_table
  by unfold_locales
    (auto simp: search_table_def split: if_splits
      intro: via_names.step_selects current_parts.step_selects
      dest: via_names.ret_cases current_parts.ret_cases via_names.ret_1 current_parts.ret_1
        via_names.ret_0 current_parts.ret_0)

lemma devices_loop_over: "devices_loop e ts g = tables.over_devices e ts g"
  by (induction ts arbitrary: g) (auto split: prod.splits)

lemma parse_selects: "selects g (parse_cmdline_partition_table e cmdline g)"
  by (simp add: parse_cmdline_partition_table_def devices_loop_over tables.over_devices_selects)

end
