(* ===== verification/GptTable.thy ===== *)
theory GptTable
  imports CmdlineParser
begin

text \<open>
  The ofgwrite part of busybox \<^verbatim>\<open>fdisk -l\<close>: \<^verbatim>\<open>gpt_list_table\<close> of \<^verbatim>\<open>fdisk_gpt.c\<close>, which looks for the
  kernel and rootfs partitions by their GPT names, with the two call-backs of \<^verbatim>\<open>ofgwrite.c\<close> it
  reports a find to.
\<close>

subsection \<open>The call-backs\<close>

definition ext4_kernel_dev_found :: "string \<Rightarrow> int \<Rightarrow> gst \<Rightarrow> gst" where
  "ext4_kernel_dev_found dev n g = found_kernel_at (dev @ ''p'' @ fmt_d n) g"

definition ext4_rootfs_dev_found :: "string \<Rightarrow> int \<Rightarrow> gst \<Rightarrow> gst" where
  "ext4_rootfs_dev_found dev n g = found_rootfs_at (dev @ ''p'' @ fmt_d n) g"

subsection \<open>Numbers in names, as sscanf reads them\<close>

datatype scanned = Scan_EOF | Scan_none | Scan_int int string

definition scan_d :: "string \<Rightarrow> scanned" where
  "scan_d s =
     (let t = dropWhile c_isspace s
      in if t = [] then Scan_EOF
         else if scan_number 10 t = None then Scan_none
         else Scan_int (fst (strtos 32 10 t)) (snd (strtos 32 10 t)))"

definition scan_class :: "(char \<Rightarrow> bool) \<Rightarrow> string \<Rightarrow> (string \<Rightarrow> scanned) \<Rightarrow> scanned" where
  "scan_class P s k =
     (if s = [] then Scan_EOF
      else if \<not> P (hd s) then Scan_none else k (dropWhile P s))"

definition is_lower :: "char \<Rightarrow> bool" where
  "is_lower c \<longleftrightarrow> 97 \<le> (of_char c :: nat) \<and> (of_char c :: nat) \<le> 122"

text \<open>\<^verbatim>\<open>"%*[a-z/]%*dp%d"\<close> and \<^verbatim>\<open>"%*[a-z]%d"\<close>.\<close>

definition scan_device_part :: "string \<Rightarrow> scanned" where
  "scan_device_part s =
     scan_class (\<lambda>c. is_lower c \<or> c = CHR ''/'') s
       (\<lambda>t. case scan_d t of
           Scan_int _ u \<Rightarrow>
             if u = [] then Scan_EOF else if hd u \<noteq> CHR ''p'' then Scan_none else scan_d (tl u)
         | r \<Rightarrow> r)"

definition scan_name_number :: "string \<Rightarrow> scanned" where
  "scan_name_number s = scan_class is_lower s scan_d"

subsection \<open>Searching one disk\<close>

text \<open>The names searched for: kernel, rootfs, and the two special ones of hd51 and h7 boxes.\<close>

record gpt_names =
  kernel_name :: string
  rootfs_name :: string
  kernel_name_hd51 :: string
  rootfs_name_hd51 :: string

definition numbered_names :: "int \<Rightarrow> gpt_names" where
  "numbered_names n =
     \<lparr>kernel_name = ''kernel'' @ fmt_d n, rootfs_name = ''rootfs'' @ fmt_d n,
      kernel_name_hd51 = '''', rootfs_name_hd51 = ''''\<rparr>"

definition sub_dir_names :: "string \<Rightarrow> int \<Rightarrow> gpt_names" where
  "sub_dir_names kn n =
     \<lparr>kernel_name = kn, rootfs_name = ''userdata'',
      kernel_name_hd51 = (if n = 1 then ''linuxkernel'' else ''''),
      rootfs_name_hd51 = (if n = 1 then ''linuxrootfs'' else '''')\<rparr>"

definition first_names :: "gst \<Rightarrow> gpt_names \<times> gst" where
  "first_names g =
     (let n = multiboot_partition g
      in if n \<noteq> -1 \<and> current_rootfs_sub_dir g = '''' then (numbered_names n, g)
         else if n \<noteq> -1 \<and> current_rootfs_sub_dir g \<noteq> ''''
         then (sub_dir_names (''linuxkernel'' @ fmt_d n) n,
               g\<lparr>rootfs_sub_dir := ''linuxrootfs'' @ fmt_d n\<rparr>)
         else (\<lparr>kernel_name = ''kernel'', rootfs_name = ''rootfs'',
                kernel_name_hd51 = '''', rootfs_name_hd51 = ''''\<rparr>, g))"

definition forbidden_part :: "string \<Rightarrow> int \<Rightarrow> string \<Rightarrow> gst \<Rightarrow> bool" where
  "forbidden_part disk n name g \<longleftrightarrow>
     (user_kernel g \<or> user_rootfs g) \<and> (name = ''bp30'' \<or> name = ''bp31'')
     \<and> (let d = drop 5 disk @ ''p'' @ fmt_d n
        in user_kernel g \<and> kernel_device_arg g = d \<or> user_rootfs g \<and> rootfs_device_arg g = d)"

text \<open>
  The first loop: partition \<open>n\<close> and the ones after it, with the two local found flags. It returns
  early when both are found, and ends the program when the user chose a boot parameter partition.
\<close>

definition kernel_match :: "gpt_names \<Rightarrow> string \<Rightarrow> bool" where
  "kernel_match ns name \<longleftrightarrow>
     name = kernel_name ns \<or> kernel_name_hd51 ns \<noteq> '''' \<and> name = kernel_name_hd51 ns"

definition rootfs_match :: "gpt_names \<Rightarrow> string \<Rightarrow> bool" where
  "rootfs_match ns name \<longleftrightarrow>
     name = rootfs_name ns \<or> rootfs_name_hd51 ns \<noteq> '''' \<and> name = rootfs_name_hd51 ns"

text \<open>
  The four tests of one entry. The call-back of a kernel or rootfs find may run twice for the same
  entry, with the same effect; the kernel call-backs do not touch what the rootfs ones set.
\<close>

definition report_part :: "string \<Rightarrow> gpt_names \<Rightarrow> int \<Rightarrow> string \<Rightarrow> gst \<Rightarrow> gst" where
  "report_part disk ns n name g =
     (let g1 = (if kernel_match ns name then ext4_kernel_dev_found disk n g else g)
      in if rootfs_match ns name then ext4_rootfs_dev_found disk n g1 else g1)"

fun gpt_first_loop ::
  "string \<Rightarrow> gpt_names \<Rightarrow> int \<Rightarrow> gpt_part list \<Rightarrow> bool \<Rightarrow> bool \<Rightarrow> gst \<Rightarrow> (bool \<times> bool \<times> gst) flow"
where
  "gpt_first_loop disk ns n [] fk fr g = Go (fk, fr, g)"
| "gpt_first_loop disk ns n (p # ps) fk fr g =
     (if gp_used p then
        let g' = report_part disk ns n (gp_name p) g;
            fk' = (fk \<or> kernel_match ns (gp_name p));
            fr' = (fr \<or> rootfs_match ns (gp_name p))
        in if forbidden_part disk n (gp_name p) g' then Exit 1
           else if fk' \<and> fr' then Go (fk', fr', g')
           else gpt_first_loop disk ns (n + 1) ps fk' fr' g'
      else gpt_first_loop disk ns (n + 1) ps fk fr g)"

text \<open>
  The second loop, with the names of the running image: it visits every partition, and compares
  with the special names even when they are empty.
\<close>

definition report_part_2 :: "string \<Rightarrow> gpt_names \<Rightarrow> int \<Rightarrow> string \<Rightarrow> gst \<Rightarrow> gst" where
  "report_part_2 disk ns n name g =
     (let g1 = (if name = kernel_name ns then ext4_kernel_dev_found disk n g else g);
          g2 = (if name = rootfs_name ns then ext4_rootfs_dev_found disk n g1 else g1);
          g3 = (if name = kernel_name_hd51 ns then ext4_kernel_dev_found disk n g2 else g2)
      in if name = rootfs_name_hd51 ns then ext4_rootfs_dev_found disk n g3 else g3)"

fun gpt_second_loop :: "string \<Rightarrow> gpt_names \<Rightarrow> int \<Rightarrow> gpt_part list \<Rightarrow> gst \<Rightarrow> gst" where
  "gpt_second_loop disk ns n [] g = g"
| "gpt_second_loop disk ns n (p # ps) g =
     gpt_second_loop disk ns (n + 1) ps
       (if gp_used p then report_part_2 disk ns n (gp_name p) g else g)"

text \<open>
  The running image's partition number, taken from its rootfs partition: \<open>None\<close> where the function
  returns. A partition number of 0 asks \<^verbatim>\<open>gpt_part\<close> for entry -1, which is null.
\<close>

definition running_partition :: "gpt_part list \<Rightarrow> gst \<Rightarrow> gst option flow" where
  "running_partition parts g =
     (case scan_device_part (current_rootfs_device g) of
        Scan_EOF \<Rightarrow> Go None
      | Scan_none \<Rightarrow> Go None
      | Scan_int n _ \<Rightarrow>
          if n = -1 then Go None
          else if n < 0 \<or> n > int (length parts) then Go (Some g)
          else if n = 0 then Crash
          else
            (let p = parts ! nat (n - 1)
             in if \<not> gp_used p then Go (Some g)
                else if current_rootfs_sub_dir g = '''' then
                  (case scan_name_number (gp_name p) of
                     Scan_EOF \<Rightarrow> Go None
                   | Scan_none \<Rightarrow> Go (Some g)
                   | Scan_int m _ \<Rightarrow> Go (Some (g\<lparr>multiboot_partition := m\<rparr>)))
                else Go (Some (g\<lparr>multiboot_partition := if gp_name p = ''linuxrootfs'' then 1 else -1\<rparr>))))"

definition second_names :: "gst \<Rightarrow> (gpt_names \<times> gst) option" where
  "second_names g =
     (if multiboot_partition g \<noteq> -1 \<and> current_rootfs_sub_dir g = ''''
      then Some (numbered_names (multiboot_partition g), g)
      else if current_rootfs_sub_dir g \<noteq> ''''
      then Some (sub_dir_names (current_kernel_device g) (multiboot_partition g),
                 g\<lparr>rootfs_sub_dir := current_rootfs_sub_dir g\<rparr>)
      else None)"

text \<open>The search for the partitions of the running image, when nothing was found by name.\<close>

definition gpt_running_search :: "string \<Rightarrow> gpt_part list \<Rightarrow> gst \<Rightarrow> gst flow" where
  "gpt_running_search disk parts g1 =
     flow_bind (running_partition parts g1)
       (\<lambda>r. case r of
            None \<Rightarrow> Go g1
          | Some g2 \<Rightarrow>
              (case second_names g2 of
                 None \<Rightarrow> Go g2
               | Some (ns, g3) \<Rightarrow> Go (gpt_second_loop disk ns 1 parts g3)))"

definition gpt_list_table :: "string \<Rightarrow> gpt_part list \<Rightarrow> gst \<Rightarrow> gst flow" where
  "gpt_list_table disk parts g =
     (case first_names g of
        (ns, g0) \<Rightarrow>
          flow_bind (gpt_first_loop disk ns 1 parts False False g0)
            (\<lambda>(fk, fr, g1).
               if fk \<or> fr \<or> multiboot_partition g1 \<noteq> -1 then Go g1
               else gpt_running_search disk parts g1))"

text \<open>\<^verbatim>\<open>fdisk -l\<close>: every disk with a GPT label, in turn. Its exit code is 0.\<close>

fun fdisk_l :: "(string \<times> gpt_part list) list \<Rightarrow> gst \<Rightarrow> gst flow" where
  "fdisk_l [] g = Go g"
| "fdisk_l ((disk, parts) # ds) g = flow_bind (gpt_list_table disk parts g) (fdisk_l ds)"

subsection \<open>What the search may change\<close>

text \<open>As \<open>selects\<close>, but the search may also settle the multiboot partition.\<close>

definition selects_multi :: "gst \<Rightarrow> gst \<Rightarrow> bool" where
  "selects_multi g g' \<longleftrightarrow> selects (g\<lparr>multiboot_partition := multiboot_partition g'\<rparr>) g'"

lemma selects_multi_refl [simp]: "selects_multi g g"
  by (simp add: selects_multi_def)

lemma selects_keeps_multi: "selects g g' \<Longrightarrow> multiboot_partition g' = multiboot_partition g"
  unfolding selects_def selection_frame_def
  by (drule conjunct1, drule arg_cong [where f = multiboot_partition]) simp

lemma selects_imp_multi: "selects g g' \<Longrightarrow> selects_multi g g'"
  by (simp add: selects_multi_def selects_keeps_multi)

lemma selection_frame_multi:
  "selection_frame (g\<lparr>multiboot_partition := n\<rparr>) = (selection_frame g)\<lparr>multiboot_partition := n\<rparr>"
  by (cases g) (simp add: selection_frame_def)

lemma selects_update_multi:
  "selects g g' \<Longrightarrow> selects (g\<lparr>multiboot_partition := n\<rparr>) (g'\<lparr>multiboot_partition := n\<rparr>)"
  by (simp add: selects_def selection_frame_multi)

lemma selects_multi_trans:
  assumes "selects_multi g1 g2" "selects_multi g2 g3"
  shows "selects_multi g1 g3"
proof -
  have "selects (g1\<lparr>multiboot_partition := multiboot_partition g3\<rparr>)
      (g2\<lparr>multiboot_partition := multiboot_partition g3\<rparr>)"
    using selects_update_multi [of "g1\<lparr>multiboot_partition := multiboot_partition g2\<rparr>" g2] assms
    by (simp add: selects_multi_def)
  then show ?thesis
    using assms(2) selects_trans by (auto simp: selects_multi_def)
qed

lemma selects_then_kernel: "selects g a \<Longrightarrow> selects g (ext4_kernel_dev_found d n a)"
  by (erule selects_trans) (simp add: ext4_kernel_dev_found_def selects_found_kernel)

lemma selects_then_rootfs: "selects g a \<Longrightarrow> selects g (ext4_rootfs_dev_found d n a)"
  by (erule selects_trans) (simp add: ext4_rootfs_dev_found_def selects_found_rootfs)

lemma selects_report [wf_intros]:
  "selects g (report_part d ns n x g)" "selects g (report_part_2 d ns n x g)"
  unfolding report_part_def report_part_2_def Let_def
  by (auto intro!: selects_then_kernel selects_then_rootfs)

lemma selects_gpt_first:
  "gpt_first_loop disk ns n parts fk fr g = Go (fk', fr', g') \<Longrightarrow> selects g g'"
proof (induction parts arbitrary: n fk fr g)
  case (Cons p ps)
  then show ?case
    by (simp add: Let_def split: if_splits)
      (blast intro: selects_trans selects_report dest: Cons.IH)+
qed simp

lemma selects_gpt_second: "selects g (gpt_second_loop disk ns n parts g)"
proof (induction parts arbitrary: n g)
  case (Cons p ps)
  then show ?case
    by (auto intro: selects_trans [OF selects_report(2)])
qed simp

lemma running_partition_multi:
  "running_partition parts g = Go (Some g') \<Longrightarrow> g' = g\<lparr>multiboot_partition := multiboot_partition g'\<rparr>"
  by (auto simp: running_partition_def Let_def split: scanned.splits if_splits)

lemma running_partition_selects: "running_partition parts g = Go (Some g') \<Longrightarrow> selects_multi g g'"
  by (drule running_partition_multi) (simp add: selects_multi_def)

lemma second_names_selects: "second_names g = Some (ns, g') \<Longrightarrow> selects g g'"
  by (auto simp: second_names_def selects_sub_dir split: if_splits)

lemma gpt_running_selects:
  assumes "gpt_running_search disk parts g = Go g'"
  shows "selects_multi g g'"
proof (cases "running_partition parts g")
  case (Go r)
  show ?thesis
  proof (cases r)
    case None
    then show ?thesis
      using assms Go by (simp add: gpt_running_search_def)
  next
    case (Some g2)
    then have "selects_multi g g2"
      using Go by (simp add: running_partition_selects)
    moreover have "selects g2 g'"
    proof (cases "second_names g2")
      case None
      then show ?thesis
        using assms Go Some by (simp add: gpt_running_search_def)
    next
      case (Some s)
      then obtain ns g3 where s: "second_names g2 = Some (ns, g3)"
        by (cases s) auto
      then have "g' = gpt_second_loop disk ns 1 parts g3"
        using assms Go \<open>r = Some g2\<close> by (simp add: gpt_running_search_def)
      then show ?thesis
        using second_names_selects [OF s] selects_gpt_second selects_trans by blast
    qed
    ultimately show ?thesis
      by (blast intro: selects_multi_trans selects_imp_multi)
  qed
qed (use assms in \<open>simp_all add: gpt_running_search_def\<close>)

lemma first_names_selects: "first_names g = (ns, g') \<Longrightarrow> selects g g'"
  by (auto simp: first_names_def Let_def selects_sub_dir split: if_splits)

lemma selects_multi_gpt:
  assumes "gpt_list_table disk parts g = Go g'"
  shows "selects_multi g g'"
proof -
  obtain ns g0 where n: "first_names g = (ns, g0)"
    by (cases "first_names g")
  then obtain fk fr g1 where l: "gpt_first_loop disk ns 1 parts False False g0 = Go (fk, fr, g1)"
    and r: "(if fk \<or> fr \<or> multiboot_partition g1 \<noteq> -1 then Go g1
             else gpt_running_search disk parts g1) = Go g'"
    using assms by (auto simp: gpt_list_table_def flow_bind_Go)
  have "selects_multi g g1"
    using first_names_selects [OF n] selects_gpt_first [OF l]
    by (blast intro: selects_imp_multi selects_trans)
  moreover have "selects_multi g1 g'"
    using r gpt_running_selects by (auto split: if_splits)
  ultimately show ?thesis
    by (rule selects_multi_trans)
qed

lemma selects_multi_fdisk: "fdisk_l ds g = Go g' \<Longrightarrow> selects_multi g g'"
proof (induction ds g rule: fdisk_l.induct)
  case (2 disk parts ds g)
  then show ?case
    by (auto simp: flow_bind_Go intro: selects_multi_trans dest: selects_multi_gpt)
qed simp

end
