(* ===== verification/ReadArgs.thy ===== *)
theory ReadArgs
  imports OfgState Getopt
begin

text \<open>
  The command line of ofgwrite: \<^verbatim>\<open>ReadProcEntry\<close>, \<^verbatim>\<open>find_image_files\<close> and \<^verbatim>\<open>read_args\<close> of
  \<^verbatim>\<open>ofgwrite.c\<close>. The messages are left out.
\<close>

subsection \<open>A one-line file under /proc\<close>

text \<open>
  The reading loop with \<open>room\<close> characters left: the characters stored, and whether a newline ended
  it. The comparison with \<^verbatim>\<open>EOF\<close> is made on a \<^verbatim>\<open>char\<close>: where that is unsigned it never holds, and
  the end of the file is stored as character 255 until the room is used up.
\<close>

fun read_entry :: "bool \<Rightarrow> nat \<Rightarrow> string \<Rightarrow> string \<times> bool" where
  "read_entry sg 0 s = ('''', False)"
| "read_entry sg (Suc room) [] =
     (if sg then ('''', False)
      else let (r, nl) = read_entry sg room [] in (CHR 0xFF # r, nl))"
| "read_entry sg (Suc room) (c # s) =
     (if sg \<and> c = CHR 0xFF then ('''', False)
      else if c = CHR 0x0A then ('''', True)
      else let (r, nl) = read_entry sg room s in (c # r, nl))"

text \<open>
  After a newline the terminating zero replaces it; otherwise it is put one position later, behind
  an element of the array that was never written.
\<close>

definition ReadProcEntry :: "env \<Rightarrow> string \<Rightarrow> string option" where
  "ReadProcEntry e filename =
     map_option (\<lambda>s.
       let (r, nl) = read_entry (e_char_signed e) 18 s
       in takeWhile (\<lambda>c. c \<noteq> CHR 0x00) (if nl then r else r @ [e_garbage e])) (e_text e filename)"

subsection \<open>The image directory\<close>

definition is_kernel_file :: "string \<Rightarrow> bool" where
  "is_kernel_file name \<longleftrightarrow>
     strstr name ''kernel'' \<noteq> None \<and> strstr name ''.bin'' \<noteq> None \<or> name = ''uImage''"

definition rootfs_names :: "string list" where
  "rootfs_names =
     [''rootfs.bin'', ''root_cfe_auto.bin'', ''root_cfe_auto.jffs2'', ''oe_rootfs.bin'',
      ''e2jffs2.img'', ''rootfs.tar.bz2'', ''rootfs.ubi'', ''rootfs.tar.xz'',
      ''rootfs-one.tar.bz2'', ''rootfs-two.tar.bz2'']"

text \<open>\<^verbatim>\<open>stat(path, &st)\<close>; the structure is left alone when it fails.\<close>

definition stat_into :: "env \<Rightarrow> string \<Rightarrow> file_stat \<Rightarrow> file_stat" where
  "stat_into e path old = (case e_stat e path of None \<Rightarrow> old | Some st \<Rightarrow> st)"

definition take_kernel :: "env \<Rightarrow> string \<Rightarrow> gst \<Rightarrow> gst" where
  "take_kernel e file g =
     g\<lparr>kernel_filename := file, kernel_file_stat := stat_into e file (kernel_file_stat g)\<rparr>"

definition take_rootfs :: "env \<Rightarrow> string \<Rightarrow> ImageTypeEnum \<Rightarrow> gst \<Rightarrow> gst" where
  "take_rootfs e file ty g =
     g\<lparr>rootfs_filename := file, rootfs_file_stat := stat_into e file (rootfs_file_stat g),
       image_type := ty\<rparr>"

definition take_nfi :: "env \<Rightarrow> string \<Rightarrow> string \<Rightarrow> gst \<Rightarrow> gst" where
  "take_nfi e path file g =
     g\<lparr>nfi_filename := file, rootfs_file_stat := stat_into e file (rootfs_file_stat g),
       nfi_path := path, image_type := UBI\<rparr>"

text \<open>
  One directory entry. The suffix tests of the code start at the end of the name less 4 or 7: for
  a shorter name that is in front of the array, and taken as no match here.
\<close>

definition check_entry :: "env \<Rightarrow> string \<Rightarrow> string \<Rightarrow> gst \<Rightarrow> gst" where
  "check_entry e path name g =
     (let file = path @ name;
          g1 = (if is_kernel_file name then take_kernel e file g else g);
          g2 = (if name \<in> set rootfs_names
                then take_rootfs e file (if strstr name ''.tar.'' \<noteq> None then TAR_BASED else UBI) g1
                else g1);
          g3 = (if suffix ''.nfi'' name then take_nfi e path file g2 else g2)
      in if suffix ''.tar.xz'' name then take_rootfs e file TAR_UBI g3 else g3)"

definition with_slash :: "string \<Rightarrow> string" where
  "with_slash path = (if path = [] \<or> last path \<noteq> CHR ''/'' then path @ ''/'' else path)"

definition find_image_files :: "env \<Rightarrow> string \<Rightarrow> gst \<Rightarrow> bool \<times> gst" where
  "find_image_files e p g =
     (case e_realpath e p of
        None \<Rightarrow> (False, g)
      | Some path \<Rightarrow>
          let g1 = g\<lparr>kernel_filename := '''', rootfs_filename := '''', nfi_filename := '''',
                     nfi_path := ''''\<rparr>
          in (case e_readdir e (with_slash path) of
                None \<Rightarrow> (False, g1)
              | Some names \<Rightarrow> (True, fold (check_entry e (with_slash path)) names g1)))"

subsection \<open>The options\<close>

definition ofg_short :: "(char \<times> has_arg) list" where
  "ofg_short = parse_optstring ''ac::k::r::ns:m:fqh''"

definition ofg_long :: "long_option list" where
  "ofg_long =
     [(''android'', no_argument, CHR ''a''), (''currentslot'', optional_argument, CHR ''c''),
      (''kernel'', optional_argument, CHR ''k''), (''rootfs'', optional_argument, CHR ''r''),
      (''nowrite'', no_argument, CHR ''n''), (''slotname'', required_argument, CHR ''s''),
      (''multi'', required_argument, CHR ''m''), (''force'', no_argument, CHR ''f''),
      (''quiet'', no_argument, CHR ''q''), (''help'', no_argument, CHR ''h'')]"

text \<open>\<^verbatim>\<open>strtol(s, &endptr, 10)\<close> of 32 bits with the two error tests.\<close>

definition strtol_checked :: "string \<Rightarrow> int option" where
  "strtol_checked s =
     (case scan_number 10 s of
        None \<Rightarrow> None
      | Some (neg, m, _) \<Rightarrow>
          if neg then (if m > 2 ^ 31 then None else Some (- m))
          else if m \<ge> 2 ^ 31 then None else Some m)"

definition kernel_arg_ok :: "string \<Rightarrow> bool" where
  "kernel_arg_ok a \<longleftrightarrow>
     strncmp_eq a ''mtd'' 3 \<or> strncmp_eq a ''mmcblk'' 6 \<or> strncmp_eq a ''sd'' 2
     \<or> strncmp_eq a ''boot'' 4"

definition rootfs_arg_ok :: "string \<Rightarrow> bool" where
  "rootfs_arg_ok a \<longleftrightarrow>
     strncmp_eq a ''mtd'' 3 \<or> strncmp_eq a ''mmcblk'' 6 \<or> strncmp_eq a ''sd'' 2
     \<or> strncmp_eq a ''dreambox-rootfs'' 15"

text \<open>One option; \<open>False\<close> where the function returns 0 from the loop.\<close>

definition read_opt :: "env \<Rightarrow> opt_result \<Rightarrow> gst \<Rightarrow> bool \<times> gst" where
  "read_opt e r g =
     (case r of (opt, _, optarg) \<Rightarrow>
        if opt = CHR ''a'' then
          (True, g\<lparr>boxname := ReadProcEntry e ''/proc/stb/info/model'', android := True\<rparr>)
        else if opt = CHR ''c'' then
          (True, case optarg of
             None \<Rightarrow> g
           | Some a \<Rightarrow> g\<lparr>currentslotcode := atoi a, user_currentslotcode := True\<rparr>)
        else if opt = CHR ''k'' then
          (True, case optarg of
             None \<Rightarrow> g\<lparr>flash_kernel := True\<rparr>
           | Some a \<Rightarrow>
               (if kernel_arg_ok a
                then g\<lparr>flash_kernel := True, kernel_device_arg := a, user_kernel := True\<rparr>
                else g\<lparr>flash_kernel := True\<rparr>))
        else if opt = CHR ''r'' then
          (True, case optarg of
             None \<Rightarrow> g\<lparr>flash_rootfs := True\<rparr>
           | Some a \<Rightarrow>
               (if rootfs_arg_ok a
                then g\<lparr>flash_rootfs := True, rootfs_device_arg := a, user_rootfs := True\<rparr>
                else g\<lparr>flash_rootfs := True\<rparr>))
        else if opt = CHR ''m'' then
          (case optarg of
             None \<Rightarrow> (True, g)
           | Some a \<Rightarrow>
               (case strtol_checked a of
                  None \<Rightarrow> (False, g\<lparr>show_help := True\<rparr>)
                | Some val \<Rightarrow>
                    (True, if val > 0 then g\<lparr>multiboot_partition := val\<rparr>
                           else if val = 0 then g\<lparr>rootsubdir_check := True\<rparr> else g)))
        else if opt = CHR ''s'' then
          (True, case optarg of
             None \<Rightarrow> g | Some a \<Rightarrow> g\<lparr>slotname := a, user_slotname := True\<rparr>)
        else if opt = CHR ''n'' then (True, g\<lparr>no_write := True\<rparr>)
        else if opt = CHR ''f'' then (True, g\<lparr>force_e2_stop := True\<rparr>)
        else if opt = CHR ''q'' then (True, g\<lparr>g_quiet := True\<rparr>)
        else if opt = CHR ''?'' then (False, g\<lparr>show_help := True\<rparr>)
        else (True, g))"

fun read_opts :: "env \<Rightarrow> opt_result list \<Rightarrow> gst \<Rightarrow> bool \<times> gst" where
  "read_opts e [] g = (True, g)"
| "read_opts e (r # rs) g =
     (case read_opt e r g of (ok, g') \<Rightarrow> if ok then read_opts e rs g' else (False, g'))"

definition args_defaults :: "gst \<Rightarrow> gst" where
  "args_defaults g =
     g\<lparr>slotname := ''linuxrootfs'', currentslotcode := 1, multiboot_partition := -1,
       user_kernel := False, user_rootfs := False, user_slotname := False,
       user_currentslotcode := False, android := False, rootsubdir_check := False\<rparr>"

text \<open>\<open>args\<close> is the argument vector without the program's name.\<close>

definition read_args :: "env \<Rightarrow> string list \<Rightarrow> gst \<Rightarrow> bool \<times> gst" where
  "read_args e args g =
     (case getopt_long ofg_short ofg_long args of (opts, pos) \<Rightarrow>
      case read_opts e opts (args_defaults g) of (ok, g1) \<Rightarrow>
        if \<not> ok then (False, g1)
        else if args = [] then (False, g1\<lparr>show_help := True\<rparr>)
        else
          (case pos of
             [] \<Rightarrow> (False, g1\<lparr>show_help := True\<rparr>)
           | [dir] \<Rightarrow>
               (case find_image_files e dir g1 of (found, g2) \<Rightarrow>
                  if \<not> found then (False, g2)
                  else (True, if \<not> flash_kernel g2 \<and> \<not> flash_rootfs g2
                              then g2\<lparr>flash_kernel := True, flash_rootfs := True\<rparr> else g2))
           | _ # _ # _ \<Rightarrow> (False, g1\<lparr>show_help := True\<rparr>)))"

end
