(* ===== verification/DeviceSelect.thy ===== *)
theory DeviceSelect
  imports GptTable ReadArgs
begin

text \<open>
  Choosing the devices: the functions of \<^verbatim>\<open>ofgwrite.c\<close> that read \<^verbatim>\<open>/proc/mtd\<close>, \<^verbatim>\<open>/proc/mounts\<close> and
  \<^verbatim>\<open>/proc/cmdline\<close>, \<^verbatim>\<open>find_kernel_rootfs_device\<close>, which combines them with the user's arguments, and
  \<^verbatim>\<open>check_device_size\<close>. The messages are left out.
\<close>

subsection \<open>Lines and words of a text file\<close>

text \<open>The lines \<^verbatim>\<open>fgets(line, n + 1, f)\<close> returns one after the other, with their newlines.\<close>

definition line_len :: "nat \<Rightarrow> string \<Rightarrow> nat" where
  "line_len n s = min n (Suc (length (takeWhile (\<lambda>c. c \<noteq> CHR 0x0A) s)))"

lemma line_len_pos [termination_simp]: "0 < n \<Longrightarrow> s \<noteq> [] \<Longrightarrow> length s - line_len n s < length s"
  by (cases s) (auto simp: line_len_def)

fun c_lines :: "nat \<Rightarrow> string \<Rightarrow> string list" where
  "c_lines n s =
     (if n = 0 \<or> s = [] then []
      else take (line_len n s) s # c_lines n (drop (line_len n s) s))"

declare c_lines.simps [simp del]

text \<open>The words \<^verbatim>\<open>sscanf(line, "%s%s...")\<close> stores.\<close>

function c_words :: "string \<Rightarrow> string list" where
  "c_words s =
     (let t = dropWhile c_isspace s
      in if t = [] then []
         else takeWhile (\<lambda>c. \<not> c_isspace c) t # c_words (dropWhile (\<lambda>c. \<not> c_isspace c) t))"
  by auto

lemma c_words_decreases:
  assumes "dropWhile c_isspace s \<noteq> []"
  shows "length (dropWhile (\<lambda>c. \<not> c_isspace c) (dropWhile c_isspace s)) < length s"
proof -
  obtain c t where t: "dropWhile c_isspace s = c # t"
    using assms by (cases "dropWhile c_isspace s") auto
  then have "\<not> c_isspace c"
    using hd_dropWhile [OF assms] by simp
  moreover have "length (c # t) \<le> length s"
    using length_dropWhile_le [of c_isspace s] t by simp
  ultimately show ?thesis
    using t length_dropWhile_le [of "\<lambda>c. \<not> c_isspace c" t] by simp
qed

termination c_words
  by (relation "measure length") (auto simp: c_words_decreases)

declare c_words.simps [simp del]

subsection \<open>/proc/mtd\<close>

text \<open>The four buffers of one line; words the line does not have keep what the buffer holds.\<close>

record mtd_fields =
  mf_dev :: string
  mf_size :: string
  mf_esize :: string
  mf_name :: string

definition scan_fields :: "string \<Rightarrow> mtd_fields \<Rightarrow> mtd_fields" where
  "scan_fields line old =
     (case c_words line of
        a # b # c # d # _ \<Rightarrow> \<lparr>mf_dev = a, mf_size = b, mf_esize = c, mf_name = d\<rparr>
      | [a, b, c] \<Rightarrow> old\<lparr>mf_dev := a, mf_size := b, mf_esize := c\<rparr>
      | [a, b] \<Rightarrow> old\<lparr>mf_dev := a, mf_size := b\<rparr>
      | [a] \<Rightarrow> old\<lparr>mf_dev := a\<rparr>
      | [] \<Rightarrow> old)"

definition cut_colon :: "string \<Rightarrow> string" where
  "cut_colon dev = (if dev \<noteq> [] \<and> last dev = CHR '':'' then butlast dev else dev)"

definition devsize :: "mtd_fields \<Rightarrow> int" where
  "devsize f = fst (strtou 32 16 (mf_size f))"

definition bad_erasesize :: "mtd_fields \<Rightarrow> bool" where
  "bad_erasesize f \<longleftrightarrow> mf_esize f = ''0001f000''"

text \<open>The branches of the loop's body: the user's or the automatic kernel or rootfs partition.
  The first result is whether \<^verbatim>\<open>wrong_user_mtd\<close> is set.\<close>

definition user_kernel_line :: "mtd_fields \<Rightarrow> gst \<Rightarrow> bool \<times> gst" where
  "user_kernel_line f g =
     (let g1 = g\<lparr>kernel_device := ''/dev/'' @ kernel_device_arg g\<rparr>
      in if st_size (kernel_file_stat g) \<le> devsize f then
           if mf_name f \<in> {''\"kernel\"'', ''\"nkernel\"'', ''\"kernel2\"'', ''\"boot\"''}
           then (False, g1\<lparr>found_kernel_device := True, kernel_flash_mode := MTD\<rparr>)
           else (True, g1)
         else (True, g1))"

definition user_rootfs_line :: "mtd_fields \<Rightarrow> gst \<Rightarrow> bool \<times> gst" where
  "user_rootfs_line f g =
     (let g1 = g\<lparr>rootfs_device := ''/dev/'' @ rootfs_device_arg g\<rparr>
      in if st_size (rootfs_file_stat g) \<le> devsize f \<and> \<not> bad_erasesize f then
           if mf_name f \<in> {''\"rootfs\"'', ''\"rootfs2\"'', ''\"dreambox-rootfs\"''}
           then (False, g1\<lparr>found_rootfs_device := True, rootfs_flash_mode := MTD\<rparr>)
           else (True, g1)
         else (True, g1))"

definition auto_kernel_name :: "gst \<Rightarrow> string \<Rightarrow> bool" where
  "auto_kernel_name g name \<longleftrightarrow>
     name = ''\"kernel\"'' \<or> name = ''\"nkernel\"''
     \<or> name = ''\"boot\"'' \<and> multiboot_partition g = -1
     \<or> name = ''\"linuxkernel1\"'' \<and> multiboot_partition g = 1
     \<or> name = ''\"linuxkernel2\"'' \<and> multiboot_partition g = 2"

definition auto_kernel_line :: "mtd_fields \<Rightarrow> gst \<Rightarrow> gst" where
  "auto_kernel_line f g =
     (if found_kernel_device g then g
      else
        let g1 = g\<lparr>kernel_device := ''/dev/'' @ mf_dev f\<rparr>
        in if st_size (kernel_file_stat g) \<le> devsize f
           then g1\<lparr>found_kernel_device := True, kernel_flash_mode := MTD\<rparr> else g1)"

definition auto_rootfs_name :: "gst \<Rightarrow> string \<Rightarrow> bool" where
  "auto_rootfs_name g name \<longleftrightarrow>
     name = ''\"rootfs\"'' \<or> name = ''\"dreambox-rootfs\"'' \<or> name = ''\"root\"''
     \<or> name = ''\"userdata\"'' \<and> multiboot_partition g \<noteq> -1"

definition slot_dir :: "gst \<Rightarrow> string" where
  "slot_dir g = slotname g @ fmt_d (multiboot_partition g)"

definition auto_rootfs_line :: "mtd_fields \<Rightarrow> gst \<Rightarrow> gst" where
  "auto_rootfs_line f g =
     (if found_rootfs_device g then g
      else
        let g1 = g\<lparr>rootfs_device := ''/dev/'' @ mf_dev f\<rparr>
        in if st_size (rootfs_file_stat g) \<le> devsize f \<and> \<not> bad_erasesize f then
             (if mf_name f = ''\"userdata\"''
              then g1\<lparr>found_rootfs_device := True, rootfs_flash_mode := TARBZ2_MTD,
                      rootfs_sub_dir := slot_dir g\<rparr>
              else g1\<lparr>found_rootfs_device := True, rootfs_flash_mode := MTD\<rparr>)
           else g1)"

definition mtd_line :: "mtd_fields \<Rightarrow> gst \<Rightarrow> bool \<times> gst" where
  "mtd_line f g =
     (if user_kernel g \<and> mf_dev f = kernel_device_arg g then user_kernel_line f g
      else if user_rootfs g \<and> mf_dev f = rootfs_device_arg g then user_rootfs_line f g
      else if \<not> user_kernel g \<and> auto_kernel_name g (mf_name f) then (False, auto_kernel_line f g)
      else if \<not> user_rootfs g \<and> auto_rootfs_name g (mf_name f) then (False, auto_rootfs_line f g)
      else (False, g))"

definition mtd_entry :: "string \<Rightarrow> mtd_fields \<Rightarrow> mtd_fields" where
  "mtd_entry line old = (let f = scan_fields line old in f\<lparr>mf_dev := cut_colon (mf_dev f)\<rparr>)"

fun mtd_lines :: "string list \<Rightarrow> mtd_fields \<Rightarrow> bool \<Rightarrow> gst \<Rightarrow> bool \<times> gst" where
  "mtd_lines [] old wrong g = (wrong, g)"
| "mtd_lines (line # ls) old wrong g =
     (let f = mtd_entry line old
      in case mtd_line f g of (w, g') \<Rightarrow> mtd_lines ls f (wrong \<or> w) g')"

definition mtd_header_ok :: "mtd_fields \<Rightarrow> bool" where
  "mtd_header_ok f \<longleftrightarrow>
     mf_dev f = ''dev:'' \<and> mf_size f = ''size'' \<and> mf_esize f = ''erasesize'' \<and> mf_name f = ''name''"

definition stack_fields :: "env \<Rightarrow> mtd_fields" where
  "stack_fields e =
     (case e_stack e of (a, b, c, d) \<Rightarrow>
        \<lparr>mf_dev = a, mf_size = b, mf_esize = c, mf_name = d\<rparr>)"

definition read_mtd_file :: "env \<Rightarrow> gst \<Rightarrow> bool \<times> gst" where
  "read_mtd_file e g =
     (case (case e_text e ''/proc/mtd'' of None \<Rightarrow> e_text e ''./mtd'' | Some s \<Rightarrow> Some s) of
        None \<Rightarrow> (False, g)
      | Some s \<Rightarrow>
          (case c_lines 999 s of
             [] \<Rightarrow> (True, g)
           | header # ls \<Rightarrow>
               let f = scan_fields header (stack_fields e)
               in if \<not> mtd_header_ok f then (False, g)
                  else (case mtd_lines ls f False g of (wrong, g') \<Rightarrow> (\<not> wrong, g'))))"

subsection \<open>/proc/mounts\<close>

definition kept_mounts :: "string list" where
  "kept_mounts = [''/'', ''/sys'', ''/dev'', ''/dev/pts'', ''/proc'', ''/var/volatile'']"

text \<open>
  The mount that holds the image files. The guard around this test compares the array
  \<^verbatim>\<open>nfi_filename\<close> itself with zero and always holds.
\<close>

definition holds_image :: "env \<Rightarrow> int \<Rightarrow> mntent \<Rightarrow> gst \<Rightarrow> bool" where
  "holds_image e devno m g \<longleftrightarrow>
     rootfs_filename g = mnt_dir m \<or> rootfs_filename g = mnt_fsname m
     \<or> nfi_filename g = mnt_dir m \<or> nfi_filename g = mnt_fsname m
     \<or> (case e_stat e (mnt_fsname m) of None \<Rightarrow> False | Some st \<Rightarrow> st_rdev st = devno)
     \<or> (case e_stat e (mnt_dir m) of None \<Rightarrow> False | Some st \<Rightarrow> st_dev st = devno)"

definition mount_entry :: "env \<Rightarrow> int \<Rightarrow> mntent \<Rightarrow> gst \<Rightarrow> gst" where
  "mount_entry e devno m g =
     (if (strstr (mnt_fsname m) ''rootfs'' \<noteq> None \<or> strstr (mnt_fsname m) ''ubifs'' \<noteq> None)
         \<and> mnt_dir m = ''/'' \<and> mnt_type m = ''ubifs''
      then g\<lparr>rootfs_type := UBIFS, ubi_fs_name := mnt_fsname m\<rparr>
      else if strstr (mnt_fsname m) ''root'' \<noteq> None \<and> mnt_dir m = ''/'' \<and> mnt_type m = ''jffs2''
      then g\<lparr>rootfs_type := JFFS2\<rparr>
      else if mnt_dir m = ''/'' \<and> mnt_type m = ''ext3''
      then g\<lparr>rootfs_type := EXT3, rootfs_fs_type := Some ''ext3''\<rparr>
      else if mnt_dir m = ''/'' \<and> mnt_type m = ''ext4''
      then g\<lparr>rootfs_type := EXT4, rootfs_fs_type := Some ''ext4''\<rparr>
      else if mnt_dir m = ''/newroot'' \<and> mnt_type m = ''tmpfs''
      then g\<lparr>newroot_mounted := True\<rparr>
      else if holds_image e devno m g then g\<lparr>rootfs_mount_point := mnt_dir m\<rparr>
      else if mnt_dir m \<notin> set kept_mounts then g\<lparr>mountlist := mnt_dir m # mountlist g\<rparr>
      else g)"

definition image_devno :: "file_stat \<Rightarrow> int" where
  "image_devno st = (if st_special st then st_rdev st else st_dev st)"

definition readProcMounts :: "env \<Rightarrow> gst \<Rightarrow> bool \<times> gst" where
  "readProcMounts e g =
     (let g1 = g\<lparr>mountlist := [], rootfs_type := UNKNOWN, rootfs_mount_point := ''''\<rparr>;
          devno = image_devno (rootfs_file_stat g1)
      in case e_mounts e of
           None \<Rightarrow> (False, g1)
         | Some ms \<Rightarrow> (True, fold (mount_entry e devno) ms g1))"

subsection \<open>/proc/cmdline\<close>

text \<open>The destination buffer afterwards.\<close>

definition find_store_substring :: "string \<Rightarrow> string \<Rightarrow> string \<Rightarrow> string" where
  "find_store_substring src cmp dest =
     (case strstr src cmp of
        None \<Rightarrow> dest
      | Some pos \<Rightarrow>
          let stop = (if strstr pos '' '' \<noteq> None then before_char CHR '' '' pos
                      else before_char CHR 0x0A pos)
          in drop (length cmp) stop)"

definition slot_boxes :: "string list" where
  "slot_boxes = [''dm820'', ''dm7080'', ''dm900'', ''dm920'']"

text \<open>The block for boxes whose slot is given by a number; \<^verbatim>\<open>strstr\<close> of a null \<^verbatim>\<open>boxname\<close> crashes.\<close>

definition slot_from_code :: "string \<Rightarrow> gst \<Rightarrow> gst flow" where
  "slot_from_code line g =
     (let others = (strstr line ''others'' \<noteq> None \<or> strstr line ''other2'' \<noteq> None)
      in if \<not> others \<and> boxname g = None then Crash
         else if (others \<or> (\<exists>b \<in> set slot_boxes. strstr (the (boxname g)) b \<noteq> None)
                  \<or> user_currentslotcode g) \<and> multiboot_partition g \<noteq> -1
         then Go (g\<lparr>current_rootfs_sub_dir := slotname g @ fmt_d (currentslotcode g),
                    chkroot_mode := True,
                    force_e2_stop := (\<not> user_currentslotcode g
                                      \<or> currentslotcode g = multiboot_partition g)\<rparr>)
         else Go g)"

definition cmdline_entries :: "string \<Rightarrow> gst \<Rightarrow> gst" where
  "cmdline_entries line g =
     g\<lparr>kexec_mode := find_store_substring line ''kexec='' '''',
       current_rootfs_device := find_store_substring line ''root='' '''',
       current_kernel_device := find_store_substring line ''kernel='' '''',
       current_rootfs_sub_dir := find_store_substring line ''rootsubdir='' ''''\<rparr>"

definition readProcCmdline :: "env \<Rightarrow> gst \<Rightarrow> gst flow" where
  "readProcCmdline e g =
     (case e_text e ''/proc/cmdline'' of
        None \<Rightarrow> Go g
      | Some s \<Rightarrow>
          (case c_lines 4095 s of
             [] \<Rightarrow> Go (g\<lparr>kexec_mode := '''', current_rootfs_device := '''',
                         current_kernel_device := '''', current_rootfs_sub_dir := ''''\<rparr>)
           | line # _ \<Rightarrow>
               flow_bind
                 (slot_from_code line
                    ((cmdline_entries line g)\<lparr>boxname := ReadProcEntry e ''/proc/stb/info/model''\<rparr>))
                 (\<lambda>g1. Go (case strstr line ''blkdevparts='' of
                            None \<Rightarrow> g1
                          | Some pos \<Rightarrow> parse_cmdline_partition_table e (drop 12 pos) g1))))"

subsection \<open>The devices\<close>

definition user_rootfs_step :: "gst \<Rightarrow> gst option" where
  "user_rootfs_step g =
     (if user_rootfs g \<and> rootfs_flash_mode g \<noteq> TARBZ2_MTD \<and> rootfs_flash_mode g \<noteq> MTD then
        if current_rootfs_sub_dir g \<noteq> '''' \<and> multiboot_partition g = -1 \<and> \<not> rootsubdir_check g
        then None
        else
          (let g1 = g\<lparr>found_rootfs_device := True, rootfs_flash_mode := TARBZ2,
                      rootfs_device := ''/dev/'' @ rootfs_device_arg g\<rparr>
           in Some (if current_rootfs_sub_dir g \<noteq> '''' \<and> \<not> rootsubdir_check g
                    then g1\<lparr>rootfs_sub_dir := slot_dir g\<rparr> else g1))
      else Some g)"

definition user_kernel_step :: "gst \<Rightarrow> gst" where
  "user_kernel_step g =
     (if user_kernel g \<and> kernel_flash_mode g \<noteq> MTD then
        g\<lparr>found_kernel_device := True, kernel_flash_mode := TARBZ2,
          kernel_device :=
            (if kexec_mode g \<noteq> ''1'' then ''/dev/'' @ kernel_device_arg g
             else ''/oldroot_remount/'' @ slot_dir g @ ''/'' @ kernel_device_arg g)\<rparr>
      else g)"

definition chkroot_step :: "gst \<Rightarrow> gst" where
  "chkroot_step g =
     (if chkroot_mode g then
        g\<lparr>rootfs_flash_mode :=
            (if image_type g = TAR_BASED then TARBZ2
             else if image_type g = TAR_UBI then TARXZ_UBI else UBI_LOOP_SUBDIR),
          rootfs_sub_dir := slot_dir g\<rparr>
      else g)"

definition kexec_kernel_step :: "gst \<Rightarrow> gst" where
  "kexec_kernel_step g =
     (if \<not> found_kernel_device g \<and> kexec_mode g = ''1'' then
        g\<lparr>found_kernel_device := True, kernel_flash_mode := TARBZ2,
          kernel_device := ''/oldroot_remount/'' @ slot_dir g @ ''/zImage''\<rparr>
      else g)"

definition kexec_rootfs_step :: "gst \<Rightarrow> gst" where
  "kexec_rootfs_step g =
     (if \<not> found_rootfs_device g \<and> kexec_mode g = ''1'' then
        let g1 = g\<lparr>found_rootfs_device := True, rootfs_flash_mode := TARBZ2,
                   rootfs_device := current_rootfs_device g\<rparr>
        in if current_rootfs_sub_dir g \<noteq> '''' \<and> \<not> rootsubdir_check g
           then g1\<lparr>rootfs_sub_dir := slot_dir g\<rparr> else g1
      else g)"

text \<open>Whether another image than the running one is flashed, so that enigma2 can go on.\<close>

definition not_running :: "gst \<Rightarrow> bool" where
  "not_running g \<longleftrightarrow>
     (current_rootfs_sub_dir g = '''' \<and> rootfs_device g \<noteq> current_rootfs_device g
        \<and> rootfs_flash_mode g \<noteq> MTD
      \<or> current_rootfs_sub_dir g \<noteq> '''' \<and> current_rootfs_sub_dir g \<noteq> rootfs_sub_dir g)
     \<and> \<not> force_e2_stop g"

definition stop_step :: "gst \<Rightarrow> gst" where
  "stop_step g = (if not_running g then g\<lparr>stop_e2_needed := False\<rparr> else g)"

definition choose_devices :: "bool \<Rightarrow> gst \<Rightarrow> gst" where
  "choose_devices mtd_kernel_found g =
     (let g1 = (if \<not> found_kernel_device g \<and> mtd_kernel_found then g\<lparr>found_kernel_device := True\<rparr> else g)
      in case user_rootfs_step g1 of
           None \<Rightarrow> g1\<lparr>found_rootfs_device := False\<rparr>
         | Some g2 \<Rightarrow>
             stop_step (kexec_rootfs_step (kexec_kernel_step (chkroot_step (user_kernel_step g2)))))"

definition find_kernel_rootfs_device :: "env \<Rightarrow> gst \<Rightarrow> gst flow" where
  "find_kernel_rootfs_device e g =
     flow_bind (readProcCmdline e g)
       (\<lambda>g1. flow_bind
          (if (\<not> found_kernel_device g1 \<or> \<not> found_rootfs_device g1) \<and> kexec_mode g1 \<noteq> ''1''
           then fdisk_l (e_gpt e) (g1\<lparr>found_kernel_device := False, found_rootfs_device := False\<rparr>)
           else Go g1)
          (\<lambda>g2. Go (choose_devices (found_kernel_device g) g2)))"

subsection \<open>The size check\<close>

text \<open>
  One device: it can be opened (the code also refuses descriptor 0), answers the ioctl, and the
  file is not bigger. The comparison is unsigned.
\<close>

definition device_holds :: "env \<Rightarrow> string \<Rightarrow> int \<Rightarrow> bool" where
  "device_holds e dev sz =
     (case e_blk e dev of
        Some (Some n) \<Rightarrow> \<not> (c_ulonglong sz > n)
      | _ \<Rightarrow> False)"

definition check_device_size :: "env \<Rightarrow> gst \<Rightarrow> bool" where
  "check_device_size e g =
     ((found_kernel_device g \<and> kernel_filename g \<noteq> '''' \<and> kernel_flash_mode g = TARBZ2
         \<and> kexec_mode g \<noteq> ''1'' \<longrightarrow> device_holds e (kernel_device g) (st_size (kernel_file_stat g)))
      \<and> (found_rootfs_device g \<and> rootfs_filename g \<noteq> '''' \<and> rootfs_flash_mode g = TARBZ2
           \<longrightarrow> device_holds e (rootfs_device g) (st_size (rootfs_file_stat g))))"

subsection \<open>The checks of main before anything is written\<close>

text \<open>
  \<^verbatim>\<open>main\<close> from the start to the point where flashing begins: the exit code when it gives up, or the
  state it flashes with. The result of \<^verbatim>\<open>read_mtd_file\<close> is not used.
\<close>

definition flash_checks :: "gst \<Rightarrow> bool" where
  "flash_checks g \<longleftrightarrow>
     \<not> (flash_kernel g \<and> (\<not> found_kernel_device g \<or> kernel_filename g = ''''))
     \<and> \<not> (flash_rootfs g
          \<and> (\<not> found_rootfs_device g \<or> rootfs_filename g = '''' \<and> nfi_filename g = ''''
             \<or> rootfs_type g = UNKNOWN))"

definition main_select :: "env \<Rightarrow> string list \<Rightarrow> gst \<Rightarrow> gst flow" where
  "main_select e args g0 =
     (let g = g0\<lparr>found_kernel_device := False, found_rootfs_device := False,
                 kernel_flash_mode := FLASH_MODE_UNKNOWN, rootfs_flash_mode := FLASH_MODE_UNKNOWN,
                 ubi_fs_name := ''''\<rparr>
      in case read_args e args g of (ok, g1) \<Rightarrow>
         if \<not> ok \<or> show_help g1 then Exit 1
         else
           (case readProcMounts e g1 of (mounts_ok, g2) \<Rightarrow>
            if \<not> mounts_ok then Exit 1
            else
              flow_bind (find_kernel_rootfs_device e (snd (read_mtd_file e g2)))
                (\<lambda>g3. if \<not> flash_checks g3 then Exit 1
                      else if \<not> check_device_size e g3 then Exit 1 else Go g3)))"

end
