(* ===== verification/SelectProps.thy ===== *)
theory SelectProps
  imports DeviceSelect
begin

text \<open>
  Properties of the selection phase: what the partition tables, \<^verbatim>\<open>/proc/mtd\<close>, the mounts and the
  command lines of kernel and user make \<^verbatim>\<open>main\<close> flash.
\<close>

subsection \<open>The table of the kernel command line\<close>

lemma name_loop_snoc:
  "name_loop dev kn rn n (ps @ [p]) g =
     (let g' = name_loop dev kn rn n ps g; d = part_device dev (n + int (length ps))
      in if strstr p kn \<noteq> None then found_kernel_at d g'
         else if strstr p rn \<noteq> None then found_rootfs_at d g' else g')"
  by (induction ps arbitrary: n g) (auto simp: Let_def algebra_simps)

lemma name_loop_kernel:
  assumes "i < length ps" "strstr (ps ! i) kn \<noteq> None"
    and "\<And>k. i < k \<Longrightarrow> k < length ps \<Longrightarrow> strstr (ps ! k) kn = None"
  shows "found_kernel_device (name_loop dev kn rn n ps g)
    \<and> kernel_flash_mode (name_loop dev kn rn n ps g) = TARBZ2
    \<and> kernel_device (name_loop dev kn rn n ps g) = part_device dev (n + int i)"
  using assms
proof (induction ps rule: rev_induct)
  case (snoc p ps)
  show ?case
  proof (cases "i = length ps")
    case True
    then show ?thesis
      using snoc.prems by (simp add: name_loop_snoc Let_def found_kernel_at_def)
  next
    case False
    then have "i < length ps" "strstr p kn = None"
      using snoc.prems(1) snoc.prems(3) [of "length ps"] by auto
    moreover have "strstr (ps ! k) kn = None" if "i < k" "k < length ps" for k
      using snoc.prems(3) [of k] that by (simp add: nth_append)
    ultimately show ?thesis
      using snoc.IH snoc.prems(2)
      by (auto simp: name_loop_snoc Let_def found_rootfs_at_def nth_append)
  qed
qed simp

lemma name_loop_rootfs:
  assumes "i < length ps" "strstr (ps ! i) kn = None" "strstr (ps ! i) rn \<noteq> None"
    and "\<And>k. i < k \<Longrightarrow> k < length ps \<Longrightarrow> strstr (ps ! k) kn \<noteq> None \<or> strstr (ps ! k) rn = None"
  shows "found_rootfs_device (name_loop dev kn rn n ps g)
    \<and> rootfs_flash_mode (name_loop dev kn rn n ps g) = TARBZ2
    \<and> rootfs_device (name_loop dev kn rn n ps g) = part_device dev (n + int i)"
  using assms
proof (induction ps rule: rev_induct)
  case (snoc p ps)
  show ?case
  proof (cases "i = length ps")
    case True
    then show ?thesis
      using snoc.prems by (simp add: name_loop_snoc Let_def found_rootfs_at_def)
  next
    case False
    then have "i < length ps" "strstr p kn \<noteq> None \<or> strstr p rn = None"
      using snoc.prems(1) snoc.prems(4) [of "length ps"] by auto
    moreover have "strstr (ps ! k) kn \<noteq> None \<or> strstr (ps ! k) rn = None"
      if "i < k" "k < length ps" for k
      using snoc.prems(4) [of k] that by (simp add: nth_append)
    ultimately show ?thesis
      using snoc.IH snoc.prems(2,3)
      by (auto simp: name_loop_snoc Let_def found_kernel_at_def nth_append)
  qed
qed simp

text \<open>
  Property C27. With the kernel and rootfs names a table calls for, the search succeeds when some
  partition has each name, and selects the last partition with the kernel name and the last other
  one with the rootfs name, under the device's own name and the number of the partition counted
  from 1; nothing but the selection changes.
\<close>

theorem cmdline_partition_numbers:
  assumes "part_names e table g = Some (kn, rn, g1)"
    and "after_char CHR '':'' table = Some parts" "ps = pieces CHR '','' parts"
    and "i < length ps" "strstr (ps ! i) kn \<noteq> None"
    and "\<And>k. i < k \<Longrightarrow> k < length ps \<Longrightarrow> strstr (ps ! k) kn = None"
    and "j < length ps" "strstr (ps ! j) kn = None" "strstr (ps ! j) rn \<noteq> None"
    and "\<And>k. j < k \<Longrightarrow> k < length ps \<Longrightarrow> strstr (ps ! k) kn \<noteq> None \<or> strstr (ps ! k) rn = None"
  shows "\<exists>g'. search_via_part_names e table g = (1, g')
    \<and> kernel_device g' = ''/dev/'' @ before_char CHR '':'' table @ ''p'' @ fmt_d (int i + 1)
    \<and> rootfs_device g' = ''/dev/'' @ before_char CHR '':'' table @ ''p'' @ fmt_d (int j + 1)
    \<and> kernel_flash_mode g' = TARBZ2 \<and> rootfs_flash_mode g' = TARBZ2
    \<and> selection_frame g' = selection_frame g"
proof -
  define g2 where "g2 = name_loop (before_char CHR '':'' table) kn rn 1 ps g1"
  have k: "found_kernel_device g2 \<and> kernel_flash_mode g2 = TARBZ2
      \<and> kernel_device g2 = part_device (before_char CHR '':'' table) (1 + int i)"
    unfolding g2_def using assms by (intro name_loop_kernel) auto
  have r: "found_rootfs_device g2 \<and> rootfs_flash_mode g2 = TARBZ2
      \<and> rootfs_device g2 = part_device (before_char CHR '':'' table) (1 + int j)"
    unfolding g2_def using assms by (intro name_loop_rootfs) auto
  have s: "search_via_part_names e table g = (1, g2)"
    using assms(1-3) k r by (simp add: search_via_part_names_def g2_def)
  then have "selects g g2"
    by (rule search_via_selects)
  then show ?thesis
    using s k r by (simp add: part_device_def selects_def add.commute)
qed

lemma fmt_d_digits:
  "fmt_d 1 = ''1''" "fmt_d 2 = ''2''" "fmt_d 3 = ''3''" "fmt_d 4 = ''4''"
  by (simp_all add: fmt_d_def print_nat_def digits_rev.simps digit_char_def char_of_def bit_0)

definition example_env :: env where
  "example_env =
     \<lparr>e_realpath = Some, e_readdir = (\<lambda>_. Some []), e_stat = (\<lambda>_. None), e_text = (\<lambda>_. None),
      e_mounts = Some [], e_access = (\<lambda>_. False), e_gpt = [], e_blk = (\<lambda>_. None),
      e_char_signed = True, e_garbage = CHR 0x00, e_stack = ('''', '''', '''', '''')\<rparr>"

lemma example_pieces:
  "pieces CHR '','' ''1M(boot),8M(kernel),-(rootfs)'' = [''1M(boot)'', ''8M(kernel)'', ''-(rootfs)'']"
  by (simp add: pieces.simps before_char_def after_char_def)

theorem cmdline_partition_numbers_witness:
  "\<exists>g'. search_via_part_names example_env ''mmcblk0:1M(boot),8M(kernel),-(rootfs)'' initial_gst = (1, g')
    \<and> kernel_device g' = ''/dev/mmcblk0p2'' \<and> rootfs_device g' = ''/dev/mmcblk0p3''"
proof -
  have a: "part_names example_env ''mmcblk0:1M(boot),8M(kernel),-(rootfs)'' initial_gst
      = Some (''(kernel)'', ''(rootfs)'', initial_gst)"
    by (simp add: part_names_def has_parts_def)
  have b: "after_char CHR '':'' ''mmcblk0:1M(boot),8M(kernel),-(rootfs)''
      = Some ''1M(boot),8M(kernel),-(rootfs)''"
    by (simp add: after_char_def)
  have n: "\<not> (1 < k \<and> k < Suc 0) \<and> (1 < k \<longrightarrow> k < 3 \<longrightarrow> k = 2)" "2 < k \<longrightarrow> \<not> k < 3" for k :: nat
    by auto
  show ?thesis
    using cmdline_partition_numbers
      [OF a b refl, where i = 1 and j = 2, unfolded example_pieces]
    by (simp add: before_char_def fmt_d_digits) (use n in \<open>force simp: less_Suc_eq\<close>)
qed

lemma before_char_through: "c \<notin> set s \<Longrightarrow> before_char c (s @ t) = s @ before_char c t"
  by (induction s) (auto simp: before_char_def)

text \<open>
  When the running image is to be flashed and the first device of the table is not
  the one it runs from, the search gives up there: whatever devices follow, nothing is selected.
\<close>

theorem cmdline_first_device_only:
  assumes "current_rootfs_sub_dir g \<noteq> ''''" "multiboot_partition g = -1"
    and "CHR '':'' \<notin> set dev" "CHR '';'' \<notin> set dev" "CHR '' '' \<notin> set dev"
    and "CHR '';'' \<notin> set parts" "CHR '' '' \<notin> set parts"
    and "strstr (current_rootfs_device g) (''/dev/'' @ dev @ ''p'') = None"
  shows "parse_cmdline_partition_table e (dev @ '':'' @ parts @ '';'' @ rest) g = g"
proof -
  let ?t = "dev @ '':'' @ parts"
  have ret: "search_table e ?t g = (-1, g)"
    using assms by (simp add: search_table_def search_current_used_partitions_def
        after_char_append before_char_append)
  have "before_char CHR '' '' (?t @ '';'' @ rest) = ?t @ '';'' @ before_char CHR '' '' rest"
    using assms before_char_through [of "CHR '' ''" "?t @ '';''" rest] by simp
  moreover have "pieces CHR '';'' (?t @ '';'' @ s) = ?t # pieces CHR '';'' s" for s
    using assms pieces_Cons [of "CHR '';''" ?t s] by simp
  ultimately show ?thesis
    using ret by (simp add: parse_cmdline_partition_table_def)
qed

theorem cmdline_first_device_only_witness:
  "let g = initial_gst\<lparr>multiboot_partition := -1, current_rootfs_sub_dir := ''linuxrootfs1'',
             current_rootfs_device := ''/dev/mmcblk1p23'', current_kernel_device := ''/dev/mmcblk1p19''\<rparr>
   in parse_cmdline_partition_table example_env
        (''mmcblk0'' @ '':'' @ ''4M(cfg)'' @ '';'' @ ''mmcblk1:8M(linuxkernel1),-(userdata)'') g = g"
  unfolding Let_def by (rule cmdline_first_device_only) simp_all

subsection \<open>Values on the kernel command line\<close>

lemma strstr_first:
  "key \<noteq> '''' \<Longrightarrow> \<not> sublist key (pre @ butlast key) \<Longrightarrow> strstr (pre @ key @ t) key = Some (key @ t)"
proof (induction pre)
  case Nil
  then obtain c k where "key = c # k"
    by (cases key) auto
  then show ?case
    by simp
next
  case (Cons c pre)
  have "\<not> prefix key ((c # pre) @ key @ t)"
  proof
    assume "prefix key ((c # pre) @ key @ t)"
    then have p: "prefix key (((c # pre) @ butlast key) @ last key # t)"
      using Cons.prems(1) by (metis append.assoc append_butlast_last_id append_Cons append_Nil)
    have "length key \<le> length ((c # pre) @ butlast key)"
      by simp
    then have "prefix key ((c # pre) @ butlast key)"
      using p prefix_length_prefix by (metis prefixI)
    then show False
      using Cons.prems(2) by (simp add: prefix_imp_sublist)
  qed
  moreover have "\<not> sublist key (pre @ butlast key)"
    using Cons.prems(2) by (auto simp: sublist_Cons_right)
  ultimately show ?case
    using Cons by simp
qed

text \<open>
  A \<open>key=value\<close> of the kernel command line is read exactly: from the first occurrence
  of the key up to the blank that ends it, or to the newline of the last entry.
\<close>

theorem cmdline_value_exact:
  assumes "key \<noteq> ''''" "\<not> sublist key (pre @ butlast key)"
    and "CHR '' '' \<notin> set key" "CHR 0x0A \<notin> set key" "CHR '' '' \<notin> set v" "CHR 0x0A \<notin> set v"
    and "sep = CHR '' '' \<or> sep = CHR 0x0A \<and> CHR '' '' \<notin> set post"
  shows "find_store_substring (pre @ key @ v @ sep # post) key dest = v"
proof -
  have f: "strstr (pre @ key @ v @ sep # post) key = Some (key @ v @ sep # post)"
    using assms by (intro strstr_first)
  have kv: "CHR '' '' \<notin> set (key @ v)" "CHR 0x0A \<notin> set (key @ v)"
    using assms by auto
  show ?thesis
  proof (cases "sep = CHR '' ''")
    case True
    moreover have "strstr (key @ v @ '' '' @ post) '' '' \<noteq> None"
      using strstr_append [of "'' ''" "key @ v" post] by (simp add: strstr_None)
    moreover have "before_char CHR '' '' (key @ v @ CHR '' '' # post) = key @ v"
      using before_char_append [of "CHR '' ''" "key @ v" post] kv by simp
    ultimately show ?thesis
      using f by (simp add: find_store_substring_def)
  next
    case False
    then have s: "sep = CHR 0x0A" "CHR '' '' \<notin> set post"
      using assms(7) by auto
    then have "CHR '' '' \<notin> set (key @ v @ sep # post)"
      using kv by auto
    then have "\<not> sublist '' '' (key @ v @ sep # post)"
      by (auto dest: set_mono_sublist)
    moreover have "before_char CHR 0x0A (key @ v @ CHR 0x0A # post) = key @ v"
      using before_char_append [of "CHR 0x0A" "key @ v" post] kv by simp
    ultimately show ?thesis
      using f s by (simp add: find_store_substring_def strstr_None)
  qed
qed

theorem cmdline_value_exact_witness:
  "find_store_substring ''quiet root=/dev/mmcblk0p3 rootsubdir=linuxrootfs1'' ''root='' ''''
     = ''/dev/mmcblk0p3''"
  using cmdline_value_exact [of "''root=''" "''quiet ''" "''/dev/mmcblk0p3''" "CHR '' ''"
      "''rootsubdir=linuxrootfs1''" "''''"]
  by (simp add: sublist_Cons_right)

subsection \<open>The GPT search\<close>

lemma gpt_first_none:
  assumes "\<And>p. p \<in> set parts \<Longrightarrow> gp_used p \<Longrightarrow>
      \<not> kernel_match ns (gp_name p) \<and> \<not> rootfs_match ns (gp_name p)"
    and "\<not> user_kernel g" "\<not> user_rootfs g"
  shows "gpt_first_loop disk ns n parts False False g = Go (False, False, g)"
  using assms
proof (induction parts arbitrary: n)
  case (Cons p ps)
  then show ?case
    by (simp add: report_part_def forbidden_part_def)
qed simp

lemma gpt_second_snoc:
  "gpt_second_loop disk ns n (ps @ [p]) g =
     (let g' = gpt_second_loop disk ns n ps g
      in if gp_used p then report_part_2 disk ns (n + int (length ps)) (gp_name p) g' else g')"
  by (induction ps arbitrary: n g) (auto simp: Let_def algebra_simps)

text \<open>
  On a box without sub-directories, when no partition is called kernel or rootfs and
  the running image's partition number is found, an unnamed partition at the end of the table is
  taken for both the kernel and the rootfs partition: the second search compares names with the
  empty names of the special boxes.
\<close>

theorem gpt_unnamed_partition_selected:
  assumes "multiboot_partition g = -1" "current_rootfs_sub_dir g = ''''"
    and "\<not> user_kernel g" "\<not> user_rootfs g"
    and "parts = ps @ [\<lparr>gp_used = True, gp_name = ''''\<rparr>]"
    and "\<And>p. p \<in> set parts \<Longrightarrow> gp_used p \<Longrightarrow> gp_name p \<noteq> ''kernel'' \<and> gp_name p \<noteq> ''rootfs''"
    and "running_partition parts g = Go (Some (g\<lparr>multiboot_partition := m\<rparr>))" "m \<noteq> -1"
  shows "\<exists>g'. gpt_list_table disk parts g = Go g'
    \<and> kernel_device g' = disk @ ''p'' @ fmt_d (int (length parts))
    \<and> rootfs_device g' = disk @ ''p'' @ fmt_d (int (length parts))
    \<and> found_kernel_device g' \<and> found_rootfs_device g'
    \<and> kernel_flash_mode g' = TARBZ2 \<and> rootfs_flash_mode g' = TARBZ2"
proof -
  let ?ns = "\<lparr>kernel_name = ''kernel'', rootfs_name = ''rootfs'',
                kernel_name_hd51 = '''', rootfs_name_hd51 = ''''\<rparr>"
  have "gpt_first_loop disk ?ns 1 parts False False g = Go (False, False, g)"
    using assms by (intro gpt_first_none) (auto simp: kernel_match_def rootfs_match_def)
  then have "gpt_list_table disk parts g = gpt_running_search disk parts g"
    using assms(1) by (simp add: gpt_list_table_def first_names_def)
  also have "\<dots> = Go (gpt_second_loop disk (numbered_names m) 1 parts (g\<lparr>multiboot_partition := m\<rparr>))"
    using assms by (simp add: gpt_running_search_def second_names_def)
  finally show ?thesis
    using assms(5)
    by (simp add: gpt_second_snoc Let_def report_part_2_def numbered_names_def add.commute
        ext4_kernel_dev_found_def ext4_rootfs_dev_found_def found_kernel_at_def found_rootfs_at_def)
qed

definition gpt_example :: "gpt_part list" where
  "gpt_example =
     [\<lparr>gp_used = True, gp_name = ''kernel1''\<rparr>, \<lparr>gp_used = True, gp_name = ''rootfs1''\<rparr>,
      \<lparr>gp_used = True, gp_name = ''''\<rparr>]"

lemmas scan_defs =
  scan_device_part_def scan_name_number_def scan_class_def is_lower_def scan_d_def
  c_isspace_def scan_number_def scan_prefixed_def scan_magnitude_def strtos_def is_digit_of_def digit_val_def

lemma running_example:
  "running_partition gpt_example (initial_gst\<lparr>multiboot_partition := -1, current_rootfs_device := ''/dev/mmcblk0p2''\<rparr>)
   = Go (Some (initial_gst\<lparr>multiboot_partition := -1, current_rootfs_device := ''/dev/mmcblk0p2'', multiboot_partition := 1\<rparr>))"
  by (simp add: running_partition_def gpt_example_def scan_defs initial_gst_def of_char_def)

theorem gpt_unnamed_partition_selected_witness:
  "\<exists>g'. gpt_list_table ''/dev/mmcblk0'' gpt_example
         (initial_gst\<lparr>multiboot_partition := -1, current_rootfs_device := ''/dev/mmcblk0p2''\<rparr>) = Go g'
    \<and> kernel_device g' = ''/dev/mmcblk0p3'' \<and> rootfs_device g' = ''/dev/mmcblk0p3''"
proof -
  let ?g = "initial_gst\<lparr>multiboot_partition := -1, current_rootfs_device := ''/dev/mmcblk0p2''\<rparr>"
  have "\<exists>g'. gpt_list_table ''/dev/mmcblk0'' gpt_example ?g = Go g'
    \<and> kernel_device g' = ''/dev/mmcblk0'' @ ''p'' @ fmt_d (int (length gpt_example))
    \<and> rootfs_device g' = ''/dev/mmcblk0'' @ ''p'' @ fmt_d (int (length gpt_example))
    \<and> found_kernel_device g' \<and> found_rootfs_device g'
    \<and> kernel_flash_mode g' = TARBZ2 \<and> rootfs_flash_mode g' = TARBZ2"
    by (rule gpt_unnamed_partition_selected [where ps = "take 2 gpt_example", OF _ _ _ _ _ _ running_example])
      (auto simp: gpt_example_def initial_gst_def)
  then show ?thesis
    by (auto simp: gpt_example_def fmt_d_digits)
qed
subsection \<open>/proc/mtd\<close>

text \<open>What the lines after the header put into the buffers.\<close>

fun mtd_entries :: "string list \<Rightarrow> mtd_fields \<Rightarrow> mtd_fields list" where
  "mtd_entries [] old = []"
| "mtd_entries (line # ls) old = (let f = mtd_entry line old in f # mtd_entries ls f)"

text \<open>A selected flash partition is one of the lines, and the file fits into it.\<close>

definition kernel_fit :: "mtd_fields set \<Rightarrow> gst \<Rightarrow> bool" where
  "kernel_fit E g \<longleftrightarrow>
     (found_kernel_device g \<longrightarrow>
        kernel_flash_mode g = MTD \<and> (user_kernel g \<longrightarrow> kernel_device g = ''/dev/'' @ kernel_device_arg g)
        \<and> (\<exists>f \<in> E. kernel_device g = ''/dev/'' @ mf_dev f \<and> st_size (kernel_file_stat g) \<le> devsize f))"

definition rootfs_fit :: "mtd_fields set \<Rightarrow> gst \<Rightarrow> bool" where
  "rootfs_fit E g \<longleftrightarrow>
     (found_rootfs_device g \<longrightarrow>
        rootfs_flash_mode g \<in> {MTD, TARBZ2_MTD}
        \<and> (user_rootfs g \<longrightarrow> rootfs_device g = ''/dev/'' @ rootfs_device_arg g)
        \<and> (\<exists>f \<in> E. rootfs_device g = ''/dev/'' @ mf_dev f \<and> st_size (rootfs_file_stat g) \<le> devsize f
              \<and> mf_esize f \<noteq> ''0001f000''))"

lemma kernel_fit_line:
  assumes "kernel_fit E g" "f \<in> E"
  shows "mf_dev f = kernel_device_arg g \<Longrightarrow> user_kernel g \<Longrightarrow> kernel_fit E (snd (user_kernel_line f g))"
    "kernel_fit E (snd (user_rootfs_line f g))"
    "\<not> user_kernel g \<Longrightarrow> kernel_fit E (auto_kernel_line f g)"
    "kernel_fit E (auto_rootfs_line f g)"
  using assms
  by (auto simp: kernel_fit_def user_kernel_line_def user_rootfs_line_def auto_kernel_line_def
      auto_rootfs_line_def Let_def) metis+

lemma rootfs_fit_line:
  assumes "rootfs_fit E g" "f \<in> E"
  shows "mf_dev f = rootfs_device_arg g \<Longrightarrow> user_rootfs g \<Longrightarrow> rootfs_fit E (snd (user_rootfs_line f g))"
    "rootfs_fit E (snd (user_kernel_line f g))"
    "\<not> user_rootfs g \<Longrightarrow> rootfs_fit E (auto_rootfs_line f g)"
    "rootfs_fit E (auto_kernel_line f g)"
  using assms
  by (auto simp: rootfs_fit_def user_kernel_line_def user_rootfs_line_def auto_kernel_line_def
      auto_rootfs_line_def bad_erasesize_def Let_def) metis+

lemma mtd_line_fit:
  assumes "mtd_line f g = (w, g')" "kernel_fit E g" "rootfs_fit E g" "f \<in> E"
  shows "kernel_fit E g' \<and> rootfs_fit E g'"
proof -
  have "g' = snd (mtd_line f g)"
    using assms(1) by simp
  then show ?thesis
    using kernel_fit_line [OF assms(2,4)] rootfs_fit_line [OF assms(3,4)] assms(2,3)
    by (simp add: mtd_line_def)
qed

lemma fit_mono: "kernel_fit E g \<Longrightarrow> E \<subseteq> F \<Longrightarrow> kernel_fit F g"
  "rootfs_fit E g \<Longrightarrow> E \<subseteq> F \<Longrightarrow> rootfs_fit F g"
  unfolding kernel_fit_def rootfs_fit_def by blast+

lemma mtd_lines_fit:
  assumes "mtd_lines ls old w g = (w', g')" "kernel_fit E g" "rootfs_fit E g"
    and "set (mtd_entries ls old) \<subseteq> E"
  shows "kernel_fit E g' \<and> rootfs_fit E g'"
  using assms
proof (induction ls arbitrary: old w g)
  case (Cons line ls)
  obtain w1 g1 where l: "mtd_line (mtd_entry line old) g = (w1, g1)"
    by (cases "mtd_line (mtd_entry line old) g")
  then have "kernel_fit E g1 \<and> rootfs_fit E g1"
    using mtd_line_fit [OF l, of E] Cons.prems by (simp add: Let_def)
  then show ?case
    using Cons.IH [of "mtd_entry line old" "w \<or> w1" g1] Cons.prems l by (simp add: Let_def)
qed simp

text \<open>
  Property C29. Whatever \<^verbatim>\<open>/proc/mtd\<close> contains, a partition it selects is one its lines name, the
  image file is not bigger than the size given there, and the rootfs partition has no erase size
  of 0x1f000; it is written through the MTD layer.
\<close>

theorem mtd_selection_fits:
  assumes "e_text e ''/proc/mtd'' = Some s" "c_lines 999 s = header # ls"
    and "read_mtd_file e g = (ok, g')" "\<not> found_kernel_device g" "\<not> found_rootfs_device g"
  shows "(found_kernel_device g' \<longrightarrow> kernel_flash_mode g' = MTD
      \<and> (\<exists>f \<in> set (mtd_entries ls (scan_fields header (stack_fields e))).
           kernel_device g' = ''/dev/'' @ mf_dev f \<and> st_size (kernel_file_stat g') \<le> devsize f))
    \<and> (found_rootfs_device g' \<longrightarrow> rootfs_flash_mode g' \<in> {MTD, TARBZ2_MTD}
      \<and> (\<exists>f \<in> set (mtd_entries ls (scan_fields header (stack_fields e))).
           rootfs_device g' = ''/dev/'' @ mf_dev f \<and> st_size (rootfs_file_stat g') \<le> devsize f
           \<and> mf_esize f \<noteq> ''0001f000''))"
proof -
  let ?f = "scan_fields header (stack_fields e)"
  have fit: "kernel_fit E g \<and> rootfs_fit E g" for E
    using assms(4,5) by (simp add: kernel_fit_def rootfs_fit_def)
  obtain w g1 where l: "mtd_lines ls ?f False g = (w, g1)"
    by (cases "mtd_lines ls ?f False g")
  have "g' = g \<or> g' = g1"
    using assms(1-3) l by (auto simp: read_mtd_file_def Let_def split: if_splits)
  moreover have "kernel_fit (set (mtd_entries ls ?f)) g1 \<and> rootfs_fit (set (mtd_entries ls ?f)) g1"
    using mtd_lines_fit [OF l] fit by blast
  ultimately have "kernel_fit (set (mtd_entries ls ?f)) g' \<and> rootfs_fit (set (mtd_entries ls ?f)) g'"
    using fit by blast
  then show ?thesis
    unfolding kernel_fit_def rootfs_fit_def by blast
qed

definition mtd_example :: env where
  "mtd_example = example_env\<lparr>e_text := (\<lambda>f.
     if f = ''/proc/mtd''
     then Some (''dev: size erasesize name'' @ [CHR 0x0A] @ ''mtd1: 200 100 \"kernel\"'' @ [CHR 0x0A])
     else None)\<rparr>"

lemma mtd_example_lines:
  "c_lines 999 (''dev: size erasesize name'' @ [CHR 0x0A] @ ''mtd1: 200 100 \"kernel\"'' @ [CHR 0x0A])
    = [''dev: size erasesize name'' @ [CHR 0x0A], ''mtd1: 200 100 \"kernel\"'' @ [CHR 0x0A]]"
  by (simp add: c_lines.simps line_len_def numeral_eq_Suc)

lemma mtd_example_words:
  "c_words (''dev: size erasesize name'' @ [CHR 0x0A]) = [''dev:'', ''size'', ''erasesize'', ''name'']"
  "c_words (''mtd1: 200 100 \"kernel\"'' @ [CHR 0x0A]) = [''mtd1:'', ''200'', ''100'', ''\"kernel\"'']"
  by (simp_all add: c_words.simps c_isspace_def)

definition mtd_example_line :: mtd_fields where
  "mtd_example_line = \<lparr>mf_dev = ''mtd1'', mf_size = ''200'', mf_esize = ''100'', mf_name = ''\"kernel\"''\<rparr>"

lemma mtd_example_devsize: "devsize mtd_example_line = 512"
  by (simp add: devsize_def mtd_example_line_def strtou_def scan_defs of_char_def)

definition mtd_example_header :: mtd_fields where
  "mtd_example_header =
     \<lparr>mf_dev = ''dev:'', mf_size = ''size'', mf_esize = ''erasesize'', mf_name = ''name''\<rparr>"

lemma mtd_example_fields:
  "scan_fields (''dev: size erasesize name'' @ [CHR 0x0A]) f = mtd_example_header"
  "mtd_entry (''mtd1: 200 100 \"kernel\"'' @ [CHR 0x0A]) f = mtd_example_line"
  by (simp_all only: scan_fields_def mtd_entry_def mtd_example_words list.case Let_def
      mtd_example_header_def mtd_example_line_def)
    (simp_all add: cut_colon_def)

lemma mtd_example_text:
  "e_text mtd_example ''/proc/mtd''
     = Some (''dev: size erasesize name'' @ [CHR 0x0A] @ ''mtd1: 200 100 \"kernel\"'' @ [CHR 0x0A])"
  by (simp add: mtd_example_def)

lemma read_mtd_example:
  "read_mtd_file mtd_example g = (case mtd_line mtd_example_line g of (w, g') \<Rightarrow> (\<not> w, g'))"
  unfolding read_mtd_file_def mtd_example_text option.case mtd_example_lines list.case Let_def
    mtd_lines.simps mtd_example_fields
  by (simp add: mtd_header_ok_def mtd_example_header_def split: prod.splits)

theorem mtd_selection_fits_witness:
  "\<exists>g'. read_mtd_file mtd_example
          (initial_gst\<lparr>kernel_file_stat := no_stat\<lparr>st_size := 500\<rparr>\<rparr>) = (True, g')
      \<and> found_kernel_device g' \<and> kernel_device g' = ''/dev/mtd1''
      \<and> (\<exists>f \<in> set (mtd_entries [''mtd1: 200 100 \"kernel\"'' @ [CHR 0x0A]] mtd_example_header).
           kernel_device g' = ''/dev/'' @ mf_dev f \<and> 500 \<le> devsize f)"
proof -
  let ?g = "initial_gst\<lparr>kernel_file_stat := no_stat\<lparr>st_size := 500\<rparr>\<rparr>"
  let ?g' = "?g\<lparr>kernel_device := ''/dev/mtd1'', found_kernel_device := True, kernel_flash_mode := MTD\<rparr>"
  have "mtd_line mtd_example_line ?g = (False, ?g')"
    using mtd_example_devsize
    by (simp add: mtd_line_def auto_kernel_line_def auto_kernel_name_def initial_gst_def
        mtd_example_line_def)
  then have r: "read_mtd_file mtd_example ?g = (True, ?g')"
    by (simp add: read_mtd_example)
  show ?thesis
    using mtd_selection_fits [OF mtd_example_text mtd_example_lines r] r
    unfolding mtd_example_fields by (simp add: initial_gst_def no_stat_def)
qed

subsection \<open>What the search for devices keeps\<close>

text \<open>The fields no step of the search for devices writes.\<close>

definition inputs_kept :: "gst \<Rightarrow> gst \<Rightarrow> bool" where
  "inputs_kept g g' \<longleftrightarrow>
     kernel_file_stat g' = kernel_file_stat g \<and> rootfs_file_stat g' = rootfs_file_stat g
     \<and> kernel_device_arg g' = kernel_device_arg g \<and> rootfs_device_arg g' = rootfs_device_arg g
     \<and> user_kernel g' = user_kernel g \<and> user_rootfs g' = user_rootfs g
     \<and> flash_kernel g' = flash_kernel g \<and> flash_rootfs g' = flash_rootfs g
     \<and> no_write g' = no_write g \<and> kernel_filename g' = kernel_filename g
     \<and> rootfs_filename g' = rootfs_filename g \<and> nfi_filename g' = nfi_filename g
     \<and> rootfs_type g' = rootfs_type g \<and> slotname g' = slotname g"

text \<open>A flash mode is kept, or becomes that of a block device.\<close>

definition modes_step :: "gst \<Rightarrow> gst \<Rightarrow> bool" where
  "modes_step g g' \<longleftrightarrow>
     (kernel_flash_mode g' = TARBZ2
        \<or> kernel_flash_mode g' = kernel_flash_mode g
          \<and> (found_kernel_device g' \<longrightarrow> found_kernel_device g))
     \<and> (rootfs_flash_mode g' = TARBZ2
        \<or> rootfs_flash_mode g' = rootfs_flash_mode g
          \<and> (found_rootfs_device g' \<longrightarrow> found_rootfs_device g))"

lemma inputs_kept_trans: "inputs_kept a b \<Longrightarrow> inputs_kept b c \<Longrightarrow> inputs_kept a c"
  by (simp add: inputs_kept_def)

lemma modes_step_trans: "modes_step a b \<Longrightarrow> modes_step b c \<Longrightarrow> modes_step a c"
  unfolding modes_step_def by metis

lemma inputs_kept_frame:
  assumes "selection_frame g' = selection_frame g"
  shows "inputs_kept g g'"
proof -
  note c = arg_cong [OF assms]
  show ?thesis
    using c [of kernel_file_stat] c [of rootfs_file_stat] c [of kernel_device_arg]
      c [of rootfs_device_arg] c [of user_kernel] c [of user_rootfs] c [of flash_kernel]
      c [of flash_rootfs] c [of no_write] c [of kernel_filename] c [of rootfs_filename]
      c [of nfi_filename] c [of rootfs_type] c [of slotname]
    by (simp add: inputs_kept_def selection_frame_def)
qed

lemma selects_inputs: "selects g g' \<Longrightarrow> inputs_kept g g'"
  by (auto simp: selects_def intro: inputs_kept_frame)

lemma selects_multi_inputs: "selects_multi g g' \<Longrightarrow> inputs_kept g g'"
  unfolding selects_multi_def by (drule selects_inputs) (simp add: inputs_kept_def)

lemma selects_modes: "selects g g' \<Longrightarrow> modes_step g g'"
  unfolding selects_def modes_step_def by metis

lemma selects_multi_modes: "selects_multi g g' \<Longrightarrow> modes_step g g'"
  unfolding selects_multi_def by (drule selects_modes) (simp add: modes_step_def)

lemma slot_from_code_kept: "slot_from_code line g = Go g' \<Longrightarrow> inputs_kept g g' \<and> modes_step g g'"
  by (auto simp: slot_from_code_def inputs_kept_def modes_step_def Let_def split: if_splits)

lemma parse_kept:
  "inputs_kept g (parse_cmdline_partition_table e s g) \<and> modes_step g (parse_cmdline_partition_table e s g)"
  using parse_selects selects_inputs selects_modes by blast

lemma cmdline_entries_kept:
  "inputs_kept g ((cmdline_entries line g)\<lparr>boxname := b\<rparr>) \<and> modes_step g ((cmdline_entries line g)\<lparr>boxname := b\<rparr>)"
  by (simp add: cmdline_entries_def inputs_kept_def modes_step_def)

lemma readProcCmdline_kept:
  assumes "readProcCmdline e g = Go g'"
  shows "inputs_kept g g' \<and> modes_step g g'"
proof (cases "e_text e ''/proc/cmdline''")
  case None
  then show ?thesis
    using assms by (simp add: readProcCmdline_def inputs_kept_def modes_step_def)
next
  case (Some s)
  show ?thesis
  proof (cases "c_lines 4095 s")
    case Nil
    then show ?thesis
      using assms Some by (auto simp: readProcCmdline_def inputs_kept_def modes_step_def)
  next
    case (Cons line ls)
    let ?g = "(cmdline_entries line g)\<lparr>boxname := ReadProcEntry e ''/proc/stb/info/model''\<rparr>"
    obtain g1 where g1: "slot_from_code line ?g = Go g1"
      and g': "g' = (case strstr line ''blkdevparts='' of None \<Rightarrow> g1
                     | Some pos \<Rightarrow> parse_cmdline_partition_table e (drop 12 pos) g1)"
      using assms Some Cons by (auto simp: readProcCmdline_def flow_bind_Go)
    have "inputs_kept g1 g' \<and> modes_step g1 g'"
      using parse_kept
      by (cases "strstr line ''blkdevparts=''") (simp_all add: g' inputs_kept_def modes_step_def)
    then show ?thesis
      using slot_from_code_kept [OF g1] cmdline_entries_kept
      by (meson inputs_kept_trans modes_step_trans)
  qed
qed

lemma fdisk_step_kept:
  assumes "(if c then fdisk_l ds (g\<lparr>found_kernel_device := False, found_rootfs_device := False\<rparr>) else Go g)
    = Go g'"
  shows "inputs_kept g g' \<and> modes_step g g'"
proof (cases c)
  case True
  then have "selects_multi (g\<lparr>found_kernel_device := False, found_rootfs_device := False\<rparr>) g'"
    using assms by (simp add: selects_multi_fdisk)
  then show ?thesis
    using selects_multi_inputs selects_multi_modes
    by (fastforce simp: inputs_kept_def modes_step_def)
qed (use assms in \<open>simp add: inputs_kept_def modes_step_def\<close>)

lemma find_devices_split:
  assumes "find_kernel_rootfs_device e g = Go g'"
  obtains g2 where "inputs_kept g g2" "modes_step g g2"
    "g' = choose_devices (found_kernel_device g) g2"
proof -
  obtain g1 where g1: "readProcCmdline e g = Go g1"
    and r: "flow_bind
          (if (\<not> found_kernel_device g1 \<or> \<not> found_rootfs_device g1) \<and> kexec_mode g1 \<noteq> ''1''
           then fdisk_l (e_gpt e) (g1\<lparr>found_kernel_device := False, found_rootfs_device := False\<rparr>)
           else Go g1)
          (\<lambda>g2. Go (choose_devices (found_kernel_device g) g2)) = Go g'"
    using assms unfolding find_kernel_rootfs_device_def flow_bind_Go by blast
  then obtain g2 where g2: "(if (\<not> found_kernel_device g1 \<or> \<not> found_rootfs_device g1) \<and> kexec_mode g1 \<noteq> ''1''
           then fdisk_l (e_gpt e) (g1\<lparr>found_kernel_device := False, found_rootfs_device := False\<rparr>)
           else Go g1) = Go g2" and c: "choose_devices (found_kernel_device g) g2 = g'"
    unfolding flow_bind_Go by auto
  show ?thesis
    using that [of g2] readProcCmdline_kept [OF g1] fdisk_step_kept [OF g2] c
    by (meson inputs_kept_trans modes_step_trans)
qed

lemmas choose_defs = user_kernel_step_def chkroot_step_def kexec_kernel_step_def
  kexec_rootfs_step_def stop_step_def

text \<open>The steps after the user's rootfs device.\<close>

definition later_steps :: "gst \<Rightarrow> gst" where
  "later_steps g = stop_step (kexec_rootfs_step (kexec_kernel_step (chkroot_step (user_kernel_step g))))"

lemma steps_chkroot_mode [simp]:
  "chkroot_mode (user_kernel_step g) = chkroot_mode g"
  "chkroot_mode (chkroot_step g) = chkroot_mode g"
  "chkroot_mode (kexec_kernel_step g) = chkroot_mode g"
  "chkroot_mode (kexec_rootfs_step g) = chkroot_mode g"
  "chkroot_mode (stop_step g) = chkroot_mode g"
  by (simp_all add: choose_defs Let_def)

lemma steps_sub_dir [simp]:
  "current_rootfs_sub_dir (user_kernel_step g) = current_rootfs_sub_dir g"
  "current_rootfs_sub_dir (chkroot_step g) = current_rootfs_sub_dir g"
  "current_rootfs_sub_dir (kexec_kernel_step g) = current_rootfs_sub_dir g"
  "current_rootfs_sub_dir (kexec_rootfs_step g) = current_rootfs_sub_dir g"
  "current_rootfs_sub_dir (stop_step g) = current_rootfs_sub_dir g"
  by (simp_all add: choose_defs Let_def)

lemma steps_inputs:
  "inputs_kept g (user_kernel_step g)" "inputs_kept g (chkroot_step g)"
  "inputs_kept g (kexec_kernel_step g)" "inputs_kept g (kexec_rootfs_step g)"
  "inputs_kept g (stop_step g)"
  by (simp_all add: choose_defs Let_def inputs_kept_def)

lemma later_kept:
  "chkroot_mode (later_steps g) = chkroot_mode g"
  "current_rootfs_sub_dir (later_steps g) = current_rootfs_sub_dir g"
  "inputs_kept g (later_steps g)"
  unfolding later_steps_def
  by (simp_all, meson steps_inputs inputs_kept_trans)

lemma steps_rootfs [simp]:
  "rootfs_flash_mode (user_kernel_step g) = rootfs_flash_mode g"
  "found_rootfs_device (user_kernel_step g) = found_rootfs_device g"
  "rootfs_flash_mode (kexec_kernel_step g) = rootfs_flash_mode g"
  "found_rootfs_device (kexec_kernel_step g) = found_rootfs_device g"
  "found_rootfs_device (chkroot_step g) = found_rootfs_device g"
  "rootfs_flash_mode (stop_step g) = rootfs_flash_mode g"
  "found_rootfs_device (stop_step g) = found_rootfs_device g"
  by (simp_all add: choose_defs)

lemma steps_kernel [simp]:
  "kernel_flash_mode (chkroot_step g) = kernel_flash_mode g"
  "found_kernel_device (chkroot_step g) = found_kernel_device g"
  "kernel_flash_mode (kexec_rootfs_step g) = kernel_flash_mode g"
  "found_kernel_device (kexec_rootfs_step g) = found_kernel_device g"
  "kernel_flash_mode (stop_step g) = kernel_flash_mode g"
  "found_kernel_device (stop_step g) = found_kernel_device g"
  by (simp_all add: choose_defs Let_def)

lemma later_kernel_mode:
  "kernel_flash_mode (later_steps g) = TARBZ2
    \<or> kernel_flash_mode (later_steps g) = kernel_flash_mode g
      \<and> found_kernel_device (later_steps g) = found_kernel_device g"
  by (simp add: later_steps_def kexec_kernel_step_def user_kernel_step_def)

lemma later_rootfs_mode:
  "rootfs_flash_mode (later_steps g) \<in> {TARBZ2, TARXZ_UBI, UBI_LOOP_SUBDIR}
    \<or> rootfs_flash_mode (later_steps g) = rootfs_flash_mode g
      \<and> found_rootfs_device (later_steps g) = found_rootfs_device g"
  by (simp add: later_steps_def kexec_rootfs_step_def chkroot_step_def Let_def)

lemma steps_rootfs_device [simp]:
  "rootfs_device (user_kernel_step g) = rootfs_device g"
  "rootfs_device (kexec_kernel_step g) = rootfs_device g"
  "rootfs_device (chkroot_step g) = rootfs_device g"
  "rootfs_device (stop_step g) = rootfs_device g"
  by (simp_all add: choose_defs)

lemma later_rootfs:
  assumes "found_rootfs_device g" "\<not> chkroot_mode g"
  shows "found_rootfs_device (later_steps g) \<and> rootfs_flash_mode (later_steps g) = rootfs_flash_mode g
    \<and> rootfs_device (later_steps g) = rootfs_device g"
  using assms by (simp add: later_steps_def kexec_rootfs_step_def) (simp add: chkroot_step_def)

lemma choose_devices_eq:
  "choose_devices m g =
     (let g1 = (if \<not> found_kernel_device g \<and> m then g\<lparr>found_kernel_device := True\<rparr> else g)
      in case user_rootfs_step g1 of
           None \<Rightarrow> g1\<lparr>found_rootfs_device := False\<rparr> | Some g2 \<Rightarrow> later_steps g2)"
  by (simp only: choose_devices_def later_steps_def)

text \<open>
  The user's rootfs partition that \<^verbatim>\<open>/proc/mtd\<close> showed to be none, or too small, is
  selected all the same: the rejection only leaves the flash mode unset, and \<^verbatim>\<open>main\<close> goes on to a
  search that takes any such device for a block device to unpack to.
\<close>

theorem rejected_user_mtd_is_selected:
  assumes "read_mtd_file e g = (False, g1)" "rootfs_flash_mode g1 = FLASH_MODE_UNKNOWN"
    and "user_rootfs g1" "find_kernel_rootfs_device e g1 = Go g2"
    and "\<not> chkroot_mode g2" "current_rootfs_sub_dir g2 = ''''"
  shows "found_rootfs_device g2 \<and> rootfs_flash_mode g2 = TARBZ2
    \<and> rootfs_device g2 = ''/dev/'' @ rootfs_device_arg g1"
proof -
  obtain g' where k: "inputs_kept g1 g'" "modes_step g1 g'"
    and g2: "g2 = choose_devices (found_kernel_device g1) g'"
    using find_devices_split [OF assms(4)] .
  define g3 where "g3 = (if \<not> found_kernel_device g' \<and> found_kernel_device g1
    then g'\<lparr>found_kernel_device := True\<rparr> else g')"
  have g3: "user_rootfs g3" "rootfs_flash_mode g3 \<in> {TARBZ2, FLASH_MODE_UNKNOWN}"
    "rootfs_device_arg g3 = rootfs_device_arg g1"
    using k assms(2,3) by (auto simp: g3_def inputs_kept_def modes_step_def)
  have g2': "g2 = (case user_rootfs_step g3 of
           None \<Rightarrow> g3\<lparr>found_rootfs_device := False\<rparr> | Some g4 \<Rightarrow> later_steps g4)"
    unfolding g2 choose_devices_eq g3_def Let_def ..
  show ?thesis
  proof (cases "user_rootfs_step g3")
    case None
    then show ?thesis
      using assms(6) g2' by (auto simp: user_rootfs_step_def Let_def split: if_splits)
  next
    case (Some g4)
    then have "found_rootfs_device g4" "rootfs_flash_mode g4 = TARBZ2"
      "rootfs_device g4 = ''/dev/'' @ rootfs_device_arg g1"
      using g3 by (auto simp: user_rootfs_step_def Let_def split: if_splits)
    moreover have "\<not> chkroot_mode g4"
      using assms(5) g2' Some by (simp add: later_kept)
    ultimately show ?thesis
      using later_rootfs [of g4] g2' Some by simp
  qed
qed

end
