(* ===== verification/SelectMain.thy ===== *)
theory SelectMain
  imports SelectProps
begin

text \<open>
  The selection phase as a whole: what \<^verbatim>\<open>main\<close> has established when it starts to flash, and what
  the command line makes of its options.
\<close>

theorem rejected_user_mtd_is_selected_witness:
  "\<exists>g1 g2. read_mtd_file mtd_example
       (initial_gst\<lparr>user_rootfs := True, rootfs_device_arg := ''mtd1''\<rparr>) = (False, g1)
     \<and> find_kernel_rootfs_device mtd_example g1 = Go g2
     \<and> found_rootfs_device g2 \<and> rootfs_flash_mode g2 = TARBZ2 \<and> rootfs_device g2 = ''/dev/mtd1''"
proof -
  let ?g = "initial_gst\<lparr>user_rootfs := True, rootfs_device_arg := ''mtd1''\<rparr>"
  let ?g1 = "?g\<lparr>rootfs_device := ''/dev/mtd1''\<rparr>"
  have l: "mtd_line mtd_example_line ?g = (True, ?g1)"
    using mtd_example_devsize
    by (simp add: mtd_line_def user_rootfs_line_def mtd_example_line_def initial_gst_def no_stat_def
        bad_erasesize_def Let_def)
  have r: "read_mtd_file mtd_example ?g = (False, ?g1)"
    by (simp add: read_mtd_example l)
  have c: "readProcCmdline mtd_example ?g1 = Go ?g1"
    by (simp add: readProcCmdline_def mtd_example_def example_env_def)
  have gpt: "e_gpt mtd_example = []"
    by (simp add: mtd_example_def example_env_def)
  have f: "find_kernel_rootfs_device mtd_example ?g1 = Go (choose_devices False ?g1)"
    unfolding find_kernel_rootfs_device_def c flow_bind.simps
    by (simp add: initial_gst_def gpt)
  have k: "chkroot_mode (choose_devices False ?g1) = False"
    "current_rootfs_sub_dir (choose_devices False ?g1) = ''''"
    by (simp_all add: choose_devices_eq user_rootfs_step_def later_kept initial_gst_def)
  show ?thesis
    using rejected_user_mtd_is_selected [OF r _ _ f] r f k by (simp add: initial_gst_def)
qed

subsection \<open>What main has established before it flashes\<close>

text \<open>Reading the arguments, the mounts and \<^verbatim>\<open>/proc/mtd\<close> leaves these alone.\<close>

definition unfound :: "gst \<Rightarrow> bool" where
  "unfound g \<longleftrightarrow> \<not> found_kernel_device g \<and> \<not> found_rootfs_device g"

lemma unfound_check_entry: "unfound (check_entry e p n g) = unfound g"
  by (simp add: check_entry_def take_kernel_def take_rootfs_def take_nfi_def unfound_def Let_def)

lemma unfound_entries: "unfound (fold (check_entry e p) ns g) = unfound g"
  by (induction ns arbitrary: g) (simp_all add: unfound_check_entry)

lemma unfound_image_files: "find_image_files e p g = (ok, g') \<Longrightarrow> unfound g' = unfound g"
  by (auto simp: find_image_files_def unfound_entries Let_def split: option.splits)
    (auto simp: unfound_def)

lemma unfound_opt:
  assumes "read_opt e r g = (ok, g')"
  shows "unfound g' = unfound g"
proof -
  obtain a b c where r: "r = (a, b, c)"
    by (cases r)
  have "unfound (snd (read_opt e r g)) = unfound g"
    unfolding r read_opt_def prod.case
    by (simp add: unfound_def split: option.split)
  then show ?thesis
    using assms by simp
qed

lemma unfound_opts: "read_opts e rs g = (ok, g') \<Longrightarrow> unfound g' = unfound g"
proof (induction rs arbitrary: g)
  case (Cons r rs)
  then show ?case
    by (cases "read_opt e r g") (auto dest: unfound_opt split: if_splits)
qed simp

lemma read_args_split:
  assumes "read_args e args g = (True, g')"
  obtains dir opts g1 g2 where "getopt_long ofg_short ofg_long args = (opts, [dir])"
    "read_opts e opts (args_defaults g) = (True, g1)" "find_image_files e dir g1 = (True, g2)"
    "g' = (if \<not> flash_kernel g2 \<and> \<not> flash_rootfs g2
           then g2\<lparr>flash_kernel := True, flash_rootfs := True\<rparr> else g2)"
  using assms
  by (cases "getopt_long ofg_short ofg_long args")
    (auto simp: read_args_def split: prod.splits if_splits list.splits)

lemma unfound_read_args:
  assumes "read_args e args g = (True, g')" "unfound g"
  shows "unfound g'" "flash_kernel g' \<or> flash_rootfs g'"
proof -
  obtain dir opts g1 g2 where s: "read_opts e opts (args_defaults g) = (True, g1)"
    "find_image_files e dir g1 = (True, g2)"
    and g': "g' = (if \<not> flash_kernel g2 \<and> \<not> flash_rootfs g2
           then g2\<lparr>flash_kernel := True, flash_rootfs := True\<rparr> else g2)"
    using assms(1) by (rule read_args_split)
  have "unfound (args_defaults g)"
    using assms(2) by (simp add: args_defaults_def unfound_def)
  then have "unfound g2"
    using unfound_opts [OF s(1)] unfound_image_files [OF s(2)] by simp
  then show "unfound g'" "flash_kernel g' \<or> flash_rootfs g'"
    by (auto simp: g' unfound_def)
qed

lemma mount_entry_kept:
  "unfound (mount_entry e d m g) = unfound g"
  "flash_kernel (mount_entry e d m g) = flash_kernel g"
  "flash_rootfs (mount_entry e d m g) = flash_rootfs g"
  by (simp_all add: mount_entry_def unfound_def)

lemma mounts_kept:
  "unfound (fold (mount_entry e d) ms g) = unfound g"
  "flash_kernel (fold (mount_entry e d) ms g) = flash_kernel g"
  "flash_rootfs (fold (mount_entry e d) ms g) = flash_rootfs g"
  by (induction ms arbitrary: g) (simp_all add: mount_entry_kept)

lemma readProcMounts_kept:
  "readProcMounts e g = (ok, g') \<Longrightarrow>
     unfound g' = unfound g \<and> flash_kernel g' = flash_kernel g \<and> flash_rootfs g' = flash_rootfs g"
  by (auto simp: readProcMounts_def mounts_kept Let_def split: option.splits) (auto simp: unfound_def)

lemma line_flags [simp]:
  "flash_kernel (snd (user_kernel_line f g)) = flash_kernel g"
  "flash_kernel (snd (user_rootfs_line f g)) = flash_kernel g"
  "flash_kernel (auto_kernel_line f g) = flash_kernel g"
  "flash_kernel (auto_rootfs_line f g) = flash_kernel g"
  "flash_rootfs (snd (user_kernel_line f g)) = flash_rootfs g"
  "flash_rootfs (snd (user_rootfs_line f g)) = flash_rootfs g"
  "flash_rootfs (auto_kernel_line f g) = flash_rootfs g"
  "flash_rootfs (auto_rootfs_line f g) = flash_rootfs g"
  by (simp_all add: user_kernel_line_def user_rootfs_line_def auto_kernel_line_def
      auto_rootfs_line_def Let_def)

lemma mtd_line_flags:
  "flash_kernel (snd (mtd_line f g)) = flash_kernel g"
  "flash_rootfs (snd (mtd_line f g)) = flash_rootfs g"
  by (simp_all add: mtd_line_def)

lemma mtd_lines_flags:
  "mtd_lines ls old w g = (w', g') \<Longrightarrow> flash_kernel g' = flash_kernel g \<and> flash_rootfs g' = flash_rootfs g"
proof (induction ls arbitrary: old w g)
  case (Cons line ls)
  then show ?case
    using mtd_line_flags [of "mtd_entry line old" g]
    by (cases "mtd_line (mtd_entry line old) g") (auto simp: Let_def)
qed simp

text \<open>The flash modes that can be used for a found device.\<close>

definition kernel_mode_ok :: "gst \<Rightarrow> bool" where
  "kernel_mode_ok g \<longleftrightarrow> kernel_flash_mode g \<in> {MTD, TARBZ2}"

definition rootfs_mode_ok :: "gst \<Rightarrow> bool" where
  "rootfs_mode_ok g \<longleftrightarrow> rootfs_flash_mode g \<noteq> FLASH_MODE_UNKNOWN"

lemma read_mtd_modes:
  assumes "read_mtd_file e g = (ok, g')" "unfound g"
  shows "(found_kernel_device g' \<longrightarrow> kernel_mode_ok g') \<and> (found_rootfs_device g' \<longrightarrow> rootfs_mode_ok g')
    \<and> flash_kernel g' = flash_kernel g \<and> flash_rootfs g' = flash_rootfs g"
proof -
  have fit: "kernel_fit UNIV g" "rootfs_fit UNIV g"
    using assms(2) by (simp_all add: unfound_def kernel_fit_def rootfs_fit_def)
  have "g' = g \<or> (\<exists>ls f w. mtd_lines ls f False g = (w, g'))"
    using assms(1) by (auto simp: read_mtd_file_def Let_def split: option.splits list.splits if_splits prod.splits)
  then have "kernel_fit UNIV g' \<and> rootfs_fit UNIV g'
      \<and> flash_kernel g' = flash_kernel g \<and> flash_rootfs g' = flash_rootfs g"
    using fit mtd_lines_fit [OF _ fit] mtd_lines_flags by blast
  then show ?thesis
    by (auto simp: kernel_fit_def rootfs_fit_def kernel_mode_ok_def rootfs_mode_ok_def)
qed

lemma choose_devices_modes:
  assumes "m \<longrightarrow> kernel_mode_ok g" "found_kernel_device g \<longrightarrow> kernel_mode_ok g"
    and "found_rootfs_device g \<longrightarrow> rootfs_mode_ok g"
  shows "(found_kernel_device (choose_devices m g) \<longrightarrow> kernel_mode_ok (choose_devices m g))
    \<and> (found_rootfs_device (choose_devices m g) \<longrightarrow> rootfs_mode_ok (choose_devices m g))"
proof -
  define g1 where "g1 = (if \<not> found_kernel_device g \<and> m then g\<lparr>found_kernel_device := True\<rparr> else g)"
  have g1: "found_kernel_device g1 \<longrightarrow> kernel_mode_ok g1" "found_rootfs_device g1 \<longrightarrow> rootfs_mode_ok g1"
    using assms by (auto simp: g1_def kernel_mode_ok_def rootfs_mode_ok_def)
  have c: "choose_devices m g = (case user_rootfs_step g1 of
           None \<Rightarrow> g1\<lparr>found_rootfs_device := False\<rparr> | Some g2 \<Rightarrow> later_steps g2)"
    unfolding choose_devices_eq g1_def Let_def ..
  show ?thesis
  proof (cases "user_rootfs_step g1")
    case None
    then show ?thesis
      using g1 c by (simp add: kernel_mode_ok_def)
  next
    case (Some g2)
    then have "found_kernel_device g2 \<longrightarrow> kernel_mode_ok g2" "found_rootfs_device g2 \<longrightarrow> rootfs_mode_ok g2"
      using g1 by (auto simp: user_rootfs_step_def Let_def kernel_mode_ok_def rootfs_mode_ok_def
          split: if_splits)
    then show ?thesis
      using later_kernel_mode [of g2] later_rootfs_mode [of g2] c Some
      by (auto simp: kernel_mode_ok_def rootfs_mode_ok_def)
  qed
qed

lemma choose_devices_inputs: "inputs_kept g (choose_devices m g)"
proof -
  define g1 where "g1 = (if \<not> found_kernel_device g \<and> m then g\<lparr>found_kernel_device := True\<rparr> else g)"
  have i1: "inputs_kept g g1"
    by (simp add: g1_def inputs_kept_def)
  have c: "choose_devices m g = (case user_rootfs_step g1 of
           None \<Rightarrow> g1\<lparr>found_rootfs_device := False\<rparr> | Some g2 \<Rightarrow> later_steps g2)"
    unfolding choose_devices_eq g1_def Let_def ..
  show ?thesis
  proof (cases "user_rootfs_step g1")
    case None
    then show ?thesis
      using i1 c by (simp add: inputs_kept_def)
  next
    case (Some g2)
    then have "inputs_kept g1 g2"
      by (auto simp: user_rootfs_step_def Let_def inputs_kept_def split: if_splits)
    then have "inputs_kept g (later_steps g2)"
      using i1 later_kept(3) inputs_kept_trans by blast
    then show ?thesis
      using c Some by simp
  qed
qed


text \<open>A box with one kernel partition, and a directory with a kernel image.\<close>

definition main_example :: env where
  "main_example = mtd_example\<lparr>e_readdir := (\<lambda>_. Some [''kernel.bin'']),
     e_stat := (\<lambda>_. Some (no_stat\<lparr>st_size := 500\<rparr>))\<rparr>"

definition main_example_args :: gst where
  "main_example_args =
     (args_defaults initial_gst)\<lparr>flash_kernel := True,
        kernel_filename := ''/img/kernel.bin'', kernel_file_stat := no_stat\<lparr>st_size := 500\<rparr>\<rparr>"

lemma main_example_read_args:
  "read_args main_example [''-k'', ''/img''] initial_gst = (True, main_example_args)"
  by (simp add: read_args_def ofg_short_def main_example_args_def read_opt_def args_defaults_def
      find_image_files_def main_example_def mtd_example_def example_env_def with_slash_def
      check_entry_def is_kernel_file_def rootfs_names_def take_kernel_def stat_into_def initial_gst_def
      suffix_def)

lemma main_example_main:
  "main_select main_example [''-k'', ''/img''] initial_gst =
     Go (stop_step (main_example_args\<lparr>kernel_device := ''/dev/mtd1'', found_kernel_device := True,
       kernel_flash_mode := MTD\<rparr>))"
proof -
  let ?g = "main_example_args\<lparr>kernel_device := ''/dev/mtd1'', found_kernel_device := True,
       kernel_flash_mode := MTD\<rparr>"
  have i: "initial_gst\<lparr>found_kernel_device := False, found_rootfs_device := False,
       kernel_flash_mode := FLASH_MODE_UNKNOWN, rootfs_flash_mode := FLASH_MODE_UNKNOWN,
       ubi_fs_name := ''''\<rparr> = initial_gst"
    by (simp add: initial_gst_def)
  have h: "show_help main_example_args = False" "flash_kernel main_example_args"
    by (simp_all add: main_example_args_def args_defaults_def initial_gst_def)
  have m: "readProcMounts main_example main_example_args = (True, main_example_args)"
    by (simp add: readProcMounts_def main_example_def mtd_example_def example_env_def
        main_example_args_def args_defaults_def initial_gst_def)
  have te: "e_text main_example = e_text mtd_example" "stack_fields main_example = stack_fields mtd_example"
    by (simp_all add: main_example_def stack_fields_def)
  have "read_mtd_file main_example g = read_mtd_file mtd_example g" for g
    unfolding read_mtd_file_def te ..
  moreover have "mtd_line mtd_example_line main_example_args = (False, ?g)"
    using mtd_example_devsize
    by (simp add: mtd_line_def auto_kernel_line_def auto_kernel_name_def initial_gst_def
        mtd_example_line_def main_example_args_def args_defaults_def)
  ultimately have r: "read_mtd_file main_example main_example_args = (True, ?g)"
    by (simp add: read_mtd_example)
  have c: "readProcCmdline main_example g = Go g" "e_gpt main_example = []" for g
    by (simp_all add: readProcCmdline_def main_example_def mtd_example_def example_env_def)
  have u: "user_rootfs ?g = False" "user_kernel ?g = False" "chkroot_mode ?g = False"
    "kexec_mode ?g = ''''" "flash_rootfs ?g = False" "kernel_filename ?g = ''/img/kernel.bin''"
    by (simp_all add: main_example_args_def args_defaults_def initial_gst_def)
  have nf: "main_example_args\<lparr>kernel_device := ''/dev/mtd1'', kernel_flash_mode := MTD,
      found_rootfs_device := False, found_kernel_device := True\<rparr> = ?g"
    by (simp add: main_example_args_def args_defaults_def initial_gst_def)
  have f: "find_kernel_rootfs_device main_example ?g =
      Go (stop_step ?g)"
    using u nf
    by (simp add: find_kernel_rootfs_device_def c choose_devices_def user_rootfs_step_def
        user_kernel_step_def chkroot_step_def kexec_kernel_step_def kexec_rootfs_step_def)
  have "flash_checks (stop_step ?g)" "check_device_size main_example (stop_step ?g)"
    by (simp_all add: flash_checks_def check_device_size_def stop_step_def main_example_args_def
        args_defaults_def initial_gst_def)
  then show ?thesis
    by (simp add: main_select_def i main_example_read_args h m r f)
qed


subsection \<open>The help option\<close>

text \<open>
  The option \<^verbatim>\<open>-h\<close>, documented to show the help, has no effect: with an image
  directory the run goes on as without it, and flashes.
\<close>

theorem help_option_is_ignored:
  assumes "dir = '''' \<or> hd dir \<noteq> CHR ''-''"
  shows "main_select e [''-h'', dir] g = main_select e [dir] g
    \<and> main_select e [''--help'', dir] g = main_select e [dir] g"
proof -
  have d: "getopt_long ofg_short ofg_long [dir] = ([], [dir])"
    using assms by (intro getopt_long_plain) (auto simp: prefix_def)
  have "map_of ofg_short CHR ''h'' = Some no_argument"
    by (simp add: ofg_short_def)
  then have h: "getopt_long ofg_short ofg_long [''-h'', dir] = ([(CHR ''h'', None, None)], [dir])"
    using d by simp
  have "long_matches ofg_long ''help'' = [(9, ''help'', no_argument, CHR ''h'')]"
    by (simp add: long_matches_def ofg_long_def numeral_eq_Suc)
  then have l: "getopt_long ofg_short ofg_long [''--help'', dir] = ([(CHR ''h'', Some 9, None)], [dir])"
    using d by simp
  have o: "read_opt e (CHR ''h'', i, None) g' = (True, g')" for i g'
    by (simp add: read_opt_def)
  have "read_args e [''-h'', dir] g' = read_args e [dir] g'
      \<and> read_args e [''--help'', dir] g' = read_args e [dir] g'" for g'
    unfolding read_args_def h l d by (simp add: o)
  then show ?thesis
    unfolding main_select_def Let_def by simp
qed

theorem help_option_is_ignored_witness:
  "main_select main_example [''-h'', ''/img''] initial_gst = main_select main_example [''/img''] initial_gst"
  using help_option_is_ignored [of "''/img''" main_example initial_gst] by simp

subsection \<open>The image files\<close>

text \<open>A name or path chosen from a directory: empty, or one of its entries with the given property.\<close>

definition chosen :: "string \<Rightarrow> string list \<Rightarrow> (string \<Rightarrow> bool) \<Rightarrow> string \<Rightarrow> bool" where
  "chosen path names P file \<longleftrightarrow> file = '''' \<or> (\<exists>n \<in> set names. P n \<and> file = path @ n)"

definition rootfs_entry :: "string \<Rightarrow> bool" where
  "rootfs_entry n \<longleftrightarrow> n \<in> set rootfs_names \<or> suffix ''.tar.xz'' n"

lemma check_entry_chosen:
  assumes "n \<in> set names" "chosen path names is_kernel_file (kernel_filename g)"
    and "chosen path names rootfs_entry (rootfs_filename g)"
    and "chosen path names (suffix ''.nfi'') (nfi_filename g)"
  shows "chosen path names is_kernel_file (kernel_filename (check_entry e path n g))
    \<and> chosen path names rootfs_entry (rootfs_filename (check_entry e path n g))
    \<and> chosen path names (suffix ''.nfi'') (nfi_filename (check_entry e path n g))"
  using assms
  by (simp add: check_entry_def take_kernel_def take_rootfs_def take_nfi_def Let_def)
    (auto simp: chosen_def rootfs_entry_def)

lemma check_entries_chosen:
  assumes "set ns \<subseteq> set names" "chosen path names is_kernel_file (kernel_filename g)"
    and "chosen path names rootfs_entry (rootfs_filename g)"
    and "chosen path names (suffix ''.nfi'') (nfi_filename g)"
  shows "chosen path names is_kernel_file (kernel_filename (fold (check_entry e path) ns g))
    \<and> chosen path names rootfs_entry (rootfs_filename (fold (check_entry e path) ns g))
    \<and> chosen path names (suffix ''.nfi'') (nfi_filename (fold (check_entry e path) ns g))"
  using assms
proof (induction ns arbitrary: g)
  case (Cons n ns)
  then show ?case
    using check_entry_chosen [of n names path g e] by simp
qed simp

text \<open>An archive called \<^verbatim>\<open>rootfs.tar.xz\<close> is taken twice; the second test wins.\<close>

lemma tar_xz_is_tar_ubi: "image_type (check_entry e path ''rootfs.tar.xz'' g) = TAR_UBI"
  by (simp add: check_entry_def take_rootfs_def suffix_def Let_def)

text \<open>
  Property C30. The files to be flashed are empty or lie in the resolved image directory, under a
  kernel name, a rootfs name and an nfi name; the name \<^verbatim>\<open>rootfs.tar.xz\<close>, listed among the plain
  archives, always sets the other archive type when it is the last entry taken.
\<close>

theorem image_files_from_directory:
  assumes "find_image_files e p g = (True, g')"
  shows "\<exists>path names. e_realpath e p = Some path \<and> e_readdir e (with_slash path) = Some names
    \<and> (kernel_filename g' = '''' \<or> (\<exists>n \<in> set names. is_kernel_file n \<and> kernel_filename g' = with_slash path @ n))
    \<and> (rootfs_filename g' = '''' \<or> (\<exists>n \<in> set names. (n \<in> set rootfs_names \<or> suffix ''.tar.xz'' n)
          \<and> rootfs_filename g' = with_slash path @ n))
    \<and> (nfi_filename g' = '''' \<or> (\<exists>n \<in> set names. suffix ''.nfi'' n \<and> nfi_filename g' = with_slash path @ n))
    \<and> (names \<noteq> [] \<and> last names = ''rootfs.tar.xz'' \<longrightarrow> image_type g' = TAR_UBI)"
proof -
  define g1 where "g1 = g\<lparr>kernel_filename := '''', rootfs_filename := '''', nfi_filename := '''',
    nfi_path := ''''\<rparr>"
  obtain path names where e: "e_realpath e p = Some path" "e_readdir e (with_slash path) = Some names"
    and g': "g' = fold (check_entry e (with_slash path)) names g1"
    using assms unfolding find_image_files_def g1_def [symmetric] Let_def
    by (simp split: option.split_asm)
  have "image_type g' = TAR_UBI" if last: "names \<noteq> []" "last names = ''rootfs.tar.xz''"
  proof -
    obtain ns where "names = ns @ [''rootfs.tar.xz'']"
      using last by (cases names rule: rev_cases) auto
    then show ?thesis
      by (simp add: g' tar_xz_is_tar_ubi)
  qed
  moreover have "chosen (with_slash path) names is_kernel_file (kernel_filename g')
    \<and> chosen (with_slash path) names rootfs_entry (rootfs_filename g')
    \<and> chosen (with_slash path) names (suffix ''.nfi'') (nfi_filename g')"
    unfolding g' by (rule check_entries_chosen) (simp_all add: g1_def chosen_def)
  ultimately show ?thesis
    using e unfolding chosen_def rootfs_entry_def by blast
qed

theorem image_files_from_directory_witness:
  "\<exists>g'. find_image_files main_example ''/img'' initial_gst = (True, g')
     \<and> (kernel_filename g' = '''' \<or> kernel_filename g' = ''/img/kernel.bin'')"
proof -
  obtain g' where g': "find_image_files main_example ''/img'' initial_gst = (True, g')"
    by (simp add: find_image_files_def main_example_def mtd_example_def example_env_def)
  then show ?thesis
    using image_files_from_directory [OF g']
    by (auto simp: main_example_def mtd_example_def example_env_def with_slash_def)
qed

subsection \<open>The mounts to be released\<close>

text \<open>
  What is to be unmounted, said without the code: not a basic mount, not the new root, not the file
  systems with the image files. A mount has a file system on a device of a number when its directory
  lies on that device or its source is the node of it.
\<close>

definition on_device :: "env \<Rightarrow> int \<Rightarrow> mntent \<Rightarrow> bool" where
  "on_device e n m \<longleftrightarrow> (\<exists>st. e_stat e (mnt_dir m) = Some st \<and> st_dev st = n) \<or> (\<exists>st. e_stat e (mnt_fsname m) = Some st \<and> st_rdev st = n)"

definition releasable :: "env \<Rightarrow> int \<Rightarrow> string set \<Rightarrow> mntent \<Rightarrow> bool" where
  "releasable e n files m \<longleftrightarrow>
     mnt_dir m \<notin> {''/'', ''/sys'', ''/dev'', ''/dev/pts'', ''/proc'', ''/var/volatile''}
     \<and> \<not> (mnt_dir m = ''/newroot'' \<and> mnt_type m = ''tmpfs'')
     \<and> \<not> on_device e n m \<and> mnt_dir m \<notin> files \<and> mnt_fsname m \<notin> files"

lemma holds_image_on_device:
  "holds_image e n m g \<longleftrightarrow> on_device e n m \<or> mnt_dir m \<in> {rootfs_filename g, nfi_filename g}
     \<or> mnt_fsname m \<in> {rootfs_filename g, nfi_filename g}"
  by (auto simp: holds_image_def on_device_def split: option.splits)

lemma mount_entry_list:
  "mountlist (mount_entry e n m g) =
     (if releasable e n {rootfs_filename g, nfi_filename g} m then mnt_dir m # mountlist g else mountlist g)"
proof -
  consider "mnt_dir m = ''/''" | "mnt_dir m = ''/newroot''" "mnt_type m = ''tmpfs''"
    | "mnt_dir m \<noteq> ''/''" "\<not> (mnt_dir m = ''/newroot'' \<and> mnt_type m = ''tmpfs'')"
    by blast
  then show ?thesis
  proof cases
    case 1
    then have "\<not> releasable e n {rootfs_filename g, nfi_filename g} m"
      by (simp add: releasable_def)
    then show ?thesis
      using 1 by (simp add: mount_entry_def kept_mounts_def)
  next
    case 2
    then show ?thesis
      by (simp add: mount_entry_def releasable_def)
  next
    case 3
    then have "mount_entry e n m g =
        (if holds_image e n m g then g\<lparr>rootfs_mount_point := mnt_dir m\<rparr>
         else if mnt_dir m \<notin> set kept_mounts then g\<lparr>mountlist := mnt_dir m # mountlist g\<rparr> else g)"
      by (simp only: mount_entry_def) simp
    moreover have "releasable e n {rootfs_filename g, nfi_filename g} m \<longleftrightarrow> \<not> holds_image e n m g \<and> mnt_dir m \<notin> set kept_mounts"
      using 3 unfolding releasable_def holds_image_on_device kept_mounts_def by (simp only: list.set) blast
    ultimately show ?thesis
      by simp
  qed
qed

lemma mount_entry_files [simp]:
  "rootfs_filename (mount_entry e n m g) = rootfs_filename g" "nfi_filename (mount_entry e n m g) = nfi_filename g"
  by (simp_all add: mount_entry_def)

lemma mount_entries_list:
  "mountlist (fold (mount_entry e n) ms g) =
     rev (map mnt_dir (filter (releasable e n {rootfs_filename g, nfi_filename g}) ms)) @ mountlist g"
  by (induction ms arbitrary: g) (simp_all add: mount_entry_list)

text \<open>
  Property C31. What is to be unmounted before the rootfs is flashed are the mounts of the table, the last
  one first, but for the basic ones, the new root, the mounts named like an image file, and those on
  the device with the images: those whose directory lies on the device recorded with the image file (a
  node's own device when the image is one), or whose source is the node of it. No other mount is left
  out.
\<close>

theorem umount_list_safe:
  assumes "readProcMounts e g = (True, g')"
  shows "\<exists>ms. e_mounts e = Some ms \<and> mountlist g' = rev (map mnt_dir
    (filter (releasable e (if st_special (rootfs_file_stat g) then st_rdev (rootfs_file_stat g) else st_dev (rootfs_file_stat g))
      {rootfs_filename g, nfi_filename g}) ms))"
  using assms
  by (auto simp: readProcMounts_def Let_def image_devno_def mount_entries_list split: option.splits)

text \<open>
  The image lies on an USB stick (device 5); the hard disk (device 7) is to be unmounted, not so the
  stick, its second mount by the name of the node and the basic mounts.
\<close>

definition stat_on :: "int \<Rightarrow> file_stat" where
  "stat_on n = no_stat\<lparr>st_dev := n, st_rdev := -1\<rparr>"

definition mounts_example :: env where
  "mounts_example = example_env\<lparr>
     e_mounts := Some (map (\<lambda>(src, dir). \<lparr>mnt_fsname = src, mnt_dir = dir, mnt_type = ''vfat''\<rparr>)
       [(''/dev/root'', ''/''), (''/dev/sdb1'', ''/media/usb''), (''/dev/sda1'', ''/media/hdd''), (''/dev/node'', ''/mnt''),
        (''tmpfs'', ''/tmp''), (''devpts'', ''/dev/pts'')]),
     e_stat := (\<lambda>p. if p = ''/media/usb'' then Some (stat_on 5) else if p = ''/media/hdd'' then Some (stat_on 7)
       else if p = ''/dev/node'' then Some ((stat_on 1)\<lparr>st_rdev := 5\<rparr>) else Some (stat_on 1))\<rparr>"

theorem umount_list_safe_witness:
  "mountlist (snd (readProcMounts mounts_example (initial_gst\<lparr>rootfs_filename := ''/media/usb/rootfs.bin'', rootfs_file_stat := stat_on 5\<rparr>)))
    = [''/tmp'', ''/media/hdd'']"
proof -
  let ?g = "initial_gst\<lparr>rootfs_filename := ''/media/usb/rootfs.bin'', rootfs_file_stat := stat_on 5\<rparr>"
  have "fst (readProcMounts mounts_example ?g)"
    by (simp add: readProcMounts_def mounts_example_def Let_def)
  then have "readProcMounts mounts_example ?g = (True, snd (readProcMounts mounts_example ?g))"
    by (simp add: prod_eq_iff)
  from umount_list_safe [OF this] show ?thesis
    by (simp add: mounts_example_def releasable_def on_device_def stat_on_def no_stat_def initial_gst_def)
qed

end
