(* ===== verification/Sys.thy ===== *)
theory Sys
  imports OfgState "HOL-Library.State_Monad"
begin

text \<open>
  The flashing phase as a program over the operating system: a state monad whose state is the
  outside world, a parameter, and the trace of the calls made so far with their results. The
  record \<open>'w os\<close> is the system's behaviour: how it answers a call, and what files, directories and
  flash devices look like in a world. The busybox and mtd-utils programs that ofgwrite links in
  are run by the call \<open>Applet\<close>, with the argument vector ofgwrite builds for them.
\<close>

subsection \<open>Calls and worlds\<close>

text \<open>
  Calls answer a non-negative number, or a negated error number; an \<open>Applet\<close> or \<open>System\<close> call
  answers the exit code. \<open>Progress\<close> is \<^verbatim>\<open>set_step_progress\<close>; the other display calls are left out.
\<close>

datatype syscall =
    Chdir string
  | Mkdir string
  | MakeDirectory string
  | Rmdir string
  | System string
  | Sleep int
  | Sync
  | Mount string string string string
  | Umount string
  | Umount2 string
  | PivotRoot string string
  | Symlink string string
  | Reboot
  | Fork
  | Setsid
  | Umask
  | Opendir string
  | Applet "string list"
  | Fopen string string
  | Fread string
  | Fwrite string "byte list"
  | Fclose string
  | Write string "byte list"
  | Unlink string
  | Access string
  | Remove string
  | Progress int

text \<open>
  A stream opened for reading: what it still delivers, and whether it ends in an error instead of
  the end of the file.
\<close>

record stream =
  st_left :: "byte list"
  st_bad :: bool

text \<open>
  \<open>os_loop\<close> is \<^verbatim>\<open>ubi_loop_device\<close>, which \<^verbatim>\<open>losetup\<close> sets; \<open>os_mtd_type\<close> the type libmtd finds for a
  device, \<open>os_mtds\<close> its range of device numbers and their names; \<open>os_junk\<close> an uninitialised
  variable.
\<close>

record 'w os =
  os_call :: "syscall \<Rightarrow> 'w \<Rightarrow> int \<times> 'w"
  os_file :: "string \<Rightarrow> 'w \<Rightarrow> stream option"
  os_dir :: "string \<Rightarrow> 'w \<Rightarrow> string list option"
  os_loop :: "'w \<Rightarrow> string"
  os_mtd_type :: "string \<Rightarrow> 'w \<Rightarrow> int option"
  os_mtds :: "'w \<Rightarrow> (int \<times> int \<times> (int \<Rightarrow> string option)) option"
  os_junk :: "'w \<Rightarrow> int"
  os_stack :: "'w \<Rightarrow> byte list"

type_synonym event = "syscall \<times> int"

record 'w sys =
  world :: 'w
  trace :: "event list"

type_synonym ('w, 'a) prog = "('w sys, 'a) state"

definition call :: "'w os \<Rightarrow> syscall \<Rightarrow> ('w, int) prog" where
  "call os c =
     State (\<lambda>s. case os_call os c (world s) of
                 (r, w) \<Rightarrow> (r, s\<lparr>world := w, trace := trace s @ [(c, r)]\<rparr>))"

definition peek :: "('w \<Rightarrow> 'a) \<Rightarrow> ('w, 'a) prog" where
  "peek f = State (\<lambda>s. (f (world s), s))"

text \<open>The result of the C library's wrapper: -1 for every error.\<close>

definition libc :: "'w os \<Rightarrow> syscall \<Rightarrow> ('w, int) prog" where
  "libc os c = do { r \<leftarrow> call os c; State_Monad.return (if r < 0 then -1 else r) }"

abbreviation ret :: "'a \<Rightarrow> ('w, 'a) prog" where
  "ret \<equiv> State_Monad.return"

text \<open>Calls one after the other, with the sum of their results, as in \<^verbatim>\<open>ret += mkdir(...)\<close>.\<close>

fun calls_sum :: "'w os \<Rightarrow> syscall list \<Rightarrow> ('w, int) prog" where
  "calls_sum os [] = ret 0"
| "calls_sum os (c # cs) = do { r \<leftarrow> libc os c; rest \<leftarrow> calls_sum os cs; ret (c_int (r + rest)) }"

text \<open>Characters as bytes of a file.\<close>

definition byte_chars :: "byte list \<Rightarrow> string" where
  "byte_chars bs = map (\<lambda>b. char_of (unat b)) bs"

definition char_bytes :: "string \<Rightarrow> byte list" where
  "char_bytes s = map (\<lambda>c. word_of_nat (of_char c)) s"

subsection \<open>What a run may call\<close>

text \<open>Every event a program adds to the trace satisfies \<open>P\<close>.\<close>

definition emits :: "(event \<Rightarrow> bool) \<Rightarrow> ('w, 'a) prog \<Rightarrow> bool" where
  "emits P m \<longleftrightarrow> (\<forall>s. \<exists>new. trace (snd (run_state m s)) = trace s @ new \<and> list_all P new)"

named_theorems emits_intros \<open>which events a program may cause\<close>

lemma emits_ret [emits_intros]: "emits P (ret x)"
  by (simp add: emits_def)

lemma emits_peek [emits_intros]: "emits P (peek f)"
  by (simp add: emits_def peek_def)

lemma emits_call: "(\<And>r. P (c, r)) \<Longrightarrow> emits P (call os c)"
  by (simp add: emits_def call_def split: prod.splits)

lemma emits_bind [emits_intros]:
  assumes "emits P m" "\<And>x. emits P (f x)"
  shows "emits P (State_Monad.bind m f)"
  unfolding emits_def
proof
  fix s
  obtain x s1 where m: "run_state m s = (x, s1)"
    by (cases "run_state m s")
  then obtain new1 where n1: "trace s1 = trace s @ new1" "list_all P new1"
    using assms(1) by (auto simp: emits_def dest: spec [of _ s])
  obtain new2 where n2: "trace (snd (run_state (f x) s1)) = trace s1 @ new2" "list_all P new2"
    using assms(2) [of x] by (auto simp: emits_def)
  show "\<exists>new. trace (snd (run_state (State_Monad.bind m f) s)) = trace s @ new \<and> list_all P new"
    using m n1 n2 by (intro exI [of _ "new1 @ new2"]) simp
qed

lemma emits_if [emits_intros]: "(b \<Longrightarrow> emits P m) \<Longrightarrow> (\<not> b \<Longrightarrow> emits P n) \<Longrightarrow> emits P (if b then m else n)"
  by simp

lemma emits_option [emits_intros]:
  "(x = None \<Longrightarrow> emits P m) \<Longrightarrow> (\<And>y. x = Some y \<Longrightarrow> emits P (f y))
   \<Longrightarrow> emits P (case x of None \<Rightarrow> m | Some y \<Rightarrow> f y)"
  by (cases x) auto

lemma emits_prod [emits_intros]: "(\<And>a b. x = (a, b) \<Longrightarrow> emits P (f a b)) \<Longrightarrow> emits P (case x of (a, b) \<Rightarrow> f a b)"
  by (cases x) auto

lemma emits_flow [emits_intros]:
  "(\<And>x. r = Go x \<Longrightarrow> emits P (f x)) \<Longrightarrow> (\<And>n. r = Exit n \<Longrightarrow> emits P (g n)) \<Longrightarrow> (r = Crash \<Longrightarrow> emits P m)
   \<Longrightarrow> emits P (case r of Go x \<Rightarrow> f x | Exit n \<Rightarrow> g n | Crash \<Rightarrow> m)"
  by (cases r) auto

lemma emits_libc: "(\<And>r. P (c, r)) \<Longrightarrow> emits P (libc os c)"
  unfolding libc_def by (intro emits_intros emits_call)

lemma emits_calls_sum: "(\<And>c r. c \<in> set cs \<Longrightarrow> P (c, r)) \<Longrightarrow> emits P (calls_sum os cs)"
  by (induction cs) (auto intro!: emits_intros emits_libc)

lemma emits_mono: "emits P m \<Longrightarrow> (\<And>e. P e \<Longrightarrow> Q e) \<Longrightarrow> emits Q m"
  unfolding emits_def by (metis list.pred_mono_strong)

lemma emitsD:
  assumes "emits P m" "run_state m s = (x, s')"
  obtains new where "trace s' = trace s @ new" "list_all P new"
  using assms unfolding emits_def by (metis snd_conv)

text \<open>A run from the empty trace.\<close>

lemma emits_trace: "emits P m \<Longrightarrow> run_state m s = (x, s') \<Longrightarrow> trace s = [] \<Longrightarrow> list_all P (trace s')"
  by (metis append_Nil emitsD)

subsection \<open>What a run ensures\<close>

text \<open>
  \<open>Q x new\<close> holds of the result and of the events the program adds: the rules compute weakest
  preconditions.
\<close>

definition ensures :: "('a \<Rightarrow> event list \<Rightarrow> bool) \<Rightarrow> ('w, 'a) prog \<Rightarrow> bool" where
  "ensures Q m \<longleftrightarrow>
     (\<forall>s. \<exists>new. trace (snd (run_state m s)) = trace s @ new \<and> Q (fst (run_state m s)) new)"

named_theorems ensures_intros \<open>what a program ensures\<close>

lemma ensures_ret [ensures_intros]: "Q x [] \<Longrightarrow> ensures Q (ret x)"
  by (simp add: ensures_def)

lemma ensures_peek [ensures_intros]: "(\<And>x. Q x []) \<Longrightarrow> ensures Q (peek f)"
  by (simp add: ensures_def peek_def)

lemma ensures_call [ensures_intros]: "(\<And>r. Q r [(c, r)]) \<Longrightarrow> ensures Q (call os c)"
  by (simp add: ensures_def call_def split: prod.splits)

lemma ensures_bind [ensures_intros]:
  assumes "ensures (\<lambda>x a. ensures (\<lambda>y b. Q y (a @ b)) (f x)) m"
  shows "ensures Q (State_Monad.bind m f)"
  unfolding ensures_def
proof
  fix s
  obtain x s1 where m: "run_state m s = (x, s1)"
    by (cases "run_state m s")
  then obtain a where a: "trace s1 = trace s @ a" "ensures (\<lambda>y b. Q y (a @ b)) (f x)"
    using assms by (auto simp: ensures_def dest: spec [of _ s])
  then obtain b where "trace (snd (run_state (f x) s1)) = trace s1 @ b" "Q (fst (run_state (f x) s1)) (a @ b)"
    unfolding ensures_def by blast
  then show "\<exists>new. trace (snd (run_state (State_Monad.bind m f) s)) = trace s @ new
      \<and> Q (fst (run_state (State_Monad.bind m f) s)) new"
    using m a by (intro exI [of _ "a @ b"]) simp
qed

lemma ensures_if [ensures_intros]:
  "(b \<Longrightarrow> ensures Q m) \<Longrightarrow> (\<not> b \<Longrightarrow> ensures Q n) \<Longrightarrow> ensures Q (if b then m else n)"
  by simp

lemma ensures_option [ensures_intros]:
  "(x = None \<Longrightarrow> ensures Q m) \<Longrightarrow> (\<And>y. x = Some y \<Longrightarrow> ensures Q (f y))
   \<Longrightarrow> ensures Q (case x of None \<Rightarrow> m | Some y \<Rightarrow> f y)"
  by (cases x) auto

lemma ensures_prod [ensures_intros]:
  "(\<And>a b. x = (a, b) \<Longrightarrow> ensures Q (f a b)) \<Longrightarrow> ensures Q (case x of (a, b) \<Rightarrow> f a b)"
  by (cases x) auto

lemma ensures_flow [ensures_intros]:
  "(\<And>x. r = Go x \<Longrightarrow> ensures Q (f x)) \<Longrightarrow> (\<And>n. r = Exit n \<Longrightarrow> ensures Q (g n)) \<Longrightarrow> (r = Crash \<Longrightarrow> ensures Q m)
   \<Longrightarrow> ensures Q (case r of Go x \<Rightarrow> f x | Exit n \<Rightarrow> g n | Crash \<Rightarrow> m)"
  by (cases r) auto

lemma ensures_mono: "ensures Q m \<Longrightarrow> (\<And>x a. Q x a \<Longrightarrow> R x a) \<Longrightarrow> ensures R m"
  unfolding ensures_def by blast

lemma ensures_emits: "emits P m \<Longrightarrow> (\<And>x a. list_all P a \<Longrightarrow> R x a) \<Longrightarrow> ensures R m"
  unfolding ensures_def emits_def by blast

lemma ensures_emits_conj: "emits P m \<Longrightarrow> ensures Q m \<Longrightarrow> ensures (\<lambda>x a. list_all P a \<and> Q x a) m"
  unfolding ensures_def emits_def by (metis same_append_eq)

lemma ensuresD:
  assumes "ensures Q m" "run_state m s = (x, s')"
  obtains new where "trace s' = trace s @ new" "Q x new"
  using assms unfolding ensures_def by (metis fst_conv snd_conv)

subsection \<open>Running a program\<close>

lemma run_call: "run_state (call os c) s = (case os_call os c (world s) of
     (r, w) \<Rightarrow> (r, s\<lparr>world := w, trace := trace s @ [(c, r)]\<rparr>))"
  by (simp add: call_def)

lemma run_peek: "run_state (peek f) s = (f (world s), s)"
  by (simp add: peek_def)

lemma run_bind_eq: "run_state (State_Monad.bind m f) s = (y, s') \<longleftrightarrow>
    (\<exists>x s1. run_state m s = (x, s1) \<and> run_state (f x) s1 = (y, s'))"
  by (auto split: prod.splits)

end
