(* ===== verification/FlashExt4.thy ===== *)
theory FlashExt4
  imports Sys
begin

text \<open>
  \<^verbatim>\<open>flash_ext4.c\<close>: copying a kernel image to a block device or file, and unpacking a rootfs archive
  over the mounted rootfs.
\<close>

subsection \<open>Kernel images\<close>

text \<open>
  The loop of \<^verbatim>\<open>flash_ext4_kernel\<close>: \<open>left\<close> is what the kernel file still delivers, \<open>n\<close> the bytes
  read so far. \<^verbatim>\<open>fread\<close> returns fewer than 512 bytes only at the end or at an error; it sets the
  end-of-file flag in the first case. The result is the function's, the files still open, or \<open>Crash\<close>
  where the progress is divided by a file size of 0: the size is the one of the selection phase, so this
  takes a file that has grown since.
\<close>

definition progress_step :: "'w os \<Rightarrow> int \<Rightarrow> int \<Rightarrow> int \<Rightarrow> ('w, int flow) prog" where
  "progress_step os file_size n percent =
     (if file_size = 0 then ret Crash
      else
        let new_percent = c_int (c_div (c_longlong (n * 100)) file_size)
        in if percent < new_percent
           then do { _ \<leftarrow> call os (Progress new_percent); ret (Go new_percent) } else ret (Go percent))"

function copy_loop ::
  "'w os \<Rightarrow> string \<Rightarrow> int \<Rightarrow> bool \<Rightarrow> byte list \<Rightarrow> bool \<Rightarrow> int \<Rightarrow> int \<Rightarrow> ('w, bool flow) prog"
where
  "copy_loop os device file_size no_wr left bad n percent =
     (if left = [] then ret (Go (\<not> bad))
      else do {
        p \<leftarrow> progress_step os file_size (n + int (length (take 512 left))) percent;
        case p of
          Exit c \<Rightarrow> ret (Exit c)
        | Crash \<Rightarrow> ret Crash
        | Go percent' \<Rightarrow> do {
            r \<leftarrow> (if no_wr then ret 1 else call os (Fwrite device (take 512 left)));
            if r \<noteq> 1 then ret (Go False)
            else if length left < 512 \<and> \<not> bad then ret (Go True)
            else copy_loop os device file_size no_wr (drop 512 left) bad
                   (n + int (length (take 512 left))) percent'
          }
      })"
  by pat_completeness auto

termination copy_loop
  by (relation "measure (\<lambda>(os, d, f, w, left, b, n, p). length left)") auto

declare copy_loop.simps [simp del]

text \<open>
  What \<^verbatim>\<open>fclose\<close> answers is ignored, also for the device, whose last bytes may still be in the buffer of
  the stream then.
\<close>

definition flash_ext4_kernel ::
  "'w os \<Rightarrow> string \<Rightarrow> string \<Rightarrow> int \<Rightarrow> bool \<Rightarrow> ('w, bool flow) prog"
where
  "flash_ext4_kernel os device filename kernel_file_size no_wr = do {
     kernel_file \<leftarrow> peek (os_file os filename);
     case kernel_file of
       None \<Rightarrow> ret (Go False)
     | Some f \<Rightarrow> do {
         kernel_dev \<leftarrow> call os (Fopen device ''wb'');
         if kernel_dev < 0 then ret (Go False)
         else do {
           r \<leftarrow> copy_loop os device kernel_file_size no_wr (st_left f) (st_bad f) 0 0;
           case r of
             Exit c \<Rightarrow> ret (Exit c)
           | Crash \<Rightarrow> ret Crash
           | Go ok \<Rightarrow> do {
               _ \<leftarrow> call os (Fclose filename);
               _ \<leftarrow> call os (Fclose device);
               ret (Go ok)
             }
         }
       }
   }"

subsection \<open>Rootfs archives\<close>

text \<open>The busybox programs; with \<^verbatim>\<open>no_write\<close> they are not run.\<close>

definition run_applet :: "'w os \<Rightarrow> bool \<Rightarrow> string list \<Rightarrow> ('w, bool) prog" where
  "run_applet os no_wr argv =
     (if no_wr then ret True else do { r \<leftarrow> call os (Applet argv); ret (r = 0) })"

definition rm_rootfs :: "'w os \<Rightarrow> string \<Rightarrow> bool \<Rightarrow> ('w, bool) prog" where
  "rm_rootfs os directory no_wr = run_applet os no_wr [''rm'', ''-r'', ''-f'', directory]"

definition untar_rootfs :: "'w os \<Rightarrow> string \<Rightarrow> string \<Rightarrow> bool \<Rightarrow> ('w, bool) prog" where
  "untar_rootfs os filename directory no_wr =
     run_applet os no_wr [''tar'', ''-x'', ''-f'', filename, ''-C'', directory]"

definition sub_dir_used :: "gst \<Rightarrow> bool" where
  "sub_dir_used g \<longleftrightarrow> current_rootfs_sub_dir g \<noteq> '''' \<and> \<not> rootsubdir_check g"

definition rootfs_path :: "gst \<Rightarrow> string" where
  "rootfs_path g =
     ''/oldroot_remount/'' @ (if sub_dir_used g then rootfs_sub_dir g @ ''/'' else '''')"

definition flash_unpack_rootfs :: "'w os \<Rightarrow> gst \<Rightarrow> string \<Rightarrow> bool \<Rightarrow> ('w, bool) prog" where
  "flash_unpack_rootfs os g filename no_wr = do {
     _ \<leftarrow> (if no_wr then ret True else rm_rootfs os (rootfs_path g) no_wr);
     _ \<leftarrow> call os (Progress 0);
     _ \<leftarrow> (if \<not> no_wr \<and> sub_dir_used g then call os (Mkdir (rootfs_path g)) else ret 0);
     ok \<leftarrow> untar_rootfs os filename (rootfs_path g) no_wr;
     if \<not> ok then ret False
     else do {
       _ \<leftarrow> call os Sync;
       _ \<leftarrow> call os Sync;
       _ \<leftarrow> call os (Sleep 1);
       _ \<leftarrow> call os (Chdir ''/'');
       ret True
     }
   }"

subsection \<open>What is written\<close>

text \<open>
  The bytes a trace hands to the streams and descriptors of a file, in order: those of the calls that
  were answered as complete, an \<^verbatim>\<open>fwrite\<close> of one item with 1 and a \<^verbatim>\<open>write\<close> with the number of its bytes.
\<close>

fun written :: "string \<Rightarrow> event list \<Rightarrow> byte list" where
  "written d [] = []"
| "written d ((c, r) # es) =
     (case c of
        Fwrite d' data \<Rightarrow> if d' = d \<and> r = 1 then data else []
      | Write d' data \<Rightarrow> if d' = d \<and> r = int (length data) then data else []
      | _ \<Rightarrow> []) @ written d es"

lemma written_append: "written d (es @ fs) = written d es @ written d fs"
  by (induction d es rule: written.induct) auto

text \<open>
  The bytes that have reached the file for certain: a stream opened for writing has a buffer, which is
  delivered at the latest by an \<^verbatim>\<open>fclose\<close> that answers 0. With any other answer nothing is known of it.
\<close>

fun delivered :: "string \<Rightarrow> byte list \<Rightarrow> event list \<Rightarrow> byte list" where
  "delivered d buf [] = []"
| "delivered d buf ((c, r) # es) =
     (case c of
        Fopen d' m \<Rightarrow> if d' = d then delivered d [] es else delivered d buf es
      | Fwrite d' data \<Rightarrow> if d' = d \<and> r = 1 then delivered d (buf @ data) es else delivered d buf es
      | Fclose d' \<Rightarrow> if d' = d then (if r = 0 then buf else []) @ delivered d [] es else delivered d buf es
      | _ \<Rightarrow> delivered d buf es)"

text \<open>A call that has nothing to do with the stream of a file.\<close>

fun foreign :: "string \<Rightarrow> event \<Rightarrow> bool" where
  "foreign d (Fopen d' m, r) = (d' \<noteq> d)"
| "foreign d (Fwrite d' data, r) = (d' \<noteq> d)"
| "foreign d (Fclose d', r) = (d' \<noteq> d)"
| "foreign d (Write d' data, r) = (d' \<noteq> d)"
| "foreign d (c, r) = True"

lemma foreign_delivers: "list_all (foreign d) es \<Longrightarrow> delivered d buf (es @ fs) = delivered d buf fs"
proof (induction es arbitrary: buf)
  case (Cons e es)
  then show ?case
    by (cases e) (auto split: syscall.splits)
qed simp

lemma foreign_writes: "list_all (foreign d) es \<Longrightarrow> written d es = []"
proof (induction es)
  case (Cons e es)
  then show ?case
    by (cases e) (auto split: syscall.splits)
qed simp

text \<open>The events of copying: progress, and the blocks handed to the stream completely.\<close>

fun copy_event :: "string \<Rightarrow> event \<Rightarrow> bool" where
  "copy_event d (Progress p, r) = True"
| "copy_event d (Fwrite d' data, r) = (d' = d \<and> r = 1)"
| "copy_event d (c, r) = False"

lemma copy_delivers: "list_all (copy_event d) es \<Longrightarrow> delivered d buf (es @ fs) = delivered d (buf @ written d es) fs"
proof (induction es arbitrary: buf)
  case (Cons e es)
  then show ?case
    by (cases "(d, e)" rule: copy_event.cases) auto
qed simp

lemma progress_step_Go:
  assumes "run_state (progress_step os fsz n p) s = (Go p', s')"
  shows "\<exists>new. trace s' = trace s @ new \<and> list_all (copy_event d) new \<and> written d new = []"
  using assms by (auto simp: progress_step_def run_call Let_def split: if_splits prod.splits)

lemma copy_loop_writes:
  assumes "run_state (copy_loop os d fsz False left bad n p) s = (Go True, s')"
  shows "\<not> bad \<and> (\<exists>new. trace s' = trace s @ new \<and> list_all (copy_event d) new \<and> written d new = left)"
  using assms
proof (induction left arbitrary: n p s rule: length_induct)
  case (1 left)
  show ?case
  proof (cases "left = []")
    case True
    then show ?thesis
      using 1(2) by (simp add: copy_loop.simps)
  next
    case False
    let ?n = "n + int (length (take 512 left))"
    obtain p1 s1 where s1: "run_state (progress_step os fsz ?n p) s = (Go p1, s1)"
      using 1(2) False by (auto simp: copy_loop.simps [of os d fsz False left] split: prod.splits flow.splits)
    obtain new1 where new1: "trace s1 = trace s @ new1" "list_all (copy_event d) new1" "written d new1 = []"
      using progress_step_Go [OF s1] by blast
    obtain r s2 where s2: "run_state (call os (Fwrite d (take 512 left))) s1 = (r, s2)"
      by (cases "run_state (call os (Fwrite d (take 512 left))) s1")
    let ?new2 = "new1 @ [(Fwrite d (take 512 left), r)]"
    have run: "run_state (if r \<noteq> 1 then ret (Go False)
        else if length left < 512 \<and> \<not> bad then ret (Go True)
        else copy_loop os d fsz False (drop 512 left) bad ?n p1) s2 = (Go True, s')"
      using 1(2) False s1 s2 by (simp add: copy_loop.simps [of os d fsz False left])
    then have "r = 1"
      by (auto split: if_splits)
    then have t2: "trace s2 = trace s @ ?new2" "list_all (copy_event d) ?new2" "written d ?new2 = take 512 left"
      using s2 new1 by (auto simp: run_call written_append split: prod.splits)
    show ?thesis
    proof (cases "length left < 512 \<and> \<not> bad")
      case True
      then show ?thesis
        using run t2 by (auto split: if_splits)
    next
      case more: False
      then have "run_state (copy_loop os d fsz False (drop 512 left) bad ?n p1) s2 = (Go True, s')"
        using run by (auto split: if_splits)
      moreover have "length (drop 512 left) < length left"
        using False by simp
      ultimately obtain new3 where "\<not> bad" "trace s' = trace s2 @ new3" "list_all (copy_event d) new3" "written d new3 = drop 512 left"
        using 1(1) by blast
      then show ?thesis
        using t2 by (intro conjI exI [of _ "?new2 @ new3"]) (simp_all add: written_append)
    qed
  qed
qed

end
