(* ===== verification/FlashUbi.thy ===== *)
theory FlashUbi
  imports FlashExt4 Libmtd
begin

text \<open>
  \<^verbatim>\<open>flash_ubi_jffs2.c\<close>: the calls of the flash tools with their arguments, the choice of tools by
  flash and file system type, and the copy of a rootfs out of a UBI image that is attached through
  a loop device and block2mtd.
\<close>

subsection \<open>Calling the tools\<close>

definition getFlashType :: "'w os \<Rightarrow> string \<Rightarrow> ('w, int) prog" where
  "getFlashType os device = do {
     t \<leftarrow> peek (os_mtd_type os device);
     ret (case t of None \<Rightarrow> -1 | Some ty \<Rightarrow> ty)
   }"

definition flash_erase :: "'w os \<Rightarrow> string \<Rightarrow> bool \<Rightarrow> ('w, bool) prog" where
  "flash_erase os device no_wr = run_applet os no_wr [''flash_erase'', device, ''0'', ''0'']"

definition flash_erase_jffs2 :: "'w os \<Rightarrow> string \<Rightarrow> bool \<Rightarrow> ('w, bool) prog" where
  "flash_erase_jffs2 os device no_wr =
     run_applet os no_wr [''flash_erase'', ''-j'', device, ''0'', ''0'']"

definition flash_write :: "'w os \<Rightarrow> string \<Rightarrow> string \<Rightarrow> bool \<Rightarrow> ('w, bool) prog" where
  "flash_write os device filename no_wr = run_applet os no_wr [''nandwrite'', ''-pm'', device, filename]"

definition ubi_write :: "'w os \<Rightarrow> string \<Rightarrow> string \<Rightarrow> bool \<Rightarrow> ('w, bool) prog" where
  "ubi_write os device filename no_wr =
     run_applet os no_wr [''ubiformat'', device, ''-f'', filename, ''-D'']"

definition ubi_detach_dev :: "'w os \<Rightarrow> int \<Rightarrow> bool \<Rightarrow> ('w, bool) prog" where
  "ubi_detach_dev os mtd_device no_wr =
     run_applet os no_wr [''ubidetach'', ''-p'', ''/dev/mtd'' @ fmt_d (c_uint mtd_device)]"

definition ubi_attach_ofgwrite :: "'w os \<Rightarrow> int \<Rightarrow> int \<Rightarrow> bool \<Rightarrow> ('w, bool) prog" where
  "ubi_attach_ofgwrite os mtd_device vid_offset no_wr =
     run_applet os no_wr
       [''ubiattach'', ''-d'', ''10'', ''-m'', fmt_d (c_uint mtd_device), ''-O'', fmt_d (c_uint vid_offset)]"

definition flashcp :: "'w os \<Rightarrow> string \<Rightarrow> string \<Rightarrow> bool \<Rightarrow> bool \<Rightarrow> ('w, bool) prog" where
  "flashcp os device filename rebt no_wr =
     run_applet os no_wr [''flashcp'', (if rebt then ''-vr'' else ''-v''), filename, device]"

subsection \<open>Flash partitions\<close>

definition is_nand :: "int \<Rightarrow> bool" where
  "is_nand ty \<longleftrightarrow> ty = MTD_NANDFLASH \<or> ty = MTD_MLCNANDFLASH"

definition flash_ubi_jffs2_kernel :: "'w os \<Rightarrow> string \<Rightarrow> string \<Rightarrow> bool \<Rightarrow> ('w, bool) prog" where
  "flash_ubi_jffs2_kernel os device filename no_wr = do {
     ty \<leftarrow> getFlashType os device;
     if ty = -1 then ret False
     else if is_nand ty then do {
       erased \<leftarrow> flash_erase os device no_wr;
       if \<not> erased then ret False else flash_write os device filename no_wr
     }
     else if ty = MTD_NORFLASH then flashcp os device filename False no_wr
     else ret False
   }"

definition flash_ubi_jffs2_rootfs ::
  "'w os \<Rightarrow> string \<Rightarrow> string \<Rightarrow> RootfsTypeEnum \<Rightarrow> bool \<Rightarrow> ('w, bool) prog"
where
  "flash_ubi_jffs2_rootfs os device filename rtype no_wr = do {
     ty \<leftarrow> getFlashType os device;
     if ty = -1 then ret False
     else if is_nand ty \<and> rtype = UBIFS then ubi_write os device filename no_wr
     else if is_nand ty \<and> rtype = JFFS2 then do {
       erased \<leftarrow> flash_erase_jffs2 os device no_wr;
       if \<not> erased then ret False else flash_write os device filename no_wr
     }
     else if ty = MTD_NORFLASH \<and> rtype = JFFS2 then flashcp os device filename True no_wr
     else ret False
   }"

subsection \<open>Loop device and block2mtd\<close>

text \<open>The result carries \<^verbatim>\<open>ubi_loop_device\<close>, which \<^verbatim>\<open>losetup\<close> sets.\<close>

definition setup_loop_device :: "'w os \<Rightarrow> string \<Rightarrow> ('w, string option) prog" where
  "setup_loop_device os image_file = do {
     r \<leftarrow> call os (Applet [''losetup'', ''-r'', ''-f'', image_file]);
     if r \<noteq> 0 then ret None else do { dev \<leftarrow> peek (os_loop os); ret (Some dev) }
   }"

definition release_loop_device :: "'w os \<Rightarrow> string \<Rightarrow> ('w, bool) prog" where
  "release_loop_device os loop_dev = do {
     r \<leftarrow> call os (Applet [''losetup'', ''-d'', loop_dev]);
     ret (r = 0)
   }"

text \<open>\<^verbatim>\<open>fscanf(fp, "%u", &x)\<close>; without a number the variable keeps what it holds.\<close>

definition scan_uint :: "int \<Rightarrow> byte list \<Rightarrow> int" where
  "scan_uint old bs =
     (let s = byte_chars bs
      in if scan_number 10 s = None then old else fst (strtou 32 10 s))"

definition read_sysfs :: "'w os \<Rightarrow> string \<Rightarrow> ('w, int option) prog" where
  "read_sysfs os attr = do {
     new \<leftarrow> peek (os_file os (''/sys/class/mtd/mtd0/'' @ attr));
     old \<leftarrow> peek (os_file os (''/sys/devices/virtual/mtd/mtd0/'' @ attr));
     junk \<leftarrow> peek (os_junk os);
     ret (case new of
            Some f \<Rightarrow> Some (scan_uint junk (st_left f))
          | None \<Rightarrow> map_option (\<lambda>f. scan_uint junk (st_left f)) old)
   }"

definition get_erasesize_and_writesize :: "'w os \<Rightarrow> ('w, (int \<times> int) option) prog" where
  "get_erasesize_and_writesize os = do {
     e \<leftarrow> read_sysfs os ''erasesize'';
     case e of
       None \<Rightarrow> ret None
     | Some erasesize \<Rightarrow> do {
         w \<leftarrow> read_sysfs os ''writesize'';
         ret (map_option (Pair erasesize) w)
       }
   }"

definition block2mtd_file :: string where
  "block2mtd_file = ''/sys/module/block2mtd/parameters/block2mtd''"

definition write_block2mtd :: "'w os \<Rightarrow> string \<Rightarrow> ('w, bool) prog" where
  "write_block2mtd os line = do {
     fp \<leftarrow> call os (Fopen block2mtd_file ''w'');
     if fp < 0 then ret False
     else do {
       r \<leftarrow> call os (Fwrite block2mtd_file (char_bytes line));
       _ \<leftarrow> call os (Fclose block2mtd_file);
       ret (\<not> r < 0)
     }
   }"

definition setup_block2mtd :: "'w os \<Rightarrow> string \<Rightarrow> int \<Rightarrow> int \<Rightarrow> ('w, bool) prog" where
  "setup_block2mtd os loop_dev erasesize writesize =
     write_block2mtd os
       (loop_dev @ '',0x'' @ fmt_x (nat (c_uint erasesize)) @ '',0x'' @ fmt_x (nat (c_uint writesize)))"

definition remove_block2mtd :: "'w os \<Rightarrow> string \<Rightarrow> ('w, bool) prog" where
  "remove_block2mtd os loop_dev = write_block2mtd os (loop_dev @ '',remove'')"

subsection \<open>The VID header offset\<close>

text \<open>
  The search of \<^verbatim>\<open>detect_vid_offset\<close> from \<open>pos\<close> on: after a \<^verbatim>\<open>U\<close> three more bytes are read, and
  \<open>pos\<close> counts the round as one. A read error without the end-of-file flag would never end the
  loop; the device is taken to be readable.
\<close>

fun vid_loop :: "int \<Rightarrow> byte list \<Rightarrow> int option" where
  "vid_loop pos [] = None"
| "vid_loop pos (c # left) =
     (if c \<noteq> 0x55 then vid_loop (pos + 1) left
      else if length left < 3 then None
      else if take 3 left = [0x42, 0x49, 0x21] then Some (pos + 3)
      else vid_loop (pos + 1) (drop 3 left))"

definition detect_vid_offset :: "'w os \<Rightarrow> string \<Rightarrow> ('w, int option) prog" where
  "detect_vid_offset os loop_dev = do {
     fp \<leftarrow> peek (os_file os loop_dev);
     ret (case fp of None \<Rightarrow> None | Some f \<Rightarrow> vid_loop 0 (st_left f))
   }"

definition detect_mtd_device :: "'w os \<Rightarrow> string \<Rightarrow> ('w, int option) prog" where
  "detect_mtd_device os loop_dev = do {
     info \<leftarrow> peek (os_mtds os);
     ret (case info of
            None \<Rightarrow> None
          | Some (lowest, highest, name_of) \<Rightarrow>
              find (\<lambda>i. name_of i = Some (''block2mtd: '' @ loop_dev)) [lowest..highest])
   }"

subsection \<open>Rootfs of an NFI image\<close>

text \<open>
  The image is a byte list with a read position; \<open>buf\<close> is the buffer of 10000 bytes. \<^verbatim>\<open>fread\<close> of one
  item of \<open>n\<close> bytes stores what there is, and succeeds if that are all \<open>n\<close> of them.
\<close>

definition nfi_read :: "byte list \<Rightarrow> nat \<Rightarrow> nat \<Rightarrow> byte list \<Rightarrow> bool \<times> nat \<times> byte list" where
  "nfi_read img p n buf =
     (let got = take n (drop p img)
      in (length got = n \<and> n \<noteq> 0, p + length got, store_at 0 got buf))"

definition be32 :: "byte list \<Rightarrow> int" where
  "be32 b = uint (b ! 0) * 2 ^ 24 + uint (b ! 1) * 2 ^ 16 + uint (b ! 2) * 2 ^ 8 + uint (b ! 3)"

text \<open>
  \<^verbatim>\<open>fseek(fp, size, SEEK_CUR)\<close>: the unsigned size becomes a signed offset; positions behind the end
  are allowed, positions before the start are not.
\<close>

definition nfi_seek :: "nat \<Rightarrow> int \<Rightarrow> nat option" where
  "nfi_seek p sz = (let q = int p + c_int sz in if q < 0 then None else Some (nat q))"

text \<open>
  The loop over the partitions, \<open>k\<close> of them to skip, with the code's \<open>pos\<close>: the position behind
  the size of the rootfs partition, its size and \<open>pos\<close>, or \<open>None\<close> where the loop ends without one.
\<close>

fun nfi_partitions ::
  "byte list \<Rightarrow> nat \<Rightarrow> int \<Rightarrow> int \<Rightarrow> nat \<Rightarrow> byte list \<Rightarrow> (nat \<times> int \<times> int \<times> byte list) option"
where
  "nfi_partitions img k totalsize pos p buf =
     (if pos \<ge> totalsize then None
      else
        (case nfi_read img p 4 buf of (ok, p1, buf1) \<Rightarrow>
           if \<not> ok then None
           else
             (case k of
                0 \<Rightarrow> Some (p1, be32 buf1, c_uint (pos + 4), buf1)
              | Suc k' \<Rightarrow>
                  (case nfi_seek p1 (be32 buf1) of
                     None \<Rightarrow> None
                   | Some p2 \<Rightarrow> nfi_partitions img k' totalsize (c_uint (pos + be32 buf1 + 4)) p2 buf1))))"

declare nfi_partitions.simps [simp del]

text \<open>Copying the partition without the ECC bytes: \<open>rb\<close> bytes read and \<open>wb\<close> written per round.\<close>

function nfi_copy ::
  "'w os \<Rightarrow> string \<Rightarrow> byte list \<Rightarrow> nat \<Rightarrow> nat \<Rightarrow> int \<Rightarrow> int \<Rightarrow> nat \<Rightarrow> byte list \<Rightarrow> ('w, bool) prog"
where
  "nfi_copy os out img rb wb part_end pos p buf =
     (if pos \<ge> part_end then ret True
      else
        (case nfi_read img p rb buf of (ok, p1, buf1) \<Rightarrow>
           do {
             w \<leftarrow> call os (Fwrite out (take wb buf1));
             if \<not> ok \<or> w \<noteq> 1 then ret False
             else nfi_copy os out img rb wb part_end (c_uint (pos + int rb)) p1 buf1
           }))"
  by pat_completeness auto

lemma nfi_read_ok:
  "nfi_read img p n buf = (True, p1, buf1) \<Longrightarrow> p1 = p + n \<and> 0 < n \<and> p + n \<le> length img"
  by (auto simp: nfi_read_def Let_def)

termination nfi_copy
  by (relation "measure (\<lambda>(os, out, img, rb, wb, e, pos, p, buf). length img - p)")
    (auto dest!: nfi_read_ok [OF sym])

declare nfi_copy.simps [simp del]

text \<open>
  \<^verbatim>\<open>extract_rootfs_from_nfi\<close>: the path of the extracted file on success. The check of the total
  size only fires when reading it failed as well.
\<close>

definition extract_rootfs_from_nfi ::
  "'w os \<Rightarrow> string \<Rightarrow> string \<Rightarrow> int \<Rightarrow> ('w, string option) prog"
where
  "extract_rootfs_from_nfi os path image_file writesize =
     (let readbytes = nat (writesize div 32 + writesize);
          out = path @ ''/ofg_nfi_rootfs.bin''
      in if writesize > 5000 then ret None
         else do {
           fp \<leftarrow> peek (os_file os image_file);
           buf \<leftarrow> peek (os_stack os);
           case fp of
             None \<Rightarrow> ret None
           | Some f \<Rightarrow>
               (case nfi_read (st_left f) 0 32 buf of (ok, p1, buf1) \<Rightarrow>
                if \<not> ok \<or> take 3 buf1 \<noteq> [0x4E, 0x46, 0x49] then ret None
                else
                  (case nfi_read (st_left f) p1 4 buf1 of (ok2, p2, buf2) \<Rightarrow>
                   let totalsize = c_uint (be32 buf2 + 36)
                   in if \<not> ok2 \<and> totalsize < 1000000 then ret None
                      else
                        (case nfi_partitions (st_left f) 3 totalsize 36 p2 buf2 of
                           None \<Rightarrow> ret None
                         | Some (p3, sz, pos, buf3) \<Rightarrow> do {
                             fout \<leftarrow> call os (Fopen out ''wb'');
                             if fout < 0 then ret None
                             else do {
                               ok3 \<leftarrow> nfi_copy os out (st_left f) readbytes (nat writesize)
                                       (c_uint (pos + sz)) pos p3 buf3;
                               _ \<leftarrow> call os (Fclose out);
                               ret (if ok3 then Some out else None)
                             }
                           })))
         })"

subsection \<open>Mounting a UBI image\<close>

text \<open>
  What is set up is released in reverse order when a later step fails. The result is the loop
  device and the MTD number to release later.
\<close>

definition release_block2mtd :: "'w os \<Rightarrow> string \<Rightarrow> ('w, unit) prog" where
  "release_block2mtd os loop_dev = do {
     _ \<leftarrow> remove_block2mtd os loop_dev;
     _ \<leftarrow> release_loop_device os loop_dev;
     ret ()
   }"

definition attach_and_mount ::
  "'w os \<Rightarrow> string \<Rightarrow> int \<Rightarrow> int \<Rightarrow> string \<Rightarrow> ('w, (string \<times> int) option) prog"
where
  "attach_and_mount os loop_dev mtd vid_offset mount_path = do {
     attached \<leftarrow> ubi_attach_ofgwrite os mtd vid_offset False;
     if \<not> attached then do { _ \<leftarrow> release_block2mtd os loop_dev; ret None }
     else do {
       m \<leftarrow> call os (Mount ''/dev/ubi10_0'' mount_path ''ubifs'' ''ro'');
       if m < 0 then do {
         _ \<leftarrow> ubi_detach_dev os mtd False;
         _ \<leftarrow> release_block2mtd os loop_dev;
         ret None
       }
       else ret (Some (loop_dev, mtd))
     }
   }"

definition mount_loop_image ::
  "'w os \<Rightarrow> string \<Rightarrow> int \<Rightarrow> int \<Rightarrow> string \<Rightarrow> ('w, (string \<times> int) option) prog"
where
  "mount_loop_image os image_file erasesize writesize mount_path = do {
     looped \<leftarrow> setup_loop_device os image_file;
     case looped of
       None \<Rightarrow> ret None
     | Some loop_dev \<Rightarrow> do {
         blk \<leftarrow> setup_block2mtd os loop_dev erasesize writesize;
         if \<not> blk then do { _ \<leftarrow> release_loop_device os loop_dev; ret None }
         else do {
           vid \<leftarrow> detect_vid_offset os loop_dev;
           case vid of
             None \<Rightarrow> do { _ \<leftarrow> release_block2mtd os loop_dev; ret None }
           | Some vid_offset \<Rightarrow> do {
               mtd \<leftarrow> detect_mtd_device os loop_dev;
               case mtd of
                 None \<Rightarrow> do { _ \<leftarrow> release_block2mtd os loop_dev; ret None }
               | Some n \<Rightarrow> attach_and_mount os loop_dev n vid_offset mount_path
             }
         }
       }
   }"

text \<open>With \<^verbatim>\<open>no_write\<close> nothing is mounted, and the function succeeds: \<open>Some None\<close>.\<close>

definition mount_ubi_image ::
  "'w os \<Rightarrow> gst \<Rightarrow> string \<Rightarrow> string \<Rightarrow> string \<Rightarrow> bool \<Rightarrow> ('w, (string \<times> int) option option) prog"
where
  "mount_ubi_image os g image_file nfi mount_path no_wr =
     (if no_wr then ret (Some None)
      else do {
        sizes \<leftarrow> get_erasesize_and_writesize os;
        case sizes of
          None \<Rightarrow> ret None
        | Some (erasesize, writesize) \<Rightarrow> do {
            img \<leftarrow> (if nfi \<noteq> [] then extract_rootfs_from_nfi os (nfi_path g) nfi writesize
                    else ret (Some image_file));
            case img of
              None \<Rightarrow> ret None
            | Some file \<Rightarrow> do {
                m \<leftarrow> mount_loop_image os file erasesize writesize mount_path;
                ret (map_option Some m)
              }
          }
      })"

definition umount_ubi_image :: "'w os \<Rightarrow> string \<Rightarrow> (string \<times> int) option \<Rightarrow> bool \<Rightarrow> ('w, unit) prog" where
  "umount_ubi_image os mount_path mounted no_wr =
     (if no_wr then ret ()
      else
        (case mounted of
           None \<Rightarrow> ret ()
         | Some (loop_dev, mtd) \<Rightarrow> do {
             _ \<leftarrow> call os (Umount mount_path);
             _ \<leftarrow> ubi_detach_dev os mtd no_wr;
             _ \<leftarrow> remove_block2mtd os loop_dev;
             _ \<leftarrow> release_loop_device os loop_dev;
             ret ()
           }))"

subsection \<open>Copying the rootfs\<close>

definition cp_busybox :: "'w os \<Rightarrow> string \<Rightarrow> string \<Rightarrow> bool \<Rightarrow> ('w, bool) prog" where
  "cp_busybox os source target no_wr = run_applet os no_wr [''cp'', ''-a'', source, target]"

definition real_entries :: "string list \<Rightarrow> string list" where
  "real_entries names = filter (\<lambda>n. n \<noteq> ''.'' \<and> n \<noteq> ''..'') names"

text \<open>The second pass over the directory: \<open>copied\<close> of \<open>all_entries\<close> are done.\<close>

fun cp_entries :: "'w os \<Rightarrow> string \<Rightarrow> string \<Rightarrow> int \<Rightarrow> int \<Rightarrow> string list \<Rightarrow> ('w, bool) prog" where
  "cp_entries os source target copied all_entries [] = ret True"
| "cp_entries os source target copied all_entries (n # ns) = do {
     ok \<leftarrow> cp_busybox os (source @ n) target False;
     if \<not> ok then ret False
     else do {
       _ \<leftarrow> call os (Progress (c_int (c_div ((copied + 1) * 100) all_entries)));
       cp_entries os source target (copied + 1) all_entries ns
     }
   }"

definition cp_rootfs :: "'w os \<Rightarrow> string \<Rightarrow> string \<Rightarrow> bool \<Rightarrow> ('w, bool) prog" where
  "cp_rootfs os source target no_wr =
     (if no_wr then ret True
      else do {
        dp \<leftarrow> peek (os_dir os source);
        case dp of
          None \<Rightarrow> ret False
        | Some names \<Rightarrow>
            cp_entries os source target 0 (int (length (real_entries names))) (real_entries names)
      })"

definition ubi_mount_path :: string where
  "ubi_mount_path = ''/ubi_mount/''"

definition flash_ubi_loop_subdir :: "'w os \<Rightarrow> gst \<Rightarrow> string \<Rightarrow> string \<Rightarrow> bool \<Rightarrow> ('w, bool) prog" where
  "flash_ubi_loop_subdir os g filename nfi no_wr =
     (let path = ''/oldroot_remount/'' @ rootfs_sub_dir g @ ''/''
      in do {
        _ \<leftarrow> (if no_wr then ret 0 else call os (Mkdir ubi_mount_path));
        mounted \<leftarrow> mount_ubi_image os g filename nfi ubi_mount_path no_wr;
        case mounted of
          None \<Rightarrow> ret False
        | Some m \<Rightarrow> do {
            _ \<leftarrow> (if no_wr then ret True else rm_rootfs os path no_wr);
            _ \<leftarrow> (if no_wr then ret 0 else call os (Mkdir path));
            ok \<leftarrow> cp_rootfs os ubi_mount_path path no_wr;
            _ \<leftarrow> call os Sync;
            _ \<leftarrow> umount_ubi_image os ubi_mount_path m no_wr;
            _ \<leftarrow> (if no_wr then ret 0 else call os (Rmdir ubi_mount_path));
            ret ok
          }
      })"

end
