(* ===== verification/BootImage.thy ===== *)
theory BootImage
  imports FlashExt4
begin

text \<open>
  The Android boot image of the Dreambox one and two: \<^verbatim>\<open>write_padding\<close>, \<^verbatim>\<open>load_file\<close> and
  \<^verbatim>\<open>generate_boot_image\<close> of \<^verbatim>\<open>ofgwrite.c\<close>. The SHA-1 of OpenSSL is a parameter.
\<close>

subsection \<open>The header\<close>

record boot_img_hdr =
  bh_kernel_size :: u32
  bh_kernel_addr :: u32
  bh_ramdisk_size :: u32
  bh_ramdisk_addr :: u32
  bh_second_size :: u32
  bh_second_addr :: u32
  bh_tags_addr :: u32
  bh_page_size :: u32
  bh_name :: "byte list"
  bh_cmdline :: "byte list"
  bh_id :: "byte list"
  bh_extra_cmdline :: "byte list"

definition BOOT_MAGIC :: "byte list" where
  "BOOT_MAGIC = char_bytes ''ANDROID!''"

text \<open>The packed structure in memory; \<open>unused\<close> and the rest of \<open>id\<close> are zero.\<close>

definition boot_hdr_bytes :: "boot_img_hdr \<Rightarrow> byte list" where
  "boot_hdr_bytes h =
     BOOT_MAGIC @ le_bytes 4 (bh_kernel_size h) @ le_bytes 4 (bh_kernel_addr h)
     @ le_bytes 4 (bh_ramdisk_size h) @ le_bytes 4 (bh_ramdisk_addr h)
     @ le_bytes 4 (bh_second_size h) @ le_bytes 4 (bh_second_addr h)
     @ le_bytes 4 (bh_tags_addr h) @ le_bytes 4 (bh_page_size h) @ replicate 8 0
     @ bh_name h @ bh_cmdline h @ bh_id h @ bh_extra_cmdline h"

text \<open>\<^verbatim>\<open>strncpy(field, s, n)\<close> into a field of \<open>n\<close> bytes.\<close>

definition strncpy_field :: "nat \<Rightarrow> byte list \<Rightarrow> byte list" where
  "strncpy_field n s = take n (s @ replicate n 0)"

definition boot_cmdline :: "string \<Rightarrow> string" where
  "boot_cmdline rootdev =
     ''console=ttyS0,1000000 root='' @ rootdev @ '' rootwait rootfstype=ext4 no_console_suspend''"

text \<open>The two command line fields: 511 bytes and a zero, and what is left when the first is full.\<close>

definition cmdline_field :: "byte list \<Rightarrow> byte list" where
  "cmdline_field s = strncpy_field 511 s @ [0]"

definition extra_field :: "byte list \<Rightarrow> byte list" where
  "extra_field s = (if length s \<ge> 511 then strncpy_field 1024 (drop 511 s) else replicate 1024 0)"

subsection \<open>Files\<close>

definition write_padding :: "'w os \<Rightarrow> string \<Rightarrow> u32 \<Rightarrow> u32 \<Rightarrow> ('w, bool) prog" where
  "write_padding os fd pagesize itemsize =
     (let pagemask = pagesize - 1
      in if itemsize AND pagemask = 0 then ret True
         else do {
           let padding = replicate (unat (pagesize - (itemsize AND pagemask))) 0;
           r \<leftarrow> call os (Write fd padding);
           ret (r = int (length padding))
         })"

definition load_file :: "'w os \<Rightarrow> string \<Rightarrow> ('w, byte list option) prog" where
  "load_file os fn = do {
     f \<leftarrow> peek (os_file os fn);
     ret (case f of None \<Rightarrow> None | Some st \<Rightarrow> if st_bad st then None else Some (st_left st))
   }"

text \<open>Writing one part of the image and its padding.\<close>

definition write_part :: "'w os \<Rightarrow> string \<Rightarrow> u32 \<Rightarrow> byte list \<Rightarrow> ('w, bool) prog" where
  "write_part os fd pagesize data = do {
     r \<leftarrow> call os (Write fd data);
     if r \<noteq> int (length data) then ret False
     else write_padding os fd pagesize (word_of_nat (length data))
   }"

fun write_parts :: "'w os \<Rightarrow> string \<Rightarrow> u32 \<Rightarrow> byte list list \<Rightarrow> ('w, bool) prog" where
  "write_parts os fd pagesize [] = ret True"
| "write_parts os fd pagesize (d # ds) = do {
     ok \<leftarrow> write_part os fd pagesize d;
     if \<not> ok then ret False else write_parts os fd pagesize ds
   }"

subsection \<open>The image\<close>

definition boot_hash_input :: "byte list \<Rightarrow> byte list \<Rightarrow> byte list" where
  "boot_hash_input kernel_data second_data =
     kernel_data @ le_bytes 4 (word_of_nat (length kernel_data) :: u32) @ le_bytes 4 (0 :: u32)
     @ second_data @ le_bytes 4 (word_of_nat (length second_data) :: u32)"

definition boot_header ::
  "(byte list \<Rightarrow> byte list) \<Rightarrow> string \<Rightarrow> byte list \<Rightarrow> byte list \<Rightarrow> byte list \<Rightarrow> boot_img_hdr"
where
  "boot_header sha1 board cmdline kernel_data second_data =
     \<lparr>bh_kernel_size = word_of_nat (length kernel_data), bh_kernel_addr = 0x1080000,
      bh_ramdisk_size = 0, bh_ramdisk_addr = 0x1000000,
      bh_second_size = word_of_nat (length second_data), bh_second_addr = 0x1000000,
      bh_tags_addr = 0x100, bh_page_size = 2048, bh_name = strncpy_field 16 (char_bytes board),
      bh_cmdline = cmdline_field cmdline, bh_id = strncpy_field 32 (sha1 (boot_hash_input kernel_data second_data)),
      bh_extra_cmdline = extra_field cmdline\<rparr>"

text \<open>An old image is removed first; the result is \<open>False\<close> when that fails.\<close>

definition remove_old :: "'w os \<Rightarrow> string \<Rightarrow> ('w, bool) prog" where
  "remove_old os path = do {
     there \<leftarrow> call os (Access path);
     if there < 0 then ret True
     else do { r \<leftarrow> call os (Remove path); ret (r = 0) }
   }"

text \<open>
  \<^verbatim>\<open>generate_boot_image\<close>; \<open>board\<close> is \<^verbatim>\<open>boxname\<close>. The descriptor is closed on failure only.
\<close>

definition generate_boot_image ::
  "'w os \<Rightarrow> (byte list \<Rightarrow> byte list) \<Rightarrow> string \<Rightarrow> string \<Rightarrow> string \<Rightarrow> ('w, int) prog"
where
  "generate_boot_image os sha1 board rootdev bootimg =
     (let cmdline = char_bytes (boot_cmdline rootdev)
      in if length board \<ge> 16 then ret 1
         else if length cmdline > 512 + 1024 - 2 then ret 1
         else do {
           k \<leftarrow> load_file os ''/oldroot_remount/boot/Image.gz-4.9'';
           case k of
             None \<Rightarrow> ret 1
           | Some kernel_data \<Rightarrow> do {
               s \<leftarrow> load_file os (''/oldroot_remount/boot/dream'' @ board @ ''.dtb'');
               case s of
                 None \<Rightarrow> ret 1
               | Some second_data \<Rightarrow> do {
                   removed \<leftarrow> remove_old os bootimg;
                   if \<not> removed then ret 1
                   else do {
                     fd \<leftarrow> call os (Fopen bootimg ''creat'');
                     if fd < 0 then ret 1
                     else do {
                       ok \<leftarrow> write_parts os bootimg 2048
                         [boot_hdr_bytes (boot_header sha1 board cmdline kernel_data second_data),
                          kernel_data, [], second_data];
                       if ok then ret 0
                       else do {
                         _ \<leftarrow> call os (Unlink bootimg);
                         _ \<leftarrow> call os (Fclose bootimg);
                         ret 1
                       }
                     }
                   }
                 }
             }
         })"

end
