(* ===== verification/OfgMain.thy ===== *)
theory OfgMain
  imports FlashUbi BootImage DeviceSelect
begin

text \<open>
  The second half of \<^verbatim>\<open>ofgwrite.c\<close>: stopping the running system, moving to a root file system in
  memory, flashing rootfs and kernel, and rebooting. The state \<open>g\<close> of the selection phase is
  fixed here; display calls are left out, but for the progress.
\<close>

subsection \<open>Flashing\<close>

definition kernel_flash :: "'w os \<Rightarrow> gst \<Rightarrow> ('w, bool flow) prog" where
  "kernel_flash os g =
     (if kernel_flash_mode g = TARBZ2
      then flash_ext4_kernel os (kernel_device g) (kernel_filename g) (st_size (kernel_file_stat g))
             (no_write g)
      else if kernel_flash_mode g = MTD
      then do {
        ok \<leftarrow> flash_ubi_jffs2_kernel os (kernel_device g) (kernel_filename g) (no_write g);
        ret (Go ok)
      }
      else do { r \<leftarrow> peek (os_junk os); ret (Go (r \<noteq> 0)) })"

definition rootfs_flash :: "'w os \<Rightarrow> gst \<Rightarrow> ('w, bool) prog" where
  "rootfs_flash os g =
     (if rootfs_flash_mode g \<in> {TARBZ2, TARBZ2_MTD, TARXZ_UBI}
      then flash_unpack_rootfs os g (rootfs_filename g) (no_write g)
      else if rootfs_flash_mode g = MTD
      then flash_ubi_jffs2_rootfs os (rootfs_device g) (rootfs_filename g)
             (if rootfs_type g = EXT4 then UBIFS else rootfs_type g) (no_write g)
      else if rootfs_flash_mode g = UBI_LOOP_SUBDIR
      then flash_ubi_loop_subdir os g (rootfs_filename g) (nfi_filename g) (no_write g)
      else do { r \<leftarrow> peek (os_junk os); ret (r \<noteq> 0) })"

subsection \<open>Waiting for enigma2\<close>

text \<open>busybox \<^verbatim>\<open>ps\<close> answers 9999 when it sees a process called enigma2.\<close>

definition exec_ps :: "'w os \<Rightarrow> ('w, bool) prog" where
  "exec_ps os = do { r \<leftarrow> call os (Applet [''ps'']); ret (r = 9999) }"

function check_e2_loop :: "'w os \<Rightarrow> int \<Rightarrow> ('w, bool) prog" where
  "check_e2_loop os time =
     (if time \<ge> 70 then ret False
      else do {
        e2_found \<leftarrow> exec_ps os;
        if \<not> e2_found then do {
          _ \<leftarrow> call os (Progress (time * 100 div 70));
          ret True
        }
        else do {
          _ \<leftarrow> call os (Sleep 2);
          _ \<leftarrow> call os (Progress ((time + 2) * 100 div 70));
          check_e2_loop os (time + 2)
        }
      })"
  by pat_completeness auto

termination check_e2_loop
  by (relation "measure (\<lambda>(os, time). nat (70 - time))") auto

declare check_e2_loop.simps [simp del]

definition check_e2_stopped :: "'w os \<Rightarrow> ('w, bool) prog" where
  "check_e2_stopped os = do { _ \<leftarrow> call os (Progress 0); check_e2_loop os 0 }"

definition exec_fuser_kill :: "'w os \<Rightarrow> bool \<Rightarrow> ('w, bool) prog" where
  "exec_fuser_kill os no_wr = run_applet os no_wr [''fuser'', ''-k'', ''-m'', ''/oldroot/'']"

text \<open>\<open>Inl\<close> is the exit code of a parent process that ends here.\<close>

definition fork_step :: "'w os \<Rightarrow> ('w, int + bool) prog" where
  "fork_step os = do {
     pid \<leftarrow> call os Fork;
     ret (if pid < 0 then Inr False else if pid > 0 then Inl 0 else Inr True)
   }"

definition daemonize :: "'w os \<Rightarrow> ('w, int + bool) prog" where
  "daemonize os = do {
     first \<leftarrow> fork_step os;
     if first \<noteq> Inr True then ret first
     else do {
       sid \<leftarrow> call os Setsid;
       if sid < 0 then ret (Inr False)
       else do {
         second \<leftarrow> fork_step os;
         if second \<noteq> Inr True then ret second
         else do { _ \<leftarrow> call os Umask; ret (Inr True) }
       }
     }
   }"

subsection \<open>Moving to the root in memory\<close>

text \<open>The directories of the new root, and the one for the image files' mount point.\<close>

definition newroot_dirs :: "bool \<Rightarrow> bool \<Rightarrow> string list" where
  "newroot_dirs multilib andr =
     [''/newroot/bin'', ''/newroot/dev'', ''/newroot/etc'', ''/newroot/dev/pts'', ''/newroot/lib'',
      ''/newroot/media'', ''/newroot/oldroot'', ''/newroot/oldroot_remount'', ''/newroot/proc'',
      ''/newroot/run'', ''/newroot/sbin'', ''/newroot/sys'', ''/newroot/usr'', ''/newroot/usr/lib'',
      ''/newroot/usr/lib/autofs'', ''/newroot/usr/sbin'', ''/newroot/var'', ''/newroot/var/volatile'']
     @ (if multilib then [''/newroot/lib64'', ''/newroot/usr/lib64'', ''/newroot/usr/lib64/autofs''] else [])
     @ (if andr then [''/newroot/dreamcard''] else [])"

definition make_newroot :: "'w os \<Rightarrow> gst \<Rightarrow> bool \<Rightarrow> ('w, int) prog" where
  "make_newroot os g multilib =
     calls_sum os
       (Chdir ''/newroot'' # map Mkdir (newroot_dirs multilib (android g))
        @ [System (''mkdir -p /newroot/'' @ rootfs_mount_point g)])"

definition copy_programs :: "'w os \<Rightarrow> gst \<Rightarrow> bool \<Rightarrow> ('w, int) prog" where
  "copy_programs os g multilib =
     calls_sum os (map System
       (if multilib then
          [''cp -arf /bin/busybox*     /newroot/bin'', ''cp -arf /bin/sh*          /newroot/bin'',
           ''cp -arf /bin/bash*        /newroot/bin'', ''cp -arf /sbin/init*       /newroot/sbin'',
           ''cp -arf /lib64/libc*        /newroot/lib64'', ''cp -arf /lib64/ld*          /newroot/lib64'',
           ''cp -arf /lib64/libtinfo*    /newroot/lib64'', ''cp -arf /lib64/libdl*       /newroot/lib64'']
          @ (if android g then
               [''cp -arf /sbin/blkid*       /newroot/sbin'',
                ''cp -arf /lib64/libblkid.*   /newroot/lib64''] else [])
        else
          [''cp -arf /bin/busybox*     /newroot/bin'', ''cp -arf /bin/sh*          /newroot/bin'',
           ''cp -arf /bin/bash*        /newroot/bin'', ''cp -arf /sbin/init*       /newroot/sbin'',
           ''cp -arf /lib/libc*        /newroot/lib'', ''cp -arf /lib/ld*          /newroot/lib'',
           ''cp -arf /lib/libtinfo*    /newroot/lib'', ''cp -arf /lib/libdl*       /newroot/lib'']
          @ (if android g then
               [''cp -arf /sbin/blkid*       /newroot/sbin'',
                ''cp -arf /lib/libblkid.*   /newroot/lib''] else [])))"

definition copy_libcrypt :: "'w os \<Rightarrow> bool \<Rightarrow> ('w, bool) prog" where
  "copy_libcrypt os multilib = do {
     r \<leftarrow> call os (System (if multilib then ''cp -arf /lib64/libcrypt*    /newroot/lib64''
                           else ''cp -arf /lib/libcrypt*    /newroot/lib''));
     if r = 0 then ret True
     else do {
       r2 \<leftarrow> call os (System (if multilib then ''cp -arf /usr/lib64/libcrypt*    /newroot/usr/lib64''
                              else ''cp -arf /usr/lib/libcrypt*    /newroot/usr/lib''));
       ret (r2 = 0)
     }
   }"

definition copy_autofs :: "'w os \<Rightarrow> bool \<Rightarrow> ('w, int) prog" where
  "copy_autofs os multilib =
     calls_sum os (map System
       (if multilib then
          [''cp -arf /usr/sbin/autom*  /newroot/bin'', ''cp -arf /etc/auto*        /newroot/etc'',
           ''cp -arf /lib64/libpthread*  /newroot/lib64'', ''cp -arf /lib64/libnss*      /newroot/lib64'',
           ''cp -arf /lib64/libnsl*      /newroot/lib64'', ''cp -arf /lib64/libresolv*   /newroot/lib64'',
           ''cp -arf /lib64/librt*       /newroot/lib64'',
           ''cp -arf /usr/lib64/libtirp* /newroot/usr/lib64'',
           ''cp -arf /usr/lib64/autofs/* /newroot/usr/lib64/autofs'',
           ''cp -arf /etc/nsswitch*    /newroot/etc'', ''cp -arf /etc/resolv*      /newroot/etc'']
        else
          [''cp -arf /usr/sbin/autom*  /newroot/bin'', ''cp -arf /etc/auto*        /newroot/etc'',
           ''cp -arf /lib/libpthread*  /newroot/lib'', ''cp -arf /lib/libnss*      /newroot/lib'',
           ''cp -arf /lib/libnsl*      /newroot/lib'', ''cp -arf /lib/libresolv*   /newroot/lib'',
           ''cp -arf /lib/librt*       /newroot/lib'', ''cp -arf /usr/lib/libtirp* /newroot/usr/lib'',
           ''cp -arf /usr/lib/autofs/* /newroot/usr/lib/autofs'',
           ''cp -arf /etc/nsswitch*    /newroot/etc'', ''cp -arf /etc/resolv*      /newroot/etc'']))"

text \<open>Everything the new root needs; \<open>False\<close> where the function returns 0.\<close>

definition prepare_newroot :: "'w os \<Rightarrow> gst \<Rightarrow> ('w, bool) prog" where
  "prepare_newroot os g = do {
     dir \<leftarrow> call os (Opendir ''/lib64'');
     let multilib = (dir \<ge> 0);
     made \<leftarrow> make_newroot os g multilib;
     if made \<noteq> 0 then ret False
     else do {
       copied \<leftarrow> copy_programs os g multilib;
       if copied \<noteq> 0 then ret False
       else do {
         crypt \<leftarrow> copy_libcrypt os multilib;
         if \<not> crypt then ret False
         else do { _ \<leftarrow> copy_autofs os multilib; ret True }
       }
     }
   }"

text \<open>The run level of the flashing phase, with enigma2 stopped.\<close>

definition stop_system :: "'w os \<Rightarrow> ('w, bool) prog" where
  "stop_system os = do {
     r \<leftarrow> call os (System ''init 2'');
     if r \<noteq> 0 then do { _ \<leftarrow> call os (Sleep 5); ret False }
     else do {
       stopped \<leftarrow> check_e2_stopped os;
       if \<not> stopped then do { _ \<leftarrow> call os (System ''init 3''); ret False }
       else ret True
     }
   }"

definition reboot_after :: "'w os \<Rightarrow> int \<Rightarrow> ('w, bool) prog" where
  "reboot_after os secs = do {
     _ \<leftarrow> call os (Sleep secs);
     _ \<leftarrow> call os Reboot;
     ret False
   }"

definition switch_root :: "'w os \<Rightarrow> ('w, bool) prog" where
  "switch_root os = do {
     _ \<leftarrow> call os (Sleep 2);
     r \<leftarrow> call os (PivotRoot ''/newroot/'' ''oldroot'');
     if r \<noteq> 0 then do {
       _ \<leftarrow> call os (Sleep 5);
       _ \<leftarrow> call os (System ''init 3'');
       ret False
     }
     else do {
       _ \<leftarrow> call os (Chdir ''/'');
       moved \<leftarrow> calls_sum os
         [Mount ''/oldroot/dev/'' ''dev/'' '''' ''move'', Mount ''/oldroot/proc/'' ''proc/'' '''' ''move'',
          Mount ''/oldroot/sys/'' ''sys/'' '''' ''move'',
          Mount ''/oldroot/var/volatile'' ''var/volatile/'' '''' ''move'',
          Symlink ''/var/volatile/tmp'' ''/tmp''];
       if moved \<noteq> 0 then reboot_after os 30 else ret True
     }
   }"

fun umount_all :: "'w os \<Rightarrow> string list \<Rightarrow> ('w, unit) prog" where
  "umount_all os [] = ret ()"
| "umount_all os (d # ds) = do { _ \<leftarrow> call os (Umount2 (''/oldroot'' @ d)); umount_all os ds }"

text \<open>The mount with the image files, the other mounts, and the processes that keep the old root busy.\<close>

definition release_oldroot :: "'w os \<Rightarrow> gst \<Rightarrow> ('w, int) prog" where
  "release_oldroot os g = do {
     media \<leftarrow> call os (Mount ''/oldroot/media/'' ''media/'' '''' ''move'');
     _ \<leftarrow> (if strncmp_eq (rootfs_mount_point g) ''/media/'' 7 \<and> media \<noteq> 0
             \<or> \<not> strncmp_eq (rootfs_mount_point g) ''/var/volatile/'' 14
           then call os (Mount (''/oldroot'' @ rootfs_mount_point g) (rootfs_mount_point g) '''' ''move'')
           else ret 0);
     _ \<leftarrow> umount_all os (mountlist g);
     _ \<leftarrow> calls_sum os [Symlink ''/bin/busybox'' ''/bin/mount'', Symlink ''/bin/busybox'' ''/bin/umount''];
     _ \<leftarrow> call os (System ''/bin/automount'');
     _ \<leftarrow> call os (System ''exec init u'');
     _ \<leftarrow> call os (Sleep 3);
     _ \<leftarrow> exec_fuser_kill os (no_write g);
     _ \<leftarrow> call os (Sleep 3);
     _ \<leftarrow> call os (Umount ''/oldroot/newroot'');
     call os (Umount ''/oldroot/'')
   }"

definition fs_type_string :: "gst \<Rightarrow> string" where
  "fs_type_string g = (case rootfs_fs_type g of None \<Rightarrow> '''' | Some t \<Rightarrow> t)"

definition unpacking :: "gst \<Rightarrow> bool" where
  "unpacking g \<longleftrightarrow> rootfs_flash_mode g \<in> {TARBZ2, TARBZ2_MTD, UBI_LOOP_SUBDIR, TARXZ_UBI}"

text \<open>\<open>umounted\<close> is the result of unmounting the old root.\<close>

definition remount_rootfs :: "'w os \<Rightarrow> gst \<Rightarrow> int \<Rightarrow> ('w, bool) prog" where
  "remount_rootfs os g umounted =
     (if unpacking g then do {
        r \<leftarrow> (if rootfs_flash_mode g = TARBZ2
              then call os (Mount (rootfs_device g) ''/oldroot_remount/'' (fs_type_string g) '''')
              else if rootfs_flash_mode g = UBI_LOOP_SUBDIR \<or> rootfs_flash_mode g = TARXZ_UBI
              then call os (Mount (rootfs_device g) ''/oldroot_remount/'' ''ext4'' '''')
              else call os (Mount (ubi_fs_name g) ''/oldroot_remount/'' ''ubifs'' ''''));
        if r = 0 then ret True else reboot_after os 30
      }
      else if umounted \<noteq> 0 then do {
        r \<leftarrow> call os (Mount ''/oldroot/'' ''/oldroot/'' '''' ''remount,ro'');
        if r \<noteq> 0 then reboot_after os 30 else ret True
      }
      else ret True)"

definition umount_rootfs :: "'w os \<Rightarrow> gst \<Rightarrow> ('w, bool) prog" where
  "umount_rootfs os g = do {
     prepared \<leftarrow> prepare_newroot os g;
     if \<not> prepared then ret False
     else do {
       stopped \<leftarrow> stop_system os;
       if \<not> stopped then ret False
       else do {
         switched \<leftarrow> switch_root os;
         if \<not> switched then ret False
         else do {
           umounted \<leftarrow> release_oldroot os g;
           remount_rootfs os g umounted
         }
       }
     }
   }"

subsection \<open>The Dreambox boot image\<close>

definition boot_image_step ::
  "'w os \<Rightarrow> (byte list \<Rightarrow> byte list) \<Rightarrow> gst \<Rightarrow> string \<Rightarrow> ('w, unit flow) prog"
where
  "boot_image_step os sha1 g path =
     (case boxname g of
        None \<Rightarrow> ret Crash
      | Some board \<Rightarrow> do {
          _ \<leftarrow> generate_boot_image os sha1 board (rootfs_device g) path;
          _ \<leftarrow> call os Sync;
          _ \<leftarrow> call os (Sleep 1);
          ret (Go ())
        })"

text \<open>
  The label of the card, the first line \<^verbatim>\<open>blkid\<close> prints; without output the buffer keeps what the
  stack holds.
\<close>

definition card_label :: "'w os \<Rightarrow> ('w, string) prog" where
  "card_label os = do {
     _ \<leftarrow> call os (System ''blkid.util-linux -s LABEL -o value /dev/mmcblk1p1'');
     out \<leftarrow> peek (os_file os ''blkid.util-linux -s LABEL -o value /dev/mmcblk1p1'');
     junk \<leftarrow> peek (os_stack os);
     ret (case out of
            None \<Rightarrow> byte_chars junk
          | Some f \<Rightarrow>
              (case c_lines 49 (byte_chars (st_left f)) of
                 [] \<Rightarrow> byte_chars junk
               | line # _ \<Rightarrow> line))
   }"

text \<open>The last character of the device less \<^verbatim>\<open>'0'\<close>.\<close>

definition kernel_number :: "string \<Rightarrow> int" where
  "kernel_number dev = (if dev = '''' then -1 else int (of_char (last dev)) - 48)"

text \<open>The image on the card: \<open>Exit\<close> is the code main returns.\<close>

definition dreamcard_image ::
  "'w os \<Rightarrow> (byte list \<Rightarrow> byte list) \<Rightarrow> gst \<Rightarrow> ('w, unit flow) prog"
where
  "dreamcard_image os sha1 g = do {
     _ \<leftarrow> call os (Mkdir ''/dreamcard'');
     dev \<leftarrow> call os (Fopen ''/dev/mmcblk1p1'' ''rb'');
     label \<leftarrow> card_label os;
     if dev < 0 \<or> label = [CHR 0x0A] \<or> label \<noteq> ''DREAMCARD'' @ [CHR 0x0A] then ret (Go ())
     else do {
       _ \<leftarrow> call os (Umount ''/dev/mmcblk1p1'');
       _ \<leftarrow> call os Sync;
       _ \<leftarrow> call os (Sleep 1);
       m \<leftarrow> call os (Mount ''/dev/mmcblk1p1'' ''/dreamcard'' ''vfat'' '''');
       if m < 0 then do { _ \<leftarrow> call os (Rmdir ''/dreamcard''); ret (Exit 1) }
       else if kernel_number (rootfs_device g) < 0 \<or> kernel_number (rootfs_device g) > 9
       then do { _ \<leftarrow> call os (Rmdir ''/dreamcard''); ret (Exit 1) }
       else do {
         r \<leftarrow> boot_image_step os sha1 g
                (''/dreamcard/kernel'' @ fmt_d (kernel_number (rootfs_device g)) @ ''.img'');
         case r of
           Go _ \<Rightarrow> do {
             _ \<leftarrow> call os (Umount2 ''/dreamcard'');
             _ \<leftarrow> call os (Rmdir ''/dreamcard'');
             ret (Go ())
           }
         | Exit n \<Rightarrow> ret (Exit n)
         | Crash \<Rightarrow> ret Crash
       }
     }
   }"

text \<open>
  The disk's name is cut off before the first \<^verbatim>\<open>p\<close>; a device without one makes \<^verbatim>\<open>strncpy\<close> run with
  a length that is no length.
\<close>

definition android_step :: "'w os \<Rightarrow> (byte list \<Rightarrow> byte list) \<Rightarrow> gst \<Rightarrow> ('w, unit flow) prog" where
  "android_step os sha1 g =
     (if CHR ''p'' \<notin> set (rootfs_device g) then ret Crash
      else do {
        card \<leftarrow> (if before_char CHR ''p'' (rootfs_device g) = ''/dev/mmcblk1''
                 then dreamcard_image os sha1 g else ret (Go ()));
        case card of
          Go _ \<Rightarrow> boot_image_step os sha1 g ''/oldroot_remount/boot/kernel.img''
        | Exit n \<Rightarrow> ret (Exit n)
        | Crash \<Rightarrow> ret Crash
      })"

subsection \<open>The flashing part of main\<close>

definition processes_to_stop :: "string list" where
  "processes_to_stop =
     [''killall nmbd'', ''killall smbd'', ''killall rpc.mountd'', ''killall rpc.statd'',
      ''/etc/init.d/softcam stop'', ''killall CCcam'', ''pkill -9 -f '' @ [CHR 0x27] @ ''[Oo][Ss][Cc][Aa][Mm]'' @ [CHR 0x27],
      ''ps w | grep -i oscam | grep -v grep | awk '' @ [CHR 0x27] @ ''{print $1}'' @ [CHR 0x27] @ ''| xargs kill -9'',
      ''pkill -9 -f '' @ [CHR 0x27] @ ''[Ww][Ii][Cc][Aa][Rr][Dd][Dd]'' @ [CHR 0x27],
      ''ps w | grep -i wicardd | grep -v grep | awk '' @ [CHR 0x27] @ ''{print $1}'' @ [CHR 0x27] @ ''| xargs kill -9'',
      ''killall kodi.bin'', ''killall hddtemp'', ''killall transmission-daemon'', ''killall openvpn'',
      ''/etc/init.d/sabnzbd stop'', ''pkill -9 -f cihelper'', ''pkill -9 -f ciplus_helper'',
      ''pkill -9 -f ciplushelper'', ''pkill -f vmc.sh'', ''pkill -f DBServer.py'',
      ''/etc/init.d/autofs stop'']"

text \<open>Going to the background and to the new root: \<open>Exit\<close> where the process ends or main returns.\<close>

definition leave_rootfs :: "'w os \<Rightarrow> gst \<Rightarrow> ('w, unit flow) prog" where
  "leave_rootfs os g = do {
     d \<leftarrow> daemonize os;
     case d of
       Inl n \<Rightarrow> ret (Exit n)
     | Inr ok \<Rightarrow>
         (if \<not> ok then ret (Exit 1)
          else do { u \<leftarrow> umount_rootfs os g; ret (if u then Go () else Exit 1) })
   }"

text \<open>
  Mounting the rootfs of another image; an unformatted partition (\<^verbatim>\<open>EINVAL\<close>, 22) is formatted.
\<close>

definition mount_rootfs :: "'w os \<Rightarrow> gst \<Rightarrow> ('w, unit flow) prog" where
  "mount_rootfs os g = do {
     _ \<leftarrow> call os (Mkdir ''/oldroot_remount'');
     r \<leftarrow> (if rootfs_flash_mode g = TARBZ2_MTD
           then call os (Mount (ubi_fs_name g) ''/oldroot_remount/'' ''ubifs'' '''')
           else if rootfs_flash_mode g = UBI_LOOP_SUBDIR \<or> rootfs_flash_mode g = TARXZ_UBI
           then call os (Mount (rootfs_device g) ''/oldroot_remount/'' ''ext4'' '''')
           else call os (Mount (rootfs_device g) ''/oldroot_remount/'' (fs_type_string g) ''''));
     r2 \<leftarrow> (if r = -22 \<and> rootfs_flash_mode g \<notin> {TARBZ2_MTD, UBI_LOOP_SUBDIR, TARXZ_UBI}
            then do {
              f \<leftarrow> call os (System (''mkfs.ext4 -F '' @ rootfs_device g));
              if f = 0 then call os (Mount (rootfs_device g) ''/oldroot_remount/'' ''ext4'' '''') else ret f
            }
            else ret r);
     if r2 \<noteq> 0 then do { _ \<leftarrow> call os (Sleep 3); ret (Exit 1) } else ret (Go ())
   }"

text \<open>After an error the box is rebooted when it was stopped.\<close>

definition flash_failed :: "'w os \<Rightarrow> gst \<Rightarrow> ('w, int flow) prog" where
  "flash_failed os g = do {
     _ \<leftarrow> (if stop_e2_needed g then reboot_after os 60 else ret False);
     _ \<leftarrow> call os (Sleep 3);
     ret (Go 1)
   }"

definition finish_flash :: "'w os \<Rightarrow> gst \<Rightarrow> ('w, int flow) prog" where
  "finish_flash os g = do {
     _ \<leftarrow> call os Sync;
     _ \<leftarrow> call os (Sleep 1);
     _ \<leftarrow> (if \<not> stop_e2_needed g
          then calls_sum os [Umount2 ''/oldroot_remount/'', Rmdir ''/oldroot_remount/'',
                 Umount2 ''/newroot/'', Rmdir ''/newroot/'']
          else call os (Umount ''/oldroot_remount/''));
     _ \<leftarrow> call os (Sleep 3);
     _ \<leftarrow> (if \<not> no_write g \<and> stop_e2_needed g then call os Reboot else ret 0);
     ret (Go 0)
   }"

definition flash_images :: "'w os \<Rightarrow> (byte list \<Rightarrow> byte list) \<Rightarrow> gst \<Rightarrow> ('w, int flow) prog" where
  "flash_images os sha1 g = do {
     rootfs_ok \<leftarrow> rootfs_flash os g;
     if \<not> rootfs_ok then flash_failed os g
     else do {
       kernel_ok \<leftarrow> (if flash_kernel g
         then do {
           r \<leftarrow> kernel_flash os g;
           _ \<leftarrow> (if r = Go True then call os Sync else ret 0);
           ret r
         }
         else ret (Go True));
       case kernel_ok of
         Exit n \<Rightarrow> ret (Go n)
       | Crash \<Rightarrow> ret Crash
       | Go ok \<Rightarrow>
           (if \<not> ok then flash_failed os g
            else do {
              img \<leftarrow> (if android g then android_step os sha1 g else ret (Go ()));
              case img of
                Go _ \<Rightarrow> finish_flash os g
              | Exit n \<Rightarrow> ret (Go n)
              | Crash \<Rightarrow> ret Crash
            })
     }
   }"

definition flash_rootfs_part :: "'w os \<Rightarrow> (byte list \<Rightarrow> byte list) \<Rightarrow> gst \<Rightarrow> ('w, int flow) prog" where
  "flash_rootfs_part os sha1 g =
     (if \<not> newroot_mounted g then ret (Go 1)
      else do {
        _ \<leftarrow> (if \<not> no_write g \<and> stop_e2_needed g
             then calls_sum os (map System processes_to_stop) else ret 0);
        _ \<leftarrow> call os Sync;
        _ \<leftarrow> call os (Sleep 1);
        left_rootfs \<leftarrow> (if \<not> no_write g \<and> stop_e2_needed g then leave_rootfs os g else ret (Go ()));
        case left_rootfs of
          Exit n \<Rightarrow> ret (Go n)
        | Crash \<Rightarrow> ret Crash
        | Go _ \<Rightarrow> do {
            mounted \<leftarrow> (if \<not> no_write g \<and> \<not> stop_e2_needed g \<and> unpacking g
                       then mount_rootfs os g else ret (Go ()));
            case mounted of
              Exit n \<Rightarrow> ret (Go n)
            | Crash \<Rightarrow> ret Crash
            | Go _ \<Rightarrow> do {
                _ \<leftarrow> (if no_write g then ret 0
                     else call os (MakeDirectory (''/oldroot_remount/'' @ rootfs_sub_dir g)));
                flash_images os sha1 g
              }
          }
      })"

definition flash_kernel_part :: "'w os \<Rightarrow> gst \<Rightarrow> ('w, int flow) prog" where
  "flash_kernel_part os g = do {
     r \<leftarrow> kernel_flash os g;
     case r of
       Exit n \<Rightarrow> ret (Go n)
     | Crash \<Rightarrow> ret Crash
     | Go ok \<Rightarrow> do {
         _ \<leftarrow> (if ok then (if g_quiet g then ret 0 else call os (Sleep 5)) else call os (Sleep 60));
         ret (Go (if ok then 0 else 1))
       }
   }"

definition main_flash :: "'w os \<Rightarrow> (byte list \<Rightarrow> byte list) \<Rightarrow> gst \<Rightarrow> ('w, int flow) prog" where
  "main_flash os sha1 g =
     (if flash_kernel g \<and> \<not> flash_rootfs g then flash_kernel_part os g
      else if flash_rootfs g then flash_rootfs_part os sha1 g else ret (Go 0))"

text \<open>The program: the selection phase on the environment, then the flashing phase.\<close>

definition ofgwrite_main ::
  "env \<Rightarrow> 'w os \<Rightarrow> (byte list \<Rightarrow> byte list) \<Rightarrow> string list \<Rightarrow> ('w, int flow) prog"
where
  "ofgwrite_main e os sha1 args =
     (case main_select e args initial_gst of
        Go g \<Rightarrow> main_flash os sha1 g
      | Exit n \<Rightarrow> ret (Go n)
      | Crash \<Rightarrow> ret Crash)"

text \<open>\<^verbatim>\<open>handle_busybox_fatal_error\<close>, the hook of \<^verbatim>\<open>tar\<close>: it ends the program with code 1.\<close>

definition handle_busybox_fatal_error :: "'w os \<Rightarrow> gst \<Rightarrow> ('w, int flow) prog" where
  "handle_busybox_fatal_error os g = do {
     _ \<leftarrow> (if stop_e2_needed g then reboot_after os 60 else ret False);
     _ \<leftarrow> call os (Sleep 30);
     ret (Exit 1)
   }"

end
