(* ===== verification/FlashPolicy.thy ===== *)
theory FlashPolicy
  imports OfgMain
begin

text \<open>
  What the flashing programs may call, as an interface: a policy allows the idle calls, and the
  lemmas of the locale say which further calls it must allow for a program to obey it. They are
  used for the policy of a dry run and for the one that allows everything.
\<close>

fun idle_call :: "syscall \<Rightarrow> bool" where
  "idle_call (Progress p) = True"
| "idle_call (Sleep n) = True"
| "idle_call Sync = True"
| "idle_call (Fclose f) = True"
| "idle_call (Chdir d) = True"
| "idle_call c = False"

locale call_policy =
  fixes allowed :: "event \<Rightarrow> bool"
  assumes idle: "idle_call c \<Longrightarrow> allowed (c, r)"
begin

lemma idle_emits: "idle_call c \<Longrightarrow> emits allowed (call os c)"
  by (intro emits_call idle)

lemma progress: "emits allowed (progress_step os fsz n p)"
  unfolding progress_step_def Let_def by (intro emits_intros idle_emits) simp

lemma copying:
  "no_wr \<or> (\<forall>d r. allowed (Fwrite device d, r)) \<Longrightarrow>
     emits allowed (copy_loop os device fsz no_wr left bad n p)"
proof (induction left arbitrary: n p rule: length_induct)
  case (1 left)
  have w: "emits allowed (if no_wr then ret 1 else call os (Fwrite device (take 512 left)))"
    using 1(2) by (intro emits_intros emits_call) auto
  have "left \<noteq> [] \<Longrightarrow> emits allowed (copy_loop os device fsz no_wr (drop 512 left) bad m q)" for m q
    using 1 by simp
  then show ?case
    unfolding copy_loop.simps [of os device fsz no_wr left]
    by (intro emits_intros progress w)
qed

lemma kernel_copy:
  "no_wr \<or> (\<forall>d r. allowed (Fwrite device d, r)) \<Longrightarrow> (\<And>r. allowed (Fopen device ''wb'', r)) \<Longrightarrow>
     emits allowed (flash_ext4_kernel os device filename fsz no_wr)"
  unfolding flash_ext4_kernel_def
  by (intro emits_intros copying idle_emits emits_call) simp_all

lemma applet:
  "no_wr \<or> (\<forall>r. allowed (Applet argv, r)) \<Longrightarrow> emits allowed (run_applet os no_wr argv)"
  unfolding run_applet_def by (intro emits_intros emits_call) auto

lemma dry_applet: "emits allowed (run_applet os True argv)"
  by (rule applet) simp

lemma dry_unpack: "emits allowed (flash_unpack_rootfs os g filename True)"
  unfolding flash_unpack_rootfs_def untar_rootfs_def
  by (simp, intro emits_intros idle_emits dry_applet) simp_all

lemma dry_mtd_kernel: "emits allowed (flash_ubi_jffs2_kernel os device filename True)"
  unfolding flash_ubi_jffs2_kernel_def getFlashType_def flash_erase_def flash_write_def flashcp_def
  by (intro emits_intros dry_applet)

lemma dry_mtd_rootfs: "emits allowed (flash_ubi_jffs2_rootfs os device filename ty True)"
  unfolding flash_ubi_jffs2_rootfs_def getFlashType_def flash_erase_jffs2_def flash_write_def
    flashcp_def ubi_write_def
  by (intro emits_intros dry_applet)

lemma dry_loop_subdir: "emits allowed (flash_ubi_loop_subdir os g filename nfi True)"
  unfolding flash_ubi_loop_subdir_def mount_ubi_image_def cp_rootfs_def umount_ubi_image_def Let_def
  by (simp, intro emits_intros idle_emits) simp_all

lemma dry_rootfs_flash: "no_write g \<Longrightarrow> emits allowed (rootfs_flash os g)"
  unfolding rootfs_flash_def
  by (simp, intro emits_intros conjI impI dry_unpack dry_mtd_rootfs dry_loop_subdir)

lemma dry_kernel_flash:
  "no_write g \<Longrightarrow> (\<And>r. kernel_flash_mode g = TARBZ2 \<Longrightarrow> allowed (Fopen (kernel_device g) ''wb'', r))
     \<Longrightarrow> emits allowed (kernel_flash os g)"
  unfolding kernel_flash_def
  by (simp, intro emits_intros conjI impI kernel_copy dry_mtd_kernel) simp_all

end

text \<open>The policy that allows every call: a program only ever adds to the trace.\<close>

interpretation any: call_policy "\<lambda>e. True"
  by unfold_locales simp

text \<open>
  The policy of a dry run: besides the idle calls, the device of a kernel that is to be copied may be
  opened for writing, which empties it where it is a file, and at the end of a run for the rootfs the
  two mount points of the flashing phase may be released.
\<close>

fun dry_event :: "gst \<Rightarrow> event \<Rightarrow> bool" where
  "dry_event g (Fopen f m, r) = (flash_kernel g \<and> kernel_flash_mode g = TARBZ2 \<and> f = kernel_device g \<and> m = ''wb'')"
| "dry_event g (Umount2 d, r) = (flash_rootfs g \<and> (d = ''/oldroot_remount/'' \<or> d = ''/newroot/''))"
| "dry_event g (Rmdir d, r) = (flash_rootfs g \<and> (d = ''/oldroot_remount/'' \<or> d = ''/newroot/''))"
| "dry_event g (c, r) = idle_call c"

lemma dry_event_idle: "idle_call c \<Longrightarrow> dry_event g (c, r)"
  by (cases c) auto

interpretation dry: call_policy "dry_event g" for g
  by unfold_locales (rule dry_event_idle)

end
