(* ===== verification/FlashProps.thy ===== *)
theory FlashProps
  imports FlashPolicy
begin

text \<open>
  Properties of single flashing operations: copying a kernel, a run that must not write, and finding
  the VID header offset of an image.
\<close>

subsection \<open>Kernel images\<close>

text \<open>
  When \<^verbatim>\<open>flash_ext4_kernel\<close> reports success for a real run, the kernel file was read without error to its
  end, exactly its bytes were handed to the stream of the device, in order, and the stream was closed.
  They are on the device for certain only if closing has succeeded, which the function does not look at.
\<close>

theorem kernel_copy_exact:
  assumes "run_state (flash_ext4_kernel os device filename fsz False) s = (Go True, s')"
  shows "\<exists>f es r m n. os_file os filename (world s) = Some f \<and> \<not> st_bad f
    \<and> trace s' = trace s @ (Fopen device ''wb'', r) # es @ [(Fclose filename, m), (Fclose device, n)]
    \<and> list_all (copy_event device) es \<and> written device es = st_left f"
proof -
  obtain f where f: "os_file os filename (world s) = Some f"
    using assms by (cases "os_file os filename (world s)") (auto simp: flash_ext4_kernel_def run_peek)
  obtain r s1 where c: "run_state (call os (Fopen device ''wb'')) s = (r, s1)"
    by (cases "run_state (call os (Fopen device ''wb'')) s")
  obtain s2 where l: "run_state (copy_loop os device fsz False (st_left f) (st_bad f) 0 0) s1 = (Go True, s2)"
    and closed: "\<exists>m n. trace s' = trace s2 @ [(Fclose filename, m), (Fclose device, n)]"
    using assms f c
    by (auto simp: flash_ext4_kernel_def run_peek run_call split: if_splits prod.splits flow.splits)
  have "trace s1 = trace s @ [(Fopen device ''wb'', r)]"
    using c by (auto simp: run_call split: prod.splits)
  moreover obtain es where "\<not> st_bad f" "trace s2 = trace s1 @ es" "list_all (copy_event device) es"
    "written device es = st_left f"
    using copy_loop_writes [OF l] by blast
  ultimately show ?thesis
    using f closed by (metis append.assoc append_Cons append_Nil)
qed

text \<open>An operating system on which every call succeeds, and one file.\<close>

definition example_os :: "(string \<Rightarrow> byte list option) \<Rightarrow> unit os" where
  "example_os files =
     \<lparr>os_call = (\<lambda>c w. (case c of Fwrite _ _ \<Rightarrow> 1 | Write _ d \<Rightarrow> int (length d) | _ \<Rightarrow> 0, w)),
      os_file = (\<lambda>f w. map_option (\<lambda>d. \<lparr>st_left = d, st_bad = False\<rparr>) (files f)),
      os_dir = (\<lambda>_ _. Some []), os_loop = (\<lambda>_. ''/dev/loop0''), os_mtd_type = (\<lambda>_ _. Some 4),
      os_mtds = (\<lambda>_. Some (0, 0, \<lambda>_. Some ''block2mtd: /dev/loop0'')), os_junk = (\<lambda>_. 0),
      os_stack = (\<lambda>_. [])\<rparr>"

definition start :: "unit sys" where
  "start = \<lparr>world = (), trace = []\<rparr>"

theorem kernel_copy_exact_witness:
  "\<exists>s' es r m n. run_state (flash_ext4_kernel (example_os (\<lambda>_. Some [1, 2, 3])) ''/dev/x'' ''k'' 3 False) start = (Go True, s')
    \<and> trace s' = (Fopen ''/dev/x'' ''wb'', r) # es @ [(Fclose ''k'', m), (Fclose ''/dev/x'', n)]
    \<and> written ''/dev/x'' es = [1, 2, 3]"
proof -
  obtain s' where s': "run_state (flash_ext4_kernel (example_os (\<lambda>_. Some [1, 2, 3])) ''/dev/x'' ''k'' 3 False)
      start = (Go True, s')"
    by (simp add: flash_ext4_kernel_def run_peek run_call copy_loop.simps progress_step_def
        example_os_def start_def Let_def)
  then show ?thesis
    using kernel_copy_exact [OF s'] by (auto simp: example_os_def start_def)
qed

text \<open>
  The size is the one the selection phase has recorded. Where it is 0 and the file has bytes by now, the
  program divides by it.
\<close>

theorem empty_size_crashes:
  assumes "os_file os filename (world s) = Some f" "st_left f \<noteq> []" "os_call os (Fopen device ''wb'') (world s) = (r, w)" "0 \<le> r"
  shows "fst (run_state (flash_ext4_kernel os device filename 0 no_wr) s) = Crash"
  using assms by (simp add: flash_ext4_kernel_def run_peek run_call copy_loop.simps [of os device 0] progress_step_def)

theorem empty_size_crashes_witness:
  "fst (run_state (flash_ext4_kernel (example_os (\<lambda>_. Some [1])) ''/dev/x'' ''k'' 0 False) start) = Crash"
  by (rule empty_size_crashes [where f = "\<lparr>st_left = [1], st_bad = False\<rparr>" and r = 0 and w = "()"])
    (simp_all add: example_os_def start_def)

text \<open>
  A run that must not write still opens the kernel device for writing, and so empties
  it where it is a file, as the \<^verbatim>\<open>zImage\<close> of a kexec box is.
\<close>

theorem no_write_opens_kernel_for_writing:
  assumes "run_state (flash_ext4_kernel os device filename fsz True) s = (ok, s')"
    and "os_file os filename (world s) \<noteq> None"
  shows "\<exists>r new. trace s' = trace s @ (Fopen device ''wb'', r) # new"
proof -
  obtain f where f: "os_file os filename (world s) = Some f"
    using assms(2) by auto
  obtain r s1 where c: "run_state (call os (Fopen device ''wb'')) s = (r, s1)"
    by (cases "run_state (call os (Fopen device ''wb'')) s")
  then have t: "trace s1 = trace s @ [(Fopen device ''wb'', r)]"
    by (auto simp: run_call split: prod.splits)
  define rest where "rest = (if r < 0 then ret (Go False) else do {
           q \<leftarrow> copy_loop os device fsz True (st_left f) (st_bad f) 0 0;
           case q of
             Exit c \<Rightarrow> ret (Exit c)
           | Crash \<Rightarrow> ret Crash
           | Go ok \<Rightarrow> do {
               _ \<leftarrow> call os (Fclose filename);
               _ \<leftarrow> call os (Fclose device);
               ret (Go ok)
             }
         })"
  have "run_state rest s1 = (ok, s')"
    using assms(1) f c by (simp add: flash_ext4_kernel_def run_peek rest_def)
  moreover have "emits (\<lambda>_. True) rest"
    unfolding rest_def by (intro emits_intros any.copying any.idle_emits) simp_all
  ultimately show ?thesis
    using t by (metis emitsD append.assoc append_Cons append_Nil)
qed

theorem no_write_opens_kernel_for_writing_witness:
  "\<exists>ok s' r new. run_state (flash_ext4_kernel (example_os (\<lambda>_. Some [1])) ''/zImage'' ''k'' 1 True) start = (ok, s')
     \<and> trace s' = (Fopen ''/zImage'' ''wb'', r) # new"
proof -
  obtain ok s' where s': "run_state (flash_ext4_kernel (example_os (\<lambda>_. Some [1])) ''/zImage'' ''k'' 1 True) start
      = (ok, s')"
    by (cases "run_state (flash_ext4_kernel (example_os (\<lambda>_. Some [1])) ''/zImage'' ''k'' 1 True) start")
  then show ?thesis
    using no_write_opens_kernel_for_writing [OF s'] by (simp add: example_os_def start_def)
qed

subsection \<open>Dry runs\<close>

lemma dry_finish: "no_write g \<Longrightarrow> \<not> stop_e2_needed g \<Longrightarrow> flash_rootfs g \<Longrightarrow> emits (dry_event g) (finish_flash os g)"
  unfolding finish_flash_def
  by (simp, intro emits_intros dry.idle_emits conjI impI emits_libc emits_call) simp_all

text \<open>The calls with which the mount points of the flashing phase are released.\<close>

definition releases :: "syscall list" where
  "releases = [Umount2 ''/oldroot_remount/'', Rmdir ''/oldroot_remount/'', Umount2 ''/newroot/'', Rmdir ''/newroot/'']"

lemma finish_releases: "\<not> stop_e2_needed g \<Longrightarrow> ensures (\<lambda>r es. set releases \<subseteq> fst ` set es) (finish_flash os g)"
  unfolding finish_flash_def releases_def calls_sum.simps libc_def
  by (simp, intro ensures_intros) auto

text \<open>A kernel is flashed, or not, or the run crashes; it is no step that ends the program with a code.\<close>

lemma copy_no_exit: "ensures (\<lambda>r es. \<forall>c. r \<noteq> Exit c) (copy_loop os device fsz no_wr left bad n p)"
proof (induction left arbitrary: n p rule: length_induct)
  case (1 left)
  have step: "ensures (\<lambda>r es. \<forall>c. r \<noteq> Exit c) (progress_step os fsz m p)" for m
    unfolding progress_step_def Let_def by (intro ensures_intros) simp_all
  have more: "left \<noteq> [] \<Longrightarrow> ensures (\<lambda>r es. \<forall>c. r \<noteq> Exit c) (copy_loop os device fsz no_wr (drop 512 left) bad m q)" for m q
    using 1 by simp
  show ?case
    unfolding copy_loop.simps [of os device fsz no_wr left]
    by (rule ensures_if, simp add: ensures_ret, rule ensures_bind, rule ensures_mono [OF step], intro ensures_intros more)
      simp_all
qed

lemma kernel_no_exit: "ensures (\<lambda>r es. \<forall>c. r \<noteq> Exit c) (kernel_flash os g)"
proof -
  have copy: "ensures (\<lambda>r es. \<forall>c. r \<noteq> Exit c) (flash_ext4_kernel os d f fsz no_wr)" for d f fsz no_wr
    unfolding flash_ext4_kernel_def
    by (intro ensures_peek ensures_option ensures_bind ensures_if ensures_ret ensures_call ensures_mono [OF copy_no_exit])
      (auto split: flow.splits intro!: ensures_intros)
  have any: "ensures (\<lambda>r es. True) (flash_ubi_jffs2_kernel os d f no_wr)" for d f no_wr
    unfolding flash_ubi_jffs2_kernel_def getFlashType_def flash_erase_def flash_write_def flashcp_def run_applet_def
    by (intro ensures_intros) simp_all
  show ?thesis
    unfolding kernel_flash_def
    by (intro ensures_if copy ensures_bind ensures_mono [OF any] ensures_peek ensures_ret) simp_all
qed

text \<open>
  Property C34. A run with \<^verbatim>\<open>-n\<close>, without \<^verbatim>\<open>-a\<close> and on a box that need not be stopped, runs no program and
  makes no call that writes, mounts, deletes a file or reboots. It does two things all the same: where a
  kernel is copied to a block device or file, it opens that for writing, which empties a file; and when it
  flashes a rootfs and returns 0, it has released and removed the two mount points of the flashing phase.
\<close>

theorem dry_run_events:
  assumes "no_write g" "\<not> android g" "run_state (main_flash os sha1 g) s = (r, s')"
    and "\<not> stop_e2_needed g"
  shows "\<exists>new. trace s' = trace s @ new \<and> list_all (dry_event g) new
    \<and> (flash_rootfs g \<and> r = Go 0 \<longrightarrow> set releases \<subseteq> fst ` set new)"
proof -
  have failed: "emits (dry_event g) (flash_failed os g)"
    unfolding flash_failed_def by (intro emits_intros dry.idle_emits) (simp_all add: assms(4))
  have kernel: "flash_kernel g \<Longrightarrow> emits (dry_event g) (kernel_flash os g)"
    using assms(1) by (intro dry.dry_kernel_flash) simp_all
  have images: "flash_rootfs g \<Longrightarrow> emits (dry_event g) (flash_images os sha1 g)"
    unfolding flash_images_def
    by (intro emits_intros failed kernel dry.dry_rootfs_flash dry.idle_emits dry_finish) (simp_all add: assms(1,2,4))
  have "flash_rootfs g \<Longrightarrow> emits (dry_event g) (flash_rootfs_part os sha1 g)"
    unfolding flash_rootfs_part_def
    by (intro emits_intros images dry.idle_emits) (simp_all add: assms(1))
  moreover have "flash_kernel g \<Longrightarrow> emits (dry_event g) (flash_kernel_part os g)"
    unfolding flash_kernel_part_def by (intro emits_intros kernel dry.idle_emits) simp_all
  ultimately have main: "emits (dry_event g) (main_flash os sha1 g)"
    unfolding main_flash_def by (intro emits_intros) auto
  have rel: "ensures (\<lambda>r es. r = Go 0 \<longrightarrow> set releases \<subseteq> fst ` set es) (finish_flash os g)"
    using finish_releases [OF assms(4)] by (rule ensures_mono) simp
  have "emits (\<lambda>_. True) (rootfs_flash os g)"
    using any.dry_rootfs_flash assms(1) by blast
  then have rfs: "ensures (\<lambda>r es. r = Go 0 \<longrightarrow> set releases \<subseteq> fst ` set es) (flash_images os sha1 g)"
    unfolding flash_images_def
    by (intro ensures_bind ensures_emits [OF \<open>emits (\<lambda>_. True) (rootfs_flash os g)\<close>] ensures_if ensures_ret
        ensures_mono [OF kernel_no_exit] ensures_call)
      (auto simp: assms(2) flash_failed_def assms(4) split: flow.splits
        intro!: ensures_intros ensures_mono [OF rel])
  then have "flash_rootfs g \<Longrightarrow> ensures (\<lambda>r es. r = Go 0 \<longrightarrow> set releases \<subseteq> fst ` set es) (flash_rootfs_part os sha1 g)"
    unfolding flash_rootfs_part_def using assms(1)
    by (auto intro!: ensures_intros ensures_mono [OF rfs])
  then have "ensures (\<lambda>r es. flash_rootfs g \<and> r = Go 0 \<longrightarrow> set releases \<subseteq> fst ` set es) (main_flash os sha1 g)"
    using main unfolding main_flash_def by (cases "flash_rootfs g") (auto intro!: ensures_ret elim: ensures_emits)
  from ensures_emits_conj [OF main this] show ?thesis
    using assms(3) by (metis (mono_tags, lifting) ensuresD)
qed

definition dry_example :: gst where
  "dry_example = initial_gst\<lparr>no_write := True, flash_rootfs := True, newroot_mounted := True, stop_e2_needed := False,
     rootfs_flash_mode := TARBZ2\<rparr>"

theorem dry_run_events_witness:
  "\<exists>s'. run_state (main_flash (example_os (\<lambda>_. Some [1])) id dry_example) start = (Go 0, s')
    \<and> list_all (dry_event dry_example) (trace s') \<and> set releases \<subseteq> fst ` set (trace s')"
proof -
  have g: "no_write dry_example" "flash_rootfs dry_example" "\<not> flash_kernel dry_example" "newroot_mounted dry_example"
    "\<not> stop_e2_needed dry_example" "\<not> android dry_example" "rootfs_flash_mode dry_example = TARBZ2"
    by (simp_all add: dry_example_def initial_gst_def)
  have "fst (run_state (main_flash (example_os (\<lambda>_. Some [1])) id dry_example) start) = Go 0"
    by (simp add: main_flash_def flash_rootfs_part_def flash_images_def rootfs_flash_def flash_unpack_rootfs_def
        untar_rootfs_def run_applet_def finish_flash_def libc_def g run_call example_os_def)
  then obtain s' where s': "run_state (main_flash (example_os (\<lambda>_. Some [1])) id dry_example) start = (Go 0, s')"
    by (metis prod.collapse)
  then show ?thesis
    using dry_run_events [OF g(1,6) s' g(5)] g(2) by (simp add: start_def)
qed

subsection \<open>The VID header offset\<close>

text \<open>
  The bytes in front of the header as the search reads them: single bytes, and \<^verbatim>\<open>U\<close> with three
  bytes behind it. The number of the latter, if that does not hide a header.
\<close>

fun false_hits :: "byte list \<Rightarrow> nat option" where
  "false_hits [] = Some 0"
| "false_hits (c # left) =
     (if c \<noteq> 0x55 then false_hits left
      else if length left < 3 \<or> take 3 left = [0x42, 0x49, 0x21] then None
      else map_option Suc (false_hits (drop 3 left)))"

lemma vid_loop_prefix:
  "false_hits pre = Some k \<Longrightarrow> vid_loop pos (pre @ rest) = vid_loop (pos + int (length pre) - 3 * int k) rest"
proof (induction pre arbitrary: pos k rule: false_hits.induct)
  case (2 c left)
  show ?case
  proof (cases "c = 0x55")
    case False
    then show ?thesis
      using 2(1) [of k "pos + 1"] 2(3) by (simp add: algebra_simps)
  next
    case True
    then have l: "3 \<le> length left" "take 3 left \<noteq> [0x42, 0x49, 0x21]"
      using 2(3) by (auto split: if_splits)
    then obtain k' where k': "false_hits (drop 3 left) = Some k'" "k = Suc k'"
      using 2(3) True by auto
    have "vid_loop pos ((c # left) @ rest) = vid_loop (pos + 1) (drop 3 left @ rest)"
      using True l by simp
    also have "\<dots> = vid_loop (pos + 1 + int (length (drop 3 left)) - 3 * int k') rest"
      using 2(2) [of k' "pos + 1"] True l k' by simp
    finally show ?thesis
      using l k' by (simp add: algebra_simps)
  qed
qed simp

text \<open>
  The offset \<^verbatim>\<open>detect_vid_offset\<close> reports is that of the first header the search can see,
  plus 3, less 3 for each \<^verbatim>\<open>U\<close> in front of it: exact only when there is one such byte, the one of
  the EC header at the start.
\<close>

theorem detect_vid_offset_formula:
  assumes "os_file os loop_dev (world s) = Some f"
    and "st_left f = pre @ [0x55, 0x42, 0x49, 0x21] @ post" "false_hits pre = Some k"
  shows "fst (run_state (detect_vid_offset os loop_dev) s) = Some (int (length pre) + 3 - 3 * int k)"
  using assms vid_loop_prefix [of pre k 0] by (simp add: detect_vid_offset_def run_peek)

theorem detect_vid_offset_formula_witness:
  "fst (run_state (detect_vid_offset (example_os (\<lambda>_. Some ([0x55, 0x42, 0x49, 0x23, 0, 0, 0, 0]
      @ [0x55, 0x42, 0x49, 0x21] @ []))) ''/dev/loop0'') start) = Some 8"
  by (subst detect_vid_offset_formula [where pre = "[0x55, 0x42, 0x49, 0x23, 0, 0, 0, 0]" and post = "[]" and k = 1
      and f = "\<lparr>st_left = [0x55, 0x42, 0x49, 0x23, 0, 0, 0, 0, 0x55, 0x42, 0x49, 0x21], st_bad = False\<rparr>"])
    (simp_all add: example_os_def)

end
