(* ===== verification/BootProps.thy ===== *)
theory BootProps
  imports FlashProps
begin

text \<open>
  Properties of the Android boot image: its layout on pages of 2048 bytes, and its header.
\<close>

subsection \<open>Pages\<close>

text \<open>A part filled up with zeros to whole pages.\<close>

definition padded :: "byte list \<Rightarrow> byte list" where
  "padded data = data @ replicate ((2048 - length data mod 2048) mod 2048) 0"

lemma length_padded: "2048 dvd length (padded data)"
proof -
  have "2048 dvd n + (2048 - n mod 2048) mod 2048" for n :: nat
  proof -
    obtain q r where n: "n = 2048 * q + r" "r < 2048"
      by (metis mod_less_divisor mult_div_mod_eq zero_less_numeral)
    then have "n mod 2048 = r"
      by simp
    moreover have "r \<noteq> 0 \<Longrightarrow> n + (2048 - r) = 2048 * (q + 1)"
      using n by simp
    ultimately show ?thesis
      using n by (cases "r = 0") auto
  qed
  then show ?thesis
    by (simp add: padded_def)
qed

lemma page_offset: "unat ((word_of_nat n :: u32) AND 2047) = n mod 2048"
proof -
  have m: "(word_of_nat n :: u32) AND mask 11 = take_bit 11 (word_of_nat n)"
    by (rule take_bit_eq_mask [symmetric])
  have "unat (take_bit 11 (word_of_nat n :: u32)) = take_bit 11 (unat (word_of_nat n :: u32))"
    by (rule unsigned_take_bit_eq)
  also have "\<dots> = take_bit 11 (take_bit 32 n)"
    by (simp add: unsigned_of_nat del: take_bit_numeral_minus_1_eq)
  also have "\<dots> = n mod 2048"
    by (simp only: take_bit_take_bit) (simp add: take_bit_eq_mod)
  finally show ?thesis
    unfolding m [symmetric] by (simp add: mask_eq_exp_minus_1)
qed

lemma write_call:
  "run_state (call os (Write fd data)) s = (r, s1) \<Longrightarrow> r = int (length data) \<Longrightarrow> written fd (trace s1) = written fd (trace s) @ data"
  by (auto simp: run_call written_append split: prod.splits)

lemma write_part_writes:
  assumes "run_state (write_part os fd 2048 data) s = (True, s')"
  shows "written fd (trace s') = written fd (trace s) @ padded data"
proof -
  obtain r s1 where c: "run_state (call os (Write fd data)) s = (r, s1)"
    by (cases "run_state (call os (Write fd data)) s")
  have r: "r = int (length data)"
    using assms c by (auto simp: write_part_def split: if_splits)
  have run: "run_state (write_padding os fd 2048 (word_of_nat (length data))) s1 = (True, s')"
    using assms c by (auto simp: write_part_def split: if_splits)
  let ?o = "(word_of_nat (length data) :: u32) AND 2047"
  have o: "unat ?o = length data mod 2048"
    by (rule page_offset)
  show ?thesis
  proof (cases "?o = 0")
    case True
    then have "length data mod 2048 = 0"
      using o by simp
    then show ?thesis
      using True run write_call [OF c r] by (simp add: write_padding_def padded_def)
  next
    case False
    have le: "?o \<le> 2048"
      using o by (simp add: word_le_nat_alt)
    have "0 < length data mod 2048"
      using False o by (metis gr0I unat_eq_zero)
    moreover have "unat (2048 - ?o) = 2048 - length data mod 2048"
      using le o by (simp add: unat_sub)
    ultimately have pad: "replicate (unat (2048 - ?o)) 0 = drop (length data) (padded data)"
      by (simp add: padded_def)
    obtain r2 s2 where c2: "run_state (call os (Write fd (replicate (unat (2048 - ?o)) 0))) s1 = (r2, s2)"
      by (cases "run_state (call os (Write fd (replicate (unat (2048 - ?o)) 0))) s1")
    then have "r2 = int (unat (2048 - ?o))" "s' = s2"
      using run False by (auto simp: write_padding_def Let_def)
    then have "written fd (trace s') = written fd (trace s1) @ replicate (unat (2048 - ?o)) 0"
      using write_call [OF c2] by simp
    then show ?thesis
      using write_call [OF c r] pad by (simp add: padded_def)
  qed
qed

lemma write_parts_writes:
  "run_state (write_parts os fd 2048 ds) s = (True, s') \<Longrightarrow>
     written fd (trace s') = written fd (trace s) @ concat (map padded ds)"
proof (induction ds arbitrary: s)
  case (Cons d ds)
  obtain ok s1 where c: "run_state (write_part os fd 2048 d) s = (ok, s1)"
    by (cases "run_state (write_part os fd 2048 d) s")
  then have "ok" "run_state (write_parts os fd 2048 ds) s1 = (True, s')"
    using Cons.prems by (auto split: if_splits)
  then show ?case
    using Cons.IH write_part_writes c by fastforce
qed simp

subsection \<open>The image\<close>

lemma load_file_run:
  "run_state (load_file os fn) s = (r, s') \<longleftrightarrow> s' = s \<and>
     r = (case os_file os fn (world s) of None \<Rightarrow> None | Some st \<Rightarrow> if st_bad st then None else Some (st_left st))"
  by (auto simp: load_file_def run_peek)

lemma remove_old_writes:
  "run_state (remove_old os path) s = (r, s') \<Longrightarrow> written fd (trace s') = written fd (trace s)"
  by (auto simp: remove_old_def run_call written_append split: prod.splits if_splits)

text \<open>
  Property C38. When \<^verbatim>\<open>generate_boot_image\<close> reports success, the file holds the header, the kernel and
  the device tree, each filled up to whole pages, in this order: kernel and device tree are the
  files of the new image, read without error.
\<close>

theorem boot_image_layout:
  assumes "run_state (generate_boot_image os sha1 board rootdev path) s = (0, s')"
  shows "\<exists>k d. os_file os ''/oldroot_remount/boot/Image.gz-4.9'' (world s) = Some \<lparr>st_left = k, st_bad = False\<rparr>
    \<and> os_file os (''/oldroot_remount/boot/dream'' @ board @ ''.dtb'') (world s) = Some \<lparr>st_left = d, st_bad = False\<rparr>
    \<and> written path (trace s') = written path (trace s)
        @ padded (boot_hdr_bytes (boot_header sha1 board (char_bytes (boot_cmdline rootdev)) k d)) @ padded k @ padded d"
proof -
  let ?kf = "''/oldroot_remount/boot/Image.gz-4.9''"
  let ?df = "''/oldroot_remount/boot/dream'' @ board @ ''.dtb''"
  have ok: "\<not> 16 \<le> length board" "\<not> 512 + 1024 - 2 < length (char_bytes (boot_cmdline rootdev))"
    using assms by (auto simp: generate_boot_image_def Let_def split: if_splits)
  obtain f where f: "os_file os ?kf (world s) = Some f" "\<not> st_bad f"
    using assms ok
    by (cases "os_file os ?kf (world s)") (auto simp: generate_boot_image_def Let_def load_file_run load_file_def run_peek split: if_splits)
  obtain g where g: "os_file os ?df (world s) = Some g" "\<not> st_bad g"
    using assms ok f
    by (cases "os_file os ?df (world s)") (auto simp: generate_boot_image_def Let_def load_file_def run_peek split: if_splits)
  obtain r s1 where r: "run_state (remove_old os path) s = (r, s1)"
    by (cases "run_state (remove_old os path) s")
  obtain fd s2 where o: "run_state (call os (Fopen path ''creat'')) s1 = (fd, s2)"
    by (cases "run_state (call os (Fopen path ''creat'')) s1")
  let ?parts = "[boot_hdr_bytes (boot_header sha1 board (char_bytes (boot_cmdline rootdev)) (st_left f) (st_left g)),
       st_left f, [], st_left g]"
  obtain w s3 where w: "run_state (write_parts os path 2048 ?parts) s2 = (w, s3)"
    by (cases "run_state (write_parts os path 2048 ?parts) s2")
  have "r" "w" "s' = s3"
    using assms ok f g r o w
    by (auto simp: generate_boot_image_def Let_def load_file_def run_peek split: if_splits prod.splits)
  then have "written path (trace s') = written path (trace s2) @ concat (map padded ?parts)"
    using write_parts_writes [of os path ?parts s2 s3] w by simp
  moreover have "written path (trace s2) = written path (trace s)"
    using o remove_old_writes [OF r] by (auto simp: run_call written_append split: prod.splits)
  moreover have "padded [] = []"
    by (simp add: padded_def)
  ultimately have "written path (trace s') = written path (trace s)
      @ padded (boot_hdr_bytes (boot_header sha1 board (char_bytes (boot_cmdline rootdev)) (st_left f) (st_left g)))
      @ padded (st_left f) @ padded (st_left g)"
    by simp
  then show ?thesis
    using f g by (cases f, cases g) auto
qed

lemma length_char_bytes [simp]: "length (char_bytes s) = length s"
  by (simp add: char_bytes_def)

lemma length_strncpy_field [simp]: "length (strncpy_field n s) = n"
  by (simp add: strncpy_field_def)

lemma length_cmdline_field [simp]: "length (cmdline_field s) = 512"
  by (simp add: cmdline_field_def)

lemma length_extra_field [simp]: "length (extra_field s) = 1024"
  by (simp add: extra_field_def)

lemma length_boot_hdr [simp]: "length (boot_hdr_bytes (boot_header sha1 board cmd k d)) = 1632"
  by (simp add: boot_hdr_bytes_def boot_header_def BOOT_MAGIC_def)

theorem boot_image_layout_witness:
  "\<exists>s'. run_state (generate_boot_image (example_os (\<lambda>_. Some [1, 2, 3])) id ''one'' ''/dev/mmcblk0p5''
      ''/oldroot_remount/boot/kernel.img'') start = (0, s')
    \<and> 2048 dvd length (written ''/oldroot_remount/boot/kernel.img'' (trace s'))"
proof -
  obtain s' where s': "run_state (generate_boot_image (example_os (\<lambda>_. Some [1, 2, 3])) id ''one'' ''/dev/mmcblk0p5''
      ''/oldroot_remount/boot/kernel.img'') start = (0, s')"
    by (simp add: generate_boot_image_def boot_cmdline_def load_file_def remove_old_def run_peek run_call
        write_part_def write_padding_def Let_def example_os_def start_def)
  then show ?thesis
    using boot_image_layout [OF s'] by (auto simp: start_def length_padded)
qed

subsection \<open>The header\<close>

text \<open>
  The header is the packed structure of 1632 bytes a boot loader expects: every field is at its offset in
  \<^verbatim>\<open>struct boot_img_hdr\<close>.
\<close>

lemma boot_header_fields:
  "let b = boot_hdr_bytes (boot_header sha1 board cmd k d); word = (\<lambda>n. le_word (take 4 (drop n b)) :: u32)
   in length b = 1632 \<and> take 8 b = BOOT_MAGIC
    \<and> word 8 = word_of_nat (length k) \<and> word 12 = 0x1080000 \<and> word 16 = 0 \<and> word 20 = 0x1000000
    \<and> word 24 = word_of_nat (length d) \<and> word 28 = 0x1000000 \<and> word 32 = 0x100 \<and> word 36 = 2048
    \<and> take 8 (drop 40 b) = replicate 8 0
    \<and> take 16 (drop 48 b) = strncpy_field 16 (char_bytes board)
    \<and> take 512 (drop 64 b) = cmdline_field cmd
    \<and> take 32 (drop 576 b) = strncpy_field 32 (sha1 (boot_hash_input k d))
    \<and> drop 608 b = extra_field cmd"
proof -
  have m: "length BOOT_MAGIC = 8"
    by (simp add: BOOT_MAGIC_def char_bytes_def)
  show ?thesis
    unfolding Let_def boot_hdr_bytes_def boot_header_def by (simp add: m)
qed

text \<open>A field of the header as the C string in it.\<close>

definition c_field :: "byte list \<Rightarrow> byte list" where
  "c_field bs = takeWhile (\<lambda>b. b \<noteq> 0) bs"

lemma c_field_zeros: "0 \<notin> set s \<Longrightarrow> c_field (s @ 0 # t) = s"
  unfolding c_field_def by (induction s) auto

lemma c_field_strncpy: "0 \<notin> set s \<Longrightarrow> length s < n \<Longrightarrow> c_field (strncpy_field n s) = s"
  by (simp add: strncpy_field_def Suc_diff_Suc [symmetric] c_field_zeros)

text \<open>
  A boot loader that joins the two command line fields gets the command line
  ofgwrite built, whenever \<^verbatim>\<open>generate_boot_image\<close> accepts its length; it is cut in two behind byte 511.
\<close>

theorem boot_cmdline_roundtrip:
  assumes "0 \<notin> set cmd" "length cmd \<le> 512 + 1024 - 2"
  shows "c_field (bh_cmdline (boot_header sha1 board cmd k d))
      @ c_field (bh_extra_cmdline (boot_header sha1 board cmd k d)) = cmd"
proof (cases "length cmd \<ge> 511")
  case True
  have "c_field (cmdline_field cmd) = take 511 cmd"
    using True assms(1) c_field_zeros [of "take 511 cmd" "[]"]
    by (auto simp: cmdline_field_def strncpy_field_def dest: in_set_takeD)
  moreover have "c_field (extra_field cmd) = drop 511 cmd"
    using True assms by (auto simp: extra_field_def intro!: c_field_strncpy dest: in_set_dropD)
  ultimately show ?thesis
    by (simp add: boot_header_def)
next
  case False
  have "c_field (cmdline_field cmd) = cmd"
    using False assms(1)
    by (simp add: cmdline_field_def strncpy_field_def Suc_diff_Suc [symmetric] c_field_zeros)
  moreover have "c_field (extra_field cmd) = []"
    using False by (simp add: extra_field_def c_field_def)
  ultimately show ?thesis
    by (simp add: boot_header_def)
qed

theorem boot_cmdline_roundtrip_witness:
  "c_field (bh_cmdline (boot_header id ''one'' (replicate 600 7) [] [])) @
   c_field (bh_extra_cmdline (boot_header id ''one'' (replicate 600 7) [] [])) = replicate 600 (7 :: byte)"
  by (rule boot_cmdline_roundtrip) simp_all

end
