(* ===== verification/StopProps.thy ===== *)
theory StopProps
  imports FlashProps
begin

text \<open>
  Properties of the way to the new root: waiting for enigma2, and what has happened before the
  first flashing call of a run that stops the box.
\<close>

subsection \<open>Waiting for enigma2\<close>

text \<open>The answers of \<^verbatim>\<open>ps\<close>, and the seconds slept.\<close>

definition polls :: "event list \<Rightarrow> int list" where
  "polls es = map snd (filter (\<lambda>e. fst e = Applet [''ps'']) es)"

fun slept :: "event list \<Rightarrow> int" where
  "slept [] = 0"
| "slept ((c, r) # es) = (case c of Sleep n \<Rightarrow> n | _ \<Rightarrow> 0) + slept es"

lemma polls_append [simp]: "polls (a @ b) = polls a @ polls b"
  by (simp add: polls_def)

lemma slept_append [simp]: "slept (a @ b) = slept a + slept b"
  by (induction a rule: slept.induct) auto

definition waited :: "nat \<Rightarrow> bool \<Rightarrow> event list \<Rightarrow> bool" where
  "waited n ok es \<longleftrightarrow>
     (if ok then \<exists>k<n. \<exists>r. r \<noteq> 9999 \<and> polls es = replicate k 9999 @ [r] \<and> slept es = 2 * int k
      else polls es = replicate n 9999 \<and> slept es = 2 * int n)"

lemma waited_more:
  assumes "waited n ok es" "polls a = [9999]" "slept a = 2"
  shows "waited (Suc n) ok (a @ es)"
proof (cases ok)
  case True
  then obtain k r where "k < n" "r \<noteq> 9999" "polls es = replicate k 9999 @ [r]" "slept es = 2 * int k"
    using assms(1) by (auto simp: waited_def)
  then show ?thesis
    using True assms(2,3) by (auto simp: waited_def intro!: exI [of _ "Suc k"])
qed (use assms in \<open>simp add: waited_def\<close>)

lemma waited_round:
  "waited n ok es \<Longrightarrow> waited (Suc n) ok ((Applet [''ps''], 9999) # (Sleep 2, q) # (Progress m, p) # es)"
  using waited_more [of n ok es "[(Applet [''ps''], 9999), (Sleep 2, q), (Progress m, p)]"]
  by (simp add: polls_def)

lemma waited_stop: "r \<noteq> 9999 \<Longrightarrow> waited (Suc n) True [(Applet [''ps''], r), (Progress m, p)]"
  by (auto simp: waited_def polls_def)

lemma check_e2_loop_waits:
  "time = 70 - 2 * int n \<Longrightarrow> ensures (waited n) (check_e2_loop os time)"
proof (induction n arbitrary: time)
  case 0
  then show ?case
    by (simp add: check_e2_loop.simps [of os 70] ensures_ret waited_def polls_def)
next
  case (Suc n)
  have more: "ensures (waited n) (check_e2_loop os (time + 2))"
    using Suc by simp
  have "time < 70"
    using Suc by simp
  then show ?case
    unfolding check_e2_loop.simps [of os time] exec_ps_def
    by (simp, intro ensures_intros ensures_mono [OF more])
      (auto intro: waited_round waited_stop)
qed

text \<open>
  Property C37. Waiting for enigma2 ends: after at most 35 looks at the process list, two seconds
  apart. It succeeds exactly when one of them does not show enigma2, at the first such look.
\<close>

theorem check_e2_stopped_bounded:
  assumes "run_state (check_e2_stopped os) s = (ok, s')"
  shows "\<exists>new. trace s' = trace s @ new \<and> waited 35 ok new"
proof -
  have "ensures (waited 35) (check_e2_loop os 0)"
    by (rule check_e2_loop_waits) simp
  then have "ensures (waited 35) (check_e2_stopped os)"
    unfolding check_e2_stopped_def
    by (intro ensures_intros) (auto elim!: ensures_mono simp: waited_def polls_def)
  then show ?thesis
    using assms by (metis ensuresD)
qed

theorem check_e2_stopped_bounded_witness:
  "\<exists>ok s'. run_state (check_e2_stopped (example_os (\<lambda>_. None))) start = (ok, s') \<and> waited 35 ok (trace s')"
proof -
  obtain ok s' where s': "run_state (check_e2_stopped (example_os (\<lambda>_. None))) start = (ok, s')"
    by (cases "run_state (check_e2_stopped (example_os (\<lambda>_. None))) start")
  then show ?thesis
    using check_e2_stopped_bounded [OF s'] by (simp add: start_def)
qed

subsection \<open>Before the first flashing call\<close>

text \<open>
  A flashing call runs a program other than \<^verbatim>\<open>ps\<close> and \<^verbatim>\<open>fuser\<close>, formats a device, opens, writes or deletes a
  file, or makes a directory outside the root in memory. Every call of the program that changes an image
  on the box is one of these: the other commands given to the shell stop services, copy files to
  \<^verbatim>\<open>/newroot\<close> and change the run level, and the symbolic links are made in the root in memory.
\<close>

fun flashing_call :: "syscall \<Rightarrow> bool" where
  "flashing_call (Applet argv) = (take 1 argv \<noteq> [''ps''] \<and> take 1 argv \<noteq> [''fuser''])"
| "flashing_call (System s) = (take 4 s = ''mkfs'')"
| "flashing_call (Fopen f m) = True"
| "flashing_call (Fwrite f d) = True"
| "flashing_call (Write f d) = True"
| "flashing_call (Unlink f) = True"
| "flashing_call (Remove f) = True"
| "flashing_call (Mkdir d) = (take 9 d \<noteq> ''/newroot/'')"
| "flashing_call (MakeDirectory d) = True"
| "flashing_call c = False"

abbreviation gentle :: "event \<Rightarrow> bool" where
  "gentle e \<equiv> \<not> flashing_call (fst e)"

lemma idle_gentle: "idle_call c \<Longrightarrow> \<not> flashing_call c"
  by (cases c) auto

interpretation gentle: call_policy gentle
  by unfold_locales (simp add: idle_gentle)

lemma gentle_sum: "(\<And>c. c \<in> set cs \<Longrightarrow> \<not> flashing_call c) \<Longrightarrow> emits gentle (calls_sum os cs)"
  by (rule emits_calls_sum) simp

lemma gentle_call: "\<not> flashing_call c \<Longrightarrow> emits gentle (call os c)"
  by (rule emits_call) simp

lemma gentle_check: "emits gentle (check_e2_loop os time)"
proof (induction os time rule: check_e2_loop.induct)
  case (1 os time)
  show ?case
    unfolding check_e2_loop.simps [of os time] exec_ps_def
    by (intro emits_intros gentle_call 1) simp_all
qed

lemma gentle_stop: "emits gentle (stop_system os)"
  unfolding stop_system_def check_e2_stopped_def
  by (intro emits_intros gentle_check gentle_call) simp_all

lemma gentle_prepare: "emits gentle (prepare_newroot os g)"
  unfolding prepare_newroot_def make_newroot_def copy_programs_def copy_libcrypt_def copy_autofs_def newroot_dirs_def Let_def
  by (intro emits_intros gentle_sum gentle_call) (auto split: if_splits)

lemma gentle_reboot: "emits gentle (reboot_after os n)"
  unfolding reboot_after_def by (intro emits_intros gentle_call) simp_all

lemma gentle_switch: "emits gentle (switch_root os)"
  unfolding switch_root_def by (intro emits_intros gentle_sum gentle_call gentle_reboot) auto

lemma gentle_umount_all: "emits gentle (umount_all os ds)"
  by (induction ds) (auto intro!: emits_intros gentle_call)

lemma gentle_release: "emits gentle (release_oldroot os g)"
  unfolding release_oldroot_def exec_fuser_kill_def
  by (intro emits_intros gentle_umount_all gentle_sum gentle_call gentle.applet) auto

lemma gentle_remount: "emits gentle (remount_rootfs os g u)"
  unfolding remount_rootfs_def by (intro emits_intros gentle_call gentle_reboot) simp_all

lemma gentle_daemonize: "emits gentle (daemonize os)"
  unfolding daemonize_def fork_step_def by (intro emits_intros gentle_call) simp_all

lemmas gentle_intros = gentle_stop gentle_prepare gentle_switch gentle_release gentle_remount gentle_daemonize

lemma gentle_leave: "emits gentle (leave_rootfs os g)"
proof -
  have "emits gentle (umount_rootfs os g)"
    unfolding umount_rootfs_def by (intro emits_intros gentle_intros)
  then show ?thesis
    unfolding leave_rootfs_def
    by (intro emits_bind gentle_intros) (auto split: sum.splits intro!: emits_intros)
qed

text \<open>How the partition with the rootfs to be unpacked is mounted.\<close>

definition rootfs_mount :: "gst \<Rightarrow> syscall" where
  "rootfs_mount g =
     (if rootfs_flash_mode g = TARBZ2_MTD then Mount (ubi_fs_name g) ''/oldroot_remount/'' ''ubifs'' ''''
      else Mount (rootfs_device g) ''/oldroot_remount/'' (if rootfs_flash_mode g = TARBZ2 then fs_type_string g else ''ext4'') '''')"

text \<open>What must have happened: enigma2 was not seen, the root was moved, the rootfs is mounted.\<close>

definition ready :: "gst \<Rightarrow> event list \<Rightarrow> bool" where
  "ready g es \<longleftrightarrow> (\<exists>r. r \<noteq> 9999 \<and> (Applet [''ps''], r) \<in> set es)
     \<and> (PivotRoot ''/newroot/'' ''oldroot'', 0) \<in> set es
     \<and> (unpacking g \<longrightarrow> (rootfs_mount g, 0) \<in> set es)"

lemma waited_seen: "waited n True es \<Longrightarrow> \<exists>r. r \<noteq> 9999 \<and> (Applet [''ps''], r) \<in> set es"
proof -
  assume "waited n True es"
  then obtain r where "r \<noteq> 9999" "r \<in> set (polls es)"
    by (auto simp: waited_def)
  then show ?thesis
    by (auto simp: polls_def)
qed

lemma ensures_stop: "ensures (\<lambda>ok es. ok \<longrightarrow> (\<exists>r. r \<noteq> 9999 \<and> (Applet [''ps''], r) \<in> set es)) (stop_system os)"
proof -
  have "ensures (waited 35) (check_e2_loop os 0)"
    by (rule check_e2_loop_waits) simp
  then have "ensures (\<lambda>ok es. ok \<longrightarrow> (\<exists>r. r \<noteq> 9999 \<and> (Applet [''ps''], r) \<in> set es)) (check_e2_loop os 0)"
    by (rule ensures_mono) (auto dest: waited_seen)
  then show ?thesis
    unfolding stop_system_def check_e2_stopped_def
    by (intro ensures_intros) (auto elim!: ensures_mono intro!: ensures_intros)
qed

lemma ensures_switch:
  "ensures (\<lambda>ok es. ok \<longrightarrow> (PivotRoot ''/newroot/'' ''oldroot'', 0) \<in> set es) (switch_root os)"
  unfolding switch_root_def reboot_after_def
  by (intro ensures_intros ensures_emits [OF gentle_sum]) auto

lemma ensures_remount:
  "ensures (\<lambda>ok es. ok \<longrightarrow> unpacking g \<longrightarrow> (rootfs_mount g, 0) \<in> set es) (remount_rootfs os g u)"
  unfolding remount_rootfs_def reboot_after_def
  by (intro ensures_intros) (auto simp: rootfs_mount_def unpacking_def)

lemma ensures_umount: "ensures (\<lambda>ok es. ok \<longrightarrow> ready g es) (umount_rootfs os g)"
  unfolding umount_rootfs_def
  apply (intro ensures_bind ensures_emits [OF gentle_prepare])
  apply (intro ensures_if ensures_ret, simp)
  apply (intro ensures_bind ensures_mono [OF ensures_stop])
  apply (intro ensures_if ensures_ret, simp)
  apply (intro ensures_bind ensures_mono [OF ensures_switch])
  apply (intro ensures_if ensures_ret, simp)
  apply (intro ensures_bind ensures_emits [OF gentle_release])
  apply (rule ensures_mono [OF ensures_remount])
  apply (auto simp: ready_def)
  done

lemma ensures_leave: "ensures (\<lambda>r es. r = Go () \<longrightarrow> ready g es) (leave_rootfs os g)"
  unfolding leave_rootfs_def
  apply (intro ensures_bind ensures_emits [OF gentle_daemonize])
  apply (auto split: sum.splits intro!: ensures_bind ensures_if ensures_ret)
  apply (rule ensures_mono [OF ensures_umount])
  apply (auto simp: ready_def intro!: ensures_ret)
  done

text \<open>Every event of a flashing call comes after what makes the run ready.\<close>

definition readied :: "gst \<Rightarrow> event list \<Rightarrow> bool" where
  "readied g es \<longleftrightarrow> (\<forall>xs c n ys. es = xs @ (c, n) # ys \<longrightarrow> flashing_call c \<longrightarrow> ready g xs)"

lemma readied_gentle: "list_all gentle es \<Longrightarrow> readied g es"
  by (auto simp: readied_def)

lemma readied_ready:
  assumes "list_all gentle a" "ready g a"
  shows "readied g (a @ b)"
  unfolding readied_def
proof (intro allI impI)
  fix xs c n ys
  assume e: "a @ b = xs @ (c, n) # ys" and c: "flashing_call c"
  then consider us where "a = xs @ us" "us @ b = (c, n) # ys" | us where "xs = a @ us"
    by (auto simp: append_eq_append_conv2)
  then show "ready g xs"
  proof cases
    case 1
    then have "us = []"
      using assms(1) c by (cases us) auto
    then show ?thesis
      using 1 assms(2) by simp
  next
    case 2
    then show ?thesis
      using assms(2) by (fastforce simp: ready_def)
  qed
qed

subsection \<open>Programs only add events\<close>

abbreviation adds :: "('w, 'a) prog \<Rightarrow> bool" where
  "adds \<equiv> emits (\<lambda>e. True)"

lemma adds_call: "adds (call os c)"
  by (rule emits_call) simp

lemma adds_nfi_copy: "adds (nfi_copy os out img rb wb e pos p buf)"
proof (induction os out img rb wb e pos p buf rule: nfi_copy.induct)
  case (1 os out img rb wb e pos p buf)
  show ?case
    unfolding nfi_copy.simps [of os out img rb wb e pos p buf]
    by (intro emits_intros adds_call 1) auto
qed

lemma adds_cp_entries: "adds (cp_entries os src dst k n ns)"
  by (induction ns arbitrary: k) (auto simp: cp_busybox_def intro!: emits_intros adds_call any.applet)

lemma adds_extract: "adds (extract_rootfs_from_nfi os path img n)"
  unfolding extract_rootfs_from_nfi_def Let_def by (intro emits_intros adds_call adds_nfi_copy)

lemmas block_defs = setup_loop_device_def release_loop_device_def get_erasesize_and_writesize_def
  read_sysfs_def setup_block2mtd_def remove_block2mtd_def write_block2mtd_def detect_vid_offset_def
  detect_mtd_device_def release_block2mtd_def attach_and_mount_def ubi_attach_ofgwrite_def ubi_detach_dev_def

lemma adds_mount_image: "adds (mount_ubi_image os g f nfi path no_wr)"
  unfolding mount_ubi_image_def mount_loop_image_def block_defs
  by (intro emits_intros adds_call adds_extract any.applet) simp_all

lemma adds_loop_subdir: "adds (flash_ubi_loop_subdir os g f nfi no_wr)"
  unfolding flash_ubi_loop_subdir_def cp_rootfs_def umount_ubi_image_def rm_rootfs_def
    remove_block2mtd_def write_block2mtd_def release_loop_device_def ubi_detach_dev_def Let_def
  by (intro emits_intros adds_call adds_mount_image adds_cp_entries any.applet) simp_all

lemma adds_rootfs: "adds (rootfs_flash os g)"
  unfolding rootfs_flash_def flash_unpack_rootfs_def untar_rootfs_def rm_rootfs_def
    flash_ubi_jffs2_rootfs_def getFlashType_def flash_erase_jffs2_def flash_write_def flashcp_def ubi_write_def Let_def
  by (intro emits_intros adds_call adds_loop_subdir any.applet) simp_all

lemma adds_kernel: "adds (kernel_flash os g)"
  unfolding kernel_flash_def flash_ubi_jffs2_kernel_def getFlashType_def flash_erase_def flash_write_def flashcp_def
  by (intro emits_intros adds_call any.kernel_copy any.applet) simp_all

lemma adds_write_parts: "adds (write_parts os fd n ds)"
  by (induction ds) (auto simp: write_part_def write_padding_def Let_def intro!: emits_intros adds_call)

lemma adds_boot_image: "adds (boot_image_step os sha1 g path)"
  unfolding boot_image_step_def generate_boot_image_def load_file_def remove_old_def Let_def
  by (intro emits_intros adds_call adds_write_parts)

lemma adds_android: "adds (android_step os sha1 g)"
  unfolding android_step_def dreamcard_image_def card_label_def
  by (intro emits_intros adds_call adds_boot_image)

lemma adds_failed: "adds (flash_failed os g)"
  unfolding flash_failed_def reboot_after_def by (intro emits_intros adds_call)

lemma adds_finish: "adds (finish_flash os g)"
  unfolding finish_flash_def by (intro emits_intros adds_call emits_calls_sum) simp

lemma adds_images: "adds (flash_images os sha1 g)"
  unfolding flash_images_def
  by (intro emits_intros adds_call adds_failed adds_finish adds_android adds_rootfs adds_kernel)

lemma readied_skip: "list_all gentle a \<Longrightarrow> readied g b \<Longrightarrow> readied g (a @ b)"
  unfolding readied_def
proof (intro allI impI)
  fix xs c n ys
  assume a: "list_all gentle a" and c: "flashing_call c" and e: "a @ b = xs @ (c, n) # ys"
    and b: "\<forall>xs c n ys. b = xs @ (c, n) # ys \<longrightarrow> flashing_call c \<longrightarrow> ready g xs"
  then consider us where "a = xs @ us" "us @ b = (c, n) # ys" | us where "xs = a @ us" "b = us @ (c, n) # ys"
    by (auto simp: append_eq_append_conv2)
  then show "ready g xs"
  proof cases
    case 1
    then have "us = []"
      using a c by (cases us) auto
    then have "ready g []"
      using 1 c b [rule_format, of "[]" c n ys] by simp
    then show ?thesis
      by (simp add: ready_def)
  next
    case 2
    then have "ready g us"
      using b c by blast
    then show ?thesis
      using 2 by (fastforce simp: ready_def)
  qed
qed

lemma gentle_then:
  assumes "emits gentle m" "\<And>x. ensures (\<lambda>_. readied g) (f x)"
  shows "ensures (\<lambda>_. readied g) (State_Monad.bind m f)"
  by (intro ensures_bind ensures_emits [OF assms(1)] ensures_mono [OF assms(2)] readied_skip)

lemma ready_then:
  assumes "emits gentle m" "ensures (\<lambda>x a. P x \<longrightarrow> ready g a) m"
    and "\<And>x. P x \<Longrightarrow> adds (f x)" "\<And>x. \<not> P x \<Longrightarrow> ensures (\<lambda>_. readied g) (f x)"
  shows "ensures (\<lambda>_. readied g) (State_Monad.bind m f)"
proof (intro ensures_bind ensures_mono [OF ensures_emits_conj [OF assms(1,2)]])
  fix x a
  assume a: "list_all gentle a \<and> (P x \<longrightarrow> ready g a)"
  show "ensures (\<lambda>y b. readied g (a @ b)) (f x)"
  proof (cases "P x")
    case True
    then show ?thesis
      using a by (intro ensures_emits [OF assms(3)] readied_ready) auto
  next
    case False
    then show ?thesis
      using a by (intro ensures_mono [OF assms(4)] readied_skip) auto
  qed
qed

lemma readied_part:
  assumes "stop_e2_needed g" "\<not> no_write g"
  shows "ensures (\<lambda>_. readied g) (flash_rootfs_part os sha1 g)"
proof -
  have stop: "emits gentle (calls_sum os (map System processes_to_stop))"
    by (intro gentle_sum) (auto simp: processes_to_stop_def)
  show ?thesis
    unfolding flash_rootfs_part_def
    apply (simp only: assms simp_thms if_True if_False)
    apply (intro ensures_if)
     apply (simp add: ensures_ret readied_def)
    apply (rule gentle_then [OF stop], rule gentle_then [OF gentle_call], simp, rule gentle_then [OF gentle_call], simp)
    apply (rule ready_then [where P = "\<lambda>x. x = Go ()", OF gentle_leave ensures_leave])
     apply (auto simp: readied_def split: flow.splits intro!: emits_intros adds_call adds_images ensures_ret)
    done
qed

text \<open>
  Property C32. When the running image is flashed, the first call that flashes anything, formatting and
  deleting included, comes after enigma2 was seen to be stopped and the root was moved to memory, and, in
  the modes that unpack or copy files, after the partition with the rootfs was mounted: the selected device, or the
  selected UBI volume where the image is in a subdirectory of it. If one of these fails, nothing is flashed.
\<close>

theorem flashing_after_stop:
  assumes "flash_rootfs g" "stop_e2_needed g" "\<not> no_write g"
    and "run_state (main_flash os sha1 g) s = (r, s')"
    and "trace s' = trace s @ xs @ (c, n) # ys" "flashing_call c"
  shows "ready g xs"
proof -
  have "ensures (\<lambda>_. readied g) (main_flash os sha1 g)"
    using assms(1) readied_part [OF assms(2,3)] by (simp add: main_flash_def)
  then obtain new where "trace s' = trace s @ new" "readied g new"
    using assms(4) by (rule ensuresD)
  then show ?thesis
    using assms(5,6) by (auto simp: readied_def)
qed


text \<open>A run that unpacks an archive over the running image, on a partition of a block device.\<close>

definition example_run :: gst where
  "example_run = initial_gst\<lparr>flash_rootfs := True, newroot_mounted := True, stop_e2_needed := True,
     rootfs_flash_mode := TARBZ2, rootfs_type := EXT4, rootfs_fs_type := Some ''ext4'', rootfs_device := ''/dev/mmcblk0p3'',
     rootfs_filename := ''/media/hdd/rootfs.tar.bz2'', rootfs_mount_point := ''/media/hdd''\<rparr>"

lemma example_fields:
  "flash_rootfs example_run" "newroot_mounted example_run" "stop_e2_needed example_run"
  "\<not> no_write example_run" "unpacking example_run" "rootfs_sub_dir example_run = ''''" "rootfs_flash_mode example_run = TARBZ2"
  "rootfs_mount example_run = Mount ''/dev/mmcblk0p3'' ''/oldroot_remount/'' ''ext4'' ''''"
  by (simp_all add: example_run_def initial_gst_def unpacking_def rootfs_mount_def fs_type_string_def)

text \<open>On the example system results do not depend on the state.\<close>

lemma fst_bind: "fst (run_state (State_Monad.bind m f) s) =
    fst (run_state (f (fst (run_state m s))) (snd (run_state m s)))"
  by (simp add: split_beta)

lemma snd_bind: "snd (run_state (State_Monad.bind m f) s) =
    snd (run_state (f (fst (run_state m s))) (snd (run_state m s)))"
  by (simp add: split_beta)

lemma example_call:
  "fst (run_state (call (example_os files) c) s) =
     (case c of Fwrite _ _ \<Rightarrow> 1 | Write _ d \<Rightarrow> int (length d) | _ \<Rightarrow> 0)"
  by (simp add: call_def example_os_def)

lemma example_sum:
  "list_all (\<lambda>c. case c of Fwrite f d \<Rightarrow> False | Write f d \<Rightarrow> False | _ \<Rightarrow> True) cs \<Longrightarrow>
     fst (run_state (calls_sum (example_os files) cs) s) = 0"
  by (induction cs arbitrary: s)
    (auto simp: fst_bind libc_def example_call c_int_def simp del: run_state_bind split: syscall.splits)

lemma example_leave: "fst (run_state (leave_rootfs (example_os files) example_run) s) = Go ()"
proof -
  have "fst (run_state (make_newroot (example_os files) g m) s) = 0" for g m s
    unfolding make_newroot_def by (rule example_sum) (auto simp: list_all_iff)
  moreover have "fst (run_state (copy_programs (example_os files) g m) s) = 0" for g m s
    unfolding copy_programs_def by (rule example_sum) (auto simp: list_all_iff)
  ultimately have "fst (run_state (prepare_newroot (example_os files) example_run) s) = True" for s
    by (simp add: prepare_newroot_def copy_libcrypt_def Let_def fst_bind example_call del: run_state_bind)
  moreover have "fst (run_state (stop_system (example_os files)) s) = True" for s
    by (simp add: stop_system_def check_e2_stopped_def check_e2_loop.simps [of _ 0] exec_ps_def
        fst_bind example_call del: run_state_bind)
  moreover have "fst (run_state (switch_root (example_os files)) s) = True" for s
    by (simp add: switch_root_def fst_bind example_call example_sum del: run_state_bind calls_sum.simps)
  moreover have "fst (run_state (release_oldroot (example_os files) example_run) s) = 0" for s
    by (simp add: release_oldroot_def fst_bind example_call del: run_state_bind)
  moreover have "fst (run_state (remount_rootfs (example_os files) example_run 0) s) = True" for s
    by (simp add: remount_rootfs_def example_fields fst_bind example_call del: run_state_bind)
  ultimately have "fst (run_state (umount_rootfs (example_os files) example_run) s) = True" for s
    by (simp add: umount_rootfs_def fst_bind del: run_state_bind)
  moreover have "fst (run_state (daemonize (example_os files)) s) = Inr True" for s
    by (simp add: daemonize_def fork_step_def fst_bind example_call del: run_state_bind)
  ultimately show ?thesis
    by (simp add: leave_rootfs_def fst_bind del: run_state_bind)
qed

theorem flashing_after_stop_witness:
  "\<exists>r s' xs c n ys. run_state (main_flash (example_os (\<lambda>_. None)) id example_run) start = (r, s')
     \<and> trace s' = xs @ (c, n) # ys \<and> flashing_call c \<and> ready example_run xs
     \<and> (Mount ''/dev/mmcblk0p3'' ''/oldroot_remount/'' ''ext4'' '''', 0) \<in> set xs"
proof -
  let ?run = "run_state (main_flash (example_os (\<lambda>_. None)) id example_run) start"
  let ?m = "call (example_os (\<lambda>_. None)) (MakeDirectory ''/oldroot_remount/'')"
  obtain s1 where "snd ?run = snd (run_state (flash_images (example_os (\<lambda>_. None)) id example_run) (snd (run_state ?m s1)))"
    by (auto simp: main_flash_def flash_rootfs_part_def snd_bind example_leave example_fields
        simp del: run_state_bind)
  moreover have "trace (snd (run_state ?m s1)) = trace s1 @ [(MakeDirectory ''/oldroot_remount/'', 0)]"
    by (simp add: run_call example_os_def)
  ultimately obtain ys where t: "trace (snd ?run) = trace s1 @ (MakeDirectory ''/oldroot_remount/'', 0) # ys"
    by (metis adds_images emitsD surjective_pairing append.assoc append_Cons append_Nil)
  have run: "?run = (fst ?run, snd ?run)"
    by simp
  have "ready example_run (trace s1)"
    by (rule flashing_after_stop [OF _ _ _ run, where c = "MakeDirectory ''/oldroot_remount/''" and n = 0 and ys = ys])
      (use t in \<open>simp_all add: example_fields start_def\<close>)
  then show ?thesis
    using run t by (metis flashing_call.simps(9) ready_def example_fields(5,8))
qed

end
