(* ===== verification/MountProps.thy ===== *)
theory MountProps
  imports StopProps
begin

text \<open>
  What the flashing of a UBI image sets up and releases, against an abstract stack of resources.
\<close>

subsection \<open>The resources of a mounted UBI image\<close>

datatype resource = Loop string | Block string | Ubi | Mounted

definition remove_line :: "string \<Rightarrow> byte list" where
  "remove_line dev = char_bytes (dev @ '',remove'')"

text \<open>
  The abstract machine: a successful call that sets something up pushes it, a successful release
  pops it from the top. \<open>dev\<close> is the loop device.
\<close>

fun acquires :: "string \<Rightarrow> event \<Rightarrow> resource option" where
  "acquires dev (Applet argv, r) =
     (if r = 0 \<and> take 3 argv = [''losetup'', ''-r'', ''-f''] then Some (Loop dev)
      else if r = 0 \<and> take 1 argv = [''ubiattach''] then Some Ubi else None)"
| "acquires dev (Fwrite f d, r) =
     (if f = block2mtd_file \<and> d \<noteq> remove_line dev \<and> r \<ge> 0 then Some (Block dev) else None)"
| "acquires dev (Mount src tgt ty fl, r) = (if src = ''/dev/ubi10_0'' \<and> r \<ge> 0 then Some Mounted else None)"
| "acquires dev e = None"

fun releases :: "string \<Rightarrow> event \<Rightarrow> resource option" where
  "releases dev (Applet argv, r) =
     (if r = 0 \<and> argv = [''losetup'', ''-d'', dev] then Some (Loop dev)
      else if r = 0 \<and> take 1 argv = [''ubidetach''] then Some Ubi else None)"
| "releases dev (Fwrite f d, r) = (if f = block2mtd_file \<and> d = remove_line dev \<and> r \<ge> 0 then Some (Block dev) else None)"
| "releases dev (Umount d, r) = (if d = ubi_mount_path \<and> r = 0 then Some Mounted else None)"
| "releases dev e = None"

definition held_step :: "string \<Rightarrow> resource list \<Rightarrow> event \<Rightarrow> resource list" where
  "held_step dev rs e =
     (case acquires dev e of
        Some x \<Rightarrow> x # rs
      | None \<Rightarrow>
          (case releases dev e of
             Some x \<Rightarrow> (if rs \<noteq> [] \<and> hd rs = x then tl rs else rs)
           | None \<Rightarrow> rs))"

definition held :: "string \<Rightarrow> resource list \<Rightarrow> event list \<Rightarrow> resource list" where
  "held dev = foldl (held_step dev)"

lemma held_append [simp]: "held dev rs (a @ b) = held dev (held dev rs a) b"
  by (simp add: held_def)

lemma held_nil [simp]: "held dev rs [] = rs"
  by (simp add: held_def)

lemma held_one [simp]: "held dev rs [e] = held_step dev rs e"
  by (simp add: held_def)

lemma held_idle: "(\<And>e. e \<in> set es \<Longrightarrow> acquires dev e = None \<and> releases dev e = None) \<Longrightarrow> held dev rs es = rs"
  by (induction es arbitrary: rs) (simp_all add: held_def held_step_def)

text \<open>A system on which releasing never fails, and the loop device is always the same.\<close>

definition releasing :: "'w os \<Rightarrow> string \<Rightarrow> bool" where
  "releasing os dev \<longleftrightarrow>
     (\<forall>w. os_loop os w = dev
        \<and> fst (os_call os (Applet [''losetup'', ''-d'', dev]) w) = 0
        \<and> fst (os_call os (Fopen block2mtd_file ''w'') w) \<ge> 0
        \<and> fst (os_call os (Fwrite block2mtd_file (remove_line dev)) w) \<ge> 0
        \<and> (\<forall>n. fst (os_call os (Applet [''ubidetach'', ''-p'', n]) w) = 0)
        \<and> fst (os_call os (Umount ubi_mount_path) w) = 0)"

lemma ensures_call_where:
  "(\<And>w. P (fst (os_call os c w))) \<Longrightarrow> (\<And>r. P r \<Longrightarrow> Q r [(c, r)]) \<Longrightarrow> ensures Q (call os c)"
  by (simp add: ensures_def call_def split: prod.splits) (metis fst_conv)

text \<open>
  A program taken from the resources \<open>rs\<close> to a result and resources with \<open>Q\<close>: the rules of a
  Hoare logic over the abstract machine.
\<close>

definition holding :: "string \<Rightarrow> resource list \<Rightarrow> ('w, 'a) prog \<Rightarrow> ('a \<Rightarrow> resource list \<Rightarrow> bool) \<Rightarrow> bool" where
  "holding dev rs m Q \<longleftrightarrow> ensures (\<lambda>x es. Q x (held dev rs es)) m"

lemma holding_bind:
  assumes "holding dev rs m R" "\<And>x rs'. R x rs' \<Longrightarrow> holding dev rs' (f x) Q"
  shows "holding dev rs (State_Monad.bind m f) Q"
  using assms unfolding holding_def
  by (intro ensures_bind) (auto elim: ensures_mono)

lemma holding_ret: "Q x rs \<Longrightarrow> holding dev rs (ret x) Q"
  by (simp add: holding_def ensures_ret)

lemma holding_peek: "(\<And>x. Q x rs) \<Longrightarrow> holding dev rs (peek f) Q"
  by (simp add: holding_def ensures_peek)

lemma holding_call: "(\<And>r. Q r (held_step dev rs (c, r))) \<Longrightarrow> holding dev rs (call os c) Q"
  by (simp add: holding_def ensures_call)

lemma holding_mono: "holding dev rs m R \<Longrightarrow> (\<And>x rs'. R x rs' \<Longrightarrow> Q x rs') \<Longrightarrow> holding dev rs m Q"
  unfolding holding_def by (auto elim: ensures_mono)

lemma holding_if:
  "(b \<Longrightarrow> holding dev rs m Q) \<Longrightarrow> (\<not> b \<Longrightarrow> holding dev rs n Q) \<Longrightarrow> holding dev rs (if b then m else n) Q"
  by simp

lemma holding_option:
  "(x = None \<Longrightarrow> holding dev rs m Q) \<Longrightarrow> (\<And>y. x = Some y \<Longrightarrow> holding dev rs (f y) Q)
   \<Longrightarrow> holding dev rs (case x of None \<Rightarrow> m | Some y \<Rightarrow> f y) Q"
  by (cases x) auto

lemma holding_prod:
  "(\<And>a b. x = (a, b) \<Longrightarrow> holding dev rs (f a b) Q) \<Longrightarrow> holding dev rs (case x of (a, b) \<Rightarrow> f a b) Q"
  by (cases x) auto

lemma holding_idle:
  "emits (\<lambda>e. acquires dev e = None \<and> releases dev e = None) m \<Longrightarrow> holding dev rs m (\<lambda>_ rs'. rs' = rs)"
  unfolding holding_def by (rule ensures_emits) (auto simp: list_all_iff intro!: held_idle)

lemma holding_call_where:
  "(\<And>w. P (fst (os_call os c w))) \<Longrightarrow> (\<And>r. P r \<Longrightarrow> Q r (held_step dev rs (c, r))) \<Longrightarrow>
     holding dev rs (call os c) Q"
  unfolding holding_def by (rule ensures_call_where) auto

text \<open>The rules for a call in front of the rest of a program.\<close>

lemma holding_call_bind:
  "(\<And>r. holding dev (held_step dev rs (c, r)) (f r) Q) \<Longrightarrow> holding dev rs (State_Monad.bind (call os c) f) Q"
  by (rule holding_bind [where R = "\<lambda>r rs'. rs' = held_step dev rs (c, r)"]) (simp_all add: holding_call)

lemma holding_where_bind:
  assumes "\<And>w. P (fst (os_call os c w))" "\<And>r. P r \<Longrightarrow> holding dev (held_step dev rs (c, r)) (f r) Q"
  shows "holding dev rs (State_Monad.bind (call os c) f) Q"
  by (rule holding_bind [where R = "\<lambda>r rs'. P r \<and> rs' = held_step dev rs (c, r)", OF holding_call_where [where P = P]])
    (use assms in auto)

lemma holding_setup_loop:
  assumes "releasing os dev"
  shows "holding dev rs (setup_loop_device os f)
           (\<lambda>x rs'. case x of None \<Rightarrow> rs' = rs | Some d \<Rightarrow> d = dev \<and> rs' = Loop dev # rs)"
proof -
  have "\<forall>w. os_loop os w = dev"
    using assms by (simp add: releasing_def)
  then show ?thesis
    unfolding holding_def ensures_def setup_loop_device_def
    by (auto simp: run_call run_peek held_step_def split: prod.splits)
qed

lemma holding_release_loop:
  assumes "releasing os dev"
  shows "holding dev (Loop dev # rs) (release_loop_device os dev) (\<lambda>_ rs'. rs' = rs)"
proof -
  have "fst (os_call os (Applet [''losetup'', ''-d'', dev]) w) = 0" for w
    using assms by (simp add: releasing_def)
  then show ?thesis
    unfolding release_loop_device_def
    by (rule holding_where_bind [where P = "\<lambda>r. r = 0"]) (simp add: held_step_def holding_ret)
qed

lemma holding_remove:
  assumes "releasing os dev"
  shows "holding dev (Block dev # rs) (remove_block2mtd os dev) (\<lambda>_ rs'. rs' = rs)"
proof -
  have o: "0 \<le> fst (os_call os (Fopen block2mtd_file ''w'') w)"
    and w: "0 \<le> fst (os_call os (Fwrite block2mtd_file (remove_line dev)) w)" for w
    using assms by (simp_all add: releasing_def)
  show ?thesis
    unfolding remove_block2mtd_def write_block2mtd_def remove_line_def [symmetric]
    by (intro holding_where_bind [where P = "\<lambda>r. 0 \<le> r", OF o] holding_if holding_ret
        holding_where_bind [where P = "\<lambda>r. 0 \<le> r", OF w] holding_call_bind)
      (auto simp: held_step_def)
qed

lemma setup_line: "char_bytes (dev @ '',0x'' @ x) \<noteq> remove_line dev"
  by (simp add: remove_line_def char_bytes_def)

lemma holding_setup_block:
  "holding dev rs (setup_block2mtd os dev e w) (\<lambda>ok rs'. rs' = (if ok then Block dev # rs else rs))"
  unfolding setup_block2mtd_def write_block2mtd_def
  by (intro holding_call_bind holding_if holding_ret)
    (auto simp: held_step_def setup_line [simplified])

lemma holding_release_block:
  assumes "releasing os dev"
  shows "holding dev (Block dev # Loop dev # rs) (release_block2mtd os dev) (\<lambda>_ rs'. rs' = rs)"
  unfolding release_block2mtd_def
  by (rule holding_bind [OF holding_remove [OF assms]], simp,
      rule holding_bind [OF holding_release_loop [OF assms]], simp add: holding_ret)

lemma holding_detach:
  assumes "releasing os dev"
  shows "holding dev (Ubi # rs) (ubi_detach_dev os mtd False) (\<lambda>_ rs'. rs' = rs)"
proof -
  have "fst (os_call os (Applet [''ubidetach'', ''-p'', n]) w) = 0" for n w
    using assms by (simp add: releasing_def)
  then show ?thesis
    unfolding ubi_detach_dev_def run_applet_def
    by (simp, intro holding_where_bind [where P = "\<lambda>r. r = 0"]) (auto simp: held_step_def holding_ret)
qed

text \<open>What is held while the image is mounted.\<close>

abbreviation mount_stack :: "string \<Rightarrow> resource list \<Rightarrow> resource list" where
  "mount_stack dev rs \<equiv> Mounted # Ubi # Block dev # Loop dev # rs"

lemma holding_attach:
  assumes "releasing os dev"
  shows "holding dev (Block dev # Loop dev # rs) (attach_and_mount os dev mtd vid path)
     (\<lambda>x rs'. case x of None \<Rightarrow> rs' = rs | Some d \<Rightarrow> fst d = dev \<and> rs' = mount_stack dev rs)"
proof -
  have a: "holding dev r (ubi_attach_ofgwrite os mtd vid False) (\<lambda>ok r'. r' = (if ok then Ubi # r else r))" for r
    unfolding ubi_attach_ofgwrite_def run_applet_def
    by (simp, intro holding_call_bind holding_ret) (simp add: held_step_def)
  have r: "holding dev (Block dev # Loop dev # rs) (release_block2mtd os dev \<bind> (\<lambda>_. ret None))
     (\<lambda>x rs'. case x of None \<Rightarrow> rs' = rs | Some d \<Rightarrow> fst d = dev \<and> rs' = mount_stack dev rs)"
    by (rule holding_bind [OF holding_release_block [OF assms]]) (simp add: holding_ret)
  show ?thesis
    unfolding attach_and_mount_def
    apply (rule holding_bind [OF a], rule holding_if)
     apply (use r in simp)
    apply (rule holding_call_bind, rule holding_if)
     apply (simp add: held_step_def, rule holding_bind [OF holding_detach [OF assms]], use r in simp)
    apply (simp add: held_step_def holding_ret)
    done
qed

abbreviation neutral :: "string \<Rightarrow> event \<Rightarrow> bool" where
  "neutral dev e \<equiv> acquires dev e = None \<and> releases dev e = None"

lemma neutral_call: "(\<And>r. neutral dev (c, r)) \<Longrightarrow> emits (neutral dev) (call os c)"
  by (rule emits_call)

lemma neutral_peeks: "emits (neutral dev) (detect_vid_offset os d)" "emits (neutral dev) (detect_mtd_device os d)"
  "emits (neutral dev) (get_erasesize_and_writesize os)"
  unfolding detect_vid_offset_def detect_mtd_device_def get_erasesize_and_writesize_def read_sysfs_def Let_def
  by (intro emits_intros)+

lemma holding_mount_loop:
  assumes "releasing os dev"
  shows "holding dev rs (mount_loop_image os f e w path)
     (\<lambda>x rs'. case x of None \<Rightarrow> rs' = rs | Some d \<Rightarrow> fst d = dev \<and> rs' = mount_stack dev rs)"
    (is "holding dev rs _ ?Q")
proof -
  have l: "holding dev (Loop dev # rs) (release_loop_device os dev \<bind> (\<lambda>_. ret None)) ?Q"
    by (rule holding_bind [OF holding_release_loop [OF assms]]) (simp add: holding_ret)
  have b: "holding dev (Block dev # Loop dev # rs) (release_block2mtd os dev \<bind> (\<lambda>_. ret None)) ?Q"
    by (rule holding_bind [OF holding_release_block [OF assms]]) (simp add: holding_ret)
  show ?thesis
    unfolding mount_loop_image_def
    apply (rule holding_bind [OF holding_setup_loop [OF assms]], rule holding_option)
     apply (simp add: holding_ret)
    apply (simp only: option.case, elim conjE, hypsubst)
    apply (rule holding_bind [OF holding_setup_block], rule holding_if)
     apply (use l in simp)
    apply (rule holding_bind [OF holding_idle [OF neutral_peeks(1)]], rule holding_option)
     apply (use b in simp)
    apply (rule holding_bind [OF holding_idle [OF neutral_peeks(2)]], rule holding_option)
     apply (use b in simp)
    apply (use holding_attach [OF assms] in simp)
    done
qed

lemma neutral_nfi_copy: "last out \<noteq> CHR ''d'' \<Longrightarrow> emits (neutral dev) (nfi_copy os out img rb wb e pos p buf)"
proof (induction os out img rb wb e pos p buf rule: nfi_copy.induct)
  case (1 os out img rb wb e pos p buf)
  have "out \<noteq> block2mtd_file"
    using 1(2) by (auto simp: block2mtd_file_def)
  then show ?case
    unfolding nfi_copy.simps [of os out img rb wb e pos p buf]
    by (intro emits_intros neutral_call 1) (auto simp: 1(2))
qed

lemma neutral_extract: "emits (neutral dev) (extract_rootfs_from_nfi os path img n)"
  unfolding extract_rootfs_from_nfi_def Let_def
  by (intro emits_intros neutral_call neutral_nfi_copy) simp_all

lemma holding_mount:
  assumes "releasing os dev"
  shows "holding dev rs (mount_ubi_image os g f nfi path False)
     (\<lambda>x rs'. case x of None \<Rightarrow> rs' = rs | Some None \<Rightarrow> False | Some (Some d) \<Rightarrow> fst d = dev \<and> rs' = mount_stack dev rs)"
proof -
  have x: "emits (neutral dev) (if nfi \<noteq> [] then extract_rootfs_from_nfi os (nfi_path g) nfi w else ret (Some f))" for w
    by (intro emits_intros neutral_extract)
  show ?thesis
    unfolding mount_ubi_image_def
    apply (simp only: if_False)
    apply (rule holding_bind [OF holding_idle [OF neutral_peeks(3)]], rule holding_option)
     apply (simp add: holding_ret)
    apply (simp only:, rule holding_prod)
    apply (rule holding_bind [OF holding_idle [OF x]], rule holding_option)
     apply (simp add: holding_ret)
    apply (simp, rule holding_bind [OF holding_mount_loop [OF assms]])
    apply (auto intro!: holding_ret split: option.splits)
    done
qed

lemma holding_umount:
  assumes "releasing os dev"
  shows "holding dev (mount_stack dev rs) (umount_ubi_image os ubi_mount_path (Some (dev, mtd)) False)
     (\<lambda>_ rs'. rs' = rs)"
proof -
  have "fst (os_call os (Umount ubi_mount_path) w) = 0" for w
    using assms by (simp add: releasing_def)
  then show ?thesis
    unfolding umount_ubi_image_def
    apply simp
    apply (rule holding_where_bind [where P = "\<lambda>r. r = 0"], assumption)
    apply (simp add: held_step_def)
    apply (rule holding_bind [OF holding_detach [OF assms]], simp)
    apply (rule holding_bind [OF holding_remove [OF assms]], simp)
    apply (rule holding_bind [OF holding_release_loop [OF assms]], simp add: holding_ret)
    done
qed

lemma neutral_cp: "emits (neutral dev) (cp_rootfs os src dst no_wr)"
proof -
  have "emits (neutral dev) (cp_entries os src dst k n ns)" for k n ns
    by (induction ns arbitrary: k)
      (auto simp: cp_busybox_def run_applet_def intro!: emits_intros neutral_call)
  then show ?thesis
    unfolding cp_rootfs_def by (intro emits_intros)
qed

lemma neutral_rm: "emits (neutral dev) (rm_rootfs os dir no_wr)"
  unfolding rm_rootfs_def run_applet_def by (intro emits_intros neutral_call) simp

lemma holding_loop_subdir:
  assumes "releasing os dev"
  shows "holding dev rs (flash_ubi_loop_subdir os g filename nfi no_wr) (\<lambda>_ rs'. rs' = rs)"
proof (cases no_wr)
  case True
  then show ?thesis
    unfolding flash_ubi_loop_subdir_def mount_ubi_image_def cp_rootfs_def umount_ubi_image_def Let_def
    by (intro holding_idle) (simp, intro emits_intros neutral_call, simp)
next
  case False
  have mk: "emits (neutral dev) (call os (Mkdir d))" "emits (neutral dev) (call os Sync)"
    "emits (neutral dev) (call os (Rmdir d))" for d
    by (intro neutral_call, simp)+
  show ?thesis
    unfolding flash_ubi_loop_subdir_def Let_def
    apply (simp only: False if_False)
    apply (rule holding_bind [OF holding_idle [OF mk(1)]])
    apply (rule holding_bind [OF holding_mount [OF assms]], rule holding_option)
     apply (simp add: holding_ret)
    subgoal for _ _ _ _ m
      apply (cases m)
       apply simp
      apply (simp only: option.case, elim conjE)
      apply (rule holding_bind [OF holding_idle [OF neutral_rm]])
      apply (rule holding_bind [OF holding_idle [OF mk(1)]])
      apply (rule holding_bind [OF holding_idle [OF neutral_cp]])
      apply (rule holding_bind [OF holding_idle [OF mk(2)]])
      subgoal for d
        apply (cases d, simp only: fst_conv)
        apply (rule holding_bind [OF holding_umount [OF assms]])
        apply (rule holding_bind [OF holding_idle [OF mk(3)]])
        apply (simp add: holding_ret)
        done
      done
    done
qed

text \<open>
  Property C33. Flashing a UBI image on a subdirectory box gives back whatever it set up, however it
  ends: if releasing works, then afterwards the loop device, the block2mtd device, the UBI device
  and the mount of the abstract machine are those held before, each released from the top of the
  stack, the last one set up first.
\<close>

theorem loop_subdir_releases:
  assumes "releasing os dev" "run_state (flash_ubi_loop_subdir os g filename nfi no_wr) s = (ok, s')"
  shows "\<exists>new. trace s' = trace s @ new \<and> (\<forall>rs. held dev rs new = rs)"
proof -
  have h: "\<exists>new. trace s' = trace s @ new \<and> held dev rs new = rs" for rs
    using ensuresD [OF holding_loop_subdir [OF assms(1), unfolded holding_def] assms(2)] by metis
  then obtain new where "trace s' = trace s @ new"
    by blast
  then show ?thesis
    using h by auto
qed

lemma example_releasing: "releasing (example_os files) ''/dev/loop0''"
  by (simp add: releasing_def example_os_def)

theorem loop_subdir_releases_witness:
  "\<exists>ok s'. run_state (flash_ubi_loop_subdir (example_os (\<lambda>_. Some [0x55, 0x42, 0x49, 0x21])) initial_gst
        ''r.bin'' [] False) start = (ok, s')
     \<and> (Mount ''/dev/ubi10_0'' ''/ubi_mount/'' ''ubifs'' ''ro'', 0) \<in> set (trace s')
     \<and> held ''/dev/loop0'' [] (trace s') = []"
proof -
  let ?m = "flash_ubi_loop_subdir (example_os (\<lambda>_. Some [0x55, 0x42, 0x49, 0x21])) initial_gst ''r.bin'' [] False"
  obtain ok s' where s': "run_state ?m start = (ok, s')"
    by (cases "run_state ?m start")
  have "scan_uint 0 [0x55, 0x42, 0x49, 0x21] = 0"
    by (simp add: scan_uint_def byte_chars_def) code_simp
  then have "(Mount ''/dev/ubi10_0'' ''/ubi_mount/'' ''ubifs'' ''ro'', 0) \<in> set (trace s')"
    using s'
    by (simp add: flash_ubi_loop_subdir_def mount_ubi_image_def mount_loop_image_def block_defs
        run_applet_def rm_rootfs_def cp_rootfs_def real_entries_def umount_ubi_image_def
        example_os_def start_def run_call run_peek Let_def ubi_mount_path_def initial_gst_def,
        elim conjE, hypsubst, simp)
  then show ?thesis
    using loop_subdir_releases [OF example_releasing s'] s' by (simp add: start_def)
qed

end
