(* ===== verification/NfiProps.thy ===== *)
theory NfiProps
  imports FlashProps
begin

text \<open>
  The extraction of the rootfs from an NFI image: which bytes of the image the extracted file has.
\<close>

text \<open>\<open>n\<close> rounds from position \<open>p\<close>: the first \<open>wb\<close> of each \<open>rb\<close> bytes.\<close>

definition without_ecc :: "byte list \<Rightarrow> nat \<Rightarrow> nat \<Rightarrow> nat \<Rightarrow> nat \<Rightarrow> byte list" where
  "without_ecc img rb wb p n = concat (map (\<lambda>i. take wb (drop (p + i * rb) img)) [0..<n])"

lemma without_ecc_0 [simp]: "without_ecc img rb wb p 0 = []"
  by (simp add: without_ecc_def)

lemma without_ecc_Suc:
  "without_ecc img rb wb p (Suc n) = take wb (drop p img) @ without_ecc img rb wb (p + rb) n"
  by (simp add: without_ecc_def upt_conv_Cons map_Suc_upt [symmetric] o_def add_ac del: upt_Suc)

lemma nfi_read_take:
  "nfi_read img p n buf = (True, p1, buf1) \<Longrightarrow> wb \<le> n \<Longrightarrow> take wb buf1 = take wb (drop p img)"
  by (auto simp: nfi_read_def Let_def store_at_def min_def)

lemma fwrite_call:
  "run_state (call os (Fwrite fd data)) s = (1, s1) \<Longrightarrow> written fd (trace s1) = written fd (trace s) @ data"
  by (auto simp: run_call written_append split: prod.splits)

lemma nfi_copy_writes:
  assumes "run_state (nfi_copy os out img rb wb e (int p) p buf) s = (True, s')"
    and "length img < 2 ^ 31" "wb \<le> rb"
  shows "\<exists>n. (n = 0 \<or> p + n * rb \<le> length img) \<and> e \<le> int (p + n * rb) \<and> (n > 0 \<longrightarrow> int (p + n * rb) < e + int rb)
    \<and> written out (trace s') = written out (trace s) @ without_ecc img rb wb p n"
  using assms(1)
proof (induction "length img - p" arbitrary: p buf s rule: less_induct)
  case less
  show ?case
  proof (cases "e \<le> int p")
    case True
    then have "s' = s"
      using less(2) by (simp add: nfi_copy.simps)
    then show ?thesis
      using True by (intro exI [of _ 0]) simp
  next
    case False
    obtain ok p1 buf1 where r: "nfi_read img p rb buf = (ok, p1, buf1)"
      by (cases "nfi_read img p rb buf")
    obtain w s1 where w: "run_state (call os (Fwrite out (take wb buf1))) s = (w, s1)"
      by (cases "run_state (call os (Fwrite out (take wb buf1))) s")
    have ok: "ok" and w1: "w = 1" and run: "run_state (nfi_copy os out img rb wb e (c_uint (int p + int rb)) p1 buf1) s1 = (True, s')"
      using less(2) False r w by (auto simp: nfi_copy.simps [of os out img rb wb e "int p" p buf] split: if_splits)
    have p1: "p1 = p + rb" "0 < rb" "p + rb \<le> length img"
      using nfi_read_ok [of img p rb buf p1 buf1] r ok by auto
    have "c_uint (int p + int rb) = int p1"
      using p1 assms(2) by (simp add: c_uint_def)
    then have run1: "run_state (nfi_copy os out img rb wb e (int p1) p1 buf1) s1 = (True, s')"
      using run by simp
    have "length img - p1 < length img - p"
      using p1 by linarith
    then obtain n where n: "n = 0 \<or> p1 + n * rb \<le> length img" "e \<le> int (p1 + n * rb)"
      "n > 0 \<longrightarrow> int (p1 + n * rb) < e + int rb"
      "written out (trace s') = written out (trace s1) @ without_ecc img rb wb p1 n"
      using less(1) [OF _ run1] by blast
    have "written out (trace s1) = written out (trace s) @ take wb (drop p img)"
      using fwrite_call [OF w [unfolded w1]] nfi_read_take [of img p rb buf p1 buf1 wb] r ok assms(3) by simp
    moreover have "n = 0 \<longrightarrow> int (p + rb) < e + int rb"
      using False by simp
    ultimately show ?thesis
      using n p1 by (intro exI [of _ "Suc n"]) (auto simp: without_ecc_Suc)
  qed
qed


text \<open>Where the search for the rootfs partition stops: behind the size field, at the code's position.\<close>

lemma c_int_mod: "c_int x mod 2 ^ 32 = x mod 2 ^ 32"
proof -
  have "c_int x mod 2 ^ 32 = (x + 2 ^ 31 - 2 ^ 31) mod 2 ^ 32"
    unfolding c_int_def by (rule mod_diff_left_eq)
  then show ?thesis
    by simp
qed

lemma be32_take: "be32 (take 4 b) = be32 b"
  by (simp add: be32_def)

lemma nfi_seek_pos:
  "nfi_seek p1 sz = Some p2 \<Longrightarrow> int p2 mod 2 ^ 32 = (int p1 + sz) mod 2 ^ 32"
proof -
  assume "nfi_seek p1 sz = Some p2"
  then have "int p2 = int p1 + c_int sz"
    by (auto simp: nfi_seek_def Let_def split: if_splits)
  moreover have "c_int sz mod 2 ^ 32 = sz mod 2 ^ 32"
    by (rule c_int_mod)
  ultimately show ?thesis
    by (metis mod_add_right_eq)
qed

text \<open>
  The format of an NFI image: behind the header of 32 bytes and the total size follow the partitions, each
  with its size in four bytes, the highest first. The position of the size of the partition \<open>k\<close> partitions behind that
  at \<open>p\<close>; a size of \<open>2 ^ 31\<close> or more is a negative one for \<^verbatim>\<open>fseek\<close>.
\<close>

fun nfi_field :: "byte list \<Rightarrow> nat \<Rightarrow> nat \<Rightarrow> nat" where
  "nfi_field img 0 p = p"
| "nfi_field img (Suc k) p = nfi_field img k (nat (int p + 4 + c_int (be32 (take 4 (drop p img)))))"

lemma nfi_partitions_pos:
  assumes "nfi_partitions img k total_size pos p buf = Some (p3, sz, pos3, buf3)"
    and "pos mod 2 ^ 32 = int p mod 2 ^ 32" "length img < 2 ^ 31"
  shows "pos3 = int p3 \<and> p3 = nfi_field img k p + 4 \<and> p3 \<le> length img \<and> sz = be32 (take 4 (drop (nfi_field img k p) img))"
  using assms
proof (induction img k total_size pos p buf rule: nfi_partitions.induct)
  case (1 img k total_size pos p buf)
  obtain ok p1 buf1 where r: "nfi_read img p 4 buf = (ok, p1, buf1)"
    by (cases "nfi_read img p 4 buf")
  have nz: "\<not> total_size \<le> pos" and ok: "ok"
    using 1(2) r by (auto simp: nfi_partitions.simps [of img k total_size pos p buf] split: if_splits)
  have p1: "p1 = p + 4" "p + 4 \<le> length img"
    using nfi_read_ok [of img p 4 buf p1 buf1] r ok by auto
  have b: "be32 buf1 = be32 (take 4 (drop p img))"
    using nfi_read_take [of img p 4 buf p1 buf1 4] r ok by (metis be32_take order_refl)
  show ?case
  proof (cases k)
    case 0
    then have "p3 = p1" "sz = be32 buf1" "pos3 = c_uint (pos + 4)"
      using 1(2) r nz ok by (auto simp: nfi_partitions.simps [of img 0 total_size pos p buf])
    moreover have "c_uint (pos + 4) = int (p + 4)"
      using mod_add_cong [OF 1(3) refl, of 4] 1(4) p1 by (simp add: c_uint_def)
    ultimately show ?thesis
      using p1 b 0 by simp
  next
    case (Suc k')
    then obtain p2 where p2: "nfi_seek p1 (be32 buf1) = Some p2"
      "nfi_partitions img k' total_size (c_uint (pos + be32 buf1 + 4)) p2 buf1 = Some (p3, sz, pos3, buf3)"
      using 1(2) r nz ok by (auto simp: nfi_partitions.simps [of img "Suc k'" total_size pos p buf] split: option.splits)
    have "c_uint (pos + be32 buf1 + 4) mod 2 ^ 32 = int p2 mod 2 ^ 32"
      using nfi_seek_pos [OF p2(1)] mod_add_cong [OF 1(3) refl, of "be32 buf1 + 4"] p1
      by (simp add: c_uint_def add_ac)
    moreover have "p2 = nat (int p + 4 + c_int (be32 (take 4 (drop p img))))"
      using p2(1) p1 b by (auto simp: nfi_seek_def Let_def split: if_splits)
    ultimately show ?thesis
      using 1(1) [OF nz r [symmetric] refl _ Suc p2(1) p2(2)] ok 1(4) Suc by simp
  qed
qed

text \<open>The steps in front of copying: they end at the fourth partition, behind its size field.\<close>

lemma nfi_extraction_reaches:
  assumes "run_state (extract_rootfs_from_nfi os path img_file ws) s = (Some out, s')"
    and "os_file os img_file (world s) = Some f" "length (st_left f) < 2 ^ 31"
  obtains p sz buf s1 s2 where "out = path @ ''/ofg_nfi_rootfs.bin''" "p = nfi_field (st_left f) 3 36 + 4"
    "sz = be32 (take 4 (drop (nfi_field (st_left f) 3 36) (st_left f)))"
    "run_state (nfi_copy os out (st_left f) (nat (ws div 32 + ws)) (nat ws) (c_uint (int p + sz)) (int p) p buf) s1 = (True, s2)"
    "written out (trace s1) = written out (trace s)" "written out (trace s') = written out (trace s2)"
proof -
  let ?img = "st_left f"
  let ?out = "path @ ''/ofg_nfi_rootfs.bin''"
  let ?rb = "nat (ws div 32 + ws)"
  obtain ok p1 buf1 where r1: "nfi_read ?img 0 32 (os_stack os (world s)) = (ok, p1, buf1)"
    by (cases "nfi_read ?img 0 32 (os_stack os (world s))")
  obtain ok2 p2 buf2 where r2: "nfi_read ?img p1 4 buf1 = (ok2, p2, buf2)"
    by (cases "nfi_read ?img p1 4 buf1")
  let ?total = "c_uint (be32 buf2 + 36)"
  obtain p3 sz pos buf3 where part: "nfi_partitions ?img 3 ?total 36 p2 buf2 = Some (p3, sz, pos, buf3)"
    and hdr: "ok" "ok2 \<or> 1000000 \<le> ?total" and ws: "\<not> 5000 < ws"
    using assms(1,2) r1 r2
    by (cases "nfi_partitions ?img 3 ?total 36 p2 buf2")
      (auto simp: extract_rootfs_from_nfi_def run_peek Let_def split: if_splits)
  have p1: "p1 = 32" "32 \<le> length ?img"
    using nfi_read_ok [of ?img 0 32 _ p1 buf1] r1 hdr(1) by auto
  have "ok2"
  proof (rule ccontr)
    assume "\<not> ok2"
    then have "p2 = length ?img" "length ?img < 36"
      using r2 p1 by (auto simp: nfi_read_def Let_def)
    then show False
      using part by (subst (asm) nfi_partitions.simps) (auto simp: nfi_read_def split: if_splits)
  qed
  then have "p2 = 36"
    using nfi_read_ok [of ?img p1 4 buf1 p2 buf2] r2 p1 by auto
  then have pos: "pos = int p3" "p3 = nfi_field ?img 3 36 + 4" "sz = be32 (take 4 (drop (nfi_field ?img 3 36) ?img))"
    using nfi_partitions_pos [OF part] assms(3) by auto
  obtain r s1 where o: "run_state (call os (Fopen ?out ''wb'')) s = (r, s1)"
    by (cases "run_state (call os (Fopen ?out ''wb'')) s")
  obtain ok3 s2 where c: "run_state (nfi_copy os ?out ?img ?rb (nat ws) (c_uint (int p3 + sz)) (int p3) p3 buf3) s1 = (ok3, s2)"
    by (cases "run_state (nfi_copy os ?out ?img ?rb (nat ws) (c_uint (int p3 + sz)) (int p3) p3 buf3) s1")
  have ok3: "ok3" and out: "out = ?out" and w: "written ?out (trace s') = written ?out (trace s2)"
    using assms(1,2) r1 r2 part hdr ws o c pos(1)
    by (auto simp: extract_rootfs_from_nfi_def run_peek run_call written_append Let_def split: if_splits prod.splits)
  have "written ?out (trace s1) = written ?out (trace s)"
    using o by (auto simp: run_call written_append split: prod.splits)
  then show thesis
    using that [of p3 sz buf3 s1 s2] pos(2,3) c ok3 w by (simp add: out)
qed

text \<open>The number of rounds for a size: the last one may reach behind the end of the partition.\<close>

lemma rounds:
  assumes "sz \<le> int (n * rb)" "n > 0 \<longrightarrow> int (n * rb) < sz + int rb" "0 \<le> sz"
  shows "n = nat ((sz + int rb - 1) div int rb)"
proof (cases "n = 0")
  case True
  then have "sz = 0"
    using assms(1,3) by simp
  moreover have "(int rb - 1) div int rb = 0"
    by (cases "rb = 0") (simp_all add: div_pos_pos_trivial)
  ultimately show ?thesis
    using True by simp
next
  case False
  then have n: "int rb * int n < sz + int rb" "sz \<le> int rb * int n"
    using assms(1,2) by (simp_all add: mult.commute)
  then have "0 < rb"
    using assms(3) by (cases "rb = 0") auto
  moreover have "sz + int rb - 1 = (sz + int rb - 1 - int rb * int n) + int n * int rb"
    by (simp add: mult.commute)
  ultimately have "(sz + int rb - 1) div int rb = int n + (sz + int rb - 1 - int rb * int n) div int rb"
    by (metis div_mult_self3 add.commute of_nat_0_less_iff less_irrefl)
  moreover have "(sz + int rb - 1 - int rb * int n) div int rb = 0"
    using n \<open>0 < rb\<close> by (intro div_pos_pos_trivial) auto
  ultimately show ?thesis
    by simp
qed

text \<open>
  Property C36. When the rootfs is extracted from an NFI image below 2 GiB, what is handed to the stream of the
  extracted file is the fourth partition of the image without its error correction bytes: of every
  \<open>ws + ws div 32\<close> bytes behind the size field of that partition the first \<open>ws\<close>. There are as many rounds as
  the size needs, the last one counted as a whole where the size is no multiple, and all of them lie inside the
  image. (A partition that would end behind 4 GiB is the exception: its end is an \<^verbatim>\<open>unsigned int\<close>, and
  the number of rounds another one.)
\<close>

theorem nfi_extraction_exact:
  assumes "run_state (extract_rootfs_from_nfi os path img_file ws) s = (Some out, s')"
    and "os_file os img_file (world s) = Some f" "length (st_left f) < 2 ^ 31" "0 \<le> ws"
  shows "let img = st_left f; field = nfi_field img 3 36; sz = be32 (take 4 (drop field img)); rb = nat ws + nat ws div 32 in
      out = path @ ''/ofg_nfi_rootfs.bin''
      \<and> (\<exists>n. (int (field + 4) + sz < 2 ^ 32 \<longrightarrow> n = nat ((sz + int rb - 1) div int rb))
          \<and> (n = 0 \<or> field + 4 + n * rb \<le> length img)
          \<and> written out (trace s') = written out (trace s) @ without_ecc img rb (nat ws) (field + 4) n)"
proof -
  let ?img = "st_left f" and ?rb = "nat (ws div 32 + ws)"
  let ?field = "nfi_field ?img 3 36"
  obtain p sz buf s1 s2 where out: "out = path @ ''/ofg_nfi_rootfs.bin''" and pos: "p = ?field + 4" "sz = be32 (take 4 (drop ?field ?img))"
    and c: "run_state (nfi_copy os out ?img ?rb (nat ws) (c_uint (int p + sz)) (int p) p buf) s1 = (True, s2)"
    and w: "written out (trace s1) = written out (trace s)" "written out (trace s') = written out (trace s2)"
    by (rule nfi_extraction_reaches [OF assms(1-3)])
  have "nat ws \<le> ?rb"
    using assms(4) by (simp add: nat_mono)
  from nfi_copy_writes [OF c assms(3) this]
  obtain n where n: "n = 0 \<or> p + n * ?rb \<le> length ?img" "c_uint (int p + sz) \<le> int (p + n * ?rb)"
    "n > 0 \<longrightarrow> int (p + n * ?rb) < c_uint (int p + sz) + int ?rb"
    "written out (trace s') = written out (trace s) @ without_ecc ?img ?rb (nat ws) p n"
    unfolding w by blast
  have rb: "?rb = nat ws + nat ws div 32"
    using assms(4) by (simp add: nat_add_distrib nat_div_distrib)
  have sz: "0 \<le> sz"
    using pos(2) by (simp add: be32_def)
  have "n = nat ((sz + int ?rb - 1) div int ?rb)" if "int p + sz < 2 ^ 32"
    by (rule rounds) (use n(2,3) sz that in auto)
  then show ?thesis
    using n(1,4) unfolding pos rb out Let_def by blast
qed

text \<open>An image with three empty partitions and a rootfs of one page of 32 bytes.\<close>

definition nfi_example :: "byte list" where
  "nfi_example = [0x4E, 0x46, 0x49] @ replicate 29 0 @ [0, 0, 0, 49] @ replicate 12 0 @ [0, 0, 0, 33]
     @ replicate 32 7 @ [9]"

lemma nfi_example_parts:
  "nfi_field nfi_example 3 36 = 48" "be32 (take 4 (drop 48 nfi_example)) = 33" "length nfi_example = 85"
  "without_ecc nfi_example 33 32 52 (Suc 0) = replicate 32 7"
proof -
  show "nfi_field nfi_example 3 36 = 48" "be32 (take 4 (drop 48 nfi_example)) = 33" "length nfi_example = 85"
    by code_simp+
  show "without_ecc nfi_example 33 32 52 (Suc 0) = replicate 32 7"
    by (simp add: without_ecc_def nfi_example_def)
qed

theorem nfi_extraction_exact_witness:
  "\<exists>s'. run_state (extract_rootfs_from_nfi (example_os (\<lambda>_. Some nfi_example)) ''/m'' ''/m/i.nfi'' 32) start
      = (Some ''/m/ofg_nfi_rootfs.bin'', s')
    \<and> written ''/m/ofg_nfi_rootfs.bin'' (trace s') = replicate 32 7"
proof -
  let ?run = "run_state (extract_rootfs_from_nfi (example_os (\<lambda>_. Some nfi_example)) ''/m'' ''/m/i.nfi'' 32) start"
  have "fst ?run = Some ''/m/ofg_nfi_rootfs.bin''"
    by code_simp
  then have run: "?run = (Some ''/m/ofg_nfi_rootfs.bin'', snd ?run)"
    by (metis prod.collapse)
  have "written ''/m/ofg_nfi_rootfs.bin'' (trace (snd ?run)) = replicate 32 7"
    using nfi_extraction_exact [OF run, of "\<lparr>st_left = nfi_example, st_bad = False\<rparr>"]
    by (simp add: example_os_def start_def Let_def nfi_example_parts)
  then show ?thesis
    using run by blast
qed

end
