(* ===== verification/FlashErase.thy ===== *)
theory FlashErase
  imports Libmtd Getopt Crc32
begin

text \<open>
  \<^verbatim>\<open>flash_erase.c\<close>, the program ofgwrite erases flash partitions with. Its options are static
  variables: they are not reset between two calls of \<^verbatim>\<open>flash_erase_main\<close>. The two constants of
  \<^verbatim>\<open>linux/jffs2.h\<close> are a parameter, the four bytes \<open>node_head\<close>.
\<close>

subsection \<open>Arguments\<close>

record fe_flags =
  fe_quiet :: bool
  fe_jffs2 :: bool
  fe_noskipbad :: bool
  fe_unlock :: bool

definition fe_initial :: fe_flags where
  "fe_initial = \<lparr>fe_quiet = False, fe_jffs2 = False, fe_noskipbad = False, fe_unlock = False\<rparr>"

definition fe_short :: "(char \<times> has_arg) list" where
  "fe_short = parse_optstring ''jNqu''"

definition fe_long :: "long_option list" where
  "fe_long =
     [(''help'', no_argument, CHR 0x00), (''version'', no_argument, CHR 0x00),
      (''jffs2'', no_argument, CHR ''j''), (''noskipbad'', no_argument, CHR ''N''),
      (''quiet'', no_argument, CHR ''q''), (''silent'', no_argument, CHR ''q''),
      (''unlock'', no_argument, CHR ''u'')]"

text \<open>The option loop; the flags tell whether an option was wrong, and whether the program is done.\<close>

fun fe_options :: "opt_result list \<Rightarrow> fe_flags \<Rightarrow> bool \<Rightarrow> fe_flags \<times> bool \<times> bool" where
  "fe_options [] f err = (f, err, False)"
| "fe_options ((c, i, v) # os) f err =
     (if c = CHR 0x00 \<and> (i = Some 0 \<or> i = Some 1) then (f, err, True)
      else if c = CHR ''j'' then fe_options os (f\<lparr>fe_jffs2 := True\<rparr>) err
      else if c = CHR ''N'' then fe_options os (f\<lparr>fe_noskipbad := True\<rparr>) err
      else if c = CHR ''q'' then fe_options os (f\<lparr>fe_quiet := True\<rparr>) err
      else if c = CHR ''u'' then fe_options os (f\<lparr>fe_unlock := True\<rparr>) err
      else if c = CHR ''?'' then fe_options os f True
      else fe_options os f err)"

subsection \<open>The clean marker\<close>

text \<open>The marker node of 12 bytes; its checksum covers the eight bytes in front of it.\<close>

definition cleanmarker :: "byte list \<Rightarrow> bool \<Rightarrow> byte list" where
  "cleanmarker node_head nand =
     (let body = node_head @ le_bytes 4 (if nand then 8 else 12 :: u32)
      in body @ le_bytes 4 (mtd_crc32 0 body))"

text \<open>Position and length of the marker in the OOB area; \<open>None\<close> where the program gives up.\<close>

definition marker_place :: "mtd_dev_info \<Rightarrow> nand_oobinfo \<Rightarrow> (int \<times> int) option" where
  "marker_place mtd oi =
     (if oob_useecc oi = MTD_NANDECC_AUTOPLACE
      then
        (let (pos, len) = (case oob_oobfree oi of [] \<Rightarrow> (0, 0) | free # _ \<Rightarrow> free)
         in if len = 0 then None else Some (pos, if len > 8 then 8 else len))
      else if mtd_oob_size mtd = 8 then Some (6, 2)
      else if mtd_oob_size mtd = 16 then Some (8, 8)
      else if mtd_oob_size mtd = 64 then Some (16, 8)
      else Some (0, 8))"

subsection \<open>Erasing\<close>

text \<open>What is written behind the erasure of an eraseblock: nothing, or the marker at a place.\<close>

datatype marker = NoMarker | OobMarker int int "byte list" | DataMarker "byte list"

definition write_marker ::
  "'k kernel \<Rightarrow> mtd_dev_info \<Rightarrow> marker \<Rightarrow> int \<Rightarrow> 'k st \<Rightarrow> 'k st"
where
  "write_marker K mtd m offset st =
     (case m of
        NoMarker \<Rightarrow> st
      | OobMarker pos len data \<Rightarrow>
          snd (mtd_write_oob K mtd (word_of_int (offset + pos)) (word_of_int len) (take (nat len) data) st)
      | DataMarker data \<Rightarrow> (fst st, snd (k_pwrite K data offset (snd st))))"

text \<open>
  One eraseblock: a bad one is skipped, a failing erasure is reported and forgotten. \<open>None\<close> as the
  first result ends the program with -1; otherwise it is the new \<^verbatim>\<open>noskipbad\<close>.
\<close>

definition erase_step ::
  "'k kernel \<Rightarrow> mtd_dev_info \<Rightarrow> fe_flags \<Rightarrow> marker \<Rightarrow> bool \<Rightarrow> int \<Rightarrow> 'k st \<Rightarrow> bool option \<times> 'k st"
where
  "erase_step K mtd f m noskip eb st =
     (let nand = (mtd_type mtd = MTD_NANDFLASH \<or> mtd_type mtd = MTD_MLCNANDFLASH);
          (bad, st1) = (if noskip then (Inr 0, st) else mtd_is_bad K mtd (c_int eb) st);
          noskip1 = (noskip \<or> bad = Inl EOPNOTSUPP)
      in if (\<exists>n. bad = Inr n \<and> n > 0) then (Some noskip, st1)
         else if (\<exists>e. bad = Inl e \<and> (e \<noteq> EOPNOTSUPP \<or> nand)) then (None, st1)
         else
           let (locked, st2) = (if fe_unlock f then mtd_unlock K mtd (c_int eb) st1 else (None, st1))
           in if locked \<noteq> None then (Some noskip1, st2)
              else
                (case mtd_erase K mtd (c_int eb) st2 of
                   (Some e, st3) \<Rightarrow> (Some noskip1, st3)
                 | (None, st3) \<Rightarrow> (Some noskip1, write_marker K mtd m (eb * mtd_eb_size mtd) st3)))"

text \<open>
  The loop over the eraseblocks; the flag is \<open>False\<close> where the program returns -1. The new value of
  \<^verbatim>\<open>noskipbad\<close> stays.
\<close>

fun erase_loop ::
  "'k kernel \<Rightarrow> mtd_dev_info \<Rightarrow> fe_flags \<Rightarrow> marker \<Rightarrow> bool \<Rightarrow> int list \<Rightarrow> 'k st \<Rightarrow> bool \<times> bool \<times> 'k st"
where
  "erase_loop K mtd f m noskip [] st = (True, noskip, st)"
| "erase_loop K mtd f m noskip (eb # ebs) st =
     (case erase_step K mtd f m noskip eb st of
        (None, st1) \<Rightarrow> (False, noskip \<or> fst (mtd_is_bad K mtd (c_int eb) st) = Inl EOPNOTSUPP, st1)
      | (Some noskip1, st1) \<Rightarrow> erase_loop K mtd f m noskip1 ebs st1)"

text \<open>What the program finds of libmtd and the device.\<close>

record fe_env =
  fee_libmtd :: bool
  fee_opens :: bool
  fee_mtd :: "mtd_dev_info option"

text \<open>The marker to be written with \<^verbatim>\<open>-j\<close>; \<open>None\<close> where the program returns -1.\<close>

definition choose_marker ::
  "'k kernel \<Rightarrow> byte list \<Rightarrow> fe_flags \<Rightarrow> mtd_dev_info \<Rightarrow> 'k st \<Rightarrow> marker option \<times> 'k st"
where
  "choose_marker K node_head f mtd st =
     (if \<not> fe_jffs2 f then (Some NoMarker, st)
      else if mtd_type mtd \<noteq> MTD_NANDFLASH \<and> mtd_type mtd \<noteq> MTD_MLCNANDFLASH
      then (Some (DataMarker (cleanmarker node_head False)), st)
      else
        (case k_memgetoobsel K (snd st) of
           (Inl e, k) \<Rightarrow> (None, fst st, k)
         | (Inr oi, k) \<Rightarrow>
             (map_option (\<lambda>(pos, len). OobMarker pos len (cleanmarker node_head True)) (marker_place mtd oi),
              fst st, k)))"

text \<open>
  Erasing from the first eraseblock on; a count of 0 is the rest of the device. The progress
  display divides by the count, also behind an empty loop: \<open>None\<close>.
\<close>

definition erase_range ::
  "'k kernel \<Rightarrow> fe_flags \<Rightarrow> mtd_dev_info \<Rightarrow> marker \<Rightarrow> int \<Rightarrow> int \<Rightarrow> 'k st \<Rightarrow> (int \<times> fe_flags \<times> 'k st) option"
where
  "erase_range K f mtd m first count st =
     (let n = (if count = 0 then c_uint (mtd_size mtd div mtd_eb_size mtd - first) else count);
          (ok, noskip, st1) = erase_loop K mtd f m (fe_noskipbad f) [first..c_uint (first + n) - 1] st
      in if ok \<and> n = 0 \<and> \<not> fe_quiet f then None
         else Some (if ok then 0 else -1, f\<lparr>fe_noskipbad := noskip\<rparr>, st1))"

text \<open>
  \<^verbatim>\<open>flash_erase_main\<close> with the flags earlier calls left: the return value and the flags it leaves.
\<close>

definition flash_erase_main ::
  "'k kernel \<Rightarrow> fe_env \<Rightarrow> byte list \<Rightarrow> string list \<Rightarrow> fe_flags \<Rightarrow> 'k st \<Rightarrow> (int \<times> fe_flags \<times> 'k st) option"
where
  "flash_erase_main K env node_head argv f0 st =
     (let (opts, pos) = getopt_long fe_short fe_long argv;
          (f, err, done) = fe_options opts f0 False
      in if done then Some (0, f, st)
         else
           (case pos of
              [dev, start, count] \<Rightarrow>
                let (s, err1) = simple_strtoull start; (n, err2) = simple_strtoul count
                in if err \<or> err1 \<or> err2 then Some (-1, f, st)
                   else if \<not> fee_libmtd env \<or> \<not> fee_opens env then Some (-1, f, st)
                   else
                     (case fee_mtd env of
                        None \<Rightarrow> Some (-1, f, st)
                      | Some mtd \<Rightarrow>
                          if fe_jffs2 f \<and> mtd_type mtd = MTD_MLCNANDFLASH then Some (-1, f, st)
                          else if mtd_eb_size mtd = 0 then None
                          else
                            (case choose_marker K node_head f mtd st of
                               (None, st1) \<Rightarrow> Some (-1, f, st1)
                             | (Some m, st1) \<Rightarrow>
                                 erase_range K f mtd m (c_uint (s div mtd_eb_size mtd)) n st1))
            | _ \<Rightarrow> Some (-1, f, st)))"

end
