(* ===== verification/Nandwrite.thy ===== *)
theory Nandwrite
  imports Libmtd Getopt
begin

text \<open>
  \<^verbatim>\<open>nandwrite.c\<close>, the program ofgwrite writes kernels and JFFS2 images with. As in \<^verbatim>\<open>flash_erase\<close> the
  options are static variables that keep their values between two calls.
\<close>

subsection \<open>Arguments\<close>

record nw_args =
  nw_mtdoffset :: int
  nw_inputskip :: int
  nw_inputsize :: int
  nw_quiet :: bool
  nw_writeoob :: bool
  nw_onlyoob :: bool
  nw_markbad :: bool
  nw_noecc :: bool
  nw_autoplace :: bool
  nw_noskipbad :: bool
  nw_pad :: bool
  nw_blockalign :: int
  nw_device :: string
  nw_img :: string

definition nw_initial :: nw_args where
  "nw_initial = \<lparr>nw_mtdoffset = 0, nw_inputskip = 0, nw_inputsize = 0, nw_quiet = False,
     nw_writeoob = False, nw_onlyoob = False, nw_markbad = False, nw_noecc = False,
     nw_autoplace = False, nw_noskipbad = False, nw_pad = False, nw_blockalign = 1,
     nw_device = '''', nw_img = ''''\<rparr>"

definition nw_long :: "long_option list" where
  "nw_long =
     [(''version'', no_argument, CHR 0x00), (''input-skip'', required_argument, CHR 0x00),
      (''input-size'', required_argument, CHR 0x00), (''help'', no_argument, CHR ''h''),
      (''blockalign'', required_argument, CHR ''b''), (''markbad'', no_argument, CHR ''m''),
      (''noecc'', no_argument, CHR ''n''), (''noskipbad'', no_argument, CHR ''N''),
      (''oob'', no_argument, CHR ''o''), (''onlyoob'', no_argument, CHR ''O''),
      (''pad'', no_argument, CHR ''p''), (''quiet'', no_argument, CHR ''q''),
      (''start'', required_argument, CHR ''s''), (''autoplace'', no_argument, CHR ''a'')]"

text \<open>One option; \<open>None\<close> ends the program with its help or version and code 0.\<close>

definition nw_option :: "opt_result \<Rightarrow> nw_args \<times> bool \<Rightarrow> (nw_args \<times> bool) option" where
  "nw_option o_r ae =
     (case (o_r, ae) of ((c, i, v), (a, err)) \<Rightarrow>
        let arg = (case v of None \<Rightarrow> '''' | Some s \<Rightarrow> s)
        in if c = CHR 0x00 then
             (if i = Some 0 then None
              else if i = Some 1 then
                (case simple_strtoll arg of (n, e) \<Rightarrow> Some (a\<lparr>nw_inputskip := n\<rparr>, err \<or> e))
              else if i = Some 2 then
                (case simple_strtoll arg of (n, e) \<Rightarrow> Some (a\<lparr>nw_inputsize := n\<rparr>, err \<or> e))
              else Some (a, err))
           else if c = CHR ''q'' then Some (a\<lparr>nw_quiet := True\<rparr>, err)
           else if c = CHR ''n'' then Some (a\<lparr>nw_noecc := True\<rparr>, err)
           else if c = CHR ''N'' then Some (a\<lparr>nw_noskipbad := True\<rparr>, err)
           else if c = CHR ''m'' then Some (a\<lparr>nw_markbad := True\<rparr>, err)
           else if c = CHR ''o'' then Some (a\<lparr>nw_writeoob := True\<rparr>, err)
           else if c = CHR ''O'' then Some (a\<lparr>nw_writeoob := True, nw_onlyoob := True\<rparr>, err)
           else if c = CHR ''p'' then Some (a\<lparr>nw_pad := True\<rparr>, err)
           else if c = CHR ''s'' then
             (case simple_strtoll arg of (n, e) \<Rightarrow> Some (a\<lparr>nw_mtdoffset := n\<rparr>, err \<or> e))
           else if c = CHR ''b'' then Some (a\<lparr>nw_blockalign := atoi arg\<rparr>, err)
           else if c = CHR ''a'' then Some (a\<lparr>nw_autoplace := True\<rparr>, err)
           else if c = CHR ''h'' then None
           else if c = CHR ''?'' then Some (a, True)
           else Some (a, err))"

fun nw_options :: "opt_result list \<Rightarrow> nw_args \<times> bool \<Rightarrow> (nw_args \<times> bool) option" where
  "nw_options [] ae = Some ae"
| "nw_options (o_r # os) ae = (case nw_option o_r ae of None \<Rightarrow> None | Some ae' \<Rightarrow> nw_options os ae')"

text \<open>\<open>Inl\<close> is the exit code of a program that ends in \<^verbatim>\<open>process_options\<close>.\<close>

definition process_options :: "string list \<Rightarrow> nw_args \<Rightarrow> int + nw_args" where
  "process_options argv a0 =
     (let (opts, pos) = getopt_long (parse_optstring ''hb:mnNoOpqs:a'') nw_long argv
      in case nw_options opts (a0\<lparr>nw_mtdoffset := 0\<rparr>, False) of
           None \<Rightarrow> Inl 0
         | Some (a, err) \<Rightarrow>
             if nw_mtdoffset a < 0 then Inl 1
             else if nw_blockalign a < 0 then Inl 1
             else if nw_autoplace a \<and> nw_noecc a then Inl 1
             else if \<not> nw_onlyoob a \<and> nw_pad a \<and> nw_writeoob a then Inl 1
             else if length pos < 1 \<or> length pos > 2 \<or> err then Inl 1
             else Inr (a\<lparr>nw_device := hd pos, nw_img := (if length pos = 2 then pos ! 1 else ''-'')\<rparr>))"

subsection \<open>The state of the main loop\<close>

text \<open>
  \<open>nw_buf\<close> is \<^verbatim>\<open>filebuf\<close>, \<open>nw_len\<close> \<^verbatim>\<open>filebuf_len\<close>, and \<open>nw_pos\<close> the index of \<^verbatim>\<open>writebuf\<close> in it, \<open>None\<close> for
  the null pointer it starts as. \<open>nw_stdin\<close> tells whether the input is the standard input.
\<close>

record 'k nw =
  nw_off :: int
  nw_imglen :: int
  nw_buf :: "byte list"
  nw_len :: nat
  nw_pos :: "nat option"
  nw_blockstart :: int
  nw_st :: "'k st"

definition nw_index :: "'k nw \<Rightarrow> nat" where
  "nw_index s = (case nw_pos s of None \<Rightarrow> 0 | Some i \<Rightarrow> i)"

subsection \<open>Skipping bad eraseblocks\<close>

text \<open>
  The eraseblocks of an aligned block from \<open>offs\<close> on: the new \<^verbatim>\<open>mtdoffset\<close>, or \<open>None\<close> inside for the
  error exit. The code divides the offset by the aligned size, not by that of an eraseblock.
\<close>

partial_function (option) check_blocks ::
  "'k kernel \<Rightarrow> mtd_dev_info \<Rightarrow> nw_args \<Rightarrow> int \<Rightarrow> int \<Rightarrow> int \<Rightarrow> bool \<Rightarrow> int \<Rightarrow> 'k st \<Rightarrow> (int option \<times> 'k st) option"
where
  "check_blocks K mtd a ebs blockstart offs bad off st =
     (if ebs = 0 \<or> nw_blockalign a = 0 then None
      else
        (case mtd_is_bad K mtd (c_int (c_div offs ebs)) st of
           (Inl e, st1) \<Rightarrow> Some (None, st1)
         | (Inr r, st1) \<Rightarrow>
             let bad1 = (bad \<or> r = 1); off1 = (if bad1 then blockstart + ebs else off);
                 offs1 = offs + c_div ebs (nw_blockalign a)
             in if bad1 \<and> off1 > mtd_size mtd then Some (None, st1)
                else if offs1 < blockstart + ebs
                then check_blocks K mtd a ebs blockstart offs1 bad1 off1 st1
                else Some (Some off1, st1)))"

text \<open>
  Entering a new aligned block, until one is found that is not bad; the flag is \<open>False\<close> on the
  error exit. Behind a write failure (\<^verbatim>\<open>writebuf == filebuf\<close>) the buffer is kept and replayed.
\<close>

partial_function (option) new_block ::
  "'k kernel \<Rightarrow> mtd_dev_info \<Rightarrow> nw_args \<Rightarrow> int \<Rightarrow> 'k nw \<Rightarrow> (bool \<times> 'k nw) option"
where
  "new_block K mtd a ebs s =
     (let start = nw_off s AND - ebs
      in if nw_blockstart s = start then Some (True, s)
         else if ebs = 0 \<and> \<not> nw_quiet a then None
         else
           let s1 = (if nw_pos s = Some 0 then s\<lparr>nw_blockstart := start\<rparr>
                     else s\<lparr>nw_blockstart := start, nw_buf := store_at 0 (replicate (nw_len s) 0xFF) (nw_buf s),
                            nw_len := 0, nw_pos := Some 0\<rparr>)
           in if nw_noskipbad a then new_block K mtd a ebs s1
              else do {
                (r, st1) \<leftarrow> check_blocks K mtd a ebs start start False (nw_off s1) (nw_st s1);
                case r of
                  None \<Rightarrow> Some (False, s1\<lparr>nw_st := st1\<rparr>)
                | Some off1 \<Rightarrow> new_block K mtd a ebs (s1\<lparr>nw_off := off1, nw_st := st1\<rparr>)
              })"

subsection \<open>Reading the input\<close>

text \<open>
  Up to \<open>need\<close> bytes of the input: the bytes, whether the last read hit the end; \<open>None\<close> for a read
  error.
\<close>

function read_input :: "'k kernel \<Rightarrow> nat \<Rightarrow> 'k \<Rightarrow> byte list option \<times> bool \<times> 'k" where
  "read_input K need k =
     (if need = 0 then (Some [], False, k)
      else
        (case k_img_read K need k of
           (ReadErr e, k1) \<Rightarrow> (None, False, k1)
         | (Bytes d, k1) \<Rightarrow>
             if d = [] then (Some [], True, k1)
             else
               (case read_input K (need - length d) k1 of
                  (r, eof, k2) \<Rightarrow> (map_option (append d) r, eof, k2))))"
  by pat_completeness auto

termination read_input
  by (relation "measure (\<lambda>(K, need, k). need)") auto

declare read_input.simps [simp del]

text \<open>What a step of the main loop comes to: the loop goes on, ends, or the error exit is taken.\<close>

datatype 'a nw_step = NwNext 'a | NwBreak 'a | NwFail 'a

text \<open>The page: what is missing is read behind what the buffer has of it. The display divides by \<open>total_len\<close>.\<close>

definition read_page ::
  "'k kernel \<Rightarrow> mtd_dev_info \<Rightarrow> nw_args \<Rightarrow> bool \<Rightarrow> int \<Rightarrow> 'k nw \<Rightarrow> 'k nw nw_step option"
where
  "read_page K mtd a from_stdin total_len s =
     (let i = nw_index s; io = nat (mtd_min_io_size mtd)
      in if i + io \<le> nw_len s then Some (NwNext s)
         else
           let already = nw_len s - i
           in (case read_input K (io - already) (snd (nw_st s)) of
                 (None, eof, k) \<Rightarrow> Some (NwFail (s\<lparr>nw_st := (fst (nw_st s), k)\<rparr>))
               | (Some got, eof, k) \<Rightarrow>
                   let s1 = s\<lparr>nw_buf := store_at (i + already) got (nw_buf s), nw_st := (fst (nw_st s), k)\<rparr>;
                       tiny = already + length got
                   in if tiny = 0 then Some (NwBreak (if from_stdin then s1\<lparr>nw_imglen := 0\<rparr> else s1))
                      else if tiny < io \<and> \<not> nw_pad a then Some (NwFail s1)
                      else
                        let s2 = s1\<lparr>nw_buf := store_at (i + tiny) (replicate (io - tiny) 0xFF) (nw_buf s1),
                                    nw_len := nw_len s + (io - already)\<rparr>
                        in if from_stdin
                           then Some (NwNext (if eof then s2\<lparr>nw_imglen := 0\<rparr> else s2))
                           else if total_len = 0 then None
                           else Some (NwNext (s2\<lparr>nw_imglen := nw_imglen s - int (length got)\<rparr>))))"

text \<open>The OOB data of the page, if the input has some.\<close>

definition read_oob ::
  "'k kernel \<Rightarrow> mtd_dev_info \<Rightarrow> nw_args \<Rightarrow> bool \<Rightarrow> 'k nw \<Rightarrow> 'k nw nw_step"
where
  "read_oob K mtd a from_stdin s =
     (let i = nw_index s + nat (mtd_min_io_size mtd); n = nat (mtd_oob_size mtd)
      in if \<not> nw_writeoob a \<or> i + n \<le> nw_len s then NwNext s
         else
           let already = nw_len s - i
           in (case read_input K (n - already) (snd (nw_st s)) of
                 (None, eof, k) \<Rightarrow> NwFail (s\<lparr>nw_st := (fst (nw_st s), k)\<rparr>)
               | (Some got, eof, k) \<Rightarrow>
                   let s1 = s\<lparr>nw_buf := store_at (i + already) got (nw_buf s), nw_st := (fst (nw_st s), k)\<rparr>
                   in if already + length got < n then NwFail s1
                      else
                        let s2 = s1\<lparr>nw_len := nw_len s + (n - already)\<rparr>
                        in NwNext
                             (if from_stdin then (if eof then s2\<lparr>nw_imglen := 0\<rparr> else s2)
                              else s2\<lparr>nw_imglen := nw_imglen s - int (length got)\<rparr>)))"

subsection \<open>Writing\<close>

text \<open>Erasing the aligned block again after a failed write; \<open>False\<close> is the error exit.\<close>

function erase_again ::
  "'k kernel \<Rightarrow> mtd_dev_info \<Rightarrow> int \<Rightarrow> int \<Rightarrow> 'k st \<Rightarrow> bool \<times> 'k st"
where
  "erase_again K mtd i last_off st =
     (if i \<ge> last_off \<or> mtd_eb_size mtd \<le> 0 then (True, st)
      else
        (case mtd_erase K mtd (c_int (c_div i (mtd_eb_size mtd))) st of
           (e, st1) \<Rightarrow>
             if e \<noteq> None \<and> e \<noteq> Some EIO then (False, st1)
             else erase_again K mtd (i + mtd_eb_size mtd) last_off st1))"
  by pat_completeness auto

termination erase_again
  by (relation "measure (\<lambda>(K, mtd, i, last_off, st). nat (last_off - i))") auto

declare erase_again.simps [simp del]

definition write_mode :: "nw_args \<Rightarrow> int" where
  "write_mode a =
     (if nw_noecc a then MTD_OPS_RAW else if nw_autoplace a then MTD_OPS_AUTO_OOB else MTD_OPS_PLACE_OOB)"

text \<open>After an I/O error: the block is erased, the page's eraseblock marked bad where asked for, and the
  aligned block is tried again from the buffer at the next place.\<close>

definition rewind_block ::
  "'k kernel \<Rightarrow> mtd_dev_info \<Rightarrow> nw_args \<Rightarrow> int \<Rightarrow> 'k nw \<Rightarrow> 'k nw nw_step"
where
  "rewind_block K mtd a ebs s =
     (case erase_again K mtd (nw_blockstart s) (nw_blockstart s + ebs) (nw_st s) of
        (ok, st1) \<Rightarrow>
          let s1 = s\<lparr>nw_pos := Some 0, nw_st := st1\<rparr>
          in if \<not> ok then NwFail s1
             else if \<not> nw_markbad a then NwNext (s1\<lparr>nw_off := nw_blockstart s + ebs\<rparr>)
             else
               (case mtd_mark_bad K mtd (c_int (c_div (nw_off s) (mtd_eb_size mtd))) st1 of
                  (Some e, st2) \<Rightarrow> NwFail (s1\<lparr>nw_st := st2\<rparr>)
                | (None, st2) \<Rightarrow> NwNext (s1\<lparr>nw_st := st2, nw_off := nw_blockstart s + ebs\<rparr>)))"

definition write_page ::
  "'k kernel \<Rightarrow> mtd_dev_info \<Rightarrow> nw_args \<Rightarrow> int \<Rightarrow> int \<Rightarrow> 'k nw \<Rightarrow> 'k nw nw_step option"
where
  "write_page K mtd a ebs pagelen s =
     (if mtd_eb_size mtd = 0 then None
      else
        let i = nw_index s; io = nat (mtd_min_io_size mtd); n = nat (mtd_oob_size mtd);
            page = take io (drop i (nw_buf s)); oob = take n (drop (i + io) (nw_buf s))
        in do {
             (e, st1) \<leftarrow> mtd_write K mtd (c_int (c_div (nw_off s) (mtd_eb_size mtd)))
                           (c_int (c_mod (nw_off s) (mtd_eb_size mtd)))
                           (if nw_onlyoob a then None else Some page) (if nw_onlyoob a then 0 else io)
                           (if nw_writeoob a then Some oob else None) (write_mode a) (nw_st s);
             let s1 = s\<lparr>nw_st := st1\<rparr>;
             case e of
               None \<Rightarrow> Some (NwNext (s1\<lparr>nw_off := nw_off s + mtd_min_io_size mtd,
                                      nw_pos := Some (i + nat pagelen)\<rparr>))
             | Some err \<Rightarrow> Some (if err \<noteq> EIO then NwFail s1 else rewind_block K mtd a ebs s1)
           })"

subsection \<open>The main loop\<close>

definition nw_more :: "mtd_dev_info \<Rightarrow> 'k nw \<Rightarrow> bool" where
  "nw_more mtd s \<longleftrightarrow>
     (nw_imglen s > 0 \<or> (case nw_pos s of None \<Rightarrow> True | Some i \<Rightarrow> i < nw_len s)) \<and> nw_off s < mtd_size mtd"

definition nw_body ::
  "'k kernel \<Rightarrow> mtd_dev_info \<Rightarrow> nw_args \<Rightarrow> bool \<Rightarrow> int \<Rightarrow> int \<Rightarrow> int \<Rightarrow> 'k nw \<Rightarrow> 'k nw nw_step option"
where
  "nw_body K mtd a from_stdin total_len ebs pagelen s = do {
     (ok, s1) \<leftarrow> new_block K mtd a ebs s;
     if \<not> ok then Some (NwFail s1)
     else do {
       p \<leftarrow> read_page K mtd a from_stdin total_len s1;
       case p of
         NwBreak s2 \<Rightarrow> Some (NwBreak s2)
       | NwFail s2 \<Rightarrow> Some (NwFail s2)
       | NwNext s2 \<Rightarrow>
           (case read_oob K mtd a from_stdin s2 of
              NwNext s3 \<Rightarrow> write_page K mtd a ebs pagelen s3
            | r \<Rightarrow> Some r)
     }
   }"

text \<open>The flag tells whether the loop was left without an error.\<close>

partial_function (option) nw_loop ::
  "'k kernel \<Rightarrow> mtd_dev_info \<Rightarrow> nw_args \<Rightarrow> bool \<Rightarrow> int \<Rightarrow> int \<Rightarrow> int \<Rightarrow> 'k nw \<Rightarrow> (bool \<times> 'k nw) option"
where
  "nw_loop K mtd a from_stdin total_len ebs pagelen s =
     (if \<not> nw_more mtd s then Some (True, s)
      else do {
        r \<leftarrow> nw_body K mtd a from_stdin total_len ebs pagelen s;
        case r of
          NwNext s1 \<Rightarrow> nw_loop K mtd a from_stdin total_len ebs pagelen s1
        | NwBreak s1 \<Rightarrow> Some (True, s1)
        | NwFail s1 \<Rightarrow> Some (False, s1)
      })"

subsection \<open>The program\<close>

record nw_env =
  nwe_libmtd :: bool
  nwe_opens :: bool
  nwe_mtd :: "mtd_dev_info option"

text \<open>
  Opening the input and its length: \<open>Inr\<close> the two lengths, \<open>Inl\<close> for the error exit.
\<close>

definition open_input :: "'k kernel \<Rightarrow> nw_args \<Rightarrow> int \<Rightarrow> 'k \<Rightarrow> (unit + int \<times> int) \<times> 'k" where
  "open_input K a pagelen k =
     (if nw_img a = ''-'' then
        (if nw_inputskip a \<noteq> 0 then (Inl (), k)
         else (Inr (if nw_inputsize a \<noteq> 0 then nw_inputsize a else pagelen, 1), k))
      else
        (case k_img_open K k of
           (Some e, k1) \<Rightarrow> (Inl (), k1)
         | (None, k1) \<Rightarrow>
             (case (if nw_inputsize a = 0
                    then (case k_img_stat K k1 of
                            (Inl e, k2) \<Rightarrow> (Inl (), k2)
                          | (Inr n, k2) \<Rightarrow> (Inr (n - nw_inputskip a, n - nw_inputskip a), k2))
                    else (Inr (nw_inputsize a, 1), k1)) of
                (Inl u, k2) \<Rightarrow> (Inl u, k2)
              | (Inr lens, k2) \<Rightarrow>
                  if nw_inputskip a = 0 then (Inr lens, k2)
                  else
                    (case k_img_lseek K (nw_inputskip a) k2 of
                       (Some e, k3) \<Rightarrow> (Inl (), k3)
                     | (None, k3) \<Rightarrow> (Inr lens, k3)))))"

text \<open>The checks of the length and the loop; the result tells whether there was no error.\<close>

definition nandwrite_run ::
  "'k kernel \<Rightarrow> mtd_dev_info \<Rightarrow> nw_args \<Rightarrow> 'k st \<Rightarrow> (bool \<times> 'k st) option"
where
  "nandwrite_run K mtd a st =
     (let ebs = c_int (mtd_eb_size mtd * nw_blockalign a);
          pagelen = mtd_min_io_size mtd + (if nw_writeoob a then mtd_oob_size mtd else 0)
      in case open_input K a pagelen (snd st) of
           (Inl u, k) \<Rightarrow> Some (False, fst st, k)
         | (Inr (imglen, total_len), k) \<Rightarrow>
             if pagelen = 0 \<or> mtd_min_io_size mtd = 0 then None
             else if \<not> nw_pad a \<and> c_mod imglen pagelen \<noteq> 0 then Some (False, fst st, k)
             else if c_div imglen pagelen * mtd_min_io_size mtd > mtd_size mtd - nw_mtdoffset a
             then Some (False, fst st, k)
             else do {
               (ok, s) \<leftarrow> nw_loop K mtd a (nw_img a = ''-'') total_len ebs pagelen
                 \<lparr>nw_off = nw_mtdoffset a, nw_imglen = imglen,
                  nw_buf = replicate (nat (c_uint (c_div ebs (mtd_min_io_size mtd) * pagelen))) 0xFF,
                  nw_len = 0, nw_pos = None, nw_blockstart = -1, nw_st = (fst st, k)\<rparr>;
               Some (ok, nw_st s)
             })"

datatype nw_outcome = NwReturns int | NwExits int

text \<open>
  \<^verbatim>\<open>nandwrite_main\<close> with the options earlier calls left. Once the input is opened, the return value
  is \<^verbatim>\<open>EXIT_SUCCESS\<close>, whether or not there was an error.
\<close>

definition nandwrite_main ::
  "'k kernel \<Rightarrow> nw_env \<Rightarrow> string list \<Rightarrow> nw_args \<Rightarrow> 'k st \<Rightarrow> (nw_outcome \<times> nw_args \<times> 'k st) option"
where
  "nandwrite_main K env argv a0 st =
     (case process_options argv a0 of
        Inl n \<Rightarrow> Some (NwExits n, a0, st)
      | Inr a \<Rightarrow>
          if \<not> nwe_opens env \<or> \<not> nwe_libmtd env then Some (NwReturns (-1), a, st)
          else
            (case nwe_mtd env of
               None \<Rightarrow> Some (NwReturns (-1), a, st)
             | Some mtd \<Rightarrow>
                 if nw_mtdoffset a AND (mtd_min_io_size mtd - 1) \<noteq> 0 then Some (NwReturns (-1), a, st)
                 else
                   (case (if nw_noecc a then k_mtdfilemode_raw K (snd st) else (None, snd st)) of
                      (Some e, k) \<Rightarrow> Some (NwReturns (-1), a, fst st, k)
                    | (None, k) \<Rightarrow> do {
                        (ok, st1) \<leftarrow> nandwrite_run K mtd a (fst st, k);
                        Some (NwReturns 0, a, st1)
                      })))"

end
