(* ===== verification/NandPages.thy ===== *)
theory NandPages
  imports FlashErase Nandwrite EraseblockFrame
begin

text \<open>
  A NAND device on which nothing fails, page by page: what \<^verbatim>\<open>flash_erase\<close> and \<^verbatim>\<open>nandwrite\<close> rely on.
\<close>

subsection \<open>The device\<close>

text \<open>
  Reading the input: at most as many bytes as asked for, none at its end only; the rest \<open>obs\<close> of
  the state stays.
\<close>

definition reads_input :: "'k kernel \<Rightarrow> ('k \<Rightarrow> 'a) \<Rightarrow> ('k \<Rightarrow> byte list) \<Rightarrow> bool" where
  "reads_input K obs img \<longleftrightarrow>
     (\<forall>k n. 0 < n \<longrightarrow>
        (\<exists>d k'. k_img_read K n k = (Bytes d, k') \<and> (d = [] \<longleftrightarrow> img k = []) \<and> length d \<le> n
           \<and> img k = d @ img k' \<and> obs k' = obs k))"

text \<open>
  \<open>good\<close> are the eraseblocks the driver does not report as bad; \<open>mem\<close> reads the contents of an
  eraseblock, \<open>img\<close> what is left of the input. Writing stores bytes where the eraseblock is erased.
\<close>

definition page_nand ::
  "'k kernel \<Rightarrow> mtd_dev_info \<Rightarrow> int set \<Rightarrow> ('k \<Rightarrow> int \<Rightarrow> byte list) \<Rightarrow> ('k \<Rightarrow> byte list) \<Rightarrow> bool" where
  "page_nand K mtd good mem img \<longleftrightarrow>
     mtd_bb_allowed mtd
     \<and> (\<forall>k eb. in_block mtd eb \<longrightarrow>
          (\<exists>k'. k_getbadblock K (eb * mtd_eb_size mtd) k = (Inr (if eb \<in> good then 0 else 1), k')
             \<and> mem k' = mem k \<and> img k' = img k))
     \<and> (\<forall>k. \<forall>eb \<in> good. in_block mtd eb \<longrightarrow>
          (\<exists>k'. k_memerase64 K (word_of_int (eb * mtd_eb_size mtd)) (word_of_int (mtd_eb_size mtd)) k = (None, k')
             \<and> mem k' = (mem k)(eb := replicate (nat (mtd_eb_size mtd)) 0xFF) \<and> img k' = img k))
     \<and> (\<forall>k d offs. \<forall>eb \<in> good. in_block mtd eb \<longrightarrow> offs + length d \<le> nat (mtd_eb_size mtd)
          \<longrightarrow> take (length d) (drop offs (mem k eb)) = replicate (length d) 0xFF \<longrightarrow>
          (\<exists>k1 k2. k_lseek K (eb * mtd_eb_size mtd + int offs) k = (eb * mtd_eb_size mtd + int offs, k1)
             \<and> k_write K d k1 = (Inr (int (length d)), k2)
             \<and> mem k2 = (mem k)(eb := store_at offs d (mem k eb)) \<and> img k2 = img k))
     \<and> reads_input K mem img"

lemma page_nand_is_bad:
  assumes "page_nand K mtd good mem img" "in_block mtd eb"
  shows "\<exists>k'. mtd_is_bad K mtd eb st = (Inr (if eb \<in> good then 0 else 1), fst st, k')
    \<and> mem k' = mem (snd st) \<and> img k' = img (snd st)"
proof -
  have "mtd_bb_allowed mtd"
    using assms(1) unfolding page_nand_def by (elim conjE)
  moreover obtain k' where "k_getbadblock K (eb * mtd_eb_size mtd) (snd st) = (Inr (if eb \<in> good then 0 else 1), k')"
    "mem k' = mem (snd st)" "img k' = img (snd st)"
    using assms unfolding page_nand_def by blast
  ultimately show ?thesis
    using assms(2) by (simp add: mtd_is_bad_def)
qed

lemma page_nand_erase:
  assumes "page_nand K mtd good mem img" "eb \<in> good" "in_block mtd eb" "fst st \<noteq> OFFS64_IOCTLS_NOT_SUPPORTED"
  shows "\<exists>k'. mtd_erase K mtd eb st = (None, fst st, k')
    \<and> mem k' = (mem (snd st))(eb := replicate (nat (mtd_eb_size mtd)) 0xFF) \<and> img k' = img (snd st)"
proof -
  obtain k' where k': "k_memerase64 K (word_of_int (eb * mtd_eb_size mtd)) (word_of_int (mtd_eb_size mtd)) (snd st)
      = (None, k')" "mem k' = (mem (snd st))(eb := replicate (nat (mtd_eb_size mtd)) 0xFF)" "img k' = img (snd st)"
    using assms(1-3) unfolding page_nand_def by blast
  have "fst st = OFFS64_IOCTLS_SUPPORTED \<or> fst st = OFFS64_IOCTLS_UNKNOWN"
    using assms(4) by (cases "fst st") auto
  then show ?thesis
    using k' assms(3) by (cases st) (auto simp: mtd_erase_def Let_def simp del: of_int_mult)
qed

text \<open>A write without OOB data is a seek and a write.\<close>

lemma mtd_write_plain:
  assumes "in_block mtd eb" "int offs + int (length d) \<le> mtd_eb_size mtd"
    and "0 < mtd_subpage_size mtd" "int offs mod mtd_subpage_size mtd = 0" "int (length d) mod mtd_subpage_size mtd = 0"
    and "k_lseek K (eb * mtd_eb_size mtd + int offs) (snd st) = (eb * mtd_eb_size mtd + int offs, k1)"
    and "k_write K d k1 = (r, k2)" "\<And>n. r = Inr n \<Longrightarrow> n = int (length d)"
  shows "mtd_write K mtd eb (int offs) (Some d) (length d) None mode st =
    Some (case r of Inl e \<Rightarrow> Some e | Inr n \<Rightarrow> None, fst st, k2)"
  using assms by (cases r) (auto simp: mtd_write_def mtd_write_data_def Let_def)

lemma read_input_reads:
  assumes "reads_input K obs img"
  shows "\<exists>eof k'. read_input K n k = (Some (take n (img k)), eof, k')
    \<and> img k' = drop n (img k) \<and> obs k' = obs k"
proof (induction n arbitrary: k rule: less_induct)
  case (less n)
  show ?case
  proof (cases "n = 0")
    case True
    then show ?thesis
      by (auto simp: read_input.simps)
  next
    case False
    then obtain d k1 where r: "k_img_read K n k = (Bytes d, k1)" "d = [] \<longleftrightarrow> img k = []" "length d \<le> n"
      "img k = d @ img k1" "obs k1 = obs k"
      using assms unfolding reads_input_def by (elim allE [of _ k] allE [of _ n]) blast
    show ?thesis
    proof (cases "d = []")
      case True
      then have "img k = []" "img k1 = []"
        using r(2,4) by (simp_all only: append_Nil simp_thms)
      then show ?thesis
        using True False r(1,5) by (auto simp: read_input.simps [of K n])
    next
      case ne: False
      then obtain eof k2 where "read_input K (n - length d) k1 = (Some (take (n - length d) (img k1)), eof, k2)"
        "img k2 = drop (n - length d) (img k1)" "obs k2 = obs k1"
        using less [of "n - length d" k1] False by (auto simp: not_le)
      then show ?thesis
        using False ne r(1,3,5) by (simp add: read_input.simps [of K n] r(4))
    qed
  qed
qed

subsection \<open>Erasing\<close>

text \<open>The contents after erasing the good eraseblocks of a list.\<close>

definition erased :: "int set \<Rightarrow> nat \<Rightarrow> int list \<Rightarrow> (int \<Rightarrow> byte list) \<Rightarrow> int \<Rightarrow> byte list" where
  "erased good sz ebs m = (\<lambda>eb. if eb \<in> set ebs \<and> eb \<in> good then replicate sz 0xFF else m eb)"

lemma erase_step_good:
  assumes "page_nand K mtd good mem img" "in_block mtd eb" "fst st \<noteq> OFFS64_IOCTLS_NOT_SUPPORTED"
    and "\<not> fe_unlock f" "mtd_eb_cnt mtd < 2 ^ 31"
  shows "\<exists>k'. erase_step K mtd f NoMarker False eb st = (Some False, fst st, k')
    \<and> mem k' = erased good (nat (mtd_eb_size mtd)) [eb] (mem (snd st)) \<and> img k' = img (snd st)"
proof -
  have eb: "c_int eb = eb"
    using assms(2,5) by (intro c_int_id) (auto simp: in_block_def)
  obtain k1 where b: "mtd_is_bad K mtd eb st = (Inr (if eb \<in> good then 0 else 1), fst st, k1)"
    "mem k1 = mem (snd st)" "img k1 = img (snd st)"
    using page_nand_is_bad [OF assms(1,2), of st] by blast
  show ?thesis
  proof (cases "eb \<in> good")
    case False
    then show ?thesis
      using b eb by (auto simp: erase_step_def erased_def Let_def)
  next
    case True
    then obtain k2 where "mtd_erase K mtd eb (fst st, k1) = (None, fst st, k2)"
      "mem k2 = (mem k1)(eb := replicate (nat (mtd_eb_size mtd)) 0xFF)" "img k2 = img k1"
      using page_nand_erase [OF assms(1) _ assms(2), of "(fst st, k1)"] assms(3) by auto
    then show ?thesis
      using b eb True assms(4) by (auto simp: erase_step_def erased_def write_marker_def Let_def)
  qed
qed

lemma erase_loop_good:
  assumes "page_nand K mtd good mem img" "fst st \<noteq> OFFS64_IOCTLS_NOT_SUPPORTED"
    and "\<not> fe_unlock f" "mtd_eb_cnt mtd < 2 ^ 31" "\<forall>eb \<in> set ebs. in_block mtd eb"
  shows "\<exists>k'. erase_loop K mtd f NoMarker False ebs st = (True, False, fst st, k')
    \<and> mem k' = erased good (nat (mtd_eb_size mtd)) ebs (mem (snd st)) \<and> img k' = img (snd st)"
  using assms(2,5)
proof (induction ebs arbitrary: st)
  case Nil
  then show ?case
    by (cases st) (auto simp: erased_def)
next
  case (Cons eb ebs)
  obtain k1 where s: "erase_step K mtd f NoMarker False eb st = (Some False, fst st, k1)"
    "mem k1 = erased good (nat (mtd_eb_size mtd)) [eb] (mem (snd st))" "img k1 = img (snd st)"
    using erase_step_good [OF assms(1) _ Cons.prems(1) assms(3,4)] Cons.prems(2) by fastforce
  obtain k2 where "erase_loop K mtd f NoMarker False ebs (fst st, k1) = (True, False, fst st, k2)"
    "mem k2 = erased good (nat (mtd_eb_size mtd)) ebs (mem k1)" "img k2 = img k1"
    using Cons.IH [of "(fst st, k1)"] Cons.prems by auto
  then show ?case
    using s by (auto simp: erased_def)
qed

end
