(* ===== verification/EraseProps.thy ===== *)
theory EraseProps
  imports NandPages PerfectNand
begin

text \<open>Properties of \<^verbatim>\<open>flash_erase\<close> as ofgwrite calls it.\<close>

lemma strto_zero: "simple_strtoull ''0'' = (0, False)" "simple_strtoul ''0'' = (0, False)"
  by code_simp+

lemma plain_args:
  "\<not> prefix ''-'' dev \<Longrightarrow> getopt_long fe_short fe_long [dev, ''0'', ''0''] = ([], [dev, ''0'', ''0''])"
  by (rule getopt_long_plain) (simp del: getopt_long.simps)

subsection \<open>A device with bad eraseblocks\<close>

definition holey_kernel :: "int \<Rightarrow> int set \<Rightarrow> pnand kernel" where
  "holey_kernel sz B =
     (perfect_kernel sz)\<lparr>k_getbadblock := (\<lambda>seek s. (Inr (if seek div sz \<in> B then 1 else 0), s))\<rparr>"

lemma program_erased_part:
  assumes "take (length d) (drop offs old) = replicate (length d) 0xFF"
  shows "ns_program offs d old = store_at offs d old"
proof -
  have "map2 (AND) d (drop offs old) = map2 (AND) d (take (length d) (drop offs old))"
    by (rule nth_equalityI) auto
  also have "\<dots> = d"
    unfolding assms by (rule map2_and_ff) simp
  finally show ?thesis
    by (simp add: ns_program_def store_at_def)
qed

lemma holey_page_nand:
  assumes "0 < sz" "cnt * sz < 2 ^ 64"
  shows "page_nand (holey_kernel sz B) (nand_mtd cnt sz io) (- B) pn_mem pn_img"
proof -
  note addr = erase_address [OF assms]
  have upd: "(\<lambda>x. if x = (eb * sz + int offs) div sz
        then ns_program (nat ((eb * sz + int offs) mod sz)) d (m ((eb * sz + int offs) div sz)) else m x)
      = (\<lambda>x. if x = eb then store_at offs d (m eb) else m x)"
    if "offs + length d \<le> nat sz" "take (length d) (drop offs (m eb)) = replicate (length d) 0xFF"
    for eb offs and d :: "byte list" and m
  proof (cases "d = []")
    case True
    then show ?thesis
      by (auto simp: ns_program_def store_at_def)
  next
    case False
    then have "int offs < sz"
      using that by (cases d) auto
    then have "(eb * sz + int offs) div sz = eb" "nat ((eb * sz + int offs) mod sz) = offs"
      using assms(1) by simp_all
    then show ?thesis
      using program_erased_part [OF that(2)] by auto
  qed
  show ?thesis
    unfolding page_nand_def
    using addr assms
    apply (auto simp: holey_kernel_def perfect_kernel_def reads_input_def fun_upd_def
        simp del: of_int_mult div_mult_self3 mod_mult_self3)
    subgoal for k d offs eb
      using upd [of offs d "pn_mem k" eb] by (simp cong: if_cong del: div_mult_self3 mod_mult_self3)
    done
qed

text \<open>The description of a device that its eraseblocks make up.\<close>

definition whole_device :: "mtd_dev_info \<Rightarrow> bool" where
  "whole_device mtd \<longleftrightarrow> 0 < mtd_eb_size mtd \<and> 0 < mtd_eb_cnt mtd \<and> mtd_eb_cnt mtd < 2 ^ 31
     \<and> mtd_size mtd = mtd_eb_cnt mtd * mtd_eb_size mtd"

lemma flash_erase_runs:
  assumes "page_nand K mtd good mem img" "whole_device mtd" "fst st \<noteq> OFFS64_IOCTLS_NOT_SUPPORTED"
    and "fee_libmtd env" "fee_opens env" "fee_mtd env = Some mtd" "\<not> prefix ''-'' dev"
    and "\<not> fe_jffs2 f" "\<not> fe_noskipbad f" "\<not> fe_unlock f"
  shows "\<exists>k'. flash_erase_main K env nh [dev, ''0'', ''0''] f st = Some (0, f, fst st, k')
    \<and> mem k' = (\<lambda>eb. if in_block mtd eb \<and> eb \<in> good then replicate (nat (mtd_eb_size mtd)) 0xFF else mem (snd st) eb)
    \<and> img k' = img (snd st)"
proof -
  have geo: "0 < mtd_eb_size mtd" "0 < mtd_eb_cnt mtd" "mtd_eb_cnt mtd < 2 ^ 31"
    "mtd_size mtd div mtd_eb_size mtd = mtd_eb_cnt mtd"
    using assms(2) by (auto simp: whole_device_def)
  obtain k' where l: "erase_loop K mtd f NoMarker False [0..mtd_eb_cnt mtd - 1] st = (True, False, fst st, k')"
    "mem k' = erased good (nat (mtd_eb_size mtd)) [0..mtd_eb_cnt mtd - 1] (mem (snd st))" "img k' = img (snd st)"
    using erase_loop_good [OF assms(1,3,10) geo(3), of "[0..mtd_eb_cnt mtd - 1]"]
    by (auto simp: in_block_def)
  have "erase_range K f mtd NoMarker 0 0 st = Some (0, f, fst st, k')"
    using geo l(1) assms(9) by (simp add: erase_range_def)
  then have "flash_erase_main K env nh [dev, ''0'', ''0''] f st = Some (0, f, fst st, k')"
    using assms(4-6,8) geo(1) by (simp add: flash_erase_main_def plain_args [OF assms(7)] strto_zero choose_marker_def del: getopt_long.simps)
  moreover have "mem k' = (\<lambda>eb. if in_block mtd eb \<and> eb \<in> good then replicate (nat (mtd_eb_size mtd)) 0xFF
      else mem (snd st) eb)"
    unfolding l(2) by (auto simp: erased_def in_block_def)
  ultimately show ?thesis
    using l(3) by blast
qed

text \<open>
  Property C8. \<^verbatim>\<open>flash_erase\<close> with offset and count 0 erases every eraseblock the driver does not
  report as bad, and changes no other.
\<close>

theorem flash_erase_exact:
  assumes "page_nand K mtd good mem img" "whole_device mtd" "fst st \<noteq> OFFS64_IOCTLS_NOT_SUPPORTED"
    and "fee_libmtd env" "fee_opens env" "fee_mtd env = Some mtd" "\<not> prefix ''-'' dev"
    and "\<not> fe_jffs2 f" "\<not> fe_noskipbad f" "\<not> fe_unlock f"
  shows "\<exists>k'. flash_erase_main K env node_head [dev, ''0'', ''0''] f st = Some (0, f, fst st, k')
    \<and> mem k' = (\<lambda>eb. if in_block mtd eb \<and> eb \<in> good then replicate (nat (mtd_eb_size mtd)) 0xFF else mem (snd st) eb)
    \<and> img k' = img (snd st)"
  using assms by (rule flash_erase_runs)

text \<open>A device of four eraseblocks, the third of them bad.\<close>

abbreviation small_nand :: "pnand kernel" where
  "small_nand \<equiv> holey_kernel 128 {2}"

abbreviation small_mtd :: mtd_dev_info where
  "small_mtd \<equiv> nand_mtd 4 128 32"

definition small_env :: fe_env where
  "small_env = \<lparr>fee_libmtd = True, fee_opens = True, fee_mtd = Some small_mtd\<rparr>"

definition small_state :: "byte list \<Rightarrow> pnand" where
  "small_state input = \<lparr>pn_mem = (\<lambda>eb. replicate 128 0), pn_pos = 0, pn_img = input\<rparr>"

lemma small_page_nand: "page_nand small_nand small_mtd (- {2}) pn_mem pn_img"
  by (rule holey_page_nand) simp_all

theorem flash_erase_exact_witness:
  "\<exists>k'. flash_erase_main small_nand small_env [] [''/dev/mtd3'', ''0'', ''0''] fe_initial
      (OFFS64_IOCTLS_SUPPORTED, small_state []) = Some (0, fe_initial, OFFS64_IOCTLS_SUPPORTED, k')
    \<and> pn_mem k' 1 = replicate 128 0xFF \<and> pn_mem k' 2 = replicate 128 0"
proof -
  have "\<exists>k'. flash_erase_main small_nand small_env [] [''/dev/mtd3'', ''0'', ''0''] fe_initial
      (OFFS64_IOCTLS_SUPPORTED, small_state []) =
        Some (0, fe_initial, fst (OFFS64_IOCTLS_SUPPORTED, small_state []), k')
    \<and> pn_mem k' = (\<lambda>eb. if in_block small_mtd eb \<and> eb \<in> - {2} then replicate (nat (mtd_eb_size small_mtd)) 0xFF
        else pn_mem (snd (OFFS64_IOCTLS_SUPPORTED, small_state [])) eb)
    \<and> pn_img k' = pn_img (snd (OFFS64_IOCTLS_SUPPORTED, small_state []))"
    by (rule flash_erase_exact [OF small_page_nand])
      (simp_all add: whole_device_def small_env_def fe_initial_def)
  then show ?thesis
    by (auto simp: in_block_def small_state_def)
qed

lemma fe_options_jffs2: "fe_jffs2 f \<Longrightarrow> fe_jffs2 (fst (fe_options os f err))"
  by (induction os f err rule: fe_options.induct) (auto split: if_splits)

lemma flash_erase_main_flags:
  assumes "flash_erase_main K env nh argv f0 st = Some (r, f, st')"
  shows "fe_jffs2 f = fe_jffs2 (fst (fe_options (fst (getopt_long fe_short fe_long argv)) f0 False))"
proof -
  obtain os pos where g: "getopt_long fe_short fe_long argv = (os, pos)"
    by (cases "getopt_long fe_short fe_long argv")
  obtain f1 err d where o: "fe_options os f0 False = (f1, err, d)"
    by (cases "fe_options os f0 False")
  then show ?thesis
    using assms g o
    by (auto simp: flash_erase_main_def erase_range_def Let_def
        split: if_splits list.splits option.splits prod.splits)
qed

lemma jffs2_args:
  "\<not> prefix ''-'' dev \<Longrightarrow>
     getopt_long fe_short fe_long [''-j'', dev, ''0'', ''0''] = ([(CHR ''j'', None, None)], [dev, ''0'', ''0''])"
  using plain_args [of dev]
  by (subst getopt_long.simps) (simp add: fe_short_def del: getopt_long.simps)

text \<open>
  The option \<^verbatim>\<open>-j\<close> of one call is still set in the next: once a JFFS2 rootfs was
  erased, every partition erased after it in the same run, such as that of the kernel, is given
  clean markers as well.
\<close>

theorem flash_erase_flags_stick:
  assumes "flash_erase_main K env1 nh [''-j'', dev, ''0'', ''0''] f0 st = Some (r1, f1, st1)" "\<not> prefix ''-'' dev"
    and "flash_erase_main K env2 nh argv f1 st1 = Some (r2, f2, st2)"
  shows "fe_jffs2 f2 \<and> fst (choose_marker K nh f2 mtd st2) \<noteq> Some NoMarker"
proof -
  have "fe_jffs2 f1"
    using flash_erase_main_flags [OF assms(1)] jffs2_args [OF assms(2)] by simp
  then have "fe_jffs2 f2"
    using flash_erase_main_flags [OF assms(3)] fe_options_jffs2 by simp
  then show ?thesis
    by (auto simp: choose_marker_def split: sum.splits prod.splits)
qed

theorem flash_erase_flags_stick_witness:
  "\<exists>r1 f1 st1 r2 f2 st2.
     flash_erase_main small_nand small_env [] [''-j'', ''/dev/mtd2'', ''0'', ''0''] fe_initial
       (OFFS64_IOCTLS_SUPPORTED, small_state []) = Some (r1, f1, st1)
     \<and> flash_erase_main small_nand small_env [] [''/dev/mtd1'', ''0'', ''0''] f1 st1 = Some (r2, f2, st2)
     \<and> fe_jffs2 f2"
proof -
  note defs = flash_erase_main_def strto_zero small_env_def fe_initial_def choose_marker_def
    holey_kernel_def perfect_kernel_def nand_mtd_def MTD_NANDFLASH_def MTD_MLCNANDFLASH_def
  obtain f1 st1 where 1: "flash_erase_main small_nand small_env [] [''-j'', ''/dev/mtd2'', ''0'', ''0''] fe_initial
       (OFFS64_IOCTLS_SUPPORTED, small_state []) = Some (-1, f1, st1)" "fe_jffs2 f1"
    using jffs2_args [of "''/dev/mtd2''"] by (simp add: defs del: getopt_long.simps)
  then obtain st2 where 2: "flash_erase_main small_nand small_env [] [''/dev/mtd1'', ''0'', ''0''] f1 st1 = Some (-1, f1, st2)"
    using plain_args [of "''/dev/mtd1''"] by (simp add: defs del: getopt_long.simps)
  then show ?thesis
    using flash_erase_flags_stick [OF 1(1) _ 2] 1 by auto
qed

end
