(* ===== verification/NandwriteProps.thy ===== *)
theory NandwriteProps
  imports EraseProps
begin

text \<open>
  Properties of \<^verbatim>\<open>nandwrite\<close>: it ends on every device, it places the image on the good eraseblocks, and
  it reports success whatever happens.
\<close>

unbundle bit_operations_syntax

subsection \<open>Geometry\<close>

text \<open>The start of the eraseblock, as the code computes it for a size that is a power of two.\<close>

lemma and_minus_power: "(x :: int) AND - (2 ^ k) = x div 2 ^ k * 2 ^ k"
proof -
  have "x AND NOT (mask k) = push_bit k (drop_bit k x)"
    by (rule bit_eqI) (auto simp: bit_simps)
  then show ?thesis
    by (simp add: minus_exp_eq_not_mask push_bit_eq_mult drop_bit_eq_div)
qed

text \<open>
  What a NAND device looks like to \<^verbatim>\<open>nandwrite\<close> with single eraseblocks: pages make up the
  eraseblocks, whose size is a power of two.
\<close>

definition paged :: "mtd_dev_info \<Rightarrow> bool" where
  "paged mtd \<longleftrightarrow> (\<exists>n. mtd_eb_size mtd = 2 ^ n \<and> n < 31) \<and> 0 < mtd_min_io_size mtd
     \<and> mtd_eb_size mtd mod mtd_min_io_size mtd = 0 \<and> 0 < mtd_subpage_size mtd
     \<and> mtd_min_io_size mtd mod mtd_subpage_size mtd = 0"

lemma paged_block:
  assumes "paged mtd"
  shows "(x :: int) AND - mtd_eb_size mtd = x div mtd_eb_size mtd * mtd_eb_size mtd"
    "0 < mtd_eb_size mtd" "mtd_eb_size mtd < 2 ^ 31"
proof -
  obtain n where n: "mtd_eb_size mtd = 2 ^ n" "n < 31"
    using assms by (auto simp: paged_def)
  then show "x AND - mtd_eb_size mtd = x div mtd_eb_size mtd * mtd_eb_size mtd" "0 < mtd_eb_size mtd"
    by (simp_all add: and_minus_power)
  show "mtd_eb_size mtd < 2 ^ 31"
    unfolding n(1) using n(2) by (rule power_strict_increasing) simp
qed

subsection \<open>The run ends\<close>

lemma div_block_le: "0 < (b :: int) \<Longrightarrow> x div b * b \<le> x" "0 < (b :: int) \<Longrightarrow> x < x div b * b + b"
  by (simp add: minus_mod_eq_div_mult [symmetric])
    (metis add.commute add_less_cancel_left div_mult_mod_eq pos_mod_bound)

text \<open>With one eraseblock per block the check is one look at it.\<close>

lemma check_blocks_one:
  assumes "0 < ebs" "nw_blockalign a = 1"
  shows "check_blocks K mtd a ebs start start False off st =
    (case mtd_is_bad K mtd (c_int (c_div start ebs)) st of
       (Inl e, st1) \<Rightarrow> Some (None, st1)
     | (Inr r, st1) \<Rightarrow>
         if r = 1 \<and> start + ebs > mtd_size mtd then Some (None, st1)
         else Some (Some (if r = 1 then start + ebs else off), st1))"
  using assms by (simp add: check_blocks.simps c_div_def Let_def split: prod.splits sum.splits)

text \<open>The state with which an aligned block is entered.\<close>

definition entered :: "int \<Rightarrow> 'k nw \<Rightarrow> 'k nw" where
  "entered start s =
     (if nw_pos s = Some 0 then s\<lparr>nw_blockstart := start\<rparr>
      else s\<lparr>nw_blockstart := start, nw_buf := store_at 0 (replicate (nw_len s) 0xFF) (nw_buf s),
             nw_len := 0, nw_pos := Some 0\<rparr>)"

lemma entered_simps [simp]:
  "nw_blockstart (entered start s) = start" "nw_off (entered start s) = nw_off s"
  "nw_st (entered start s) = nw_st s" "nw_imglen (entered start s) = nw_imglen s"
  "nw_pos (entered start s) = Some 0"
  by (simp_all add: entered_def)

lemma new_block_same: "nw_blockstart s = nw_off s AND - ebs \<Longrightarrow> new_block K mtd a ebs s = Some (True, s)"
  by (simp add: new_block.simps Let_def)

lemma new_block_enter:
  assumes "nw_blockstart s \<noteq> nw_off s AND - ebs" "0 < ebs" "nw_blockalign a = 1"
  shows "new_block K mtd a ebs s =
    (let start = nw_off s AND - ebs; s1 = entered start s
     in if nw_noskipbad a then new_block K mtd a ebs s1
        else
          (case mtd_is_bad K mtd (c_int (c_div start ebs)) (nw_st s) of
             (Inl e, st1) \<Rightarrow> Some (False, s1\<lparr>nw_st := st1\<rparr>)
           | (Inr r, st1) \<Rightarrow>
               if r = 1 \<and> start + ebs > mtd_size mtd then Some (False, s1\<lparr>nw_st := st1\<rparr>)
               else new_block K mtd a ebs
                      (s1\<lparr>nw_off := (if r = 1 then start + ebs else nw_off s), nw_st := st1\<rparr>)))"
  using assms
  by (simp add: new_block.simps [of K mtd a ebs s] check_blocks_one entered_def [symmetric] Let_def
      split: prod.splits sum.splits)

lemma round_measure: "(m :: nat) + 1 \<le> n \<Longrightarrow> \<not> q \<Longrightarrow> m * 2 + (if p then 0 else 1) < n * 2 + (if q then 0 else 1)"
  by simp

text \<open>Entering a block ends, and never goes back.\<close>

lemma new_block_ends:
  assumes "paged mtd" "nw_blockalign a = 1"
  shows "\<exists>ok s'. new_block K mtd a (mtd_eb_size mtd) s = Some (ok, s')
    \<and> (ok \<longrightarrow> nw_off s \<le> nw_off s' \<and> nw_blockstart s' = nw_off s' AND - mtd_eb_size mtd)"
proof (induction "nat (mtd_size mtd + 2 * mtd_eb_size mtd - nw_off s) * 2
    + (if nw_blockstart s = nw_off s AND - mtd_eb_size mtd then 0 else 1)" arbitrary: s rule: less_induct)
  case less
  let ?e = "mtd_eb_size mtd"
  let ?start = "nw_off s AND - ?e"
  have e: "0 < ?e" and start: "?start = nw_off s div ?e * ?e"
    using paged_block [OF assms(1)] by simp_all
  have next_off: "nw_off s < ?start + ?e"
    unfolding start using div_block_le(2) [OF e] .
  show ?case
  proof (cases "nw_blockstart s = ?start")
    case True
    then show ?thesis
      by (auto simp: new_block_same)
  next
    case False
    obtain r st1 where b: "mtd_is_bad K mtd (c_int (c_div ?start ?e)) (nw_st s) = (r, st1)"
      by (cases "mtd_is_bad K mtd (c_int (c_div ?start ?e)) (nw_st s)")
    have skip: "\<exists>ok s'. new_block K mtd a ?e (entered ?start s\<lparr>nw_off := ?start + ?e, nw_st := st\<rparr>) = Some (ok, s')
        \<and> (ok \<longrightarrow> nw_off s \<le> nw_off s' \<and> nw_blockstart s' = nw_off s' AND - ?e)"
      if "?start + ?e \<le> mtd_size mtd" for st
    proof -
      have "\<exists>ok s'. new_block K mtd a ?e (entered ?start s\<lparr>nw_off := ?start + ?e, nw_st := st\<rparr>) = Some (ok, s')
        \<and> (ok \<longrightarrow> ?start + ?e \<le> nw_off s' \<and> nw_blockstart s' = nw_off s' AND - ?e)"
        (is "\<exists>ok s'. new_block K mtd a ?e ?n = _ \<and> _")
      proof -
        have "nat (mtd_size mtd + 2 * ?e - (?start + ?e)) + 1 \<le> nat (mtd_size mtd + 2 * ?e - nw_off s)"
          using that next_off e by linarith
        then have "nat (mtd_size mtd + 2 * ?e - nw_off ?n) * 2 + (if nw_blockstart ?n = nw_off ?n AND - ?e then 0 else 1)
            < nat (mtd_size mtd + 2 * ?e - nw_off s) * 2 + (if nw_blockstart s = ?start then 0 else 1)"
          using False by (intro round_measure) simp_all
        then show ?thesis
          using less [of ?n] by simp
      qed
      then obtain ok s' where "new_block K mtd a ?e ?n = Some (ok, s')"
        "ok \<longrightarrow> ?start + ?e \<le> nw_off s' \<and> nw_blockstart s' = nw_off s' AND - ?e"
        by blast
      then show ?thesis
        using next_off by (intro exI [of _ ok] exI [of _ s']) auto
    qed
    note enter = new_block_enter [OF False e assms(2), of K mtd, unfolded Let_def b prod.case]
    show ?thesis
    proof (cases "nw_noskipbad a")
      case True
      then show ?thesis
        by (auto simp: enter new_block_same)
    next
      case no: False
      show ?thesis
      proof (cases r)
        case (Inl err)
        then show ?thesis
          using no by (auto simp: enter)
      next
        case (Inr bad)
        then show ?thesis
          using no skip [of st1] by (cases "bad = 1"; cases "?start + ?e \<le> mtd_size mtd") (auto simp: enter new_block_same)
      qed
    qed
  qed
qed

text \<open>Reading and writing move the offset forward, or leave the loop.\<close>

lemma read_page_ends:
  assumes "from_stdin \<or> n \<noteq> 0"
  shows "\<exists>r. read_page K mtd a from_stdin n s = Some r
    \<and> (\<forall>s'. r = NwNext s' \<longrightarrow> nw_off s' = nw_off s \<and> nw_blockstart s' = nw_blockstart s)"
  using assms by (auto simp: read_page_def Let_def split: prod.splits option.splits)

lemma read_oob_keeps:
  "read_oob K mtd a from_stdin s = NwNext s' \<Longrightarrow> nw_off s' = nw_off s \<and> nw_blockstart s' = nw_blockstart s"
  by (auto simp: read_oob_def Let_def split: prod.splits option.splits if_splits)

lemma mtd_write_ends: "mtd_subpage_size mtd \<noteq> 0 \<Longrightarrow> \<exists>r. mtd_write K mtd eb offs d n oob mode st = Some r"
  by (auto simp: mtd_write_def Let_def split: option.splits prod.splits sum.splits bool.splits)

lemma rewind_block_off:
  "rewind_block K mtd a ebs s = NwNext s' \<Longrightarrow> nw_off s' = nw_blockstart s + ebs"
  by (auto simp: rewind_block_def Let_def split: prod.splits if_splits option.splits)

lemma write_page_ends:
  assumes "paged mtd"
  shows "\<exists>r. write_page K mtd a ebs pagelen s = Some r
    \<and> (\<forall>s'. r = NwNext s' \<longrightarrow> nw_off s' = nw_off s + mtd_min_io_size mtd \<or> nw_off s' = nw_blockstart s + ebs)"
proof -
  let ?w = "mtd_write K mtd (c_int (c_div (nw_off s) (mtd_eb_size mtd))) (c_int (c_mod (nw_off s) (mtd_eb_size mtd)))
     (if nw_onlyoob a then None else Some (take (nat (mtd_min_io_size mtd)) (drop (nw_index s) (nw_buf s))))
     (if nw_onlyoob a then 0 else nat (mtd_min_io_size mtd))
     (if nw_writeoob a then Some (take (nat (mtd_oob_size mtd))
        (drop (nw_index s + nat (mtd_min_io_size mtd)) (nw_buf s))) else None) (write_mode a) (nw_st s)"
  obtain e st1 where w: "?w = Some (e, st1)"
    using mtd_write_ends [of mtd] assms unfolding paged_def by (metis less_irrefl surj_pair)
  have "mtd_eb_size mtd \<noteq> 0"
    using paged_block(2) [OF assms] by simp
  then show ?thesis
    using w by (auto simp: write_page_def Let_def split: option.splits dest: rewind_block_off)
qed

lemma nw_body_ends:
  assumes "paged mtd" "nw_blockalign a = 1" "from_stdin \<or> n \<noteq> 0"
  shows "\<exists>r. nw_body K mtd a from_stdin n (mtd_eb_size mtd) pagelen s = Some r
    \<and> (\<forall>s'. r = NwNext s' \<longrightarrow> nw_off s < nw_off s')"
proof -
  let ?e = "mtd_eb_size mtd"
  have io: "0 < mtd_min_io_size mtd"
    using assms(1) by (simp add: paged_def)
  obtain ok s1 where b: "new_block K mtd a ?e s = Some (ok, s1)"
    "ok \<Longrightarrow> nw_off s \<le> nw_off s1" "ok \<Longrightarrow> nw_blockstart s1 = nw_off s1 AND - ?e"
    using new_block_ends [OF assms(1,2)] by blast
  obtain p where p: "read_page K mtd a from_stdin n s1 = Some p"
    "\<And>s'. p = NwNext s' \<Longrightarrow> nw_off s' = nw_off s1 \<and> nw_blockstart s' = nw_blockstart s1"
    using read_page_ends [OF assms(3)] by blast
  have w: "\<exists>r. write_page K mtd a ?e pagelen s3 = Some r \<and> (\<forall>s'. r = NwNext s' \<longrightarrow> nw_off s < nw_off s')"
    if "ok" "nw_off s3 = nw_off s1" "nw_blockstart s3 = nw_blockstart s1" for s3
  proof -
    have "nw_off s3 < nw_blockstart s3 + ?e"
      using that b(3) paged_block(1) [OF assms(1)] div_block_le(2) [OF paged_block(2) [OF assms(1)]] by simp
    moreover obtain r where "write_page K mtd a ?e pagelen s3 = Some r"
      "\<And>s'. r = NwNext s' \<Longrightarrow> nw_off s' = nw_off s3 + mtd_min_io_size mtd \<or> nw_off s' = nw_blockstart s3 + ?e"
      using write_page_ends [OF assms(1)] by blast
    ultimately show ?thesis
      using that(1,2) b(2) io by (intro exI [of _ r]) force
  qed
  show ?thesis
  proof (cases "\<exists>s2 s3. ok \<and> p = NwNext s2 \<and> read_oob K mtd a from_stdin s2 = NwNext s3")
    case True
    then obtain s2 s3 where r: "ok" "p = NwNext s2" "read_oob K mtd a from_stdin s2 = NwNext s3"
      by blast
    then show ?thesis
      using w [OF r(1), of s3] p(1) p(2) [OF r(2)] read_oob_keeps [OF r(3)] b(1)
      by (simp add: nw_body_def)
  next
    case False
    then show ?thesis
      using b(1) p(1)
      by (cases ok; cases p; cases "read_oob K mtd a from_stdin (case p of NwNext s2 \<Rightarrow> s2)")
        (auto simp: nw_body_def)
  qed
qed

text \<open>
  Property C7. The main loop of \<^verbatim>\<open>nandwrite\<close> ends, whatever the device and the input do: on a device
  made of pages every round moves on or leaves the loop, failing writes, bad eraseblocks and read
  errors included.
\<close>

theorem nandwrite_terminates:
  assumes "paged mtd" "nw_blockalign a = 1" "from_stdin \<or> n \<noteq> 0"
  shows "\<exists>r. nw_loop K mtd a from_stdin n (mtd_eb_size mtd) pagelen s = Some r"
proof (induction "nat (mtd_size mtd - nw_off s)" arbitrary: s rule: less_induct)
  case less
  show ?case
  proof (cases "nw_more mtd s")
    case False
    then show ?thesis
      by (auto simp: nw_loop.simps)
  next
    case True
    obtain r where r: "nw_body K mtd a from_stdin n (mtd_eb_size mtd) pagelen s = Some r"
      "\<And>s'. r = NwNext s' \<Longrightarrow> nw_off s < nw_off s'"
      using nw_body_ends [OF assms] by blast
    have "nw_off s < mtd_size mtd"
      using True by (simp add: nw_more_def)
    then show ?thesis
      using True r less by (cases r) (auto simp: nw_loop.simps [of K mtd a from_stdin n _ pagelen s])
  qed
qed

theorem nandwrite_terminates_witness:
  "\<exists>r. nw_loop small_nand small_mtd nw_initial False 5 128 32
      \<lparr>nw_off = 0, nw_imglen = 5, nw_buf = replicate 128 0xFF, nw_len = 0, nw_pos = None, nw_blockstart = -1,
       nw_st = (OFFS64_IOCTLS_SUPPORTED, small_state [1, 2, 3, 4, 5])\<rparr> = Some r"
proof -
  have "paged small_mtd"
    by (auto simp: paged_def intro!: exI [of _ 7])
  then have "\<exists>r. nw_loop small_nand small_mtd nw_initial False 5 (mtd_eb_size small_mtd) 32
      \<lparr>nw_off = 0, nw_imglen = 5, nw_buf = replicate 128 0xFF, nw_len = 0, nw_pos = None, nw_blockstart = -1,
       nw_st = (OFFS64_IOCTLS_SUPPORTED, small_state [1, 2, 3, 4, 5])\<rparr> = Some r"
    by (rule nandwrite_terminates) (simp_all add: nw_initial_def)
  then show ?thesis
    by simp
qed

subsection \<open>Errors are not reported\<close>

text \<open>
  When \<^verbatim>\<open>nandwrite\<close> gives up behind the opening of the device (the input is missing, does
  not fit, has a wrong size, or a read, write or erasure fails), it still returns success, and
  ofgwrite reports a flashed image.
\<close>

theorem nandwrite_hides_failure:
  assumes "process_options argv a0 = Inr a" "nwe_opens env" "nwe_libmtd env" "nwe_mtd env = Some mtd"
    and "nw_mtdoffset a AND (mtd_min_io_size mtd - 1) = 0" "\<not> nw_noecc a"
    and "nandwrite_run K mtd a st = Some (False, st')"
  shows "nandwrite_main K env argv a0 st = Some (NwReturns 0, a, st')"
  using assms by (cases st) (simp add: nandwrite_main_def)

text \<open>A kernel image of five bytes, without the padding option.\<close>

theorem nandwrite_hides_failure_witness:
  "\<exists>a st'. nandwrite_main small_nand \<lparr>nwe_libmtd = True, nwe_opens = True, nwe_mtd = Some small_mtd\<rparr>
      [''/dev/mtd2'', ''kernel.bin''] nw_initial (OFFS64_IOCTLS_SUPPORTED, small_state [1, 2, 3, 4, 5])
      = Some (NwReturns 0, a, st')"
proof -
  have g: "getopt_long spec nw_long [''/dev/mtd2'', ''kernel.bin''] = ([], [''/dev/mtd2'', ''kernel.bin''])" for spec
    by (rule getopt_long_plain) simp
  obtain a where a: "process_options [''/dev/mtd2'', ''kernel.bin''] nw_initial = Inr a"
    "nw_mtdoffset a = 0" "\<not> nw_noecc a" "\<not> nw_pad a" "\<not> nw_writeoob a" "nw_img a = ''kernel.bin''"
    "nw_inputskip a = 0" "nw_inputsize a = 0"
    by (simp add: process_options_def g nw_initial_def del: getopt_long.simps)
  have "nandwrite_run small_nand small_mtd a (OFFS64_IOCTLS_SUPPORTED, small_state [1, 2, 3, 4, 5]) =
      Some (False, OFFS64_IOCTLS_SUPPORTED, small_state [1, 2, 3, 4, 5])"
    using a by (simp add: nandwrite_run_def open_input_def holey_kernel_def perfect_kernel_def small_state_def)
  then show ?thesis
    using nandwrite_hides_failure [OF a(1), of "\<lparr>nwe_libmtd = True, nwe_opens = True, nwe_mtd = Some small_mtd\<rparr>" small_mtd
      small_nand "(OFFS64_IOCTLS_SUPPORTED, small_state [1, 2, 3, 4, 5])"] a by simp
qed

end
