(* ===== verification/NandwriteWorn.thy ===== *)
theory NandwriteWorn
  imports NandwriteProps
begin

text \<open>
  \<^verbatim>\<open>nandwrite -pm\<close> on a device with writes that fail: the eraseblock is erased and marked bad, and
  what was written to it is written again, out of the buffer, to the next good one.
\<close>

subsection \<open>The device\<close>

text \<open>
  \<open>fails eb p\<close>: a write to eraseblock \<open>eb\<close> at offset \<open>p\<close> ends with an I/O error, and leaves
  anything in the eraseblock. \<open>bad\<close> are the eraseblocks the driver reports as bad. Erasing an
  eraseblock that failed may fail as well.
\<close>

definition others_same ::
  "('k \<Rightarrow> int \<Rightarrow> byte list) \<Rightarrow> ('k \<Rightarrow> byte list) \<Rightarrow> int \<Rightarrow> 'k \<Rightarrow> 'k \<Rightarrow> bool" where
  "others_same mem img eb k k' \<longleftrightarrow> (\<forall>x. x \<noteq> eb \<longrightarrow> mem k' x = mem k x) \<and> img k' = img k"

definition reports_bad where
  "reports_bad K mtd bad mem img \<longleftrightarrow>
     (\<forall>k eb. in_block mtd eb \<longrightarrow>
        (\<exists>k'. k_getbadblock K (eb * mtd_eb_size mtd) k = (Inr (if eb \<in> bad k then 1 else 0 :: int), k')
           \<and> bad k' = bad k \<and> mem k' = mem k \<and> img k' = img k))"

definition retires_blocks where
  "retires_blocks K mtd fails bad mem img \<longleftrightarrow>
     (\<forall>k eb p. in_block mtd eb \<longrightarrow> eb \<notin> bad k \<longrightarrow> fails eb (p :: nat) \<longrightarrow>
        (\<exists>r k'. k_memerase64 K (word_of_int (eb * mtd_eb_size mtd)) (word_of_int (mtd_eb_size mtd)) k = (r, k')
           \<and> (r = None \<or> r = Some EIO) \<and> bad k' = bad k \<and> others_same mem img eb k k')
        \<and> (\<exists>k'. k_setbadblock K (eb * mtd_eb_size mtd) k = (None, k')
           \<and> bad k' = insert eb (bad k) \<and> others_same mem img eb k k'))"

definition writes_pages where
  "writes_pages K mtd fails bad mem img \<longleftrightarrow>
     (\<forall>k d p eb. in_block mtd eb \<longrightarrow> eb \<notin> bad k \<longrightarrow> d \<noteq> [] \<longrightarrow> p + length d \<le> nat (mtd_eb_size mtd)
        \<longrightarrow> take (length d) (drop p (mem k eb)) = replicate (length d) 0xFF \<longrightarrow>
        (\<exists>k1 r k2. k_lseek K (eb * mtd_eb_size mtd + int p) k = (eb * mtd_eb_size mtd + int p, k1)
           \<and> k_write K d k1 = (r, k2) \<and> bad k2 = bad k \<and> others_same mem img eb k k2
           \<and> (if fails eb p then r = Inl EIO else r = Inr (int (length d)) \<and> mem k2 eb = store_at p d (mem k eb))))"

definition worn_nand ::
  "'k kernel \<Rightarrow> mtd_dev_info \<Rightarrow> (int \<Rightarrow> nat \<Rightarrow> bool) \<Rightarrow> ('k \<Rightarrow> int set) \<Rightarrow> ('k \<Rightarrow> int \<Rightarrow> byte list)
     \<Rightarrow> ('k \<Rightarrow> byte list) \<Rightarrow> bool" where
  "worn_nand K mtd fails bad mem img \<longleftrightarrow>
     mtd_bb_allowed mtd \<and> reports_bad K mtd bad mem img \<and> retires_blocks K mtd fails bad mem img
     \<and> writes_pages K mtd fails bad mem img \<and> reads_input K (\<lambda>k. (bad k, mem k)) img"

text \<open>The 64-bit requests of the driver are needed only for eraseblocks that fail.\<close>

definition can_erase :: "(int \<Rightarrow> nat \<Rightarrow> bool) \<Rightarrow> offs64 \<Rightarrow> bool" where
  "can_erase fails l \<longleftrightarrow> l \<noteq> OFFS64_IOCTLS_NOT_SUPPORTED \<or> (\<forall>eb p. \<not> fails eb p)"

lemma worn_is_bad:
  assumes "worn_nand K mtd fails bad mem img" "in_block mtd eb"
  shows "\<exists>k'. mtd_is_bad K mtd eb st = (Inr (if eb \<in> bad (snd st) then 1 else 0), fst st, k')
    \<and> bad k' = bad (snd st) \<and> mem k' = mem (snd st) \<and> img k' = img (snd st)"
proof -
  have "mtd_bb_allowed mtd"
    using assms(1) by (simp add: worn_nand_def)
  moreover obtain k' where "k_getbadblock K (eb * mtd_eb_size mtd) (snd st) = (Inr (if eb \<in> bad (snd st) then 1 else 0), k')"
    "bad k' = bad (snd st)" "mem k' = mem (snd st)" "img k' = img (snd st)"
    using assms unfolding worn_nand_def reports_bad_def by blast
  ultimately show ?thesis
    using assms(2) by (simp add: mtd_is_bad_def)
qed

lemma worn_erase:
  assumes "worn_nand K mtd fails bad mem img" "in_block mtd eb" "eb \<notin> bad (snd st)" "fails eb p"
    "fst st \<noteq> OFFS64_IOCTLS_NOT_SUPPORTED"
  shows "\<exists>r k'. mtd_erase K mtd eb st = (r, fst st, k') \<and> (r = None \<or> r = Some EIO)
    \<and> bad k' = bad (snd st) \<and> others_same mem img eb (snd st) k'"
proof -
  obtain r k' where "k_memerase64 K (word_of_int (eb * mtd_eb_size mtd)) (word_of_int (mtd_eb_size mtd)) (snd st) = (r, k')"
    "r = None \<or> r = Some EIO" "bad k' = bad (snd st)" "others_same mem img eb (snd st) k'"
    using assms(1-4) unfolding worn_nand_def retires_blocks_def by blast
  moreover have "fst st = OFFS64_IOCTLS_SUPPORTED \<or> fst st = OFFS64_IOCTLS_UNKNOWN"
    using assms(5) by (cases "fst st") auto
  ultimately show ?thesis
    using assms(2) by (cases st) (auto simp: mtd_erase_def Let_def simp del: of_int_mult)
qed

lemma worn_mark:
  assumes "worn_nand K mtd fails bad mem img" "in_block mtd eb" "eb \<notin> bad (snd st)" "fails eb p"
  shows "\<exists>k'. mtd_mark_bad K mtd eb st = (None, fst st, k')
    \<and> bad k' = insert eb (bad (snd st)) \<and> others_same mem img eb (snd st) k'"
proof -
  have "mtd_bb_allowed mtd"
    using assms(1) by (simp add: worn_nand_def)
  moreover obtain k' where "k_setbadblock K (eb * mtd_eb_size mtd) (snd st) = (None, k')"
    "bad k' = insert eb (bad (snd st))" "others_same mem img eb (snd st) k'"
    using assms unfolding worn_nand_def retires_blocks_def by blast
  ultimately show ?thesis
    using assms(2) by (simp add: mtd_mark_bad_def)
qed

lemma worn_write:
  assumes "worn_nand K mtd fails bad mem img" "in_block mtd eb" "eb \<notin> bad (snd st)"
    and "d \<noteq> []" "int p + int (length d) \<le> mtd_eb_size mtd"
    and "0 < mtd_subpage_size mtd" "int p mod mtd_subpage_size mtd = 0" "int (length d) mod mtd_subpage_size mtd = 0"
    and "take (length d) (drop p (mem (snd st) eb)) = replicate (length d) 0xFF"
  shows "\<exists>k'. mtd_write K mtd eb (int p) (Some d) (length d) None mode st =
      Some (if fails eb p then Some EIO else None, fst st, k')
    \<and> bad k' = bad (snd st) \<and> others_same mem img eb (snd st) k'
    \<and> (\<not> fails eb p \<longrightarrow> mem k' eb = store_at p d (mem (snd st) eb))"
proof -
  have fits: "p + length d \<le> nat (mtd_eb_size mtd)"
    using assms(5) by linarith
  have "writes_pages K mtd fails bad mem img"
    using assms(1) by (simp add: worn_nand_def)
  from this [unfolded writes_pages_def, rule_format, OF assms(2-4) fits assms(9)]
  obtain k1 r k2 where k: "k_lseek K (eb * mtd_eb_size mtd + int p) (snd st) = (eb * mtd_eb_size mtd + int p, k1)"
    "k_write K d k1 = (r, k2)" "bad k2 = bad (snd st)" "others_same mem img eb (snd st) k2"
    "if fails eb p then r = Inl EIO else r = Inr (int (length d)) \<and> mem k2 eb = store_at p d (mem (snd st) eb)"
    by blast
  have "mtd_write K mtd eb (int p) (Some d) (length d) None mode st =
      Some (case r of Inl e \<Rightarrow> Some e | Inr n \<Rightarrow> None, fst st, k2)"
    using k by (intro mtd_write_plain assms(2,5-8)) (auto split: if_splits)
  then show ?thesis
    using k by (auto split: if_splits)
qed

lemma worn_read:
  assumes "worn_nand K mtd fails bad mem img"
  shows "\<exists>eof k'. read_input K n k = (Some (take n (img k)), eof, k')
    \<and> img k' = drop n (img k) \<and> bad k' = bad k \<and> mem k' = mem k"
proof -
  have "reads_input K (\<lambda>k. (bad k, mem k)) img"
    using assms by (simp add: worn_nand_def)
  then show ?thesis
    using read_input_reads [of K "\<lambda>k. (bad k, mem k)" img n k] by auto
qed

subsection \<open>Where the data goes\<close>

text \<open>
  The eraseblocks of a list with the part of the data each takes, and those that fail on the way:
  an eraseblock fails when one of the pages that are tried in it does.
\<close>

definition page_offsets :: "nat \<Rightarrow> nat \<Rightarrow> nat list" where
  "page_offsets io m = map (\<lambda>i. i * io) [0..<m div io]"

fun nand_layout ::
  "nat \<Rightarrow> nat \<Rightarrow> (int \<Rightarrow> nat \<Rightarrow> bool) \<Rightarrow> int list \<Rightarrow> byte list \<Rightarrow> (int \<times> byte list) list \<times> int list" where
  "nand_layout n io fails [] d = ([], [])"
| "nand_layout n io fails (b # bs) d =
     (if d = [] then ([], [])
      else if list_ex (fails b) (page_offsets io (min n (length d)))
      then apsnd (Cons b) (nand_layout n io fails bs d)
      else apfst (Cons (b, take n d)) (nand_layout n io fails bs (drop n d)))"

lemma nand_layout_Nil [simp]: "nand_layout n io fails bs [] = ([], [])"
  by (cases bs) auto

lemma nand_layout_blocks:
  "set (map fst (fst (nand_layout n io fails bs d))) \<union> set (snd (nand_layout n io fails bs d)) \<subseteq> set bs"
  by (induction bs arbitrary: d) (auto simp: image_subset_iff)

text \<open>The input filled up to whole pages.\<close>

definition page_padded :: "nat \<Rightarrow> byte list \<Rightarrow> byte list" where
  "page_padded io d = d @ replicate ((io - length d mod io) mod io) 0xFF"

definition page_of :: "nat \<Rightarrow> byte list \<Rightarrow> byte list" where
  "page_of io d = take io d @ replicate (io - length (take io d)) 0xFF"

lemma length_page_of [simp]: "length (page_of io d) = io"
  by (simp add: page_of_def)

lemma page_padded_step:
  assumes "0 < io" "d \<noteq> []"
  shows "page_padded io d = page_of io d @ page_padded io (drop io d)"
proof (cases "length d < io")
  case True
  then have "(io - length d mod io) mod io = io - length d"
    using assms by simp
  then show ?thesis
    using True by (simp add: page_padded_def page_of_def)
next
  case False
  then have "(io - length d mod io) mod io = (io - (length d - io) mod io) mod io"
    by (simp add: le_mod_geq)
  then show ?thesis
    using False by (simp add: page_padded_def page_of_def)
qed

lemma page_padded_Nil [simp]: "page_padded io [] = []"
  by (simp add: page_padded_def)

lemma page_padded_empty: "0 < io \<Longrightarrow> page_padded io d = [] \<longleftrightarrow> d = []"
  by (auto simp: page_padded_def)

lemma page_padded_dvd:
  assumes "0 < io"
  shows "io dvd length (page_padded io d)"
proof -
  have r: "length d mod io < io"
    using assms by simp
  have "length d + (io - length d mod io) = (length d div io + 1) * io"
    using assms r div_mult_mod_eq [of "length d" io] unfolding add_mult_distrib by linarith
  then have up: "io dvd length d + (io - length d mod io)"
    by simp
  show ?thesis
  proof (cases "length d mod io = 0")
    case True
    then show ?thesis
      by (auto simp: page_padded_def mod_eq_0_iff_dvd)
  next
    case False
    then have "(io - length d mod io) mod io = io - length d mod io"
      using r by simp
    then show ?thesis
      using up by (simp add: page_padded_def)
  qed
qed


subsection \<open>States of the run\<close>

text \<open>The options of ofgwrite's call that matter here.\<close>

definition pm_run :: "nw_args \<Rightarrow> bool" where
  "pm_run a \<longleftrightarrow> nw_blockalign a = 1 \<and> nw_pad a \<and> nw_markbad a
     \<and> \<not> nw_writeoob a \<and> \<not> nw_onlyoob a \<and> \<not> nw_noskipbad a"

text \<open>
  The run is in eraseblock \<open>b\<close>, of which \<open>j\<close> bytes are written; \<open>V\<close> is all the data from the start of
  \<open>b\<close> on: what the buffer has of it, and the rest of the input.
\<close>

definition filling :: "mtd_dev_info \<Rightarrow> ('k \<Rightarrow> byte list) \<Rightarrow> int \<Rightarrow> nat \<Rightarrow> byte list \<Rightarrow> 'k nw \<Rightarrow> bool" where
  "filling mtd img b j V s \<longleftrightarrow>
     nw_blockstart s = b * mtd_eb_size mtd \<and> nw_off s = b * mtd_eb_size mtd + int j \<and> nw_pos s = Some j
     \<and> j \<le> nw_len s \<and> nw_len s \<le> nat (mtd_eb_size mtd) \<and> nat (mtd_min_io_size mtd) dvd nw_len s
     \<and> nat (mtd_min_io_size mtd) dvd j \<and> length (nw_buf s) = nat (mtd_eb_size mtd)
     \<and> V = take (nw_len s) (nw_buf s) @ page_padded (nat (mtd_min_io_size mtd)) (img (snd (nw_st s)))
     \<and> nw_imglen s = int (length (img (snd (nw_st s))))"

text \<open>
  The run comes to the start of eraseblock \<open>c\<close> with the data \<open>V\<close>: from the start or a full eraseblock,
  or, with the position at the start of the buffer, from one that failed.
\<close>

definition arrived :: "mtd_dev_info \<Rightarrow> ('k \<Rightarrow> byte list) \<Rightarrow> int \<Rightarrow> byte list \<Rightarrow> 'k nw \<Rightarrow> bool" where
  "arrived mtd img c V s \<longleftrightarrow>
     nw_off s = c * mtd_eb_size mtd \<and> nw_blockstart s \<noteq> nw_off s
     \<and> nw_len s \<le> nat (mtd_eb_size mtd) \<and> nat (mtd_min_io_size mtd) dvd nw_len s
     \<and> length (nw_buf s) = nat (mtd_eb_size mtd)
     \<and> V = (if nw_pos s = Some 0 then take (nw_len s) (nw_buf s) else [])
           @ page_padded (nat (mtd_min_io_size mtd)) (img (snd (nw_st s)))
     \<and> nw_imglen s = int (length (img (snd (nw_st s))))
     \<and> (nw_pos s = None \<longrightarrow> V \<noteq> []) \<and> (\<forall>i. nw_pos s = Some i \<longrightarrow> i = 0 \<or> nw_len s \<le> i)"

text \<open>What stays when only the run's own position changes.\<close>

definition same_device ::
  "('k \<Rightarrow> int set) \<Rightarrow> ('k \<Rightarrow> int \<Rightarrow> byte list) \<Rightarrow> 'k nw \<Rightarrow> 'k nw \<Rightarrow> bool" where
  "same_device bad mem s s' \<longleftrightarrow> fst (nw_st s') = fst (nw_st s)
     \<and> bad (snd (nw_st s')) = bad (snd (nw_st s)) \<and> mem (snd (nw_st s')) = mem (snd (nw_st s))"

lemma same_device_trans: "same_device bad mem s s' \<Longrightarrow> same_device bad mem s' s'' \<Longrightarrow> same_device bad mem s s''"
  by (simp add: same_device_def)

subsection \<open>Coming to an eraseblock\<close>

lemma block_geometry:
  assumes "paged mtd" "whole_device mtd" "in_block mtd b"
  shows "0 < mtd_eb_size mtd" "b * mtd_eb_size mtd AND - mtd_eb_size mtd = b * mtd_eb_size mtd"
    "c_int (c_div (b * mtd_eb_size mtd) (mtd_eb_size mtd)) = b" "b * mtd_eb_size mtd + mtd_eb_size mtd \<le> mtd_size mtd"
proof -
  have e: "0 < mtd_eb_size mtd"
    using paged_block [OF assms(1)] by simp
  moreover have b: "0 \<le> b" "b < 2 ^ 31"
    using assms(2,3) by (auto simp: whole_device_def in_block_def)
  ultimately show "0 < mtd_eb_size mtd" "b * mtd_eb_size mtd AND - mtd_eb_size mtd = b * mtd_eb_size mtd"
    "c_int (c_div (b * mtd_eb_size mtd) (mtd_eb_size mtd)) = b"
    unfolding paged_block(1) [OF assms(1)] by simp_all
  have "(b + 1) * mtd_eb_size mtd \<le> mtd_eb_cnt mtd * mtd_eb_size mtd"
    using assms(3) e by (intro mult_right_mono) (auto simp: in_block_def)
  then show "b * mtd_eb_size mtd + mtd_eb_size mtd \<le> mtd_size mtd"
    using assms(2) by (simp add: whole_device_def algebra_simps)
qed

lemma enter_good:
  assumes nand: "worn_nand K mtd fails bad mem img" and geo: "paged mtd" "whole_device mtd" and a: "pm_run a"
    and s: "arrived mtd img b V s" "in_block mtd b" "b \<notin> bad (snd (nw_st s))"
  shows "\<exists>s1. new_block K mtd a (mtd_eb_size mtd) s = Some (True, s1) \<and> filling mtd img b 0 V s1 \<and> same_device bad mem s s1"
proof -
  let ?e = "mtd_eb_size mtd"
  note g = block_geometry [OF geo s(2)]
  have off: "nw_off s = b * ?e" "nw_blockstart s \<noteq> nw_off s AND - ?e"
    using s(1) g(2) by (simp_all add: arrived_def)
  obtain k1 where bad: "mtd_is_bad K mtd b (nw_st s) = (Inr 0, fst (nw_st s), k1)" "bad k1 = bad (snd (nw_st s))"
    "mem k1 = mem (snd (nw_st s))" "img k1 = img (snd (nw_st s))"
    using worn_is_bad [OF nand s(2), of "nw_st s"] s(3) by auto
  let ?n = "entered (b * ?e) s\<lparr>nw_off := b * ?e, nw_st := (fst (nw_st s), k1)\<rparr>"
  have "new_block K mtd a ?e s = new_block K mtd a ?e ?n"
    using new_block_enter [OF off(2) g(1), of a K mtd] a unfolding off(1) g(2,3) bad(1) Let_def pm_run_def by simp
  moreover have "new_block K mtd a ?e ?n = Some (True, ?n)"
    by (rule new_block_same) (simp add: g(2))
  moreover have "filling mtd img b 0 V ?n"
    using s(1) bad(4) by (auto simp: arrived_def filling_def entered_def store_at_def)
  ultimately show ?thesis
    using bad(2,3) by (auto simp: same_device_def)
qed

lemma enter_bad:
  assumes nand: "worn_nand K mtd fails bad mem img" and geo: "paged mtd" "whole_device mtd" and a: "pm_run a"
    and s: "arrived mtd img c V s" "in_block mtd c" "c \<in> bad (snd (nw_st s))"
  shows "\<exists>s1. new_block K mtd a (mtd_eb_size mtd) s = new_block K mtd a (mtd_eb_size mtd) s1
    \<and> arrived mtd img (c + 1) V s1 \<and> same_device bad mem s s1"
proof -
  let ?e = "mtd_eb_size mtd"
  note g = block_geometry [OF geo s(2)]
  have off: "nw_off s = c * ?e" "nw_blockstart s \<noteq> nw_off s AND - ?e"
    using s(1) g(2) by (simp_all add: arrived_def)
  obtain k1 where bad: "mtd_is_bad K mtd c (nw_st s) = (Inr 1, fst (nw_st s), k1)" "bad k1 = bad (snd (nw_st s))"
    "mem k1 = mem (snd (nw_st s))" "img k1 = img (snd (nw_st s))"
    using worn_is_bad [OF nand s(2), of "nw_st s"] s(3) by auto
  let ?n = "entered (c * ?e) s\<lparr>nw_off := c * ?e + ?e, nw_st := (fst (nw_st s), k1)\<rparr>"
  have "new_block K mtd a ?e s = new_block K mtd a ?e ?n"
    using new_block_enter [OF off(2) g(1), of a K mtd] a g(4) unfolding off(1) g(2,3) bad(1) Let_def pm_run_def by simp
  moreover have "arrived mtd img (c + 1) V ?n"
    using s(1) bad(4) g(1) by (auto simp: arrived_def entered_def store_at_def algebra_simps)
  ultimately show ?thesis
    using bad(2,3) by (auto simp: same_device_def)
qed

lemma enter_next:
  assumes nand: "worn_nand K mtd fails bad mem img" and geo: "paged mtd" "whole_device mtd" and a: "pm_run a"
    and b: "b < mtd_eb_cnt mtd"
  assumes "arrived mtd img c V s" "0 \<le> c" "c \<le> b" "b \<notin> bad (snd (nw_st s))"
    "\<And>x. c \<le> x \<Longrightarrow> x < b \<Longrightarrow> x \<in> bad (snd (nw_st s))"
  shows "\<exists>s1. new_block K mtd a (mtd_eb_size mtd) s = Some (True, s1) \<and> filling mtd img b 0 V s1 \<and> same_device bad mem s s1"
  using assms(6-)
proof (induction "nat (b - c)" arbitrary: c s)
  case 0
  then have "c = b" "in_block mtd b"
    using b by (simp_all add: in_block_def)
  then show ?case
    using enter_good [OF nand geo a] 0 by blast
next
  case (Suc x)
  then have "c < b" "in_block mtd c"
    using b by (auto simp: in_block_def)
  then obtain s1 where s1: "new_block K mtd a (mtd_eb_size mtd) s = new_block K mtd a (mtd_eb_size mtd) s1"
    "arrived mtd img (c + 1) V s1" "same_device bad mem s s1"
    using enter_bad [OF nand geo a Suc(3)] Suc(7) [of c] by auto
  have "bad (snd (nw_st s1)) = bad (snd (nw_st s))" "x = nat (b - (c + 1))"
    using s1(3) Suc(2) by (simp_all add: same_device_def)
  then obtain s2 where "new_block K mtd a (mtd_eb_size mtd) s1 = Some (True, s2)" "filling mtd img b 0 V s2"
    "same_device bad mem s1 s2"
    using Suc.hyps(1) [of "c + 1" s1] Suc(2,4,6,7) s1(2) \<open>c < b\<close> by auto
  then show ?case
    using s1 same_device_trans by auto
qed


subsection \<open>A page\<close>

lemma two_stores:
  assumes "j + length g + length f \<le> length buf"
  shows "take (j + (length g + length f)) (store_at (j + length g) f (store_at j g buf)) = take j buf @ g @ f"
    and "length (store_at (j + length g) f (store_at j g buf)) = length buf"
  using assms by (simp_all add: store_at_def)

lemma dvd_next:
  assumes "(io :: nat) dvd j" "io dvd m" "j < m"
  shows "j + io \<le> m"
proof -
  have "io \<le> m - j"
    using assms by (intro dvd_imp_le dvd_diff_nat) auto
  then show ?thesis
    using assms(3) by simp
qed

lemma paged_io:
  assumes "paged mtd"
  shows "0 < nat (mtd_min_io_size mtd)" "nat (mtd_min_io_size mtd) dvd nat (mtd_eb_size mtd)"
    "int (nat (mtd_min_io_size mtd)) = mtd_min_io_size mtd" "int (nat (mtd_eb_size mtd)) = mtd_eb_size mtd"
    "0 < nat (mtd_eb_size mtd)"
  using assms paged_block [OF assms] by (auto simp: paged_def mod_eq_0_iff_dvd nat_dvd_iff)

text \<open>The page comes from the buffer, or is read behind what the buffer has.\<close>

lemma read_page_filling:
  assumes "worn_nand K mtd fails bad mem img" "paged mtd" "pm_run a" "filling mtd img b j V s" "n \<noteq> 0"
    and "j < nat (mtd_eb_size mtd)" "j < length V"
  shows "\<exists>s'. read_page K mtd a False n s = Some (NwNext s') \<and> filling mtd img b j V s'
    \<and> j + nat (mtd_min_io_size mtd) \<le> nw_len s' \<and> same_device bad mem s s'"
proof -
  let ?io = "nat (mtd_min_io_size mtd)" and ?e = "nat (mtd_eb_size mtd)"
  let ?rem = "img (snd (nw_st s))"
  note io = paged_io [OF assms(2)]
  have fits: "j + ?io \<le> ?e"
    using assms(4,6) io by (intro dvd_next) (auto simp: filling_def)
  have idx: "nw_index s = j"
    using assms(4) by (simp add: filling_def nw_index_def)
  show ?thesis
  proof (cases "j + ?io \<le> nw_len s")
    case True
    then show ?thesis
      using assms(4) idx by (auto simp: read_page_def same_device_def)
  next
    case False
    have "nw_len s = j"
      using False assms(4) dvd_next [of ?io j "nw_len s"] by (fastforce simp: filling_def)
    then have L: "nw_len s = j" "length (nw_buf s) = ?e" "V = take j (nw_buf s) @ page_padded ?io ?rem"
      "nw_imglen s = int (length ?rem)" "?io dvd j"
      using assms(4) by (auto simp: filling_def)
    have rem: "?rem \<noteq> []"
      using assms(6,7) L(2,3) by auto
    let ?got = "take ?io ?rem"
    obtain eof k' where r: "read_input K ?io (snd (nw_st s)) = (Some ?got, eof, k')"
      "img k' = drop ?io ?rem" "bad k' = bad (snd (nw_st s))" "mem k' = mem (snd (nw_st s))"
      using worn_read [OF assms(1)] by blast
    let ?b1 = "store_at j ?got (nw_buf s)"
    let ?f = "replicate (?io - length ?got) (0xFF :: byte)"
    let ?b2 = "store_at (j + length ?got) ?f ?b1"
    let ?s = "s\<lparr>nw_buf := ?b2, nw_st := (fst (nw_st s), k'), nw_len := j + ?io,
        nw_imglen := nw_imglen s - int (length ?got)\<rparr>"
    have l: "length ?got + length ?f = ?io"
      by simp
    then have room: "j + length ?got + length ?f \<le> length (nw_buf s)"
      using fits L(2) by linarith
    have b2: "take (j + ?io) ?b2 = take j (nw_buf s) @ page_of ?io ?rem" "length ?b2 = ?e"
      using two_stores [OF room] L(2) unfolding l page_of_def by simp_all
    have g: "0 < length ?got"
      using rem io by simp
    have "read_page K mtd a False n s = Some (NwNext ?s)"
      using r(1) g io(1,3) assms(3,5) idx L(1) by (simp add: read_page_def pm_run_def Let_def)
    moreover have "filling mtd img b j V ?s"
      using assms(4) b2 fits L rem io(1) r(2) page_padded_step [OF io(1) rem]
      by (simp add: filling_def)
    ultimately show ?thesis
      using r(3,4) by (intro exI [of _ ?s]) (simp add: same_device_def)
  qed
qed

text \<open>Writing it succeeds, or ends with the run at the next eraseblock and the data as it was.\<close>

definition written ::
  "mtd_dev_info \<Rightarrow> (int \<Rightarrow> nat \<Rightarrow> bool) \<Rightarrow> ('k \<Rightarrow> int set) \<Rightarrow> ('k \<Rightarrow> int \<Rightarrow> byte list) \<Rightarrow> ('k \<Rightarrow> byte list) \<Rightarrow> int \<Rightarrow> nat
     \<Rightarrow> byte list \<Rightarrow> bool \<Rightarrow> 'k nw \<Rightarrow> 'k nw \<Rightarrow> bool" where
  "written mtd fails bad mem img b j V failed s s' \<longleftrightarrow>
     fst (nw_st s') = fst (nw_st s) \<and> (\<forall>x. x \<noteq> b \<longrightarrow> mem (snd (nw_st s')) x = mem (snd (nw_st s)) x)
     \<and> (if failed
        then arrived mtd img (b + 1) V s' \<and> nw_pos s' = Some 0 \<and> bad (snd (nw_st s')) = insert b (bad (snd (nw_st s)))
        else filling mtd img b j V s' \<and> bad (snd (nw_st s')) = bad (snd (nw_st s))
          \<and> mem (snd (nw_st s')) b = take j V @ replicate (nat (mtd_eb_size mtd) - j) 0xFF)"

lemma write_page_filling:
  assumes nand: "worn_nand K mtd fails bad mem img" and geo: "paged mtd" "whole_device mtd" and a: "pm_run a"
    and s: "filling mtd img b j V s" "j + nat (mtd_min_io_size mtd) \<le> nw_len s"
    and b: "in_block mtd b" "b \<notin> bad (snd (nw_st s))" "can_erase fails (fst (nw_st s))"
    and m: "mem (snd (nw_st s)) b = take j V @ replicate (nat (mtd_eb_size mtd) - j) 0xFF"
  shows "\<exists>s'. write_page K mtd a (mtd_eb_size mtd) (mtd_min_io_size mtd) s = Some (NwNext s')
    \<and> written mtd fails bad mem img b (j + nat (mtd_min_io_size mtd)) V (fails b j) s s'"
proof -
  let ?io = "nat (mtd_min_io_size mtd)" and ?e = "nat (mtd_eb_size mtd)"
  note io = paged_io [OF geo(1)]
  note g = block_geometry [OF geo b(1)]
  let ?page = "take ?io (drop j (nw_buf s))"
  have f: "nw_blockstart s = b * mtd_eb_size mtd" "nw_off s = b * mtd_eb_size mtd + int j" "nw_index s = j"
    "nw_pos s = Some j" "nw_len s \<le> ?e" "length (nw_buf s) = ?e" "?io dvd j" "?io dvd nw_len s"
    "nw_imglen s = int (length (img (snd (nw_st s))))"
    and V: "V = take (nw_len s) (nw_buf s) @ page_padded ?io (img (snd (nw_st s)))"
    using s(1) by (auto simp: filling_def nw_index_def)
  have fits: "j + ?io \<le> ?e" and page: "length ?page = ?io"
    using s(2) f(5,6) by simp_all
  have ne: "?page \<noteq> []"
    using page io(1) by auto
  have "j \<le> length V"
    unfolding V using s(2) f(5,6) by simp
  have "take (j + ?io) V = take (j + ?io) (nw_buf s)"
    unfolding V using s(2) f(5,6) by simp
  then have Vj: "take (j + ?io) V = take j V @ ?page"
    unfolding take_add V using s(2) f(5,6) by simp
  have len_j: "length (take j V) = j"
    using \<open>j \<le> length V\<close> by simp
  have blank: "take (length ?page) (drop j (mem (snd (nw_st s)) b)) = replicate (length ?page) 0xFF"
    unfolding m page using fits len_j by (simp add: min_def)
  have j: "int j < mtd_eb_size mtd"
    using fits io by linarith
  have b31: "0 \<le> b" "b < 2 ^ 31"
    using b(1) geo(2) by (auto simp: in_block_def whole_device_def)
  then have "0 \<le> b * mtd_eb_size mtd + int j"
    using g(1) by simp
  then have div: "c_int (c_div (b * mtd_eb_size mtd + int j) (mtd_eb_size mtd)) = b"
    "c_int (c_mod (b * mtd_eb_size mtd + int j) (mtd_eb_size mtd)) = int j"
    using j b31 g(1) paged_block(3) [OF geo(1)] by simp_all
  have sp: "0 < mtd_subpage_size mtd" "mtd_min_io_size mtd mod mtd_subpage_size mtd = 0"
    using geo(1) by (auto simp: paged_def)
  have "mtd_min_io_size mtd dvd int j"
    using f(7) io(3) by (metis int_dvd_int_iff)
  then have sub: "int j mod mtd_subpage_size mtd = 0" "int (length ?page) mod mtd_subpage_size mtd = 0"
    using sp io(3) unfolding page by (auto simp: mod_eq_0_iff_dvd intro: dvd_trans)
  have room: "int j + int (length ?page) \<le> mtd_eb_size mtd"
    unfolding page using fits io by linarith
  obtain k1 where w: "mtd_write K mtd b (int j) (Some ?page) (length ?page) None (write_mode a) (nw_st s)
      = Some (if fails b j then Some EIO else None, fst (nw_st s), k1)"
    "bad k1 = bad (snd (nw_st s))" "others_same mem img b (snd (nw_st s)) k1"
    "\<not> fails b j \<longrightarrow> mem k1 b = store_at j ?page (mem (snd (nw_st s)) b)"
    using worn_write [OF nand b(1,2) ne room sp(1) sub blank, of "write_mode a"] by auto
  let ?s1 = "s\<lparr>nw_st := (fst (nw_st s), k1)\<rparr>"
  have wp: "write_page K mtd a (mtd_eb_size mtd) (mtd_min_io_size mtd) s =
      Some (if fails b j then rewind_block K mtd a (mtd_eb_size mtd) ?s1
            else NwNext (?s1\<lparr>nw_off := nw_off s + mtd_min_io_size mtd, nw_pos := Some (j + ?io)\<rparr>))"
    using w(1) [unfolded page] a g(1) by (simp add: write_page_def f(2,3) div pm_run_def Let_def)
  show ?thesis
  proof (cases "fails b j")
    case False
    let ?s2 = "?s1\<lparr>nw_off := nw_off s + mtd_min_io_size mtd, nw_pos := Some (j + ?io)\<rparr>"
    have "mem k1 b = take (j + ?io) V @ replicate (?e - (j + ?io)) 0xFF"
      using False w(4) m len_j page fits unfolding Vj by (simp add: store_at_def)
    moreover have "filling mtd img b (j + ?io) V ?s2"
      using s f V io(3) w(3) by (simp add: filling_def others_same_def)
    ultimately show ?thesis
      using False wp w(2,3) by (intro exI [of _ ?s2]) (simp add: written_def others_same_def)
  next
    case True
    obtain r k2 where er: "mtd_erase K mtd b (fst (nw_st s), k1) = (r, fst (nw_st s), k2)" "r = None \<or> r = Some EIO"
      "bad k2 = bad k1" "others_same mem img b k1 k2"
      using worn_erase [OF nand b(1) _ True, of "(fst (nw_st s), k1)"] b(2,3) w(2) True by (auto simp: can_erase_def)
    obtain k3 where mk: "mtd_mark_bad K mtd b (fst (nw_st s), k2) = (None, fst (nw_st s), k3)"
      "bad k3 = insert b (bad k2)" "others_same mem img b k2 k3"
      using worn_mark [OF nand b(1) _ True, of "(fst (nw_st s), k2)"] b(2) w(2) er(3) by auto
    have "erase_again K mtd (b * mtd_eb_size mtd) (b * mtd_eb_size mtd + mtd_eb_size mtd) (fst (nw_st s), k1)
        = (True, fst (nw_st s), k2)"
      using er(1,2) g by (subst erase_again.simps) (auto simp: erase_again.simps [of K mtd "b * mtd_eb_size mtd + mtd_eb_size mtd"])
    then have "rewind_block K mtd a (mtd_eb_size mtd) ?s1 =
        NwNext (s\<lparr>nw_pos := Some 0, nw_st := (fst (nw_st s), k3), nw_off := b * mtd_eb_size mtd + mtd_eb_size mtd\<rparr>)"
      using mk(1) a by (simp add: rewind_block_def f(1,2) div pm_run_def Let_def)
    moreover have "arrived mtd img (b + 1) V
        (s\<lparr>nw_pos := Some 0, nw_st := (fst (nw_st s), k3), nw_off := b * mtd_eb_size mtd + mtd_eb_size mtd\<rparr>)"
      using s(1) g(1) w(3) er(4) mk(3) by (auto simp: arrived_def filling_def others_same_def algebra_simps)
    ultimately show ?thesis
      using True wp w(2,3) er(3,4) mk(2,3) by (simp add: written_def others_same_def)
  qed
qed


subsection \<open>An eraseblock\<close>

lemma filling_more:
  assumes "filling mtd img b j V s" "j < length V" "int j < mtd_eb_size mtd" "in_block mtd b" "whole_device mtd" "paged mtd"
  shows "nw_more mtd s"
proof -
  have "nw_off s < b * mtd_eb_size mtd + mtd_eb_size mtd"
    using assms(1,3) by (simp add: filling_def)
  then have "nw_off s < mtd_size mtd"
    using block_geometry(4) [OF assms(6,5,4)] by linarith
  moreover have "0 < nw_imglen s \<or> j < nw_len s"
    using assms(1,2) by (cases "img (snd (nw_st s)) = []") (auto simp: filling_def)
  ultimately show ?thesis
    using assms(1) by (simp add: nw_more_def filling_def)
qed

text \<open>A round of the loop that gets into eraseblock \<open>b\<close> at \<open>j\<close>.\<close>

lemma round_filling:
  assumes nand: "worn_nand K mtd fails bad mem img" and geo: "paged mtd" "whole_device mtd" and a: "pm_run a" "n \<noteq> 0"
    and enter: "new_block K mtd a (mtd_eb_size mtd) s0 = Some (True, s)" "same_device bad mem s0 s" "nw_more mtd s0"
    and s: "filling mtd img b j V s" "j < nat (mtd_eb_size mtd)" "j < length V"
    and b: "in_block mtd b" "b \<notin> bad (snd (nw_st s0))" "can_erase fails (fst (nw_st s0))"
    and m: "mem (snd (nw_st s0)) b = take j V @ replicate (nat (mtd_eb_size mtd) - j) 0xFF"
  shows "\<exists>s'. nw_loop K mtd a False n (mtd_eb_size mtd) (mtd_min_io_size mtd) s0
      = nw_loop K mtd a False n (mtd_eb_size mtd) (mtd_min_io_size mtd) s'
    \<and> written mtd fails bad mem img b (j + nat (mtd_min_io_size mtd)) V (fails b j) s0 s'"
proof -
  obtain s2 where r: "read_page K mtd a False n s = Some (NwNext s2)" "filling mtd img b j V s2"
    "j + nat (mtd_min_io_size mtd) \<le> nw_len s2" "same_device bad mem s s2"
    using read_page_filling [OF nand geo(1) a(1) s(1) a(2) s(2,3)] by blast
  have same: "same_device bad mem s0 s2"
    using enter(2) r(4) by (rule same_device_trans)
  have oob: "read_oob K mtd a False s2 = NwNext s2"
    using a(1) by (simp add: read_oob_def pm_run_def Let_def)
  obtain s3 where w: "write_page K mtd a (mtd_eb_size mtd) (mtd_min_io_size mtd) s2 = Some (NwNext s3)"
    "written mtd fails bad mem img b (j + nat (mtd_min_io_size mtd)) V (fails b j) s2 s3"
    using write_page_filling [OF nand geo a(1) r(2,3) b(1)] b(2,3) m same by (auto simp: same_device_def)
  have "nw_body K mtd a False n (mtd_eb_size mtd) (mtd_min_io_size mtd) s0 = Some (NwNext s3)"
    using enter(1) r(1) oob w(1) by (simp add: nw_body_def)
  then have "nw_loop K mtd a False n (mtd_eb_size mtd) (mtd_min_io_size mtd) s0
      = nw_loop K mtd a False n (mtd_eb_size mtd) (mtd_min_io_size mtd) s3"
    using enter(3) by (simp add: nw_loop.simps [of K mtd a False n _ _ s0])
  moreover have "written mtd fails bad mem img b (j + nat (mtd_min_io_size mtd)) V (fails b j) s0 s3"
    using w(2) same by (simp add: written_def same_device_def)
  ultimately show ?thesis
    by blast
qed

lemma page_offsets_iff:
  assumes "0 < io" "io dvd m"
  shows "list_ex P (page_offsets io m) \<longleftrightarrow> (\<exists>p < m. io dvd p \<and> P p)"
proof -
  have lt: "i * io < m \<longleftrightarrow> i < m div io" for i
    using assms by (auto simp: less_mult_imp_div_less elim!: dvdE)
  have "list_ex P (page_offsets io m) \<longleftrightarrow> (\<exists>i < m div io. P (i * io))"
    by (auto simp: page_offsets_def list_ex_iff)
  also have "\<dots> \<longleftrightarrow> (\<exists>p < m. io dvd p \<and> P p)"
    using lt by (metis dvdE dvd_triv_right mult.commute)
  finally show ?thesis .
qed

text \<open>
  The rest of an eraseblock: \<open>m\<close> is where it ends, or the data. If a page behind \<open>j\<close> fails the run
  leaves it with the data as it was.
\<close>

lemma written_trans:
  "written mtd fails bad mem img b j V False s s' \<Longrightarrow> written mtd fails bad mem img b m V failed s' s''
    \<Longrightarrow> written mtd fails bad mem img b m V failed s s''"
  by (simp add: written_def)

lemma fill_block:
  assumes nand: "worn_nand K mtd fails bad mem img" and geo: "paged mtd" "whole_device mtd" and a: "pm_run a" "n \<noteq> 0"
    and b: "in_block mtd b" and m: "m = min (nat (mtd_eb_size mtd)) (length V)" "nat (mtd_min_io_size mtd) dvd m"
  assumes "filling mtd img b j V s" "j \<le> m" "b \<notin> bad (snd (nw_st s))" "can_erase fails (fst (nw_st s))"
    "mem (snd (nw_st s)) b = take j V @ replicate (nat (mtd_eb_size mtd) - j) 0xFF"
  shows "\<exists>s'. nw_loop K mtd a False n (mtd_eb_size mtd) (mtd_min_io_size mtd) s
      = nw_loop K mtd a False n (mtd_eb_size mtd) (mtd_min_io_size mtd) s'
    \<and> written mtd fails bad mem img b m V (\<exists>p < m. nat (mtd_min_io_size mtd) dvd p \<and> j \<le> p \<and> fails b p) s s'"
  using assms(9-)
proof (induction "m - j" arbitrary: j s rule: less_induct)
  case less
  let ?io = "nat (mtd_min_io_size mtd)" and ?e = "nat (mtd_eb_size mtd)"
  note io = paged_io [OF geo(1)]
  show ?case
  proof (cases "j = m")
    case True
    then have none: "(\<exists>p < m. ?io dvd p \<and> j \<le> p \<and> fails b p) = False"
      by auto
    show ?thesis
      unfolding none using less(2,6) True by (intro exI [of _ s]) (simp add: written_def)
  next
    case False
    then have j: "j < m" "j < ?e" "j < length V" "int j < mtd_eb_size mtd" "?io dvd j"
      using less(2,3) m(1) io(4) by (auto simp: filling_def)
    have next_fits: "j + ?io \<le> m"
      using j m(2) by (intro dvd_next) auto
    have "nw_off s AND - mtd_eb_size mtd = b * mtd_eb_size mtd"
      unfolding paged_block(1) [OF geo(1)] using less(2) j(4) by (simp add: filling_def)
    then have "new_block K mtd a (mtd_eb_size mtd) s = Some (True, s)"
      using less(2) by (intro new_block_same) (simp add: filling_def)
    then obtain s1 where s1: "nw_loop K mtd a False n (mtd_eb_size mtd) (mtd_min_io_size mtd) s
        = nw_loop K mtd a False n (mtd_eb_size mtd) (mtd_min_io_size mtd) s1"
      "written mtd fails bad mem img b (j + ?io) V (fails b j) s s1"
      using round_filling [OF nand geo a, of s s b j V] filling_more [OF less(2) j(3,4) b geo(2,1)] less(2,4,5,6) j b
      by (auto simp: same_device_def)
    show ?thesis
    proof (cases "fails b j")
      case True
      then have "\<exists>p < m. ?io dvd p \<and> j \<le> p \<and> fails b p"
        using j by blast
      then show ?thesis
        using s1 True by (intro exI [of _ s1]) (simp add: written_def)
    next
      case ok: False
      have eq: "(\<exists>p < m. ?io dvd p \<and> j + ?io \<le> p \<and> fails b p) = (\<exists>p < m. ?io dvd p \<and> j \<le> p \<and> fails b p)"
      proof
        assume "\<exists>p < m. ?io dvd p \<and> j \<le> p \<and> fails b p"
        then obtain p where p: "p < m" "?io dvd p" "j \<le> p" "fails b p"
          by blast
        then have "j < p"
          using ok by (cases "j = p") auto
        then have "j + ?io \<le> p"
          using j(5) p(2) by (intro dvd_next)
        then show "\<exists>p < m. ?io dvd p \<and> j + ?io \<le> p \<and> fails b p"
          using p by blast
      qed auto
      have f1: "m - (j + ?io) < m - j"
        using j(1) io(1) by linarith
      have f2: "filling mtd img b (j + ?io) V s1" "b \<notin> bad (snd (nw_st s1))"
        "can_erase fails (fst (nw_st s1))"
        "mem (snd (nw_st s1)) b = take (j + ?io) V @ replicate (?e - (j + ?io)) 0xFF"
        using s1(2) ok less(4,5) by (simp_all add: written_def)
      obtain s2 where s2: "nw_loop K mtd a False n (mtd_eb_size mtd) (mtd_min_io_size mtd) s1
        = nw_loop K mtd a False n (mtd_eb_size mtd) (mtd_min_io_size mtd) s2"
        "written mtd fails bad mem img b m V (\<exists>p < m. ?io dvd p \<and> j + ?io \<le> p \<and> fails b p) s1 s2"
        using less(1) [OF f1 f2(1) next_fits f2(2-4)] by blast
      have "written mtd fails bad mem img b (j + ?io) V False s s1"
        using s1(2) ok by simp
      then have "written mtd fails bad mem img b m V (\<exists>p < m. ?io dvd p \<and> j \<le> p \<and> fails b p) s s2"
        using s2(2) unfolding eq by (rule written_trans)
      then show ?thesis
        using s1(1) s2(1) by (intro exI [of _ s2]) simp
    qed
  qed
qed


subsection \<open>All eraseblocks\<close>

text \<open>The good eraseblocks from \<open>c\<close> on, in the order of the device.\<close>

definition goods :: "int set \<Rightarrow> int \<Rightarrow> int \<Rightarrow> int list" where
  "goods good c cnt = filter (\<lambda>b. b \<in> good) [c..cnt - 1]"

lemma goods_Nil_Cons:
  assumes "goods good c cnt = b # bs"
  shows "c \<le> b" "b < cnt" "b \<in> good" "bs = goods good (b + 1) cnt" "\<And>x. c \<le> x \<Longrightarrow> x < b \<Longrightarrow> x \<notin> good"
proof -
  have "b \<in> set (goods good c cnt)"
    using assms by simp
  then show 1: "c \<le> b" "b < cnt" "b \<in> good"
    by (auto simp: goods_def)
  have "[c..cnt - 1] = [c..b - 1] @ b # [b + 1..cnt - 1]"
    using 1 upto_split2 [of c b "cnt - 1"] upto_split1 [of c b "cnt - 1"] upto_rec1 [of b "cnt - 1"] by simp
  then have split: "goods good c cnt = filter (\<lambda>b. b \<in> good) [c..b - 1] @ b # goods good (b + 1) cnt"
    using 1(3) by (simp add: goods_def)
  have "filter (\<lambda>b. b \<in> good) [c..b - 1] = []"
  proof (cases "filter (\<lambda>b. b \<in> good) [c..b - 1]")
    case (Cons y ys)
    then have "y \<in> set (filter (\<lambda>b. b \<in> good) [c..b - 1])" "y = b"
      using assms split by simp_all
    then show ?thesis by simp
  qed
  then show "bs = goods good (b + 1) cnt" "\<And>x. c \<le> x \<Longrightarrow> x < b \<Longrightarrow> x \<notin> good"
    using assms split by (auto simp: filter_empty_conv)
qed


lemma goods_cong: "(\<And>x. c \<le> x \<Longrightarrow> x \<in> A \<longleftrightarrow> x \<in> B) \<Longrightarrow> goods A c cnt = goods B c cnt"
  by (auto simp: goods_def intro!: filter_cong)

lemma arrived_more:
  assumes "arrived mtd img c V s" "paged mtd" "whole_device mtd" "c < mtd_eb_cnt mtd"
  shows "nw_more mtd s \<longleftrightarrow> V \<noteq> []"
proof -
  have "c * mtd_eb_size mtd < mtd_eb_cnt mtd * mtd_eb_size mtd"
    using assms(4) paged_block(2) [OF assms(2)] by (intro mult_strict_right_mono)
  then have off: "nw_off s < mtd_size mtd"
    using assms(1,3) by (simp add: arrived_def whole_device_def)
  have "0 < mtd_eb_size mtd" "0 < nat (mtd_min_io_size mtd)"
    using paged_block(2) [OF assms(2)] paged_io(1) [OF assms(2)] by simp_all
  then show ?thesis
    using assms(1) off
    by (cases "nw_pos s") (auto simp: arrived_def nw_more_def page_padded_empty split: if_splits)
qed

text \<open>A full eraseblock, or the last one, is left behind.\<close>

lemma filled_arrived:
  assumes "filling mtd img b (nat (mtd_eb_size mtd)) V s" "paged mtd"
  shows "arrived mtd img (b + 1) (drop (nat (mtd_eb_size mtd)) V) s"
  using assms paged_block(2) [OF assms(2)] by (auto simp: filling_def arrived_def algebra_simps)

lemma filled_done:
  assumes "filling mtd img b m V s" "m = length V" "0 < nat (mtd_min_io_size mtd)"
  shows "\<not> nw_more mtd s"
  using assms by (auto simp: filling_def nw_more_def page_padded_empty)

lemma fill_entered:
  assumes nand: "worn_nand K mtd fails bad mem img" and geo: "paged mtd" "whole_device mtd" and a: "pm_run a" "n \<noteq> 0"
    and b: "in_block mtd b" and m: "m = min (nat (mtd_eb_size mtd)) (length V)" "nat (mtd_min_io_size mtd) dvd m"
    and enter: "new_block K mtd a (mtd_eb_size mtd) s0 = Some (True, s)" "same_device bad mem s0 s" "nw_more mtd s0"
    and s: "filling mtd img b 0 V s" "V \<noteq> []" "b \<notin> bad (snd (nw_st s0))" "can_erase fails (fst (nw_st s0))"
    "mem (snd (nw_st s0)) b = replicate (nat (mtd_eb_size mtd)) 0xFF"
  shows "\<exists>s'. nw_loop K mtd a False n (mtd_eb_size mtd) (mtd_min_io_size mtd) s0
      = nw_loop K mtd a False n (mtd_eb_size mtd) (mtd_min_io_size mtd) s'
    \<and> written mtd fails bad mem img b m V (\<exists>p < m. nat (mtd_min_io_size mtd) dvd p \<and> fails b p) s0 s'"
proof -
  let ?io = "nat (mtd_min_io_size mtd)"
  let ?L = "nw_loop K mtd a False n (mtd_eb_size mtd) (mtd_min_io_size mtd)"
  note io = paged_io [OF geo(1)]
  have pos: "0 < nat (mtd_eb_size mtd)" "0 < length V" "0 < m"
    using io(5) s(2) m(1) by auto
  have first: "0 + ?io \<le> m"
    using pos(3) m(2) by (intro dvd_next) auto
  obtain s1 where s1: "?L s0 = ?L s1" "written mtd fails bad mem img b ?io V (fails b 0) s0 s1"
    using round_filling [OF nand geo a enter s(1) pos(1,2) b s(3,4)] s(5) by auto
  show ?thesis
  proof (cases "fails b 0")
    case True
    then have "(\<exists>p < m. ?io dvd p \<and> fails b p) = True"
      using pos(3) by auto
    then show ?thesis
      using s1 True by (intro exI [of _ s1]) (simp add: written_def)
  next
    case False
    have eq: "(\<exists>p < m. ?io dvd p \<and> ?io \<le> p \<and> fails b p) = (\<exists>p < m. ?io dvd p \<and> fails b p)"
      using False by (metis dvd_imp_le gr0I)
    have w: "written mtd fails bad mem img b ?io V False s0 s1"
      using s1(2) False by simp
    then have f: "filling mtd img b ?io V s1" "b \<notin> bad (snd (nw_st s1))" "can_erase fails (fst (nw_st s1))"
      "mem (snd (nw_st s1)) b = take ?io V @ replicate (nat (mtd_eb_size mtd) - ?io) 0xFF"
      using s(3,4) by (simp_all add: written_def)
    obtain s2 where s2: "?L s1 = ?L s2"
      "written mtd fails bad mem img b m V (\<exists>p < m. ?io dvd p \<and> ?io \<le> p \<and> fails b p) s1 s2"
      using fill_block [OF nand geo a b m f(1) _ f(2-4)] first by auto
    have "written mtd fails bad mem img b m V (\<exists>p < m. ?io dvd p \<and> fails b p) s0 s2"
      using w s2(2) unfolding eq by (rule written_trans)
    then show ?thesis
      using s1(1) s2(1) by (intro exI [of _ s2]) simp
  qed
qed

lemma loop_layout:
  assumes nand: "worn_nand K mtd fails bad mem img" and geo: "paged mtd" "whole_device mtd" and a: "pm_run a" "n \<noteq> 0"
  defines "e \<equiv> nat (mtd_eb_size mtd)" and "io \<equiv> nat (mtd_min_io_size mtd)"
  assumes "arrived mtd img c V s" "0 \<le> c" "c < mtd_eb_cnt mtd \<or> V \<noteq> []" "io dvd length V"
    "can_erase fails (fst (nw_st s))"
    "bs = goods (- bad (snd (nw_st s))) c (mtd_eb_cnt mtd)"
    "\<And>b. b \<in> set bs \<Longrightarrow> mem (snd (nw_st s)) b = replicate e 0xFF"
    "nand_layout e io fails bs V = (ps, ws)" "concat (map snd ps) = V"
  shows "\<exists>s'. nw_loop K mtd a False n (mtd_eb_size mtd) (mtd_min_io_size mtd) s = Some (True, s')
    \<and> fst (nw_st s') = fst (nw_st s) \<and> bad (snd (nw_st s')) = bad (snd (nw_st s)) \<union> set ws
    \<and> (\<forall>(b, part) \<in> set ps. mem (snd (nw_st s')) b = part @ replicate (e - length part) 0xFF)
    \<and> (\<forall>b. b \<notin> set (map fst ps) \<union> set ws \<longrightarrow> mem (snd (nw_st s')) b = mem (snd (nw_st s)) b)"
  using assms(8-)
proof (induction bs arbitrary: c V s ps ws)
  case Nil
  then have "V = []" "c < mtd_eb_cnt mtd" "ps = []" "ws = []"
    by auto
  then show ?case
    using arrived_more [OF Nil(1) geo] by (auto simp: nw_loop.simps)
next
  case (Cons b bs)
  let ?L = "nw_loop K mtd a False n (mtd_eb_size mtd) (mtd_min_io_size mtd)"
  note io = paged_io [OF geo(1), folded io_def e_def]
  note g = goods_Nil_Cons [OF Cons(7) [symmetric]]
  have more: "nw_more mtd s \<longleftrightarrow> V \<noteq> []"
    using arrived_more [OF Cons(2) geo] g(1,2) by simp
  show ?case
  proof (cases "V = []")
    case True
    then have "ps = []" "ws = []"
      using Cons(9) by simp_all
    then show ?thesis
      using more True by (auto simp: nw_loop.simps)
  next
    case False
    let ?m = "min e (length V)"
    have b: "in_block mtd b" "b \<notin> bad (snd (nw_st s))" "b \<notin> set bs"
      using g Cons(3) by (auto simp: in_block_def goods_def)
    have m: "io dvd ?m" "0 < ?m"
      using Cons(5) io False by (auto simp: min_def)
    obtain s1 where s1: "new_block K mtd a (mtd_eb_size mtd) s = Some (True, s1)" "filling mtd img b 0 V s1"
      "same_device bad mem s s1"
      using enter_next [OF nand geo a(1) g(2) Cons(2,3) g(1) b(2)] g(5) by auto
    obtain s2 where s2: "?L s = ?L s2"
      "written mtd fails bad mem img b ?m V (\<exists>p < ?m. io dvd p \<and> fails b p) s s2"
      using fill_entered [OF nand geo a b(1) _ _ s1(1,3) _ s1(2) _ b(2) Cons(6)] more False m Cons(8) [of b]
      by (auto simp: e_def io_def)
    have same: "fst (nw_st s2) = fst (nw_st s)" "\<And>x. x \<noteq> b \<Longrightarrow> mem (snd (nw_st s2)) x = mem (snd (nw_st s)) x"
      using s2(2) by (auto simp: written_def)
    have blank: "mem (snd (nw_st s2)) x = replicate e 0xFF" if "x \<in> set bs" for x
      using that b(3) same(2) [of x] Cons(8) [of x] by auto
    have bs: "bs = goods (- bad (snd (nw_st s2))) (b + 1) (mtd_eb_cnt mtd)"
      unfolding g(4) using s2(2) by (intro goods_cong) (auto simp: written_def split: if_splits)
    show ?thesis
    proof (cases "\<exists>p < ?m. io dvd p \<and> fails b p")
      case True
      have l: "nand_layout e io fails bs V = (ps, tl ws)" "ws = b # tl ws"
        using Cons(9) False True page_offsets_iff [OF io(1) m(1), of "fails b"] by (auto simp: prod_eq_iff)
      have arr: "arrived mtd img (b + 1) V s2" "bad (snd (nw_st s2)) = insert b (bad (snd (nw_st s)))"
        using s2(2) True by (auto simp: written_def)
      obtain s' where s': "?L s2 = Some (True, s')" "fst (nw_st s') = fst (nw_st s2)"
        "bad (snd (nw_st s')) = bad (snd (nw_st s2)) \<union> set (tl ws)"
        "\<forall>(b, part) \<in> set ps. mem (snd (nw_st s')) b = part @ replicate (e - length part) 0xFF"
        "\<forall>b. b \<notin> set (map fst ps) \<union> set (tl ws) \<longrightarrow> mem (snd (nw_st s')) b = mem (snd (nw_st s2)) b"
        using Cons.IH [OF arr(1) _ _ Cons(5) _ bs blank l(1) Cons(10)] g(1) Cons(3,6) False same(1) by auto
      have "set ws = insert b (set (tl ws))"
        by (subst l(2)) simp
      then show ?thesis
        using s2(1) s' same arr(2) by (intro exI [of _ s']) auto
    next
      case ok: False
      define qs where "qs = tl ps"
      have l: "nand_layout e io fails bs (drop e V) = (qs, ws)" "ps = (b, take e V) # qs"
        using Cons(9) False ok page_offsets_iff [OF io(1) m(1), of "fails b"] by (auto simp: prod_eq_iff qs_def)
      have rest: "concat (map snd qs) = drop e V"
      proof -
        have "take e V @ concat (map snd qs) = take e V @ drop e V"
          using Cons(10) unfolding l(2) by simp
        then show ?thesis
          by (simp only: same_append_eq)
      qed
      have fill: "filling mtd img b ?m V s2" "bad (snd (nw_st s2)) = bad (snd (nw_st s))"
        "mem (snd (nw_st s2)) b = take e V @ replicate (e - length (take e V)) 0xFF"
      proof -
        have "(\<exists>p < ?m. io dvd p \<and> fails b p) = False"
          using ok by blast
        then have w: "written mtd fails bad mem img b ?m V False s s2"
          using s2(2) by (simp only:)
        moreover have "take ?m V = take e V" "length (take e V) = ?m"
          by (simp_all add: min_def)
        ultimately show "filling mtd img b ?m V s2" "bad (snd (nw_st s2)) = bad (snd (nw_st s))"
          "mem (snd (nw_st s2)) b = take e V @ replicate (e - length (take e V)) 0xFF"
          unfolding written_def e_def by (simp_all only: if_False)
      qed
      have blocks: "set (map fst qs) \<union> set ws \<subseteq> set bs"
        using nand_layout_blocks [of e io fails bs "drop e V"] l(1) by simp
      have "\<exists>s'. ?L s2 = Some (True, s') \<and> fst (nw_st s') = fst (nw_st s2)
        \<and> bad (snd (nw_st s')) = bad (snd (nw_st s2)) \<union> set ws
        \<and> (\<forall>(b, part) \<in> set qs. mem (snd (nw_st s')) b = part @ replicate (e - length part) 0xFF)
        \<and> (\<forall>b. b \<notin> set (map fst qs) \<union> set ws \<longrightarrow> mem (snd (nw_st s')) b = mem (snd (nw_st s2)) b)"
      proof (cases "length V \<le> e")
        case True
        then have "\<not> nw_more mtd s2"
          using filled_done [OF fill(1)] io(1) by (simp add: io_def)
        moreover have "qs = []" "ws = []"
          using l(1) True by simp_all
        ultimately show ?thesis
          by (auto simp: nw_loop.simps)
      next
        case longer: False
        then have "arrived mtd img (b + 1) (drop e V) s2"
          using fill(1) filled_arrived [OF _ geo(1)] by (simp add: e_def min_def)
        moreover have "io dvd length (drop e V)"
          using Cons(5) io(2) by (simp add: dvd_diff_nat)
        ultimately show ?thesis
          using Cons.IH [OF _ _ _ _ _ bs blank l(1) rest] g(1) Cons(3,6) longer same(1) by auto
      qed
      then obtain s' where s': "?L s2 = Some (True, s')" "fst (nw_st s') = fst (nw_st s2)"
        "bad (snd (nw_st s')) = bad (snd (nw_st s2)) \<union> set ws"
        "\<forall>(b, part) \<in> set qs. mem (snd (nw_st s')) b = part @ replicate (e - length part) 0xFF"
        "\<forall>b. b \<notin> set (map fst qs) \<union> set ws \<longrightarrow> mem (snd (nw_st s')) b = mem (snd (nw_st s2)) b"
        by blast
      moreover have "mem (snd (nw_st s')) b = mem (snd (nw_st s2)) b"
        using s'(5) blocks b(3) by blast
      ultimately show ?thesis
        using s2(1) same fill l(2) by (intro exI [of _ s']) auto
    qed
  qed
qed

end
