(* ===== verification/WornSim.thy ===== *)
theory WornSim
  imports NandwriteWorn
begin

text \<open>
  A NAND device with eraseblocks that wear out: the perfect device, with the set of eraseblocks
  that are marked bad beside its state, and writes that fail at given offsets.
\<close>

type_synonym wnand = "pnand \<times> int set"

definition beside :: "(pnand \<Rightarrow> 'r \<times> pnand) \<Rightarrow> wnand \<Rightarrow> 'r \<times> wnand" where
  "beside f s = (case f (fst s) of (r, k) \<Rightarrow> (r, k, snd s))"

definition worn_kernel :: "int \<Rightarrow> (int \<Rightarrow> nat \<Rightarrow> bool) \<Rightarrow> wnand kernel" where
  "worn_kernel sz fails = \<lparr>
     k_memerase64 = (\<lambda>start len. beside (k_memerase64 (perfect_kernel sz) start len)),
     k_memerase = (\<lambda>start len s. (Some ENOTTY, s)),
     k_memlock = (\<lambda>start len s. (None, s)),
     k_memunlock = (\<lambda>start len s. (None, s)),
     k_memislocked = (\<lambda>start len s. (Inr 0, s)),
     k_getbadblock = (\<lambda>seek s. (Inr (if seek div sz \<in> snd s then 1 else 0), s)),
     k_setbadblock = (\<lambda>seek s. (None, fst s, insert (seek div sz) (snd s))),
     k_lseek = (\<lambda>seek. beside (k_lseek (perfect_kernel sz) seek)),
     k_read = (\<lambda>n. beside (k_read (perfect_kernel sz) n)),
     k_write = (\<lambda>d s.
       if fails (pn_pos (fst s) div sz) (nat (pn_pos (fst s) mod sz)) then (Inl EIO, s)
       else beside (k_write (perfect_kernel sz) d) s),
     k_memwrite = (\<lambda>req s. (Some ENOTTY, s)),
     k_memgetoobsel = (\<lambda>s. (Inl EOPNOTSUPP, s)),
     k_oob64 = (\<lambda>wr start len d s. (None, d, s)),
     k_oob = (\<lambda>wr start len d s. (None, d, s)),
     k_pwrite = (\<lambda>d seek s. (Inr (int (length d)), s)),
     k_mtdfilemode_raw = (\<lambda>s. (None, s)),
     k_img_stat = beside (k_img_stat (perfect_kernel sz)),
     k_img_open = beside (k_img_open (perfect_kernel sz)),
     k_img_lseek = (\<lambda>n. beside (k_img_lseek (perfect_kernel sz) n)),
     k_img_read = (\<lambda>n. beside (k_img_read (perfect_kernel sz) n)),
     k_getline = (\<lambda>s. (None, s)) \<rparr>"

abbreviation wn_mem :: "wnand \<Rightarrow> int \<Rightarrow> byte list" where
  "wn_mem s \<equiv> pn_mem (fst s)"

abbreviation wn_img :: "wnand \<Rightarrow> byte list" where
  "wn_img s \<equiv> pn_img (fst s)"

lemma worn_kernel_worn:
  assumes "0 < sz" "cnt * sz < 2 ^ 64"
  shows "worn_nand (worn_kernel sz fails) (nand_mtd cnt sz io) fails snd wn_mem wn_img"
proof -
  have "reports_bad (worn_kernel sz fails) (nand_mtd cnt sz io) snd wn_mem wn_img"
    using assms by (simp add: reports_bad_def worn_kernel_def)
  moreover have "retires_blocks (worn_kernel sz fails) (nand_mtd cnt sz io) fails snd wn_mem wn_img"
    using assms erase_address [OF assms]
    by (auto simp: retires_blocks_def worn_kernel_def beside_def perfect_kernel_def others_same_def
        simp del: of_int_mult)
  moreover have "writes_pages (worn_kernel sz fails) (nand_mtd cnt sz io) fails snd wn_mem wn_img"
    unfolding writes_pages_def
  proof (intro allI impI)
    fix k :: wnand and d :: "byte list" and p :: nat and eb :: int
    assume a: "d \<noteq> []" "p + length d \<le> nat (mtd_eb_size (nand_mtd cnt sz io))"
      "take (length d) (drop p (wn_mem k eb)) = replicate (length d) 0xFF"
    then have "int p < sz"
      by (cases d) auto
    then have "(eb * sz + int p) div sz = eb" "nat ((eb * sz + int p) mod sz) = p"
      using assms(1) by simp_all
    then show "\<exists>k1 r k2. k_lseek (worn_kernel sz fails) (eb * mtd_eb_size (nand_mtd cnt sz io) + int p) k
          = (eb * mtd_eb_size (nand_mtd cnt sz io) + int p, k1)
        \<and> k_write (worn_kernel sz fails) d k1 = (r, k2) \<and> snd k2 = snd k \<and> others_same wn_mem wn_img eb k k2
        \<and> (if fails eb p then r = Inl EIO else r = Inr (int (length d)) \<and> wn_mem k2 eb = store_at p d (wn_mem k eb))"
      using program_erased_part [OF a(3)]
      by (simp add: worn_kernel_def beside_def perfect_kernel_def others_same_def
          del: div_mult_self3 mod_mult_self3)
  qed
  moreover have "reads_input (worn_kernel sz fails) (\<lambda>k. (snd k, wn_mem k)) wn_img"
    by (auto simp: reads_input_def worn_kernel_def beside_def perfect_kernel_def)
  ultimately show ?thesis
    by (simp add: worn_nand_def)
qed

end
