(* ===== verification/NandwritePlace.thy ===== *)
theory NandwritePlace
  imports WornSim
begin

text \<open>
  \<^verbatim>\<open>nandwrite -pm\<close> as a whole: where it puts an image on a device with writes that fail, on one
  without, and the whole flashing of a kernel partition, \<^verbatim>\<open>flash_erase\<close> followed by \<^verbatim>\<open>nandwrite -pm\<close>.
\<close>

subsection \<open>The program\<close>

text \<open>How the input is opened: from its start, with its length; the rest \<open>obs\<close> of the state stays.\<close>

definition opens_input :: "'k kernel \<Rightarrow> ('k \<Rightarrow> 'a) \<Rightarrow> ('k \<Rightarrow> byte list) \<Rightarrow> bool" where
  "opens_input K obs img \<longleftrightarrow>
     (\<forall>k. \<exists>k1 k2. k_img_open K k = (None, k1) \<and> k_img_stat K k1 = (Inr (int (length (img k))), k2)
        \<and> obs k2 = obs k \<and> img k2 = img k)"

definition whole_image :: "nw_args \<Rightarrow> bool" where
  "whole_image a \<longleftrightarrow> nw_mtdoffset a = 0 \<and> nw_inputskip a = 0 \<and> nw_inputsize a = 0 \<and> nw_img a \<noteq> ''-'' \<and> \<not> nw_noecc a"

lemma layout_fits: "length (concat (map snd (fst (nand_layout n io fails bs d)))) \<le> n * length bs"
  by (induction bs arbitrary: d) (auto simp: trans_le_add2 intro!: add_mono)

lemma nandwrite_run_layout:
  assumes nand: "worn_nand K mtd fails bad mem img" "opens_input K (\<lambda>k. (bad k, mem k)) img"
    and geo: "paged mtd" "whole_device mtd" and a: "pm_run a" "whole_image a"
  defines "e \<equiv> nat (mtd_eb_size mtd)" and "io \<equiv> nat (mtd_min_io_size mtd)"
  assumes st: "can_erase fails (fst st)" and d: "img (snd st) \<noteq> []"
    and bs: "bs = goods (- bad (snd st)) 0 (mtd_eb_cnt mtd)"
    and erased: "\<And>b. b \<in> set bs \<Longrightarrow> mem (snd st) b = replicate e 0xFF"
    and l: "nand_layout e io fails bs (page_padded io (img (snd st))) = (ps, ws)"
    and whole: "concat (map snd ps) = page_padded io (img (snd st))"
  shows "\<exists>k'. nandwrite_run K mtd a st = Some (True, fst st, k') \<and> bad k' = bad (snd st) \<union> set ws
    \<and> (\<forall>(b, part) \<in> set ps. mem k' b = part @ replicate (e - length part) 0xFF)
    \<and> (\<forall>b. b \<notin> set (map fst ps) \<union> set ws \<longrightarrow> mem k' b = mem (snd st) b)"
proof -
  let ?d = "img (snd st)"
  let ?n = "int (length ?d)"
  obtain k2 where open_in: "open_input K a (mtd_min_io_size mtd) (snd st) = (Inr (?n, ?n), k2)"
    "bad k2 = bad (snd st)" "mem k2 = mem (snd st)" "img k2 = ?d"
  proof -
    obtain k1 k2 where "k_img_open K (snd st) = (None, k1)" "k_img_stat K k1 = (Inr ?n, k2)"
      "(bad k2, mem k2) = (bad (snd st), mem (snd st))" "img k2 = ?d"
      using nand(2) unfolding opens_input_def by blast
    then show ?thesis
      using a(2) that [of k2] by (simp add: open_input_def whole_image_def)
  qed
  have io: "0 < mtd_min_io_size mtd" "mtd_eb_size mtd mod mtd_min_io_size mtd = 0"
    and e: "0 < mtd_eb_size mtd" "mtd_eb_size mtd < 2 ^ 31" "int e = mtd_eb_size mtd"
    using geo(1) paged_block [OF geo(1)] by (auto simp: paged_def e_def)
  have size: "mtd_size mtd = mtd_eb_cnt mtd * mtd_eb_size mtd" "0 < mtd_eb_cnt mtd"
    using geo(2) by (simp_all add: whole_device_def)
  have "length bs \<le> nat (mtd_eb_cnt mtd)"
    unfolding bs goods_def by (rule order_trans [OF length_filter_le]) simp
  then have "int (length bs) * mtd_eb_size mtd \<le> mtd_eb_cnt mtd * mtd_eb_size mtd"
    using e size(2) by (intro mult_right_mono) linarith+
  then have "int (e * length bs) \<le> mtd_eb_cnt mtd * mtd_eb_size mtd"
    by (simp add: e(3) mult.commute)
  moreover have "length ?d \<le> length (page_padded io ?d)"
    by (simp add: page_padded_def)
  then have "length ?d \<le> e * length bs"
    using layout_fits [of e io fails bs "page_padded io ?d"] unfolding l fst_conv whole by linarith
  ultimately have fits: "?n \<le> mtd_size mtd"
    using size(1) by linarith
  have "?n div mtd_min_io_size mtd * mtd_min_io_size mtd \<le> ?n"
    by (rule div_block_le(1) [OF io(1)])
  then have room: "\<not> c_div ?n (mtd_min_io_size mtd) * mtd_min_io_size mtd > mtd_size mtd"
    using fits io by (simp add: c_div_def)
  have "mtd_eb_size mtd div mtd_min_io_size mtd * mtd_min_io_size mtd = mtd_eb_size mtd"
    using div_mult_mod_eq [of "mtd_eb_size mtd" "mtd_min_io_size mtd"] io(2) by simp
  then have buf: "c_uint (c_div (c_int (mtd_eb_size mtd)) (mtd_min_io_size mtd) * mtd_min_io_size mtd) = mtd_eb_size mtd"
    using e io by (simp add: c_div_def)
  let ?s = "\<lparr>nw_off = 0, nw_imglen = ?n, nw_buf = replicate (nat (mtd_eb_size mtd)) 0xFF, nw_len = 0, nw_pos = None,
     nw_blockstart = -1, nw_st = (fst st, k2)\<rparr>"
  have arr: "arrived mtd img 0 (page_padded io ?d) ?s"
    using d io open_in(4) by (simp add: arrived_def io_def page_padded_empty)
  have pre: "can_erase fails (fst (nw_st ?s))" "bs = goods (- bad (snd (nw_st ?s))) 0 (mtd_eb_cnt mtd)"
    "\<And>b. b \<in> set bs \<Longrightarrow> mem (snd (nw_st ?s)) b = replicate (nat (mtd_eb_size mtd)) 0xFF"
    using st bs erased open_in(2,3) by (simp_all add: e_def)
  obtain s' where s': "nw_loop K mtd a False ?n (mtd_eb_size mtd) (mtd_min_io_size mtd) ?s = Some (True, s')"
    "fst (nw_st s') = fst st" "bad (snd (nw_st s')) = bad (snd st) \<union> set ws"
    "\<forall>(b, part) \<in> set ps. mem (snd (nw_st s')) b = part @ replicate (e - length part) 0xFF"
    "\<forall>b. b \<notin> set (map fst ps) \<union> set ws \<longrightarrow> mem (snd (nw_st s')) b = mem (snd st) b"
    using loop_layout [OF nand(1) geo a(1) _ arr [unfolded io_def] _ _ page_padded_dvd pre
        l [unfolded e_def io_def] whole [unfolded io_def], of ?n] d io size(2) open_in(2,3)
    by (auto simp: e_def)
  have "nandwrite_run K mtd a st = Some (True, nw_st s')"
    using open_in(1) a io e room buf s'(1)
    by (simp add: nandwrite_run_def pm_run_def whole_image_def)
  then show ?thesis
    using s'(2-) by (cases "nw_st s'") auto
qed

subsection \<open>The calls of ofgwrite\<close>

text \<open>What the options are at the program's start, and still are after calls with \<^verbatim>\<open>-pm\<close> only.\<close>

definition kernel_args :: "nw_args \<Rightarrow> bool" where
  "kernel_args a \<longleftrightarrow> \<not> nw_writeoob a \<and> \<not> nw_onlyoob a \<and> \<not> nw_noecc a \<and> \<not> nw_noskipbad a \<and> \<not> nw_autoplace a
     \<and> nw_blockalign a = 1 \<and> nw_inputskip a = 0 \<and> nw_inputsize a = 0"

lemma pm_args:
  assumes "\<not> prefix ''-'' dev" "\<not> prefix ''-'' file"
  shows "getopt_long (parse_optstring ''hb:mnNoOpqs:a'') nw_long [''-pm'', dev, file]
    = ([(CHR ''p'', None, None), (CHR ''m'', None, None)], [dev, file])"
proof -
  have "getopt_long (parse_optstring ''hb:mnNoOpqs:a'') nw_long [dev, file] = ([], [dev, file])"
    using assms by (intro getopt_long_plain) (simp del: getopt_long.simps)
  then show ?thesis
    by (subst getopt_long.simps) (simp del: getopt_long.simps)
qed

lemma process_pm:
  assumes "kernel_args a0" "\<not> prefix ''-'' dev" "\<not> prefix ''-'' file"
  shows "\<exists>a. process_options [''-pm'', dev, file] a0 = Inr a \<and> pm_run a \<and> whole_image a \<and> kernel_args a"
proof -
  have "process_options [''-pm'', dev, file] a0 =
      Inr (a0\<lparr>nw_mtdoffset := 0, nw_pad := True, nw_markbad := True, nw_device := dev, nw_img := file\<rparr>)"
    using assms(1) unfolding process_options_def pm_args [OF assms(2,3)]
    by (simp add: nw_option_def kernel_args_def Let_def)
  moreover have "file \<noteq> ''-''"
    using assms(3) by auto
  ultimately show ?thesis
    using assms(1) by (auto simp: pm_run_def whole_image_def kernel_args_def)
qed

lemma nandwrite_layout:
  assumes "worn_nand K mtd fails bad mem img" "opens_input K (\<lambda>k. (bad k, mem k)) img" "paged mtd" "whole_device mtd"
    and "nwe_opens env" "nwe_libmtd env" "nwe_mtd env = Some mtd"
    and "kernel_args a0" "\<not> prefix ''-'' dev" "\<not> prefix ''-'' file"
    and "can_erase fails (fst st)" "img (snd st) \<noteq> []"
    and "bs = goods (- bad (snd st)) 0 (mtd_eb_cnt mtd)"
    and "\<And>b. b \<in> set bs \<Longrightarrow> mem (snd st) b = replicate (nat (mtd_eb_size mtd)) 0xFF"
    and "nand_layout (nat (mtd_eb_size mtd)) (nat (mtd_min_io_size mtd)) fails bs
           (page_padded (nat (mtd_min_io_size mtd)) (img (snd st))) = (ps, ws)"
    and "concat (map snd ps) = page_padded (nat (mtd_min_io_size mtd)) (img (snd st))"
  shows "\<exists>a k'. nandwrite_main K env [''-pm'', dev, file] a0 st = Some (NwReturns 0, a, fst st, k') \<and> kernel_args a
    \<and> bad k' = bad (snd st) \<union> set ws
    \<and> (\<forall>(b, part) \<in> set ps. mem k' b = part @ replicate (nat (mtd_eb_size mtd) - length part) 0xFF)
    \<and> (\<forall>b. b \<notin> set (map fst ps) \<union> set ws \<longrightarrow> mem k' b = mem (snd st) b)"
proof -
  obtain a where a: "process_options [''-pm'', dev, file] a0 = Inr a" "pm_run a" "whole_image a" "kernel_args a"
    using process_pm [OF assms(8-10)] by blast
  obtain k' where "nandwrite_run K mtd a st = Some (True, fst st, k')" "bad k' = bad (snd st) \<union> set ws"
    "\<forall>(b, part) \<in> set ps. mem k' b = part @ replicate (nat (mtd_eb_size mtd) - length part) 0xFF"
    "\<forall>b. b \<notin> set (map fst ps) \<union> set ws \<longrightarrow> mem k' b = mem (snd st) b"
    using nandwrite_run_layout [OF assms(1-4) a(2,3) assms(11-16)] by blast
  then show ?thesis
    using a assms(5-7) by (cases st) (auto simp: nandwrite_main_def whole_image_def)
qed

text \<open>
  Property C6. \<^verbatim>\<open>nandwrite -pm\<close> copes with eraseblocks that wear out: as long as the good ones that
  do not fail have room, it succeeds; the image, filled up to whole pages, lies in order on the good
  eraseblocks that do not fail, those that fail on the way are marked bad, and no other changes.
\<close>

theorem nandwrite_survives_failures:
  assumes "worn_nand K mtd fails bad mem img" "opens_input K (\<lambda>k. (bad k, mem k)) img" "paged mtd" "whole_device mtd"
    and "nwe_opens env" "nwe_libmtd env" "nwe_mtd env = Some mtd"
    and "kernel_args a0" "\<not> prefix ''-'' dev" "\<not> prefix ''-'' file"
    and "can_erase fails (fst st)" "img (snd st) \<noteq> []"
    and "bs = goods (- bad (snd st)) 0 (mtd_eb_cnt mtd)"
    and "\<And>b. b \<in> set bs \<Longrightarrow> mem (snd st) b = replicate (nat (mtd_eb_size mtd)) 0xFF"
    and "nand_layout (nat (mtd_eb_size mtd)) (nat (mtd_min_io_size mtd)) fails bs
           (page_padded (nat (mtd_min_io_size mtd)) (img (snd st))) = (ps, ws)"
    and "concat (map snd ps) = page_padded (nat (mtd_min_io_size mtd)) (img (snd st))"
  shows "\<exists>a k'. nandwrite_main K env [''-pm'', dev, file] a0 st = Some (NwReturns 0, a, fst st, k') \<and> kernel_args a
    \<and> bad k' = bad (snd st) \<union> set ws
    \<and> (\<forall>(b, part) \<in> set ps. mem k' b = part @ replicate (nat (mtd_eb_size mtd) - length part) 0xFF)
    \<and> (\<forall>b. b \<notin> set (map fst ps) \<union> set ws \<longrightarrow> mem k' b = mem (snd st) b)"
  using assms by (rule nandwrite_layout)

lemma initial_kernel_args: "kernel_args nw_initial"
  by (simp add: kernel_args_def nw_initial_def)

text \<open>Five eraseblocks; the second fails at its third page, the third is bad.\<close>

definition wearing :: "int \<Rightarrow> nat \<Rightarrow> bool" where
  "wearing eb p \<longleftrightarrow> eb = 1 \<and> p = 64"

definition worn_state :: wnand where
  "worn_state = (\<lparr>pn_mem = (\<lambda>eb. replicate 128 0xFF), pn_pos = 0, pn_img = replicate 300 7\<rparr>, {2})"

abbreviation five_mtd :: mtd_dev_info where
  "five_mtd \<equiv> nand_mtd 5 128 32"

lemma worn_opens: "opens_input (worn_kernel sz fails) (\<lambda>k. (snd k, wn_mem k)) wn_img"
  by (simp add: opens_input_def worn_kernel_def beside_def perfect_kernel_def)

lemma worn_example:
  "paged five_mtd" "whole_device five_mtd" "goods (- {2}) 0 5 = [0, 1, 3, 4]"
  "page_offsets 32 128 = [0, 32, 64, 96]" "page_offsets 32 64 = [0, 32]"
  "page_padded 32 (replicate 300 7) = replicate 128 7 @ replicate 128 7 @ replicate 44 7 @ replicate 20 0xFF"
proof -
  have "[0..4] = [0, 1, 2, 3, 4 :: int]" "[0..<4] = [0, 1, 2, 3]" "[0..<2] = [0, 1 :: nat]"
    by code_simp+
  then show "goods (- {2}) 0 5 = [0, 1, 3, 4]" "page_offsets 32 128 = [0, 32, 64, 96]" "page_offsets 32 64 = [0, 32]"
    by (simp_all add: goods_def page_offsets_def)
qed (auto simp: paged_def whole_device_def page_padded_def simp flip: replicate_add append_assoc intro!: exI [of _ 7])

theorem nandwrite_survives_failures_witness:
  "\<exists>a k'. nandwrite_main (worn_kernel 128 wearing) \<lparr>nwe_libmtd = True, nwe_opens = True, nwe_mtd = Some five_mtd\<rparr>
      [''-pm'', ''/dev/mtd1'', ''kernel.bin''] nw_initial (OFFS64_IOCTLS_SUPPORTED, worn_state)
      = Some (NwReturns 0, a, OFFS64_IOCTLS_SUPPORTED, k')
    \<and> snd k' = {1, 2} \<and> wn_mem k' 3 = replicate 128 7 \<and> wn_mem k' 4 = replicate 44 7 @ replicate 84 0xFF"
proof -
  let ?st = "(OFFS64_IOCTLS_SUPPORTED, worn_state)"
  let ?ps = "[(0, replicate 128 7), (3, replicate 128 7), (4, replicate 44 7 @ replicate 20 0xFF)] :: (int \<times> byte list) list"
  have st: "snd worn_state = {2}" "wn_img worn_state = replicate 300 7" "\<And>b. wn_mem worn_state b = replicate 128 0xFF"
    by (simp_all add: worn_state_def)
  have "\<exists>a k'. nandwrite_main (worn_kernel 128 wearing) \<lparr>nwe_libmtd = True, nwe_opens = True, nwe_mtd = Some five_mtd\<rparr>
      [''-pm'', ''/dev/mtd1'', ''kernel.bin''] nw_initial ?st = Some (NwReturns 0, a, fst ?st, k') \<and> kernel_args a
    \<and> snd k' = snd (snd ?st) \<union> set [1]
    \<and> (\<forall>(b, part) \<in> set ?ps. wn_mem k' b = part @ replicate (nat (mtd_eb_size five_mtd) - length part) 0xFF)
    \<and> (\<forall>b. b \<notin> set (map fst ?ps) \<union> set [1] \<longrightarrow> wn_mem k' b = wn_mem (snd ?st) b)"
    by (rule nandwrite_survives_failures [OF worn_kernel_worn worn_opens worn_example(1,2), where bs = "[0, 1, 3, 4]"])
      (simp_all add: worn_example wearing_def st initial_kernel_args can_erase_def)
  then show ?thesis
    by (simp add: st insert_commute flip: replicate_add) blast
qed

subsection \<open>A device without failures\<close>

text \<open>The contents when data is laid out over eraseblocks, a part for each.\<close>

fun placed :: "nat \<Rightarrow> int list \<Rightarrow> byte list \<Rightarrow> (int \<Rightarrow> byte list) \<Rightarrow> int \<Rightarrow> byte list" where
  "placed n [] d m = m"
| "placed n (b # bs) d m =
     (if d = [] then m
      else placed n bs (drop n d) (m(b := take n d @ replicate (n - length (take n d)) 0xFF)))"

lemma placed_Nil [simp]: "placed n bs [] m = m"
  by (cases bs) auto

lemma placed_other: "b \<notin> set bs \<Longrightarrow> placed n bs d m b = m b"
  by (induction n bs d m rule: placed.induct) auto

lemma page_padded_length:
  assumes "length d \<le> m" "0 < io" "io dvd m"
  shows "length (page_padded io d) \<le> m"
proof (cases "length d mod io = 0")
  case True
  then show ?thesis
    using assms(1) by (simp add: page_padded_def)
next
  case False
  obtain q where q: "m = q * io"
    using assms(3) by (metis dvdE mult.commute)
  have l: "length d = length d div io * io + length d mod io"
    by simp
  moreover have r: "length d mod io < io"
    using assms(2) by simp
  moreover have "length (page_padded io d) = length d + (io - length d mod io)"
    using False r by (simp add: page_padded_def)
  ultimately have "length (page_padded io d) = (length d div io + 1) * io"
    unfolding add_mult_distrib by linarith
  moreover have "length d div io * io < q * io"
    using l False assms(1) q by linarith
  then have "length d div io + 1 \<le> q"
    by simp
  ultimately show ?thesis
    unfolding q by (simp only: mult_le_mono1)
qed

text \<open>Laying data out and reading the eraseblocks again gives the data.\<close>

lemma placed_reads_back:
  assumes "distinct bs" "\<forall>b \<in> set bs. m b = replicate n 0xFF" "length d \<le> n * length bs"
  shows "concat (map (placed n bs d m) bs) = d @ replicate (n * length bs - length d) 0xFF"
  using assms
proof (induction bs arbitrary: d m)
  case Nil
  then show ?case by simp
next
  case (Cons b bs)
  show ?case
  proof (cases "d = []")
    case True
    have "concat (map m xs) = replicate (n * length xs) 0xFF" if "\<forall>b \<in> set xs. m b = replicate n 0xFF" for xs
      using that by (induction xs) (auto simp: replicate_add)
    then show ?thesis
      using True Cons(3) by (simp add: replicate_add)
  next
    case False
    let ?m = "m(b := take n d @ replicate (n - length (take n d)) 0xFF)"
    have "\<forall>b' \<in> set bs. ?m b' = replicate n 0xFF"
      using Cons(2,3) by auto
    then have ih: "concat (map (placed n bs (drop n d) ?m) bs)
        = drop n d @ replicate (n * length bs - length (drop n d)) 0xFF"
      using Cons by (intro Cons.IH) auto
    have "placed n bs (drop n d) ?m b = ?m b"
      using Cons(2) by (intro placed_other) simp
    then have "concat (map (placed n (b # bs) d m) (b # bs)) =
        (take n d @ replicate (n - length (take n d)) 0xFF)
        @ drop n d @ replicate (n * length bs - length (drop n d)) 0xFF"
      by (simp only: placed.simps False if_False list.map concat.simps ih fun_upd_same)
    also have "\<dots> = d @ replicate (n * length (b # bs) - length d) 0xFF"
    proof (cases "n \<le> length d")
      case True
      then show ?thesis
        by (simp add: algebra_simps flip: append_assoc)
    next
      case False
      then have "n - length d + n * length bs = n * length (b # bs) - length d"
        by simp
      then show ?thesis
        using False by (simp flip: replicate_add)
    qed
    finally show ?thesis .
  qed
qed

lemma page_worn:
  assumes "page_nand K mtd good mem img"
  shows "worn_nand K mtd (\<lambda>b p. False) (\<lambda>k. - good) mem img"
proof -
  note reads = assms [unfolded page_nand_def, THEN conjunct2, THEN conjunct2, THEN conjunct2, THEN conjunct2]
  have "reads_input K (\<lambda>k. (- good, mem k)) img"
    using reads by (simp add: reads_input_def)
  moreover have "\<exists>k1 k2. k_lseek K (eb * mtd_eb_size mtd + int p) k = (eb * mtd_eb_size mtd + int p, k1)
      \<and> k_write K d k1 = (Inr (int (length d)), k2) \<and> others_same mem img eb k k2
      \<and> mem k2 eb = store_at p d (mem k eb)"
    if w: "in_block mtd eb" "eb \<in> good" "p + length d \<le> nat (mtd_eb_size mtd)"
      "take (length d) (drop p (mem k eb)) = replicate (length d) 0xFF" for eb p k and d :: "byte list"
  proof -
    have "\<forall>k d offs. \<forall>eb \<in> good. in_block mtd eb \<longrightarrow> offs + length d \<le> nat (mtd_eb_size mtd)
          \<longrightarrow> take (length d) (drop offs (mem k eb)) = replicate (length d) 0xFF \<longrightarrow>
          (\<exists>k1 k2. k_lseek K (eb * mtd_eb_size mtd + int offs) k = (eb * mtd_eb_size mtd + int offs, k1)
             \<and> k_write K d k1 = (Inr (int (length d)), k2)
             \<and> mem k2 = (mem k)(eb := store_at offs d (mem k eb)) \<and> img k2 = img k)"
      using assms unfolding page_nand_def by (elim conjE)
    from this [rule_format, OF w(2,1,3,4)] show ?thesis
      by (auto simp: others_same_def)
  qed
  then have "writes_pages K mtd (\<lambda>b p. False) (\<lambda>k. - good) mem img"
    unfolding writes_pages_def by simp
  moreover have "reports_bad K mtd (\<lambda>k. - good) mem img"
    unfolding reports_bad_def
  proof (intro allI impI)
    fix k eb
    assume "in_block mtd eb"
    moreover have "\<forall>k eb. in_block mtd eb \<longrightarrow>
          (\<exists>k'. k_getbadblock K (eb * mtd_eb_size mtd) k = (Inr (if eb \<in> good then 0 else 1), k')
             \<and> mem k' = mem k \<and> img k' = img k)"
      using assms unfolding page_nand_def by (elim conjE)
    ultimately obtain k' where "k_getbadblock K (eb * mtd_eb_size mtd) k = (Inr (if eb \<in> good then 0 else 1), k')"
      "mem k' = mem k" "img k' = img k"
      by blast
    then show "\<exists>k'. k_getbadblock K (eb * mtd_eb_size mtd) k = (Inr (if eb \<in> - good then 1 else 0), k')
        \<and> - good = - good \<and> mem k' = mem k \<and> img k' = img k"
      by (cases "eb \<in> good") auto
  qed
  moreover have "mtd_bb_allowed mtd"
    using assms unfolding page_nand_def by (elim conjE)
  ultimately show ?thesis
    by (simp add: worn_nand_def retires_blocks_def)
qed

text \<open>When nothing fails, the contents behind the run are determined.\<close>

lemma layout_placed:
  assumes "distinct bs" "length d \<le> n * length bs"
    and "nand_layout n io (\<lambda>b p. False) bs d = (ps, ws)"
  shows "concat (map snd ps) = d \<and> ws = []
    \<and> (\<forall>m m'. (\<forall>(b, part) \<in> set ps. m' b = part @ replicate (n - length part) 0xFF)
         \<longrightarrow> (\<forall>b. b \<notin> set (map fst ps) \<longrightarrow> m' b = m b) \<longrightarrow> m' = placed n bs d m)"
  using assms
proof (induction bs arbitrary: d ps)
  case Nil
  then show ?case by auto
next
  case (Cons b bs)
  show ?case
  proof (cases "d = []")
    case True
    then show ?thesis
      using Cons.prems(3) by auto
  next
    case False
    define qs where "qs = tl ps"
    have no: "\<not> list_ex (\<lambda>p. False) ps" for ps :: "nat list"
      by (induction ps) auto
    have l: "nand_layout n io (\<lambda>b p. False) bs (drop n d) = (qs, ws)" "ps = (b, take n d) # qs"
      using Cons.prems(3) False by (auto simp: no prod_eq_iff qs_def)
    have ih: "concat (map snd qs) = drop n d" "ws = []"
      "\<And>m m'. (\<forall>(b, part) \<in> set qs. m' b = part @ replicate (n - length part) 0xFF) \<Longrightarrow>
         (\<forall>b. b \<notin> set (map fst qs) \<longrightarrow> m' b = m b) \<Longrightarrow> m' = placed n bs (drop n d) m"
      using Cons.IH [OF _ _ l(1)] Cons.prems(1,2) by auto
    have "set (map fst qs) \<subseteq> set bs"
      using nand_layout_blocks [of n io "\<lambda>b p. False" bs "drop n d"] l(1) by simp
    then have b: "b \<notin> set (map fst qs)"
      using Cons.prems(1) by auto
    have "m' = placed n (b # bs) d m"
      if m': "\<forall>(b, part) \<in> set ps. m' b = part @ replicate (n - length part) 0xFF" "\<forall>b. b \<notin> set (map fst ps) \<longrightarrow> m' b = m b"
      for m m'
    proof -
      have "m' = placed n bs (drop n d) (m(b := take n d @ replicate (n - length (take n d)) 0xFF))"
        using m' b by (intro ih(3)) (auto simp: l(2))
      then show ?thesis
        using False by simp
    qed
    then show ?thesis
      using ih(1,2) l(2) by auto
  qed
qed

lemma nandwrite_runs:
  assumes "page_nand K mtd good mem img" "opens_input K mem img" "paged mtd" "whole_device mtd"
    and "nwe_opens env" "nwe_libmtd env" "nwe_mtd env = Some mtd"
    and "kernel_args a0" "\<not> prefix ''-'' dev" "\<not> prefix ''-'' file"
    and "\<And>b. b \<in> set (goods good 0 (mtd_eb_cnt mtd)) \<Longrightarrow> mem (snd st) b = replicate (nat (mtd_eb_size mtd)) 0xFF"
    and "img (snd st) \<noteq> []"
    and "length (img (snd st)) \<le> nat (mtd_eb_size mtd) * length (goods good 0 (mtd_eb_cnt mtd))"
  shows "\<exists>a k'. nandwrite_main K env [''-pm'', dev, file] a0 st = Some (NwReturns 0, a, fst st, k') \<and> kernel_args a
    \<and> mem k' = placed (nat (mtd_eb_size mtd)) (goods good 0 (mtd_eb_cnt mtd))
        (page_padded (nat (mtd_min_io_size mtd)) (img (snd st))) (mem (snd st))"
proof -
  let ?e = "nat (mtd_eb_size mtd)" and ?io = "nat (mtd_min_io_size mtd)"
  let ?bs = "goods good 0 (mtd_eb_cnt mtd)" and ?d = "page_padded (nat (mtd_min_io_size mtd)) (img (snd st))"
  have io: "0 < ?io" "?io dvd ?e"
    using paged_io [OF assms(3)] by simp_all
  then have "length ?d \<le> ?e * length ?bs"
    using page_padded_length [OF assms(13) io(1)] by simp
  moreover obtain ps ws where l: "nand_layout ?e ?io (\<lambda>b p. False) ?bs ?d = (ps, ws)"
    by (cases "nand_layout ?e ?io (\<lambda>b p. False) ?bs ?d")
  ultimately have p: "concat (map snd ps) = ?d" "ws = []"
    "\<And>m m'. (\<forall>(b, part) \<in> set ps. m' b = part @ replicate (?e - length part) 0xFF)
         \<Longrightarrow> (\<forall>b. b \<notin> set (map fst ps) \<longrightarrow> m' b = m b) \<Longrightarrow> m' = placed ?e ?bs ?d m"
    using layout_placed [of ?bs ?d ?e ?io ps ws] by (auto simp: goods_def)
  have op: "opens_input K (\<lambda>k. (- good, mem k)) img"
    using assms(2) by (auto simp: opens_input_def)
  obtain a k' where r: "nandwrite_main K env [''-pm'', dev, file] a0 st = Some (NwReturns 0, a, fst st, k')" "kernel_args a"
    "\<forall>(b, part) \<in> set ps. mem k' b = part @ replicate (?e - length part) 0xFF"
    "\<forall>b. b \<notin> set (map fst ps) \<union> set ws \<longrightarrow> mem k' b = mem (snd st) b"
    using nandwrite_layout [OF page_worn [OF assms(1)] op assms(3-10) _ assms(12) _ _ l p(1)] assms(11)
    by (auto simp: can_erase_def)
  have "mem k' = placed ?e ?bs ?d (mem (snd st))"
    using r(3,4) p(2) by (intro p(3)) simp_all
  then show ?thesis
    using r by blast
qed

text \<open>
  On a device on which nothing fails and whose good eraseblocks are erased,
  \<^verbatim>\<open>nandwrite -pm\<close> lays the image out over the good eraseblocks in the order of the device, the bad
  ones skipped and the last page filled with 0xFF, and changes nothing else.
\<close>

theorem nandwrite_places_image:
  assumes "page_nand K mtd good mem img" "opens_input K mem img" "paged mtd" "whole_device mtd"
    and "nwe_opens env" "nwe_libmtd env" "nwe_mtd env = Some mtd"
    and "kernel_args a0" "\<not> prefix ''-'' dev" "\<not> prefix ''-'' file"
    and "\<And>b. b \<in> set (goods good 0 (mtd_eb_cnt mtd)) \<Longrightarrow> mem (snd st) b = replicate (nat (mtd_eb_size mtd)) 0xFF"
    and "img (snd st) \<noteq> []"
    and "length (img (snd st)) \<le> nat (mtd_eb_size mtd) * length (goods good 0 (mtd_eb_cnt mtd))"
  shows "\<exists>a k'. nandwrite_main K env [''-pm'', dev, file] a0 st = Some (NwReturns 0, a, fst st, k') \<and> kernel_args a
    \<and> mem k' = placed (nat (mtd_eb_size mtd)) (goods good 0 (mtd_eb_cnt mtd))
        (page_padded (nat (mtd_min_io_size mtd)) (img (snd st))) (mem (snd st))"
  using assms by (rule nandwrite_runs)

lemma small_opens_input: "opens_input small_nand pn_mem pn_img"
  by (simp add: opens_input_def holey_kernel_def perfect_kernel_def)

lemma small_geometry: "paged small_mtd" "whole_device small_mtd" "goods (- {2}) 0 4 = [0, 1, 3]"
proof -
  have "[0..3] = [0, 1, 2, 3 :: int]"
    by code_simp
  then show "goods (- {2}) 0 4 = [0, 1, 3]"
    by (simp add: goods_def)
qed (auto simp: paged_def whole_device_def intro!: exI [of _ 7])

definition blank_state :: "byte list \<Rightarrow> pnand" where
  "blank_state input = \<lparr>pn_mem = (\<lambda>eb. replicate 128 0xFF), pn_pos = 0, pn_img = input\<rparr>"

abbreviation small_nw_env :: nw_env where
  "small_nw_env \<equiv> \<lparr>nwe_libmtd = True, nwe_opens = True, nwe_mtd = Some small_mtd\<rparr>"

text \<open>An image of 300 bytes: its third part skips the bad eraseblock 2.\<close>

theorem nandwrite_places_image_witness:
  "\<exists>a k'. nandwrite_main small_nand small_nw_env [''-pm'', ''/dev/mtd1'', ''kernel.bin''] nw_initial
      (OFFS64_IOCTLS_SUPPORTED, blank_state (replicate 300 7)) = Some (NwReturns 0, a, OFFS64_IOCTLS_SUPPORTED, k')
    \<and> pn_mem k' 0 = replicate 128 7 \<and> pn_mem k' 2 = replicate 128 0xFF
    \<and> pn_mem k' 3 = replicate 44 7 @ replicate 84 0xFF"
proof -
  have "\<exists>a k'. nandwrite_main small_nand small_nw_env [''-pm'', ''/dev/mtd1'', ''kernel.bin''] nw_initial
      (OFFS64_IOCTLS_SUPPORTED, blank_state (replicate 300 7))
        = Some (NwReturns 0, a, fst (OFFS64_IOCTLS_SUPPORTED, blank_state (replicate 300 7)), k') \<and> kernel_args a
    \<and> pn_mem k' = placed (nat (mtd_eb_size small_mtd)) (goods (- {2}) 0 (mtd_eb_cnt small_mtd))
        (page_padded (nat (mtd_min_io_size small_mtd)) (pn_img (snd (OFFS64_IOCTLS_SUPPORTED, blank_state (replicate 300 7)))))
        (pn_mem (snd (OFFS64_IOCTLS_SUPPORTED, blank_state (replicate 300 7))))"
    by (rule nandwrite_places_image [OF small_page_nand small_opens_input small_geometry(1,2)])
      (simp_all add: small_geometry(3) blank_state_def initial_kernel_args)
  then obtain a k' where "nandwrite_main small_nand small_nw_env [''-pm'', ''/dev/mtd1'', ''kernel.bin''] nw_initial
      (OFFS64_IOCTLS_SUPPORTED, blank_state (replicate 300 7)) = Some (NwReturns 0, a, OFFS64_IOCTLS_SUPPORTED, k')"
    "pn_mem k' = placed 128 [0, 1, 3] (page_padded 32 (replicate 300 7)) (pn_mem (blank_state (replicate 300 7)))"
    by (auto simp: small_geometry(3) blank_state_def)
  then show ?thesis
    by (simp add: page_padded_def blank_state_def flip: replicate_add)
qed

text \<open>
  Flashing a kernel partition, \<^verbatim>\<open>flash_erase\<close> and then \<^verbatim>\<open>nandwrite -pm\<close> as
  \<^verbatim>\<open>flash_ubi_jffs2_kernel\<close> calls them, whatever the partition held before: both succeed, the good
  eraseblocks read one after the other give the image followed by 0xFF, and a bad eraseblock keeps
  its contents.
\<close>

theorem kernel_partition_flashed:
  assumes "page_nand K mtd good mem img" "opens_input K mem img" "paged mtd" "whole_device mtd"
    and "fst st \<noteq> OFFS64_IOCTLS_NOT_SUPPORTED"
    and "fee_libmtd fe" "fee_opens fe" "fee_mtd fe = Some mtd" "\<not> fe_jffs2 f" "\<not> fe_noskipbad f" "\<not> fe_unlock f"
    and "nwe_opens ne" "nwe_libmtd ne" "nwe_mtd ne = Some mtd" "kernel_args a0"
    and "\<not> prefix ''-'' dev" "\<not> prefix ''-'' file" "img (snd st) \<noteq> []"
    and "length (img (snd st)) \<le> nat (mtd_eb_size mtd) * length (goods good 0 (mtd_eb_cnt mtd))"
  shows "\<exists>st1 a st2. flash_erase_main K fe nh [dev, ''0'', ''0''] f st = Some (0, f, st1)
    \<and> nandwrite_main K ne [''-pm'', dev, file] a0 st1 = Some (NwReturns 0, a, st2)
    \<and> concat (map (mem (snd st2)) (goods good 0 (mtd_eb_cnt mtd))) = img (snd st)
        @ replicate (nat (mtd_eb_size mtd) * length (goods good 0 (mtd_eb_cnt mtd)) - length (img (snd st))) 0xFF
    \<and> (\<forall>eb. eb \<notin> good \<longrightarrow> mem (snd st2) eb = mem (snd st) eb)"
proof -
  let ?d = "img (snd st)" and ?e = "nat (mtd_eb_size mtd)" and ?io = "nat (mtd_min_io_size mtd)"
  let ?bs = "goods good 0 (mtd_eb_cnt mtd)"
  obtain k1 where er: "flash_erase_main K fe nh [dev, ''0'', ''0''] f st = Some (0, f, fst st, k1)"
    "mem k1 = (\<lambda>eb. if in_block mtd eb \<and> eb \<in> good then replicate ?e 0xFF else mem (snd st) eb)" "img k1 = ?d"
    using flash_erase_runs [OF assms(1,4,5-8,16,9-11)] by blast
  have blank: "\<forall>b \<in> set ?bs. mem k1 b = replicate ?e 0xFF"
    by (auto simp: er(2) goods_def in_block_def)
  obtain a k2 where nw: "nandwrite_main K ne [''-pm'', dev, file] a0 (fst st, k1) = Some (NwReturns 0, a, fst st, k2)"
    "mem k2 = placed ?e ?bs (page_padded ?io ?d) (mem k1)"
    using nandwrite_runs [OF assms(1-4,12-15,16,17), of "(fst st, k1)"] blank er(3) assms(18,19) by auto
  have io: "0 < ?io" "?io dvd ?e"
    using assms(3) by (auto simp: paged_def mod_eq_0_iff_dvd nat_dvd_iff)
  have "?io dvd ?e * length ?bs"
    using io(2) by simp
  then have fits: "length (page_padded ?io ?d) \<le> ?e * length ?bs"
    using page_padded_length [OF assms(19) io(1)] by blast
  have "concat (map (mem k2) ?bs) =
      page_padded ?io ?d @ replicate (?e * length ?bs - length (page_padded ?io ?d)) 0xFF"
    unfolding nw(2) by (rule placed_reads_back [OF _ blank fits]) (simp add: goods_def)
  also have "\<dots> = ?d @ replicate (?e * length ?bs - length ?d) 0xFF"
    using fits by (simp add: page_padded_def flip: replicate_add)
  finally have reads: "concat (map (mem k2) ?bs) = ?d @ replicate (?e * length ?bs - length ?d) 0xFF" .
  have "mem k2 eb = mem (snd st) eb" if "eb \<notin> good" for eb
  proof -
    have "eb \<notin> set ?bs"
      using that by (simp add: goods_def)
    then show ?thesis
      using that by (simp add: nw(2) placed_other er(2))
  qed
  then show ?thesis
    using er(1) nw(1) reads by (intro exI [of _ "(fst st, k1)"] exI [of _ a] exI [of _ "(fst st, k2)"]) simp
qed

theorem kernel_partition_flashed_witness:
  "\<exists>st1 a st2. flash_erase_main small_nand small_env [] [''/dev/mtd1'', ''0'', ''0''] fe_initial
       (OFFS64_IOCTLS_SUPPORTED, small_state (replicate 300 7)) = Some (0, fe_initial, st1)
    \<and> nandwrite_main small_nand small_nw_env [''-pm'', ''/dev/mtd1'', ''kernel.bin''] nw_initial st1
       = Some (NwReturns 0, a, st2)
    \<and> concat (map (pn_mem (snd st2)) [0, 1, 3]) = replicate 300 7 @ replicate 84 0xFF
    \<and> pn_mem (snd st2) 2 = replicate 128 0"
proof -
  let ?st = "(OFFS64_IOCTLS_SUPPORTED, small_state (replicate 300 7))"
  have "\<exists>st1 a st2. flash_erase_main small_nand small_env [] [''/dev/mtd1'', ''0'', ''0''] fe_initial ?st
       = Some (0, fe_initial, st1)
    \<and> nandwrite_main small_nand small_nw_env [''-pm'', ''/dev/mtd1'', ''kernel.bin''] nw_initial st1
       = Some (NwReturns 0, a, st2)
    \<and> concat (map (pn_mem (snd st2)) (goods (- {2}) 0 (mtd_eb_cnt small_mtd))) = pn_img (snd ?st)
        @ replicate (nat (mtd_eb_size small_mtd) * length (goods (- {2}) 0 (mtd_eb_cnt small_mtd))
            - length (pn_img (snd ?st))) 0xFF
    \<and> (\<forall>eb. eb \<notin> - {2} \<longrightarrow> pn_mem (snd st2) eb = pn_mem (snd ?st) eb)"
    by (rule kernel_partition_flashed [OF small_page_nand small_opens_input small_geometry(1,2)])
      (simp_all add: small_geometry(3) small_env_def fe_initial_def small_state_def initial_kernel_args)
  then show ?thesis
    by (simp add: small_geometry(3) small_state_def)
qed

end
