(* ===== verification/Flashcp.thy ===== *)
theory Flashcp
  imports Libmtd Getopt
begin

text \<open>
  \<^verbatim>\<open>flashcp.c\<close>, the program ofgwrite writes NOR flash with. The device and its description come
  from the environment; the descriptors are static, and no path closes them.
\<close>

subsection \<open>Options\<close>

record fcp_flags =
  fcp_verbose :: bool
  fcp_help :: bool
  fcp_reboot :: bool

definition fcp_short :: "(char \<times> has_arg) list" where
  "fcp_short = parse_optstring ''hvr''"

definition fcp_long :: "long_option list" where
  "fcp_long =
     [(''help'', no_argument, CHR ''h''), (''verbose'', no_argument, CHR ''v''),
      (''reboot'', no_argument, CHR ''r'')]"

text \<open>\<open>None\<close> for an unknown option, which ends the program.\<close>

fun fcp_options :: "opt_result list \<Rightarrow> fcp_flags \<Rightarrow> fcp_flags option" where
  "fcp_options [] f = Some f"
| "fcp_options ((c, i, v) # os) f =
     (if c = CHR ''h'' then fcp_options os (f\<lparr>fcp_help := True\<rparr>)
      else if c = CHR ''v'' then fcp_options os (f\<lparr>fcp_verbose := True\<rparr>)
      else if c = CHR ''r'' then fcp_options os (f\<lparr>fcp_reboot := True\<rparr>)
      else None)"

subsection \<open>Erasing\<close>

text \<open>\<^verbatim>\<open>struct mtd_info_user\<close>, as far as it is used.\<close>

record mtd_info_user =
  mi_size :: u32
  mi_erasesize :: u32

text \<open>What has to be erased for a file: whole eraseblocks, in an unsigned field of 32 bits.\<close>

definition erase_length :: "mtd_info_user \<Rightarrow> int \<Rightarrow> u32" where
  "erase_length mi st_size =
     word_of_int (c_div (st_size + uint (mi_erasesize mi) - 1) (uint (mi_erasesize mi))) * mi_erasesize mi"

text \<open>One eraseblock after the other, with \<^verbatim>\<open>-v\<close>; \<open>False\<close> for an error.\<close>

fun erase_blocks :: "'k kernel \<Rightarrow> u32 \<Rightarrow> u32 \<Rightarrow> nat \<Rightarrow> 'k \<Rightarrow> bool \<times> 'k" where
  "erase_blocks K start len 0 k = (True, k)"
| "erase_blocks K start len (Suc n) k =
     (case k_memerase K start len k of
        (Some e, k1) \<Rightarrow> (False, k1)
      | (None, k1) \<Rightarrow> erase_blocks K (start + len) len n k1)"

definition fcp_erase :: "'k kernel \<Rightarrow> mtd_info_user \<Rightarrow> bool \<Rightarrow> int \<Rightarrow> 'k \<Rightarrow> bool \<times> 'k" where
  "fcp_erase K mi verbose st_size k =
     (let len = erase_length mi st_size
      in if verbose
         then erase_blocks K 0 (mi_erasesize mi) (nat (c_int (uint (len div mi_erasesize mi)))) k
         else (case k_memerase K 0 len k of (e, k1) \<Rightarrow> (e = None, k1)))"

subsection \<open>Writing\<close>

definition BUFSIZE :: nat where "BUFSIZE = 10 * 1024"

text \<open>Pieces of the file are read and written; a short read or write is an error.\<close>

function write_file :: "'k kernel \<Rightarrow> nat \<Rightarrow> 'k \<Rightarrow> bool \<times> 'k" where
  "write_file K left k =
     (if left = 0 then (True, k)
      else
        let i = min BUFSIZE left
        in (case k_img_read K i k of
              (ReadErr e, k1) \<Rightarrow> (False, k1)
            | (Bytes d, k1) \<Rightarrow>
                if length d \<noteq> i then (False, k1)
                else
                  (case k_write K d k1 of
                     (Inr n, k2) \<Rightarrow> if n = int i then write_file K (left - i) k2 else (False, k2)
                   | (Inl e, k2) \<Rightarrow> (False, k2))))"
  by pat_completeness auto

termination write_file
  by (relation "measure (\<lambda>(K, left, k). left)") (auto simp: BUFSIZE_def)

declare write_file.simps [simp del]

subsection \<open>The program\<close>

record fcp_env =
  fcpe_opens :: bool
  fcpe_info :: "mtd_info_user option"

text \<open>
  \<^verbatim>\<open>flashcp_main\<close>: the return value, and whether the box was rebooted, which does not return on a
  real system. A device with eraseblocks of size 0 divides by it.
\<close>

definition flashcp_main :: "'k kernel \<Rightarrow> fcp_env \<Rightarrow> string list \<Rightarrow> 'k \<Rightarrow> ((int \<times> bool) \<times> 'k) option" where
  "flashcp_main K env argv k =
     (let (opts, pos) = getopt_long fcp_short fcp_long argv
      in case fcp_options opts \<lparr>fcp_verbose = False, fcp_help = False, fcp_reboot = False\<rparr> of
           None \<Rightarrow> Some ((-1, False), k)
         | Some f \<Rightarrow>
             if fcp_help f \<or> length pos \<noteq> 2 \<or> \<not> fcpe_opens env then Some ((-1, False), k)
             else
               (case fcpe_info env of
                  None \<Rightarrow> Some ((-1, False), k)
                | Some mi \<Rightarrow>
                    (case k_img_open K k of
                       (Some e, k1) \<Rightarrow> Some ((-1, False), k1)
                     | (None, k1) \<Rightarrow>
                         (case k_img_stat K k1 of
                            (Inl e, k2) \<Rightarrow> Some ((-1, False), k2)
                          | (Inr st_size, k2) \<Rightarrow>
                              if st_size > uint (mi_size mi) then Some ((-1, False), k2)
                              else if mi_erasesize mi = 0 then None
                              else
                                (case fcp_erase K mi (fcp_verbose f) st_size k2 of
                                   (False, k3) \<Rightarrow> Some ((-1, False), k3)
                                 | (True, k3) \<Rightarrow>
                                     (case write_file K (nat (c_uint st_size)) k3 of
                                        (False, k4) \<Rightarrow> Some ((-1, False), k4)
                                      | (True, k4) \<Rightarrow> Some ((0, fcp_reboot f), k4)))))))"

end
