(* ===== verification/FlashcpProps.thy ===== *)
theory FlashcpProps
  imports Flashcp EraseProps
begin

text \<open>\<^verbatim>\<open>flashcp\<close> on a NOR device on which nothing fails.\<close>

subsection \<open>The device\<close>

text \<open>
  \<open>mem\<close> is the contents of the whole device, \<open>pos\<close> the position of its descriptor and \<open>img\<close> what is
  left of the file. Writing at the position stores bytes where the device is erased.
\<close>

definition nor_flash ::
  "'k kernel \<Rightarrow> mtd_info_user \<Rightarrow> ('k \<Rightarrow> byte list) \<Rightarrow> ('k \<Rightarrow> nat) \<Rightarrow> ('k \<Rightarrow> byte list) \<Rightarrow> bool" where
  "nor_flash K mi mem pos img \<longleftrightarrow>
     (\<forall>k start len. unat start + unat len \<le> unat (mi_size mi) \<longrightarrow>
        (\<exists>k'. k_memerase K start len k = (None, k') \<and> pos k' = pos k \<and> img k' = img k
           \<and> mem k' = store_at (unat start) (replicate (unat len) 0xFF) (mem k)))
     \<and> (\<forall>k d. pos k + length d \<le> length (mem k)
        \<longrightarrow> take (length d) (drop (pos k) (mem k)) = replicate (length d) 0xFF \<longrightarrow>
        (\<exists>k'. k_write K d k = (Inr (int (length d)), k') \<and> pos k' = pos k + length d \<and> img k' = img k
           \<and> mem k' = store_at (pos k) d (mem k)))
     \<and> (\<forall>k n. \<exists>k'. k_img_read K n k = (Bytes (take n (img k)), k') \<and> img k' = drop n (img k)
           \<and> mem k' = mem k \<and> pos k' = pos k)
     \<and> (\<forall>k. \<exists>k1 k2. k_img_open K k = (None, k1) \<and> k_img_stat K k1 = (Inr (int (length (img k))), k2)
           \<and> img k2 = img k \<and> mem k2 = mem k \<and> pos k2 = pos k)"

text \<open>The size is a number of eraseblocks, of more than one byte.\<close>

definition nor_geometry :: "mtd_info_user \<Rightarrow> bool" where
  "nor_geometry mi \<longleftrightarrow> 1 < unat (mi_erasesize mi) \<and> unat (mi_erasesize mi) dvd unat (mi_size mi)"

lemma u32_bound: "unat (w :: u32) < 2 ^ 32"
  using unsigned_less [of w] by simp

lemma nor_erase:
  assumes "nor_flash K mi mem pos img" "unat start + unat len \<le> unat (mi_size mi)"
  shows "\<exists>k'. k_memerase K start len k = (None, k') \<and> pos k' = pos k \<and> img k' = img k
    \<and> mem k' = store_at (unat start) (replicate (unat len) 0xFF) (mem k)"
  using assms unfolding nor_flash_def by blast

subsection \<open>Erasing\<close>

lemma store_append:
  "s + length f + length g \<le> length m \<Longrightarrow> store_at (s + length f) g (store_at s f m) = store_at s (f @ g) m"
  by (simp add: store_at_def ac_simps)

lemma store_at_frame:
  assumes "s + length f \<le> length m"
  shows "drop (s + length f) (store_at s f m) = drop (s + length f) m" "length (store_at s f m) = length m"
  using assms by (simp_all add: store_at_def)

lemma c_div_nat: "c_div (int a) (int b) = int (a div b)"
  by (cases "b = 0"; cases "a = 0") (auto simp: c_div_def zdiv_int)

lemma erase_blocks_runs:
  assumes "nor_flash K mi mem pos img" "unat start + n * unat len \<le> unat (mi_size mi)" "length (mem k) = unat (mi_size mi)"
  shows "\<exists>k'. erase_blocks K start len n k = (True, k') \<and> pos k' = pos k \<and> img k' = img k
    \<and> mem k' = store_at (unat start) (replicate (n * unat len) 0xFF) (mem k)"
  using assms(2,3)
proof (induction n arbitrary: start k)
  case 0
  then show ?case
    by (simp add: store_at_def)
next
  case (Suc n)
  have fits: "unat start + unat len + n * unat len \<le> unat (mi_size mi)"
    using Suc.prems(1) by simp
  then obtain k1 where k1: "k_memerase K start len k = (None, k1)" "pos k1 = pos k" "img k1 = img k"
    "mem k1 = store_at (unat start) (replicate (unat len) 0xFF) (mem k)"
    using nor_erase [OF assms(1), of start len k] by auto
  have "unat start + unat len < 2 ^ 32"
    using fits u32_bound [of "mi_size mi"] by linarith
  then have next_start: "unat (start + len) = unat start + unat len"
    by (simp add: unat_word_ariths)
  have "length (mem k1) = unat (mi_size mi)"
    unfolding k1(4) using fits Suc.prems(2) by (simp add: store_at_def)
  then obtain k' where k': "erase_blocks K (start + len) len n k1 = (True, k')" "pos k' = pos k" "img k' = img k"
    "mem k' = store_at (unat start + unat len) (replicate (n * unat len) 0xFF) (mem k1)"
    using Suc.IH [of "start + len" k1] fits k1(2,3) next_start by auto
  have "mem k' = store_at (unat start) (replicate (unat len) 0xFF @ replicate (n * unat len) 0xFF) (mem k)"
    unfolding k'(4) k1(4)
    using store_append [of "unat start" "replicate (unat len) 0xFF" "replicate (n * unat len) 0xFF" "mem k"]
      fits Suc.prems(2) by simp
  then show ?case
    using k1(1) k' by (simp add: replicate_add [symmetric])
qed

text \<open>The number of eraseblocks for a file.\<close>

definition blocks_for :: "mtd_info_user \<Rightarrow> nat \<Rightarrow> nat" where
  "blocks_for mi n = (n + unat (mi_erasesize mi) - 1) div unat (mi_erasesize mi)"

lemma blocks_for_fit:
  assumes "nor_geometry mi" "n \<le> unat (mi_size mi)"
  shows "n \<le> blocks_for mi n * unat (mi_erasesize mi)" "blocks_for mi n * unat (mi_erasesize mi) \<le> unat (mi_size mi)"
proof -
  let ?e = "unat (mi_erasesize mi)"
  have e: "1 < ?e" and dvd: "?e dvd unat (mi_size mi)"
    using assms(1) by (auto simp: nor_geometry_def)
  have "n + ?e - 1 < (blocks_for mi n + 1) * ?e"
    unfolding blocks_for_def using e dividend_less_div_times [of ?e "n + ?e - 1"] by simp
  then show "n \<le> blocks_for mi n * ?e"
    using e by simp
  obtain q where q: "unat (mi_size mi) = q * ?e"
    using dvd by (metis dvdE mult.commute)
  have "n + ?e - 1 < (q + 1) * ?e"
    using assms(2) e unfolding q by simp
  then have "blocks_for mi n < q + 1"
    unfolding blocks_for_def by (rule less_mult_imp_div_less)
  then show "blocks_for mi n * ?e \<le> unat (mi_size mi)"
    unfolding q by (intro mult_right_mono) auto
qed

lemma fcp_erase_runs:
  assumes "nor_flash K mi mem pos img" "nor_geometry mi" "length (mem k) = unat (mi_size mi)" "n \<le> unat (mi_size mi)"
  shows "\<exists>k'. fcp_erase K mi verbose (int n) k = (True, k') \<and> pos k' = pos k \<and> img k' = img k
    \<and> mem k' = store_at 0 (replicate (blocks_for mi n * unat (mi_erasesize mi)) 0xFF) (mem k)"
proof -
  let ?e = "unat (mi_erasesize mi)"
  let ?b = "blocks_for mi n"
  have e: "1 < ?e"
    using assms(2) by (auto simp: nor_geometry_def)
  note fit = blocks_for_fit [OF assms(2,4)]
  have size: "unat (mi_size mi) < 2 ^ 32"
    by (rule u32_bound)
  have "?b * 2 \<le> ?b * ?e"
    using e by (intro mult_left_mono) auto
  then have "?b * 2 < 2 ^ 32"
    using fit(2) size by (meson le_less_trans le_trans)
  then have b31: "?b < 2 ^ 31"
    by simp
  have ue: "uint (mi_erasesize mi) = int ?e"
    by simp
  have "int n + int ?e - 1 = int (n + ?e - 1)"
    using e by linarith
  then have "c_div (int n + uint (mi_erasesize mi) - 1) (uint (mi_erasesize mi)) = int ?b"
    unfolding ue blocks_for_def by (simp only: c_div_nat)
  then have len: "erase_length mi (int n) = word_of_nat ?b * mi_erasesize mi"
    by (simp add: erase_length_def)
  have "unat (word_of_nat ?b :: u32) = ?b"
    using b31 by (simp add: unsigned_of_nat take_bit_eq_mod)
  then have "unat (erase_length mi (int n)) = ?b * ?e mod 2 ^ 32"
    unfolding len by (simp add: unat_word_ariths)
  then have ulen: "unat (erase_length mi (int n)) = ?b * ?e"
    using fit(2) size by simp
  then have "unat (erase_length mi (int n) div mi_erasesize mi) = ?b"
    using e by (simp add: unat_div)
  then have "uint (erase_length mi (int n) div mi_erasesize mi) = int ?b"
    by (metis uint_nat)
  then have "nat (c_int (uint (erase_length mi (int n) div mi_erasesize mi))) = ?b"
    using b31 by simp
  then show ?thesis
    using erase_blocks_runs [OF assms(1), of 0 ?b "mi_erasesize mi" k] nor_erase [OF assms(1), of 0 "erase_length mi (int n)" k]
      fit(2) assms(3) ulen by (cases verbose) (auto simp: fcp_erase_def)
qed

subsection \<open>Writing\<close>

lemma write_file_runs:
  assumes "nor_flash K mi mem pos img" "left = length (img k)" "pos k + left \<le> length (mem k)"
    "take left (drop (pos k) (mem k)) = replicate left 0xFF"
  shows "\<exists>k'. write_file K left k = (True, k') \<and> mem k' = store_at (pos k) (img k) (mem k)"
  using assms(2-)
proof (induction left arbitrary: k rule: less_induct)
  case (less left)
  show ?case
  proof (cases "left = 0")
    case True
    then show ?thesis
      using less.prems by (simp add: write_file.simps store_at_def)
  next
    case False
    let ?i = "min BUFSIZE left"
    have i: "0 < ?i" "?i \<le> left"
      using False by (simp_all add: BUFSIZE_def)
    obtain k1 where k1: "k_img_read K ?i k = (Bytes (take ?i (img k)), k1)" "img k1 = drop ?i (img k)"
      "mem k1 = mem k" "pos k1 = pos k"
      using assms(1) unfolding nor_flash_def by blast
    let ?d = "take ?i (img k)"
    have d: "length ?d = ?i"
      using less.prems(1) by simp
    have "take ?i (drop (pos k) (mem k)) = take ?i (replicate left 0xFF)"
      unfolding less.prems(3) [symmetric] using i(2) by (simp add: min_def)
    then have blank: "take ?i (drop (pos k) (mem k)) = replicate ?i 0xFF"
      using i(2) by (simp add: min_def)
    have w: "\<forall>k d. pos k + length d \<le> length (mem k)
        \<longrightarrow> take (length d) (drop (pos k) (mem k)) = replicate (length d) 0xFF \<longrightarrow>
        (\<exists>k'. k_write K d k = (Inr (int (length d)), k') \<and> pos k' = pos k + length d \<and> img k' = img k
           \<and> mem k' = store_at (pos k) d (mem k))"
      using assms(1) unfolding nor_flash_def by (elim conjE)
    have room: "pos k1 + length ?d \<le> length (mem k1)"
      unfolding d k1(3,4) using i(2) less.prems(2) by linarith
    have erased: "take (length ?d) (drop (pos k1) (mem k1)) = replicate (length ?d) 0xFF"
      unfolding d k1(3,4) by (rule blank)
    obtain k2 where k2: "k_write K ?d k1 = (Inr (int (length ?d)), k2)" "pos k2 = pos k1 + length ?d" "img k2 = img k1"
      "mem k2 = store_at (pos k1) ?d (mem k1)"
      using w [rule_format, OF room erased] by blast
    have "take (left - ?i) (drop ?i (take left (drop (pos k) (mem k)))) = replicate (left - ?i) 0xFF"
      unfolding less.prems(3) by simp
    then have rest: "take (left - ?i) (drop (pos k + ?i) (mem k)) = replicate (left - ?i) 0xFF"
      by (simp add: drop_take add.commute)
    have "pos k + ?i \<le> length (mem k)"
      using i(2) less.prems(2) by linarith
    then have tail: "drop (pos k2) (mem k2) = drop (pos k + ?i) (mem k)" "length (mem k2) = length (mem k)"
      using store_at_frame [of "pos k" ?d "mem k"] unfolding k2(2,4) k1(3,4) d by simp_all
    have "left - ?i = length (img k2)"
      using less.prems(1) by (simp add: k2(3) k1(2))
    moreover have "left - ?i < left"
      using i by linarith
    moreover have "pos k2 + (left - ?i) \<le> length (mem k2)"
      unfolding tail(2) k2(2) k1(4) d using less.prems(2) i(2) by linarith
    ultimately obtain k' where k': "write_file K (left - ?i) k2 = (True, k')" "mem k' = store_at (pos k2) (img k2) (mem k2)"
      using less.IH [of "left - ?i" k2] less.prems(2) rest i(2) k2(2) k1(4) d tail by auto
    have "mem k' = store_at (pos k) (?d @ drop ?i (img k)) (mem k)"
      unfolding k'(2) k2(2,3,4) k1(2,3,4)
      using store_append [of "pos k" ?d "drop ?i (img k)" "mem k"] less.prems(1,2) d i(2) by simp
    then show ?thesis
      using False k1(1) k2(1) k'(1) d by (simp add: write_file.simps [of K left] Let_def)
  qed
qed


subsection \<open>The program\<close>

lemma flashcp_runs:
  assumes "nor_flash K mi mem pos img" "nor_geometry mi" "fcpe_opens env" "fcpe_info env = Some mi"
    and "getopt_long fcp_short fcp_long argv = (opts, [file, dev])"
    and "fcp_options opts \<lparr>fcp_verbose = False, fcp_help = False, fcp_reboot = False\<rparr> = Some f" "\<not> fcp_help f"
    and "length (mem k) = unat (mi_size mi)" "length (img k) \<le> unat (mi_size mi)" "pos k = 0"
  shows "\<exists>k'. flashcp_main K env argv k = Some ((0, fcp_reboot f), k')
    \<and> mem k' = img k @ replicate (blocks_for mi (length (img k)) * unat (mi_erasesize mi) - length (img k)) 0xFF
        @ drop (blocks_for mi (length (img k)) * unat (mi_erasesize mi)) (mem k)"
proof -
  let ?n = "length (img k)"
  let ?m = "blocks_for mi ?n * unat (mi_erasesize mi)"
  obtain k1 k2 where k2: "k_img_open K k = (None, k1)" "k_img_stat K k1 = (Inr (int ?n), k2)"
    "img k2 = img k" "mem k2 = mem k" "pos k2 = pos k"
    using assms(1) unfolding nor_flash_def by blast
  note fit = blocks_for_fit [OF assms(2,9)]
  obtain k3 where k3: "fcp_erase K mi (fcp_verbose f) (int ?n) k2 = (True, k3)" "pos k3 = 0" "img k3 = img k"
    "mem k3 = store_at 0 (replicate ?m 0xFF) (mem k)"
    using fcp_erase_runs [OF assms(1,2) _ assms(9), of k2 "fcp_verbose f"] assms(8,10) k2(3-5) by auto
  have mem3: "mem k3 = replicate ?m 0xFF @ drop ?m (mem k)"
    by (simp add: k3(4) store_at_def)
  obtain k4 where k4: "write_file K ?n k3 = (True, k4)" "mem k4 = store_at 0 (img k) (mem k3)"
    using write_file_runs [OF assms(1), of ?n k3] k3(2,3) fit assms(8) by (auto simp: mem3)
  have "?n < 2 ^ 32"
    using assms(9) u32_bound [of "mi_size mi"] by linarith
  then have "nat (c_uint (int ?n)) = ?n"
    by simp
  moreover have "mi_erasesize mi \<noteq> 0"
    using assms(2) by (auto simp: nor_geometry_def)
  moreover have "uint (mi_size mi) = int (unat (mi_size mi))"
    by simp
  then have "\<not> int ?n > uint (mi_size mi)"
    using assms(9) by linarith
  ultimately have "flashcp_main K env argv k = Some ((0, fcp_reboot f), k4)"
    using assms(3-7) k2(1,2) k3(1) k4(1) by (simp add: flashcp_main_def Let_def del: getopt_long.simps)
  moreover have "mem k4 = img k @ replicate (?m - ?n) 0xFF @ drop ?m (mem k)"
    using fit(1) by (simp add: k4(2) mem3 store_at_def)
  ultimately show ?thesis
    by blast
qed

text \<open>
  Property C19. On a NOR device on which nothing fails, \<^verbatim>\<open>flashcp\<close> leaves the file at the start of
  the device, followed by 0xFF to the end of its last eraseblock, keeps the rest of the device, and
  reboots exactly when asked to; this holds with and without \<^verbatim>\<open>-v\<close>.
\<close>

theorem flashcp_places_image:
  assumes "nor_flash K mi mem pos img" "nor_geometry mi" "fcpe_opens env" "fcpe_info env = Some mi"
    and "getopt_long fcp_short fcp_long argv = (opts, [file, dev])"
    and "fcp_options opts \<lparr>fcp_verbose = False, fcp_help = False, fcp_reboot = False\<rparr> = Some f" "\<not> fcp_help f"
    and "length (mem k) = unat (mi_size mi)" "length (img k) \<le> unat (mi_size mi)" "pos k = 0"
  shows "\<exists>k'. flashcp_main K env argv k = Some ((0, fcp_reboot f), k')
    \<and> mem k' = img k @ replicate (blocks_for mi (length (img k)) * unat (mi_erasesize mi) - length (img k)) 0xFF
        @ drop (blocks_for mi (length (img k)) * unat (mi_erasesize mi)) (mem k)"
  using assms by (rule flashcp_runs)

text \<open>A device of four eraseblocks of 64 bytes, as one memory.\<close>

definition nor_kernel :: "pnand kernel" where
  "nor_kernel = (perfect_kernel 256)\<lparr>k_memerase := (\<lambda>start len s. (None,
     s\<lparr>pn_mem := (pn_mem s)(0 := store_at (unat start) (replicate (unat len) 0xFF) (pn_mem s 0))\<rparr>)),
     k_write := (\<lambda>d s. (Inr (int (length d)), s\<lparr>pn_pos := int (nat (pn_pos s) + length d),
       pn_mem := (pn_mem s)(0 := ns_program (nat (pn_pos s)) d (pn_mem s 0))\<rparr>))\<rparr>"

definition nor_info :: mtd_info_user where
  "nor_info = \<lparr>mi_size = 256, mi_erasesize = 64\<rparr>"

lemma nor_kernel_nor_flash:
  "nor_flash nor_kernel nor_info (\<lambda>s. pn_mem s 0) (\<lambda>s. nat (pn_pos s)) pn_img"
  unfolding nor_flash_def
  by (auto simp: nor_kernel_def perfect_kernel_def program_erased_part)

theorem flashcp_places_image_witness:
  "\<exists>k'. flashcp_main nor_kernel \<lparr>fcpe_opens = True, fcpe_info = Some nor_info\<rparr>
      [''-vr'', ''rootfs.bin'', ''/dev/mtd2''] \<lparr>pn_mem = (\<lambda>eb. replicate 256 0), pn_pos = 0, pn_img = replicate 100 5\<rparr>
      = Some ((0, True), k')
    \<and> pn_mem k' 0 = replicate 100 5 @ replicate 28 0xFF @ replicate 128 0"
proof -
  let ?k = "\<lparr>pn_mem = (\<lambda>eb. replicate 256 0), pn_pos = 0, pn_img = replicate 100 5\<rparr>"
  have plain: "getopt_long fcp_short fcp_long [''rootfs.bin'', ''/dev/mtd2''] = ([], [''rootfs.bin'', ''/dev/mtd2''])"
    by (rule getopt_long_plain) simp
  have args: "getopt_long fcp_short fcp_long [''-vr'', ''rootfs.bin'', ''/dev/mtd2''] =
      ([(CHR ''v'', None, None), (CHR ''r'', None, None)], [''rootfs.bin'', ''/dev/mtd2''])"
    using plain by (subst getopt_long.simps) (simp add: fcp_short_def del: getopt_long.simps)
  have "\<exists>k'. flashcp_main nor_kernel \<lparr>fcpe_opens = True, fcpe_info = Some nor_info\<rparr>
      [''-vr'', ''rootfs.bin'', ''/dev/mtd2''] ?k
      = Some ((0, fcp_reboot \<lparr>fcp_verbose = True, fcp_help = False, fcp_reboot = True\<rparr>), k')
    \<and> pn_mem k' 0 = pn_img ?k @ replicate (blocks_for nor_info (length (pn_img ?k)) * unat (mi_erasesize nor_info)
          - length (pn_img ?k)) 0xFF
        @ drop (blocks_for nor_info (length (pn_img ?k)) * unat (mi_erasesize nor_info)) (pn_mem ?k 0)"
    by (rule flashcp_places_image [OF nor_kernel_nor_flash _ _ _ args])
      (simp_all add: nor_geometry_def nor_info_def)
  then show ?thesis
    by (simp add: blocks_for_def nor_info_def)
qed

end
