(* ===== verification/Font.thy ===== *)
theory Font
  imports Prelude
begin

text \<open>
  \<^verbatim>\<open>font.h\<close>: the glyphs of the characters from the blank on, 18 lines of 16 bits each, of which the
  two lowest are not used.
\<close>

definition font_1 :: "int list list" where
  "font_1 =
     [
      [0x0000, 0x0000, 0x0000, 0x0000, 0x0000, 0x0000, 0x0000, 0x0000, 0x0000,
       0x0000, 0x0000, 0x0000, 0x0000, 0x0000, 0x0000, 0x0000, 0x0000, 0x0000],
      [0x0000, 0x0300, 0x0300, 0x0300, 0x0300, 0x0300, 0x0300, 0x0300, 0x0300,
       0x0300, 0x0300, 0x0000, 0x0000, 0x0300, 0x0300, 0x0000, 0x0000, 0x0000],
      [0x0000, 0x0CC0, 0x0CC0, 0x0440, 0x0880, 0x0000, 0x0000, 0x0000, 0x0000,
       0x0000, 0x0000, 0x0000, 0x0000, 0x0000, 0x0000, 0x0000, 0x0000, 0x0000],
      [0x0000, 0x0CC0, 0x0CC0, 0x0CC0, 0x0CC0, 0x3FF0, 0x3FF0, 0x0CC0, 0x0CC0,
       0x0CC0, 0x3FF0, 0x3FF0, 0x0CC0, 0x0CC0, 0x0CC0, 0x0CC0, 0x0000, 0x0000],
      [0x0000, 0x6018, 0x7038, 0x3870, 0x1CE0, 0x0FC0, 0x1FE0, 0x3030, 0x3030,
       0x3030, 0x3030, 0x1FE0, 0x0FC0, 0x1CE0, 0x3870, 0x7038, 0x6018, 0x0000],
      [0x0000, 0x1800, 0x3C18, 0x6638, 0x6670, 0x3CE0, 0x19C0, 0x0380, 0x0700,
       0x0E60, 0x1CF0, 0x3998, 0x7198, 0x60F0, 0x0060, 0x0000, 0x0000, 0x0000],
      [0x0000, 0x0380, 0x07C0, 0x0C60, 0x0C60, 0x06C0, 0x0380, 0x0F80, 0x1CD8,
       0x3078, 0x3070, 0x3060, 0x18F0, 0x1FD8, 0x0718, 0x0000, 0x0000, 0x0000]]"

definition font_2 :: "int list list" where
  "font_2 =
     [
      [0x0000, 0x0300, 0x0300, 0x0100, 0x0200, 0x0000, 0x0000, 0x0000, 0x0000,
       0x0000, 0x0000, 0x0000, 0x0000, 0x0000, 0x0000, 0x0000, 0x0000, 0x0000],
      [0x0000, 0x0180, 0x0300, 0x0600, 0x0600, 0x0C00, 0x0C00, 0x0C00, 0x0C00,
       0x0C00, 0x0C00, 0x0600, 0x0600, 0x0300, 0x0180, 0x0000, 0x0000, 0x0000],
      [0x0000, 0x0600, 0x0300, 0x0180, 0x0180, 0x00C0, 0x00C0, 0x00C0, 0x00C0,
       0x00C0, 0x00C0, 0x0180, 0x0180, 0x0300, 0x0600, 0x0000, 0x0000, 0x0000],
      [0x0000, 0x0000, 0x0000, 0x0000, 0x0000, 0x1240, 0x0A80, 0x0700, 0x1FC0,
       0x0700, 0x0A80, 0x1240, 0x0000, 0x0000, 0x0000, 0x0000, 0x0000, 0x0000],
      [0x0000, 0x0000, 0x0000, 0x0000, 0x0000, 0x0300, 0x0300, 0x0300, 0x1FE0,
       0x1FE0, 0x0300, 0x0300, 0x0300, 0x0000, 0x0000, 0x0000, 0x0000, 0x0000],
      [0x0000, 0x0000, 0x0000, 0x0000, 0x0000, 0x0000, 0x0000, 0x0000, 0x0000,
       0x0000, 0x0000, 0x0000, 0x0000, 0x0300, 0x0300, 0x0100, 0x0200, 0x0000],
      [0x0000, 0x0000, 0x0000, 0x0000, 0x0000, 0x0000, 0x0000, 0x0000, 0x1FE0,
       0x1FE0, 0x0000, 0x0000, 0x0000, 0x0000, 0x0000, 0x0000, 0x0000, 0x0000]]"

definition font_3 :: "int list list" where
  "font_3 =
     [
      [0x0000, 0x0000, 0x0000, 0x0000, 0x0000, 0x0000, 0x0000, 0x0000, 0x0000,
       0x0000, 0x0000, 0x0000, 0x0000, 0x0300, 0x0300, 0x0000, 0x0000, 0x0000],
      [0x0000, 0x0000, 0x0060, 0x0060, 0x00C0, 0x00C0, 0x0180, 0x0180, 0x0300,
       0x0300, 0x0600, 0x0E00, 0x0C00, 0x1800, 0x1800, 0x0000, 0x0000, 0x0000],
      [0x0000, 0x0FC0, 0x1FE0, 0x3870, 0x3030, 0x3030, 0x3030, 0x3030, 0x3030,
       0x3030, 0x3030, 0x3030, 0x3870, 0x1FE0, 0x0FC0, 0x0000, 0x0000, 0x0000],
      [0x0000, 0x0180, 0x0380, 0x0780, 0x0F80, 0x1F80, 0x3B80, 0x7380, 0x6380,
       0x0380, 0x0380, 0x0380, 0x0380, 0x0380, 0x0380, 0x0000, 0x0000, 0x0000],
      [0x0000, 0x0780, 0x0FC0, 0x18E0, 0x3060, 0x3030, 0x0030, 0x0070, 0x00E0,
       0x01C0, 0x0380, 0x0E00, 0x1C00, 0x3FF0, 0x3FF0, 0x0000, 0x0000, 0x0000],
      [0x0000, 0x0FC0, 0x3FE0, 0x3030, 0x0030, 0x0030, 0x0060, 0x07C0, 0x07C0,
       0x0060, 0x0030, 0x0030, 0x3030, 0x3FE0, 0x0FC0, 0x0000, 0x0000, 0x0000],
      [0x0000, 0x0020, 0x0060, 0x00E0, 0x01E0, 0x0360, 0x0660, 0x0C60, 0x1860,
       0x3060, 0x3FF8, 0x3FF8, 0x0060, 0x0060, 0x0060, 0x0000, 0x0000, 0x0000]]"

definition font_4 :: "int list list" where
  "font_4 =
     [
      [0x0000, 0x3FE0, 0x3FE0, 0x3000, 0x3000, 0x3000, 0x3F80, 0x3FC0, 0x0060,
       0x0060, 0x0060, 0x0060, 0x30C0, 0x3F80, 0x1F00, 0x0000, 0x0000, 0x0000],
      [0x0000, 0x07C0, 0x1FE0, 0x1870, 0x3030, 0x3000, 0x3000, 0x37C0, 0x3FE0,
       0x3870, 0x3030, 0x3030, 0x3870, 0x1FE0, 0x0FC0, 0x0000, 0x0000, 0x0000],
      [0x0000, 0x3FE0, 0x3FE0, 0x0060, 0x0060, 0x00C0, 0x00C0, 0x0180, 0x0180,
       0x0380, 0x0300, 0x0700, 0x0600, 0x0E00, 0x0E00, 0x0000, 0x0000, 0x0000],
      [0x0000, 0x0780, 0x0FC0, 0x1CE0, 0x1860, 0x1860, 0x0CC0, 0x0FC0, 0x1FE0,
       0x3870, 0x3030, 0x3030, 0x3870, 0x1FE0, 0x0FC0, 0x0000, 0x0000, 0x0000],
      [0x0000, 0x0FC0, 0x1FE0, 0x3870, 0x3030, 0x3030, 0x3870, 0x1FF0, 0x0FB0,
       0x0030, 0x0030, 0x3030, 0x3870, 0x1FE0, 0x0FC0, 0x0000, 0x0000, 0x0000],
      [0x0000, 0x0000, 0x0000, 0x0000, 0x0000, 0x0000, 0x0000, 0x0000, 0x0300,
       0x0300, 0x0000, 0x0000, 0x0300, 0x0300, 0x0000, 0x0000, 0x0000, 0x0000],
      [0x0000, 0x0000, 0x0000, 0x0000, 0x0000, 0x0000, 0x0000, 0x0000, 0x0000,
       0x0300, 0x0300, 0x0000, 0x0000, 0x0300, 0x0300, 0x0100, 0x0200, 0x0000]]"

definition font_5 :: "int list list" where
  "font_5 =
     [
      [0x0000, 0x0000, 0x0000, 0x0000, 0x0030, 0x00E0, 0x0380, 0x0E00, 0x3800,
       0x0E00, 0x0380, 0x00E0, 0x0030, 0x0000, 0x0000, 0x0000, 0x0000, 0x0000],
      [0x0000, 0x0000, 0x0000, 0x0000, 0x0000, 0x0000, 0x3FF0, 0x3FF0, 0x0000,
       0x0000, 0x3FF0, 0x3FF0, 0x0000, 0x0000, 0x0000, 0x0000, 0x0000, 0x0000],
      [0x0000, 0x0000, 0x0000, 0x0000, 0x3000, 0x1C00, 0x0700, 0x01C0, 0x0070,
       0x01C0, 0x0700, 0x1C00, 0x3000, 0x0000, 0x0000, 0x0000, 0x0000, 0x0000],
      [0x0000, 0x0FC0, 0x1FE0, 0x3860, 0x3030, 0x0030, 0x0030, 0x0060, 0x01E0,
       0x0380, 0x0300, 0x0300, 0x0000, 0x0000, 0x0300, 0x0300, 0x0000, 0x0000],
      [0x0000, 0x0000, 0x0000, 0x0000, 0x0000, 0x07C0, 0x1FF0, 0x3838, 0x3018,
       0x63C8, 0x6668, 0x6428, 0x6668, 0x33F0, 0x3000, 0x1FE0, 0x0FE0, 0x0000],
      [0x0000, 0x0300, 0x0780, 0x0780, 0x0CC0, 0x0CC0, 0x0860, 0x1860, 0x1860,
       0x1860, 0x3FF0, 0x3FF0, 0x3030, 0x7038, 0x6018, 0x0000, 0x0000, 0x0000],
      [0x0000, 0x3F80, 0x3FC0, 0x30E0, 0x3060, 0x3060, 0x30C0, 0x3FE0, 0x3FE0,
       0x3070, 0x3030, 0x3030, 0x3030, 0x3FE0, 0x3FE0, 0x0000, 0x0000, 0x0000]]"

definition font_6 :: "int list list" where
  "font_6 =
     [
      [0x0000, 0x0FC0, 0x1FE0, 0x3870, 0x3030, 0x6000, 0x6000, 0x6000, 0x6000,
       0x6000, 0x6000, 0x3030, 0x3870, 0x1FE0, 0x0FC0, 0x0000, 0x0000, 0x0000],
      [0x0000, 0x3FC0, 0x3FE0, 0x3060, 0x3030, 0x3030, 0x3018, 0x3018, 0x3018,
       0x3018, 0x3018, 0x3018, 0x3030, 0x3FF0, 0x3FE0, 0x0000, 0x0000, 0x0000],
      [0x0000, 0x3FF0, 0x3FF0, 0x3000, 0x3000, 0x3000, 0x3000, 0x3FC0, 0x3FC0,
       0x3000, 0x3000, 0x3000, 0x3000, 0x3FF0, 0x3FF0, 0x0000, 0x0000, 0x0000],
      [0x0000, 0x3FF0, 0x3FF0, 0x3000, 0x3000, 0x3000, 0x3000, 0x3FC0, 0x3FC0,
       0x3000, 0x3000, 0x3000, 0x3000, 0x3000, 0x3000, 0x0000, 0x0000, 0x0000],
      [0x0000, 0x0FE0, 0x1FF0, 0x1838, 0x3018, 0x3018, 0x3000, 0x3000, 0x31F8,
       0x31F8, 0x3018, 0x3018, 0x1830, 0x1FF0, 0x0FE0, 0x0000, 0x0000, 0x0000],
      [0x0000, 0x3030, 0x3030, 0x3030, 0x3030, 0x3030, 0x3030, 0x3FF0, 0x3FF0,
       0x3030, 0x3030, 0x3030, 0x3030, 0x3030, 0x3030, 0x0000, 0x0000, 0x0000],
      [0x0000, 0x3FF0, 0x3FF0, 0x0300, 0x0300, 0x0300, 0x0300, 0x0300, 0x0300,
       0x0300, 0x0300, 0x0300, 0x0300, 0x3FF0, 0x3FF0, 0x0000, 0x0000, 0x0000]]"

definition font_7 :: "int list list" where
  "font_7 =
     [
      [0x0000, 0x0030, 0x0030, 0x0030, 0x0030, 0x0030, 0x0030, 0x0030, 0x0030,
       0x0030, 0x3030, 0x3030, 0x3860, 0x1FE0, 0x0FC0, 0x0000, 0x0000, 0x0000],
      [0x0000, 0x3030, 0x3070, 0x30E0, 0x31C0, 0x3380, 0x3F00, 0x3E00, 0x3E00,
       0x3F00, 0x3380, 0x31C0, 0x30E0, 0x3070, 0x3030, 0x0000, 0x0000, 0x0000],
      [0x0000, 0x3000, 0x3000, 0x3000, 0x3000, 0x3000, 0x3000, 0x3000, 0x3000,
       0x3000, 0x3000, 0x3000, 0x3000, 0x3FF0, 0x3FF0, 0x0000, 0x0000, 0x0000],
      [0x0000, 0x6018, 0x7038, 0x7878, 0x7CF8, 0x6FD8, 0x6798, 0x6318, 0x6018,
       0x6018, 0x6018, 0x6018, 0x6018, 0x6018, 0x6018, 0x0000, 0x0000, 0x0000],
      [0x0000, 0x3030, 0x3830, 0x3C30, 0x3C30, 0x3630, 0x3630, 0x3330, 0x3330,
       0x3330, 0x31B0, 0x31B0, 0x30F0, 0x30F0, 0x3070, 0x0000, 0x0000, 0x0000],
      [0x0000, 0x0FC0, 0x1FE0, 0x1860, 0x3030, 0x3030, 0x3030, 0x3030, 0x3030,
       0x3030, 0x3030, 0x3030, 0x1860, 0x1FE0, 0x0FC0, 0x0000, 0x0000, 0x0000],
      [0x0000, 0x3F80, 0x3FE0, 0x3060, 0x3030, 0x3030, 0x3030, 0x3070, 0x3FE0,
       0x3FC0, 0x3000, 0x3000, 0x3000, 0x3000, 0x3000, 0x0000, 0x0000, 0x0000]]"

definition font_8 :: "int list list" where
  "font_8 =
     [
      [0x0000, 0x0FC0, 0x1FE0, 0x3870, 0x3030, 0x3030, 0x3030, 0x3030, 0x3030,
       0x3030, 0x3130, 0x31B0, 0x38E0, 0x1FE0, 0x0FE0, 0x0030, 0x0010, 0x0000],
      [0x0000, 0x3F80, 0x3FE0, 0x3060, 0x3030, 0x3030, 0x3030, 0x3070, 0x3FE0,
       0x3FC0, 0x3180, 0x30C0, 0x30E0, 0x3060, 0x3060, 0x0000, 0x0000, 0x0000],
      [0x0000, 0x0FF0, 0x1FF8, 0x3818, 0x3000, 0x3000, 0x3800, 0x1FE0, 0x0FF0,
       0x0038, 0x0018, 0x0018, 0x3030, 0x3FF0, 0x1FE0, 0x0000, 0x0000, 0x0000],
      [0x0000, 0x3FF0, 0x3FF0, 0x0300, 0x0300, 0x0300, 0x0300, 0x0300, 0x0300,
       0x0300, 0x0300, 0x0300, 0x0300, 0x0300, 0x0300, 0x0000, 0x0000, 0x0000],
      [0x0000, 0x3030, 0x3030, 0x3030, 0x3030, 0x3030, 0x3030, 0x3030, 0x3030,
       0x3030, 0x3030, 0x3030, 0x3870, 0x1FE0, 0x0FC0, 0x0000, 0x0000, 0x0000],
      [0x0000, 0x6018, 0x6018, 0x3030, 0x3030, 0x3030, 0x1020, 0x1860, 0x1860,
       0x1860, 0x0CC0, 0x0CC0, 0x0780, 0x0780, 0x0300, 0x0000, 0x0000, 0x0000],
      [0x0000, 0x6018, 0x6018, 0x6018, 0x6018, 0x3030, 0x3330, 0x3330, 0x3330,
       0x37B0, 0x37B0, 0x3CF0, 0x1CE0, 0x1860, 0x1860, 0x0000, 0x0000, 0x0000]]"

definition font_9 :: "int list list" where
  "font_9 =
     [
      [0x0000, 0x4008, 0x6018, 0x7038, 0x3870, 0x1CE0, 0x0FC0, 0x0780, 0x0780,
       0x0FC0, 0x1CE0, 0x3870, 0x7038, 0x6018, 0x4008, 0x0000, 0x0000, 0x0000],
      [0x0000, 0x6018, 0x6018, 0x3030, 0x3030, 0x3870, 0x1860, 0x0CC0, 0x0FC0,
       0x0780, 0x0300, 0x0300, 0x0300, 0x0300, 0x0300, 0x0000, 0x0000, 0x0000],
      [0x0000, 0x3FF8, 0x3FF8, 0x0018, 0x0030, 0x0060, 0x00C0, 0x0180, 0x0300,
       0x0600, 0x0C00, 0x1800, 0x3000, 0x3FF8, 0x3FF8, 0x0000, 0x0000, 0x0000],
      [0x03E0, 0x03E0, 0x0300, 0x0300, 0x0300, 0x0300, 0x0300, 0x0300, 0x0300,
       0x0300, 0x0300, 0x0300, 0x0300, 0x0300, 0x0300, 0x03E0, 0x03E0, 0x0000],
      [0x0000, 0x3000, 0x3800, 0x1800, 0x1C00, 0x0E00, 0x0600, 0x0700, 0x0380,
       0x0180, 0x01C0, 0x00E0, 0x0060, 0x0070, 0x0030, 0x0000, 0x0000, 0x0000],
      [0x1F00, 0x1F00, 0x0300, 0x0300, 0x0300, 0x0300, 0x0300, 0x0300, 0x0300,
       0x0300, 0x0300, 0x0300, 0x0300, 0x0300, 0x0300, 0x1F00, 0x1F00, 0x0000],
      [0x0300, 0x0780, 0x0CC0, 0x1860, 0x0000, 0x0000, 0x0000, 0x0000, 0x0000,
       0x0000, 0x0000, 0x0000, 0x0000, 0x0000, 0x0000, 0x0000, 0x0000, 0x0000]]"

definition font_10 :: "int list list" where
  "font_10 =
     [
      [0x0000, 0x0000, 0x0000, 0x0000, 0x0000, 0x0000, 0x0000, 0x0000, 0x0000,
       0x0000, 0x0000, 0x0000, 0x0000, 0x0000, 0x0000, 0x0000, 0x7FF8, 0x7FF8],
      [0x0000, 0x0300, 0x0380, 0x01C0, 0x00C0, 0x0000, 0x0000, 0x0000, 0x0000,
       0x0000, 0x0000, 0x0000, 0x0000, 0x0000, 0x0000, 0x0000, 0x0000, 0x0000],
      [0x0000, 0x0000, 0x0000, 0x0000, 0x0000, 0x1FE0, 0x3FF0, 0x3030, 0x0030,
       0x1FF0, 0x3FF0, 0x7030, 0x7030, 0x3FF8, 0x1F98, 0x0000, 0x0000, 0x0000],
      [0x0000, 0x3000, 0x3000, 0x3000, 0x3000, 0x37C0, 0x3FE0, 0x3C70, 0x3030,
       0x3030, 0x3030, 0x3030, 0x3060, 0x3FE0, 0x3FC0, 0x0000, 0x0000, 0x0000],
      [0x0000, 0x0000, 0x0000, 0x0000, 0x0000, 0x0FC0, 0x1FE0, 0x3830, 0x3000,
       0x3000, 0x3000, 0x3000, 0x3830, 0x1FE0, 0x0FC0, 0x0000, 0x0000, 0x0000],
      [0x0000, 0x0030, 0x0030, 0x0030, 0x0030, 0x0FB0, 0x1FF0, 0x1870, 0x3030,
       0x3030, 0x3030, 0x3030, 0x3870, 0x1FF0, 0x0FB0, 0x0000, 0x0000, 0x0000],
      [0x0000, 0x0000, 0x0000, 0x0000, 0x0000, 0x0FC0, 0x1FE0, 0x3870, 0x3030,
       0x3FF0, 0x3FF0, 0x3000, 0x3870, 0x1FE0, 0x0FC0, 0x0000, 0x0000, 0x0000]]"

definition font_11 :: "int list list" where
  "font_11 =
     [
      [0x0000, 0x01F0, 0x03F0, 0x0700, 0x0600, 0x0600, 0x3FE0, 0x3FE0, 0x0600,
       0x0600, 0x0600, 0x0600, 0x0600, 0x0600, 0x0600, 0x0000, 0x0000, 0x0000],
      [0x0000, 0x0000, 0x0000, 0x0000, 0x0000, 0x0FB0, 0x1FF0, 0x3870, 0x3030,
       0x3030, 0x3030, 0x3870, 0x3FF0, 0x1FF0, 0x0030, 0x3070, 0x3FE0, 0x1FC0],
      [0x0000, 0x3000, 0x3000, 0x3000, 0x3000, 0x37C0, 0x3FC0, 0x3860, 0x3030,
       0x3030, 0x3030, 0x3030, 0x3030, 0x3030, 0x3030, 0x0000, 0x0000, 0x0000],
      [0x0000, 0x0000, 0x0700, 0x0700, 0x0000, 0x0000, 0x0700, 0x0700, 0x0300,
       0x0300, 0x0300, 0x0300, 0x0300, 0x1FE0, 0x1FE0, 0x0000, 0x0000, 0x0000],
      [0x0000, 0x0000, 0x0070, 0x0070, 0x0000, 0x0000, 0x00F0, 0x00F0, 0x0030,
       0x0030, 0x0030, 0x0030, 0x0030, 0x0030, 0x0030, 0x3070, 0x3FE0, 0x1FC0],
      [0x0000, 0x3000, 0x3000, 0x3000, 0x3000, 0x3070, 0x30E0, 0x31C0, 0x3380,
       0x3F00, 0x3F00, 0x3380, 0x31C0, 0x30E0, 0x3070, 0x0000, 0x0000, 0x0000],
      [0x0000, 0x0F00, 0x0F00, 0x0300, 0x0300, 0x0300, 0x0300, 0x0300, 0x0300,
       0x0300, 0x0300, 0x0300, 0x0300, 0x1FE0, 0x1FE0, 0x0000, 0x0000, 0x0000]]"

definition font_12 :: "int list list" where
  "font_12 =
     [
      [0x0000, 0x0000, 0x0000, 0x0000, 0x0000, 0x3760, 0x3FF0, 0x7398, 0x6318,
       0x6318, 0x6318, 0x6318, 0x6318, 0x6318, 0x6318, 0x0000, 0x0000, 0x0000],
      [0x0000, 0x0000, 0x0000, 0x0000, 0x0000, 0x37C0, 0x3FE0, 0x3070, 0x3030,
       0x3030, 0x3030, 0x3030, 0x3030, 0x3030, 0x3030, 0x0000, 0x0000, 0x0000],
      [0x0000, 0x0000, 0x0000, 0x0000, 0x0000, 0x0FC0, 0x1FE0, 0x3870, 0x3030,
       0x3030, 0x3030, 0x3030, 0x1870, 0x1FE0, 0x0FC0, 0x0000, 0x0000, 0x0000],
      [0x0000, 0x0000, 0x0000, 0x0000, 0x0000, 0x6FC0, 0x7FE0, 0x7070, 0x6030,
       0x6030, 0x6030, 0x6030, 0x7070, 0x7FE0, 0x6FC0, 0x6000, 0x6000, 0x6000],
      [0x0000, 0x0000, 0x0000, 0x0000, 0x0000, 0x0FB0, 0x1FF0, 0x3870, 0x3030,
       0x3030, 0x3030, 0x3030, 0x3870, 0x1FF0, 0x0FB0, 0x0030, 0x0030, 0x0030],
      [0x0000, 0x0000, 0x0000, 0x0000, 0x0000, 0x37C0, 0x3FE0, 0x3860, 0x3000,
       0x3000, 0x3000, 0x3000, 0x3000, 0x3000, 0x3000, 0x0000, 0x0000, 0x0000],
      [0x0000, 0x0000, 0x0000, 0x0000, 0x0FE0, 0x1FF0, 0x3830, 0x3000, 0x3E00,
       0x1FE0, 0x03F0, 0x0030, 0x3070, 0x3FE0, 0x1FC0, 0x0000, 0x0000, 0x0000]]"

definition font_13 :: "int list list" where
  "font_13 =
     [
      [0x0000, 0x0600, 0x0600, 0x0600, 0x3FE0, 0x3FE0, 0x0600, 0x0600, 0x0600,
       0x0600, 0x0600, 0x0600, 0x0700, 0x07C0, 0x03C0, 0x0000, 0x0000, 0x0000],
      [0x0000, 0x0000, 0x0000, 0x0000, 0x0000, 0x3030, 0x3030, 0x3030, 0x3030,
       0x3030, 0x3030, 0x3030, 0x3870, 0x1FE0, 0x0FC0, 0x0000, 0x0000, 0x0000],
      [0x0000, 0x0000, 0x0000, 0x0000, 0x0000, 0x3030, 0x3030, 0x1860, 0x1860,
       0x0CC0, 0x0CC0, 0x0780, 0x0780, 0x0300, 0x0300, 0x0000, 0x0000, 0x0000],
      [0x0000, 0x0000, 0x0000, 0x0000, 0x0000, 0x6018, 0x6018, 0x6018, 0x6018,
       0x6018, 0x6318, 0x6318, 0x37B0, 0x3CF0, 0x1860, 0x0000, 0x0000, 0x0000],
      [0x0000, 0x0000, 0x0000, 0x0000, 0x0000, 0x3030, 0x3870, 0x1CE0, 0x0FC0,
       0x0780, 0x0780, 0x0FC0, 0x1CE0, 0x3870, 0x3030, 0x0000, 0x0000, 0x0000],
      [0x0000, 0x0000, 0x0000, 0x0000, 0x0000, 0x7038, 0x7038, 0x3830, 0x1870,
       0x1C60, 0x0C60, 0x0EE0, 0x06C0, 0x07C0, 0x0380, 0x0300, 0x0F00, 0x0E00],
      [0x0000, 0x0000, 0x0000, 0x0000, 0x0000, 0x3FF0, 0x3FF0, 0x00E0, 0x01C0,
       0x0380, 0x0700, 0x0E00, 0x1C00, 0x3FF0, 0x3FF0, 0x0000, 0x0000, 0x0000]]"

definition font_14 :: "int list list" where
  "font_14 =
     [
      [0x01E0, 0x03E0, 0x0300, 0x0300, 0x0300, 0x0300, 0x0300, 0x0300, 0x0600,
       0x0600, 0x0300, 0x0300, 0x0300, 0x0300, 0x0300, 0x0300, 0x03E0, 0x01E0],
      [0x0000, 0x0300, 0x0300, 0x0300, 0x0300, 0x0300, 0x0300, 0x0000, 0x0000,
       0x0300, 0x0300, 0x0300, 0x0300, 0x0300, 0x0300, 0x0000, 0x0000, 0x0000],
      [0x1C00, 0x1E00, 0x0600, 0x0600, 0x0600, 0x0600, 0x0600, 0x0600, 0x0300,
       0x0300, 0x0600, 0x0600, 0x0600, 0x0600, 0x0600, 0x0600, 0x1E00, 0x1C00],
      [0x0E00, 0x1F0C, 0x3B9C, 0x71F8, 0x60F0, 0x0060, 0x0000, 0x0000, 0x0000,
       0x0000, 0x0000, 0x0000, 0x0000, 0x0000, 0x0000, 0x0000, 0x0000, 0x0000],
      [0x0000, 0x7FF8, 0x7FF8, 0x7FF8, 0x7FF8, 0x7FF8, 0x7FF8, 0x7FF8, 0x7FF8,
       0x7FF8, 0x7FF8, 0x7FF8, 0x7FF8, 0x7FF8, 0x7FF8, 0x0000, 0x0000, 0x0000]]"

definition font :: "int list list" where
  "font = font_1 @ font_2 @ font_3 @ font_4 @ font_5 @ font_6 @ font_7 @ font_8 @ font_9 @ font_10 @ font_11 @ font_12 @ font_13 @ font_14"

lemmas font_defs = font_def font_1_def font_2_def font_3_def font_4_def font_5_def font_6_def font_7_def font_8_def font_9_def font_10_def font_11_def font_12_def font_13_def font_14_def

lemma length_font [simp]: "length font = 96"
  by (simp add: font_defs)

end
