(* ===== verification/Framebuffer.thy ===== *)
theory Framebuffer
  imports Font CInt "HOL-Library.Monad_Syntax"
begin

text \<open>
  \<^verbatim>\<open>fb.c\<close>, the progress display on the framebuffer. Drawing is storing four bytes at addresses
  that the code computes in unsigned arithmetic of 32 bits; an access outside the mapped memory, or
  through a pointer that is null or no longer mapped, is the value \<open>None\<close>. The driver is a
  parameter.
\<close>

unbundle bit_operations_syntax

subsection \<open>The globals\<close>

record fb_var =
  fv_xres :: u32
  fv_yres :: u32
  fv_xres_virtual :: u32
  fv_yres_virtual :: u32
  fv_xoffset :: u32
  fv_yoffset :: u32
  fv_bpp :: u32
  fv_activate :: u32
  fv_height :: u32
  fv_width :: u32

record fb_fix =
  ff_smem_len :: u32
  ff_line_length :: u32

record window_t =
  wn_x1 :: int
  wn_y1 :: int
  wn_x2 :: int
  wn_y2 :: int
  wn_width :: int
  wn_height :: int

record progressbar =
  pb_x1 :: int
  pb_y1 :: int
  pb_x2 :: int
  pb_y2 :: int
  pb_outer :: int
  pb_inner :: int
  pb_width :: int
  pb_height :: int
  pb_steps :: int

text \<open>What \<^verbatim>\<open>g_lfb\<close> points to: nothing, the mapping, or where it was before it was unmapped.\<close>

datatype lfb = NoMap | Mapped "byte list" | Unmapped

record fb =
  g_fbFd :: int
  g_lfb :: lfb
  g_manual_blit :: bool
  g_var :: fb_var
  g_fix :: fb_fix
  g_step :: int
  g_fbMapLen :: nat
  g_fbPages :: int
  g_window :: window_t
  g_pb_overall :: progressbar
  g_pb_step :: progressbar

definition zero_bar :: progressbar where
  "zero_bar = \<lparr>pb_x1 = 0, pb_y1 = 0, pb_x2 = 0, pb_y2 = 0, pb_outer = 0, pb_inner = 0, pb_width = 0,
     pb_height = 0, pb_steps = 0\<rparr>"

definition fb_initial :: fb where
  "fb_initial = \<lparr>g_fbFd = -1, g_lfb = NoMap, g_manual_blit = False,
     g_var = \<lparr>fv_xres = 0, fv_yres = 0, fv_xres_virtual = 0, fv_yres_virtual = 0, fv_xoffset = 0, fv_yoffset = 0,
       fv_bpp = 0, fv_activate = 0, fv_height = 0, fv_width = 0\<rparr>,
     g_fix = \<lparr>ff_smem_len = 0, ff_line_length = 0\<rparr>, g_step = 1, g_fbMapLen = 0, g_fbPages = 1,
     g_window = \<lparr>wn_x1 = 0, wn_y1 = 0, wn_x2 = 0, wn_y2 = 0, wn_width = 0, wn_height = 0\<rparr>,
     g_pb_overall = zero_bar, g_pb_step = zero_bar\<rparr>"

type_synonym color = "byte list"

definition TRANS :: color where "TRANS = [0, 0, 0, 0]"
definition BLACK :: color where "BLACK = [0, 0, 0, 0x80]"
definition WHITE :: color where "WHITE = [0xFF, 0xFF, 0xFF, 0xFF]"
definition RED :: color where "RED = [0, 0, 0xFF, 0xFF]"

definition FB_WIDTH :: u32 where "FB_WIDTH = 1280"
definition FB_HEIGHT :: u32 where "FB_HEIGHT = 720"
definition FB_BPP :: u32 where "FB_BPP = 32"
definition FB_ACTIVATE_ALL :: u32 where "FB_ACTIVATE_ALL = 64"

subsection \<open>Storing pixels\<close>

definition put_pixel :: "color \<Rightarrow> u32 \<Rightarrow> fb \<Rightarrow> fb option" where
  "put_pixel col a f =
     (case g_lfb f of
        Mapped m \<Rightarrow>
          if unat a + 4 \<le> length m then Some (f\<lparr>g_lfb := Mapped (store_at (unat a) col m)\<rparr>) else None
      | _ \<Rightarrow> None)"

fun put_pixels :: "color \<Rightarrow> u32 list \<Rightarrow> fb \<Rightarrow> fb option" where
  "put_pixels col [] f = Some f"
| "put_pixels col (a # as) f = (case put_pixel col a f of None \<Rightarrow> None | Some f1 \<Rightarrow> put_pixels col as f1)"

definition pixel_addr :: "fb \<Rightarrow> int \<Rightarrow> int \<Rightarrow> u32" where
  "pixel_addr f x y =
     (word_of_int x + fv_xoffset (g_var f)) * 4 + (word_of_int y + fv_yoffset (g_var f)) * ff_line_length (g_fix f)"

definition box_addrs :: "fb \<Rightarrow> int \<Rightarrow> int \<Rightarrow> int \<Rightarrow> int \<Rightarrow> u32 list" where
  "box_addrs f x1 y1 x2 y2 = concat (map (\<lambda>y. map (\<lambda>x. pixel_addr f x y) [x1..x2 - 1]) [y1..y2 - 1])"

definition paint_box :: "int \<Rightarrow> int \<Rightarrow> int \<Rightarrow> int \<Rightarrow> color \<Rightarrow> fb \<Rightarrow> fb option" where
  "paint_box x1 y1 x2 y2 col f = put_pixels col (box_addrs f x1 y1 x2 y2) f"

subsection \<open>Pages\<close>

definition get_safe_pages :: "fb \<Rightarrow> int" where
  "get_safe_pages f =
     (if g_fbMapLen f = 0 \<or> ff_line_length (g_fix f) = 0 \<or> fv_yres (g_var f) = 0 then 1
      else
        let max_lines = word_of_nat (g_fbMapLen f) div ff_line_length (g_fix f);
            yvirt = (if fv_yres_virtual (g_var f) > max_lines then max_lines else fv_yres_virtual (g_var f));
            pages = c_int (uint (yvirt div fv_yres (g_var f)))
        in if pages < 1 then 1 else pages)"

definition full_box :: "color \<Rightarrow> fb \<Rightarrow> fb option" where
  "full_box col f = paint_box 0 0 (c_int (uint (fv_xres (g_var f)))) (c_int (uint (fv_yres (g_var f)))) col f"

definition set_yoffset :: "u32 \<Rightarrow> fb \<Rightarrow> fb" where
  "set_yoffset y f = f\<lparr>g_var := (g_var f)\<lparr>fv_yoffset := y\<rparr>\<rparr>"

fun clear_pages :: "color \<Rightarrow> int list \<Rightarrow> fb \<Rightarrow> fb option" where
  "clear_pages col [] f = Some f"
| "clear_pages col (p # ps) f =
     (case full_box col (set_yoffset (word_of_int p * fv_yres (g_var f)) f) of
        None \<Rightarrow> None
      | Some f1 \<Rightarrow> clear_pages col ps f1)"

definition clear_all_pages :: "color \<Rightarrow> fb \<Rightarrow> fb option" where
  "clear_all_pages col f =
     map_option (set_yoffset (fv_yoffset (g_var f))) (clear_pages col [0..get_safe_pages f - 1] f)"

text \<open>What is done at the start, the end and by \<^verbatim>\<open>show_main_window\<close>.\<close>

definition hide_content :: "fb \<Rightarrow> fb option" where
  "hide_content f = (if g_lfb f \<noteq> NoMap then clear_all_pages TRANS f else full_box TRANS f)"

subsection \<open>Window and bars\<close>

text \<open>
  The code calculates with \<^verbatim>\<open>double\<close> and truncates, e.g. \<^verbatim>\<open>y1 + height * 0.35 + 18\<close>; the fractions are
  in percent here. For the window of 640 by 480 both agree, as no product rounds to another integer.
\<close>

definition frac :: "int \<Rightarrow> int \<Rightarrow> int \<Rightarrow> int" where
  "frac base len percent = c_div (base * 100 + len * percent) 100"

definition set_window_dimension :: "fb \<Rightarrow> fb" where
  "set_window_dimension f =
     (let hx = fv_xres (g_var f) div 2; hy = fv_yres (g_var f) div 2
      in f\<lparr>g_window := \<lparr>wn_x1 = c_int (uint (hx - 320)), wn_y1 = c_int (uint (hy - 240)),
             wn_x2 = c_int (uint (hx + 320)), wn_y2 = c_int (uint (hy + 240)), wn_width = 640, wn_height = 480\<rparr>\<rparr>)"

definition bar_at :: "window_t \<Rightarrow> int \<Rightarrow> int \<Rightarrow> progressbar" where
  "bar_at w percent steps =
     (let y1 = frac (wn_y1 w) (wn_height w) percent; height = frac 0 (wn_height w) 10
      in \<lparr>pb_x1 = frac (wn_x1 w - 10 - 5) (wn_width w) 10, pb_y1 = y1,
          pb_x2 = frac (wn_x2 w + 10 + 5) (wn_width w) (-10), pb_y2 = y1 + height + 2 * 10 + 2 * 5,
          pb_outer = 10, pb_inner = 5, pb_width = frac 0 (wn_width w) 80, pb_height = height, pb_steps = steps\<rparr>)"

definition init_progressbars :: "int \<Rightarrow> fb \<Rightarrow> fb" where
  "init_progressbars steps f =
     f\<lparr>g_pb_overall := bar_at (g_window f) 40 steps, g_pb_step := bar_at (g_window f) 65 (pb_steps (g_pb_step f))\<rparr>"

definition paint_bar :: "progressbar \<Rightarrow> fb \<Rightarrow> fb option" where
  "paint_bar b f =
     (case paint_box (pb_x1 b) (pb_y1 b) (pb_x2 b) (pb_y2 b) WHITE f of
        None \<Rightarrow> None
      | Some f1 \<Rightarrow>
          paint_box (pb_x1 b + pb_outer b) (pb_y1 b + pb_outer b) (pb_x2 b - pb_outer b) (pb_y2 b - pb_outer b) BLACK f1)"

definition paint_progressbars :: "fb \<Rightarrow> fb option" where
  "paint_progressbars f = (case paint_bar (g_pb_overall f) f of None \<Rightarrow> None | Some f1 \<Rightarrow> paint_bar (g_pb_step f1) f1)"


subsection \<open>The driver\<close>

text \<open>
  The calls on the device; a failing request is \<open>None\<close> or \<open>False\<close>. The last two are \<^verbatim>\<open>access\<close> and
  \<^verbatim>\<open>system\<close>, for the background image.
\<close>

record 'd fbdev =
  fd_open :: "'d \<Rightarrow> int \<times> 'd"
  fd_manual :: "bool \<Rightarrow> 'd \<Rightarrow> bool \<times> 'd"
  fd_blit :: "'d \<Rightarrow> 'd"
  fd_getvar :: "'d \<Rightarrow> fb_var option \<times> 'd"
  fd_getfix :: "'d \<Rightarrow> fb_fix option \<times> 'd"
  fd_putvar :: "fb_var \<Rightarrow> 'd \<Rightarrow> bool \<times> 'd"
  fd_mmap :: "nat \<Rightarrow> 'd \<Rightarrow> byte list option \<times> 'd"
  fd_close :: "'d \<Rightarrow> 'd"
  fd_readable :: "string \<Rightarrow> 'd \<Rightarrow> bool \<times> 'd"
  fd_system :: "string \<Rightarrow> 'd \<Rightarrow> int \<times> 'd"

type_synonym 'd disp = "fb \<times> 'd"

text \<open>Drawing leaves the driver alone.\<close>

definition draw :: "(fb \<Rightarrow> fb option) \<Rightarrow> 'd disp \<Rightarrow> 'd disp option" where
  "draw p s = map_option (\<lambda>f. (f, snd s)) (p (fst s))"

definition blit :: "'d fbdev \<Rightarrow> 'd disp \<Rightarrow> 'd disp" where
  "blit D s = (if g_manual_blit (fst s) then (fst s, fd_blit D (snd s)) else s)"

definition manualBlit :: "'d fbdev \<Rightarrow> bool \<Rightarrow> 'd disp \<Rightarrow> 'd disp" where
  "manualBlit D on s =
     (case fd_manual D on (snd s) of
        (ok, d) \<Rightarrow> (if ok then (fst s)\<lparr>g_manual_blit := on\<rparr> else fst s, d))"

definition close_framebuffer :: "'d fbdev \<Rightarrow> 'd disp \<Rightarrow> 'd disp option" where
  "close_framebuffer D s = do {
     s1 \<leftarrow> draw hide_content s;
     let s2 = (if g_lfb (fst s1) \<noteq> NoMap then ((fst s1)\<lparr>g_lfb := Unmapped, g_fbMapLen := 0\<rparr>, snd s1) else s1);
     Some (if g_fbFd (fst s2) \<ge> 0
           then (case manualBlit D False s2 of (f, d) \<Rightarrow> (f\<lparr>g_fbFd := -1\<rparr>, fd_close D d))
           else s2)
   }"

definition get_screeninfo :: "'d fbdev \<Rightarrow> 'd disp \<Rightarrow> bool \<times> 'd disp" where
  "get_screeninfo D s =
     (case fd_getvar D (snd s) of
        (None, d) \<Rightarrow> (False, fst s, d)
      | (Some v, d) \<Rightarrow>
          (case fd_getfix D d of
             (None, d1) \<Rightarrow> (False, (fst s)\<lparr>g_var := v\<rparr>, d1)
           | (Some x, d1) \<Rightarrow> (True, (fst s)\<lparr>g_var := v, g_fix := x\<rparr>, d1)))"

text \<open>Three, two or one page, the first that the driver takes.\<close>

fun try_yvirt :: "'d fbdev \<Rightarrow> fb_var \<Rightarrow> u32 list \<Rightarrow> 'd disp \<Rightarrow> 'd disp" where
  "try_yvirt D orig [] s = s"
| "try_yvirt D orig (y # ys) s =
     (let v = orig\<lparr>fv_yres_virtual := y, fv_xoffset := 0, fv_yoffset := 0, fv_activate := FB_ACTIVATE_ALL\<rparr>
      in case fd_putvar D v (snd s) of
           (ok, d) \<Rightarrow>
             let s1 = ((fst s)\<lparr>g_var := v\<rparr>, d) in if ok then s1 else try_yvirt D orig ys s1)"

definition set_screeninfo :: "'d fbdev \<Rightarrow> 'd disp \<Rightarrow> bool \<times> 'd disp" where
  "set_screeninfo D s =
     (let orig = g_var (fst s); ny = fv_yres orig
      in if ny = 0 then (True, s)
         else
           (case get_screeninfo D (try_yvirt D orig [ny * 3, ny * 2, ny] s) of
              (False, s1) \<Rightarrow> (False, s1)
            | (True, (f, d)) \<Rightarrow>
                let pages = (if fv_yres (g_var f) = 0 then 1
                             else c_int (uint (fv_yres_virtual (g_var f) div fv_yres (g_var f))))
                in (True, f\<lparr>g_fbPages := (if pages < 1 then 1 else pages)\<rparr>, d)))"

definition open_framebuffer :: "'d fbdev \<Rightarrow> 'd disp \<Rightarrow> bool \<times> 'd disp" where
  "open_framebuffer D s =
     (case fd_open D (snd s) of
        (fd, d) \<Rightarrow>
          if fd < 0 then (False, (fst s)\<lparr>g_fbFd := fd\<rparr>, d)
          else (True, manualBlit D True ((fst s)\<lparr>g_fbFd := fd\<rparr>, d)))"

text \<open>The length of the mapping: what the driver reports, or what the mode needs.\<close>

definition map_length :: "fb \<Rightarrow> u32" where
  "map_length f =
     (let l1 = ff_smem_len (g_fix f);
          l2 = (if l1 = 0 \<and> ff_line_length (g_fix f) \<noteq> 0 \<and> fv_yres_virtual (g_var f) \<noteq> 0
                then ff_line_length (g_fix f) * fv_yres_virtual (g_var f) else l1)
      in if l2 = 0 \<and> fv_xres (g_var f) \<noteq> 0 \<and> fv_yres_virtual (g_var f) \<noteq> 0 \<and> fv_bpp (g_var f) \<noteq> 0
         then fv_xres (g_var f) * fv_yres_virtual (g_var f) * (fv_bpp (g_var f) div 8) else l2)"

definition mmap_fb :: "'d fbdev \<Rightarrow> 'd disp \<Rightarrow> bool \<times> 'd disp" where
  "mmap_fb D s =
     (let len = map_length (fst s)
      in if len = 0 then (False, s)
         else
           (case fd_mmap D (unat len) (snd s) of
              (None, d) \<Rightarrow> (False, (fst s)\<lparr>g_lfb := NoMap, g_fbMapLen := 0\<rparr>, d)
            | (Some m, d) \<Rightarrow>
                let f = (fst s)\<lparr>g_lfb := Mapped m, g_fbMapLen := unat len\<rparr>;
                    f1 = f\<lparr>g_fbPages := get_safe_pages f\<rparr>;
                    max_yoff = word_of_int (g_fbPages f1 - 1) * fv_yres (g_var f1)
                in (True,
                    (if fv_yres (g_var f1) \<noteq> 0 \<and> g_fbPages f1 > 0 \<and> fv_yoffset (g_var f1) > max_yoff
                     then set_yoffset 0 f1 else f1), d)))"

text \<open>No part of the program calls this one.\<close>

definition set_fb_resolution :: "'d fbdev \<Rightarrow> 'd disp \<Rightarrow> bool \<times> 'd disp" where
  "set_fb_resolution D s =
     (let v = (g_var (fst s))\<lparr>fv_xres := FB_WIDTH, fv_xres_virtual := FB_WIDTH, fv_yres := FB_HEIGHT,
            fv_yres_virtual := FB_HEIGHT, fv_bpp := FB_BPP, fv_xoffset := 0, fv_yoffset := 0, fv_height := 0, fv_width := 0\<rparr>
      in case fd_putvar D v (snd s) of
           (ok, d) \<Rightarrow>
             let s1 = ((fst s)\<lparr>g_var := v\<rparr>, d)
             in if \<not> ok then (False, s1)
                else
                  (case get_screeninfo D s1 of
                     (ok1, s2) \<Rightarrow> (ok1 \<and> fv_bpp (g_var (fst s2)) = FB_BPP, s2)))"

subsection \<open>Progress\<close>

definition percent_of :: "int \<Rightarrow> int" where
  "percent_of p = (if p < 0 then 0 else if p > 100 then 100 else p)"

definition bar_x :: "progressbar \<Rightarrow> int" where
  "bar_x b = pb_x1 b + pb_outer b + pb_inner b"

definition bar_y :: "progressbar \<Rightarrow> int" where
  "bar_y b = pb_y1 b + pb_outer b + pb_inner b"

definition fill_bar :: "progressbar \<Rightarrow> int \<Rightarrow> fb \<Rightarrow> fb option" where
  "fill_bar b percent =
     paint_box (bar_x b) (bar_y b) (frac (bar_x b) (pb_width b) percent) (bar_y b + pb_height b) WHITE"

definition set_step_progress :: "'d fbdev \<Rightarrow> int \<Rightarrow> 'd disp \<Rightarrow> 'd disp option" where
  "set_step_progress D percent s =
     (if g_fbFd (fst s) = -1 then Some s
      else map_option (blit D) (draw (fill_bar (g_pb_step (fst s)) (percent_of percent)) s))"

text \<open>The overall bar; a number of steps of 0 is divided by.\<close>

definition set_overall_progress :: "int \<Rightarrow> fb \<Rightarrow> fb option" where
  "set_overall_progress step f =
     (if pb_steps (g_pb_overall f) = 0 then None
      else
        let percent = percent_of (c_int (c_div (c_int ((step - 1) * 100)) (pb_steps (g_pb_overall f)))); b = g_pb_step f
        in case fill_bar (g_pb_overall f) percent f of
             None \<Rightarrow> None
           | Some f1 \<Rightarrow>
               if percent \<ge> 99 then Some f1
               else paint_box (bar_x b) (bar_y b) (bar_x b + pb_width b) (bar_y b + pb_height b) BLACK f1)"


subsection \<open>Text\<close>

definition CHAR_HEIGHT :: nat where "CHAR_HEIGHT = 18"
definition CHAR_WIDTH :: nat where "CHAR_WIDTH = 14"

text \<open>The columns of a line of a glyph whose bit is set, from the last column on.\<close>

fun row_columns :: "int \<Rightarrow> nat \<Rightarrow> nat list" where
  "row_columns line 0 = []"
| "row_columns line (Suc w) = (if line AND 1 = 1 then [w] else []) @ row_columns (drop_bit 1 line) w"

text \<open>The addresses of a point of a glyph, one, or four in thick text.\<close>

definition point_addrs :: "fb \<Rightarrow> u32 \<Rightarrow> nat \<Rightarrow> nat \<Rightarrow> nat \<Rightarrow> u32 list" where
  "point_addrs f pos thick h w =
     (let ll = ff_line_length (g_fix f)
      in [pos + word_of_nat ((thick + 1) * h) * ll + word_of_nat ((thick + 1) * w * 4)]
         @ (if thick = 0 then []
            else [pos + word_of_nat (2 * h) * ll + word_of_nat (2 * w * 4) + 4,
                  pos + word_of_nat (2 * h + 1) * ll + word_of_nat (2 * w * 4),
                  pos + word_of_nat (2 * h + 1) * ll + word_of_nat (2 * w * 4) + 4]))"

definition glyph_addrs :: "fb \<Rightarrow> int list \<Rightarrow> int \<Rightarrow> int \<Rightarrow> nat \<Rightarrow> u32 list" where
  "glyph_addrs f bitmap x y thick =
     concat (map (\<lambda>h. concat (map (point_addrs f (pixel_addr f x y) thick h)
       (row_columns (drop_bit 2 (bitmap ! h)) CHAR_WIDTH))) [0..<CHAR_HEIGHT])"

text \<open>A character without a glyph is read from outside the table.\<close>

definition render_char :: "char \<Rightarrow> int \<Rightarrow> int \<Rightarrow> color \<Rightarrow> nat \<Rightarrow> fb \<Rightarrow> fb option" where
  "render_char ch x y col thick f =
     (let i = of_char ch - 0x20
      in if i < 0 \<or> i \<ge> int (length font) then None
         else put_pixels col (glyph_addrs f (font ! nat i) x y thick) f)"

fun render_string :: "string \<Rightarrow> int \<Rightarrow> int \<Rightarrow> color \<Rightarrow> nat \<Rightarrow> fb \<Rightarrow> fb option" where
  "render_string [] x y col thick f = Some f"
| "render_string (c # cs) x y col thick f =
     (case render_char c x y col thick f of
        None \<Rightarrow> None
      | Some f1 \<Rightarrow> render_string cs (x + int (CHAR_WIDTH + CHAR_WIDTH * thick)) y col thick f1)"

text \<open>
  A text at a height of the window, in percent: the box behind it, down to \<open>bottom\<close>, is hidden
  first.
\<close>

definition set_text :: "'d fbdev \<Rightarrow> int option \<Rightarrow> int \<Rightarrow> color \<Rightarrow> nat \<Rightarrow> string \<Rightarrow> 'd disp \<Rightarrow> 'd disp option" where
  "set_text D bottom percent col thick str s =
     (if g_fbFd (fst s) = -1 then Some s
      else do {
        let w = g_window (fst s);
        s1 \<leftarrow> (case bottom of
                None \<Rightarrow> Some s
              | Some y2 \<Rightarrow> draw (paint_box (wn_x1 w + 10) (frac (wn_y1 w) (wn_height w) percent) (wn_x2 w) y2 BLACK) s);
        s2 \<leftarrow> draw (render_string str (wn_x1 w + 10) (frac (wn_y1 w) (wn_height w) percent) col thick) s1;
        Some (blit D s2)
      })"

definition line_below :: "'d disp \<Rightarrow> int \<Rightarrow> int \<Rightarrow> int option" where
  "line_below s percent lines =
     (let w = g_window (fst s) in Some (frac (wn_y1 w + int CHAR_HEIGHT * lines) (wn_height w) percent))"

definition set_title where
  "set_title D str s = set_text D (line_below s 10 2) 10 WHITE 1 str s"

definition set_sub_title where
  "set_sub_title D str s = set_text D (line_below s 20 1) 20 WHITE 0 str s"

definition set_overall_text where
  "set_overall_text D str s = set_text D (line_below s 35 1) 35 WHITE 0 str s"

definition set_step_text where
  "set_step_text D str s = set_text D (line_below s 60 1) 60 WHITE 0 str s"

definition set_info_text where
  "set_info_text D str s = set_text D None 90 WHITE 0 str s"

definition set_error_text where
  "set_error_text D str s = set_text D (Some (wn_y2 (g_window (fst s)))) 90 RED 0 str s"

definition set_error_text1 where
  "set_error_text1 D str s = set_text D (Some (wn_y2 (g_window (fst s)))) 85 RED 0 str s"

definition set_error_text2 where
  "set_error_text2 D str s = set_text D (Some (wn_y2 (g_window (fst s)))) 91 RED 0 str s"

definition set_step :: "'d fbdev \<Rightarrow> string \<Rightarrow> 'd disp \<Rightarrow> 'd disp option" where
  "set_step D str s =
     (if g_fbFd (fst s) = -1 then Some s
      else do {
        s1 \<leftarrow> set_step_text D str s;
        s2 \<leftarrow> draw (set_overall_progress (g_step (fst s1))) s1;
        set_step_progress D 0 ((fst s2)\<lparr>g_step := c_int (g_step (fst s2) + 1)\<rparr>, snd s2)
      })"

definition set_step_without_incr :: "'d fbdev \<Rightarrow> string \<Rightarrow> 'd disp \<Rightarrow> 'd disp option" where
  "set_step_without_incr D str s =
     (if g_fbFd (fst s) = -1 then Some s
      else do {
        s1 \<leftarrow> set_step_text D str s;
        s2 \<leftarrow> draw (set_overall_progress (g_step (fst s1))) s1;
        Some (blit D s2)
      })"

subsection \<open>Start\<close>

text \<open>The first readable one of the pictures is shown by another program.\<close>

fun show_picture :: "'d fbdev \<Rightarrow> string list \<Rightarrow> 'd \<Rightarrow> bool \<times> 'd" where
  "show_picture D [] d = (False, d)"
| "show_picture D (p # ps) d =
     (case fd_readable D p d of
        (False, d1) \<Rightarrow> show_picture D ps d1
      | (True, d1) \<Rightarrow> (case fd_system D (''/usr/bin/showiframe '' @ p) d1 of (r, d2) \<Rightarrow> (r = 0, d2)))"

definition loadBackgroundImage :: "'d fbdev \<Rightarrow> 'd \<Rightarrow> bool \<times> 'd" where
  "loadBackgroundImage D =
     show_picture D [''/etc/enigma2/bootlogo.mvi'', ''/etc/enigma2/backdrop.mvi'',
       ''/usr/share/bootlogo.mvi'', ''/usr/share/backdrop.mvi'']"

text \<open>The two results of \<^verbatim>\<open>init_framebuffer\<close>; on a failure the framebuffer is closed again.\<close>

definition init_framebuffer :: "'d fbdev \<Rightarrow> int \<Rightarrow> 'd disp \<Rightarrow> (bool \<times> 'd disp) option" where
  "init_framebuffer D steps s =
     (case (if g_fbFd (fst s) = -1 then open_framebuffer D s else (True, s)) of
        (False, s1) \<Rightarrow> Some (False, s1)
      | (True, s1) \<Rightarrow>
          (case get_screeninfo D s1 of
             (False, s2) \<Rightarrow> map_option (Pair False) (close_framebuffer D s2)
           | (True, s2) \<Rightarrow>
               (case set_screeninfo D s2 of
                  (False, s3) \<Rightarrow> map_option (Pair False) (close_framebuffer D s3)
                | (True, s3) \<Rightarrow>
                    (case mmap_fb D s3 of
                       (False, s4) \<Rightarrow> map_option (Pair False) (close_framebuffer D s4)
                     | (True, s4) \<Rightarrow> do {
                         s5 \<leftarrow> draw hide_content (set_window_dimension (fst s4), snd s4);
                         Some (True, init_progressbars steps (fst s5), snd s5)
                       }))))"

definition show_main_window :: "'d fbdev \<Rightarrow> bool \<Rightarrow> string \<Rightarrow> 'd disp \<Rightarrow> 'd disp option" where
  "show_main_window D background version s = do {
     s1 \<leftarrow> draw hide_content s;
     s2 \<leftarrow> (if background
           then (case loadBackgroundImage D (snd s1) of
                   (True, d) \<Rightarrow> Some (fst s1, d)
                 | (False, d) \<Rightarrow> draw (full_box BLACK) (fst s1, d))
           else Some s1);
     let w = g_window (fst s2);
     s3 \<leftarrow> draw (paint_box (wn_x1 w) (wn_y1 w) (wn_x2 w) (wn_y2 w) BLACK) s2;
     s4 \<leftarrow> draw paint_progressbars s3;
     s5 \<leftarrow> set_title D ''ofgwrite Flashing Tool'' s4;
     set_sub_title D (''written by Betacentauri  v.'' @ version) s5
   }"

end
