(* ===== verification/FramebufferProps.thy ===== *)
theory FramebufferProps
  imports Framebuffer
begin

text \<open>
  Drawing stays inside the mapped memory: every operation of the display, on a framebuffer whose
  mode fits its mapping, returns and leaves every byte outside of the part of the screen it draws
  on as it was. Then what happens where the mode does not fit, or where the mapping is gone.
\<close>

subsection \<open>What is mapped and what is written\<close>

definition mapped :: "fb \<Rightarrow> byte list" where
  "mapped f = (case g_lfb f of Mapped m \<Rightarrow> m | _ \<Rightarrow> [])"

text \<open>The mapping is there and a screen of at least 640 by 480 points lies in it.\<close>

definition mode_fits :: "fb \<Rightarrow> bool" where
  "mode_fits f \<longleftrightarrow>
     640 \<le> uint (fv_xres (g_var f)) \<and> uint (fv_xres (g_var f)) < 2 ^ 31
   \<and> 480 \<le> uint (fv_yres (g_var f)) \<and> uint (fv_yres (g_var f)) < 2 ^ 31
   \<and> (unat (fv_xoffset (g_var f)) + unat (fv_xres (g_var f))) * 4 \<le> unat (ff_line_length (g_fix f))
   \<and> (unat (fv_yoffset (g_var f)) + unat (fv_yres (g_var f))) * unat (ff_line_length (g_fix f)) \<le> g_fbMapLen f
   \<and> g_fbMapLen f < 2 ^ 32 \<and> g_lfb f = Mapped (mapped f) \<and> length (mapped f) = g_fbMapLen f"

text \<open>The four bytes of a point and those of a box.\<close>

definition point_at :: "fb \<Rightarrow> int \<Rightarrow> int \<Rightarrow> nat" where
  "point_at f x y =
     (unat (fv_yoffset (g_var f)) + nat y) * unat (ff_line_length (g_fix f)) + (unat (fv_xoffset (g_var f)) + nat x) * 4"

definition box_bytes :: "fb \<Rightarrow> int \<Rightarrow> int \<Rightarrow> int \<Rightarrow> int \<Rightarrow> nat set" where
  "box_bytes f x1 y1 x2 y2 =
     (\<Union>x \<in> {x1..<x2}. \<Union>y \<in> {y1..<y2}. {point_at f x y..<point_at f x y + 4})"

text \<open>A box of the screen.\<close>

definition on_screen :: "fb \<Rightarrow> int \<Rightarrow> int \<Rightarrow> int \<Rightarrow> int \<Rightarrow> bool" where
  "on_screen f x1 y1 x2 y2 \<longleftrightarrow>
     0 \<le> x1 \<and> 0 \<le> y1 \<and> x2 \<le> uint (fv_xres (g_var f)) \<and> y2 \<le> uint (fv_yres (g_var f))"

text \<open>Only the memory, and there only bytes of a set, and the number of the step have changed.\<close>

definition writes_in :: "nat set \<Rightarrow> fb \<Rightarrow> fb \<Rightarrow> bool" where
  "writes_in A f f' \<longleftrightarrow>
     (\<exists>m k. f' = f\<lparr>g_lfb := Mapped m, g_step := k\<rparr> \<and> length m = length (mapped f) \<and> (\<forall>i < length m. i \<notin> A \<longrightarrow> m ! i = mapped f ! i))"

lemma writes_in_refl: "g_lfb f = Mapped (mapped f) \<Longrightarrow> writes_in A f f"
  unfolding writes_in_def by (intro exI [of _ "mapped f"] exI [of _ "g_step f"]) simp

lemma writes_in_trans: "writes_in A f f1 \<Longrightarrow> writes_in A f1 f2 \<Longrightarrow> writes_in A f f2"
proof -
  assume "writes_in A f f1" and "writes_in A f1 f2"
  then obtain m k m2 k2 where f1: "f1 = f\<lparr>g_lfb := Mapped m, g_step := k\<rparr>" "length m = length (mapped f)"
      "\<forall>i < length m. i \<notin> A \<longrightarrow> m ! i = mapped f ! i"
    and f2: "f2 = f1\<lparr>g_lfb := Mapped m2, g_step := k2\<rparr>" "length m2 = length (mapped f1)"
      "\<forall>i < length m2. i \<notin> A \<longrightarrow> m2 ! i = mapped f1 ! i"
    unfolding writes_in_def by blast
  have m: "mapped f1 = m"
    by (simp add: f1(1) mapped_def)
  have "f2 = f\<lparr>g_lfb := Mapped m2, g_step := k2\<rparr>"
    by (simp add: f1(1) f2(1))
  moreover have "length m2 = length (mapped f)"
    using f1(2) f2(2) m by simp
  moreover have "\<forall>i < length m2. i \<notin> A \<longrightarrow> m2 ! i = mapped f ! i"
    using f1(2,3) f2(2,3) m by simp
  ultimately show ?thesis
    unfolding writes_in_def by blast
qed

lemma writes_in_mono: "writes_in A f f' \<Longrightarrow> A \<subseteq> B \<Longrightarrow> writes_in B f f'"
  by (auto simp: writes_in_def)

lemma writes_in_fields:
  assumes "writes_in A f f'"
  shows "g_var f' = g_var f" "g_fix f' = g_fix f" "g_fbMapLen f' = g_fbMapLen f" "g_window f' = g_window f"
    "g_pb_overall f' = g_pb_overall f" "g_pb_step f' = g_pb_step f" "g_fbFd f' = g_fbFd f"
    "g_manual_blit f' = g_manual_blit f" "length (mapped f') = length (mapped f)"
  using assms by (auto simp: writes_in_def mapped_def)

lemma writes_in_mapped: "writes_in A f f' \<Longrightarrow> g_lfb f' = Mapped (mapped f')"
  by (auto simp: writes_in_def mapped_def)

lemma writes_in_screen:
  assumes "writes_in A f f'"
  shows "on_screen f' = on_screen f" "box_bytes f' = box_bytes f" "pixel_addr f' = pixel_addr f"
    "point_at f' = point_at f"
  by (simp_all add: on_screen_def box_bytes_def pixel_addr_def point_at_def fun_eq_iff writes_in_fields [OF assms])

lemma writes_in_fits: "writes_in A f f' \<Longrightarrow> mode_fits f \<Longrightarrow> mode_fits f'"
  using writes_in_mapped [of A f f'] by (simp add: mode_fits_def writes_in_fields [of A f f'])

subsection \<open>Addresses\<close>

lemma point_in_map:
  assumes "mode_fits f" "0 \<le> x" "x < uint (fv_xres (g_var f))" "0 \<le> y" "y < uint (fv_yres (g_var f))"
  shows "point_at f x y + 4 \<le> g_fbMapLen f"
proof -
  let ?ll = "unat (ff_line_length (g_fix f))" and ?yo = "unat (fv_yoffset (g_var f))"
  have x: "nat x < unat (fv_xres (g_var f))" and y: "nat y < unat (fv_yres (g_var f))"
    using assms by (simp_all add: nat_less_iff)
  have fits: "(unat (fv_xoffset (g_var f)) + unat (fv_xres (g_var f))) * 4 \<le> ?ll"
    "(?yo + unat (fv_yres (g_var f))) * ?ll \<le> g_fbMapLen f"
    using assms(1) by (simp_all add: mode_fits_def)
  have "(unat (fv_xoffset (g_var f)) + nat x) * 4 + 4 \<le> ?ll"
    using fits(1) mult_le_mono1 [OF Suc_leI [OF x], of 4] by (simp add: algebra_simps)
  then have "point_at f x y + 4 \<le> (?yo + nat y + 1) * ?ll"
    by (simp add: point_at_def)
  also have "\<dots> \<le> (?yo + unat (fv_yres (g_var f))) * ?ll"
    using y by (intro mult_right_mono) simp_all
  finally show ?thesis
    using fits(2) by linarith
qed

lemma pixel_addr_point:
  assumes "mode_fits f" "0 \<le> x" "x < uint (fv_xres (g_var f))" "0 \<le> y" "y < uint (fv_yres (g_var f))"
  shows "unat (pixel_addr f x y) = point_at f x y"
proof -
  have w: "(word_of_int x :: u32) = of_nat (nat x)" "(word_of_int y :: u32) = of_nat (nat y)"
    using assms by simp_all
  have "pixel_addr f x y = of_nat (point_at f x y)"
    by (simp add: pixel_addr_def point_at_def w algebra_simps)
  moreover have "point_at f x y < 2 ^ 32"
    using point_in_map [OF assms] assms(1) by (simp add: mode_fits_def)
  ultimately show ?thesis
    by (simp add: unat_of_nat)
qed

lemma box_bytesI:
  "x1 \<le> x \<Longrightarrow> x < x2 \<Longrightarrow> y1 \<le> y \<Longrightarrow> y < y2 \<Longrightarrow> {point_at f x y..<point_at f x y + 4} \<subseteq> box_bytes f x1 y1 x2 y2"
  unfolding box_bytes_def by (intro subsetI UN_I [of x] UN_I [of y]) auto

lemma box_bytes_mono:
  assumes "u1 \<le> x1" "v1 \<le> y1" "x2 \<le> u2" "y2 \<le> v2"
  shows "box_bytes f x1 y1 x2 y2 \<subseteq> box_bytes f u1 v1 u2 v2"
  unfolding box_bytes_def using assms by (intro UN_mono) auto

subsection \<open>Boxes\<close>

lemma put_pixels_writes:
  assumes "g_lfb f = Mapped (mapped f)" and "length col = 4"
    and "\<And>a. a \<in> set as \<Longrightarrow> {unat a..<unat a + 4} \<subseteq> A \<and> unat a + 4 \<le> length (mapped f)"
  shows "\<exists>f'. put_pixels col as f = Some f' \<and> writes_in A f f'"
  using assms(1,3)
proof (induction as arbitrary: f)
  case Nil
  then show ?case by (simp add: writes_in_refl)
next
  case (Cons a as)
  let ?m = "store_at (unat a) col (mapped f)" and ?f1 = "f\<lparr>g_lfb := Mapped (store_at (unat a) col (mapped f))\<rparr>"
  have a: "{unat a..<unat a + 4} \<subseteq> A" "unat a + 4 \<le> length (mapped f)"
    using Cons.prems(2) [of a] by simp_all
  have len: "length ?m = length (mapped f)"
    using a(2) assms(2) by simp
  have one: "writes_in A f ?f1"
    unfolding writes_in_def
  proof (intro exI [of _ ?m] exI [of _ "g_step f"] conjI allI impI)
    show "?m ! i = mapped f ! i" if "i < length ?m" "i \<notin> A" for i
    proof -
      have "i < unat a \<or> unat a + 4 \<le> i"
        using that(2) a(1) by (meson atLeastLessThan_iff not_le subsetD)
      then show ?thesis
        using that(1) a(2) assms(2) unfolding len by (auto simp: store_at_def nth_append min_def)
    qed
  qed (use len in simp_all)
  have "mapped ?f1 = ?m"
    by (simp add: mapped_def)
  then obtain f' where "put_pixels col as ?f1 = Some f'" "writes_in A ?f1 f'"
    using Cons.IH [of ?f1] Cons.prems(2) len by auto
  moreover have "put_pixel col a f = Some ?f1"
    using Cons.prems(1) a(2) by (simp add: put_pixel_def)
  ultimately show ?case
    using writes_in_trans [OF one] by auto
qed

text \<open>Addresses of points of a box are what can be written.\<close>

lemma put_points_writes:
  assumes "mode_fits f" and "length col = 4" and "on_screen f x1 y1 x2 y2"
    and "\<And>a. a \<in> set as \<Longrightarrow> \<exists>x y. a = pixel_addr f x y \<and> x1 \<le> x \<and> x < x2 \<and> y1 \<le> y \<and> y < y2"
  shows "\<exists>f'. put_pixels col as f = Some f' \<and> writes_in (box_bytes f x1 y1 x2 y2) f f'"
proof (rule put_pixels_writes)
  show "g_lfb f = Mapped (mapped f)"
    using assms(1) by (simp add: mode_fits_def)
  fix a assume "a \<in> set as"
  then obtain x y where a: "a = pixel_addr f x y" "x1 \<le> x" "x < x2" "y1 \<le> y" "y < y2"
    using assms(4) by blast
  have r: "0 \<le> x" "x < uint (fv_xres (g_var f))" "0 \<le> y" "y < uint (fv_yres (g_var f))"
    using a(2-5) assms(3) by (auto simp: on_screen_def)
  have "length (mapped f) = g_fbMapLen f"
    using assms(1) by (simp add: mode_fits_def)
  then show "{unat a..<unat a + 4} \<subseteq> box_bytes f x1 y1 x2 y2 \<and> unat a + 4 \<le> length (mapped f)"
    unfolding a(1) pixel_addr_point [OF assms(1) r]
    using box_bytesI [OF a(2-5)] point_in_map [OF assms(1) r] by simp
qed (rule assms(2))

lemma paint_box_writes:
  assumes "mode_fits f" and "length col = 4" and "on_screen f x1 y1 x2 y2"
  shows "\<exists>f'. paint_box x1 y1 x2 y2 col f = Some f' \<and> writes_in (box_bytes f x1 y1 x2 y2) f f'"
  unfolding paint_box_def
  by (rule put_points_writes [OF assms]) (force simp: box_addrs_def)

text \<open>A box inside of another one.\<close>

lemma paint_inner_writes:
  assumes "mode_fits f" and "length col = 4" and "on_screen f u1 v1 u2 v2"
    and "u1 \<le> x1" "v1 \<le> y1" "x2 \<le> u2" "y2 \<le> v2"
  shows "\<exists>f'. paint_box x1 y1 x2 y2 col f = Some f' \<and> writes_in (box_bytes f u1 v1 u2 v2) f f'"
proof -
  have "on_screen f x1 y1 x2 y2"
    using assms(3-7) by (simp add: on_screen_def)
  from paint_box_writes [OF assms(1,2) this] show ?thesis
    using writes_in_mono box_bytes_mono [OF assms(4-7)] by blast
qed


subsection \<open>The window\<close>

lemma frac_480:
  assumes "0 \<le> b" "0 \<le> p"
  shows "frac b 480 p = b + 480 * p div 100"
proof -
  have "frac b 480 p = (480 * p + b * 100) div 100"
    using assms by (simp add: frac_def add.commute)
  also have "\<dots> = b + 480 * p div 100"
    by (rule div_mult_self1) simp
  finally show ?thesis .
qed

lemma window_of:
  assumes "mode_fits f"
  shows "g_window (set_window_dimension f) =
    \<lparr>wn_x1 = uint (fv_xres (g_var f)) div 2 - 320, wn_y1 = uint (fv_yres (g_var f)) div 2 - 240,
     wn_x2 = uint (fv_xres (g_var f)) div 2 + 320, wn_y2 = uint (fv_yres (g_var f)) div 2 + 240,
     wn_width = 640, wn_height = 480\<rparr>"
proof -
  let ?x = "uint (fv_xres (g_var f))" and ?y = "uint (fv_yres (g_var f))"
  have r: "640 \<le> ?x" "?x < 2 ^ 31" "480 \<le> ?y" "?y < 2 ^ 31"
    using assms by (simp_all add: mode_fits_def)
  have half: "uint (fv_xres (g_var f) div 2) = ?x div 2" "uint (fv_yres (g_var f) div 2) = ?y div 2"
    by (simp_all add: uint_div)
  have d: "320 \<le> ?x div 2" "240 \<le> ?y div 2" "?x div 2 < 2 ^ 30" "?y div 2 < 2 ^ 30"
    using r by simp_all
  have minus: "uint (fv_xres (g_var f) div 2 - 320) = ?x div 2 - 320" "uint (fv_yres (g_var f) div 2 - 240) = ?y div 2 - 240"
    using uint_sub_lem [of 320 "fv_xres (g_var f) div 2"] uint_sub_lem [of 240 "fv_yres (g_var f) div 2"] d half
    by simp_all
  have plus: "uint (fv_xres (g_var f) div 2 + 320) = ?x div 2 + 320" "uint (fv_yres (g_var f) div 2 + 240) = ?y div 2 + 240"
    using uint_add_lem [of "fv_xres (g_var f) div 2" 320] uint_add_lem [of "fv_yres (g_var f) div 2" 240] d half
    by simp_all
  show ?thesis
    unfolding set_window_dimension_def Let_def minus plus using d by simp
qed

text \<open>The display is set up: window and bars are where \<^verbatim>\<open>init_framebuffer\<close> puts them.\<close>

definition ready :: "fb \<Rightarrow> bool" where
  "ready f \<longleftrightarrow> mode_fits f \<and> g_window f = g_window (set_window_dimension f)
   \<and> g_pb_overall f = bar_at (g_window f) 40 (pb_steps (g_pb_overall f)) \<and> pb_steps (g_pb_overall f) \<noteq> 0
   \<and> g_pb_step f = bar_at (g_window f) 65 (pb_steps (g_pb_step f))"

definition window_bytes :: "fb \<Rightarrow> nat set" where
  "window_bytes f =
     (let w = g_window f in box_bytes f (wn_x1 w) (wn_y1 w) (wn_x2 w) (wn_y2 w))"

lemma writes_in_ready:
  assumes "writes_in A f f'" "ready f"
  shows "ready f'"
proof -
  have "g_window (set_window_dimension f') = g_window (set_window_dimension f)"
    by (simp add: set_window_dimension_def Let_def writes_in_fields [OF assms(1)])
  then show ?thesis
    using assms(2) writes_in_fits [OF assms(1)] unfolding ready_def writes_in_fields [OF assms(1)] by metis
qed

lemma writes_in_window: "writes_in A f f' \<Longrightarrow> window_bytes f' = window_bytes f"
  by (simp add: window_bytes_def writes_in_fields writes_in_screen)

lemma ready_window:
  assumes "ready f"
  shows "wn_width (g_window f) = 640" "wn_height (g_window f) = 480"
    "wn_x2 (g_window f) = wn_x1 (g_window f) + 640" "wn_y2 (g_window f) = wn_y1 (g_window f) + 480"
    "0 \<le> wn_x1 (g_window f)" "0 \<le> wn_y1 (g_window f)"
    "on_screen f (wn_x1 (g_window f)) (wn_y1 (g_window f)) (wn_x2 (g_window f)) (wn_y2 (g_window f))"
    "wn_x1 (g_window f) < 2 ^ 30" "wn_y1 (g_window f) < 2 ^ 30"
  using assms window_of [of f] by (auto simp: ready_def on_screen_def mode_fits_def)

lemma ready_bars:
  assumes "ready f"
  shows "g_pb_overall f = \<lparr>pb_x1 = wn_x1 (g_window f) + 49, pb_y1 = wn_y1 (g_window f) + 192,
      pb_x2 = wn_x1 (g_window f) + 591, pb_y2 = wn_y1 (g_window f) + 270, pb_outer = 10, pb_inner = 5,
      pb_width = 512, pb_height = 48, pb_steps = pb_steps (g_pb_overall f)\<rparr>"
    and "g_pb_step f = \<lparr>pb_x1 = wn_x1 (g_window f) + 49, pb_y1 = wn_y1 (g_window f) + 312,
      pb_x2 = wn_x1 (g_window f) + 591, pb_y2 = wn_y1 (g_window f) + 390, pb_outer = 10, pb_inner = 5,
      pb_width = 512, pb_height = 48, pb_steps = pb_steps (g_pb_step f)\<rparr>"
proof -
  note w = ready_window [OF assms]
  have x: "frac (wn_x1 (g_window f) - 10 - 5) 640 10 = wn_x1 (g_window f) + 49"
    "frac (wn_x2 (g_window f) + 10 + 5) 640 (-10) = wn_x1 (g_window f) + 591"
    using w by (simp_all add: frac_def)
  have y: "frac (wn_y1 (g_window f)) 480 40 = wn_y1 (g_window f) + 192"
    "frac (wn_y1 (g_window f)) 480 65 = wn_y1 (g_window f) + 312"
    using frac_480 [of "wn_y1 (g_window f)"] w by simp_all
  have b: "frac 0 480 10 = 48" "frac 0 640 80 = 512"
    by (simp_all add: frac_def)
  have eq: "bar_at (g_window f) 40 n = \<lparr>pb_x1 = wn_x1 (g_window f) + 49, pb_y1 = wn_y1 (g_window f) + 192,
      pb_x2 = wn_x1 (g_window f) + 591, pb_y2 = wn_y1 (g_window f) + 270, pb_outer = 10, pb_inner = 5,
      pb_width = 512, pb_height = 48, pb_steps = n\<rparr>"
    "bar_at (g_window f) 65 n = \<lparr>pb_x1 = wn_x1 (g_window f) + 49, pb_y1 = wn_y1 (g_window f) + 312,
      pb_x2 = wn_x1 (g_window f) + 591, pb_y2 = wn_y1 (g_window f) + 390, pb_outer = 10, pb_inner = 5,
      pb_width = 512, pb_height = 48, pb_steps = n\<rparr>" for n
    unfolding bar_at_def Let_def w(1,2) x y b by simp_all
  show "g_pb_overall f = \<lparr>pb_x1 = wn_x1 (g_window f) + 49, pb_y1 = wn_y1 (g_window f) + 192,
      pb_x2 = wn_x1 (g_window f) + 591, pb_y2 = wn_y1 (g_window f) + 270, pb_outer = 10, pb_inner = 5,
      pb_width = 512, pb_height = 48, pb_steps = pb_steps (g_pb_overall f)\<rparr>"
    using assms eq(1) unfolding ready_def by metis
  show "g_pb_step f = \<lparr>pb_x1 = wn_x1 (g_window f) + 49, pb_y1 = wn_y1 (g_window f) + 312,
      pb_x2 = wn_x1 (g_window f) + 591, pb_y2 = wn_y1 (g_window f) + 390, pb_outer = 10, pb_inner = 5,
      pb_width = 512, pb_height = 48, pb_steps = pb_steps (g_pb_step f)\<rparr>"
    using assms eq(2) unfolding ready_def by metis
qed

text \<open>A box of the window is painted inside of it.\<close>

lemma paint_window_writes:
  assumes "ready f" and "length col = 4"
    and "wn_x1 (g_window f) \<le> x1" "x2 \<le> wn_x1 (g_window f) + 640"
    and "wn_y1 (g_window f) \<le> y1" "y2 \<le> wn_y1 (g_window f) + 480"
  shows "\<exists>f'. paint_box x1 y1 x2 y2 col f = Some f' \<and> writes_in (window_bytes f) f f'"
proof -
  note w = ready_window [OF assms(1)]
  show ?thesis
    unfolding window_bytes_def Let_def w(3,4)
    by (rule paint_inner_writes) (use assms w in \<open>simp_all add: ready_def\<close>)
qed


subsection \<open>Text\<close>

lemma row_columns_width: "c \<in> set (row_columns line w) \<Longrightarrow> c < w"
  by (induction line w rule: row_columns.induct) (auto split: if_splits)

lemma pixel_addr_moved:
  "pixel_addr f x y + word_of_nat dy * ff_line_length (g_fix f) + word_of_nat dx * 4 = pixel_addr f (x + int dx) (y + int dy)"
  by (simp add: pixel_addr_def algebra_simps)

lemma point_addrs_points:
  assumes "thick \<le> 1" "a \<in> set (point_addrs f (pixel_addr f x y) thick h w)"
  shows "\<exists>dx dy. a = pixel_addr f (x + int dx) (y + int dy)
    \<and> dx < (thick + 1) * (w + 1) \<and> dy < (thick + 1) * (h + 1)"
proof -
  have thin: "point_addrs f (pixel_addr f x y) 0 h w = [pixel_addr f (x + int w) (y + int h)]"
    by (simp add: point_addrs_def Let_def pixel_addr_def algebra_simps)
  have thick: "point_addrs f (pixel_addr f x y) 1 h w =
    [pixel_addr f (x + int (2 * w)) (y + int (2 * h)), pixel_addr f (x + int (2 * w + 1)) (y + int (2 * h)),
     pixel_addr f (x + int (2 * w)) (y + int (2 * h + 1)), pixel_addr f (x + int (2 * w + 1)) (y + int (2 * h + 1))]"
    by (simp add: point_addrs_def Let_def pixel_addr_def algebra_simps)
  have "thick = 0 \<or> thick = 1"
    using assms(1) by linarith
  with assms(2) consider "thick = 0" "a = pixel_addr f (x + int w) (y + int h)"
    | "thick = 1" "a = pixel_addr f (x + int (2 * w)) (y + int (2 * h))"
    | "thick = 1" "a = pixel_addr f (x + int (2 * w + 1)) (y + int (2 * h))"
    | "thick = 1" "a = pixel_addr f (x + int (2 * w)) (y + int (2 * h + 1))"
    | "thick = 1" "a = pixel_addr f (x + int (2 * w + 1)) (y + int (2 * h + 1))"
    using thin thick by (elim disjE) (simp_all only: list.set insert_iff empty_iff, blast+)
  then show ?thesis
  proof cases
    case 1 then show ?thesis by (intro exI [of _ w] exI [of _ h]) simp
  next
    case 2 then show ?thesis by (intro exI [of _ "2 * w"] exI [of _ "2 * h"]) simp
  next
    case 3 then show ?thesis by (intro exI [of _ "2 * w + 1"] exI [of _ "2 * h"]) simp
  next
    case 4 then show ?thesis by (intro exI [of _ "2 * w"] exI [of _ "2 * h + 1"]) simp
  next
    case 5 then show ?thesis by (intro exI [of _ "2 * w + 1"] exI [of _ "2 * h + 1"]) simp
  qed
qed

lemma glyph_addrs_points:
  assumes "thick \<le> 1" "a \<in> set (glyph_addrs f bitmap x y thick)"
  shows "\<exists>dx dy. a = pixel_addr f (x + int dx) (y + int dy) \<and> dx < (thick + 1) * 14 \<and> dy < (thick + 1) * 18"
proof -
  obtain h w where hw: "h < 18" "w < 14" "a \<in> set (point_addrs f (pixel_addr f x y) thick h w)"
    using assms(2) by (auto simp: glyph_addrs_def CHAR_HEIGHT_def CHAR_WIDTH_def dest: row_columns_width)
  obtain dx dy where d: "a = pixel_addr f (x + int dx) (y + int dy)" "dx < (thick + 1) * (w + 1)" "dy < (thick + 1) * (h + 1)"
    using point_addrs_points [OF assms(1) hw(3)] by blast
  have "(thick + 1) * (w + 1) \<le> (thick + 1) * 14" "(thick + 1) * (h + 1) \<le> (thick + 1) * 18"
    using hw by (intro mult_le_mono2; simp)+
  then show ?thesis
    using d(1) less_le_trans [OF d(2)] less_le_trans [OF d(3)] by blast
qed

definition printable :: "char \<Rightarrow> bool" where
  "printable c \<longleftrightarrow> 0x20 \<le> (of_char c :: nat) \<and> (of_char c :: nat) < 0x80"

lemma render_char_writes:
  assumes "mode_fits f" "length col = 4" "thick \<le> 1" "printable c" "on_screen f u1 v1 u2 v2"
    "u1 \<le> x" "x + 14 * int (thick + 1) \<le> u2" "v1 \<le> y" "y + 18 * int (thick + 1) \<le> v2"
  shows "\<exists>f'. render_char c x y col thick f = Some f' \<and> writes_in (box_bytes f u1 v1 u2 v2) f f'"
proof -
  have "(of_char c :: int) = int (of_char c)"
    by (simp only: of_nat_of_char)
  then have "0 \<le> (of_char c :: int) - 0x20" "(of_char c :: int) - 0x20 < int (length font)"
    using assms(4) unfolding printable_def length_font by linarith+
  then have eq: "render_char c x y col thick f = put_pixels col (glyph_addrs f (font ! nat (of_char c - 0x20)) x y thick) f"
    by (simp add: render_char_def Let_def)
  show ?thesis
    unfolding eq
  proof (rule put_points_writes [OF assms(1,2,5)])
    fix a assume "a \<in> set (glyph_addrs f (font ! nat (of_char c - 0x20)) x y thick)"
    then obtain dx dy where "a = pixel_addr f (x + int dx) (y + int dy)" "dx < (thick + 1) * 14" "dy < (thick + 1) * 18"
      using glyph_addrs_points [OF assms(3)] by blast
    moreover from this have "int dx < 14 * int (thick + 1)" "int dy < 18 * int (thick + 1)"
      by linarith+
    ultimately show "\<exists>x y. a = pixel_addr f x y \<and> u1 \<le> x \<and> x < u2 \<and> v1 \<le> y \<and> y < v2"
      using assms(6-9) by (intro exI [of _ "x + int dx"] exI [of _ "y + int dy"]) linarith
  qed
qed

lemma render_string_writes:
  assumes "mode_fits f" "length col = 4" "thick \<le> 1" "list_all printable cs" "on_screen f u1 v1 u2 v2"
    "u1 \<le> x" "x + 14 * int (thick + 1) * int (length cs) \<le> u2" "v1 \<le> y" "y + 18 * int (thick + 1) \<le> v2"
  shows "\<exists>f'. render_string cs x y col thick f = Some f' \<and> writes_in (box_bytes f u1 v1 u2 v2) f f'"
  using assms(1,4-7)
proof (induction cs arbitrary: f x)
  case Nil
  then show ?case by (simp add: writes_in_refl mode_fits_def)
next
  case (Cons c cs)
  have next_x: "x + 14 * int (thick + 1) + 14 * int (thick + 1) * int (length cs) \<le> u2"
    using Cons.prems(5) by (simp add: algebra_simps)
  have "0 \<le> 14 * int (thick + 1) * int (length cs)"
    by simp
  then have "x + 14 * int (thick + 1) \<le> u2"
    using next_x by linarith
  moreover have "printable c"
    using Cons.prems(2) by simp
  ultimately obtain f1 where f1: "render_char c x y col thick f = Some f1" "writes_in (box_bytes f u1 v1 u2 v2) f f1"
    using render_char_writes [OF Cons.prems(1) assms(2,3) _ Cons.prems(3,4) _ assms(8,9)] by blast
  have "on_screen f1 u1 v1 u2 v2"
    using Cons.prems(3) by (simp add: writes_in_screen [OF f1(2)])
  then obtain f' where "render_string cs (x + 14 * int (thick + 1)) y col thick f1 = Some f'"
    "writes_in (box_bytes f u1 v1 u2 v2) f1 f'"
    using Cons.IH [of f1 "x + 14 * int (thick + 1)"] writes_in_fits [OF f1(2) Cons.prems(1)] next_x Cons.prems(2,4)
    by (auto simp: writes_in_screen [OF f1(2)])
  moreover have "x + int (CHAR_WIDTH + CHAR_WIDTH * thick) = x + 14 * int (thick + 1)"
    by (simp add: CHAR_WIDTH_def)
  ultimately show ?case
    using writes_in_trans [OF f1(2)] by (simp add: f1(1))
qed


subsection \<open>The calls of the display\<close>

definition works_in :: "nat set \<Rightarrow> 'd disp \<Rightarrow> 'd disp option \<Rightarrow> bool" where
  "works_in A s r \<longleftrightarrow> (\<exists>s1. r = Some s1 \<and> writes_in A (fst s) (fst s1))"

lemma works_in_Some: "ready (fst s) \<Longrightarrow> works_in A s (Some s)"
  by (simp add: works_in_def writes_in_refl ready_def mode_fits_def)

lemma works_in_bind:
  fixes s :: "'d disp"
  assumes "works_in A s r" and "\<And>s1 :: 'd disp. writes_in A (fst s) (fst s1) \<Longrightarrow> works_in A s1 (k s1)"
  shows "works_in A s (Option.bind r k)"
proof -
  obtain s1 where s1: "r = Some s1" "writes_in A (fst s) (fst s1)"
    using assms(1) by (auto simp: works_in_def)
  show ?thesis
    using assms(2) [OF s1(2)] writes_in_trans [OF s1(2)] by (auto simp: works_in_def s1(1))
qed

lemma fst_blit [simp]: "fst (blit D s) = fst s"
  by (simp add: blit_def)

text \<open>A step of the display on a framebuffer that is set up.\<close>

definition draws :: "'d disp \<Rightarrow> 'd disp option \<Rightarrow> bool" where
  "draws s r \<longleftrightarrow> works_in (window_bytes (fst s)) s r"

lemma draws_bind:
  fixes s :: "'d disp"
  assumes "draws s r" and "ready (fst s)" and "\<And>s1 :: 'd disp. ready (fst s1) \<Longrightarrow> g_window (fst s1) = g_window (fst s) \<Longrightarrow> draws s1 (k s1)"
  shows "draws s (Option.bind r k)"
  unfolding draws_def
proof (rule works_in_bind)
  show "works_in (window_bytes (fst s)) s r"
    using assms(1) by (simp add: draws_def)
next
  fix s1 :: "'d disp"
  assume w: "writes_in (window_bytes (fst s)) (fst s) (fst s1)"
  show "works_in (window_bytes (fst s)) s1 (k s1)"
    using assms(3) [OF writes_in_ready [OF w assms(2)] writes_in_fields(4) [OF w]]
    by (simp add: draws_def writes_in_window [OF w])
qed

lemma draws_window:
  assumes "ready (fst s)" and "length col = 4"
    and "wn_x1 (g_window (fst s)) \<le> x1" "x2 \<le> wn_x1 (g_window (fst s)) + 640"
    and "wn_y1 (g_window (fst s)) \<le> y1" "y2 \<le> wn_y1 (g_window (fst s)) + 480"
  shows "draws s (draw (paint_box x1 y1 x2 y2 col) s)"
  using paint_window_writes [OF assms] by (auto simp: draws_def works_in_def draw_def)

lemma draws_string:
  assumes r: "ready (fst s)" and "length col = 4" "thick \<le> 1" "list_all printable str"
    and "10 + 14 * int (thick + 1) * int (length str) \<le> 640"
    and "wn_y1 (g_window (fst s)) \<le> y" "y + 18 * int (thick + 1) \<le> wn_y1 (g_window (fst s)) + 480"
  shows "draws s (draw (render_string str (wn_x1 (g_window (fst s)) + 10) y col thick) s)"
proof -
  have fits: "mode_fits (fst s)"
    using r by (simp add: ready_def)
  have screen: "on_screen (fst s) (wn_x1 (g_window (fst s))) (wn_y1 (g_window (fst s)))
      (wn_x1 (g_window (fst s)) + 640) (wn_y1 (g_window (fst s)) + 480)"
    using ready_window(7) [OF r] unfolding ready_window(3,4) [OF r] .
  have "\<exists>f'. render_string str (wn_x1 (g_window (fst s)) + 10) y col thick (fst s) = Some f'
      \<and> writes_in (window_bytes (fst s)) (fst s) f'"
    unfolding window_bytes_def Let_def ready_window(3,4) [OF r]
    by (rule render_string_writes [OF fits assms(2-4) screen]) (use assms(5-7) in simp_all)
  then show ?thesis
    by (auto simp: draws_def works_in_def draw_def)
qed

definition printed :: "nat \<Rightarrow> string \<Rightarrow> bool" where
  "printed thick str \<longleftrightarrow> list_all printable str \<and> 10 + 14 * (thick + 1) * length str \<le> 640"

lemma draws_text:
  fixes s :: "'d disp"
  assumes r: "ready (fst s)" and "length col = 4" "thick \<le> 1" "printed thick str"
    and "0 \<le> percent" "480 * percent div 100 + 18 * int (thick + 1) \<le> 480"
    and "\<And>b. bottom = Some b \<Longrightarrow> b \<le> wn_y1 (g_window (fst s)) + 480"
  shows "draws s (set_text D bottom percent col thick str s)"
proof (cases "g_fbFd (fst s) = -1")
  case True
  then show ?thesis
    using works_in_Some [OF r] by (simp add: set_text_def draws_def)
next
  case False
  let ?w = "g_window (fst s)"
  let ?y = "frac (wn_y1 ?w) (wn_height ?w) percent"
  have y: "?y = wn_y1 ?w + 480 * percent div 100"
    using frac_480 [OF ready_window(6) [OF r] assms(5)] ready_window(2) [OF r] by simp
  have p: "0 \<le> 480 * percent div 100"
    using assms(5) by simp
  have box: "draws s (case bottom of None \<Rightarrow> Some s
      | Some y2 \<Rightarrow> draw (paint_box (wn_x1 ?w + 10) ?y (wn_x2 ?w) y2 BLACK) s)"
  proof (cases bottom)
    case None
    then show ?thesis
      using works_in_Some [OF r] by (simp add: draws_def)
  next
    case (Some y2)
    have "draws s (draw (paint_box (wn_x1 ?w + 10) ?y (wn_x2 ?w) y2 BLACK) s)"
      by (rule draws_window [OF r]) (use y p assms(7) [OF Some] ready_window(3) [OF r] in \<open>simp_all add: BLACK_def\<close>)
    then show ?thesis by (simp add: Some)
  qed
  have blits: "draws s (Option.bind r1 (\<lambda>s2. Some (blit D s2)))" if "draws s r1" for s r1
    using that by (cases r1) (simp_all add: draws_def works_in_def)
  have render: "draws s1 (draw (render_string str (wn_x1 ?w + 10) ?y col thick) s1)"
    if "ready (fst s1)" "g_window (fst s1) = ?w" for s1 :: "'d disp"
    unfolding that(2) [symmetric]
  proof (rule draws_string [OF that(1) assms(2,3)])
    have "int (10 + 14 * (thick + 1) * length str) \<le> 640"
      using assms(4) unfolding printed_def by (simp only: of_nat_le_numeral_iff)
    then show "10 + 14 * int (thick + 1) * int (length str) \<le> 640"
      by simp
    show "list_all printable str"
      using assms(4) by (simp add: printed_def)
  qed (use y p assms(6) that(2) in simp_all)
  have "draws s (Option.bind (case bottom of None \<Rightarrow> Some s
      | Some y2 \<Rightarrow> draw (paint_box (wn_x1 ?w + 10) ?y (wn_x2 ?w) y2 BLACK) s)
      (\<lambda>s1. Option.bind (draw (render_string str (wn_x1 ?w + 10) ?y col thick) s1) (\<lambda>s2. Some (blit D s2))))"
    by (rule draws_bind [OF box r]) (rule blits, rule render)
  then show ?thesis
    using False by (simp add: set_text_def Let_def)
qed


lemma percent_range: "0 \<le> percent_of p" "percent_of p \<le> 100"
  by (simp_all add: percent_of_def)

lemma frac_bar:
  assumes "0 \<le> b" "0 \<le> p" "p \<le> 100"
  shows "frac b 512 p = b + 512 * p div 100" "512 * p div 100 \<le> 512"
proof -
  have "frac b 512 p = (512 * p + b * 100) div 100"
    using assms by (simp add: frac_def add.commute)
  also have "\<dots> = b + 512 * p div 100"
    by (rule div_mult_self1) simp
  finally show "frac b 512 p = b + 512 * p div 100" .
  show "512 * p div 100 \<le> 512"
    using assms(3) by simp
qed

definition is_bar :: "fb \<Rightarrow> progressbar \<Rightarrow> bool" where
  "is_bar f b \<longleftrightarrow> b = g_pb_overall f \<or> b = g_pb_step f"

lemma ready_bar:
  assumes "ready f" "is_bar f b"
  shows "pb_x1 b = wn_x1 (g_window f) + 49" "pb_x2 b = wn_x1 (g_window f) + 591"
    "wn_y1 (g_window f) + 192 \<le> pb_y1 b" "pb_y2 b = pb_y1 b + 78" "pb_y2 b \<le> wn_y1 (g_window f) + 390"
    "pb_outer b = 10" "pb_inner b = 5" "pb_width b = 512" "pb_height b = 48"
proof -
  obtain n y where b: "b = \<lparr>pb_x1 = wn_x1 (g_window f) + 49, pb_y1 = y,
      pb_x2 = wn_x1 (g_window f) + 591, pb_y2 = y + 78, pb_outer = 10, pb_inner = 5,
      pb_width = 512, pb_height = 48, pb_steps = n\<rparr>"
    "y = wn_y1 (g_window f) + 192 \<or> y = wn_y1 (g_window f) + 312"
  proof (rule disjE [OF assms(2) [unfolded is_bar_def]])
    assume "b = g_pb_overall f"
    with that [of "wn_y1 (g_window f) + 192" "pb_steps b"] ready_bars(1) [OF assms(1)] show thesis
      by (simp add: ac_simps)
  next
    assume "b = g_pb_step f"
    with that [of "wn_y1 (g_window f) + 312" "pb_steps b"] ready_bars(2) [OF assms(1)] show thesis
      by (simp add: ac_simps)
  qed
  show "pb_x1 b = wn_x1 (g_window f) + 49" "pb_x2 b = wn_x1 (g_window f) + 591"
    "wn_y1 (g_window f) + 192 \<le> pb_y1 b" "pb_y2 b = pb_y1 b + 78" "pb_y2 b \<le> wn_y1 (g_window f) + 390"
    "pb_outer b = 10" "pb_inner b = 5" "pb_width b = 512" "pb_height b = 48"
    using b(2) unfolding b(1) by auto
qed

lemma fill_bar_writes:
  assumes "ready f" "is_bar f b" "0 \<le> p" "p \<le> 100"
  shows "\<exists>f'. fill_bar b p f = Some f' \<and> writes_in (window_bytes f) f f'"
proof -
  note b = ready_bar [OF assms(1,2)]
  have x: "bar_x b = wn_x1 (g_window f) + 64" "bar_y b = pb_y1 b + 15"
    by (simp_all add: bar_x_def bar_y_def b)
  have "frac (bar_x b) 512 p = bar_x b + 512 * p div 100" "512 * p div 100 \<le> 512"
    using frac_bar [of "bar_x b" p] assms(3,4) ready_window(5) [OF assms(1)] x(1) by simp_all
  then show ?thesis
    unfolding fill_bar_def b(8,9)
    by (intro paint_window_writes [OF assms(1)]) (use x b(3-5) in \<open>simp_all add: WHITE_def\<close>)
qed

lemma set_overall_progress_writes:
  assumes "ready f"
  shows "\<exists>f'. set_overall_progress step f = Some f' \<and> writes_in (window_bytes f) f f'"
proof -
  let ?p = "percent_of (c_int (c_div (c_int ((step - 1) * 100)) (pb_steps (g_pb_overall f))))" and ?b = "g_pb_step f"
  obtain f1 where f1: "fill_bar (g_pb_overall f) ?p f = Some f1" "writes_in (window_bytes f) f f1"
    using fill_bar_writes [OF assms _ percent_range] by (auto simp: is_bar_def)
  have r1: "ready f1"
    using writes_in_ready [OF f1(2) assms] .
  have b: "is_bar f1 ?b"
    by (simp add: is_bar_def writes_in_fields [OF f1(2)])
  note b = ready_bar [OF r1 b]
  have x: "bar_x ?b = wn_x1 (g_window f1) + 64" "bar_y ?b = pb_y1 ?b + 15"
    by (simp_all add: bar_x_def bar_y_def b)
  obtain f2 where "paint_box (bar_x ?b) (bar_y ?b) (bar_x ?b + 512) (bar_y ?b + 48) BLACK f1 = Some f2"
    "writes_in (window_bytes f1) f1 f2"
    using paint_window_writes [OF r1, of BLACK "bar_x ?b" "bar_x ?b + 512" "bar_y ?b" "bar_y ?b + 48"] x b(3-5)
    by (auto simp: BLACK_def)
  moreover have "pb_steps (g_pb_overall f) \<noteq> 0"
    using assms by (simp add: ready_def)
  ultimately show ?thesis
    using f1 writes_in_trans [OF f1(2)]
    by (auto simp: set_overall_progress_def Let_def b(8,9) writes_in_window [OF f1(2)])
qed

lemma draws_step_progress:
  assumes "ready (fst s)"
  shows "draws s (set_step_progress D p s)"
proof (cases "g_fbFd (fst s) = -1")
  case True
  then show ?thesis
    using works_in_Some [OF assms] by (simp add: set_step_progress_def draws_def)
next
  case False
  obtain f where "fill_bar (g_pb_step (fst s)) (percent_of p) (fst s) = Some f"
    "writes_in (window_bytes (fst s)) (fst s) f"
    using fill_bar_writes [OF assms _ percent_range] by (auto simp: is_bar_def)
  then show ?thesis
    using False by (simp add: set_step_progress_def draws_def works_in_def draw_def)
qed

lemma draws_overall:
  assumes "ready (fst s)"
  shows "draws s (draw (set_overall_progress n) s)"
  using set_overall_progress_writes [OF assms, of n] by (auto simp: draws_def works_in_def draw_def)


text \<open>The calls that the other components make while they work.\<close>

datatype fb_call = Title string | SubTitle string | OverallText string | StepText string | InfoText string
  | ErrorText string | ErrorText1 string | ErrorText2 string | StepProgress int | Step string | StepAgain string

fun perform :: "'d fbdev \<Rightarrow> fb_call \<Rightarrow> 'd disp \<Rightarrow> 'd disp option" where
  "perform D (Title t) = set_title D t"
| "perform D (SubTitle t) = set_sub_title D t"
| "perform D (OverallText t) = set_overall_text D t"
| "perform D (StepText t) = set_step_text D t"
| "perform D (InfoText t) = set_info_text D t"
| "perform D (ErrorText t) = set_error_text D t"
| "perform D (ErrorText1 t) = set_error_text1 D t"
| "perform D (ErrorText2 t) = set_error_text2 D t"
| "perform D (StepProgress p) = set_step_progress D p"
| "perform D (Step t) = set_step D t"
| "perform D (StepAgain t) = set_step_without_incr D t"

fun perform_all :: "'d fbdev \<Rightarrow> fb_call list \<Rightarrow> 'd disp \<Rightarrow> 'd disp option" where
  "perform_all D [] s = Some s"
| "perform_all D (c # cs) s = Option.bind (perform D c s) (perform_all D cs)"

text \<open>A text has glyphs and fits the width of the window; a title is of twice the size.\<close>

fun call_fits :: "fb_call \<Rightarrow> bool" where
  "call_fits (Title t) = printed 1 t"
| "call_fits (SubTitle t) = printed 0 t"
| "call_fits (OverallText t) = printed 0 t"
| "call_fits (StepText t) = printed 0 t"
| "call_fits (InfoText t) = printed 0 t"
| "call_fits (ErrorText t) = printed 0 t"
| "call_fits (ErrorText1 t) = printed 0 t"
| "call_fits (ErrorText2 t) = printed 0 t"
| "call_fits (StepProgress p) = True"
| "call_fits (Step t) = printed 0 t"
| "call_fits (StepAgain t) = printed 0 t"

lemma line_below_le:
  assumes "ready (fst s)" "line_below s p n = Some b" "0 \<le> p" "0 \<le> n" "480 * p div 100 + 18 * n \<le> 480"
  shows "b \<le> wn_y1 (g_window (fst s)) + 480"
proof -
  have "b = frac (wn_y1 (g_window (fst s)) + 18 * n) 480 p"
    using assms(2) ready_window(2) [OF assms(1)] by (simp add: line_below_def Let_def CHAR_HEIGHT_def)
  then show ?thesis
    using frac_480 [of "wn_y1 (g_window (fst s)) + 18 * n" p] ready_window(6) [OF assms(1)] assms(3-5) by simp
qed

lemma draws_line:
  assumes "ready (fst s)" "printed thick t" "thick \<le> 1" "0 \<le> p" "480 * p div 100 + 18 * int (thick + 1) \<le> 480"
    "length col = 4"
  shows "draws s (set_text D (line_below s p (int (thick + 1))) p col thick t s)"
    and "draws s (set_text D None p col thick t s)"
    and "draws s (set_text D (Some (wn_y2 (g_window (fst s)))) p col thick t s)"
proof -
  show "draws s (set_text D (line_below s p (int (thick + 1))) p col thick t s)"
    by (rule draws_text [OF assms(1,6,3,2,4,5)], rule line_below_le [OF assms(1) _ assms(4) _ assms(5)]) simp_all
  show "draws s (set_text D None p col thick t s)"
    by (rule draws_text [OF assms(1,6,3,2,4,5)]) simp
  show "draws s (set_text D (Some (wn_y2 (g_window (fst s)))) p col thick t s)"
    by (rule draws_text [OF assms(1,6,3,2,4,5)]) (use ready_window(4) [OF assms(1)] in simp)
qed

lemma draws_texts:
  assumes r: "ready (fst s)"
  shows "printed 1 t \<Longrightarrow> draws s (set_title D t s)"
    "printed 0 t \<Longrightarrow> draws s (set_sub_title D t s)" "printed 0 t \<Longrightarrow> draws s (set_overall_text D t s)"
    "printed 0 t \<Longrightarrow> draws s (set_step_text D t s)" "printed 0 t \<Longrightarrow> draws s (set_info_text D t s)"
    "printed 0 t \<Longrightarrow> draws s (set_error_text D t s)" "printed 0 t \<Longrightarrow> draws s (set_error_text1 D t s)"
    "printed 0 t \<Longrightarrow> draws s (set_error_text2 D t s)"
  using draws_line(1) [OF r, of 1 t 10 WHITE D] draws_line [OF r, of 0 t]
  by (simp_all add: set_title_def set_sub_title_def set_overall_text_def set_step_text_def set_info_text_def
      set_error_text_def set_error_text1_def set_error_text2_def WHITE_def RED_def)

lemma draws_step:
  fixes s :: "'d disp"
  assumes r: "ready (fst s)" and t: "printed 0 t"
  shows "draws s (set_step D t s)" and "draws s (set_step_without_incr D t s)"
proof -
  have skip: "draws s (Some s)"
    using works_in_Some [OF r] by (simp add: draws_def)
  have count: "draws s2 (set_step_progress D 0 ((fst s2)\<lparr>g_step := k\<rparr>, snd s2))"
    if r2: "ready (fst s2)" for s2 :: "'d disp" and k
  proof -
    have w: "writes_in (window_bytes (fst s2)) (fst s2) ((fst s2)\<lparr>g_step := k\<rparr>)"
      using r2 unfolding writes_in_def ready_def mode_fits_def
      by (intro exI [of _ "mapped (fst s2)"] exI [of _ k]) simp
    have "draws ((fst s2)\<lparr>g_step := k\<rparr>, snd s2) (set_step_progress D 0 ((fst s2)\<lparr>g_step := k\<rparr>, snd s2))"
      using draws_step_progress [of "((fst s2)\<lparr>g_step := k\<rparr>, snd s2)"] writes_in_ready [OF w r2] by simp
    then show ?thesis
      using writes_in_trans [OF w] by (auto simp: draws_def works_in_def writes_in_window [OF w])
  qed
  have blits: "draws s2 (Some (blit D s2))" if "ready (fst s2)" for s2 :: "'d disp"
    using works_in_Some [OF that] by (simp add: draws_def works_in_def)
  have "draws s (Option.bind (set_step_text D t s) (\<lambda>s1. Option.bind (draw (set_overall_progress (g_step (fst s1))) s1)
      (\<lambda>s2. set_step_progress D 0 ((fst s2)\<lparr>g_step := c_int (g_step (fst s2) + 1)\<rparr>, snd s2))))"
    by (rule draws_bind [OF draws_texts(4) [OF r t] r], rule draws_bind [OF draws_overall], assumption+, rule count)
  then show "draws s (set_step D t s)"
    using skip by (simp add: set_step_def)
  have "draws s (Option.bind (set_step_text D t s) (\<lambda>s1. Option.bind (draw (set_overall_progress (g_step (fst s1))) s1)
      (\<lambda>s2. Some (blit D s2))))"
    by (rule draws_bind [OF draws_texts(4) [OF r t] r], rule draws_bind [OF draws_overall], assumption+, rule blits)
  then show "draws s (set_step_without_incr D t s)"
    using skip by (simp add: set_step_without_incr_def)
qed

lemma draws_perform: "ready (fst s) \<Longrightarrow> call_fits c \<Longrightarrow> draws s (perform D c s)"
  by (cases c) (simp_all add: draws_texts draws_step draws_step_progress)

lemma draws_perform_all:
  "ready (fst s) \<Longrightarrow> list_all call_fits cs \<Longrightarrow> draws s (perform_all D cs s)"
proof (induction cs arbitrary: s)
  case Nil
  then show ?case using works_in_Some by (simp add: draws_def)
next
  case (Cons c cs)
  have "draws s (Option.bind (perform D c s) (perform_all D cs))"
  proof (rule draws_bind)
    show "ready (fst s)"
      by (rule Cons.prems(1))
    show "draws s (perform D c s)"
      by (rule draws_perform) (use Cons.prems in simp_all)
  qed (use Cons in simp)
  then show ?case by simp
qed

text \<open>
  Property C39. On a display that is set up, any sequence of progress, text and error calls whose texts fit the
  window returns, leaves the display set up and changes no byte of the mapping outside of the window.
\<close>
theorem calls_stay_in_window:
  assumes "ready f" and "list_all call_fits cs"
  shows "\<exists>f' d'. perform_all D cs (f, d) = Some (f', d') \<and> ready f'
    \<and> length (mapped f') = length (mapped f)
    \<and> (\<forall>i < length (mapped f). i \<notin> window_bytes f \<longrightarrow> mapped f' ! i = mapped f ! i)"
proof -
  obtain f' d' where r: "perform_all D cs (f, d) = Some (f', d')" "writes_in (window_bytes f) f f'"
    using draws_perform_all [of "(f, d)" cs D] assms by (auto simp: draws_def works_in_def)
  have "\<forall>i < length (mapped f'). i \<notin> window_bytes f \<longrightarrow> mapped f' ! i = mapped f ! i"
    using r(2) by (auto simp: writes_in_def mapped_def)
  then show ?thesis
    using r writes_in_ready [OF r(2) assms(1)] writes_in_fields(9) [OF r(2)] by auto
qed


subsection \<open>What is painted\<close>

definition pixel :: "fb \<Rightarrow> int \<Rightarrow> int \<Rightarrow> byte list" where
  "pixel f x y = take 4 (drop (point_at f x y) (mapped f))"

definition visible :: "fb \<Rightarrow> int \<Rightarrow> int \<Rightarrow> bool" where
  "visible f x y \<longleftrightarrow> 0 \<le> x \<and> x < uint (fv_xres (g_var f)) \<and> 0 \<le> y \<and> y < uint (fv_yres (g_var f))"

lemma rows_apart:
  assumes "mode_fits f" "visible f x y" "visible f x' y'" "y < y'"
  shows "point_at f x y + 4 \<le> point_at f x' y'"
proof -
  let ?ll = "unat (ff_line_length (g_fix f))" and ?yo = "unat (fv_yoffset (g_var f))"
  have x: "nat x < unat (fv_xres (g_var f))"
    using assms(2) by (simp add: visible_def nat_less_iff)
  have row: "(unat (fv_xoffset (g_var f)) + nat x) * 4 + 4 \<le> ?ll"
    using assms(1) mult_le_mono1 [OF Suc_leI [OF x], of 4] by (simp add: mode_fits_def algebra_simps)
  have below: "?yo + nat y + 1 \<le> ?yo + nat y'"
    using assms(2,4) unfolding visible_def by linarith
  have "point_at f x y + 4 \<le> (?yo + nat y + 1) * ?ll"
    using row by (simp add: point_at_def)
  also have "\<dots> \<le> (?yo + nat y') * ?ll"
    using below by (intro mult_right_mono) simp_all
  also have "\<dots> \<le> point_at f x' y'"
    by (simp add: point_at_def)
  finally show ?thesis .
qed

lemma points_apart:
  assumes "mode_fits f" "visible f x y" "visible f x' y'" "(x, y) \<noteq> (x', y')"
  shows "point_at f x y + 4 \<le> point_at f x' y' \<or> point_at f x' y' + 4 \<le> point_at f x y"
proof (cases y y' rule: linorder_cases)
  case equal
  then have "nat x \<noteq> nat x'"
    using assms(2-4) by (auto simp: visible_def)
  then show ?thesis
    using equal by (simp add: point_at_def) linarith
qed (use rows_apart [OF assms(1)] assms(2,3) in blast)+

lemma pixel_addr_inj:
  assumes "mode_fits f" "visible f x y" "visible f x' y'" "pixel_addr f x y = pixel_addr f x' y'"
  shows "x = x' \<and> y = y'"
proof -
  have "point_at f x y = point_at f x' y'"
    using pixel_addr_point [OF assms(1), of x y] pixel_addr_point [OF assms(1), of x' y'] assms(2-4)
    by (simp add: visible_def)
  then show ?thesis
    using points_apart [OF assms(1-3)] by force
qed

lemma nth_store_apart:
  assumes "i < p \<or> p + length d \<le> i" "p + length d \<le> length m"
  shows "store_at p d m ! i = m ! i"
proof (cases "i < p")
  case True
  then show ?thesis
    using assms(2) by (simp add: store_at_def nth_append)
next
  case False
  then obtain k where i: "i = p + length d + k"
    using assms(1) by (metis le_Suc_ex)
  show ?thesis
    using assms(2) unfolding i store_at_def by (simp add: nth_append)
qed

lemma take_drop_store_apart:
  assumes "a + n \<le> p \<or> p + length d \<le> a" "p + length d \<le> length m"
  shows "take n (drop a (store_at p d m)) = take n (drop a m)"
proof (rule nth_equalityI)
  show "length (take n (drop a (store_at p d m))) = length (take n (drop a m))"
    using assms(2) by simp
  fix i assume "i < length (take n (drop a (store_at p d m)))"
  then have "i < n \<and> i < length m - a"
    using assms(2) by simp
  then have i: "i < n" "a + i < length m"
    by linarith+
  have "store_at p d m ! (a + i) = m ! (a + i)"
    by (rule nth_store_apart) (use assms i in auto)
  then show "take n (drop a (store_at p d m)) ! i = take n (drop a m) ! i"
    using i assms(2) by simp
qed

lemma put_pixels_exact:
  assumes "mode_fits f" "length col = 4" "put_pixels col as f = Some f'" "visible f x y"
    and "\<And>a. a \<in> set as \<Longrightarrow> \<exists>u v. a = pixel_addr f u v \<and> visible f u v"
  shows "pixel f' x y = (if pixel_addr f x y \<in> set as then col else pixel f x y)"
  using assms(1,3-5)
proof (induction as arbitrary: f)
  case Nil
  then show ?case by simp
next
  case (Cons a as)
  let ?f1 = "f\<lparr>g_lfb := Mapped (store_at (unat a) col (mapped f))\<rparr>"
  obtain u v where a: "a = pixel_addr f u v" "visible f u v"
    using Cons.prems(4) [of a] by auto
  have at: "unat a = point_at f u v" and fits: "point_at f u v + 4 \<le> length (mapped f)"
    using pixel_addr_point [OF Cons.prems(1), of u v] point_in_map [OF Cons.prems(1), of u v] a Cons.prems(1)
    by (simp_all add: visible_def mode_fits_def)
  have m: "mapped ?f1 = store_at (unat a) col (mapped f)"
    by (simp add: mapped_def)
  have same: "visible ?f1 = visible f" "pixel_addr ?f1 = pixel_addr f" "point_at ?f1 = point_at f"
    by (simp_all add: visible_def pixel_addr_def point_at_def fun_eq_iff)
  have fits1: "mode_fits ?f1"
    using Cons.prems(1) at fits assms(2) unfolding mode_fits_def m by simp
  have "put_pixel col a f = Some ?f1"
    using Cons.prems(1) at fits by (simp add: put_pixel_def mode_fits_def)
  then have "put_pixels col as ?f1 = Some f'"
    using Cons.prems(2) by simp
  then have "pixel f' x y = (if pixel_addr f x y \<in> set as then col else pixel ?f1 x y)"
    using Cons.IH [OF fits1] Cons.prems(3,4) unfolding same by simp
  moreover have "pixel ?f1 x y = (if pixel_addr f x y = a then col else pixel f x y)"
  proof (cases "pixel_addr f x y = a")
    case True
    then have "point_at f x y = unat a"
      using pixel_addr_inj [OF Cons.prems(1,3) a(2)] a(1) at by simp
    then show ?thesis
      using True fits at assms(2) take_drop_store_at [of "unat a" "mapped f" col]
      unfolding pixel_def same m by simp
  next
    case False
    then have "(x, y) \<noteq> (u, v)"
      using a(1) by auto
    from points_apart [OF Cons.prems(1,3) a(2) this]
    have "take 4 (drop (point_at f x y) (store_at (unat a) col (mapped f))) = take 4 (drop (point_at f x y) (mapped f))"
      by (intro take_drop_store_apart) (use at fits assms(2) in simp_all)
    then show ?thesis
      using False unfolding pixel_def same m by simp
  qed
  ultimately show ?case
    by simp
qed

lemma paint_box_exact:
  assumes "mode_fits f" "length col = 4" "on_screen f x1 y1 x2 y2" "paint_box x1 y1 x2 y2 col f = Some f'" "visible f x y"
  shows "pixel f' x y = (if x1 \<le> x \<and> x < x2 \<and> y1 \<le> y \<and> y < y2 then col else pixel f x y)"
proof -
  have set: "a \<in> set (box_addrs f x1 y1 x2 y2) \<longleftrightarrow>
      (\<exists>u v. a = pixel_addr f u v \<and> x1 \<le> u \<and> u < x2 \<and> y1 \<le> v \<and> v < y2)" for a
  proof
    assume "\<exists>u v. a = pixel_addr f u v \<and> x1 \<le> u \<and> u < x2 \<and> y1 \<le> v \<and> v < y2"
    then obtain u v where "a = pixel_addr f u v" "u \<in> set [x1..x2 - 1]" "v \<in> set [y1..y2 - 1]"
      by auto
    then show "a \<in> set (box_addrs f x1 y1 x2 y2)"
      unfolding box_addrs_def by (auto intro!: bexI [of _ v])
  qed (fastforce simp: box_addrs_def)
  have vis: "visible f u v" if "x1 \<le> u" "u < x2" "y1 \<le> v" "v < y2" for u v
    using that assms(3) by (simp add: visible_def on_screen_def)
  have "pixel f' x y = (if pixel_addr f x y \<in> set (box_addrs f x1 y1 x2 y2) then col else pixel f x y)"
  proof (rule put_pixels_exact [OF assms(1,2) _ assms(5)])
    show "put_pixels col (box_addrs f x1 y1 x2 y2) f = Some f'"
      using assms(4) by (simp add: paint_box_def)
    show "\<exists>u v. a = pixel_addr f u v \<and> visible f u v" if "a \<in> set (box_addrs f x1 y1 x2 y2)" for a
      using that vis unfolding set by blast
  qed
  moreover have "pixel_addr f x y \<in> set (box_addrs f x1 y1 x2 y2) \<longleftrightarrow> x1 \<le> x \<and> x < x2 \<and> y1 \<le> y \<and> y < y2"
    unfolding set using pixel_addr_inj [OF assms(1,5)] vis by blast
  ultimately show ?thesis
    by simp
qed

text \<open>
  The progress bar of the step shows the percentage exactly: of its 512 by 48 points, centred in the
  screen from 87 lines below the middle, the left \<open>512 * p / 100\<close> columns are white, \<open>p\<close> cut off at 0 and
  100, and no other visible point changes.
\<close>
theorem step_progress_exact:
  assumes "ready f" and "g_fbFd f \<noteq> -1"
  shows "\<exists>f' d'. set_step_progress D p (f, d) = Some (f', d') \<and> ready f'
    \<and> (\<forall>x y. visible f x y \<longrightarrow>
         pixel f' x y =
           (let mx = uint (fv_xres (g_var f)) div 2; my = uint (fv_yres (g_var f)) div 2
            in if mx - 256 \<le> x \<and> x < mx - 256 + 512 * max 0 (min 100 p) div 100 \<and> my + 87 \<le> y \<and> y < my + 135
               then WHITE else pixel f x y))"
proof -
  let ?p = "percent_of p" and ?b = "g_pb_step f"
  have fits: "mode_fits f" and win: "g_window f = g_window (set_window_dimension f)"
    using assms(1) by (simp_all add: ready_def)
  have bar: "is_bar f ?b"
    by (simp add: is_bar_def)
  note b = ready_bar [OF assms(1) bar] and w = ready_window [OF assms(1)]
  obtain f' where f': "fill_bar ?b ?p f = Some f'" "writes_in (window_bytes f) f f'"
    using fill_bar_writes [OF assms(1) bar percent_range] by blast
  have y1: "pb_y1 ?b = wn_y1 (g_window f) + 312"
    using arg_cong [OF ready_bars(2) [OF assms(1)], of pb_y1] by simp
  have mid: "wn_x1 (g_window f) = uint (fv_xres (g_var f)) div 2 - 320"
    "wn_y1 (g_window f) = uint (fv_yres (g_var f)) div 2 - 240"
    unfolding win window_of [OF fits] by simp_all
  have x: "bar_x ?b = uint (fv_xres (g_var f)) div 2 - 256" "bar_y ?b = uint (fv_yres (g_var f)) div 2 + 87"
    unfolding bar_x_def bar_y_def b(1,6,7) y1 mid by simp_all
  have pos: "0 \<le> bar_x ?b"
    using w(5) mid(1) x(1) by simp
  note fr = frac_bar [OF pos percent_range [of p]]
  have paint: "paint_box (bar_x ?b) (bar_y ?b) (bar_x ?b + 512 * ?p div 100) (bar_y ?b + 48) WHITE f = Some f'"
    using f'(1) unfolding fill_bar_def b(8,9) fr(1) .
  have screen: "on_screen f (bar_x ?b) (bar_y ?b) (bar_x ?b + 512 * ?p div 100) (bar_y ?b + 48)"
    using w(3-7) fr(2) pos unfolding on_screen_def x mid by simp
  have "pixel f' u v = (if bar_x ?b \<le> u \<and> u < bar_x ?b + 512 * ?p div 100 \<and> bar_y ?b \<le> v \<and> v < bar_y ?b + 48
      then WHITE else pixel f u v)" if "visible f u v" for u v
    by (rule paint_box_exact [OF fits _ screen paint that]) (simp add: WHITE_def)
  moreover have "max 0 (min 100 p) = ?p"
    by (simp add: percent_of_def max_def min_def)
  moreover have "set_step_progress D p (f, d) = Some (blit D (f', d))"
    using assms(2) f'(1) by (simp add: set_step_progress_def draw_def)
  ultimately show ?thesis
    using writes_in_ready [OF f'(2) assms(1)] unfolding x
    by (intro exI [of _ f'] exI [of _ "snd (blit D (f', d))"]) (simp add: Let_def prod_eq_iff algebra_simps)
qed

end
