(* ===== verification/FramebufferInit.thy ===== *)
theory FramebufferInit
  imports FramebufferProps
begin

text \<open>
  How the display is set up: with a driver that reports a mode of 32 bits and at least 640 by 480
  points, \<^verbatim>\<open>init_framebuffer\<close> establishes what the calls of the display rely on and hides every
  visible point. Then the ways in which the display is drawn on without being mapped.
\<close>

subsection \<open>Hiding all pages\<close>

lemma nth_store_at:
  assumes "p + length d \<le> length m"
  shows "store_at p d m ! i = (if p \<le> i \<and> i < p + length d then d ! (i - p) else m ! i)"
proof (cases "p \<le> i \<and> i < p + length d")
  case True
  then obtain k where k: "i = p + k" "k < length d"
    by (metis le_Suc_ex nat_add_left_cancel_less)
  show ?thesis
    using k(2) assms unfolding k(1) by (simp add: store_at_def nth_append)
next
  case False
  then show ?thesis
    using nth_store_apart [OF _ assms, of i] by auto
qed

lemma put_pixels_blank:
  assumes "put_pixels TRANS as f = Some f'" "g_lfb f = Mapped (mapped f)"
  shows "mapped f' ! i = (if \<exists>a \<in> set as. unat a \<le> i \<and> i < unat a + 4 then 0 else mapped f ! i)"
  using assms
proof (induction as arbitrary: f)
  case Nil
  then show ?case by simp
next
  case (Cons a as)
  let ?m = "store_at (unat a) TRANS (mapped f)" and ?f1 = "f\<lparr>g_lfb := Mapped (store_at (unat a) TRANS (mapped f))\<rparr>"
  have fits: "unat a + 4 \<le> length (mapped f)" and rest: "put_pixels TRANS as ?f1 = Some f'"
    using Cons.prems by (auto simp: put_pixel_def split: if_splits lfb.splits)
  have m: "mapped ?f1 = ?m" "g_lfb ?f1 = Mapped (mapped ?f1)"
    by (simp_all add: mapped_def)
  have "mapped f' ! i = (if \<exists>a \<in> set as. unat a \<le> i \<and> i < unat a + 4 then 0 else ?m ! i)"
    using Cons.IH [OF rest m(2)] unfolding m(1) .
  moreover have "?m ! i = (if unat a \<le> i \<and> i < unat a + 4 then 0 else mapped f ! i)"
  proof -
    have "TRANS ! k = 0" if "k < 4" for k
      using that by (auto simp: TRANS_def nth_Cons split: nat.splits)
    then show ?thesis
      using nth_store_at [of "unat a" TRANS "mapped f" i] fits by (auto simp: TRANS_def)
  qed
  ultimately show ?case
    by auto
qed

text \<open>The point of column \<open>x\<close> in line \<open>r\<close> of the mapping is transparent.\<close>

definition hidden :: "fb \<Rightarrow> int \<Rightarrow> nat \<Rightarrow> bool" where
  "hidden f x r \<longleftrightarrow>
     (\<forall>k < 4. mapped f ! (r * unat (ff_line_length (g_fix f)) + (unat (fv_xoffset (g_var f)) + nat x) * 4 + k) = 0)"

lemma full_box_hides:
  assumes "mode_fits f"
  shows "\<exists>f'. full_box TRANS f = Some f' \<and> writes_in UNIV f f'
    \<and> (\<forall>i. mapped f ! i = 0 \<longrightarrow> mapped f' ! i = 0)
    \<and> (\<forall>x y. visible f x y \<longrightarrow> hidden f' x (unat (fv_yoffset (g_var f)) + nat y))"
proof -
  let ?x = "uint (fv_xres (g_var f))" and ?y = "uint (fv_yres (g_var f))"
  have c: "c_int ?x = ?x" "c_int ?y = ?y"
    using assms by (simp_all add: mode_fits_def)
  have screen: "on_screen f 0 0 ?x ?y"
    by (simp add: on_screen_def)
  obtain f' where f': "paint_box 0 0 ?x ?y TRANS f = Some f'" "writes_in (box_bytes f 0 0 ?x ?y) f f'"
    using paint_box_writes [OF assms _ screen, of TRANS] by (auto simp: TRANS_def)
  have put: "put_pixels TRANS (box_addrs f 0 0 ?x ?y) f = Some f'"
    using f'(1) by (simp add: paint_box_def)
  have "g_lfb f = Mapped (mapped f)"
    using assms by (simp add: mode_fits_def)
  note blank = put_pixels_blank [OF put this]
  have "hidden f' x (unat (fv_yoffset (g_var f)) + nat y)" if "visible f x y" for x y
    unfolding hidden_def
  proof (intro allI impI)
    fix k :: nat
    assume k: "k < 4"
    have "unat (pixel_addr f x y) = point_at f x y"
      using pixel_addr_point [OF assms] that by (simp add: visible_def)
    moreover have "pixel_addr f x y \<in> set (box_addrs f 0 0 ?x ?y)"
      using that unfolding box_addrs_def visible_def by (auto intro!: bexI [of _ y])
    ultimately have "mapped f' ! (point_at f x y + k) = 0"
      using k unfolding blank by (metis add_less_cancel_left le_add1)
    then show "mapped f' ! ((unat (fv_yoffset (g_var f)) + nat y) * unat (ff_line_length (g_fix f'))
        + (unat (fv_xoffset (g_var f')) + nat x) * 4 + k) = 0"
      by (simp add: point_at_def writes_in_fields [OF f'(2)])
  qed
  moreover have "full_box TRANS f = Some f'"
    using f'(1) by (simp add: full_box_def c)
  ultimately show ?thesis
    using writes_in_mono [OF f'(2)] blank by auto
qed

lemma set_yoffset_fields [simp]:
  "mapped (set_yoffset y f) = mapped f" "g_fix (set_yoffset y f) = g_fix f" "g_fbMapLen (set_yoffset y f) = g_fbMapLen f"
  "fv_xres (g_var (set_yoffset y f)) = fv_xres (g_var f)" "fv_yres (g_var (set_yoffset y f)) = fv_yres (g_var f)"
  "fv_yres_virtual (g_var (set_yoffset y f)) = fv_yres_virtual (g_var f)"
  "fv_xoffset (g_var (set_yoffset y f)) = fv_xoffset (g_var f)" "fv_yoffset (g_var (set_yoffset y f)) = y"
  "g_lfb (set_yoffset y f) = g_lfb f" "set_yoffset z (set_yoffset y f) = set_yoffset z f"
  by (simp_all add: set_yoffset_def mapped_def)

lemma writes_in_set_yoffset:
  "writes_in A f f' \<Longrightarrow> writes_in A (set_yoffset y f) (set_yoffset y f')"
proof -
  assume "writes_in A f f'"
  then obtain m k where "f' = f\<lparr>g_lfb := Mapped m, g_step := k\<rparr>" "length m = length (mapped f)"
      "\<forall>i < length m. i \<notin> A \<longrightarrow> m ! i = mapped f ! i"
    unfolding writes_in_def by blast
  moreover from this(1) have "set_yoffset y f' = (set_yoffset y f)\<lparr>g_lfb := Mapped m, g_step := k\<rparr>"
    by (simp add: set_yoffset_def)
  ultimately show ?thesis
    unfolding writes_in_def set_yoffset_fields(1) by blast
qed

lemma set_yoffset_same: "set_yoffset (fv_yoffset (g_var f)) f = f"
  by (simp add: set_yoffset_def)

lemma hidden_set_yoffset [simp]: "hidden (set_yoffset y f) = hidden f"
  by (simp add: hidden_def fun_eq_iff)

lemma visible_set_yoffset [simp]: "visible (set_yoffset y f) = visible f"
  by (simp add: visible_def fun_eq_iff)

lemma clear_pages_hides:
  assumes "g_lfb f = Mapped (mapped f)"
    and "\<And>p. p \<in> set ps \<Longrightarrow> mode_fits (set_yoffset (word_of_int p * fv_yres (g_var f)) f)"
  shows "\<exists>f'. clear_pages TRANS ps f = Some f' \<and> writes_in UNIV f (set_yoffset (fv_yoffset (g_var f)) f')
    \<and> (\<forall>i. mapped f ! i = 0 \<longrightarrow> mapped f' ! i = 0)
    \<and> (\<forall>p \<in> set ps. \<forall>x y. visible f x y \<longrightarrow> hidden f' x (unat (word_of_int p * fv_yres (g_var f)) + nat y))"
  using assms
proof (induction ps arbitrary: f)
  case Nil
  then show ?case by (simp add: set_yoffset_same writes_in_refl)
next
  case (Cons p ps)
  let ?yo = "fv_yoffset (g_var f)" and ?g = "set_yoffset (word_of_int p * fv_yres (g_var f)) f"
  have fits: "mode_fits ?g"
    using Cons.prems(2) by simp
  obtain f1 where f1: "full_box TRANS ?g = Some f1" "writes_in UNIV ?g f1"
      "\<forall>i. mapped f ! i = 0 \<longrightarrow> mapped f1 ! i = 0"
      "\<And>x y. visible f x y \<Longrightarrow> hidden f1 x (unat (word_of_int p * fv_yres (g_var f)) + nat y)"
    using full_box_hides [OF fits] by auto
  note same = writes_in_fields [OF f1(2)]
  have w1: "writes_in UNIV f (set_yoffset ?yo f1)"
    using writes_in_set_yoffset [OF f1(2), of ?yo] by (simp add: set_yoffset_same)
  have fits1: "mode_fits (set_yoffset (word_of_int q * fv_yres (g_var f1)) f1)" if "q \<in> set ps" for q
  proof -
    have "writes_in UNIV (set_yoffset (word_of_int q * fv_yres (g_var f)) f) (set_yoffset (word_of_int q * fv_yres (g_var f)) f1)"
      using writes_in_set_yoffset [OF f1(2), of "word_of_int q * fv_yres (g_var f)"] by simp
    then show ?thesis
      using writes_in_fits Cons.prems(2) [of q] that same(1) by simp
  qed
  obtain f' where f': "clear_pages TRANS ps f1 = Some f'" "writes_in UNIV f1 (set_yoffset (fv_yoffset (g_var f1)) f')"
      "\<forall>i. mapped f1 ! i = 0 \<longrightarrow> mapped f' ! i = 0"
      "\<forall>p \<in> set ps. \<forall>x y. visible f1 x y \<longrightarrow> hidden f' x (unat (word_of_int p * fv_yres (g_var f1)) + nat y)"
    using Cons.IH [OF writes_in_mapped [OF f1(2)] fits1] by blast
  have w: "writes_in UNIV f (set_yoffset ?yo f')"
    using writes_in_trans [OF w1 writes_in_set_yoffset [OF f'(2), of ?yo]] by simp
  have vis: "visible f1 = visible f" "fv_yres (g_var f1) = fv_yres (g_var f)"
    by (simp_all add: visible_def fun_eq_iff same(1))
  have geom: "g_fix f1 = g_fix f" "g_fix f' = g_fix f" "fv_xoffset (g_var f1) = fv_xoffset (g_var f)"
    "fv_xoffset (g_var f') = fv_xoffset (g_var f)"
    using same(1,2) writes_in_fields(2) [OF w] arg_cong [OF writes_in_fields(1) [OF w], of fv_xoffset]
    by simp_all
  have "hidden f' x r" if "hidden f1 x r" for x r
    using that f'(3) by (simp add: hidden_def geom)
  then have "\<forall>q \<in> set (p # ps). \<forall>x y. visible f x y \<longrightarrow> hidden f' x (unat (word_of_int q * fv_yres (g_var f)) + nat y)"
    using f1(4) f'(4) unfolding vis by auto
  then show ?case
    using f1(1,3) f'(1,3) w by auto
qed

lemma c_int_uint:
  fixes w :: u32
  assumes "unat w < 2 ^ 31"
  shows "c_int (uint w) = int (unat w)"
proof -
  have "int (unat w) < int (2 ^ 31)"
    using assms by (simp only: of_nat_less_iff)
  then have "uint w < 2 ^ 31"
    by simp
  moreover have "- (2 ^ 31) \<le> uint w"
    by (rule order_trans [of _ 0]) simp_all
  ultimately show ?thesis
    using c_int_id by simp
qed

lemma safe_pages:
  assumes "mode_fits f"
  shows "\<exists>n. get_safe_pages f = int n \<and> 1 \<le> n
    \<and> n * unat (fv_yres (g_var f)) * unat (ff_line_length (g_fix f)) \<le> g_fbMapLen f"
proof -
  let ?ll = "unat (ff_line_length (g_fix f))" and ?yr = "unat (fv_yres (g_var f))"
  have len: "?yr * ?ll \<le> g_fbMapLen f" "g_fbMapLen f < 2 ^ 32" and yr: "480 \<le> ?yr"
  proof -
    have "480 \<le> int ?yr"
      using assms by (simp add: mode_fits_def)
    then show "480 \<le> ?yr"
      by linarith
    have "?yr * ?ll \<le> (unat (fv_yoffset (g_var f)) + ?yr) * ?ll"
      by simp
    then show "?yr * ?ll \<le> g_fbMapLen f" "g_fbMapLen f < 2 ^ 32"
      using assms unfolding mode_fits_def by linarith+
  qed
  show ?thesis
  proof (cases "get_safe_pages f = 1")
    case True
    then show ?thesis
      using len(1) by (intro exI [of _ 1]) simp
  next
    case False
    let ?lines = "word_of_nat (g_fbMapLen f) div ff_line_length (g_fix f)"
    let ?v = "if fv_yres_virtual (g_var f) > ?lines then ?lines else fv_yres_virtual (g_var f)"
    let ?n = "unat (?v div fv_yres (g_var f))"
    have lines: "unat ?lines = g_fbMapLen f div ?ll"
      using len(2) by (simp add: unat_div unat_of_nat)
    have v: "unat ?v \<le> g_fbMapLen f div ?ll"
      unfolding lines [symmetric] by (simp add: word_le_nat_alt not_less)
    have n: "?n = unat ?v div ?yr"
      by (simp add: unat_div)
    have "?n \<le> unat ?v div 480"
      unfolding n using yr by (rule div_le_mono2 [rotated]) simp
    also have "\<dots> < 2 ^ 31"
      using unsigned_less [of ?v, where 'a = nat] by simp
    finally have "c_int (uint (?v div fv_yres (g_var f))) = int ?n"
      by (rule c_int_uint)
    moreover have "get_safe_pages f = c_int (uint (?v div fv_yres (g_var f))) \<and> \<not> get_safe_pages f < 1"
      using False by (simp add: get_safe_pages_def Let_def split: if_splits)
    ultimately have pages: "get_safe_pages f = int ?n" "1 \<le> ?n"
      by linarith+
    have "?n * ?yr * ?ll \<le> g_fbMapLen f div ?ll * ?ll"
      using v unfolding n by (meson div_times_less_eq_dividend le_trans mult_le_mono1)
    also have "\<dots> \<le> g_fbMapLen f"
      by simp
    finally show ?thesis
      using pages by blast
  qed
qed


lemma page_fits:
  assumes "mode_fits f" "n * unat (fv_yres (g_var f)) * unat (ff_line_length (g_fix f)) \<le> g_fbMapLen f" "p < n"
  shows "mode_fits (set_yoffset (word_of_int (int p) * fv_yres (g_var f)) f)"
    and "unat (word_of_int (int p) * fv_yres (g_var f)) = p * unat (fv_yres (g_var f))"
proof -
  let ?ll = "unat (ff_line_length (g_fix f))" and ?yr = "unat (fv_yres (g_var f))"
  have ll: "1 \<le> ?ll" and len: "g_fbMapLen f < 2 ^ 32"
  proof -
    have "640 \<le> int (unat (fv_xres (g_var f)))"
      using assms(1) by (simp add: mode_fits_def)
    then have "640 \<le> unat (fv_xres (g_var f))"
      by linarith
    moreover have "(unat (fv_xoffset (g_var f)) + unat (fv_xres (g_var f))) * 4 \<le> ?ll"
      using assms(1) by (simp add: mode_fits_def)
    moreover have "1 \<le> c" if "640 \<le> b" "(a + b) * 4 \<le> c" for a b c :: nat
      using that by (cases c) simp_all
    ultimately show "1 \<le> ?ll"
      by blast
    show "g_fbMapLen f < 2 ^ 32"
      using assms(1) by (simp add: mode_fits_def)
  qed
  have up: "(p * ?yr + ?yr) * ?ll \<le> g_fbMapLen f"
    using mult_le_mono1 [OF Suc_leI [OF assms(3)], of "?yr * ?ll"] assms(2) by (simp add: algebra_simps)
  have "p * ?yr * 1 \<le> (p * ?yr + ?yr) * ?ll"
    using ll by (intro mult_le_mono) simp_all
  then have small: "p * ?yr < 2 ^ 32"
    using up len by linarith
  have "(word_of_int (int p) * fv_yres (g_var f) :: u32) = word_of_nat (p * ?yr)"
    by simp
  then show eq: "unat (word_of_int (int p) * fv_yres (g_var f)) = p * ?yr"
    using small by (simp only: unat_of_nat) simp
  show "mode_fits (set_yoffset (word_of_int (int p) * fv_yres (g_var f)) f)"
    using assms(1) up unfolding mode_fits_def set_yoffset_fields eq by simp
qed

lemma hide_content_hides:
  assumes "mode_fits f"
  shows "\<exists>f' n. hide_content f = Some f' \<and> writes_in UNIV f f' \<and> get_safe_pages f = int n
    \<and> (\<forall>x r. 0 \<le> x \<longrightarrow> x < uint (fv_xres (g_var f)) \<longrightarrow> r < n * unat (fv_yres (g_var f)) \<longrightarrow> hidden f' x r)"
proof -
  let ?yr = "unat (fv_yres (g_var f))"
  have lfb: "g_lfb f = Mapped (mapped f)"
    using assms by (simp add: mode_fits_def)
  obtain n where n: "get_safe_pages f = int n" "n * ?yr * unat (ff_line_length (g_fix f)) \<le> g_fbMapLen f"
    using safe_pages [OF assms] by blast
  have pages: "\<exists>p'. p = int p' \<and> p' < n" if "p \<in> set [0..int n - 1]" for p
    using that by (intro exI [of _ "nat p"]) auto
  have "mode_fits (set_yoffset (word_of_int p * fv_yres (g_var f)) f)" if "p \<in> set [0..int n - 1]" for p
    using pages [OF that] page_fits(1) [OF assms n(2)] by blast
  from clear_pages_hides [OF lfb this] obtain f' where
    f': "clear_pages TRANS [0..int n - 1] f = Some f'" "writes_in UNIV f (set_yoffset (fv_yoffset (g_var f)) f')"
      "\<forall>p \<in> set [0..int n - 1]. \<forall>x y. visible f x y \<longrightarrow> hidden f' x (unat (word_of_int p * fv_yres (g_var f)) + nat y)"
    by blast
  have "hidden f' x r" if x: "0 \<le> x" "x < uint (fv_xres (g_var f))" and r: "r < n * ?yr" for x r
  proof -
    have yr: "0 < ?yr"
      using r by (cases ?yr) simp_all
    let ?p = "r div ?yr" and ?y = "r mod ?yr"
    have p: "?p < n"
      using r by (simp add: less_mult_imp_div_less)
    have "int ?y < int ?yr"
      using yr by (simp only: of_nat_less_iff mod_less_divisor)
    then have "visible f x (int ?y)"
      using x by (simp add: visible_def del: of_nat_mod)
    moreover have "int ?p \<in> set [0..int n - 1]"
      using p by (simp del: of_nat_div)
    ultimately have "hidden f' x (?p * ?yr + ?y)"
      using f'(3) page_fits(2) [OF assms n(2) p] by (metis nat_int)
    then show ?thesis
      by simp
  qed
  moreover have "hide_content f = Some (set_yoffset (fv_yoffset (g_var f)) f')"
    using f'(1) lfb by (simp add: hide_content_def clear_all_pages_def n(1))
  ultimately show ?thesis
    using f'(2) n(1) by auto
qed


subsection \<open>Setting up the display\<close>

text \<open>
  A mode the window fits: 32 bits for a point, as the pitch of a line tells, a visible part that lies in
  the virtual screen, and memory for all of it. A driver that reports no size of its memory is all right.
\<close>

definition good_mode :: "fb_var \<Rightarrow> fb_fix \<Rightarrow> bool" where
  "good_mode v x \<longleftrightarrow>
     640 \<le> uint (fv_xres v) \<and> uint (fv_xres v) < 2 ^ 31 \<and> 480 \<le> uint (fv_yres v) \<and> uint (fv_yres v) < 2 ^ 31
   \<and> (unat (fv_xoffset v) + unat (fv_xres v)) * 4 \<le> unat (ff_line_length x)
   \<and> unat (fv_yoffset v) + unat (fv_yres v) \<le> unat (fv_yres_virtual v)
   \<and> unat (fv_yres_virtual v) * unat (ff_line_length x) < 2 ^ 32
   \<and> (ff_smem_len x = 0 \<or> unat (fv_yres_virtual v) * unat (ff_line_length x) \<le> unat (ff_smem_len x))"

definition good_info :: "'d fbdev \<Rightarrow> bool" where
  "good_info D \<longleftrightarrow>
     (\<forall>d. \<exists>v x d1 d2. fd_getvar D d = (Some v, d1) \<and> fd_getfix D d1 = (Some x, d2) \<and> good_mode v x)"

definition good_driver :: "'d fbdev \<Rightarrow> bool" where
  "good_driver D \<longleftrightarrow>
     good_info D \<and> (\<forall>d. 0 \<le> fst (fd_open D d)) \<and> (\<forall>n d. \<exists>m d1. fd_mmap D n d = (Some m, d1) \<and> length m = n)"

lemma good_pitch:
  assumes "good_mode v x"
  shows "ff_line_length x \<noteq> 0" "fv_yres v \<noteq> 0" "fv_yres_virtual v \<noteq> 0"
proof -
  have a: "640 \<le> int (unat (fv_xres v))" "480 \<le> int (unat (fv_yres v))"
    using assms by (simp_all add: good_mode_def)
  then have "640 \<le> unat (fv_xres v)" "480 \<le> unat (fv_yres v)"
    by linarith+
  moreover have "(unat (fv_xoffset v) + unat (fv_xres v)) * 4 \<le> unat (ff_line_length x)"
    "unat (fv_yoffset v) + unat (fv_yres v) \<le> unat (fv_yres_virtual v)"
    using assms by (simp_all add: good_mode_def)
  ultimately show "ff_line_length x \<noteq> 0" "fv_yres v \<noteq> 0" "fv_yres_virtual v \<noteq> 0"
    by auto
qed

lemma map_length_covers:
  assumes "good_mode (g_var f) (g_fix f)"
  shows "unat (fv_yres_virtual (g_var f)) * unat (ff_line_length (g_fix f)) \<le> unat (map_length f)"
    and "map_length f \<noteq> 0"
proof -
  let ?ll = "ff_line_length (g_fix f)" and ?v = "fv_yres_virtual (g_var f)"
  note p = good_pitch [OF assms]
  have less: "unat ?ll * unat ?v < 2 ^ 32"
    using assms by (simp add: good_mode_def mult.commute)
  then have prod: "unat (?ll * ?v) = unat ?ll * unat ?v"
    by (simp add: unat_word_ariths)
  have pos: "0 < unat ?ll * unat ?v"
    using p by (simp add: unat_gt_0)
  then have nz: "?ll * ?v \<noteq> 0"
    using prod by (metis less_irrefl unat_0)
  have len: "map_length f = (if ff_smem_len (g_fix f) = 0 then ?ll * ?v else ff_smem_len (g_fix f))"
    using p nz by (simp add: map_length_def Let_def)
  show "map_length f \<noteq> 0"
    using nz by (simp add: len)
  show "unat ?v * unat ?ll \<le> unat (map_length f)"
    using assms prod unfolding len good_mode_def by (cases "ff_smem_len (g_fix f) = 0") (simp_all add: mult.commute)
qed

lemma get_safe_pages_cong:
  "g_fbMapLen f = g_fbMapLen f' \<Longrightarrow> g_fix f = g_fix f' \<Longrightarrow> fv_yres (g_var f) = fv_yres (g_var f')
    \<Longrightarrow> fv_yres_virtual (g_var f) = fv_yres_virtual (g_var f') \<Longrightarrow> get_safe_pages f = get_safe_pages f'"
  by (simp only: get_safe_pages_def)

lemma mmap_fb_fits:
  assumes "good_driver D" and "good_mode (g_var (fst s)) (g_fix (fst s))"
  shows "\<exists>f d. mmap_fb D s = (True, f, d) \<and> mode_fits f \<and> g_fbFd f = g_fbFd (fst s)
    \<and> (\<forall>n. get_safe_pages f = int n \<longrightarrow>
        unat (fv_yoffset (g_var f)) + unat (fv_yres (g_var f)) \<le> n * unat (fv_yres (g_var f)))"
proof -
  let ?old = "fst s" and ?len = "unat (map_length (fst s))"
  obtain m d where m: "fd_mmap D ?len (snd s) = (Some m, d)" "length m = ?len"
    using assms(1) unfolding good_driver_def by blast
  let ?new = "?old\<lparr>g_lfb := Mapped m, g_fbMapLen := ?len\<rparr>"
  let ?paged = "?new\<lparr>g_fbPages := get_safe_pages ?new\<rparr>"
  let ?yo = "fv_yoffset (g_var ?old)" and ?yr = "fv_yres (g_var ?old)"
  let ?max = "word_of_int (g_fbPages ?paged - 1) * fv_yres (g_var ?paged)"
  let ?result = "if fv_yres (g_var ?paged) \<noteq> 0 \<and> g_fbPages ?paged > 0 \<and> fv_yoffset (g_var ?paged) > ?max then set_yoffset 0 ?paged else ?paged"
  note cover = map_length_covers [OF assms(2)] and pitch = good_pitch [OF assms(2)]
  have mapped: "mapped ?new = m" "mapped ?paged = m"
    by (simp_all add: mapped_def)
  have rows: "(unat ?yo + unat ?yr) * unat (ff_line_length (g_fix ?old)) \<le> ?len"
  proof (rule le_trans [OF mult_le_mono1 cover(1)])
    show "unat ?yo + unat ?yr \<le> unat (fv_yres_virtual (g_var ?old))"
      using assms(2) by (simp add: good_mode_def)
  qed
  have fits: "mode_fits ?new"
    using assms(2) rows m(2) unsigned_less [of "map_length ?old", where 'a = nat] unfolding mode_fits_def mapped good_mode_def by simp
  obtain n where n: "get_safe_pages ?new = int n" "1 \<le> n"
      "n * unat ?yr * unat (ff_line_length (g_fix ?old)) \<le> ?len"
    using safe_pages [OF fits] by auto
  have max: "unat ?max = (n - 1) * unat ?yr"
  proof -
    have before: "n - 1 < n"
      using n(2) by (cases n) simp_all
    have "unat (word_of_int (int (n - 1)) * fv_yres (g_var ?new)) = (n - 1) * unat (fv_yres (g_var ?new))"
      using page_fits(2) [OF fits _ before] n(3) by simp
    moreover have "g_fbPages ?paged - 1 = int (n - 1)"
      using n(1,2) by simp
    ultimately show ?thesis
      by simp
  qed
  have last: "(n - 1) * unat ?yr + unat ?yr = n * unat ?yr"
    using n(2) by (metis Suc_diff_1 add.commute less_eq_Suc_le mult_Suc One_nat_def)
  have low: "unat ?yo + unat ?yr \<le> n * unat ?yr" if "\<not> ?yo > ?max"
    using that max last by (simp add: word_less_nat_alt not_less)
  have pages: "get_safe_pages ?paged = int n" "get_safe_pages (set_yoffset 0 ?paged) = int n"
    using n(1) get_safe_pages_cong [of ?new ?paged] get_safe_pages_cong [of ?new "set_yoffset 0 ?paged"] by simp_all
  have "mode_fits ?paged"
    using fits by (simp add: mode_fits_def mapped)
  moreover have "mode_fits (set_yoffset 0 ?paged)"
    using page_fits(1) [OF \<open>mode_fits ?paged\<close>, of n 0] n by simp
  ultimately have "mode_fits ?result"
    by simp
  moreover have "mmap_fb D s = (True, ?result, d)"
    using cover(2) m(1) by (simp add: mmap_fb_def Let_def)
  moreover have "g_fbFd ?result = g_fbFd ?old"
    by (simp add: set_yoffset_def)
  moreover have "unat (fv_yoffset (g_var ?result)) + unat (fv_yres (g_var ?result)) \<le> k * unat (fv_yres (g_var ?result))"
    if "get_safe_pages ?result = int k" for k
  proof -
    have "k = n"
      using that pages by (simp split: if_splits)
    moreover have "unat ?yr \<le> n * unat ?yr"
      using n(2) by simp
    ultimately show ?thesis
      using low pitch(2) n(1,2) by auto
  qed
  ultimately show ?thesis
    by blast
qed


lemma get_screeninfo_good:
  assumes "good_info D"
  shows "\<exists>f d. get_screeninfo D s = (True, f, d) \<and> good_mode (g_var f) (g_fix f) \<and> g_fbFd f = g_fbFd (fst s)"
proof -
  obtain v x d1 d2 where "fd_getvar D (snd s) = (Some v, d1)" "fd_getfix D d1 = (Some x, d2)" "good_mode v x"
    using assms unfolding good_info_def by blast
  then show ?thesis
    by (simp add: get_screeninfo_def)
qed

lemma try_yvirt_fd: "g_fbFd (fst (try_yvirt D v ys s)) = g_fbFd (fst s)"
  by (induction D v ys s rule: try_yvirt.induct) (auto simp: Let_def split: prod.splits)

lemma set_screeninfo_good:
  assumes "good_info D" "good_mode (g_var (fst s)) (g_fix (fst s))"
  shows "\<exists>f d. set_screeninfo D s = (True, f, d) \<and> good_mode (g_var f) (g_fix f) \<and> g_fbFd f = g_fbFd (fst s)"
proof -
  let ?ny = "fv_yres (g_var (fst s))"
  obtain f d where g: "get_screeninfo D (try_yvirt D (g_var (fst s)) [?ny * 3, ?ny * 2, ?ny] s) = (True, f, d)"
      "good_mode (g_var f) (g_fix f)" "g_fbFd f = g_fbFd (fst s)"
    using get_screeninfo_good [OF assms(1)] try_yvirt_fd by metis
  show ?thesis
    using g(2,3) good_pitch(2) [OF assms(2)] by (simp add: set_screeninfo_def Let_def g(1) del: try_yvirt.simps)
qed

lemma hidden_pixel:
  assumes "mode_fits f" "visible f x y" "hidden f x (unat (fv_yoffset (g_var f)) + nat y)"
  shows "pixel f x y = TRANS"
proof -
  have at: "point_at f x y + 4 \<le> length (mapped f)"
    using point_in_map [OF assms(1)] assms(1,2) by (simp add: visible_def mode_fits_def)
  have "mapped f ! (point_at f x y + k) = 0" if "k < 4" for k
    using assms(3) that by (simp add: hidden_def point_at_def)
  then have "pixel f x y = map (\<lambda>k. 0) [0..<4]"
    using at by (intro nth_equalityI) (simp_all add: pixel_def)
  then show ?thesis
    by (simp add: TRANS_def upt_rec)
qed

lemma start_ready:
  assumes "mode_fits f" "steps \<noteq> 0"
    and "\<And>n. get_safe_pages f = int n \<Longrightarrow>
      unat (fv_yoffset (g_var f)) + unat (fv_yres (g_var f)) \<le> n * unat (fv_yres (g_var f))"
  shows "\<exists>f'. hide_content (set_window_dimension f) = Some f' \<and> ready (init_progressbars steps f') \<and> g_fbFd f' = g_fbFd f
    \<and> (\<forall>x y. visible f' x y \<longrightarrow> pixel (init_progressbars steps f') x y = TRANS)"
proof -
  let ?w = "set_window_dimension f"
  have same: "g_var ?w = g_var f" "g_fix ?w = g_fix f" "g_fbMapLen ?w = g_fbMapLen f" "g_lfb ?w = g_lfb f"
    "mapped ?w = mapped f" "g_fbFd ?w = g_fbFd f"
    by (simp_all add: set_window_dimension_def Let_def mapped_def)
  have fits: "mode_fits ?w"
    using assms(1) unfolding mode_fits_def same .
  have pages: "get_safe_pages ?w = get_safe_pages f"
    by (rule get_safe_pages_cong) (simp_all add: same)
  obtain f' n where f': "hide_content ?w = Some f'" "writes_in UNIV ?w f'" "get_safe_pages f = int n"
      "\<And>x r. 0 \<le> x \<Longrightarrow> x < uint (fv_xres (g_var f)) \<Longrightarrow> r < n * unat (fv_yres (g_var f)) \<Longrightarrow> hidden f' x r"
    using hide_content_hides [OF fits] unfolding pages same by blast
  note f'same = writes_in_fields [OF f'(2)]
  let ?r = "init_progressbars steps f'"
  have rsame: "g_var ?r = g_var f'" "g_fix ?r = g_fix f'" "g_fbMapLen ?r = g_fbMapLen f'" "g_lfb ?r = g_lfb f'"
    "mapped ?r = mapped f'" "g_window ?r = g_window f'"
    "g_pb_overall ?r = bar_at (g_window f') 40 steps" "g_pb_step ?r = bar_at (g_window f') 65 (pb_steps (g_pb_step f'))"
    by (simp_all add: init_progressbars_def mapped_def)
  have fits': "mode_fits f'"
    using writes_in_fits [OF f'(2) fits] .
  have "g_window (set_window_dimension ?r) = g_window f'"
    unfolding f'same(4) by (simp add: set_window_dimension_def Let_def rsame(1) f'same(1) same(1))
  moreover have "mode_fits ?r"
    using fits' unfolding mode_fits_def rsame .
  moreover have "pb_steps (bar_at w p k) = k" for w p k
    by (simp add: bar_at_def Let_def)
  ultimately have "ready ?r"
    using assms(2) unfolding ready_def rsame by simp
  moreover have "pixel ?r x y = TRANS" if v: "visible f' x y" for x y
  proof -
    have "nat y < unat (fv_yres (g_var f))" and x: "0 \<le> x" "x < uint (fv_xres (g_var f))"
      using v by (simp_all add: visible_def nat_less_iff f'same(1) same(1))
    then have "unat (fv_yoffset (g_var f')) + nat y < n * unat (fv_yres (g_var f))"
      using assms(3) [OF f'(3)] by (simp add: f'same(1) same(1))
    then have "pixel f' x y = TRANS"
      by (intro hidden_pixel [OF fits' v] f'(4) x)
    then show ?thesis
      by (simp add: pixel_def point_at_def rsame)
  qed
  ultimately show ?thesis
    using f'(1) f'same(7) same(6) by auto
qed

text \<open>
  Property C40. With a driver that reports a mode of 32 bits and at least 640 by 480 points and maps what it is asked
  for, \<^verbatim>\<open>init_framebuffer\<close> returns 1, the window and the bars are set up in the mapping, for any number of
  buffers and any offset of the visible one, and every visible point is transparent.
\<close>
theorem init_framebuffer_ready:
  assumes "good_driver D" and "steps \<noteq> 0" and "g_fbFd f = -1"
  shows "\<exists>f' d'. init_framebuffer D steps (f, d) = Some (True, f', d') \<and> ready f' \<and> 0 \<le> g_fbFd f'
    \<and> (\<forall>x y. visible f' x y \<longrightarrow> pixel f' x y = TRANS)"
proof -
  have info: "good_info D"
    using assms(1) by (simp add: good_driver_def)
  obtain fd d0 where fd: "fd_open D d = (fd, d0)" "0 \<le> fd"
    using assms(1) unfolding good_driver_def by (metis prod.collapse)
  have "fst (snd (open_framebuffer D (f, d))) = fst (manualBlit D True (f\<lparr>g_fbFd := fd\<rparr>, d0))"
    "fst (open_framebuffer D (f, d))"
    using fd by (simp_all add: open_framebuffer_def)
  then obtain f1 d1 where o1: "open_framebuffer D (f, d) = (True, f1, d1)" "g_fbFd f1 = fd"
    by (cases "open_framebuffer D (f, d)") (auto simp: manualBlit_def split: prod.splits)
  obtain f2 d2 where o2: "get_screeninfo D (f1, d1) = (True, f2, d2)" "good_mode (g_var f2) (g_fix f2)" "g_fbFd f2 = fd"
    using get_screeninfo_good [OF info, of "(f1, d1)"] o1(2) by auto
  obtain f3 d3 where o3: "set_screeninfo D (f2, d2) = (True, f3, d3)" "good_mode (g_var f3) (g_fix f3)" "g_fbFd f3 = fd"
    using set_screeninfo_good [OF info, of "(f2, d2)"] o2 by auto
  obtain f4 d4 where o4: "mmap_fb D (f3, d3) = (True, f4, d4)" "mode_fits f4" "g_fbFd f4 = fd"
      "\<And>n. get_safe_pages f4 = int n \<Longrightarrow>
        unat (fv_yoffset (g_var f4)) + unat (fv_yres (g_var f4)) \<le> n * unat (fv_yres (g_var f4))"
    using mmap_fb_fits [OF assms(1), of "(f3, d3)"] o3 by auto
  obtain f5 where o5: "hide_content (set_window_dimension f4) = Some f5" "ready (init_progressbars steps f5)" "g_fbFd f5 = fd"
      "\<And>x y. visible f5 x y \<Longrightarrow> pixel (init_progressbars steps f5) x y = TRANS"
    using start_ready [OF o4(2) assms(2) o4(4)] o4(3) by auto
  have "visible (init_progressbars steps f5) = visible f5" "g_fbFd (init_progressbars steps f5) = g_fbFd f5"
    by (simp_all add: visible_def init_progressbars_def fun_eq_iff)
  then show ?thesis
    using o5(2-4) fd(2) by (simp add: init_framebuffer_def assms(3) o1(1) o2(1) o3(1) o4(1) draw_def o5(1))
qed


subsection \<open>The main window\<close>

lemma paint_bar_writes:
  assumes "ready f" "is_bar f b"
  shows "\<exists>f'. paint_bar b f = Some f' \<and> writes_in (window_bytes f) f f'"
proof -
  note b = ready_bar [OF assms]
  obtain f1 where f1: "paint_box (pb_x1 b) (pb_y1 b) (pb_x2 b) (pb_y2 b) WHITE f = Some f1" "writes_in (window_bytes f) f f1"
    using paint_window_writes [OF assms(1), of WHITE "pb_x1 b" "pb_x2 b" "pb_y1 b" "pb_y2 b"] b by (auto simp: WHITE_def)
  have r1: "ready f1" and bar1: "is_bar f1 b"
    using writes_in_ready [OF f1(2) assms(1)] assms(2) by (simp_all add: is_bar_def writes_in_fields [OF f1(2)])
  note b1 = ready_bar [OF r1 bar1]
  obtain f2 where "paint_box (pb_x1 b + 10) (pb_y1 b + 10) (pb_x2 b - 10) (pb_y2 b - 10) BLACK f1 = Some f2"
    "writes_in (window_bytes f1) f1 f2"
    using paint_window_writes [OF r1, of BLACK "pb_x1 b + 10" "pb_x2 b - 10" "pb_y1 b + 10" "pb_y2 b - 10"] b1
    by (auto simp: BLACK_def)
  then show ?thesis
    using f1(1) writes_in_trans [OF f1(2)] by (simp add: paint_bar_def b(6) writes_in_window [OF f1(2)])
qed

lemma draws_bars:
  assumes "ready (fst s)"
  shows "draws s (draw paint_progressbars s)"
proof -
  obtain f1 where f1: "paint_bar (g_pb_overall (fst s)) (fst s) = Some f1" "writes_in (window_bytes (fst s)) (fst s) f1"
    using paint_bar_writes [OF assms, of "g_pb_overall (fst s)"] by (auto simp: is_bar_def)
  obtain f2 where "paint_bar (g_pb_step f1) f1 = Some f2" "writes_in (window_bytes f1) f1 f2"
    using paint_bar_writes [OF writes_in_ready [OF f1(2) assms], of "g_pb_step f1"] by (auto simp: is_bar_def)
  then show ?thesis
    using f1(1) writes_in_trans [OF f1(2)]
    by (simp add: draws_def works_in_def draw_def paint_progressbars_def writes_in_window [OF f1(2)])
qed

lemma full_box_writes:
  assumes "mode_fits f" "length col = 4"
  shows "\<exists>f'. full_box col f = Some f' \<and> writes_in UNIV f f'"
proof -
  have c: "c_int (uint (fv_xres (g_var f))) = uint (fv_xres (g_var f))" "c_int (uint (fv_yres (g_var f))) = uint (fv_yres (g_var f))"
    using assms by (simp_all add: mode_fits_def)
  show ?thesis
    unfolding full_box_def c
    using paint_box_writes [OF assms, of 0 0 "uint (fv_xres (g_var f))" "uint (fv_yres (g_var f))"] writes_in_mono
    by (auto simp: on_screen_def)
qed

lemma works_everywhere: "draws s r \<Longrightarrow> works_in UNIV s r"
  unfolding draws_def works_in_def using writes_in_mono by blast

lemma works_ready_bind:
  fixes s :: "'d disp"
  assumes "works_in UNIV s r" and "ready (fst s)" and "\<And>s1 :: 'd disp. ready (fst s1) \<Longrightarrow> works_in UNIV s1 (k s1)"
  shows "works_in UNIV s (Option.bind r k)"
  using works_in_bind [OF assms(1)] assms(3) writes_in_ready [OF _ assms(2)] by blast

text \<open>
  On a display that is set up, \<^verbatim>\<open>show_main_window\<close> returns with the display still set up, with or without
  the picture in the background, for a version of up to 18 printable characters.
\<close>
theorem main_window_shown:
  assumes "ready f" and "list_all printable version" and "length version \<le> 18"
  shows "\<exists>f' d'. show_main_window D background version (f, d) = Some (f', d') \<and> ready f'
    \<and> length (mapped f') = length (mapped f)"
proof -
  let ?k = "\<lambda>s2. Option.bind (draw (paint_box (wn_x1 (g_window (fst s2))) (wn_y1 (g_window (fst s2)))
      (wn_x2 (g_window (fst s2))) (wn_y2 (g_window (fst s2))) BLACK) s2)
      (\<lambda>s3. Option.bind (draw paint_progressbars s3) (\<lambda>s4. Option.bind (set_title D ''ofgwrite Flashing Tool'' s4)
        (set_sub_title D (''written by Betacentauri  v.'' @ version))))"
  let ?backdrop = "\<lambda>s1. if background
      then (case loadBackgroundImage D (snd s1) of
              (True, d) \<Rightarrow> Some (fst s1, d)
            | (False, d) \<Rightarrow> draw (full_box BLACK) (fst s1, d))
      else Some s1"
  have texts: "printed 1 ''ofgwrite Flashing Tool''" "printed 0 (''written by Betacentauri  v.'' @ version)"
    using assms(2,3) by (simp_all add: printed_def printable_def)
  have window: "works_in UNIV s2 (?k s2)" if r: "ready (fst s2)" for s2
  proof (rule works_ready_bind [OF works_everywhere r])
    show "draws s2 (draw (paint_box (wn_x1 (g_window (fst s2))) (wn_y1 (g_window (fst s2)))
        (wn_x2 (g_window (fst s2))) (wn_y2 (g_window (fst s2))) BLACK) s2)"
      by (rule draws_window [OF r]) (simp_all add: BLACK_def ready_window [OF r])
  next
    fix s3 :: "'a disp"
    assume r3: "ready (fst s3)"
    show "works_in UNIV s3 (Option.bind (draw paint_progressbars s3) (\<lambda>s4.
        Option.bind (set_title D ''ofgwrite Flashing Tool'' s4)
        (set_sub_title D (''written by Betacentauri  v.'' @ version))))"
      by (intro works_ready_bind [OF works_everywhere] draws_bars r3 works_everywhere draws_texts(1,2) texts)
  qed
  have fits: "mode_fits f"
    using assms(1) by (simp add: ready_def)
  have hides: "works_in UNIV (f, d) (draw hide_content (f, d))"
    using hide_content_hides [OF fits] by (auto simp: works_in_def draw_def)
  have backdrop_works: "works_in UNIV s1 (?backdrop s1)" if r: "ready (fst s1)" for s1
  proof -
    obtain ok d1 where l: "loadBackgroundImage D (snd s1) = (ok, d1)"
      by fastforce
    have fits1: "mode_fits (fst s1)"
      using r by (simp add: ready_def)
    have same: "works_in UNIV s1 (Some (fst s1, d1))" "works_in UNIV s1 (Some s1)"
      using works_in_Some [OF r] by (simp_all add: works_in_def)
    have black: "works_in UNIV s1 (draw (full_box BLACK) (fst s1, d1))"
      using full_box_writes [OF fits1, of BLACK] by (auto simp: works_in_def draw_def BLACK_def)
    show ?thesis
      using same black l by (cases ok) simp_all
  qed
  have "works_in UNIV (f, d) (Option.bind (draw hide_content (f, d)) (\<lambda>s1. Option.bind (?backdrop s1) ?k))"
    by (rule works_ready_bind [OF hides]) (use assms(1) works_ready_bind [OF backdrop_works] window in simp_all)
  then obtain s' where "show_main_window D background version (f, d) = Some s'" "writes_in UNIV f (fst s')"
    unfolding works_in_def show_main_window_def Let_def by auto
  then show ?thesis
    using writes_in_ready [OF _ assms(1)] writes_in_fields(9) by (cases s') auto
qed

subsection \<open>Drawing without a mapping\<close>

lemma full_box_unmapped:
  assumes "\<And>m. g_lfb f \<noteq> Mapped m" "0 < uint (fv_xres (g_var f))" "uint (fv_xres (g_var f)) < 2 ^ 31"
    and "0 < uint (fv_yres (g_var f))" "uint (fv_yres (g_var f)) < 2 ^ 31"
  shows "full_box col f = None"
proof -
  let ?x = "uint (fv_xres (g_var f))" and ?y = "uint (fv_yres (g_var f))"
  have "c_int ?x = ?x" "c_int ?y = ?y"
    using assms(2-5) by simp_all
  moreover have "[0..?x - 1] = 0 # [1..?x - 1]" "[0..?y - 1] = 0 # [1..?y - 1]"
    using assms(2,4) by (simp_all add: upto_rec1)
  then have "box_addrs f 0 0 ?x ?y = pixel_addr f 0 0 # tl (box_addrs f 0 0 ?x ?y)"
    by (simp add: box_addrs_def)
  moreover have "put_pixel col a f = None" for a
    using assms(1) by (auto simp: put_pixel_def split: lfb.split)
  ultimately show ?thesis
    by (metis full_box_def option.case(1) paint_box_def put_pixels.simps(2))
qed

lemma good_mode_box:
  assumes "good_mode (g_var f) (g_fix f)"
  shows "0 < uint (fv_xres (g_var f))" "uint (fv_xres (g_var f)) < 2 ^ 31"
    "0 < uint (fv_yres (g_var f))" "uint (fv_yres (g_var f)) < 2 ^ 31"
  using assms by (auto simp: good_mode_def)

text \<open>
  When the memory of the framebuffer cannot be mapped, \<^verbatim>\<open>init_framebuffer\<close> does not return 0 as the error
  path means to: \<^verbatim>\<open>close_framebuffer\<close> paints the screen through the pointer that has just been set to null.
\<close>
theorem failed_mmap_paints_null:
  assumes "fst (fd_open D d) \<ge> 0" and "g_fbFd f = -1"
    and "good_info D" and "\<And>n d. fst (fd_mmap D n d) = None"
  shows "init_framebuffer D steps (f, d) = None"
proof -
  obtain f1 d1 where o1: "open_framebuffer D (f, d) = (True, f1, d1)"
    using assms(1) by (cases "open_framebuffer D (f, d)") (auto simp: open_framebuffer_def split: prod.splits)
  obtain f2 d2 where o2: "get_screeninfo D (f1, d1) = (True, f2, d2)" "good_mode (g_var f2) (g_fix f2)"
    using get_screeninfo_good [OF assms(3), of "(f1, d1)"] by auto
  obtain f3 d3 where o3: "set_screeninfo D (f2, d2) = (True, f3, d3)" "good_mode (g_var f3) (g_fix f3)"
    using set_screeninfo_good [OF assms(3), of "(f2, d2)"] o2(2) by auto
  let ?f4 = "f3\<lparr>g_lfb := NoMap, g_fbMapLen := 0\<rparr>"
  obtain d4 where "fd_mmap D (unat (map_length f3)) d3 = (None, d4)"
    using assms(4) by (metis prod.collapse)
  then have o4: "mmap_fb D (f3, d3) = (False, ?f4, d4)"
    using map_length_covers(2) [OF o3(2)] by (simp add: mmap_fb_def Let_def)
  have "full_box TRANS ?f4 = None"
    by (rule full_box_unmapped) (use good_mode_box [OF o3(2)] in simp_all)
  then have "close_framebuffer D (?f4, d') = None" for d'
    by (simp add: close_framebuffer_def draw_def hide_content_def)
  then show ?thesis
    by (simp add: init_framebuffer_def assms(2) o1 o2(1) o3(1) o4)
qed

text \<open>
  Once the display is closed, its pointer is still not null: when the device cannot be opened again, as
  \<^verbatim>\<open>umount_rootfs\<close> does without looking at the result of \<^verbatim>\<open>init_framebuffer\<close>, \<^verbatim>\<open>show_main_window\<close> paints memory
  that is no longer mapped.
\<close>
theorem failed_reopen_paints_unmapped:
  assumes "ready f" and "0 \<le> g_fbFd f" and "\<And>d. fst (fd_open D d) = -1"
  shows "\<exists>s s1. close_framebuffer D (f, d) = Some s \<and> init_framebuffer D steps s = Some (False, s1)
    \<and> show_main_window D background version s1 = None"
proof -
  have fits: "mode_fits f" and lfb: "g_lfb f \<noteq> NoMap"
    using assms(1) by (auto simp: ready_def mode_fits_def)
  obtain f1 where f1: "hide_content f = Some f1" "writes_in UNIV f f1"
    using hide_content_hides [OF fits] by blast
  let ?f2 = "f1\<lparr>g_lfb := Unmapped, g_fbMapLen := 0\<rparr>"
  have fd: "g_fbFd f1 = g_fbFd f" and lfb1: "g_lfb f1 \<noteq> NoMap" and var: "g_var f1 = g_var f"
    using writes_in_fields [OF f1(2)] writes_in_mapped [OF f1(2)] by simp_all
  obtain f3 d3 where f3: "manualBlit D False (?f2, d) = (f3, d3)"
      "g_lfb f3 = Unmapped" "g_var f3 = g_var f" "g_fbMapLen f3 = 0"
    using var by (cases "fd_manual D False d") (auto simp: manualBlit_def)
  let ?f4 = "f3\<lparr>g_fbFd := -1\<rparr>"
  have closed: "close_framebuffer D (f, d) = Some (?f4, fd_close D d3)"
    using assms(2) fd lfb1 f3(1) by (simp add: close_framebuffer_def draw_def f1(1) Let_def)
  obtain d5 where "fd_open D (fd_close D d3) = (-1, d5)"
    using assms(3) by (metis prod.collapse)
  then have init: "init_framebuffer D steps (?f4, fd_close D d3) = Some (False, ?f4, d5)"
    by (simp add: init_framebuffer_def open_framebuffer_def)
  have "full_box TRANS (set_yoffset y ?f4) = None" for y
    by (rule full_box_unmapped) (use f3 fits in \<open>auto simp: mode_fits_def set_yoffset_def\<close>)
  then have "hide_content ?f4 = None"
    using f3 by (simp add: hide_content_def clear_all_pages_def get_safe_pages_def)
  then have "show_main_window D background version (?f4, d5) = None"
    by (simp add: show_main_window_def draw_def)
  then show ?thesis
    using closed init by blast
qed

text \<open>
  On a box without a framebuffer nothing is painted: the device that cannot be opened leaves the display
  as it is at the start, \<^verbatim>\<open>show_main_window\<close> and any calls of the display with any texts return, and so does
  \<^verbatim>\<open>close_framebuffer\<close>.
\<close>
theorem no_framebuffer_harmless:
  assumes "\<And>d. fst (fd_open D d) = -1"
  shows "(\<exists>d1. init_framebuffer D steps (fb_initial, d) = Some (False, fb_initial, d1))
    \<and> perform_all D cs (fb_initial, d) = Some (fb_initial, d)
    \<and> (\<exists>d1. show_main_window D background version (fb_initial, d) = Some (fb_initial, d1))
    \<and> close_framebuffer D (fb_initial, d) = Some (fb_initial, d)"
proof -
  have box: "full_box col fb_initial = Some fb_initial" "hide_content fb_initial = Some fb_initial" for col
    by (simp_all add: full_box_def hide_content_def paint_box_def box_addrs_def fb_initial_def)
  have bars: "paint_progressbars fb_initial = Some fb_initial"
    "paint_box (wn_x1 (g_window fb_initial)) (wn_y1 (g_window fb_initial)) (wn_x2 (g_window fb_initial))
       (wn_y2 (g_window fb_initial)) BLACK fb_initial = Some fb_initial"
    by (simp_all add: paint_progressbars_def paint_bar_def paint_box_def box_addrs_def fb_initial_def zero_bar_def)
  have off: "g_fbFd fb_initial = -1" "g_lfb fb_initial = NoMap"
    by (simp_all add: fb_initial_def)
  obtain d1 where "fd_open D d = (-1, d1)"
    using assms by (metis prod.collapse)
  moreover have "fb_initial\<lparr>g_fbFd := -1\<rparr> = fb_initial"
    by (simp add: fb_initial_def)
  ultimately have init: "init_framebuffer D steps (fb_initial, d) = Some (False, fb_initial, d1)"
    by (simp add: init_framebuffer_def off open_framebuffer_def)
  have quiet: "set_text D b p col thick t (fb_initial, d) = Some (fb_initial, d)" for b p col thick t d
    by (simp add: set_text_def off)
  have "perform D c (fb_initial, d) = Some (fb_initial, d)" for c d
    by (cases c) (simp_all add: set_title_def set_sub_title_def set_overall_text_def set_step_text_def
        set_info_text_def set_error_text_def set_error_text1_def set_error_text2_def quiet
        set_step_def set_step_without_incr_def set_step_progress_def off)
  then have "perform_all D cs (fb_initial, d) = Some (fb_initial, d)"
    by (induction cs) simp_all
  moreover have "\<exists>d1. show_main_window D background version (fb_initial, d) = Some (fb_initial, d1)"
    by (cases background; cases "loadBackgroundImage D d"; cases "fst (loadBackgroundImage D d)")
      (simp_all add: show_main_window_def draw_def box bars set_title_def set_sub_title_def quiet Let_def)
  moreover have "close_framebuffer D (fb_initial, d) = Some (fb_initial, d)"
    by (simp add: close_framebuffer_def draw_def box off)
  ultimately show ?thesis
    using init by blast
qed


subsection \<open>An example\<close>

text \<open>A driver of a screen of 640 by 480 points without double buffering.\<close>

definition vga_var :: fb_var where
  "vga_var = \<lparr>fv_xres = 640, fv_yres = 480, fv_xres_virtual = 640, fv_yres_virtual = 480, fv_xoffset = 0,
     fv_yoffset = 0, fv_bpp = 32, fv_activate = 0, fv_height = 0, fv_width = 0\<rparr>"

definition vga_fix :: fb_fix where
  "vga_fix = \<lparr>ff_smem_len = 1228800, ff_line_length = 2560\<rparr>"

definition vga_driver :: "int \<Rightarrow> bool \<Rightarrow> unit fbdev" where
  "vga_driver fd maps = \<lparr>fd_open = (\<lambda>d. (fd, d)), fd_manual = (\<lambda>_ d. (False, d)), fd_blit = id,
     fd_getvar = (\<lambda>d. (Some vga_var, d)), fd_getfix = (\<lambda>d. (Some vga_fix, d)), fd_putvar = (\<lambda>_ d. (False, d)),
     fd_mmap = (\<lambda>n d. (if maps then Some (replicate n 0xFF) else None, d)), fd_close = id,
     fd_readable = (\<lambda>_ d. (False, d)), fd_system = (\<lambda>_ d. (0, d))\<rparr>"

definition vga_display :: fb where
  "vga_display = init_progressbars 3 (set_window_dimension
     (fb_initial\<lparr>g_fbFd := 4, g_lfb := Mapped (replicate 1228800 0xFF), g_var := vga_var, g_fix := vga_fix,
        g_fbMapLen := 1228800\<rparr>))"

lemma vga_info: "good_info (vga_driver fd maps)"
  by (simp add: good_info_def vga_driver_def good_mode_def vga_var_def vga_fix_def)

lemma vga_ready: "ready vga_display" "g_fbFd vga_display = 4"
proof -
  have "g_window (set_window_dimension vga_display) = g_window vga_display"
    by (simp add: vga_display_def set_window_dimension_def init_progressbars_def Let_def)
  moreover have "mode_fits vga_display"
    by (simp add: mode_fits_def vga_display_def set_window_dimension_def init_progressbars_def Let_def
        vga_var_def vga_fix_def mapped_def)
  moreover have "g_pb_overall vga_display = bar_at (g_window vga_display) 40 3"
    "g_pb_step vga_display = bar_at (g_window vga_display) 65 0"
    by (simp_all add: vga_display_def init_progressbars_def set_window_dimension_def Let_def fb_initial_def zero_bar_def)
  moreover have "pb_steps (bar_at w p k) = k" for w p k
    by (simp add: bar_at_def Let_def)
  ultimately show "ready vga_display"
    by (simp add: ready_def)
  show "g_fbFd vga_display = 4"
    by (simp add: vga_display_def init_progressbars_def set_window_dimension_def Let_def)
qed

theorem calls_stay_in_window_witness:
  "\<exists>f' d'. perform_all (vga_driver 4 True) [Step ''Erasing'', StepProgress 40, ErrorText ''No space''] (vga_display, ())
      = Some (f', d') \<and> ready f' \<and> length (mapped f') = length (mapped vga_display)
    \<and> (\<forall>i < length (mapped vga_display). i \<notin> window_bytes vga_display \<longrightarrow> mapped f' ! i = mapped vga_display ! i)"
  by (rule calls_stay_in_window [OF vga_ready(1)]) (simp add: printed_def printable_def)

theorem step_progress_exact_witness:
  "\<exists>f' d'. set_step_progress (vga_driver 4 True) 50 (vga_display, ()) = Some (f', d') \<and> ready f'
    \<and> (\<forall>x y. visible vga_display x y \<longrightarrow>
         pixel f' x y =
           (let mx = uint (fv_xres (g_var vga_display)) div 2; my = uint (fv_yres (g_var vga_display)) div 2
            in if mx - 256 \<le> x \<and> x < mx - 256 + 512 * max 0 (min 100 50) div 100 \<and> my + 87 \<le> y \<and> y < my + 135
               then WHITE else pixel vga_display x y))"
  by (rule step_progress_exact [OF vga_ready(1)]) (simp add: vga_ready(2))

theorem init_framebuffer_ready_witness:
  "\<exists>f' d'. init_framebuffer (vga_driver 4 True) 3 (fb_initial, ()) = Some (True, f', d') \<and> ready f' \<and> 0 \<le> g_fbFd f'
    \<and> (\<forall>x y. visible f' x y \<longrightarrow> pixel f' x y = TRANS)"
  by (rule init_framebuffer_ready) (simp_all add: good_driver_def vga_info, simp_all add: vga_driver_def fb_initial_def)

theorem main_window_shown_witness:
  "\<exists>f' d'. show_main_window (vga_driver 4 True) True ''4.6.8'' (vga_display, ()) = Some (f', d') \<and> ready f'
    \<and> length (mapped f') = length (mapped vga_display)"
  by (rule main_window_shown [OF vga_ready(1)]) (simp_all add: printable_def)

theorem failed_mmap_paints_null_witness: "init_framebuffer (vga_driver 4 False) 3 (fb_initial, ()) = None"
  by (rule failed_mmap_paints_null) (simp_all add: vga_info, simp_all add: vga_driver_def fb_initial_def)

theorem failed_reopen_paints_unmapped_witness:
  "\<exists>s s1. close_framebuffer (vga_driver (-1) True) (vga_display, ()) = Some s
    \<and> init_framebuffer (vga_driver (-1) True) 3 s = Some (False, s1)
    \<and> show_main_window (vga_driver (-1) True) True ''4.6.8'' s1 = None"
  by (rule failed_reopen_paints_unmapped [OF vga_ready(1)]) (simp_all add: vga_ready(2) vga_driver_def)

theorem no_framebuffer_harmless_witness:
  "(\<exists>d1. init_framebuffer (vga_driver (-1) True) 3 (fb_initial, ()) = Some (False, fb_initial, d1))
    \<and> perform_all (vga_driver (-1) True) [Step ''Erasing'', StepProgress 40] (fb_initial, ()) = Some (fb_initial, ())
    \<and> (\<exists>d1. show_main_window (vga_driver (-1) True) True ''4.6.8'' (fb_initial, ()) = Some (fb_initial, d1))
    \<and> close_framebuffer (vga_driver (-1) True) (fb_initial, ()) = Some (fb_initial, ())"
  by (rule no_framebuffer_harmless) (simp add: vga_driver_def)

end
