(* ===== verification/FlashTargets.thy ===== *)
theory FlashTargets
  imports StopProps SelectMain
begin

text \<open>
  What a run can change: every call that the program may make after a selection, with its arguments,
  written down as a specification, and that a run makes no other call.
\<close>

subsection \<open>The calls of a run\<close>

text \<open>
  For the kernel: the tools on the kernel device with the kernel file, where it is a flash partition; where
  it is a block device or a file, opening and writing it.
\<close>

fun kernel_call :: "gst \<Rightarrow> syscall \<Rightarrow> bool" where
  "kernel_call g (Applet argv) = (kernel_flash_mode g = MTD \<and>
     argv \<in> {[''flash_erase'', kernel_device g, ''0'', ''0''], [''nandwrite'', ''-pm'', kernel_device g, kernel_filename g],
       [''flashcp'', ''-v'', kernel_filename g, kernel_device g]})"
| "kernel_call g (Fopen f m) = (kernel_flash_mode g = TARBZ2 \<and> f = kernel_device g \<and> m = ''wb'')"
| "kernel_call g (Fwrite f d) = (kernel_flash_mode g = TARBZ2 \<and> f = kernel_device g)"
| "kernel_call g c = False"

text \<open>
  For the rootfs: the directory an archive is unpacked to, the subdirectory an UBI image is copied to, the
  file an NFI image is extracted to, and the boot images.
\<close>

definition image_dir :: "gst \<Rightarrow> string" where
  "image_dir g = (if current_rootfs_sub_dir g \<noteq> '''' \<and> \<not> rootsubdir_check g
     then ''/oldroot_remount/'' @ rootfs_sub_dir g @ ''/'' else ''/oldroot_remount/'')"

definition copy_dir :: "gst \<Rightarrow> string" where
  "copy_dir g = ''/oldroot_remount/'' @ rootfs_sub_dir g @ ''/''"

definition nfi_out :: "gst \<Rightarrow> string" where
  "nfi_out g = nfi_path g @ ''/ofg_nfi_rootfs.bin''"

definition boot_file :: "string \<Rightarrow> bool" where
  "boot_file f \<longleftrightarrow> f = ''/oldroot_remount/boot/kernel.img'' \<or> (\<exists>n \<in> {0..9}. f = ''/dreamcard/kernel'' @ fmt_d n @ ''.img'')"

definition unpacked :: "gst \<Rightarrow> bool" where
  "unpacked g \<longleftrightarrow> rootfs_flash_mode g \<in> {TARBZ2, TARBZ2_MTD, TARXZ_UBI}"

text \<open>The programs, by the mode.\<close>

definition rootfs_tool :: "gst \<Rightarrow> string list \<Rightarrow> bool" where
  "rootfs_tool g argv \<longleftrightarrow>
     rootfs_flash_mode g = MTD \<and>
       argv \<in> {[''ubiformat'', rootfs_device g, ''-f'', rootfs_filename g, ''-D''], [''flash_erase'', ''-j'', rootfs_device g, ''0'', ''0''],
         [''nandwrite'', ''-pm'', rootfs_device g, rootfs_filename g], [''flashcp'', ''-vr'', rootfs_filename g, rootfs_device g]}
   \<or> unpacked g \<and> argv \<in> {[''rm'', ''-r'', ''-f'', image_dir g], [''tar'', ''-x'', ''-f'', rootfs_filename g, ''-C'', image_dir g]}
   \<or> rootfs_flash_mode g = UBI_LOOP_SUBDIR \<and>
       (argv = [''rm'', ''-r'', ''-f'', copy_dir g] \<or> (\<exists>n. argv = [''cp'', ''-a'', ''/ubi_mount/'' @ n, copy_dir g])
        \<or> argv \<in> {[''losetup'', ''-r'', ''-f'', rootfs_filename g], [''losetup'', ''-r'', ''-f'', nfi_out g]}
        \<or> (\<exists>d. argv = [''losetup'', ''-d'', d]) \<or> (\<exists>n k. argv = [''ubiattach'', ''-d'', ''10'', ''-m'', n, ''-O'', k])
        \<or> (\<exists>n. argv = [''ubidetach'', ''-p'', ''/dev/mtd'' @ n]))
   \<or> stop_e2_needed g \<and> argv \<in> {[''ps''], [''fuser'', ''-k'', ''-m'', ''/oldroot/'']}"

definition last_word :: "string \<Rightarrow> string" where
  "last_word s = rev (takeWhile (\<lambda>c. c \<noteq> CHR '' '') (rev s))"

text \<open>A copying command: one command, whose target lies in the new root.\<close>

definition copies :: "string \<Rightarrow> bool" where
  "copies s \<longleftrightarrow> take 8 s = ''cp -arf '' \<and> take 9 (last_word s) = ''/newroot/''
     \<and> list_all (\<lambda>c. c \<notin> set '';|&<>$()'' \<and> c \<noteq> CHR 0x0A) s"

text \<open>The commands given to the shell.\<close>

definition shell_command :: "gst \<Rightarrow> string \<Rightarrow> bool" where
  "shell_command g s \<longleftrightarrow>
     rootfs_flash_mode g = TARBZ2 \<and> \<not> stop_e2_needed g \<and> s = ''mkfs.ext4 -F '' @ rootfs_device g
   \<or> android g \<and> s = ''blkid.util-linux -s LABEL -o value /dev/mmcblk1p1''
   \<or> stop_e2_needed g \<and>
       (s \<in> {''init 2'', ''init 3'', ''/bin/automount'', ''exec init u'', ''mkdir -p /newroot/'' @ rootfs_mount_point g}
        \<or> s \<in> set processes_to_stop \<or> copies s)"

text \<open>
  The mounts: the rootfs to be unpacked, after formatting as ext4 if need be; the UBI image, read-only; the
  memory card; and those moved to the new root.
\<close>

definition mounting :: "gst \<Rightarrow> syscall \<Rightarrow> bool" where
  "mounting g c \<longleftrightarrow>
     unpacking g \<and> c = rootfs_mount g
   \<or> rootfs_flash_mode g = TARBZ2 \<and> \<not> stop_e2_needed g \<and> c = Mount (rootfs_device g) ''/oldroot_remount/'' ''ext4'' ''''
   \<or> rootfs_flash_mode g = UBI_LOOP_SUBDIR \<and> c = Mount ''/dev/ubi10_0'' ''/ubi_mount/'' ''ubifs'' ''ro''
   \<or> android g \<and> c = Mount ''/dev/mmcblk1p1'' ''/dreamcard'' ''vfat'' ''''
   \<or> stop_e2_needed g \<and>
       (c = Mount ''/oldroot/'' ''/oldroot/'' '''' ''remount,ro''
        \<or> c \<in> (\<lambda>(a, b). Mount a b '''' ''move'') ` {(''/oldroot/dev/'', ''dev/''), (''/oldroot/proc/'', ''proc/''), (''/oldroot/sys/'', ''sys/''),
            (''/oldroot/var/volatile'', ''var/volatile/''), (''/oldroot/media/'', ''media/''),
            (''/oldroot'' @ rootfs_mount_point g, rootfs_mount_point g)})"

fun rootfs_call :: "gst \<Rightarrow> syscall \<Rightarrow> bool" where
  "rootfs_call g (Applet argv) = rootfs_tool g argv"
| "rootfs_call g (System s) = shell_command g s"
| "rootfs_call g (Mount a b t opt) = mounting g (Mount a b t opt)"
| "rootfs_call g (Umount d) = (d = ''/oldroot_remount/'' \<or> rootfs_flash_mode g = UBI_LOOP_SUBDIR \<and> d = ''/ubi_mount/''
     \<or> stop_e2_needed g \<and> d \<in> {''/oldroot/newroot'', ''/oldroot/''} \<or> android g \<and> d = ''/dev/mmcblk1p1'')"
| "rootfs_call g (Umount2 d) = (d \<in> {''/oldroot_remount/'', ''/newroot/''} \<or> android g \<and> d = ''/dreamcard''
     \<or> stop_e2_needed g \<and> d \<in> (@) ''/oldroot'' ` set (mountlist g))"
| "rootfs_call g (Mkdir d) = (unpacking g \<and> \<not> stop_e2_needed g \<and> d = ''/oldroot_remount'' \<or> unpacked g \<and> d = image_dir g
     \<or> rootfs_flash_mode g = UBI_LOOP_SUBDIR \<and> d \<in> {''/ubi_mount/'', copy_dir g}
     \<or> stop_e2_needed g \<and> take 9 d = ''/newroot/'' \<or> android g \<and> d = ''/dreamcard'')"
| "rootfs_call g (MakeDirectory d) = (d = ''/oldroot_remount/'' @ rootfs_sub_dir g)"
| "rootfs_call g (Rmdir d) = (d \<in> {''/oldroot_remount/'', ''/newroot/''} \<or> rootfs_flash_mode g = UBI_LOOP_SUBDIR \<and> d = ''/ubi_mount/''
     \<or> android g \<and> d = ''/dreamcard'')"
| "rootfs_call g (PivotRoot a b) = (stop_e2_needed g \<and> a = ''/newroot/'' \<and> b = ''oldroot'')"
| "rootfs_call g (Symlink a b) = (stop_e2_needed g \<and>
     (a, b) \<in> {(''/var/volatile/tmp'', ''/tmp''), (''/bin/busybox'', ''/bin/mount''), (''/bin/busybox'', ''/bin/umount'')})"
| "rootfs_call g (Fopen f m) = (rootfs_flash_mode g = UBI_LOOP_SUBDIR \<and> (f, m) \<in> {(block2mtd_file, ''w''), (nfi_out g, ''wb'')}
     \<or> android g \<and> (f = ''/dev/mmcblk1p1'' \<and> m = ''rb'' \<or> boot_file f))"
| "rootfs_call g (Fwrite f d) = (rootfs_flash_mode g = UBI_LOOP_SUBDIR \<and> f \<in> {block2mtd_file, nfi_out g})"
| "rootfs_call g (Write f d) = (android g \<and> boot_file f)"
| "rootfs_call g (Unlink f) = (android g \<and> boot_file f)"
| "rootfs_call g (Remove f) = (android g \<and> boot_file f)"
| "rootfs_call g (Access f) = True"
| "rootfs_call g (Opendir d) = True"
| "rootfs_call g (Fread f) = True"
| "rootfs_call g c = (stop_e2_needed g \<and> c \<in> {Reboot, Fork, Setsid, Umask})"

text \<open>All of it, with the calls that change nothing (waiting, syncing, closing, the display).\<close>

definition may_call :: "gst \<Rightarrow> syscall \<Rightarrow> bool" where
  "may_call g c \<longleftrightarrow> idle_call c \<or> flash_kernel g \<and> kernel_call g c \<or> flash_rootfs g \<and> rootfs_call g c"

abbreviation on_target :: "gst \<Rightarrow> event \<Rightarrow> bool" where
  "on_target g e \<equiv> may_call g (fst e)"

interpretation target: call_policy "on_target g" for g
  by unfold_locales (simp add: may_call_def)

lemma target_call: "may_call g c \<Longrightarrow> emits (on_target g) (call os c)"
  by (rule emits_call) simp

lemma target_sum: "(\<And>c. c \<in> set cs \<Longrightarrow> may_call g c) \<Longrightarrow> emits (on_target g) (calls_sum os cs)"
  by (rule emits_calls_sum) simp

lemma target_tool: "may_call g (Applet argv) \<Longrightarrow> emits (on_target g) (run_applet os no_wr argv)"
  by (rule target.applet) simp

lemma target_idle: "idle_call c \<Longrightarrow> emits (on_target g) (call os c)"
  by (rule target_call) (simp add: may_call_def)

lemma kernel_may: "flash_kernel g \<Longrightarrow> kernel_call g c \<Longrightarrow> may_call g c"
  by (simp add: may_call_def)

lemma rootfs_may: "flash_rootfs g \<Longrightarrow> rootfs_call g c \<Longrightarrow> may_call g c"
  by (simp add: may_call_def)

subsection \<open>The single operations\<close>

lemma target_kernel: "flash_kernel g \<Longrightarrow> emits (on_target g) (kernel_flash os g)"
  unfolding kernel_flash_def flash_ubi_jffs2_kernel_def getFlashType_def flash_erase_def flash_write_def flashcp_def
  by (intro emits_intros target.kernel_copy target_tool) (simp_all add: kernel_may)

lemma rootfs_target: "flash_rootfs g \<Longrightarrow> rootfs_call g c \<or> idle_call c \<Longrightarrow> emits (on_target g) (call os c)"
  by (rule target_call) (auto simp: may_call_def)

lemma rootfs_run: "flash_rootfs g \<Longrightarrow> rootfs_tool g argv \<Longrightarrow> emits (on_target g) (run_applet os no_wr argv)"
  by (intro target_tool rootfs_may) simp_all

lemma rootfs_sum: "flash_rootfs g \<Longrightarrow> list_all (\<lambda>c. rootfs_call g c \<or> idle_call c) cs \<Longrightarrow> emits (on_target g) (calls_sum os cs)"
  by (rule target_sum) (auto simp: list_all_iff may_call_def)

lemmas rootfs_intros = emits_intros rootfs_target rootfs_run rootfs_sum

lemma target_nfi_copy:
  "may_call g (Fwrite out []) \<Longrightarrow> emits (on_target g) (nfi_copy os out img rb wb e pos p buf)"
proof (induction os out img rb wb e pos p buf rule: nfi_copy.induct)
  case (1 os out img rb wb e pos p buf)
  then have "may_call g (Fwrite out d)" for d
    by (simp add: may_call_def)
  then show ?case
    unfolding nfi_copy.simps [of os out img rb wb e pos p buf]
    by (intro emits_intros target_call 1) (auto simp: 1)
qed

lemma target_cp_entries:
  assumes "flash_rootfs g" "rootfs_flash_mode g = UBI_LOOP_SUBDIR"
  shows "emits (on_target g) (cp_entries os ubi_mount_path (copy_dir g) k n ns)"
  by (induction ns arbitrary: k)
    (auto simp: cp_busybox_def rootfs_tool_def ubi_mount_path_def intro!: rootfs_intros assms)

lemma target_extract:
  "flash_rootfs g \<Longrightarrow> rootfs_flash_mode g = UBI_LOOP_SUBDIR \<Longrightarrow> emits (on_target g) (extract_rootfs_from_nfi os (nfi_path g) img n)"
  unfolding extract_rootfs_from_nfi_def Let_def
  by (intro rootfs_intros target_nfi_copy) (simp_all add: nfi_out_def may_call_def)

lemma extract_result: "ensures (\<lambda>r es. r = None \<or> r = Some (path @ ''/ofg_nfi_rootfs.bin'')) (extract_rootfs_from_nfi os path img n)"
  unfolding extract_rootfs_from_nfi_def Let_def
  by (intro ensures_intros ensures_emits [OF adds_nfi_copy]) auto

lemma emits_bind_result:
  assumes "emits P m" "ensures (\<lambda>x a. R x) m" "\<And>x. R x \<Longrightarrow> emits P (f x)"
  shows "emits P (State_Monad.bind m f)"
proof -
  have "ensures (\<lambda>x a. list_all P a) (State_Monad.bind m f)"
    by (intro ensures_bind ensures_mono [OF ensures_emits_conj [OF assms(1,2)]] ensures_emits [OF assms(3)]) auto
  then show ?thesis
    by (simp add: emits_def ensures_def)
qed

lemma target_mount_loop:
  assumes "flash_rootfs g" "rootfs_flash_mode g = UBI_LOOP_SUBDIR" "file \<in> {rootfs_filename g, nfi_out g}"
  shows "emits (on_target g) (mount_loop_image os file e wr ubi_mount_path)"
  unfolding mount_loop_image_def block_defs
  by (intro rootfs_intros) (use assms in \<open>auto simp: rootfs_tool_def mounting_def ubi_mount_path_def\<close>)

lemma target_mount_image:
  assumes "flash_rootfs g" "rootfs_flash_mode g = UBI_LOOP_SUBDIR"
  shows "emits (on_target g) (mount_ubi_image os g (rootfs_filename g) nfi ubi_mount_path no_wr)"
proof -
  have image: "emits (on_target g) (if nfi \<noteq> [] then extract_rootfs_from_nfi os (nfi_path g) nfi n else ret (Some (rootfs_filename g)))" for n
    by (intro emits_intros target_extract assms)
  have result: "ensures (\<lambda>r a. \<forall>file. r = Some file \<longrightarrow> file \<in> {rootfs_filename g, nfi_out g})
      (if nfi \<noteq> [] then extract_rootfs_from_nfi os (nfi_path g) nfi n else ret (Some (rootfs_filename g)))" for n
    by (intro ensures_if ensures_ret ensures_mono [OF extract_result]) (auto simp: nfi_out_def)
  show ?thesis
    unfolding mount_ubi_image_def get_erasesize_and_writesize_def read_sysfs_def
    by (intro emits_if emits_ret, rule emits_bind, (intro emits_intros)[1], intro emits_option emits_ret emits_prod,
        rule emits_bind_result [OF image result], intro emits_intros target_mount_loop assms) auto
qed

lemma target_loop_subdir:
  "flash_rootfs g \<Longrightarrow> rootfs_flash_mode g = UBI_LOOP_SUBDIR
     \<Longrightarrow> emits (on_target g) (flash_ubi_loop_subdir os g (rootfs_filename g) nfi no_wr)"
  unfolding flash_ubi_loop_subdir_def cp_rootfs_def umount_ubi_image_def rm_rootfs_def copy_dir_def [symmetric]
    remove_block2mtd_def write_block2mtd_def release_loop_device_def ubi_detach_dev_def Let_def
  by (intro rootfs_intros target_mount_image target_cp_entries)
    (simp_all add: rootfs_tool_def ubi_mount_path_def)

lemma target_unpack:
  "flash_rootfs g \<Longrightarrow> unpacked g \<Longrightarrow> emits (on_target g) (flash_unpack_rootfs os g (rootfs_filename g) no_wr)"
  unfolding flash_unpack_rootfs_def untar_rootfs_def rm_rootfs_def
  by (intro rootfs_intros) (auto simp: rootfs_tool_def image_dir_def rootfs_path_def sub_dir_used_def)

lemma target_rootfs: "flash_rootfs g \<Longrightarrow> emits (on_target g) (rootfs_flash os g)"
  unfolding rootfs_flash_def
    flash_ubi_jffs2_rootfs_def getFlashType_def flash_erase_jffs2_def flash_write_def flashcp_def ubi_write_def
  by (intro rootfs_intros target_loop_subdir target_unpack) (simp_all add: rootfs_tool_def unpacked_def)

lemma target_write_parts:
  "flash_rootfs g \<Longrightarrow> android g \<Longrightarrow> boot_file fd \<Longrightarrow> emits (on_target g) (write_parts os fd n ds)"
  by (induction ds)
    (auto simp: write_part_def write_padding_def Let_def intro!: rootfs_intros)

lemma target_boot_image:
  "flash_rootfs g \<Longrightarrow> android g \<Longrightarrow> boot_file path \<Longrightarrow> emits (on_target g) (boot_image_step os sha1 g path)"
  unfolding boot_image_step_def generate_boot_image_def load_file_def remove_old_def Let_def
  by (intro rootfs_intros target_write_parts) simp_all

lemma target_android: "flash_rootfs g \<Longrightarrow> android g \<Longrightarrow> emits (on_target g) (android_step os sha1 g)"
  unfolding android_step_def dreamcard_image_def card_label_def
  by (intro rootfs_intros target_boot_image) (auto simp: shell_command_def mounting_def boot_file_def)

lemma target_reboot: "flash_rootfs g \<Longrightarrow> stop_e2_needed g \<Longrightarrow> emits (on_target g) (reboot_after os n)"
  unfolding reboot_after_def by (intro rootfs_intros) simp_all

lemma target_failed: "flash_rootfs g \<Longrightarrow> emits (on_target g) (flash_failed os g)"
  unfolding flash_failed_def by (intro rootfs_intros target_reboot) simp_all

lemma target_finish: "flash_rootfs g \<Longrightarrow> emits (on_target g) (finish_flash os g)"
  unfolding finish_flash_def by (intro rootfs_intros) simp_all

lemma target_images: "flash_rootfs g \<Longrightarrow> emits (on_target g) (flash_images os sha1 g)"
  unfolding flash_images_def
  by (intro rootfs_intros target_failed target_finish target_android target_rootfs target_kernel) simp_all

subsection \<open>Leaving the running system\<close>

lemma target_check: "flash_rootfs g \<Longrightarrow> stop_e2_needed g \<Longrightarrow> emits (on_target g) (check_e2_loop os time)"
proof (induction os time rule: check_e2_loop.induct)
  case (1 os time)
  show ?case
    unfolding check_e2_loop.simps [of os time] exec_ps_def
    by (intro rootfs_intros 1) (simp_all add: rootfs_tool_def 1)
qed

lemma target_stop: "flash_rootfs g \<Longrightarrow> stop_e2_needed g \<Longrightarrow> emits (on_target g) (stop_system os)"
  unfolding stop_system_def check_e2_stopped_def
  by (intro rootfs_intros target_check) (simp_all add: shell_command_def)

text \<open>The commands that fill the new root.\<close>

lemma rootfs_copies:
  assumes "flash_rootfs g" "stop_e2_needed g" "list_all copies ss"
  shows "emits (on_target g) (calls_sum os (map System ss))"
  using assms by (intro rootfs_sum) (auto simp: list_all_iff shell_command_def)

lemma target_programs: "flash_rootfs g \<Longrightarrow> stop_e2_needed g \<Longrightarrow> emits (on_target g) (copy_programs os h multilib)"
  unfolding copy_programs_def
  by (rule rootfs_copies, assumption, assumption, cases multilib) (simp_all add: copies_def last_word_def)

lemma target_autofs: "flash_rootfs g \<Longrightarrow> stop_e2_needed g \<Longrightarrow> emits (on_target g) (copy_autofs os multilib)"
  unfolding copy_autofs_def
  by (rule rootfs_copies, assumption, assumption, cases multilib) (simp_all add: copies_def last_word_def)

lemma target_libcrypt: "flash_rootfs g \<Longrightarrow> stop_e2_needed g \<Longrightarrow> emits (on_target g) (copy_libcrypt os multilib)"
  unfolding copy_libcrypt_def
  by (intro rootfs_intros) (simp_all add: shell_command_def copies_def last_word_def)

lemma target_newroot: "flash_rootfs g \<Longrightarrow> stop_e2_needed g \<Longrightarrow> emits (on_target g) (make_newroot os g multilib)"
  unfolding make_newroot_def newroot_dirs_def by (rule rootfs_sum) (simp_all add: shell_command_def)

lemma target_prepare: "flash_rootfs g \<Longrightarrow> stop_e2_needed g \<Longrightarrow> emits (on_target g) (prepare_newroot os g)"
  unfolding prepare_newroot_def Let_def
  by (intro rootfs_intros target_newroot target_programs target_libcrypt target_autofs) simp_all

lemma target_switch: "flash_rootfs g \<Longrightarrow> stop_e2_needed g \<Longrightarrow> emits (on_target g) (switch_root os)"
  unfolding switch_root_def
  by (intro rootfs_intros target_reboot) (simp_all add: shell_command_def mounting_def)

lemma target_umount_all:
  assumes "flash_rootfs g" "stop_e2_needed g"
  shows "set ds \<subseteq> set (mountlist g) \<Longrightarrow> emits (on_target g) (umount_all os ds)"
  by (induction ds) (auto intro!: rootfs_intros simp: assms)

lemma target_release: "flash_rootfs g \<Longrightarrow> stop_e2_needed g \<Longrightarrow> emits (on_target g) (release_oldroot os g)"
  unfolding release_oldroot_def exec_fuser_kill_def
  by (intro rootfs_intros target_umount_all) (simp_all add: shell_command_def mounting_def rootfs_tool_def)

lemma target_remount: "flash_rootfs g \<Longrightarrow> stop_e2_needed g \<Longrightarrow> emits (on_target g) (remount_rootfs os g u)"
  unfolding remount_rootfs_def
  by (intro rootfs_intros target_reboot) (auto simp: mounting_def rootfs_mount_def unpacking_def)

lemma target_daemonize: "flash_rootfs g \<Longrightarrow> stop_e2_needed g \<Longrightarrow> emits (on_target g) (daemonize os)"
  unfolding daemonize_def fork_step_def by (intro rootfs_intros) simp_all

lemma target_leave: "flash_rootfs g \<Longrightarrow> stop_e2_needed g \<Longrightarrow> emits (on_target g) (leave_rootfs os g)"
  unfolding leave_rootfs_def umount_rootfs_def
  by (intro emits_bind target_daemonize)
    (auto split: sum.splits
      intro!: emits_intros target_prepare target_stop target_switch target_release target_remount)

lemma target_mount_rootfs:
  "flash_rootfs g \<Longrightarrow> \<not> stop_e2_needed g \<Longrightarrow> unpacking g \<Longrightarrow> emits (on_target g) (mount_rootfs os g)"
  unfolding mount_rootfs_def
  by (intro rootfs_intros) (auto simp: mounting_def shell_command_def rootfs_mount_def unpacking_def)

lemma target_rootfs_part: "flash_rootfs g \<Longrightarrow> emits (on_target g) (flash_rootfs_part os sha1 g)"
  unfolding flash_rootfs_part_def
  by (intro rootfs_intros target_leave target_mount_rootfs target_images)
    (simp_all add: list_all_iff shell_command_def)

lemma target_kernel_part: "flash_kernel g \<Longrightarrow> emits (on_target g) (flash_kernel_part os g)"
  unfolding flash_kernel_part_def by (intro emits_intros target_kernel target_idle) simp_all

lemma target_main: "emits (on_target g) (main_flash os sha1 g)"
  unfolding main_flash_def by (intro emits_intros target_kernel_part target_rootfs_part) auto

text \<open>
  Property C26. Whatever the arguments, the environment and the answers of the system: every call of a
  run is one of the list \<open>may_call\<close> for what the selection phase chose, with its arguments. So the kernel
  device is erased, written or opened only if the kernel is to be flashed, by the tools of its mode and from the
  kernel file; the rootfs device is erased, written, formatted and mounted only if the rootfs is, from its
  file; what is deleted or unpacked is the directory of the image below its mount point; the only other
  files written are the boot image, the extracted image of an NFI file and the parameter of block2mtd; mounts, links,
  directories and shell commands are those of the list; and where the selection phase fails, the run
  makes no call at all.
\<close>

theorem run_changes_targets_only:
  assumes "run_state (ofgwrite_main e os sha1 args) s = (r, s')"
  shows "\<exists>new. trace s' = trace s @ new \<and>
    (case main_select e args initial_gst of
       Go g \<Rightarrow> \<forall>(c, n) \<in> set new. may_call g c
     | _ \<Rightarrow> new = [])"
proof (cases "main_select e args initial_gst")
  case (Go g)
  then have "run_state (main_flash os sha1 g) s = (r, s')"
    using assms by (simp add: ofgwrite_main_def)
  then obtain new where "trace s' = trace s @ new" "list_all (on_target g) new"
    by (rule emitsD [OF target_main])
  then show ?thesis
    using Go by (force simp: list_all_iff)
qed (use assms in \<open>simp_all add: ofgwrite_main_def\<close>)

theorem run_changes_targets_only_witness:
  "\<exists>g r s'. main_select main_example [''-k'', ''/img''] initial_gst = Go g
    \<and> run_state (ofgwrite_main main_example (example_os (\<lambda>_. Some [1, 2, 3])) id [''-k'', ''/img'']) start = (r, s')
    \<and> (\<forall>(c, n) \<in> set (trace s'). may_call g c)"
proof -
  obtain r s' where s': "run_state (ofgwrite_main main_example (example_os (\<lambda>_. Some [1, 2, 3])) id [''-k'', ''/img'']) start
      = (r, s')"
    by (cases "run_state (ofgwrite_main main_example (example_os (\<lambda>_. Some [1, 2, 3])) id [''-k'', ''/img'']) start")
  then show ?thesis
    using run_changes_targets_only [OF s'] main_example_main by (auto simp: start_def)
qed

end
