(* ===== verification/ToolCalls.thy ===== *)
theory ToolCalls
  imports FlashPolicy FlashErase Nandwrite Flashcp Ubiformat
begin

text \<open>
  The flash tools as ofgwrite runs them: \<^verbatim>\<open>flash_erase_main\<close>, \<^verbatim>\<open>nandwrite_main\<close>, \<^verbatim>\<open>flashcp_main\<close> and
  \<^verbatim>\<open>ubiformat_main\<close> are linked in and called as functions, so their static variables keep their
  values from one call to the next. An operating system whose \<open>Applet\<close> calls run their models, and
  what the flashing phase can rely on with it, as a locale.
\<close>

subsection \<open>The tools\<close>

text \<open>
  What the tools find when they open their device, by their arguments; \<open>tl_alloc\<close>, \<open>tl_junk\<close> and
  \<open>tl_ech\<close> are the allocations and the uninitialised memory of ubiformat.
\<close>

record 'k tools =
  tl_kernel :: "'k kernel"
  tl_erase :: "string list \<Rightarrow> fe_env"
  tl_node :: "byte list"
  tl_write :: "string list \<Rightarrow> nw_env"
  tl_copy :: "string list \<Rightarrow> fcp_env"
  tl_ubi :: "string list \<Rightarrow> ubi_env"
  tl_alloc :: "nat \<Rightarrow> bool"
  tl_junk :: "byte list"
  tl_ech :: "byte list"

text \<open>
  The driver's state and the static variables of the tools; of those of ubiformat, which a run calls
  once at most, the options are the initial ones.
\<close>

record 'k tool_state =
  ts_dev :: "'k st"
  ts_erase :: fe_flags
  ts_write :: nw_args
  ts_ubi :: ubi_args
  ts_bad :: "int \<times> int"

text \<open>
  One call: the exit code and the new state. \<open>None\<close> stands for a call that does not come back (a
  loop without end, the end of the process, a reboot), and for the programs of busybox.
\<close>

definition run_tool :: "'k tools \<Rightarrow> string list \<Rightarrow> 'k tool_state \<Rightarrow> (int \<times> 'k tool_state) option" where
  "run_tool T argv t =
     (case argv of
        [] \<Rightarrow> None
      | prog # args \<Rightarrow>
          if prog = ''flash_erase'' then do {
            (r, f, st) \<leftarrow> flash_erase_main (tl_kernel T) (tl_erase T args) (tl_node T) args (ts_erase t) (ts_dev t);
            Some (r, t\<lparr>ts_erase := f, ts_dev := st\<rparr>)
          }
          else if prog = ''nandwrite'' then do {
            (out, a, st) \<leftarrow> nandwrite_main (tl_kernel T) (tl_write T args) args (ts_write t) (ts_dev t);
            case out of
              NwReturns r \<Rightarrow> Some (r, t\<lparr>ts_write := a, ts_dev := st\<rparr>)
            | NwExits n \<Rightarrow> None
          }
          else if prog = ''flashcp'' then do {
            ((r, reboots), k) \<leftarrow> flashcp_main (tl_kernel T) (tl_copy T args) args (snd (ts_dev t));
            if reboots then None else Some (r, t\<lparr>ts_dev := (fst (ts_dev t), k)\<rparr>)
          }
          else if prog = ''ubiformat'' then do {
            (out, b, st) \<leftarrow> ubiformat_main (tl_kernel T) (tl_ubi T args) (tl_alloc T) (tl_junk T) (tl_ech T)
                              args (ts_ubi t) (ts_bad t) (ts_dev t);
            case out of
              Returns r \<Rightarrow> Some (r, t\<lparr>ts_bad := b, ts_dev := st\<rparr>)
            | Exits n \<Rightarrow> None
          }
          else None)"

text \<open>What programs do to a part of the world they do not touch.\<close>

definition stays :: "('w \<Rightarrow> 'a) \<Rightarrow> ('w, 'b) prog \<Rightarrow> bool" where
  "stays view m \<longleftrightarrow> (\<forall>s. view (world (snd (run_state m s))) = view (world s))"

named_theorems stays_intros \<open>programs that leave a part of the world alone\<close>

lemma stays_ret [stays_intros]: "stays view (ret x)"
  by (simp add: stays_def)

lemma stays_peek [stays_intros]: "stays view (peek f)"
  by (simp add: stays_def peek_def)

lemma stays_bind [stays_intros]:
  "stays view m \<Longrightarrow> (\<And>x. stays view (f x)) \<Longrightarrow> stays view (State_Monad.bind m f)"
  by (auto simp: stays_def split: prod.split) (metis snd_conv)

lemma stays_if [stays_intros]: "(b \<Longrightarrow> stays view m) \<Longrightarrow> (\<not> b \<Longrightarrow> stays view n) \<Longrightarrow> stays view (if b then m else n)"
  by simp

lemma stays_option [stays_intros]:
  "(x = None \<Longrightarrow> stays view m) \<Longrightarrow> (\<And>y. x = Some y \<Longrightarrow> stays view (f y))
   \<Longrightarrow> stays view (case x of None \<Rightarrow> m | Some y \<Rightarrow> f y)"
  by (cases x) auto

lemma stays_flow [stays_intros]:
  "(\<And>x. r = Go x \<Longrightarrow> stays view (f x)) \<Longrightarrow> (\<And>n. r = Exit n \<Longrightarrow> stays view (g n)) \<Longrightarrow> (r = Crash \<Longrightarrow> stays view m)
   \<Longrightarrow> stays view (case r of Go x \<Rightarrow> f x | Exit n \<Rightarrow> g n | Crash \<Rightarrow> m)"
  by (cases r) auto

lemma stays_sum [stays_intros]:
  "(\<And>x. r = Inl x \<Longrightarrow> stays view (f x)) \<Longrightarrow> (\<And>y. r = Inr y \<Longrightarrow> stays view (g y))
   \<Longrightarrow> stays view (case r of Inl x \<Rightarrow> f x | Inr y \<Rightarrow> g y)"
  by (cases r) auto

lemma staysD: "stays view m \<Longrightarrow> run_state m s = (x, s') \<Longrightarrow> view (world s') = view (world s)"
  by (metis snd_conv stays_def)

subsection \<open>The interface to the flashing phase\<close>

text \<open>
  \<open>view\<close> reads the state of the tools from the world. A call of a tool that comes back answers
  what the tool returns; calls that run no tool leave the tools alone.
\<close>

definition tool_names :: "string set" where
  "tool_names = {''flash_erase'', ''nandwrite'', ''flashcp'', ''ubiformat''}"

fun tool_call :: "syscall \<Rightarrow> bool" where
  "tool_call (Applet (prog # args)) = (prog \<in> tool_names)"
| "tool_call c = False"

locale linked_tools =
  fixes os :: "'w os" and T :: "'k tools" and view :: "'w \<Rightarrow> 'k tool_state"
  assumes tool: "run_tool T argv (view w) = Some (r, t) \<Longrightarrow> \<exists>w'. os_call os (Applet argv) w = (r, w') \<and> view w' = t"
    and other_view: "\<not> tool_call c \<Longrightarrow> view (snd (os_call os c w)) = view w"
begin

lemma stays_call: "\<not> tool_call c \<Longrightarrow> stays view (call os c)"
  using other_view by (auto simp: stays_def call_def split: prod.splits) (metis snd_conv)

lemma stays_calls_sum: "(\<And>c. c \<in> set cs \<Longrightarrow> \<not> tool_call c) \<Longrightarrow> stays view (calls_sum os cs)"
  by (induction cs) (auto simp: libc_def intro!: stays_intros stays_call)

lemma applet_runs:
  assumes "run_tool T argv (view (world s)) = Some (r, t)"
  obtains s' where "run_state (run_applet os False argv) s = (r = 0, s')" "view (world s') = t"
proof -
  obtain w' where "os_call os (Applet argv) (world s) = (r, w')" "view w' = t"
    using tool [OF assms] by blast
  then show thesis
    by (intro that [of "s\<lparr>world := w', trace := trace s @ [(Applet argv, r)]\<rparr>"])
      (simp_all add: run_applet_def run_call)
qed

text \<open>Two tools one after the other, the second only if the first succeeds.\<close>

lemma two_tools:
  assumes "run_tool T argv1 (view (world s)) = Some (0, t1)" "run_tool T argv2 t1 = Some (r, t2)"
  obtains s' where "run_state (do { ok \<leftarrow> run_applet os False argv1; if \<not> ok then ret False else run_applet os False argv2 }) s
    = (r = 0, s')" "view (world s') = t2"
proof -
  obtain s1 where s1: "run_state (run_applet os False argv1) s = (True, s1)" "view (world s1) = t1"
    using assms(1) by (rule applet_runs) simp
  obtain s2 where s2: "run_state (run_applet os False argv2) s1 = (r = 0, s2)" "view (world s2) = t2"
    using assms(2) unfolding s1(2) [symmetric] by (rule applet_runs)
  show thesis
    by (rule that [OF _ s2(2)]) (simp add: s1(1) s2(1))
qed

lemma nand_kernel_flash:
  assumes "os_mtd_type os dev (world s) = Some ty" "is_nand ty"
    and "run_tool T [''flash_erase'', dev, ''0'', ''0''] (view (world s)) = Some (0, t1)"
    and "run_tool T [''nandwrite'', ''-pm'', dev, file] t1 = Some (0, t2)"
  obtains s' where "run_state (flash_ubi_jffs2_kernel os dev file False) s = (True, s')" "view (world s') = t2"
proof -
  have "ty \<noteq> -1"
    using assms(2) by (auto simp: is_nand_def MTD_NANDFLASH_def MTD_MLCNANDFLASH_def)
  moreover obtain s' where "run_state (do { ok \<leftarrow> run_applet os False [''flash_erase'', dev, ''0'', ''0''];
      if \<not> ok then ret False else run_applet os False [''nandwrite'', ''-pm'', dev, file] }) s = (0 = (0::int), s')"
    "view (world s') = t2"
    using assms(3,4) by (rule two_tools)
  ultimately show thesis
    using assms(1,2)
    by (intro that [of s']) (simp_all add: flash_ubi_jffs2_kernel_def getFlashType_def run_peek
        flash_erase_def flash_write_def cong: if_cong)
qed

lemma nor_kernel_flash:
  assumes "os_mtd_type os dev (world s) = Some MTD_NORFLASH"
    and "run_tool T [''flashcp'', ''-v'', file, dev] (view (world s)) = Some (0, t)"
  obtains s' where "run_state (flash_ubi_jffs2_kernel os dev file False) s = (True, s')" "view (world s') = t"
proof -
  obtain s' where "run_state (run_applet os False [''flashcp'', ''-v'', file, dev]) s = (0 = (0::int), s')"
    "view (world s') = t"
    using assms(2) by (rule applet_runs)
  then show thesis
    using assms(1)
    by (intro that [of s']) (simp_all add: flash_ubi_jffs2_kernel_def getFlashType_def run_peek flashcp_def
        is_nand_def MTD_NORFLASH_def MTD_NANDFLASH_def MTD_MLCNANDFLASH_def)
qed

text \<open>A run that flashes only the kernel returns 0 when that succeeds.\<close>

lemma kernel_run:
  assumes "flash_kernel g" "\<not> flash_rootfs g" "\<not> no_write g" "kernel_flash_mode g = MTD"
    and "run_state (flash_ubi_jffs2_kernel os (kernel_device g) (kernel_filename g) False) s = (True, s1)"
  obtains s' where "run_state (main_flash os sha1 g) s = (Go 0, s')" "view (world s') = view (world s1)"
proof (cases "g_quiet g")
  case True
  then show thesis
    using assms by (intro that [of s1]) (simp_all add: main_flash_def flash_kernel_part_def kernel_flash_def)
next
  case False
  obtain r s2 where s2: "run_state (call os (Sleep 5)) s1 = (r, s2)"
    by (cases "run_state (call os (Sleep 5)) s1")
  then have "run_state (main_flash os sha1 g) s = (Go 0, s2)"
    using assms False by (simp add: main_flash_def flash_kernel_part_def kernel_flash_def)
  moreover have "view (world s2) = view (world s1)"
    using staysD [OF stays_call s2] by simp
  ultimately show thesis
    by (rule that)
qed

end

subsection \<open>A system with the tools linked in\<close>

text \<open>The tools on any system; their state is a part of the world, the rest of which is the system's.\<close>

definition link_tools :: "'k tools \<Rightarrow> 'w os \<Rightarrow> ('k tool_state \<times> 'w) os" where
  "link_tools T base =
     \<lparr>os_call = (\<lambda>c (t, w).
        case (case c of Applet argv \<Rightarrow> run_tool T argv t | _ \<Rightarrow> None) of
          Some (r, t') \<Rightarrow> (r, t', w)
        | None \<Rightarrow> (case os_call base c w of (r, w') \<Rightarrow> (r, t, w'))),
      os_file = (\<lambda>f. os_file base f \<circ> snd), os_dir = (\<lambda>d. os_dir base d \<circ> snd), os_loop = os_loop base \<circ> snd,
      os_mtd_type = (\<lambda>d. os_mtd_type base d \<circ> snd), os_mtds = os_mtds base \<circ> snd,
      os_junk = os_junk base \<circ> snd, os_stack = os_stack base \<circ> snd\<rparr>"

interpretation linked: linked_tools "link_tools T base" T fst for T :: "'b tools" and base :: "'a os"
proof unfold_locales
  fix argv and w :: "'b tool_state \<times> 'a" and r t
  assume "run_tool T argv (fst w) = Some (r, t)"
  then show "\<exists>w'. os_call (link_tools T base) (Applet argv) w = (r, w') \<and> fst w' = t"
    by (cases w) (simp add: link_tools_def)
next
  fix c and w :: "'b tool_state \<times> 'a"
  assume "\<not> tool_call c"
  then have none: "(case c of Applet argv \<Rightarrow> run_tool T argv t | _ \<Rightarrow> None) = None" for t
    by (cases c rule: tool_call.cases) (auto simp: run_tool_def tool_names_def)
  obtain t v where w: "w = (t, v)"
    by (cases w)
  show "fst (snd (os_call (link_tools T base) c w)) = fst w"
    using none [of t] by (simp add: link_tools_def w split: prod.split)
qed

end
