(* ===== verification/KernelRun.thy ===== *)
theory KernelRun
  imports ToolCalls NandwritePlace FlashcpProps SelectMain FlashProps UbiformatProps
begin

text \<open>
  The whole program on a kernel partition: from the command line to the contents of the flash, with
  the flash tools linked in.
\<close>

text \<open>What the tools find when ofgwrite calls them for a partition and an image file.\<close>

definition opens_nand :: "'k tools \<Rightarrow> string \<Rightarrow> string \<Rightarrow> mtd_dev_info \<Rightarrow> bool" where
  "opens_nand T dev file mtd \<longleftrightarrow>
     tl_erase T [dev, ''0'', ''0''] = \<lparr>fee_libmtd = True, fee_opens = True, fee_mtd = Some mtd\<rparr>
     \<and> tl_write T [''-pm'', dev, file] = \<lparr>nwe_libmtd = True, nwe_opens = True, nwe_mtd = Some mtd\<rparr>"

definition opens_nor :: "'k tools \<Rightarrow> string \<Rightarrow> string \<Rightarrow> mtd_info_user \<Rightarrow> bool" where
  "opens_nor T dev file mi \<longleftrightarrow>
     tl_copy T [''-v'', file, dev] = \<lparr>fcpe_opens = True, fcpe_info = Some mi\<rparr>"

text \<open>A run that flashes nothing but a kernel partition.\<close>

definition kernel_only :: "gst \<Rightarrow> bool" where
  "kernel_only g \<longleftrightarrow> flash_kernel g \<and> \<not> flash_rootfs g \<and> \<not> no_write g \<and> kernel_flash_mode g = MTD
     \<and> \<not> prefix ''-'' (kernel_device g) \<and> \<not> prefix ''-'' (kernel_filename g)"

definition fresh_tools :: "'k tool_state \<Rightarrow> bool" where
  "fresh_tools t \<longleftrightarrow> ts_erase t = fe_initial \<and> ts_write t = nw_initial \<and> fst (ts_dev t) = OFFS64_IOCTLS_UNKNOWN"

lemma kernel_program:
  assumes "main_select e args initial_gst = Go g" "kernel_only g"
    and "run_state (flash_ubi_jffs2_kernel (link_tools T base) (kernel_device g) (kernel_filename g) False) s = (True, s1)"
  obtains s' where "run_state (ofgwrite_main e (link_tools T base) sha1 args) s = (Go 0, s')"
    "fst (world s') = fst (world s1)"
proof -
  obtain s' where "run_state (main_flash (link_tools T base) sha1 g) s = (Go 0, s')"
    "fst (world s') = fst (world s1)"
    using assms(2) linked.kernel_run [OF _ _ _ _ assms(3)] unfolding kernel_only_def by blast
  then show thesis
    using that assms(1) by (simp add: ofgwrite_main_def)
qed

text \<open>
  Property C4. From the command line to the flash: when the selection phase chooses a NAND partition for
  the kernel and nothing for the rootfs, the program returns 0, and whatever the partition held before,
  its good eraseblocks read one after the other give the image followed by 0xFF, and its bad eraseblocks
  keep their contents. The device does not fail, and the image is not empty and fits.
\<close>

theorem kernel_run_flashes_nand:
  assumes "main_select e args initial_gst = Go g" "kernel_only g"
    and "os_mtd_type base (kernel_device g) w = Some (mtd_type mtd)" "is_nand (mtd_type mtd)"
    and "page_nand (tl_kernel T) mtd good mem img" "opens_input (tl_kernel T) mem img" "paged mtd" "whole_device mtd"
    and "opens_nand T (kernel_device g) (kernel_filename g) mtd" "fresh_tools t"
    and "img (snd (ts_dev t)) \<noteq> []"
    and "length (img (snd (ts_dev t))) \<le> nat (mtd_eb_size mtd) * length (goods good 0 (mtd_eb_cnt mtd))"
  shows "\<exists>s' k'. run_state (ofgwrite_main e (link_tools T base) sha1 args) \<lparr>world = (t, w), trace = []\<rparr> = (Go 0, s')
    \<and> k' = snd (ts_dev (fst (world s')))
    \<and> concat (map (mem k') (goods good 0 (mtd_eb_cnt mtd))) = img (snd (ts_dev t))
        @ replicate (nat (mtd_eb_size mtd) * length (goods good 0 (mtd_eb_cnt mtd)) - length (img (snd (ts_dev t)))) 0xFF
    \<and> (\<forall>eb. eb \<notin> good \<longrightarrow> mem k' eb = mem (snd (ts_dev t)) eb)"
proof -
  let ?dev = "kernel_device g" and ?file = "kernel_filename g" and ?s = "\<lparr>world = (t, w), trace = []\<rparr>"
  note fresh = assms(10) [unfolded fresh_tools_def]
  have fe: "\<not> fe_jffs2 (ts_erase t)" "\<not> fe_noskipbad (ts_erase t)" "\<not> fe_unlock (ts_erase t)"
    using fresh by (simp_all add: fe_initial_def)
  have nw: "kernel_args (ts_write t)" and dev: "fst (ts_dev t) \<noteq> OFFS64_IOCTLS_NOT_SUPPORTED"
    using fresh initial_kernel_args by simp_all
  obtain st1 a st2 where
    er: "flash_erase_main (tl_kernel T) (tl_erase T [?dev, ''0'', ''0'']) (tl_node T) [?dev, ''0'', ''0''] (ts_erase t) (ts_dev t)
      = Some (0, ts_erase t, st1)"
    and wr: "nandwrite_main (tl_kernel T) (tl_write T [''-pm'', ?dev, ?file]) [''-pm'', ?dev, ?file] (ts_write t) st1
      = Some (NwReturns 0, a, st2)"
    and flash: "concat (map (mem (snd st2)) (goods good 0 (mtd_eb_cnt mtd))) = img (snd (ts_dev t))
        @ replicate (nat (mtd_eb_size mtd) * length (goods good 0 (mtd_eb_cnt mtd)) - length (img (snd (ts_dev t)))) 0xFF"
      "\<forall>eb. eb \<notin> good \<longrightarrow> mem (snd st2) eb = mem (snd (ts_dev t)) eb"
    using kernel_partition_flashed [OF assms(5-8) dev _ _ _ fe _ _ _ nw _ _ assms(11,12), of
        "tl_erase T [?dev, ''0'', ''0'']" "tl_write T [''-pm'', ?dev, ?file]" ?dev ?file "tl_node T"]
      assms(2,9) by (auto simp: opens_nand_def kernel_only_def)
  have "run_tool T [''flash_erase'', ?dev, ''0'', ''0''] (fst (world ?s)) = Some (0, t\<lparr>ts_erase := ts_erase t, ts_dev := st1\<rparr>)"
    using er by (simp add: run_tool_def)
  moreover have "run_tool T [''nandwrite'', ''-pm'', ?dev, ?file] (t\<lparr>ts_erase := ts_erase t, ts_dev := st1\<rparr>)
      = Some (0, t\<lparr>ts_dev := st2, ts_write := a\<rparr>)"
    using wr by (simp add: run_tool_def)
  moreover have "os_mtd_type (link_tools T base) ?dev (world ?s) = Some (mtd_type mtd)"
    using assms(3) by (simp add: link_tools_def)
  ultimately obtain s1 where "run_state (flash_ubi_jffs2_kernel (link_tools T base) ?dev ?file False) ?s = (True, s1)"
    "fst (world s1) = t\<lparr>ts_dev := st2, ts_write := a\<rparr>"
    by (metis linked.nand_kernel_flash [OF _ assms(4)])
  then obtain s' where "run_state (ofgwrite_main e (link_tools T base) sha1 args) ?s = (Go 0, s')"
    "fst (world s') = t\<lparr>ts_dev := st2, ts_write := a\<rparr>"
    by (metis kernel_program [OF assms(1,2)])
  then show ?thesis
    using flash by (intro exI [of _ s'] exI [of _ "snd st2"]) simp
qed

text \<open>
  The partition of the example is the small NAND device with a bad eraseblock, the image 300 bytes.
\<close>

definition example_tools :: "pnand tools" where
  "example_tools = \<lparr>tl_kernel = small_nand, tl_erase = (\<lambda>_. small_env), tl_node = [], tl_write = (\<lambda>_. small_nw_env),
     tl_copy = (\<lambda>_. \<lparr>fcpe_opens = False, fcpe_info = None\<rparr>),
     tl_ubi = (\<lambda>_. \<lparr>ue_libmtd = False, ue_rand = 0, ue_sysfs = None, ue_dev = (\<lambda>_. None), ue_node_opens = False,
       ue_attached = False\<rparr>),
     tl_alloc = (\<lambda>_. True), tl_junk = [], tl_ech = []\<rparr>"

definition example_state :: "pnand tool_state" where
  "example_state = \<lparr>ts_dev = (OFFS64_IOCTLS_UNKNOWN, small_state (replicate 300 7)), ts_erase = fe_initial,
     ts_write = nw_initial, ts_ubi = example_args, ts_bad = (1, -1)\<rparr>"

theorem kernel_run_flashes_nand_witness:
  "\<exists>s' k'. run_state (ofgwrite_main main_example (link_tools example_tools (example_os (\<lambda>_. None))) id
      [''-k'', ''/img'']) \<lparr>world = (example_state, ()), trace = []\<rparr> = (Go 0, s')
    \<and> k' = snd (ts_dev (fst (world s')))
    \<and> concat (map (pn_mem k') [0, 1, 3]) = replicate 300 7 @ replicate 84 0xFF
    \<and> pn_mem k' 2 = replicate 128 0"
proof -
  obtain g where g: "main_select main_example [''-k'', ''/img''] initial_gst = Go g"
    "g = stop_step (main_example_args\<lparr>kernel_device := ''/dev/mtd1'', found_kernel_device := True, kernel_flash_mode := MTD\<rparr>)"
    using main_example_main by blast
  have k: "kernel_only g"
    unfolding g(2) by (simp add: kernel_only_def stop_step_def main_example_args_def args_defaults_def initial_gst_def)
  have T: "page_nand (tl_kernel example_tools) small_mtd (- {2}) pn_mem pn_img"
    "opens_input (tl_kernel example_tools) pn_mem pn_img"
    using small_page_nand small_opens_input by (simp_all add: example_tools_def)
  have "\<exists>s' k'. run_state (ofgwrite_main main_example (link_tools example_tools (example_os (\<lambda>_. None))) id
      [''-k'', ''/img'']) \<lparr>world = (example_state, ()), trace = []\<rparr> = (Go 0, s')
    \<and> k' = snd (ts_dev (fst (world s')))
    \<and> concat (map (pn_mem k') (goods (- {2}) 0 (mtd_eb_cnt small_mtd))) = pn_img (snd (ts_dev example_state))
        @ replicate (nat (mtd_eb_size small_mtd) * length (goods (- {2}) 0 (mtd_eb_cnt small_mtd))
            - length (pn_img (snd (ts_dev example_state)))) 0xFF
    \<and> (\<forall>eb. eb \<notin> - {2} \<longrightarrow> pn_mem k' eb = pn_mem (snd (ts_dev example_state)) eb)"
    by (rule kernel_run_flashes_nand [OF g(1) k _ _ T small_geometry(1,2)])
      (simp_all add: example_os_def opens_nand_def example_tools_def small_env_def example_state_def small_state_def
        fresh_tools_def is_nand_def MTD_NANDFLASH_def small_geometry(3))
  then show ?thesis
    by (simp add: small_geometry(3) example_state_def small_state_def)
qed

text \<open>The same for a NOR partition, which \<^verbatim>\<open>flashcp\<close> writes: behind the image's last eraseblock nothing changes.\<close>

theorem kernel_run_flashes_nor:
  assumes "main_select e args initial_gst = Go g" "kernel_only g"
    and "os_mtd_type base (kernel_device g) w = Some MTD_NORFLASH"
    and "nor_flash (tl_kernel T) mi mem pos img" "nor_geometry mi"
    and "opens_nor T (kernel_device g) (kernel_filename g) mi" "ts_dev t = (l, k)"
    and "length (mem k) = unat (mi_size mi)" "length (img k) \<le> unat (mi_size mi)" "pos k = 0"
  shows "\<exists>s'. run_state (ofgwrite_main e (link_tools T base) sha1 args) \<lparr>world = (t, w), trace = []\<rparr> = (Go 0, s')
    \<and> mem (snd (ts_dev (fst (world s'))))
      = img k @ replicate (blocks_for mi (length (img k)) * unat (mi_erasesize mi) - length (img k)) 0xFF
        @ drop (blocks_for mi (length (img k)) * unat (mi_erasesize mi)) (mem k)"
proof -
  let ?dev = "kernel_device g" and ?file = "kernel_filename g" and ?s = "\<lparr>world = (t, w), trace = []\<rparr>"
  have plain: "getopt_long fcp_short fcp_long [?file, ?dev] = ([], [?file, ?dev])"
    using assms(2) by (intro getopt_long_plain) (simp add: kernel_only_def)
  have args: "getopt_long fcp_short fcp_long [''-v'', ?file, ?dev] = ([(CHR ''v'', None, None)], [?file, ?dev])"
    using plain by (subst getopt_long.simps) (simp add: fcp_short_def del: getopt_long.simps)
  have env: "fcpe_opens (tl_copy T [''-v'', ?file, ?dev])" "fcpe_info (tl_copy T [''-v'', ?file, ?dev]) = Some mi"
    using assms(6) by (simp_all add: opens_nor_def)
  obtain k' where k': "flashcp_main (tl_kernel T) (tl_copy T [''-v'', ?file, ?dev]) [''-v'', ?file, ?dev] k = Some ((0, False), k')"
    "mem k' = img k @ replicate (blocks_for mi (length (img k)) * unat (mi_erasesize mi) - length (img k)) 0xFF
        @ drop (blocks_for mi (length (img k)) * unat (mi_erasesize mi)) (mem k)"
    using flashcp_runs [OF assms(4,5) env args _ _ assms(8-10)] by auto
  then have "run_tool T [''flashcp'', ''-v'', ?file, ?dev] (fst (world ?s)) = Some (0, t\<lparr>ts_dev := (l, k')\<rparr>)"
    by (simp add: run_tool_def assms(7))
  moreover have "os_mtd_type (link_tools T base) ?dev (world ?s) = Some MTD_NORFLASH"
    using assms(3) by (simp add: link_tools_def)
  ultimately obtain s1 where "run_state (flash_ubi_jffs2_kernel (link_tools T base) ?dev ?file False) ?s = (True, s1)"
    "fst (world s1) = t\<lparr>ts_dev := (l, k')\<rparr>"
    by (metis linked.nor_kernel_flash)
  then obtain s' where "run_state (ofgwrite_main e (link_tools T base) sha1 args) ?s = (Go 0, s')"
    "fst (world s') = t\<lparr>ts_dev := (l, k')\<rparr>"
    by (metis kernel_program [OF assms(1,2)])
  then show ?thesis
    using k'(2) by (intro exI [of _ s']) simp
qed

end
