(* ===== verification/UbiformatRun.thy ===== *)
theory UbiformatRun
  imports UbiformatFlash NandwritePlace
begin

text \<open>
  \<^verbatim>\<open>ubiformat_main\<close> as a whole, called as ofgwrite calls it, on a NAND device that is blank or holds
  an UBI device of the same geometry: the scan, the checks behind it, flashing the image and
  formatting what is left.
\<close>

subsection \<open>The device\<close>

lemma page_nand_ideal:
  assumes "page_nand K mtd good mem img"
  shows "ideal_nand K mtd good mem img"
  unfolding ideal_nand_def
proof (intro conjI allI ballI impI)
  fix k eb
  assume "eb \<in> good" "in_block mtd eb"
  then show "\<exists>k'. k_memerase64 K (word_of_int (eb * mtd_eb_size mtd)) (word_of_int (mtd_eb_size mtd)) k = (None, k')
      \<and> mem k' = (mem k)(eb := replicate (nat (mtd_eb_size mtd)) 0xFF) \<and> img k' = img k"
    using assms unfolding page_nand_def by blast
next
  fix k eb and d :: "byte list"
  assume eb: "eb \<in> good" "in_block mtd eb" and ff: "mem k eb = replicate (nat (mtd_eb_size mtd)) 0xFF"
    and len: "length d \<le> nat (mtd_eb_size mtd)"
  have "\<forall>k d offs. \<forall>eb \<in> good. in_block mtd eb \<longrightarrow> offs + length d \<le> nat (mtd_eb_size mtd)
      \<longrightarrow> take (length d) (drop offs (mem k eb)) = replicate (length d) 0xFF \<longrightarrow>
      (\<exists>k1 k2. k_lseek K (eb * mtd_eb_size mtd + int offs) k = (eb * mtd_eb_size mtd + int offs, k1)
        \<and> k_write K d k1 = (Inr (int (length d)), k2)
        \<and> mem k2 = (mem k)(eb := store_at offs d (mem k eb)) \<and> img k2 = img k)"
    using assms unfolding page_nand_def by (elim conjE)
  from this [rule_format, of eb 0 d k] show
    "\<exists>k1 k2. k_lseek K (eb * mtd_eb_size mtd) k = (eb * mtd_eb_size mtd, k1)
      \<and> k_write K d k1 = (Inr (int (length d)), k2)
      \<and> mem k2 = (mem k)(eb := d @ replicate (nat (mtd_eb_size mtd) - length d) 0xFF) \<and> img k2 = img k"
    using eb len by (simp add: ff store_at_def)
next
  fix k :: 'a and n :: nat
  assume "0 < n" "img k \<noteq> []"
  then show "\<exists>d k'. k_img_read K n k = (Bytes d, k') \<and> d \<noteq> [] \<and> length d \<le> n \<and> img k = d @ img k' \<and> mem k' = mem k"
    using assms unfolding page_nand_def reads_input_def by blast
qed

text \<open>The start of an eraseblock can be read, and the image file opened.\<close>

definition reads_headers ::
  "'k kernel \<Rightarrow> mtd_dev_info \<Rightarrow> int set \<Rightarrow> ('k \<Rightarrow> int \<Rightarrow> byte list) \<Rightarrow> ('k \<Rightarrow> byte list) \<Rightarrow> bool" where
  "reads_headers K mtd good mem img \<longleftrightarrow>
     (\<forall>k. \<forall>eb \<in> good. in_block mtd eb \<longrightarrow>
        (\<exists>k1 k2. k_lseek K (eb * mtd_eb_size mtd) k = (eb * mtd_eb_size mtd, k1)
           \<and> k_read K 64 k1 = (Bytes (take 64 (mem k eb)), k2) \<and> mem k2 = mem k \<and> img k2 = img k))"

definition opens_image :: "'k kernel \<Rightarrow> ('k \<Rightarrow> int \<Rightarrow> byte list) \<Rightarrow> ('k \<Rightarrow> byte list) \<Rightarrow> bool" where
  "opens_image K mem img \<longleftrightarrow>
     (\<forall>k. \<exists>k1 k2. k_img_stat K k = (Inr (int (length (img k))), k1) \<and> k_img_open K k1 = (None, k2)
        \<and> mem k2 = mem k \<and> img k2 = img k)"

lemma read_header:
  assumes "reads_headers K mtd good mem img" "eb \<in> good" "in_block mtd eb" "64 \<le> mtd_eb_size mtd"
    and "64 \<le> length (mem (snd st) eb)" "length junk \<le> 64"
  shows "\<exists>k'. mtd_read K mtd eb 0 junk 64 st = Some (None, take 64 (mem (snd st) eb), fst st, k')
    \<and> mem k' = mem (snd st) \<and> img k' = img (snd st)"
proof -
  obtain k1 k2 where k: "k_lseek K (eb * mtd_eb_size mtd) (snd st) = (eb * mtd_eb_size mtd, k1)"
    "k_read K 64 k1 = (Bytes (take 64 (mem (snd st) eb)), k2)" "mem k2 = mem (snd st)" "img k2 = img (snd st)"
    using assms(1-3) unfolding reads_headers_def by blast
  have "mtd_read_loop K 64 junk 0 k1 = Some (None, take 64 (mem (snd st) eb), k2)"
    using assms(5,6) by (simp add: mtd_read_loop.simps k(2) store_at_def)
  then show ?thesis
    using k assms(3,4) by (simp add: mtd_read_def mtd_valid_erase_block_def in_block_def Let_def)
qed

subsection \<open>Headers on the device\<close>

text \<open>The header of an eraseblock of an UBI device with the geometry of \<open>ui\<close>, and its erase counter.\<close>

definition ubi_header :: "ubigen_info \<Rightarrow> byte list \<Rightarrow> int \<Rightarrow> bool" where
  "ubi_header ui b ec \<longleftrightarrow>
     (let h = ec_hdr_of_bytes b
      in valid_ech b \<and> uint (be64_to_cpu (ech_ec h)) = ec \<and> ec \<le> EC_MAX
         \<and> sint (be32_to_cpu (ech_vid_hdr_offset h)) = ui_vid_hdr_offs ui
         \<and> sint (be32_to_cpu (ech_data_offset h)) = ui_data_offs ui)"

definition offs_ok :: "ubigen_info \<Rightarrow> ubi_scan_info \<Rightarrow> bool" where
  "offs_ok ui si \<longleftrightarrow> si_vid_hdr_offs si = -1 \<or> si_vid_hdr_offs si = ui_vid_hdr_offs ui \<and> si_data_offs si = ui_data_offs ui"

lemma scan_ubi_header:
  assumes "ubi_header ui b ec" "64 \<le> length b" "offs_ok ui si" "0 < mtd_min_io_size mtd" "0 \<le> ui_data_offs ui"
    and "ui_data_offs ui mod mtd_min_io_size mtd = 0"
  shows "scan_header mtd eb b si =
    Inr (si_ok eb (word_of_int ec) (si\<lparr>si_vid_hdr_offs := ui_vid_hdr_offs ui, si_data_offs := ui_data_offs ui\<rparr>))"
proof -
  let ?h = "ec_hdr_of_bytes b"
  have v: "be32_to_cpu (ech_magic ?h) = UBI_EC_HDR_MAGIC" "be32_to_cpu (ech_hdr_crc ?h) = mtd_crc32 UBI_CRC32_INIT (take 60 b)"
    using assms(1,2) by (simp_all add: ubi_header_def valid_ech_def ec_hdr_sealed_def ec_hdr_crc_bytes Let_def)
  have h: "uint (be64_to_cpu (ech_ec ?h)) = ec" "ec \<le> EC_MAX"
    "sint (be32_to_cpu (ech_vid_hdr_offset ?h)) = ui_vid_hdr_offs ui"
    "sint (be32_to_cpu (ech_data_offset ?h)) = ui_data_offs ui"
    using assms(1) by (simp_all add: ubi_header_def Let_def)
  have ec: "(ucast (be64_to_cpu (ech_ec ?h)) :: u32) = word_of_int ec"
    by (simp flip: h(1))
  have same: "si\<lparr>si_vid_hdr_offs := si_vid_hdr_offs si, si_data_offs := si_data_offs si\<rparr> = si"
    by (cases si) simp
  have mod: "c_mod (ui_data_offs ui) (mtd_min_io_size mtd) = 0" "mtd_min_io_size mtd \<noteq> 0"
    using assms(4-6) by simp_all
  have run: "scan_header mtd eb b si =
      (if si_vid_hdr_offs si = -1 then
         Inr (si_ok eb (word_of_int ec) (si \<lparr> si_vid_hdr_offs := ui_vid_hdr_offs ui, si_data_offs := ui_data_offs ui \<rparr>))
       else if ui_vid_hdr_offs ui \<noteq> si_vid_hdr_offs si then Inr (si_corrupted eb si)
       else if ui_data_offs ui \<noteq> si_data_offs si then Inr (si_corrupted eb si)
       else Inr (si_ok eb (word_of_int ec) si))"
    unfolding scan_header_def Let_def
    by (simp only: v h ec mod refl not_True_eq_False not_less [symmetric, of ec] if_False if_True simp_thms
        ubi_scan_info.select_convs ubi_scan_info.update_convs) (use h(2) mod in auto)
  show ?thesis
    unfolding run using assms(3) same by (auto simp: offs_ok_def)
qed

lemma scan_blank:
  "scan_header mtd eb (replicate 64 0xFF) si = Inr (si_empty eb si)"
proof -
  have "be32_to_cpu (ech_magic (ec_hdr_of_bytes (replicate 64 0xFF))) \<noteq> UBI_EC_HDR_MAGIC"
    by code_simp
  then show ?thesis
    by (simp add: scan_header_def all_ff_def list_all_iff Let_def)
qed

subsection \<open>The scan\<close>

text \<open>
  What the device holds: \<open>old eb\<close> is the erase counter in the header of a good eraseblock, or \<open>None\<close>
  where it is blank; and what the scan makes of it.
\<close>

definition holds_old ::
  "mtd_dev_info \<Rightarrow> ubigen_info \<Rightarrow> int set \<Rightarrow> (int \<Rightarrow> int option) \<Rightarrow> (int \<Rightarrow> byte list) \<Rightarrow> bool" where
  "holds_old mtd ui good old m \<longleftrightarrow>
     (\<forall>eb \<in> good. in_block mtd eb \<longrightarrow> 64 \<le> length (m eb) \<and>
        (case old eb of None \<Rightarrow> take 64 (m eb) = replicate 64 0xFF | Some ec \<Rightarrow> ubi_header ui (take 64 (m eb)) ec))"

definition scan_entry :: "int set \<Rightarrow> (int \<Rightarrow> int option) \<Rightarrow> int \<Rightarrow> u32" where
  "scan_entry good old eb =
     (if eb \<notin> good then EB_BAD else case old eb of None \<Rightarrow> EB_EMPTY | Some ec \<Rightarrow> word_of_int ec)"

definition scan_next :: "ubigen_info \<Rightarrow> int set \<Rightarrow> (int \<Rightarrow> int option) \<Rightarrow> int \<Rightarrow> ubi_scan_info \<Rightarrow> ubi_scan_info" where
  "scan_next ui good old eb si =
     (if eb \<notin> good then si_bad eb si
      else case old eb of
        None \<Rightarrow> si_empty eb si
      | Some ec \<Rightarrow> si_ok eb (word_of_int ec)
          (si\<lparr>si_vid_hdr_offs := ui_vid_hdr_offs ui, si_data_offs := ui_data_offs ui\<rparr>))"

text \<open>The geometry a scan needs: that of the UBI device on the I/O units of the flash.\<close>

definition scan_geometry :: "mtd_dev_info \<Rightarrow> ubigen_info \<Rightarrow> bool" where
  "scan_geometry mtd ui \<longleftrightarrow> 64 \<le> mtd_eb_size mtd \<and> 0 < mtd_min_io_size mtd \<and> 0 \<le> ui_data_offs ui
     \<and> ui_data_offs ui mod mtd_min_io_size mtd = 0"

lemma scan_one:
  assumes P: "page_nand K mtd good mem img" "reads_headers K mtd good mem img" and eb: "in_block mtd eb"
    and geo: "scan_geometry mtd ui" and junk: "length junk \<le> 64"
    and old: "holds_old mtd ui good old (mem (snd st))" and si: "offs_ok ui si"
  shows "\<exists>k'. scan_ebs K mtd junk (eb # ebs) si st = scan_ebs K mtd junk ebs (scan_next ui good old eb si) (fst st, k')
    \<and> mem k' = mem (snd st) \<and> img k' = img (snd st)"
proof -
  obtain k1 where bad: "mtd_is_bad K mtd eb st = (Inr (if eb \<in> good then 0 else 1), fst st, k1)"
    "mem k1 = mem (snd st)" "img k1 = img (snd st)"
    using page_nand_is_bad [OF P(1) eb] by blast
  show ?thesis
  proof (cases "eb \<in> good")
    case False
    then show ?thesis
      using bad by (auto simp: scan_next_def)
  next
    case True
    note g = geo [unfolded scan_geometry_def]
    have b: "64 \<le> length (mem (snd st) eb)"
      "case old eb of None \<Rightarrow> take 64 (mem (snd st) eb) = replicate 64 0xFF | Some ec \<Rightarrow> ubi_header ui (take 64 (mem (snd st) eb)) ec"
      using old True eb by (auto simp: holds_old_def)
    obtain k2 where rd: "mtd_read K mtd eb 0 junk 64 (fst st, k1) = Some (None, take 64 (mem (snd st) eb), fst st, k2)"
      "mem k2 = mem (snd st)" "img k2 = img (snd st)"
      using read_header [OF P(2) True eb, of "(fst st, k1)" junk] g b(1) junk bad(2,3) by auto
    have "scan_header mtd eb (take 64 (mem (snd st) eb)) si = Inr (scan_next ui good old eb si)"
      using b True g scan_blank scan_ubi_header [OF _ _ si, of _ _ mtd eb]
      by (cases "old eb") (simp_all add: scan_next_def)
    then show ?thesis
      using bad(1) rd True by (intro exI [of _ k2]) simp
  qed
qed

text \<open>The table behind the first \<open>n\<close> eraseblocks.\<close>

definition scanned :: "mtd_dev_info \<Rightarrow> ubigen_info \<Rightarrow> int set \<Rightarrow> (int \<Rightarrow> int option) \<Rightarrow> nat \<Rightarrow> ubi_scan_info \<Rightarrow> bool" where
  "scanned mtd ui good old n si \<longleftrightarrow> scan_inv mtd n si \<and> offs_ok ui si
     \<and> take n (si_ec si) = map (scan_entry good old) (map int [0..<n])"

lemma old_counter:
  assumes "holds_old mtd ui good old m" "eb \<in> good" "in_block mtd eb" "old eb = Some ec"
  shows "0 \<le> ec" "ec \<le> EC_MAX" "uint (word_of_int ec :: u32) = ec"
proof -
  have h: "ubi_header ui (take 64 (m eb)) ec"
    using assms by (auto simp: holds_old_def)
  then show "ec \<le> EC_MAX" and ge: "0 \<le> ec"
    by (auto simp: ubi_header_def Let_def)
  then show "uint (word_of_int ec :: u32) = ec"
    by (simp add: EC_MAX_def uint_word_of_int_eq take_bit_eq_mod)
qed

lemma scanned_next:
  assumes "scanned mtd ui good old n si" "int n < mtd_eb_cnt mtd" "holds_old mtd ui good old m"
  shows "scanned mtd ui good old (Suc n) (scan_next ui good old (int n) si)"
proof -
  have inv: "scan_inv mtd n si" and len: "n < length (si_ec si)"
    using assms(1,2) by (auto simp: scanned_def scan_inv_def)
  have blk: "in_block mtd (int n)"
    using assms(2) by (simp add: in_block_def)
  have "scan_inv mtd (Suc n) (scan_next ui good old (int n) si)"
    using scan_inv_step [OF inv assms(2)] old_counter [OF assms(3) _ blk]
      scan_inv_step(5) [of mtd n "si\<lparr>si_vid_hdr_offs := ui_vid_hdr_offs ui, si_data_offs := ui_data_offs ui\<rparr>"]
      inv assms(2)
    by (auto simp: scan_next_def split: option.split)
  moreover have "offs_ok ui (scan_next ui good old (int n) si)"
    using assms(1) by (auto simp: scanned_def scan_next_def offs_ok_def si_bad_def si_empty_def si_ok_def split: option.split)
  moreover have "take (Suc n) (si_ec (scan_next ui good old (int n) si)) = take n (si_ec si) @ [scan_entry good old (int n)]"
    using len by (auto simp: scan_next_def scan_entry_def si_bad_def si_empty_def si_ok_def take_Suc_update split: option.split)
  ultimately show ?thesis
    using assms(1) by (simp add: scanned_def)
qed

lemma scan_loop:
  assumes P: "page_nand K mtd good mem img" "reads_headers K mtd good mem img"
    and geo: "scan_geometry mtd ui" "length junk \<le> 64"
  shows "holds_old mtd ui good old (mem (snd st)) \<Longrightarrow> scanned mtd ui good old n si \<Longrightarrow> n \<le> nat (mtd_eb_cnt mtd)
    \<Longrightarrow> \<exists>si' k'. scan_ebs K mtd junk (map int [n..<nat (mtd_eb_cnt mtd)]) si st = Some (Some si', fst st, k')
      \<and> scanned mtd ui good old (nat (mtd_eb_cnt mtd)) si' \<and> mem k' = mem (snd st) \<and> img k' = img (snd st)"
proof (induction "nat (mtd_eb_cnt mtd) - n" arbitrary: n si st)
  case 0
  then show ?case
    by (auto intro!: exI [of _ "snd st"])
next
  case (Suc d)
  then have n: "n < nat (mtd_eb_cnt mtd)" "in_block mtd (int n)" "int n < mtd_eb_cnt mtd"
    by (simp_all add: in_block_def)
  have si: "offs_ok ui si"
    using Suc.prems(2) by (simp add: scanned_def)
  obtain k1 where k1: "scan_ebs K mtd junk (int n # map int [Suc n..<nat (mtd_eb_cnt mtd)]) si st
      = scan_ebs K mtd junk (map int [Suc n..<nat (mtd_eb_cnt mtd)]) (scan_next ui good old (int n) si) (fst st, k1)"
    "mem k1 = mem (snd st)" "img k1 = img (snd st)"
    using scan_one [OF P n(2) geo Suc.prems(1) si] by blast
  have "d = nat (mtd_eb_cnt mtd) - Suc n"
    using Suc.hyps(2) by simp
  from Suc.hyps(1) [OF this, of "(fst st, k1)"] show ?case
    using scanned_next [OF Suc.prems(2) n(3) Suc.prems(1)] Suc.prems(1) k1 n(1) by (simp add: upt_int_Cons)
qed

text \<open>What the table says of an eraseblock.\<close>

lemma scan_entry_kinds:
  assumes "holds_old mtd ui good old m" "in_block mtd eb"
  shows "scan_entry good old eb = EB_BAD \<longleftrightarrow> eb \<notin> good"
    "scan_entry good old eb = EB_EMPTY \<longleftrightarrow> eb \<in> good \<and> old eb = None"
    "scan_entry good old eb \<noteq> EB_ALIEN"
    "uint (scan_entry good old eb) \<le> EC_MAX \<longleftrightarrow> eb \<in> good \<and> old eb \<noteq> None"
proof -
  have "uint (word_of_int ec :: u32) = ec \<and> ec \<le> EC_MAX" if "eb \<in> good" "old eb = Some ec" for ec
    using old_counter [OF assms(1) that(1) assms(2) that(2)] by simp
  moreover have "uint EB_EMPTY > EC_MAX" "uint EB_ALIEN > EC_MAX" "uint EB_BAD > EC_MAX"
    "EB_EMPTY \<noteq> EB_BAD" "EB_ALIEN \<noteq> EB_BAD" "EB_ALIEN \<noteq> EB_EMPTY"
    by (simp_all add: eb_defs)
  ultimately show "scan_entry good old eb = EB_BAD \<longleftrightarrow> eb \<notin> good"
    "scan_entry good old eb = EB_EMPTY \<longleftrightarrow> eb \<in> good \<and> old eb = None"
    "scan_entry good old eb \<noteq> EB_ALIEN"
    "uint (scan_entry good old eb) \<le> EC_MAX \<longleftrightarrow> eb \<in> good \<and> old eb \<noteq> None"
    by (auto simp: scan_entry_def split: option.split)
qed

lemma count_list_map_filter: "count_list (map f xs) y = length (filter (\<lambda>x. f x = y) xs)"
  by (induction xs) auto

lemma filter_goods: "filter (\<lambda>eb. eb \<in> good \<and> P eb) [0..n - 1] = filter P (goods good 0 n)"
  by (simp add: goods_def conj_commute)

lemma goods_complement: "0 \<le> n \<Longrightarrow> n - int (length (filter (\<lambda>eb. eb \<notin> good) [0..n - 1])) = int (length (goods good 0 n))"
  using sum_length_filter_compl [of "\<lambda>eb. eb \<in> good" "[0..n - 1]"] by (simp add: goods_def)

text \<open>The erase counters the scan finds, and their mean, which blank eraseblocks get.\<close>

definition old_counters :: "int set \<Rightarrow> (int \<Rightarrow> int option) \<Rightarrow> int \<Rightarrow> int list" where
  "old_counters good old n = map (\<lambda>eb. the (old eb)) (filter (\<lambda>eb. old eb \<noteq> None) (goods good 0 n))"

definition mean_counter :: "int set \<Rightarrow> (int \<Rightarrow> int option) \<Rightarrow> int \<Rightarrow> int" where
  "mean_counter good old n =
     (let ecs = old_counters good old n in if ecs = [] then 0 else sum_list ecs div int (length ecs))"

definition scan_report :: "mtd_dev_info \<Rightarrow> ubigen_info \<Rightarrow> int set \<Rightarrow> (int \<Rightarrow> int option) \<Rightarrow> ubi_scan_info \<Rightarrow> bool" where
  "scan_report mtd ui good old si \<longleftrightarrow>
     si_ec si = map (scan_entry good old) [0..mtd_eb_cnt mtd - 1]
     \<and> si_bad_cnt si = int (length (filter (\<lambda>eb. eb \<notin> good) [0..mtd_eb_cnt mtd - 1]))
     \<and> si_good_cnt si = int (length (goods good 0 (mtd_eb_cnt mtd))) \<and> si_alien_cnt si = 0
     \<and> si_empty_cnt si = int (length (filter (\<lambda>eb. old eb = None) (goods good 0 (mtd_eb_cnt mtd))))
     \<and> si_ok_cnt si = int (length (old_counters good old (mtd_eb_cnt mtd)))
     \<and> si_mean_ec si = mean_counter good old (mtd_eb_cnt mtd) \<and> offs_ok ui si"

lemma scanned_report:
  assumes "scanned mtd ui good old (nat (mtd_eb_cnt mtd)) si" "holds_old mtd ui good old m" "0 \<le> mtd_eb_cnt mtd"
  shows "scan_report mtd ui good old (scan_finish mtd si)"
proof -
  let ?n = "mtd_eb_cnt mtd" and ?ebs = "[0..mtd_eb_cnt mtd - 1]"
  have inv: "scan_inv mtd (nat ?n) si" and offs: "offs_ok ui si"
    and tab: "take (nat ?n) (si_ec si) = map (scan_entry good old) ?ebs"
    using assms(1) by (simp_all add: scanned_def upto_map_int del: map_map)
  have "length (si_ec si) = nat ?n"
    using inv by (simp add: scan_inv_def)
  then have t: "si_ec si = map (scan_entry good old) ?ebs"
    using tab by simp
  have full: "take (nat ?n) (si_ec si) = si_ec si"
    by (simp add: t)
  note cnt = inv [unfolded scan_inv_def full]
  have blk: "in_block mtd eb" if "eb \<in> set ?ebs" for eb
    using that by (simp add: in_block_def)
  note kinds = scan_entry_kinds [OF assms(2) blk]
  have sel: "filter (\<lambda>eb. scan_entry good old eb = EB_BAD) ?ebs = filter (\<lambda>eb. eb \<notin> good) ?ebs"
    "filter (\<lambda>eb. scan_entry good old eb = EB_EMPTY) ?ebs = filter (\<lambda>eb. eb \<in> good \<and> old eb = None) ?ebs"
    "filter (\<lambda>eb. scan_entry good old eb = EB_ALIEN) ?ebs = filter (\<lambda>eb. False) ?ebs"
    "filter (\<lambda>eb. uint (scan_entry good old eb) \<le> EC_MAX) ?ebs = filter (\<lambda>eb. eb \<in> good \<and> old eb \<noteq> None) ?ebs"
    by (rule filter_cong [OF refl], use kinds in blast)+
  have bad: "si_bad_cnt si = int (length (filter (\<lambda>eb. eb \<notin> good) ?ebs))"
    and empty: "si_empty_cnt si = int (length (filter (\<lambda>eb. old eb = None) (goods good 0 ?n)))"
    and alien: "si_alien_cnt si = 0"
    using cnt by (simp_all only: t count_list_map_filter sel filter_goods) simp
  have ok: "filter (\<lambda>eb. uint (scan_entry good old eb) \<le> EC_MAX) ?ebs = filter (\<lambda>eb. old eb \<noteq> None) (goods good 0 ?n)"
    by (simp only: sel filter_goods)
  have counters: "map uint (filter (\<lambda>e. uint e \<le> EC_MAX) (si_ec si)) = old_counters good old ?n"
  proof -
    have "uint (scan_entry good old eb) = the (old eb)" if "eb \<in> set (filter (\<lambda>eb. old eb \<noteq> None) (goods good 0 ?n))" for eb
      using that old_counter [OF assms(2), of eb] by (auto simp: goods_def scan_entry_def in_block_def)
    then show ?thesis
      by (simp add: t filter_map o_def ok old_counters_def cong: map_cong)
  qed
  have "si_ok_cnt si = int (length (map uint (filter (\<lambda>e. uint e \<le> EC_MAX) (si_ec si))))"
    using cnt by simp
  then have ok_cnt: "si_ok_cnt si = int (length (old_counters good old ?n))"
    by (simp only: counters)
  have "si_mean_ec si = 0"
    using cnt by simp
  then have "si_mean_ec (scan_finish mtd si) = mean_counter good old ?n"
    by (simp add: scan_finish_def mean_counter_def ok_cnt counters Let_def)
  then show ?thesis
    using t empty alien ok_cnt bad goods_complement [OF assms(3), of good] offs
    by (simp add: scan_report_def scan_finish_def offs_ok_def Let_def)
qed

lemma ubi_scan_runs:
  assumes "page_nand K mtd good mem img" "reads_headers K mtd good mem img" "scan_geometry mtd ui"
    and "length junk \<le> 64" "holds_old mtd ui good old (mem (snd st))" "0 \<le> mtd_eb_cnt mtd"
  shows "\<exists>si k'. ubi_scan K True True junk mtd st = Some (Some si, fst st, k')
    \<and> scan_report mtd ui good old si \<and> mem k' = mem (snd st) \<and> img k' = img (snd st)"
proof -
  have "scanned mtd ui good old 0 (scan_init mtd)"
    by (simp add: scanned_def scan_inv_init offs_ok_def) (simp add: scan_init_def)
  then obtain si k' where "scan_ebs K mtd junk (map int [0..<nat (mtd_eb_cnt mtd)]) (scan_init mtd) st
      = Some (Some si, fst st, k')"
    "scanned mtd ui good old (nat (mtd_eb_cnt mtd)) si" "mem k' = mem (snd st)" "img k' = img (snd st)"
    using scan_loop [OF assms(1-5), of 0 "scan_init mtd"] by auto
  then show ?thesis
    using scanned_report [OF _ assms(5,6)] by (auto simp: ubi_scan_def upto_map_int)
qed

subsection \<open>The checks behind the scan\<close>

text \<open>
  No question is asked when the device is blank, or when at least 95 percent of the good eraseblocks
  have a counter. The list of bad eraseblocks is printed without damage only when there is none.
\<close>

definition no_bad :: "mtd_dev_info \<Rightarrow> int set \<Rightarrow> bool" where
  "no_bad mtd good \<longleftrightarrow> (\<forall>eb. in_block mtd eb \<longrightarrow> eb \<in> good)"

definition settled :: "int set \<Rightarrow> (int \<Rightarrow> int option) \<Rightarrow> int \<Rightarrow> bool" where
  "settled good old n \<longleftrightarrow> old_counters good old n = []
     \<or> 95 * length (goods good 0 n) \<le> 100 * length (old_counters good old n)"

lemma report_checks:
  assumes "scan_report mtd ui good old si" "settled good old (mtd_eb_cnt mtd)"
    and "2 \<le> length (goods good 0 (mtd_eb_cnt mtd))" "\<not> ua_override_ec a" "no_bad mtd good"
  shows "ubiformat_checks K a mtd si k = Some (Some a, k)"
proof -
  let ?g = "length (goods good 0 (mtd_eb_cnt mtd))" and ?o = "length (old_counters good old (mtd_eb_cnt mtd))"
  note r = assms(1) [unfolded scan_report_def]
  have split: "length (filter (\<lambda>eb. old eb = None) (goods good 0 (mtd_eb_cnt mtd))) + ?o = ?g"
    using sum_length_filter_compl [of "\<lambda>eb. old eb = None" "goods good 0 (mtd_eb_cnt mtd)"]
    by (simp add: old_counters_def)
  have enough: "95 \<le> int ?o * 100 div int ?g" if "?o \<noteq> 0"
  proof -
    have "95 * int ?g \<le> int ?o * 100"
      using that assms(2) by (auto simp: settled_def)
    then have "95 * int ?g div int ?g \<le> int ?o * 100 div int ?g"
      using assms(3) by (intro zdiv_mono1) linarith+
    moreover have "int ?g \<noteq> 0"
      using assms(3) by linarith
    ultimately show ?thesis
      by simp
  qed
  have percent: "95 \<le> si_ok_cnt si * 100 div si_good_cnt si" if "si_empty_cnt si < si_good_cnt si"
  proof -
    have "?o \<noteq> 0"
      using that r split by linarith
    then show ?thesis
      using enough r by simp
  qed
  have "si_bad_cnt si = 0"
    using r assms(5) by (auto simp: no_bad_def in_block_def filter_empty_conv)
  moreover have "2 \<le> si_good_cnt si" "si_alien_cnt si = 0"
    using r assms(3) by simp_all
  moreover have "\<not> si_ok_cnt si * 100 div si_good_cnt si < 95" "\<not> si_ok_cnt si * 100 div si_good_cnt si < 50"
    if "si_empty_cnt si < si_good_cnt si"
    using percent [OF that] by simp_all
  ultimately show ?thesis
    using assms(4) by (simp add: ubiformat_checks_def print_bad_overflows ubiformat_ec_policy_def Let_def)
qed

lemma report_overflows:
  assumes "scan_report mtd ui good old si" "2 \<le> length (goods good 0 (mtd_eb_cnt mtd))" "\<not> ua_quiet a" "\<not> no_bad mtd good"
  shows "print_bad_eraseblocks mtd si = None" "ubiformat_checks K a mtd si k = None"
proof -
  have "si_bad_cnt si \<noteq> 0"
    using assms(1,4) by (auto simp: scan_report_def no_bad_def in_block_def filter_empty_conv)
  moreover have "2 \<le> si_good_cnt si"
    using assms(1,2) by (simp add: scan_report_def)
  ultimately show "print_bad_eraseblocks mtd si = None" "ubiformat_checks K a mtd si k = None"
    using assms(3) by (simp_all add: ubiformat_checks_def print_bad_overflows)
qed

lemma report_geometry:
  assumes "scan_report mtd ui good old si"
    and "ubigen_info_init (mtd_eb_size mtd) (mtd_min_io_size mtd) (mtd_subpage_size mtd) (ua_vid_hdr_offs a)
      (ua_ubi_ver a) (ua_image_seq a) = Some ui"
  shows "ubiformat_geometry K a mtd si k = Some (ui, k)"
  using assms by (auto simp: ubiformat_geometry_def scan_report_def offs_ok_def)

text \<open>The eraseblocks that are not bad in the table are the good ones.\<close>

lemma report_live:
  assumes "scan_report mtd ui good old si" "holds_old mtd ui good old m" "0 \<le> c"
  shows "live_list si [c..mtd_eb_cnt mtd - 1] = goods good c (mtd_eb_cnt mtd)"
  unfolding live_list_def goods_def
proof (rule filter_cong [OF refl])
  fix eb
  assume "eb \<in> set [c..mtd_eb_cnt mtd - 1]"
  then have eb: "0 \<le> eb" "eb < mtd_eb_cnt mtd" "in_block mtd eb"
    using assms(3) by (simp_all add: in_block_def)
  then have "si_ec si ! nat eb = scan_entry good old eb"
    using assms(1) by (simp add: scan_report_def nth_upto)
  then show "(si_ec si ! nat eb \<noteq> EB_BAD) = (eb \<in> good)"
    using scan_entry_kinds(1) [OF assms(2) eb(3)] by simp
qed

text \<open>The erase counter an eraseblock gets: one more than it had, or the mean.\<close>

definition new_counter :: "int set \<Rightarrow> (int \<Rightarrow> int option) \<Rightarrow> int \<Rightarrow> int \<Rightarrow> int" where
  "new_counter good old n eb = (case old eb of None \<Rightarrow> mean_counter good old n | Some ec \<Rightarrow> ec + 1)"

lemma report_counter:
  assumes "scan_report mtd ui good old si" "holds_old mtd ui good old m" "\<not> ua_override_ec a"
    and "eb \<in> set (goods good 0 (mtd_eb_cnt mtd))"
  shows "next_ec a si eb = new_counter good old (mtd_eb_cnt mtd) eb"
proof -
  have eb: "0 \<le> eb" "eb < mtd_eb_cnt mtd" "in_block mtd eb" "eb \<in> good"
    using assms(4) by (simp_all add: goods_def in_block_def)
  have entry: "si_ec si ! nat eb = scan_entry good old eb" and mean: "si_mean_ec si = mean_counter good old (mtd_eb_cnt mtd)"
    using assms(1) eb by (simp_all add: scan_report_def nth_upto)
  show ?thesis
  proof (cases "old eb")
    case None
    then show ?thesis
      using scan_entry_kinds(4) [OF assms(2) eb(3)] assms(3)
      by (simp add: next_ec_def entry mean new_counter_def Let_def)
  next
    case (Some ec)
    then have "uint (scan_entry good old eb) = ec" "ec \<le> EC_MAX"
      using old_counter [OF assms(2) eb(4,3) Some] eb(4) by (simp_all add: scan_entry_def)
    then show ?thesis
      using assms(3) Some by (simp add: next_ec_def entry new_counter_def Let_def)
  qed
qed

subsection \<open>Formatting what is left\<close>

definition fresh_block :: "mtd_dev_info \<Rightarrow> ubigen_info \<Rightarrow> int \<Rightarrow> byte list" where
  "fresh_block mtd ui ec =
     ec_hdr_bytes (ubigen_init_ec_hdr ui ec) @ replicate (nat (mtd_eb_size mtd) - 64) 0xFF"

lemma ec_write_size_fits:
  assumes "wf_geometry mtd"
  shows "64 \<le> ec_write_size mtd" "ec_write_size mtd \<le> mtd_eb_size mtd" "ec_write_size mtd mod mtd_subpage_size mtd = 0"
proof -
  let ?s = "mtd_subpage_size mtd" and ?e = "mtd_eb_size mtd"
  have s: "0 < ?s" "64 \<le> ?e"
    using assms by (simp_all add: wf_geometry_def)
  have eq: "ec_write_size mtd = (64 + ?s - 1) div ?s * ?s"
    using s(1) by (simp add: ec_write_size_def)
  show "64 \<le> ec_write_size mtd" "ec_write_size mtd mod ?s = 0"
    using round_up_ge [OF s(1), of 64] by (simp_all add: eq)
  have "?s dvd mtd_min_io_size mtd" "mtd_min_io_size mtd dvd ?e"
    using assms by (auto simp: wf_geometry_def)
  then have "?s dvd ?e"
    by (rule dvd_trans)
  then obtain q where q: "?e = ?s * q"
    by (rule dvdE)
  have "(64 + ?s - 1) div ?s \<le> (?s * q + (?s - 1)) div ?s"
    using s q by (intro zdiv_mono1) simp_all
  also have "\<dots> = q"
    using s(1) by (simp add: div_pos_pos_trivial)
  finally show "ec_write_size mtd \<le> ?e"
    using s(1) by (simp add: eq q mult.commute mult_left_mono)
qed

lemma ideal_format_eb:
  assumes I: "ideal_nand K mtd good mem img" "eb \<in> good" "in_block mtd eb" and geo: "wf_geometry mtd"
    and L: "fst (uf_st u) \<noteq> OFFS64_IOCTLS_NOT_SUPPORTED"
  shows "\<exists>k'. format_eb K junk a mtd ui True eb v u = Some (True, v, u\<lparr>uf_st := (fst (uf_st u), k')\<rparr>)
    \<and> mem k' = (mem (snd (uf_st u)))(eb := fresh_block mtd ui (next_ec a (uf_si u) eb))"
proof -
  let ?ec = "next_ec a (uf_si u) eb" and ?n = "nat (ec_write_size mtd)"
  note fit = ec_write_size_fits [OF geo]
  have hdr: "format_hdr mtd ui ?ec = ec_hdr_bytes (ubigen_init_ec_hdr ui ?ec) @ replicate (?n - 64) 0xFF"
    by (simp add: format_hdr_def store_at_def)
  have len: "length (format_hdr mtd ui ?ec) = ?n"
    using fit(1) by (simp add: hdr)
  obtain k1 where e: "mtd_erase K mtd eb (uf_st u) = (None, fst (uf_st u), k1)"
    "mem k1 = (mem (snd (uf_st u)))(eb := replicate (nat (mtd_eb_size mtd)) 0xFF)"
    using ideal_erase [OF I L] by auto
  have "int ?n \<le> mtd_eb_size mtd" "int ?n mod mtd_subpage_size mtd = 0" "0 < mtd_subpage_size mtd"
    using fit geo by (simp_all add: wf_geometry_def)
  then obtain k2 where w: "mtd_write K mtd eb 0 (Some (format_hdr mtd ui ?ec)) ?n None 0 (fst (uf_st u), k1)
      = Some (None, fst (uf_st u), k2)"
    "mem k2 = (mem k1)(eb := format_hdr mtd ui ?ec @ replicate (nat (mtd_eb_size mtd) - ?n) 0xFF)"
    using ideal_write [OF I, of "(fst (uf_st u), k1)" "format_hdr mtd ui ?ec"] e(2) len by auto
  have "64 \<le> ?n" "?n \<le> nat (mtd_eb_size mtd)"
    using fit(1,2) by linarith+
  then have "format_hdr mtd ui ?ec @ replicate (nat (mtd_eb_size mtd) - ?n) 0xFF = fresh_block mtd ui ?ec"
    by (simp add: hdr fresh_block_def flip: replicate_add)
  then show ?thesis
    using e w by (intro exI [of _ k2]) (simp add: format_eb_def Let_def)
qed

lemma ideal_format_loop:
  assumes I: "ideal_nand K mtd good mem img" and geo: "wf_geometry mtd"
  shows "distinct ebs \<Longrightarrow> list_all (in_block mtd) ebs \<Longrightarrow> set (live_list (uf_si u) ebs) \<subseteq> good
    \<Longrightarrow> fst (uf_st u) \<noteq> OFFS64_IOCTLS_NOT_SUPPORTED
    \<Longrightarrow> \<exists>k'. format_loop K junk a mtd ui True ebs v u = Some (True, v, u\<lparr>uf_st := (fst (uf_st u), k')\<rparr>)
      \<and> mem k' = (\<lambda>eb. if eb \<in> set (live_list (uf_si u) ebs) then fresh_block mtd ui (next_ec a (uf_si u) eb)
                     else mem (snd (uf_st u)) eb)"
proof (induction ebs arbitrary: u)
  case Nil
  then show ?case
    by (auto simp: live_list_def intro!: exI [of _ "snd (uf_st u)"])
next
  case (Cons eb ebs)
  show ?case
  proof (cases "si_ec (uf_si u) ! nat eb = EB_BAD")
    case True
    then show ?thesis
      using Cons by (simp add: live_list_def)
  next
    case False
    then have eb: "eb \<in> good" "in_block mtd eb"
      using Cons.prems by (auto simp: live_list_def)
    obtain k1 where k1: "format_eb K junk a mtd ui True eb v u = Some (True, v, u\<lparr>uf_st := (fst (uf_st u), k1)\<rparr>)"
      "mem k1 = (mem (snd (uf_st u)))(eb := fresh_block mtd ui (next_ec a (uf_si u) eb))"
      using ideal_format_eb [OF I eb geo Cons.prems(4)] by blast
    let ?u1 = "u\<lparr>uf_st := (fst (uf_st u), k1)\<rparr>"
    have rest: "distinct ebs" "list_all (in_block mtd) ebs" "set (live_list (uf_si ?u1) ebs) \<subseteq> good"
      "fst (uf_st ?u1) \<noteq> OFFS64_IOCTLS_NOT_SUPPORTED"
      using Cons.prems False by (auto simp: live_list_def)
    obtain k2 where k2: "format_loop K junk a mtd ui True ebs v ?u1 = Some (True, v, ?u1\<lparr>uf_st := (fst (uf_st ?u1), k2)\<rparr>)"
      "mem k2 = (\<lambda>x. if x \<in> set (live_list (uf_si ?u1) ebs) then fresh_block mtd ui (next_ec a (uf_si ?u1) x)
                     else mem (snd (uf_st ?u1)) x)"
      using Cons.IH [OF rest] by blast
    have "eb \<notin> set (live_list (uf_si u) ebs)"
      using Cons.prems(1) by (simp add: live_list_def)
    then have "mem k2 = (\<lambda>x. if x \<in> set (live_list (uf_si u) (eb # ebs)) then fresh_block mtd ui (next_ec a (uf_si u) x)
                     else mem (snd (uf_st u)) x)"
      using k2(2) k1(2) False by (auto simp: live_list_def fun_eq_iff)
    then show ?thesis
      using k1(1) k2(1) False by (intro exI [of _ k2]) simp
  qed
qed

subsection \<open>Image and format\<close>

lemma goods_after: "i < length (goods good c n) \<Longrightarrow> goods good (goods good c n ! i + 1) n = drop (Suc i) (goods good c n)"
proof (induction i arbitrary: c)
  case 0
  then obtain b bs where bs: "goods good c n = b # bs"
    by (cases "goods good c n") auto
  then show ?case
    using goods_Nil_Cons(4) [OF bs] by simp
next
  case (Suc i)
  then obtain b bs where bs: "goods good c n = b # bs"
    by (cases "goods good c n") auto
  then have "i < length (goods good (b + 1) n)"
    using Suc.prems goods_Nil_Cons(4) [OF bs] by simp
  then show ?case
    using Suc.IH [of "b + 1"] bs goods_Nil_Cons(4) [OF bs] by simp
qed

text \<open>
  An image on the device: its blocks, with their erase counters and the image sequence number
  changed, on the first good eraseblocks, empty eraseblocks of UBI on the others.
\<close>

definition installed ::
  "mtd_dev_info \<Rightarrow> ubigen_info \<Rightarrow> int set \<Rightarrow> (int \<Rightarrow> int option) \<Rightarrow> byte list list \<Rightarrow> (int \<Rightarrow> byte list) \<Rightarrow> (int \<Rightarrow> byte list) \<Rightarrow> bool"
where
  "installed mtd ui good old imgs m m' \<longleftrightarrow>
     (let bs = goods good 0 (mtd_eb_cnt mtd); ec = new_counter good old (mtd_eb_cnt mtd)
      in (\<forall>i < length imgs. change_ech (imgs ! i) (ui_image_seq ui) (ec (bs ! i)) = Some (m' (bs ! i)))
         \<and> (\<forall>eb \<in> set (drop (length imgs) bs). m' eb = fresh_block mtd ui (ec eb))
         \<and> (\<forall>eb. eb \<notin> set bs \<longrightarrow> m' eb = m eb))"

lemma ubiformat_write_runs:
  assumes P: "page_nand K mtd good mem img" and geo: "wf_geometry mtd" and cnt: "mtd_eb_cnt mtd < 2 ^ 31"
    and r: "scan_report mtd ui good old (uf_si u)" "holds_old mtd ui good old (mem (snd (uf_st u)))"
    and a: "ua_image a = Some file" "file \<noteq> ''-''" "\<not> ua_override_ec a" and op: "opens_image K mem img" and al: "alloc 0"
    and L: "fst (uf_st u) \<noteq> OFFS64_IOCTLS_NOT_SUPPORTED"
    and imgs: "img (snd (uf_st u)) = concat imgs" "imgs \<noteq> []" "length imgs \<le> length (goods good 0 (mtd_eb_cnt mtd))"
      "list_all (\<lambda>d. length d = nat (mtd_eb_size mtd) \<and> valid_ech d) imgs"
  shows "\<exists>u'. ubiformat_write K alloc junk a mtd ui u = Some (True, u')
    \<and> installed mtd ui good old imgs (mem (snd (uf_st u))) (mem (snd (uf_st u')))"
proof -
  let ?bs = "goods good 0 (mtd_eb_cnt mtd)" and ?n = "length imgs" and ?m = "mem (snd (uf_st u))"
  have I: "ideal_nand K mtd good mem img"
    using P by (rule page_nand_ideal)
  have live: "live_list (uf_si u) [c..mtd_eb_cnt mtd - 1] = goods good c (mtd_eb_cnt mtd)" if "0 \<le> c" for c
    using report_live [OF r that] .
  have good: "set (goods good c (mtd_eb_cnt mtd)) \<subseteq> good" for c
    by (auto simp: goods_def)
  have small: "?n < 2 ^ 31"
  proof -
    have "length ?bs \<le> nat (mtd_eb_cnt mtd)"
      using length_filter_le [of "\<lambda>b. b \<in> good" "[0..mtd_eb_cnt mtd - 1]"] by (simp add: goods_def)
    then show ?thesis
      using imgs(3) cnt by simp
  qed
  obtain k1 k2 where st: "k_img_stat K (snd (uf_st u)) = (Inr (int (length (concat imgs))), k1)"
    "k_img_open K k1 = (None, k2)" "mem k2 = ?m" "img k2 = concat imgs"
    using op imgs(1) unfolding opens_image_def by metis
  then obtain k where opened: "open_file K a (snd (uf_st u)) = (Some (int (length (concat imgs))), k)"
    "mem k = ?m" "img k = concat imgs"
    using a(1,2) by (auto simp: open_file_def simp del: length_concat)
  obtain u1 where u1: "flash_image K junk a mtd ui u = Some (Some (?bs ! (?n - 1) + 1), u1)" "uf_si u1 = uf_si u" "fst (uf_st u1) = fst (uf_st u)"
    "flashed mem a (ui_image_seq ui) (uf_si u) imgs ?bs (snd (uf_st u)) (snd (uf_st u1))"
    using flash_image_ideal_aux [OF I geo _ L imgs(2) _ imgs(4) _ small opened, of junk ui] good imgs(3) r(1)
    unfolding live [OF order.refl] scan_report_def by auto
  let ?start = "?bs ! (?n - 1) + 1"
  have n: "?n - 1 < length ?bs" "Suc (?n - 1) = ?n"
    using imgs(2,3) by (cases imgs, simp_all)+
  have left: "goods good ?start (mtd_eb_cnt mtd) = drop ?n ?bs"
    using goods_after [OF n(1)] by (simp only: n(2))
  have "?bs ! (?n - 1) \<in> set ?bs"
    using n(1) by simp
  then have start: "0 \<le> ?start"
    by (simp add: goods_def)
  let ?v = "\<lparr> ve_eb1 = -1, ve_ec1 = -1, ve_eb2 = -1, ve_ec2 = -1 \<rparr>"
  have live1: "live_list (uf_si u1) [?start..mtd_eb_cnt mtd - 1] = drop ?n ?bs"
    using live [OF start] by (simp only: u1(2) left)
  have pre: "list_all (in_block mtd) [?start..mtd_eb_cnt mtd - 1]"
    "set (live_list (uf_si u1) [?start..mtd_eb_cnt mtd - 1]) \<subseteq> good" "fst (uf_st u1) \<noteq> OFFS64_IOCTLS_NOT_SUPPORTED"
  proof -
    show "list_all (in_block mtd) [?start..mtd_eb_cnt mtd - 1]"
      using start by (auto simp: list_all_iff in_block_def)
    show "set (live_list (uf_si u1) [?start..mtd_eb_cnt mtd - 1]) \<subseteq> good"
      unfolding live1 using good [of 0] set_drop_subset [of ?n ?bs] by blast
    show "fst (uf_st u1) \<noteq> OFFS64_IOCTLS_NOT_SUPPORTED"
      using L by (simp add: u1(3))
  qed
  obtain k2 where k2: "format_loop K junk a mtd ui True [?start..mtd_eb_cnt mtd - 1] ?v u1
      = Some (True, ?v, u1\<lparr>uf_st := (fst (uf_st u1), k2)\<rparr>)"
    "mem k2 = (\<lambda>eb. if eb \<in> set (drop ?n ?bs) then fresh_block mtd ui (next_ec a (uf_si u) eb) else mem (snd (uf_st u1)) eb)"
    using ideal_format_loop [OF I geo distinct_upto pre, of junk a ui ?v, unfolded live1, unfolded u1(2)]
    by (elim exE conjE) (rule that)
  have sub: "mtd_subpage_size mtd \<noteq> 0"
    using geo by (auto simp: wf_geometry_def)
  have run: "ubiformat_write K alloc junk a mtd ui u = Some (True, u1\<lparr>uf_st := (fst (uf_st u1), k2)\<rparr>)"
    using u1(1) k2(1) start al sub a(1) by (simp add: ubiformat_write_def ubi_format_def)
  have ec: "next_ec a (uf_si u) eb = new_counter good old (mtd_eb_cnt mtd) eb" if "eb \<in> set ?bs" for eb
    using report_counter [OF r a(3) that] .
  have dist: "distinct ?bs"
    by (simp add: goods_def)
  have first: "mem k2 (?bs ! i) = mem (snd (uf_st u1)) (?bs ! i)" "?bs ! i \<in> set ?bs" if "i < ?n" for i
  proof -
    have i: "i < length ?bs"
      using that imgs(3) by simp
    then have "?bs ! i \<in> set (take ?n ?bs)"
      using that by (auto simp: in_set_conv_nth)
    then have "?bs ! i \<notin> set (drop ?n ?bs)"
      using dist set_take_disj_set_drop_if_distinct [of ?bs ?n ?n] by blast
    then show "mem k2 (?bs ! i) = mem (snd (uf_st u1)) (?bs ! i)" "?bs ! i \<in> set ?bs"
      using i by (simp_all add: k2(2))
  qed
  have "installed mtd ui good old imgs ?m (mem k2)"
    unfolding installed_def Let_def
  proof (intro conjI allI ballI impI)
    show "change_ech (imgs ! i) (ui_image_seq ui) (new_counter good old (mtd_eb_cnt mtd) (?bs ! i)) = Some (mem k2 (?bs ! i))"
      if "i < ?n" for i
      using u1(4) that by (simp add: flashed_def first(1) [OF that] flip: ec [OF first(2) [OF that]])
    show "mem k2 eb = fresh_block mtd ui (new_counter good old (mtd_eb_cnt mtd) eb)" if "eb \<in> set (drop ?n ?bs)" for eb
      using that ec [of eb] in_set_dropD [OF that] by (simp add: k2(2))
    show "mem k2 eb = ?m eb" if "eb \<notin> set ?bs" for eb
      using that u1(4) by (auto simp: k2(2) flashed_def dest: in_set_dropD in_set_takeD)
  qed
  then show ?thesis
    using run by (intro exI [of _ "u1\<lparr>uf_st := (fst (uf_st u1), k2)\<rparr>"]) simp
qed

subsection \<open>The program\<close>

text \<open>The arguments ofgwrite calls it with.\<close>

definition flash_args :: "u32 \<Rightarrow> string \<Rightarrow> string \<Rightarrow> ubi_args" where
  "flash_args rnd dev file =
     ubi_args_initial\<lparr>ua_image_seq := rnd, ua_image := Some file, ua_no_detach_check := True, ua_node := dev\<rparr>"

lemma ubiformat_args:
  assumes "\<not> prefix ''-'' dev"
  shows "ubiformat_parse_opt rnd [dev, ''-f'', file, ''-D''] ubi_args_initial = Parsed (flash_args rnd dev file)"
proof -
  have "getopt_long (parse_optstring ''nh?Vyqve:x:s:O:f:S:D'') ubiformat_long_options [''-D''] = ([(CHR ''D'', None, None)], [])"
    by code_simp
  then have "getopt_long (parse_optstring ''nh?Vyqve:x:s:O:f:S:D'') ubiformat_long_options [''-f'', file, ''-D'']
      = ([(CHR ''f'', None, Some file), (CHR ''D'', None, None)], [])"
    by (subst getopt_long.simps) (simp del: getopt_long.simps)
  then have "getopt_long (parse_optstring ''nh?Vyqve:x:s:O:f:S:D'') ubiformat_long_options [dev, ''-f'', file, ''-D'']
      = ([(CHR ''f'', None, Some file), (CHR ''D'', None, None)], [dev])"
    using assms by (subst getopt_long.simps) (auto simp del: getopt_long.simps dest: append_prefixD [of "''-''" "''-''", simplified])
  then show ?thesis
    by (simp add: ubiformat_parse_opt_def ubiformat_opt_def ubi_args_initial_def flash_args_def Let_def)
qed

text \<open>What ubiformat finds out before it touches the device.\<close>

definition ubi_flash :: "mtd_dev_info \<Rightarrow> bool" where
  "ubi_flash mtd \<longleftrightarrow> wf_geometry mtd \<and> mtd_min_io_size mtd \<le> 2 ^ 28 \<and> is_power_of_2 (word_of_int (mtd_min_io_size mtd))
     \<and> mtd_subpage_size mtd + mtd_min_io_size mtd + 128 \<le> mtd_eb_size mtd \<and> mtd_eb_size mtd < 2 ^ 31
     \<and> 0 \<le> mtd_eb_cnt mtd \<and> mtd_eb_cnt mtd < 2 ^ 31 \<and> mtd_writable mtd"

definition finds_device :: "ubi_env \<Rightarrow> string \<Rightarrow> mtd_dev_info \<Rightarrow> bool" where
  "finds_device env dev mtd \<longleftrightarrow> ue_libmtd env \<and> ue_sysfs env \<noteq> None \<and> ue_dev env dev = Some mtd \<and> ue_node_opens env"

lemma ubiformat_prepared:
  assumes "finds_device env dev mtd" "ubi_flash mtd"
  shows "ubiformat_prepare env (flash_args rnd dev file) = Some (flash_args rnd dev file, mtd)"
  using assms
  by (auto simp: ubiformat_prepare_def ubiformat_subpage_def finds_device_def ubi_flash_def flash_args_def
      ubi_args_initial_def Let_def)

lemma ubi_flash_geometry:
  assumes "ubi_flash mtd" "ubigen_info_init (mtd_eb_size mtd) (mtd_min_io_size mtd) (mtd_subpage_size mtd) 0 1 rnd = Some ui"
  shows "scan_geometry mtd ui" "wf_geometry mtd" "ui_image_seq ui = rnd"
proof -
  note u = assms(1) [unfolded ubi_flash_def wf_geometry_def]
  have "mtd_subpage_size mtd \<le> mtd_min_io_size mtd"
    using u by (auto intro: zdvd_imp_le)
  then obtain ui' where "ubigen_info_init (mtd_eb_size mtd) (mtd_min_io_size mtd) (mtd_subpage_size mtd) 0 1 rnd = Some ui'"
    "wf_ubigen_info ui'" "ui_data_offs ui' mod mtd_min_io_size mtd = 0" "ui_image_seq ui' = rnd"
    using ubigen_info_init_aux [of "mtd_subpage_size mtd" "mtd_min_io_size mtd" "mtd_eb_size mtd" 1 rnd] u by force
  then show "scan_geometry mtd ui" "wf_geometry mtd" "ui_image_seq ui = rnd"
    using assms u by (auto simp: scan_geometry_def wf_ubigen_info_def ubi_flash_def)
qed

lemma ubiformat_main_runs:
  assumes P: "page_nand K mtd good mem img" "reads_headers K mtd good mem img" "opens_image K mem img"
    and mtd: "ubi_flash mtd" "finds_device env dev mtd"
    and ui: "ubigen_info_init (mtd_eb_size mtd) (mtd_min_io_size mtd) (mtd_subpage_size mtd) 0 1 (ue_rand env) = Some ui"
    and st: "fst st \<noteq> OFFS64_IOCTLS_NOT_SUPPORTED" "length ech \<le> 64" "\<And>n. alloc n"
    and args: "\<not> prefix ''-'' dev" "file \<noteq> ''-''"
    and old: "holds_old mtd ui good old (mem (snd st))" "settled good old (mtd_eb_cnt mtd)"
      "2 \<le> length (goods good 0 (mtd_eb_cnt mtd))" "no_bad mtd good"
    and imgs: "img (snd st) = concat imgs" "imgs \<noteq> []" "length imgs \<le> length (goods good 0 (mtd_eb_cnt mtd))"
      "list_all (\<lambda>d. length d = nat (mtd_eb_size mtd) \<and> valid_ech d) imgs"
  shows "\<exists>b st'. ubiformat_main K env alloc junk ech [dev, ''-f'', file, ''-D''] ubi_args_initial statics st
      = Some (Returns 0, b, st')
    \<and> installed mtd ui good old imgs (mem (snd st)) (mem (snd st'))"
proof -
  let ?a = "flash_args (ue_rand env) dev file"
  have a: "ua_image ?a = Some file" "\<not> ua_override_ec ?a" "ua_vid_hdr_offs ?a = 0" "ua_ubi_ver ?a = 1"
    "ua_image_seq ?a = ue_rand env"
    by (simp_all add: flash_args_def ubi_args_initial_def)
  note geo = ubi_flash_geometry [OF mtd(1) ui]
  have cnt: "0 \<le> mtd_eb_cnt mtd" "mtd_eb_cnt mtd < 2 ^ 31"
    using mtd(1) by (simp_all add: ubi_flash_def)
  obtain si k1 where scan: "ubi_scan K True True ech mtd st = Some (Some si, fst st, k1)"
    "scan_report mtd ui good old si" "mem k1 = mem (snd st)" "img k1 = img (snd st)"
    using ubi_scan_runs [OF P(1,2) geo(1) st(2) old(1) cnt(1)] by blast
  have checks: "ubiformat_checks K ?a mtd si k1 = Some (Some ?a, k1)"
    by (rule report_checks [OF scan(2) old(2,3) a(2) old(4)])
  have ubi: "ubiformat_geometry K ?a mtd si k1 = Some (ui, k1)"
    by (rule report_geometry [OF scan(2)]) (simp add: a ui)
  let ?u = "\<lparr>uf_si = si, uf_consecutive = fst statics, uf_prev_bb = snd statics, uf_st = (fst st, k1)\<rparr>"
  have u: "scan_report mtd ui good old (uf_si ?u)" "holds_old mtd ui good old (mem (snd (uf_st ?u)))"
    "fst (uf_st ?u) \<noteq> OFFS64_IOCTLS_NOT_SUPPORTED" "img (snd (uf_st ?u)) = concat imgs"
    using scan(2-4) old(1) st(1) imgs(1) by simp_all
  obtain u' where w: "ubiformat_write K alloc junk ?a mtd ui ?u = Some (True, u')"
    "installed mtd ui good old imgs (mem (snd st)) (mem (snd (uf_st u')))"
    using ubiformat_write_runs [where alloc = alloc and junk = junk, OF P(1) geo(2) cnt(2) u(1,2) a(1) args(2) a(2) P(3) st(3) u(3,4) imgs(2-4)] scan(3) by auto
  have "ubiformat_run K alloc junk ech ?a mtd statics st = Some (True, (uf_consecutive u', uf_prev_bb u'), uf_st u')"
    using scan(1) checks ubi w(1) st(3) by (simp add: ubiformat_run_def)
  moreover have "ue_libmtd env"
    using mtd(2) by (simp add: finds_device_def)
  ultimately have "ubiformat_main K env alloc junk ech [dev, ''-f'', file, ''-D''] ubi_args_initial statics st
      = Some (Returns 0, (uf_consecutive u', uf_prev_bb u'), uf_st u')"
    by (simp add: ubiformat_main_def ubiformat_args [OF args(1)] ubiformat_prepared [OF mtd(2,1)])
  then show ?thesis
    using w(2) by blast
qed

text \<open>
  With a bad eraseblock the run does not get that far: behind the scan, in front of every write, the
  text for the display overflows its array.
\<close>

lemma ubiformat_main_overflows:
  assumes P: "page_nand K mtd good mem img" "reads_headers K mtd good mem img"
    and mtd: "ubi_flash mtd" "finds_device env dev mtd"
    and ui: "ubigen_info_init (mtd_eb_size mtd) (mtd_min_io_size mtd) (mtd_subpage_size mtd) 0 1 (ue_rand env) = Some ui"
    and st: "length ech \<le> 64" "\<And>n. alloc n" and args: "\<not> prefix ''-'' dev"
    and old: "holds_old mtd ui good old (mem (snd st))" "2 \<le> length (goods good 0 (mtd_eb_cnt mtd))" "\<not> no_bad mtd good"
  shows "\<exists>si k. ubi_scan K True True ech mtd st = Some (Some si, fst st, k) \<and> mem k = mem (snd st)
      \<and> print_bad_eraseblocks mtd si = None
      \<and> ubiformat_main K env alloc junk ech [dev, ''-f'', file, ''-D''] ubi_args_initial statics st = None"
proof -
  let ?a = "flash_args (ue_rand env) dev file"
  have quiet: "\<not> ua_quiet ?a"
    by (simp add: flash_args_def ubi_args_initial_def)
  note geo = ubi_flash_geometry [OF mtd(1) ui]
  have cnt: "0 \<le> mtd_eb_cnt mtd"
    using mtd(1) by (simp add: ubi_flash_def)
  obtain si k where scan: "ubi_scan K True True ech mtd st = Some (Some si, fst st, k)"
    "scan_report mtd ui good old si" "mem k = mem (snd st)"
    using ubi_scan_runs [OF P geo(1) st(1) old(1) cnt] by blast
  note bad = report_overflows(1) [OF scan(2) old(2) quiet old(3)]
    report_overflows(2) [OF scan(2) old(2) quiet old(3), where K = K and k = k]
  have "ubiformat_run K alloc junk ech ?a mtd statics st = None"
    using scan(1) bad(2) st(2) by (simp add: ubiformat_run_def)
  moreover have "ue_libmtd env"
    using mtd(2) by (simp add: finds_device_def)
  ultimately have "ubiformat_main K env alloc junk ech [dev, ''-f'', file, ''-D''] ubi_args_initial statics st = None"
    by (simp add: ubiformat_main_def ubiformat_args [OF args] ubiformat_prepared [OF mtd(2,1)])
  then show ?thesis
    using scan(1,3) bad(1) by blast
qed

end
