(* ===== verification/RootfsRun.thy ===== *)
theory RootfsRun
  imports KernelRun UbiformatRun StopProps
begin

text \<open>
  The whole program on a rootfs partition with UBI: from the command line to the contents of the
  flash, whether or not the box has to be stopped first.
\<close>

subsection \<open>What leaves the tools alone\<close>

context linked_tools
begin

lemma stays_applet: "\<not> tool_call (Applet argv) \<Longrightarrow> stays view (run_applet os no_wr argv)"
  unfolding run_applet_def by (intro stays_intros stays_call)

lemma stays_check: "stays view (check_e2_loop os time)"
proof (induction "nat (70 - time)" arbitrary: time rule: less_induct)
  case less
  then show ?case
    unfolding check_e2_loop.simps [of os time] exec_ps_def
    by (intro stays_intros stays_call) (simp_all add: tool_names_def)
qed

lemma stays_stop: "stays view (stop_system os)"
  unfolding stop_system_def check_e2_stopped_def
  by (intro stays_intros stays_check stays_call) simp_all

lemma stays_prepare: "stays view (prepare_newroot os g)"
  unfolding prepare_newroot_def make_newroot_def copy_programs_def copy_libcrypt_def copy_autofs_def Let_def
  by (intro stays_intros stays_calls_sum stays_call) auto

lemma stays_reboot: "stays view (reboot_after os n)"
  unfolding reboot_after_def by (intro stays_intros stays_call) simp_all

lemma stays_switch: "stays view (switch_root os)"
  unfolding switch_root_def by (intro stays_intros stays_calls_sum stays_call stays_reboot) auto

lemma stays_umount_all: "stays view (umount_all os ds)"
  by (induction ds) (auto intro!: stays_intros stays_call)

lemma stays_release: "stays view (release_oldroot os g)"
  unfolding release_oldroot_def exec_fuser_kill_def
  by (intro stays_intros stays_umount_all stays_calls_sum stays_call stays_applet) (auto simp: tool_names_def)

lemma stays_remount: "stays view (remount_rootfs os g u)"
  unfolding remount_rootfs_def by (intro stays_intros stays_call stays_reboot) simp_all

lemma stays_leave: "stays view (leave_rootfs os g)"
  unfolding leave_rootfs_def umount_rootfs_def daemonize_def fork_step_def
  by (intro stays_intros stays_prepare stays_stop stays_switch stays_release stays_remount stays_call) simp_all

lemma stays_write_parts: "stays view (write_parts os fd n ds)"
  by (induction ds) (auto simp: write_part_def write_padding_def Let_def intro!: stays_intros stays_call)

lemma stays_android: "stays view (android_step os sha1 g)"
  unfolding android_step_def dreamcard_image_def card_label_def boot_image_step_def generate_boot_image_def
    load_file_def remove_old_def Let_def
  by (intro stays_intros stays_call stays_write_parts) simp_all

lemma stays_finish: "stays view (finish_flash os g)"
  unfolding finish_flash_def by (intro stays_intros stays_call stays_calls_sum) auto

lemma stays_failed: "stays view (flash_failed os g)"
  unfolding flash_failed_def by (intro stays_intros stays_call stays_reboot) simp_all


text \<open>Flashing with \<^verbatim>\<open>ubiformat\<close>, and what follows it.\<close>

lemma ubi_rootfs_flash:
  assumes "os_mtd_type os dev (world s) = Some ty" "is_nand ty"
    and "run_tool T [''ubiformat'', dev, ''-f'', file, ''-D''] (view (world s)) = Some (0, t)"
  obtains s' where "run_state (flash_ubi_jffs2_rootfs os dev file UBIFS False) s = (True, s')" "view (world s') = t"
proof -
  have "ty \<noteq> -1"
    using assms(2) by (auto simp: is_nand_def MTD_NANDFLASH_def MTD_MLCNANDFLASH_def)
  moreover obtain s' where "run_state (run_applet os False [''ubiformat'', dev, ''-f'', file, ''-D'']) s = (0 = (0::int), s')"
    "view (world s') = t"
    using assms(3) by (rule applet_runs)
  ultimately show thesis
    using assms(1,2)
    by (intro that [of s']) (simp_all add: flash_ubi_jffs2_rootfs_def getFlashType_def run_peek FlashUbi.ubi_write_def)
qed

lemma images_run:
  assumes "run_state (rootfs_flash os g) s = (True, s1)" "\<not> flash_kernel g" "run_state (flash_images os sha1 g) s = (r, s')"
  shows "view (world s') = view (world s1)" "\<not> android g \<Longrightarrow> r = Go 0"
proof -
  let ?rest = "do {
      img \<leftarrow> (if android g then android_step os sha1 g else ret (Go ()));
      case img of Go _ \<Rightarrow> finish_flash os g | Exit n \<Rightarrow> ret (Go n) | Crash \<Rightarrow> ret Crash }"
  have run: "run_state ?rest s1 = (r, s')"
    using assms by (simp add: flash_images_def)
  have "stays view ?rest"
    by (intro stays_intros stays_android stays_finish)
  then show "view (world s') = view (world s1)"
    using run by (rule staysD)
  show "r = Go 0" if "\<not> android g"
    using run that by (auto simp: finish_flash_def split: prod.splits if_splits)
qed


text \<open>
  The part of main that flashes a rootfs partition: either the tools end in the state ubiformat
  leaves, or the box could not be stopped and nothing was flashed.
\<close>

lemma rootfs_part_run:
  assumes g: "newroot_mounted g" "\<not> no_write g" "\<not> flash_kernel g" "\<not> unpacking g"
    and flash: "\<And>s1. view (world s1) = view (world s) \<Longrightarrow>
      \<exists>s2. run_state (rootfs_flash os g) s1 = (True, s2) \<and> view (world s2) = t"
    and run: "run_state (flash_rootfs_part os sha1 g) s = (r, s')"
  shows "view (world s') = t \<and> (\<not> android g \<longrightarrow> r = Go 0)
    \<or> stop_e2_needed g \<and> (\<exists>new. trace s' = trace s @ new \<and> list_all gentle new)"
proof -
  let ?prep = "do {
        _ \<leftarrow> (if stop_e2_needed g then calls_sum os (map System processes_to_stop) else ret 0);
        _ \<leftarrow> call os Sync;
        _ \<leftarrow> call os (Sleep 1);
        (if stop_e2_needed g then leave_rootfs os g else ret (Go ()))
      }"
  have stay: "stays view ?prep"
    by (intro stays_intros stays_calls_sum stays_call stays_leave) auto
  have gent: "emits gentle ?prep"
    by (intro emits_intros gentle_sum gentle_call gentle_leave) (auto simp: processes_to_stop_def)
  obtain x s1 where s1: "run_state ?prep s = (x, s1)"
    by (cases "run_state ?prep s")
  have same: "view (world s1) = view (world s)"
    by (rule staysD [OF stay s1])
  obtain new where new: "trace s1 = trace s @ new" "list_all gentle new"
    by (rule emitsD [OF gent s1])
  have rest: "run_state (case x of Exit n \<Rightarrow> ret (Go n) | Crash \<Rightarrow> ret Crash | Go _ \<Rightarrow> do {
      _ \<leftarrow> call os (MakeDirectory (''/oldroot_remount/'' @ rootfs_sub_dir g)); flash_images os sha1 g }) s1 = (r, s')"
    using run s1 g by (auto simp: flash_rootfs_part_def split: prod.splits flow.splits)
  show ?thesis
  proof (cases "x = Go ()")
    case True
    obtain n s2 where s2: "run_state (call os (MakeDirectory (''/oldroot_remount/'' @ rootfs_sub_dir g))) s1 = (n, s2)"
      by (cases "run_state (call os (MakeDirectory (''/oldroot_remount/'' @ rootfs_sub_dir g))) s1")
    have "view (world s2) = view (world s)"
      using staysD [OF stays_call s2] same by simp
    then obtain s3 where s3: "run_state (rootfs_flash os g) s2 = (True, s3)" "view (world s3) = t"
      using flash by blast
    have "run_state (flash_images os sha1 g) s2 = (r, s')"
      using rest True s2 by simp
    then show ?thesis
      using images_run [OF s3(1) g(3)] s3(2) by simp
  next
    case False
    then have "s' = s1" "stop_e2_needed g"
      using rest s1 by (auto split: flow.splits if_splits prod.splits)
    then show ?thesis
      using new by blast
  qed
qed

end

subsection \<open>The program\<close>

text \<open>A run that flashes nothing but a rootfs partition with UBI.\<close>

definition ubi_rootfs_only :: "gst \<Rightarrow> bool" where
  "ubi_rootfs_only g \<longleftrightarrow> flash_rootfs g \<and> \<not> flash_kernel g \<and> \<not> no_write g \<and> newroot_mounted g
     \<and> rootfs_flash_mode g = MTD \<and> rootfs_type g \<in> {UBIFS, EXT4}
     \<and> \<not> prefix ''-'' (rootfs_device g) \<and> rootfs_filename g \<noteq> ''-''"

abbreviation ubi_call :: "gst \<Rightarrow> string list" where
  "ubi_call g \<equiv> [rootfs_device g, ''-f'', rootfs_filename g, ''-D'']"

text \<open>The memory of ubiformat: its allocations succeed, and a header fits its buffer.\<close>

definition ubi_memory :: "'k tools \<Rightarrow> bool" where
  "ubi_memory T \<longleftrightarrow> (\<forall>n. tl_alloc T n) \<and> length (tl_ech T) \<le> 64"

lemma rootfs_call:
  assumes g: "ubi_rootfs_only g"
    and P: "page_nand (tl_kernel T) mtd good mem img" "reads_headers (tl_kernel T) mtd good mem img" "opens_image (tl_kernel T) mem img"
    and mtd: "ubi_flash mtd" "finds_device (tl_ubi T (ubi_call g)) (rootfs_device g) mtd" "ubi_memory T"
    and ui: "ubigen_info_init (mtd_eb_size mtd) (mtd_min_io_size mtd) (mtd_subpage_size mtd) 0 1 (ue_rand (tl_ubi T (ubi_call g))) = Some ui"
    and t: "ts_ubi t = ubi_args_initial" "fst (ts_dev t) = OFFS64_IOCTLS_UNKNOWN"
    and old: "holds_old mtd ui good old (mem (snd (ts_dev t)))" "settled good old (mtd_eb_cnt mtd)"
      "2 \<le> length (goods good 0 (mtd_eb_cnt mtd))" "no_bad mtd good"
    and imgs: "img (snd (ts_dev t)) = concat imgs" "imgs \<noteq> []" "length imgs \<le> length (goods good 0 (mtd_eb_cnt mtd))"
      "list_all (\<lambda>d. length d = nat (mtd_eb_size mtd) \<and> valid_ech d) imgs"
  obtains t' where "run_tool T (''ubiformat'' # ubi_call g) t = Some (0, t')"
    "installed mtd ui good old imgs (mem (snd (ts_dev t))) (mem (snd (ts_dev t')))"
proof -
  have ok: "fst (ts_dev t) \<noteq> OFFS64_IOCTLS_NOT_SUPPORTED" "length (tl_ech T) \<le> 64" "tl_alloc T n"
    "\<not> prefix ''-'' (rootfs_device g)" "rootfs_filename g \<noteq> ''-''" for n
    using t(2) mtd(3) g by (simp_all add: ubi_memory_def ubi_rootfs_only_def)
  obtain b st' where run: "ubiformat_main (tl_kernel T) (tl_ubi T (ubi_call g)) (tl_alloc T) (tl_junk T) (tl_ech T)
      (ubi_call g) ubi_args_initial (ts_bad t) (ts_dev t) = Some (Returns 0, b, st')"
    and inst: "installed mtd ui good old imgs (mem (snd (ts_dev t))) (mem (snd st'))"
    using ubiformat_main_runs [where alloc = "tl_alloc T" and junk = "tl_junk T" and statics = "ts_bad t", OF P mtd(1,2) ui ok old imgs] by blast
  have "run_tool T (''ubiformat'' # ubi_call g) t = Some (0, t\<lparr>ts_bad := b, ts_dev := st'\<rparr>)"
    using run by (simp add: run_tool_def t(1))
  then show thesis
    using that inst by simp
qed

text \<open>
  Property C1. From the command line to the flash: the selection phase chooses a NAND partition with UBI
  for the rootfs and nothing for the kernel, the partition has no bad eraseblock, is blank or holds an
  UBI device whose counters the scan can read, and the image fits. Then if the box need not be stopped,
  and whenever ubiformat is reached otherwise, the blocks of the image are on the first eraseblocks, with
  the erase counters the flash had plus one, and the other eraseblocks are empty ones of UBI with their
  counters; and the program returns 0 where the box need not be stopped. (With a bad eraseblock the call
  has no defined outcome, which is the theorem behind this one.)
\<close>
theorem rootfs_run_installs_ubi:
  assumes "main_select e args initial_gst = Go g" "ubi_rootfs_only g"
    and "\<And>v. os_mtd_type base (rootfs_device g) v = Some (mtd_type mtd)" "is_nand (mtd_type mtd)"
    and "page_nand (tl_kernel T) mtd good mem img" "reads_headers (tl_kernel T) mtd good mem img" "opens_image (tl_kernel T) mem img"
    and "ubi_flash mtd" "finds_device (tl_ubi T (ubi_call g)) (rootfs_device g) mtd" "ubi_memory T"
    and "ubigen_info_init (mtd_eb_size mtd) (mtd_min_io_size mtd) (mtd_subpage_size mtd) 0 1 (ue_rand (tl_ubi T (ubi_call g))) = Some ui"
    and "ts_ubi t = ubi_args_initial" "fst (ts_dev t) = OFFS64_IOCTLS_UNKNOWN"
    and "holds_old mtd ui good old (mem (snd (ts_dev t)))" "settled good old (mtd_eb_cnt mtd)"
    and "2 \<le> length (goods good 0 (mtd_eb_cnt mtd))" "no_bad mtd good"
    and "img (snd (ts_dev t)) = concat imgs" "imgs \<noteq> []" "length imgs \<le> length (goods good 0 (mtd_eb_cnt mtd))"
    and "list_all (\<lambda>d. length d = nat (mtd_eb_size mtd) \<and> valid_ech d) imgs"
    and "run_state (ofgwrite_main e (link_tools T base) sha1 args) \<lparr>world = (t, w), trace = []\<rparr> = (r, s')"
  shows "(\<not> stop_e2_needed g \<or> (\<exists>n. (Applet (''ubiformat'' # ubi_call g), n) \<in> set (trace s')) \<longrightarrow>
      installed mtd ui good old imgs (mem (snd (ts_dev t))) (mem (snd (ts_dev (fst (world s'))))))
    \<and> (\<not> stop_e2_needed g \<and> \<not> android g \<longrightarrow> r = Go 0)"
proof -
  obtain t' where t': "run_tool T (''ubiformat'' # ubi_call g) t = Some (0, t')"
    "installed mtd ui good old imgs (mem (snd (ts_dev t))) (mem (snd (ts_dev t')))"
    by (rule rootfs_call [OF assms(2,5-21)])
  note g = assms(2) [unfolded ubi_rootfs_only_def]
  let ?os = "link_tools T base" and ?s = "\<lparr>world = (t, w), trace = []\<rparr>"
  have flash: "\<exists>s2. run_state (rootfs_flash ?os g) s1 = (True, s2) \<and> fst (world s2) = t'" if "fst (world s1) = fst (world ?s)" for s1
  proof -
    have "os_mtd_type ?os (rootfs_device g) (world s1) = Some (mtd_type mtd)"
      using assms(3) by (simp add: link_tools_def)
    moreover have "run_tool T [''ubiformat'', rootfs_device g, ''-f'', rootfs_filename g, ''-D''] (fst (world s1)) = Some (0, t')"
      using that t'(1) by simp
    ultimately obtain s2 where "run_state (flash_ubi_jffs2_rootfs ?os (rootfs_device g) (rootfs_filename g) UBIFS False) s1 = (True, s2)"
      "fst (world s2) = t'"
      by (metis linked.ubi_rootfs_flash [OF _ assms(4)])
    then show ?thesis
      using g by (auto simp: rootfs_flash_def)
  qed
  have run: "run_state (flash_rootfs_part ?os sha1 g) ?s = (r, s')"
    using assms(1,22) g by (simp add: ofgwrite_main_def main_flash_def)
  have "\<not> unpacking g"
    using g by (simp add: unpacking_def)
  then consider "fst (world s') = t'" "\<not> android g \<longrightarrow> r = Go 0" | new where "stop_e2_needed g" "trace s' = new" "list_all gentle new"
    using linked.rootfs_part_run [OF _ _ _ _ flash run] g by auto
  then show ?thesis
  proof cases
    case 1
    then show ?thesis
      using t'(2) by simp
  next
    case 2
    then have "(Applet (''ubiformat'' # ubi_call g), n) \<notin> set (trace s')" for n
      by (auto simp: list_all_iff)
    then show ?thesis
      using 2(1) by blast
  qed
qed

text \<open>
  The rootfs of the example: a small NAND device that is blank, on a box that runs the image of another
  directory, and an image of one eraseblock.
\<close>

definition rootfs_example :: env where
  "rootfs_example = example_env\<lparr>e_readdir := (\<lambda>_. Some [''rootfs.bin'']),
     e_stat := (\<lambda>_. Some (no_stat\<lparr>st_size := 512\<rparr>)),
     e_text := (\<lambda>f.
       if f = ''/proc/mtd''
       then Some (''dev: size erasesize name'' @ [CHR 0x0A] @ ''mtd1: 200 100 \"kernel\"'' @ [CHR 0x0A]
         @ ''mtd2: 800 200 \"rootfs\"'' @ [CHR 0x0A])
       else if f = ''/proc/cmdline'' then Some ''other2 rootsubdir=sub'' else None),
     e_mounts := Some [\<lparr>mnt_fsname = ''ubi0:rootfs'', mnt_dir = ''/'', mnt_type = ''ubifs''\<rparr>,
       \<lparr>mnt_fsname = ''tmpfs'', mnt_dir = ''/newroot'', mnt_type = ''tmpfs''\<rparr>]\<rparr>"

definition rootfs_example_args :: gst where
  "rootfs_example_args =
     (args_defaults initial_gst)\<lparr>flash_rootfs := True, rootfs_filename := ''/img/rootfs.bin'',
        rootfs_file_stat := no_stat\<lparr>st_size := 512\<rparr>, image_type := UBI\<rparr>"

definition rootfs_example_devices :: gst where
  "rootfs_example_devices = rootfs_example_args\<lparr>rootfs_type := UBIFS, ubi_fs_name := ''ubi0:rootfs'', newroot_mounted := True,
     kernel_device := ''/dev/mtd1'', found_kernel_device := True, kernel_flash_mode := MTD,
     rootfs_device := ''/dev/mtd2'', found_rootfs_device := True, rootfs_flash_mode := MTD,
     current_rootfs_sub_dir := ''sub'', stop_e2_needed := False\<rparr>"

lemma rootfs_example_read_args:
  "read_args rootfs_example [''-r'', ''/img''] initial_gst = (True, rootfs_example_args)"
  by (simp add: read_args_def ofg_short_def rootfs_example_args_def read_opt_def args_defaults_def
      find_image_files_def rootfs_example_def example_env_def with_slash_def
      check_entry_def is_kernel_file_def rootfs_names_def take_rootfs_def stat_into_def initial_gst_def
      suffix_def)

lemma rootfs_example_mounts:
  "readProcMounts rootfs_example rootfs_example_args = (True, rootfs_example_args\<lparr>rootfs_type := UBIFS,
     ubi_fs_name := ''ubi0:rootfs'', newroot_mounted := True\<rparr>)"
  by (simp add: readProcMounts_def rootfs_example_def example_env_def mount_entry_def
        rootfs_example_args_def args_defaults_def initial_gst_def)

lemma rootfs_example_cmdline:
  "readProcCmdline rootfs_example (rootfs_example_devices\<lparr>current_rootfs_sub_dir := '''', stop_e2_needed := True\<rparr>)
    = Go (rootfs_example_devices\<lparr>stop_e2_needed := True\<rparr>)"
  by (simp add: readProcCmdline_def rootfs_example_def example_env_def c_lines.simps line_len_def numeral_eq_Suc
     slot_from_code_def cmdline_entries_def find_store_substring_def ReadProcEntry_def before_char_def
     rootfs_example_devices_def rootfs_example_args_def args_defaults_def initial_gst_def)


lemma rootfs_example_text:
  "e_text rootfs_example ''/proc/mtd'' = Some (''dev: size erasesize name'' @ [CHR 0x0A] @ ''mtd1: 200 100 \"kernel\"'' @ [CHR 0x0A]
     @ ''mtd2: 800 200 \"rootfs\"'' @ [CHR 0x0A])"
  by (simp add: rootfs_example_def)

lemma rootfs_example_lines:
  "c_lines 999 (''dev: size erasesize name'' @ [CHR 0x0A] @ ''mtd1: 200 100 \"kernel\"'' @ [CHR 0x0A]
     @ ''mtd2: 800 200 \"rootfs\"'' @ [CHR 0x0A])
    = [''dev: size erasesize name'' @ [CHR 0x0A], ''mtd1: 200 100 \"kernel\"'' @ [CHR 0x0A], ''mtd2: 800 200 \"rootfs\"'' @ [CHR 0x0A]]"
  by (simp add: c_lines.simps line_len_def numeral_eq_Suc)

definition rootfs_example_line :: mtd_fields where
  "rootfs_example_line = \<lparr>mf_dev = ''mtd2'', mf_size = ''800'', mf_esize = ''200'', mf_name = ''\"rootfs\"''\<rparr>"

lemma rootfs_example_devsize: "devsize rootfs_example_line = 2048"
  by (simp add: devsize_def rootfs_example_line_def strtou_def scan_defs of_char_def)

lemma rootfs_example_entry: "mtd_entry (''mtd2: 800 200 \"rootfs\"'' @ [CHR 0x0A]) f = rootfs_example_line"
proof -
  have "c_words (''mtd2: 800 200 \"rootfs\"'' @ [CHR 0x0A]) = [''mtd2:'', ''800'', ''200'', ''\"rootfs\"'']"
    by (simp add: c_words.simps c_isspace_def)
  then show ?thesis
    by (simp add: mtd_entry_def scan_fields_def Let_def rootfs_example_line_def cut_colon_def)
qed

lemma rootfs_example_mtd:
  "read_mtd_file rootfs_example (rootfs_example_args\<lparr>rootfs_type := UBIFS, ubi_fs_name := ''ubi0:rootfs'', newroot_mounted := True\<rparr>)
     = (True, rootfs_example_devices\<lparr>current_rootfs_sub_dir := '''', stop_e2_needed := True\<rparr>)"
proof -
  let ?g = "rootfs_example_args\<lparr>rootfs_type := UBIFS, ubi_fs_name := ''ubi0:rootfs'', newroot_mounted := True\<rparr>"
  let ?g1 = "?g\<lparr>kernel_device := ''/dev/mtd1'', found_kernel_device := True, kernel_flash_mode := MTD\<rparr>"
  let ?g2 = "?g1\<lparr>rootfs_device := ''/dev/mtd2'', found_rootfs_device := True, rootfs_flash_mode := MTD\<rparr>"
  have "mtd_line mtd_example_line ?g = (False, ?g1)"
    using mtd_example_devsize
    by (simp add: mtd_line_def auto_kernel_line_def auto_kernel_name_def initial_gst_def no_stat_def
        mtd_example_line_def rootfs_example_args_def args_defaults_def)
  moreover have "mtd_line rootfs_example_line ?g1 = (False, ?g2)"
    using rootfs_example_devsize
    by (simp add: mtd_line_def auto_rootfs_line_def auto_rootfs_name_def auto_kernel_name_def bad_erasesize_def initial_gst_def
        rootfs_example_line_def rootfs_example_args_def args_defaults_def)
  moreover have "?g2 = rootfs_example_devices\<lparr>current_rootfs_sub_dir := '''', stop_e2_needed := True\<rparr>"
    by (simp add: rootfs_example_devices_def rootfs_example_args_def args_defaults_def initial_gst_def)
  ultimately show ?thesis
    unfolding read_mtd_file_def rootfs_example_text option.case rootfs_example_lines list.case Let_def
      mtd_lines.simps mtd_example_fields rootfs_example_entry
    by (simp add: mtd_header_ok_def mtd_example_header_def)
qed

lemma rootfs_example_select: "main_select rootfs_example [''-r'', ''/img''] initial_gst = Go rootfs_example_devices"
proof -
  let ?g = "rootfs_example_devices\<lparr>stop_e2_needed := True\<rparr>"
  have i: "initial_gst\<lparr>found_kernel_device := False, found_rootfs_device := False,
       kernel_flash_mode := FLASH_MODE_UNKNOWN, rootfs_flash_mode := FLASH_MODE_UNKNOWN,
       ubi_fs_name := ''''\<rparr> = initial_gst"
    by (simp add: initial_gst_def)
  have g: "found_kernel_device ?g" "found_rootfs_device ?g" "\<not> user_rootfs ?g" "\<not> user_kernel ?g" "\<not> chkroot_mode ?g"
    "\<not> force_e2_stop ?g" "current_rootfs_sub_dir ?g = ''sub''" "rootfs_sub_dir ?g = ''''"
    by (simp_all add: rootfs_example_devices_def rootfs_example_args_def args_defaults_def initial_gst_def)
  then have "choose_devices b ?g = ?g\<lparr>stop_e2_needed := False\<rparr>" for b
    by (simp add: choose_devices_def user_rootfs_step_def user_kernel_step_def chkroot_step_def kexec_kernel_step_def
        kexec_rootfs_step_def stop_step_def not_running_def)
  moreover have "?g\<lparr>stop_e2_needed := False\<rparr> = rootfs_example_devices"
    by (simp add: rootfs_example_devices_def)
  ultimately have f: "find_kernel_rootfs_device rootfs_example (rootfs_example_devices\<lparr>current_rootfs_sub_dir := '''', stop_e2_needed := True\<rparr>)
      = Go rootfs_example_devices"
    unfolding find_kernel_rootfs_device_def rootfs_example_cmdline flow_bind.simps using g by simp
  have h: "show_help rootfs_example_args = False"
    by (simp_all add: rootfs_example_args_def args_defaults_def initial_gst_def)
  have "flash_checks rootfs_example_devices" "check_device_size rootfs_example rootfs_example_devices"
    by (simp_all add: flash_checks_def check_device_size_def rootfs_example_devices_def rootfs_example_args_def
        args_defaults_def initial_gst_def)
  then show ?thesis
    by (simp add: main_select_def i rootfs_example_read_args h rootfs_example_mounts rootfs_example_mtd f)
qed

definition rootfs_ui :: ubigen_info where
  "rootfs_ui = the (ubigen_info_init 512 64 64 0 1 0)"

lemma rootfs_ui: "ubigen_info_init 512 64 64 0 1 0 = Some rootfs_ui"
  unfolding rootfs_ui_def by code_simp

definition rootfs_block :: "byte list" where
  "rootfs_block = ec_hdr_bytes (ubigen_init_ec_hdr rootfs_ui 0) @ replicate 448 0"

definition rootfs_tools :: "int set \<Rightarrow> pnand tools" where
  "rootfs_tools bad = example_tools\<lparr>tl_kernel := holey_kernel 512 bad,
     tl_ubi := (\<lambda>_. \<lparr>ue_libmtd = True, ue_rand = 0, ue_sysfs = Some True, ue_dev = (\<lambda>_. Some (nand_mtd 4 512 64)), ue_node_opens = True,
       ue_attached = False\<rparr>)\<rparr>"

definition rootfs_state :: "pnand tool_state" where
  "rootfs_state = example_state\<lparr>ts_ubi := ubi_args_initial,
     ts_dev := (OFFS64_IOCTLS_UNKNOWN, \<lparr>pn_mem = (\<lambda>_. replicate 512 0xFF), pn_pos = 0, pn_img = rootfs_block\<rparr>)\<rparr>"

lemma holey_reads_headers:
  assumes "64 \<le> sz"
  shows "reads_headers (holey_kernel sz B) (nand_mtd cnt sz io) (- B) pn_mem pn_img"
  using assms by (simp add: reads_headers_def holey_kernel_def perfect_kernel_def Let_def)

lemma holey_opens_image: "opens_image (holey_kernel sz B) pn_mem pn_img"
  by (simp add: opens_image_def holey_kernel_def perfect_kernel_def)

lemma rootfs_goods: "goods (- {2}) 0 4 = [0, 1, 3]" "goods UNIV 0 4 = [0, 1, 2, 3]"
  by (simp_all add: goods_def upto.simps)

lemma rootfs_geometry: "ubi_flash (nand_mtd 4 512 64)"
  by (simp add: ubi_flash_def wf_geometry_def is_power_of_2_def)

theorem rootfs_run_installs_ubi_witness:
  "\<exists>s'. run_state (ofgwrite_main rootfs_example (link_tools (rootfs_tools {}) (example_os (\<lambda>_. None))) id [''-r'', ''/img''])
        \<lparr>world = (rootfs_state, ()), trace = []\<rparr> = (Go 0, s')
    \<and> installed (nand_mtd 4 512 64) rootfs_ui UNIV (\<lambda>_. None) [rootfs_block] (\<lambda>_. replicate 512 0xFF)
        (pn_mem (snd (ts_dev (fst (world s')))))"
proof -
  let ?m = "nand_mtd 4 512 64" and ?os = "link_tools (rootfs_tools {}) (example_os (\<lambda>_. None))"
  obtain r s' where run: "run_state (ofgwrite_main rootfs_example ?os id [''-r'', ''/img''])
      \<lparr>world = (rootfs_state, ()), trace = []\<rparr> = (r, s')"
    by (cases "run_state (ofgwrite_main rootfs_example ?os id [''-r'', ''/img'']) \<lparr>world = (rootfs_state, ()), trace = []\<rparr>")
  have g: "ubi_rootfs_only rootfs_example_devices" "\<not> stop_e2_needed rootfs_example_devices" "\<not> android rootfs_example_devices"
    by (simp_all add: ubi_rootfs_only_def rootfs_example_devices_def rootfs_example_args_def args_defaults_def initial_gst_def)
  have K: "tl_kernel (rootfs_tools {}) = holey_kernel 512 {}" and u: "tl_ubi (rootfs_tools {}) args = \<lparr>ue_libmtd = True, ue_rand = 0,
      ue_sysfs = Some True, ue_dev = (\<lambda>_. Some ?m), ue_node_opens = True, ue_attached = False\<rparr>"
    and mem: "ubi_memory (rootfs_tools {})" for args
    by (simp_all add: rootfs_tools_def example_tools_def ubi_memory_def)
  have t: "ts_ubi rootfs_state = ubi_args_initial" "ts_dev rootfs_state =
      (OFFS64_IOCTLS_UNKNOWN, \<lparr>pn_mem = (\<lambda>_. replicate 512 0xFF), pn_pos = 0, pn_img = rootfs_block\<rparr>)"
    by (simp_all add: rootfs_state_def)
  note K0 = holey_page_nand [where B = "{}", simplified] holey_reads_headers [where B = "{}", simplified]
  have block: "length rootfs_block = 512" "valid_ech rootfs_block"
    by (simp_all add: rootfs_block_def valid_ech_generated)
  have "(\<not> stop_e2_needed rootfs_example_devices
        \<or> (\<exists>n. (Applet (''ubiformat'' # ubi_call rootfs_example_devices), n) \<in> set (trace s')) \<longrightarrow>
      installed ?m rootfs_ui UNIV (\<lambda>_. None) [rootfs_block] (pn_mem (snd (ts_dev rootfs_state)))
        (pn_mem (snd (ts_dev (fst (world s'))))))
    \<and> (\<not> stop_e2_needed rootfs_example_devices \<and> \<not> android rootfs_example_devices \<longrightarrow> r = Go 0)"
    by (rule rootfs_run_installs_ubi [OF rootfs_example_select g(1) _ _ _ _ _ rootfs_geometry _ mem _ _ _ _ _ _ _ _ _ _ _ run, where img = pn_img])
      (simp_all add: K u t block rootfs_ui rootfs_goods K0 holey_opens_image finds_device_def
        holds_old_def settled_def old_counters_def no_bad_def example_os_def is_nand_def MTD_NANDFLASH_def)
  then show ?thesis
    using g run by (simp add: t)
qed

text \<open>
  Property C2. With a bad eraseblock on the device, the call of ubiformat with which ofgwrite flashes a
  rootfs has no defined outcome: the scan succeeds, and then the text with the number of the bad
  eraseblocks for the display is written behind the end of its array of 30 bytes. This is in front of
  every write: until then nothing on the flash has changed.
\<close>
theorem ubi_call_overflows_on_bad_blocks:
  assumes "page_nand (tl_kernel T) mtd good mem img" "reads_headers (tl_kernel T) mtd good mem img"
    and "ubi_flash mtd" "finds_device (tl_ubi T (ubi_call g)) (rootfs_device g) mtd" "ubi_memory T"
    and "ubigen_info_init (mtd_eb_size mtd) (mtd_min_io_size mtd) (mtd_subpage_size mtd) 0 1 (ue_rand (tl_ubi T (ubi_call g))) = Some ui"
    and "\<not> prefix ''-'' (rootfs_device g)" "holds_old mtd ui good old (mem (snd st))"
    and "2 \<le> length (goods good 0 (mtd_eb_cnt mtd))" "in_block mtd eb" "eb \<notin> good"
  shows "\<exists>si k. ubi_scan (tl_kernel T) True True (tl_ech T) mtd st = Some (Some si, fst st, k) \<and> mem k = mem (snd st)
      \<and> si_bad_cnt si \<noteq> 0 \<and> length (bad_info (si_bad_cnt si)) \<ge> 30
      \<and> ubiformat_main (tl_kernel T) (tl_ubi T (ubi_call g)) (tl_alloc T) (tl_junk T) (tl_ech T) (ubi_call g)
          ubi_args_initial statics st = None"
proof -
  have "length (tl_ech T) \<le> 64" "\<And>n. tl_alloc T n" "\<not> no_bad mtd good"
    using assms(5,10,11) by (auto simp: ubi_memory_def no_bad_def)
  then obtain si k where run: "ubi_scan (tl_kernel T) True True (tl_ech T) mtd st = Some (Some si, fst st, k)" "mem k = mem (snd st)"
    "print_bad_eraseblocks mtd si = None"
    "ubiformat_main (tl_kernel T) (tl_ubi T (ubi_call g)) (tl_alloc T) (tl_junk T) (tl_ech T) (ubi_call g) ubi_args_initial statics st = None"
    using ubiformat_main_overflows [OF assms(1-4,6) _ _ assms(7-9), where alloc = "tl_alloc T" and ech = "tl_ech T"
        and junk = "tl_junk T" and statics = statics] by blast
  moreover have "si_bad_cnt si \<noteq> 0"
    using run(3) by (simp add: print_bad_overflows split: if_split_asm)
  ultimately show ?thesis
    by (intro exI [of _ si] exI [of _ k]) (simp add: bad_info_def)
qed

theorem ubi_call_overflows_on_bad_blocks_witness:
  "\<exists>si k. ubi_scan (holey_kernel 512 {2}) True True [] (nand_mtd 4 512 64) (ts_dev rootfs_state) = Some (Some si, OFFS64_IOCTLS_UNKNOWN, k)
    \<and> pn_mem k = (\<lambda>_. replicate 512 0xFF) \<and> si_bad_cnt si \<noteq> 0
    \<and> ubiformat_main (holey_kernel 512 {2}) (tl_ubi (rootfs_tools {2}) (ubi_call rootfs_example_devices)) (\<lambda>_. True)
        (tl_junk (rootfs_tools {2})) [] (ubi_call rootfs_example_devices) ubi_args_initial (1, -1) (ts_dev rootfs_state) = None"
proof -
  let ?T = "rootfs_tools {2}"
  have T: "tl_kernel ?T = holey_kernel 512 {2}" "tl_alloc ?T = (\<lambda>_. True)" "tl_ech ?T = []"
    and u: "tl_ubi ?T args = \<lparr>ue_libmtd = True, ue_rand = 0, ue_sysfs = Some True,
      ue_dev = (\<lambda>_. Some (nand_mtd 4 512 64)), ue_node_opens = True, ue_attached = False\<rparr>" for args
    by (simp_all add: rootfs_tools_def example_tools_def)
  have d: "rootfs_device rootfs_example_devices = ''/dev/mtd2''"
    by (simp add: rootfs_example_devices_def)
  have st: "ts_dev rootfs_state =
      (OFFS64_IOCTLS_UNKNOWN, \<lparr>pn_mem = (\<lambda>_. replicate 512 0xFF), pn_pos = 0, pn_img = rootfs_block\<rparr>)"
    by (simp add: rootfs_state_def)
  show ?thesis
    using ubi_call_overflows_on_bad_blocks [where T = ?T and g = rootfs_example_devices and good = "- {2}" and mem = pn_mem and img = pn_img
      and old = "\<lambda>_. None" and eb = 2 and ui = rootfs_ui and st = "ts_dev rootfs_state" and statics = "(1, -1)", OF _ _ rootfs_geometry]
    by (simp add: T u d st rootfs_ui rootfs_goods holey_page_nand holey_reads_headers finds_device_def ubi_memory_def
        holds_old_def in_block_def) blast
qed

end
