(* ===== verification/BlockRun.thy ===== *)
theory BlockRun
  imports FlashTargets
begin

text \<open>
  The whole program on a block device for the kernel: from the command line to the bytes written.
\<close>

text \<open>
  Property C35. From the command line to the block device: when the selection phase chooses a block device or a file for
  the kernel and nothing for the rootfs, and the program returns 0, then it has read the whole
  kernel file without error, handed exactly its bytes to the stream of that device, in order, and closed the
  stream, with some answer \<open>n\<close> of \<^verbatim>\<open>fclose\<close>. If \<open>n\<close> is 0, exactly these bytes have been delivered to the device;
  if it is not, nothing is known of them, and the program returns 0 all the same.
\<close>
theorem kernel_run_copies_file:
  assumes "main_select e args initial_gst = Go g"
    and "flash_kernel g" "\<not> flash_rootfs g" "\<not> no_write g" "kernel_flash_mode g = TARBZ2"
    and "kernel_filename g \<noteq> kernel_device g"
    and "run_state (ofgwrite_main e os sha1 args) \<lparr>world = w, trace = []\<rparr> = (Go 0, s')"
  shows "\<exists>f es n es'. os_file os (kernel_filename g) w = Some f \<and> \<not> st_bad f
    \<and> trace s' = es @ (Fclose (kernel_device g), n) # es'
    \<and> written (kernel_device g) es = st_left f \<and> written (kernel_device g) es' = []
    \<and> delivered (kernel_device g) [] (trace s') = (if n = 0 then st_left f else [])"
proof -
  let ?s = "\<lparr>world = w, trace = []\<rparr>" and ?d = "kernel_device g"
  obtain q s1 where s1: "run_state (flash_ext4_kernel os ?d (kernel_filename g) (st_size (kernel_file_stat g)) False) ?s = (q, s1)"
    by (cases "run_state (flash_ext4_kernel os ?d (kernel_filename g) (st_size (kernel_file_stat g)) False) ?s")
  have "ensures (\<lambda>r es. \<forall>c. r \<noteq> Exit c) (kernel_flash os g)"
    by (rule kernel_no_exit)
  then have "q \<noteq> Exit c" for c
    using s1 assms(4,5) by (simp add: kernel_flash_def ensures_def) (metis fst_conv)
  then have "q = Go True" and rest: "\<exists>later. trace s' = trace s1 @ later \<and> list_all (foreign ?d) later"
    using assms s1
    by (auto simp: ofgwrite_main_def main_flash_def flash_kernel_part_def kernel_flash_def run_call
        split: if_splits prod.splits flow.splits)
  then obtain f es r m n where f: "os_file os (kernel_filename g) w = Some f" "\<not> st_bad f"
    and t: "trace s1 = (Fopen ?d ''wb'', r) # es @ [(Fclose (kernel_filename g), m), (Fclose ?d, n)]"
    and es: "list_all (copy_event ?d) es" "written ?d es = st_left f"
    using kernel_copy_exact s1 by fastforce
  obtain later where later: "trace s' = trace s1 @ later" "list_all (foreign ?d) later"
    using rest by blast
  have "delivered ?d [] later = []"
    using foreign_delivers [OF later(2), of "[]" "[]"] by simp
  then have "delivered ?d [] (trace s') = (if n = 0 then st_left f else [])"
    using assms(6) es by (simp add: later(1) t copy_delivers)
  moreover have "trace s' = ((Fopen ?d ''wb'', r) # es @ [(Fclose (kernel_filename g), m)]) @ (Fclose ?d, n) # later"
    by (simp add: later(1) t)
  ultimately show ?thesis
    using f es foreign_writes [OF later(2)]
    by (intro exI [of _ f] exI [of _ "(Fopen ?d ''wb'', r) # es @ [(Fclose (kernel_filename g), m)]"] exI [of _ n] exI [of _ later])
      (simp add: written_append)
qed

text \<open>A kernel for a block device that the user names.\<close>

definition block_example :: env where
  "block_example = example_env\<lparr>e_readdir := (\<lambda>_. Some [''kernel.bin'']),
     e_stat := (\<lambda>_. Some (no_stat\<lparr>st_size := 3\<rparr>)), e_blk := (\<lambda>_. Some (Some 1000))\<rparr>"

definition block_example_args :: gst where
  "block_example_args =
     (args_defaults initial_gst)\<lparr>flash_kernel := True, user_kernel := True, kernel_device_arg := ''mmcblk0p1'',
        kernel_filename := ''/img/kernel.bin'', kernel_file_stat := no_stat\<lparr>st_size := 3\<rparr>\<rparr>"

lemma block_example_read_args:
  "read_args block_example [''-kmmcblk0p1'', ''/img''] initial_gst = (True, block_example_args)"
  by (simp add: read_args_def ofg_short_def block_example_args_def read_opt_def args_defaults_def
      find_image_files_def block_example_def example_env_def with_slash_def
      check_entry_def is_kernel_file_def rootfs_names_def take_kernel_def stat_into_def initial_gst_def
      suffix_def kernel_arg_ok_def strncmp_eq_def)

definition block_example_devices :: gst where
  "block_example_devices = block_example_args\<lparr>kernel_device := ''/dev/mmcblk0p1'', found_kernel_device := True,
     kernel_flash_mode := TARBZ2\<rparr>"

lemma block_example_select: "main_select block_example [''-kmmcblk0p1'', ''/img''] initial_gst = Go (stop_step block_example_devices)"
proof -
  have i: "initial_gst\<lparr>found_kernel_device := False, found_rootfs_device := False,
       kernel_flash_mode := FLASH_MODE_UNKNOWN, rootfs_flash_mode := FLASH_MODE_UNKNOWN,
       ubi_fs_name := ''''\<rparr> = initial_gst"
    by (simp add: initial_gst_def)
  have m: "readProcMounts block_example block_example_args = (True, block_example_args)"
    by (simp add: readProcMounts_def block_example_def example_env_def
        block_example_args_def args_defaults_def initial_gst_def)
  have t: "read_mtd_file block_example g = (False, g)" "readProcCmdline block_example g = Go g" "e_gpt block_example = []" for g
    by (simp_all add: read_mtd_file_def readProcCmdline_def block_example_def example_env_def)
  have f: "find_kernel_rootfs_device block_example block_example_args = Go (stop_step block_example_devices)"
    by (simp add: find_kernel_rootfs_device_def t choose_devices_def user_rootfs_step_def block_example_devices_def
        user_kernel_step_def chkroot_step_def kexec_kernel_step_def kexec_rootfs_step_def block_example_args_def
        args_defaults_def initial_gst_def)
  have "flash_checks (stop_step block_example_devices)" "check_device_size block_example (stop_step block_example_devices)"
    "show_help block_example_args = False"
    by (simp_all add: flash_checks_def check_device_size_def stop_step_def block_example_devices_def block_example_args_def
        device_holds_def block_example_def c_ulonglong_def args_defaults_def initial_gst_def)
  then show ?thesis
    by (simp add: main_select_def i block_example_read_args m t f)
qed

text \<open>The system, on which closing a file has a given answer.\<close>

definition closing_os :: "int \<Rightarrow> unit os" where
  "closing_os n = (example_os (\<lambda>_. Some [1, 2, 3]))\<lparr>
     os_call := (\<lambda>c w. (case c of Fwrite _ _ \<Rightarrow> 1 | Fclose _ \<Rightarrow> n | _ \<Rightarrow> 0, w))\<rparr>"

lemma block_example_run:
  "\<exists>s'. run_state (ofgwrite_main block_example (closing_os n) id [''-kmmcblk0p1'', ''/img'']) start = (Go 0, s')
     \<and> {r. (Fclose ''/dev/mmcblk0p1'', r) \<in> set (trace s')} = {n}"
proof -
  let ?g = "stop_step block_example_devices"
  have g: "flash_kernel ?g" "\<not> flash_rootfs ?g" "\<not> no_write ?g" "kernel_flash_mode ?g = TARBZ2"
    "g_quiet ?g = False" "st_size (kernel_file_stat ?g) = 3" "kernel_device ?g = ''/dev/mmcblk0p1''"
    "kernel_filename ?g = ''/img/kernel.bin''"
    by (simp_all add: stop_step_def block_example_devices_def block_example_args_def args_defaults_def initial_gst_def)
  then show ?thesis
    by (simp add: ofgwrite_main_def block_example_select main_flash_def flash_kernel_part_def kernel_flash_def
        flash_ext4_kernel_def run_peek run_call copy_loop.simps progress_step_def closing_os_def example_os_def start_def Let_def)
qed

lemma block_example_fields:
  "flash_kernel (stop_step block_example_devices)" "\<not> flash_rootfs (stop_step block_example_devices)"
  "\<not> no_write (stop_step block_example_devices)" "kernel_flash_mode (stop_step block_example_devices) = TARBZ2"
  "kernel_filename (stop_step block_example_devices) \<noteq> kernel_device (stop_step block_example_devices)"
  "kernel_device (stop_step block_example_devices) = ''/dev/mmcblk0p1''"
  by (simp_all add: stop_step_def block_example_devices_def block_example_args_def args_defaults_def initial_gst_def)

text \<open>When closing succeeds the three bytes are delivered; when the disk is full (28) none is, with the same result.\<close>

theorem kernel_run_copies_file_witness:
  "\<exists>s0 s1. run_state (ofgwrite_main block_example (closing_os 0) id [''-kmmcblk0p1'', ''/img'']) start = (Go 0, s0)
    \<and> delivered ''/dev/mmcblk0p1'' [] (trace s0) = [1, 2, 3]
    \<and> run_state (ofgwrite_main block_example (closing_os (-28)) id [''-kmmcblk0p1'', ''/img'']) start = (Go 0, s1)
    \<and> delivered ''/dev/mmcblk0p1'' [] (trace s1) = []"
proof -
  have "delivered ''/dev/mmcblk0p1'' [] (trace s') = (if n = 0 then [1, 2, 3] else [])"
    if run: "run_state (ofgwrite_main block_example (closing_os n) id [''-kmmcblk0p1'', ''/img'']) start = (Go 0, s')"
      and only: "{r. (Fclose ''/dev/mmcblk0p1'', r) \<in> set (trace s')} = {n}" for n s'
  proof -
    obtain m es es' where m: "trace s' = es @ (Fclose ''/dev/mmcblk0p1'', m) # es'"
      "delivered ''/dev/mmcblk0p1'' [] (trace s') = (if m = 0 then [1, 2, 3] else [])"
      using kernel_run_copies_file [OF block_example_select block_example_fields(1-5) run [unfolded start_def]]
      by (auto simp: block_example_fields(6) closing_os_def example_os_def)
    then have "m = n"
      using only by auto
    then show ?thesis
      using m(2) by simp
  qed
  then show ?thesis
    using block_example_run [of 0] block_example_run [of "-28"] by force
qed

end
