(* ===== verification/FdiskGpt.thy ===== *)
theory FdiskGpt
  imports GptTable DeviceSelect UbiMedia
begin

text \<open>
  How busybox \<^verbatim>\<open>fdisk -l\<close>, as ofgwrite calls it, comes to the partitions \<^verbatim>\<open>gpt_list_table\<close> searches: the
  disks named in \<^verbatim>\<open>/proc/partitions\<close>, their sector size and geometry, and the GPT label
  (\<^verbatim>\<open>check_gpt_label\<close> of \<^verbatim>\<open>fdisk_gpt.c\<close> and the functions of \<^verbatim>\<open>fdisk.c\<close> around it). The checksums of the label
  are compared only for a warning and are left out, as the messages are.
\<close>

unbundle bit_operations_syntax

subsection \<open>The structures of the label\<close>

record gpt_header =
  gh_magic :: u64
  gh_revision :: u32
  gh_hdr_size :: u32
  gh_hdr_crc32 :: u32
  gh_reserved :: u32
  gh_current_lba :: u64
  gh_backup_lba :: u64
  gh_first_usable_lba :: u64
  gh_last_usable_lba :: u64
  gh_disk_guid :: "byte list"
  gh_first_part_lba :: u64
  gh_n_parts :: u32
  gh_part_entry_len :: u32
  gh_part_array_crc32 :: u32

record gpt_partition =
  pe_type_guid :: "byte list"
  pe_part_guid :: "byte list"
  pe_lba_start :: u64
  pe_lba_end :: u64
  pe_flags :: u64
  pe_name :: "u16 list"

definition gpt_header_of_bytes :: "byte list \<Rightarrow> gpt_header" where
  "gpt_header_of_bytes b =
     \<lparr>gh_magic = le_word (take 8 b), gh_revision = le_word (take 4 (drop 8 b)),
      gh_hdr_size = le_word (take 4 (drop 12 b)), gh_hdr_crc32 = le_word (take 4 (drop 16 b)),
      gh_reserved = le_word (take 4 (drop 20 b)), gh_current_lba = le_word (take 8 (drop 24 b)),
      gh_backup_lba = le_word (take 8 (drop 32 b)), gh_first_usable_lba = le_word (take 8 (drop 40 b)),
      gh_last_usable_lba = le_word (take 8 (drop 48 b)), gh_disk_guid = take 16 (drop 56 b),
      gh_first_part_lba = le_word (take 8 (drop 72 b)), gh_n_parts = le_word (take 4 (drop 80 b)),
      gh_part_entry_len = le_word (take 4 (drop 84 b)), gh_part_array_crc32 = le_word (take 4 (drop 88 b))\<rparr>"

definition gpt_partition_of_bytes :: "byte list \<Rightarrow> gpt_partition" where
  "gpt_partition_of_bytes b =
     \<lparr>pe_type_guid = take 16 b, pe_part_guid = take 16 (drop 16 b), pe_lba_start = le_word (take 8 (drop 32 b)),
      pe_lba_end = le_word (take 8 (drop 40 b)), pe_flags = le_word (take 8 (drop 48 b)),
      pe_name = map (\<lambda>k. le_word (take 2 (drop (56 + 2 * k) b))) [0..<36]\<rparr>"

definition GPT_MAGIC :: u64 where "GPT_MAGIC = 0x5452415020494645"
definition LEGACY_GPT_TYPE :: byte where "LEGACY_GPT_TYPE = 0xee"
definition GPT_MAX_PARTS :: int where "GPT_MAX_PARTS = 256"
definition GPT_MAX_PART_ENTRY_LEN :: int where "GPT_MAX_PART_ENTRY_LEN = 4096"

subsection \<open>Disks\<close>

text \<open>
  A disk: its bytes, and what it answers to \<^verbatim>\<open>HDIO_GETGEO\<close> (heads, sectors and start) and \<^verbatim>\<open>BLKSSZGET\<close>. And the
  environment of fdisk: the disks that can be opened, \<^verbatim>\<open>/proc/partitions\<close>, the first line of other files under
  \<^verbatim>\<open>/proc\<close>, the modes \<^verbatim>\<open>stat\<close> finds, what the memory behind an allocated array holds, and whether
  reading far behind a buffer ends the program.
\<close>

record disk =
  dk_bytes :: "byte list"
  dk_geo :: "(int \<times> int \<times> int) option"
  dk_ssz :: "int option"

record fdisk_env =
  fd_disk :: "string \<Rightarrow> disk option"
  fd_proc :: "string option"
  fd_line :: "string \<Rightarrow> string option"
  fd_mode :: "string \<Rightarrow> int option"
  fd_heap :: "nat \<Rightarrow> byte"
  fd_faults :: bool

definition valid_part_table_flag :: "byte list \<Rightarrow> bool" where
  "valid_part_table_flag mbuffer \<longleftrightarrow> mbuffer ! 510 = 0x55 \<and> mbuffer ! 511 = 0xAA"

text \<open>Field \<open>k\<close> of partition \<open>n\<close> of the MBR, as \<^verbatim>\<open>pt_offset\<close> finds it.\<close>

definition pt_field :: "byte list \<Rightarrow> nat \<Rightarrow> nat \<Rightarrow> byte" where
  "pt_field b n k = b ! (0x1be + n * 16 + k)"

text \<open>The loop of \<^verbatim>\<open>get_partition_table_geometry\<close>, with \<open>first\<close>, \<open>bad\<close>, \<open>hh\<close> and \<open>ss\<close>.\<close>

fun pt_loop :: "byte list \<Rightarrow> nat list \<Rightarrow> bool \<times> bool \<times> int \<times> int \<Rightarrow> bool \<times> bool \<times> int \<times> int" where
  "pt_loop m [] v = v"
| "pt_loop m (i # is) (first, bad, hh, ss) =
     (if pt_field m i 4 \<noteq> 0 then
        let h = uint (pt_field m i 5) + 1; s = uint (pt_field m i 6 AND 63)
        in if first then pt_loop m is (False, bad, h, s)
           else if hh \<noteq> h \<or> ss \<noteq> s then pt_loop m is (first, True, hh, ss)
           else pt_loop m is (first, bad, hh, ss)
      else pt_loop m is (first, bad, hh, ss))"

definition get_partition_table_geometry :: "byte list \<Rightarrow> int \<times> int" where
  "get_partition_table_geometry m =
     (if \<not> valid_part_table_flag m then (0, 0)
      else case pt_loop m [0, 1, 2, 3] (True, False, 0, 0) of
        (first, bad, hh, ss) \<Rightarrow> if \<not> first \<and> \<not> bad then (hh, ss) else (0, 0))"

definition get_sectorsize :: "disk \<Rightarrow> int \<Rightarrow> int" where
  "get_sectorsize d ss = (case dk_ssz d of None \<Rightarrow> ss | Some arg \<Rightarrow> c_uint arg)"

text \<open>
  \<^verbatim>\<open>get_geometry\<close> of a disk with this sector size; all that remains of it is whether its division is
  one by 0.
\<close>

definition get_geometry_divides :: "disk \<Rightarrow> byte list \<Rightarrow> int \<Rightarrow> bool" where
  "get_geometry_divides d m ss =
     (let (kh, ks) = (case dk_geo d of None \<Rightarrow> (0, 0) | Some (h, s, _) \<Rightarrow> (h, s));
          (ph, ps) = get_partition_table_geometry m;
          h = (if ph \<noteq> 0 then ph else if kh \<noteq> 0 then kh else 255);
          s = (if ps \<noteq> 0 then ps else if ks \<noteq> 0 then ks else 63)
      in c_uint (h * s * (ss div 512)) \<noteq> 0)"

text \<open>
  \<^verbatim>\<open>seek_sector\<close> and \<^verbatim>\<open>full_read\<close>: \<open>n\<close> bytes from a sector on, whose number is cut to the 32 bits of
  \<^verbatim>\<open>sector_t\<close>; \<open>None\<close> where \<^verbatim>\<open>fdisk_fatal\<close> jumps back to \<^verbatim>\<open>open_list_and_close\<close>.
\<close>

definition read_sectors :: "disk \<Rightarrow> int \<Rightarrow> int \<Rightarrow> nat \<Rightarrow> byte list option" where
  "read_sectors d ss secno n =
     (let off = c_uint secno * ss; b = take n (drop (nat off) (dk_bytes d))
      in if off \<ge> 2 ^ 63 \<or> off > int (length (dk_bytes d)) then None
         else if length b \<noteq> n then None else Some b)"

subsection \<open>The label\<close>

text \<open>\<^verbatim>\<open>gpt_part\<close>: entry \<open>i\<close> of the array, and what lies behind the array where the entry passes its end.\<close>

definition gpt_part :: "(nat \<Rightarrow> byte) \<Rightarrow> byte list \<Rightarrow> nat \<Rightarrow> nat \<Rightarrow> gpt_partition" where
  "gpt_part heap arr len i =
     gpt_partition_of_bytes (map (\<lambda>j. if j < length arr then arr ! j else heap (j - length arr)) [i * len..<i * len + 128])"

text \<open>
  What \<^verbatim>\<open>gpt_list_table\<close> looks at: \<^verbatim>\<open>lba_start\<close>, and the low bytes of 19 characters of the name. A name of
  19 characters leaves \<^verbatim>\<open>partname\<close> without its terminator; it differs from every name searched for all the same.
\<close>

definition part_view :: "gpt_partition \<Rightarrow> gpt_part" where
  "part_view p =
     \<lparr>gp_used = (pe_lba_start p \<noteq> 0),
      gp_name = map (\<lambda>w. char_of (unat (ucast w :: byte))) (takeWhile (\<lambda>w. ucast w \<noteq> (0 :: byte)) (take 19 (pe_name p)))\<rparr>"

text \<open>The partitions of a disk with a GPT label; \<open>None\<close> where it has none or cannot be read.\<close>

definition check_gpt_label :: "fdisk_env \<Rightarrow> disk \<Rightarrow> int \<Rightarrow> byte list \<Rightarrow> gpt_part list option flow" where
  "check_gpt_label F d ss m =
     (if \<not> valid_part_table_flag m \<or> pt_field m 0 4 \<noteq> LEGACY_GPT_TYPE then Go None
      else case read_sectors d ss 1 (nat ss) of
        None \<Rightarrow> Go None
      | Some sec \<Rightarrow>
          let hdr = gpt_header_of_bytes sec; n = uint (gh_n_parts hdr); len = uint (gh_part_entry_len hdr)
          in if gh_magic hdr \<noteq> GPT_MAGIC then Go None
             else if ss < uint (gh_hdr_size hdr) \<and> fd_faults F then Crash
             else if n > GPT_MAX_PARTS \<or> len > GPT_MAX_PART_ENTRY_LEN \<or> uint (gh_hdr_size hdr) > ss then Go None
             else case read_sectors d ss (uint (gh_first_part_lba hdr)) (nat (n * len)) of
               None \<Rightarrow> Go None
             | Some arr \<Rightarrow> Go (Some (map (\<lambda>i. part_view (gpt_part (fd_heap F) arr (nat len) i)) [0..<nat n])))"

text \<open>
  \<^verbatim>\<open>get_boot\<close> for a listing, with the sector size the disk before has left: the new sector size, and the partitions.
\<close>

definition get_boot :: "fdisk_env \<Rightarrow> string \<Rightarrow> int \<Rightarrow> (int \<times> gpt_part list option) flow" where
  "get_boot F device ss =
     (case fd_disk F device of
        None \<Rightarrow> Go (ss, None)
      | Some d \<Rightarrow>
          let m = take 512 (dk_bytes d); ss1 = get_sectorsize d ss
          in if length m \<noteq> 512 then Go (ss, None)
             else if \<not> get_geometry_divides d m ss1 then Crash
             else flow_bind (check_gpt_label F d ss1 m) (\<lambda>r. Go (ss1, r)))"

subsection \<open>fdisk -l\<close>

definition is_ide_cdrom_or_tape :: "fdisk_env \<Rightarrow> string \<Rightarrow> bool" where
  "is_ide_cdrom_or_tape F device =
     (if \<not> prefix ''/dev/hd'' device then False
      else case fd_line F (take 99 (''/proc/ide/'' @ drop 5 device @ ''/media'')) of
        Some buf \<Rightarrow> prefix ''cdrom'' buf \<or> prefix ''tape'' buf
      | None \<Rightarrow> (case fd_mode F device of None \<Rightarrow> False | Some mode \<Rightarrow> mode AND 146 = 0))"

definition c_isdigit :: "char \<Rightarrow> bool" where
  "c_isdigit c \<longleftrightarrow> is_digit_of 10 c"

definition is_whole_disk :: "fdisk_env \<Rightarrow> string \<Rightarrow> bool" where
  "is_whole_disk F disk =
     (case (case fd_disk F disk of None \<Rightarrow> None | Some d \<Rightarrow> dk_geo d) of
        Some (_, _, st) \<Rightarrow> st = 0
      | None \<Rightarrow> \<not> (disk \<noteq> [] \<and> c_isdigit (last disk)))"

text \<open>\<^verbatim>\<open>sscanf(line, " %u %u %u %[^\n ]", ...) == 4\<close>: the name.\<close>

definition scan_rest :: "(string \<Rightarrow> string option) \<Rightarrow> string \<Rightarrow> string option" where
  "scan_rest k s = (case scan_d s of Scan_int _ t \<Rightarrow> k t | _ \<Rightarrow> None)"

definition scan_name :: "string \<Rightarrow> string option" where
  "scan_name s =
     (let n = takeWhile (\<lambda>c. c \<noteq> CHR 0x0A \<and> c \<noteq> CHR '' '') (dropWhile c_isspace s)
      in if n = [] then None else Some n)"

definition partition_name :: "string \<Rightarrow> string option" where
  "partition_name line = scan_rest (scan_rest (scan_rest scan_name)) line"

definition open_list_and_close :: "fdisk_env \<Rightarrow> string \<Rightarrow> int \<times> gst \<Rightarrow> (int \<times> gst) flow" where
  "open_list_and_close F device v =
     (case v of (ss, g) \<Rightarrow>
        if is_ide_cdrom_or_tape F device then Go (ss, g)
        else flow_bind (get_boot F device ss)
          (\<lambda>(ss1, r). case r of
             None \<Rightarrow> Go (ss1, g)
           | Some parts \<Rightarrow> flow_bind (gpt_list_table device parts g) (\<lambda>g1. Go (ss1, g1))))"

fun list_devs :: "fdisk_env \<Rightarrow> string list \<Rightarrow> int \<times> gst \<Rightarrow> (int \<times> gst) flow" where
  "list_devs F [] v = Go v"
| "list_devs F (line # ls) v =
     (case partition_name line of
        None \<Rightarrow> list_devs F ls v
      | Some ptname \<Rightarrow>
          if is_whole_disk F (''/dev/'' @ ptname)
          then flow_bind (open_list_and_close F (''/dev/'' @ ptname) v) (list_devs F ls)
          else list_devs F ls v)"

definition list_devs_in_proc_partititons :: "fdisk_env \<Rightarrow> int \<times> gst \<Rightarrow> (int \<times> gst) flow" where
  "list_devs_in_proc_partititons F v =
     (case fd_proc F of None \<Rightarrow> Crash | Some s \<Rightarrow> list_devs F (c_lines 99 s) v)"

text \<open>\<^verbatim>\<open>fdisk_main\<close> with the arguments of ofgwrite; it returns 0.\<close>

definition fdisk_main :: "fdisk_env \<Rightarrow> gst \<Rightarrow> gst flow" where
  "fdisk_main F g = flow_bind (list_devs_in_proc_partititons F (512, g)) (\<lambda>(_, g1). Go g1)"

subsection \<open>The disks with a label, in one list\<close>

text \<open>
  The labels do not depend on what the search has found so far, so that all of them can be read
  before: the list \<open>e_gpt\<close> of the environment of the selection phase.
\<close>

definition listed_disks :: "fdisk_env \<Rightarrow> string list \<Rightarrow> string list" where
  "listed_disks F ls =
     filter (\<lambda>d. is_whole_disk F d \<and> \<not> is_ide_cdrom_or_tape F d) (map ((@) ''/dev/'') (List.map_filter partition_name ls))"

fun gpt_disks :: "fdisk_env \<Rightarrow> string list \<Rightarrow> int \<Rightarrow> (string \<times> gpt_part list) list option" where
  "gpt_disks F [] ss = Some []"
| "gpt_disks F (dev # devs) ss =
     (case get_boot F dev ss of
        Go (ss1, None) \<Rightarrow> gpt_disks F devs ss1
      | Go (ss1, Some parts) \<Rightarrow> map_option (Cons (dev, parts)) (gpt_disks F devs ss1)
      | _ \<Rightarrow> None)"

lemma listed_disks_simps [simp]:
  "listed_disks F [] = []"
  "partition_name line = None \<Longrightarrow> listed_disks F (line # ls) = listed_disks F ls"
  "partition_name line = Some pt \<Longrightarrow> listed_disks F (line # ls) =
     (if is_whole_disk F (''/dev/'' @ pt) \<and> \<not> is_ide_cdrom_or_tape F (''/dev/'' @ pt)
      then (''/dev/'' @ pt) # listed_disks F ls else listed_disks F ls)"
  by (simp_all add: listed_disks_def)

lemma flow_bind_assoc: "flow_bind (flow_bind m f) h = flow_bind m (\<lambda>x. flow_bind (f x) h)"
  by (cases m) simp_all

lemma list_devs_reads_first:
  "gpt_disks F (listed_disks F ls) ss = Some ds \<Longrightarrow> flow_bind (list_devs F ls (ss, g)) (\<lambda>(_, g1). Go g1) = fdisk_l ds g"
proof (induction ls arbitrary: ss ds g)
  case (Cons line ls)
  show ?case
  proof (cases "partition_name line")
    case None
    then show ?thesis
      using Cons by simp
  next
    case (Some pt)
    obtain dev where dev: "dev = ''/dev/'' @ pt"
      by blast
    show ?thesis
    proof (cases "is_whole_disk F dev \<and> \<not> is_ide_cdrom_or_tape F dev")
      case False
      then show ?thesis
        using Cons Some dev by (auto simp: open_list_and_close_def simp del: append.simps append_Cons)
    next
      case True
      then have ds: "gpt_disks F (dev # listed_disks F ls) ss = Some ds"
        and step: "list_devs F (line # ls) (ss, g) = flow_bind (open_list_and_close F dev (ss, g)) (list_devs F ls)"
        using Cons.prems Some dev by (simp_all del: append.simps append_Cons)
      obtain ss1 r where r: "get_boot F dev ss = Go (ss1, r)"
        using ds by (auto split: flow.splits)
      show ?thesis
        unfolding step using ds r True Cons.IH
        by (cases r) (auto simp: open_list_and_close_def flow_bind_assoc)
    qed
  qed
qed simp

lemma fdisk_main_reads_first:
  assumes "fd_proc F = Some s" "gpt_disks F (listed_disks F (c_lines 99 s)) 512 = Some ds"
  shows "fdisk_main F g = fdisk_l ds g"
  using list_devs_reads_first [OF assms(2)] assms(1)
  by (simp add: fdisk_main_def list_devs_in_proc_partititons_def)

end
