(* ===== verification/FdiskProps.thy ===== *)
theory FdiskProps
  imports FdiskGpt SelectProps
begin

text \<open>
  From the bytes of a disk to the devices chosen: the structures of the label are read as they are
  laid out, and \<^verbatim>\<open>fdisk -l\<close> finds the partitions by the names in the label.
\<close>

subsection \<open>The structures and their bytes\<close>

definition gpt_header_bytes :: "gpt_header \<Rightarrow> byte list" where
  "gpt_header_bytes h =
     le_bytes 8 (gh_magic h) @ le_bytes 4 (gh_revision h) @ le_bytes 4 (gh_hdr_size h) @ le_bytes 4 (gh_hdr_crc32 h)
     @ le_bytes 4 (gh_reserved h) @ le_bytes 8 (gh_current_lba h) @ le_bytes 8 (gh_backup_lba h)
     @ le_bytes 8 (gh_first_usable_lba h) @ le_bytes 8 (gh_last_usable_lba h) @ gh_disk_guid h
     @ le_bytes 8 (gh_first_part_lba h) @ le_bytes 4 (gh_n_parts h) @ le_bytes 4 (gh_part_entry_len h)
     @ le_bytes 4 (gh_part_array_crc32 h)"

definition gpt_partition_bytes :: "gpt_partition \<Rightarrow> byte list" where
  "gpt_partition_bytes p =
     pe_type_guid p @ pe_part_guid p @ le_bytes 8 (pe_lba_start p) @ le_bytes 8 (pe_lba_end p) @ le_bytes 8 (pe_flags p)
     @ concat (map (le_bytes 2) (pe_name p))"

definition wf_gpt_header :: "gpt_header \<Rightarrow> bool" where
  "wf_gpt_header h \<longleftrightarrow> length (gh_disk_guid h) = 16"

definition wf_gpt_partition :: "gpt_partition \<Rightarrow> bool" where
  "wf_gpt_partition p \<longleftrightarrow> length (pe_type_guid p) = 16 \<and> length (pe_part_guid p) = 16 \<and> length (pe_name p) = 36"

text \<open>Blocks of the same length one after the other.\<close>

lemma length_blocks: "(\<And>x. x \<in> set xs \<Longrightarrow> length (f x) = n) \<Longrightarrow> length (concat (map f xs)) = n * length xs"
  by (induction xs) simp_all

lemma take_drop_blocks:
  "(\<And>x. x \<in> set xs \<Longrightarrow> length (f x) = n) \<Longrightarrow> i < length xs \<Longrightarrow> take n (drop (i * n) (concat (map f xs))) = f (xs ! i)"
proof (induction xs arbitrary: i)
  case (Cons x xs)
  then show ?case
    by (cases i) simp_all
qed simp

lemma blocks_of_chunks:
  "n * m \<le> length b \<Longrightarrow> concat (map (\<lambda>k. take n (drop (n * k) b)) [0..<m]) = take (n * m) b"
proof (induction m)
  case (Suc m)
  then show ?case
    using take_chunk [of 0 "n * m" "n * m" b n] by (simp add: add.commute)
qed simp

lemma gpt_header_length: "wf_gpt_header h \<Longrightarrow> length (gpt_header_bytes h) = 92"
  by (simp add: wf_gpt_header_def gpt_header_bytes_def)

lemma gpt_header_read: "wf_gpt_header h \<Longrightarrow> gpt_header_of_bytes (gpt_header_bytes h @ rest) = h"
  unfolding gpt_header_of_bytes_def gpt_header_bytes_def wf_gpt_header_def
  by (rule gpt_header.equality) simp_all

lemma gpt_header_written:
  assumes "92 \<le> length b"
  shows "gpt_header_bytes (gpt_header_of_bytes b) = take 92 b"
  using assms le_bytes_chunk [where 'a = 64, of 8 0] le_bytes_chunk [where 'a = 32, of 4 8] le_bytes_chunk [where 'a = 32, of 4 12]
    le_bytes_chunk [where 'a = 32, of 4 16] le_bytes_chunk [where 'a = 32, of 4 20] le_bytes_chunk [where 'a = 64, of 8 24]
    le_bytes_chunk [where 'a = 64, of 8 32] le_bytes_chunk [where 'a = 64, of 8 40] le_bytes_chunk [where 'a = 64, of 8 48]
    le_bytes_chunk [where 'a = 64, of 8 72] le_bytes_chunk [where 'a = 32, of 4 80] le_bytes_chunk [where 'a = 32, of 4 84]
    le_bytes_chunk [where 'a = 32, of 4 88]
    take_chunk [of 0 8 8 b 84] take_chunk [of 8 4 12 b 80] take_chunk [of 12 4 16 b 76] take_chunk [of 16 4 20 b 72]
    take_chunk [of 20 4 24 b 68] take_chunk [of 24 8 32 b 60] take_chunk [of 32 8 40 b 52] take_chunk [of 40 8 48 b 44]
    take_chunk [of 48 8 56 b 36] take_chunk [of 56 16 72 b 20] take_chunk [of 72 8 80 b 12] take_chunk [of 80 4 84 b 8]
    take_chunk [of 84 4 88 b 4]
  by (simp only: gpt_header_bytes_def gpt_header_of_bytes_def gpt_header.simps drop_0 append_assoc) simp

interpretation gpth: codec wf_gpt_header gpt_header_bytes gpt_header_of_bytes 92
  by unfold_locales
    (simp_all add: gpt_header_read gpt_header_length gpt_header_written, simp add: wf_gpt_header_def gpt_header_of_bytes_def)

lemma gpt_partition_length: "wf_gpt_partition p \<Longrightarrow> length (gpt_partition_bytes p) = 128"
  using length_blocks [of "pe_name p" "le_bytes 2" 2] by (simp add: wf_gpt_partition_def gpt_partition_bytes_def)

lemma gpt_partition_read:
  assumes "wf_gpt_partition p"
  shows "gpt_partition_of_bytes (gpt_partition_bytes p @ rest) = p"
proof -
  have len: "length (pe_type_guid p) = 16" "length (pe_part_guid p) = 16" "length (pe_name p) = 36"
    using assms by (simp_all add: wf_gpt_partition_def)
  let ?b = "concat (map (le_bytes 2) (pe_name p))"
  have "take 2 (drop (2 * k) (?b @ rest)) = le_bytes 2 (pe_name p ! k)" if "k < 36" for k
    using take_drop_blocks [of "pe_name p" "le_bytes 2" 2 k] length_blocks [of "pe_name p" "le_bytes 2" 2] that len
    by (simp add: mult.commute)
  then have name: "map (\<lambda>k. le_word (take 2 (drop (2 * k) (?b @ rest)))) [0..<36] = pe_name p"
    using len by (intro nth_equalityI) simp_all
  show ?thesis
    using name len unfolding gpt_partition_of_bytes_def gpt_partition_bytes_def
    by (intro gpt_partition.equality) simp_all
qed

lemma gpt_partition_written:
  assumes "128 \<le> length b"
  shows "gpt_partition_bytes (gpt_partition_of_bytes b) = take 128 b"
proof -
  have "le_bytes 2 (le_word (take 2 (drop (56 + 2 * k) b)) :: u16) = take 2 (drop (2 * k) (drop 56 b))" if "k < 36" for k
    using le_bytes_chunk [where 'a = 16, of 2 "56 + 2 * k" b] that assms by (simp add: add.commute)
  then have m: "map (le_bytes 2) (map (\<lambda>k. le_word (take 2 (drop (56 + 2 * k) b)) :: u16) [0..<36])
      = map (\<lambda>k. take 2 (drop (2 * k) (drop 56 b))) [0..<36]"
    by simp
  then have "concat (map (le_bytes 2) (map (\<lambda>k. le_word (take 2 (drop (56 + 2 * k) b)) :: u16) [0..<36])) = take 72 (drop 56 b)"
    unfolding m using blocks_of_chunks [of 2 36 "drop 56 b"] assms by simp
  then show ?thesis
    using assms le_bytes_chunk [where 'a = 64, of 8 32] le_bytes_chunk [where 'a = 64, of 8 40] le_bytes_chunk [where 'a = 64, of 8 48]
      take_chunk [of 0 16 16 b 112] take_chunk [of 16 16 32 b 96] take_chunk [of 32 8 40 b 88] take_chunk [of 40 8 48 b 80]
      take_chunk [of 48 8 56 b 72]
    by (simp only: gpt_partition_bytes_def gpt_partition_of_bytes_def gpt_partition.simps drop_0 append_assoc) simp
qed

interpretation gptp: codec wf_gpt_partition gpt_partition_bytes gpt_partition_of_bytes 128
  by unfold_locales
    (simp_all add: gpt_partition_read gpt_partition_length gpt_partition_written, simp add: wf_gpt_partition_def gpt_partition_of_bytes_def)

subsection \<open>A disk with a label\<close>

text \<open>What a partitioning program leaves on a disk: a protective MBR, the header and the entries.\<close>

definition gpt_disk :: "byte list \<Rightarrow> int \<Rightarrow> gpt_header \<Rightarrow> gpt_partition list \<Rightarrow> bool" where
  "gpt_disk b ss h es \<longleftrightarrow>
     valid_part_table_flag b \<and> pt_field b 0 4 = LEGACY_GPT_TYPE
     \<and> take 92 (drop (nat ss) b) = gpt_header_bytes h \<and> wf_gpt_header h
     \<and> gh_magic h = GPT_MAGIC \<and> gh_hdr_size h = 92 \<and> gh_part_entry_len h = 128
     \<and> uint (gh_n_parts h) = int (length es) \<and> length es \<le> 256 \<and> list_all wf_gpt_partition es
     \<and> uint (gh_first_part_lba h) < 2 ^ 32 \<and> 2 * ss \<le> int (length b)
     \<and> take (128 * length es) (drop (nat (uint (gh_first_part_lba h) * ss)) b) = concat (map gpt_partition_bytes es)
     \<and> uint (gh_first_part_lba h) * ss + 128 * int (length es) \<le> int (length b)"

text \<open>Sector size and geometry as drivers report them.\<close>

definition sane_disk :: "disk \<Rightarrow> int \<Rightarrow> bool" where
  "sane_disk d ss \<longleftrightarrow> dk_ssz d = Some ss \<and> 512 \<le> ss \<and> ss \<le> 2 ^ 16
     \<and> (\<forall>h s st. dk_geo d = Some (h, s, st) \<longrightarrow> 0 \<le> h \<and> h < 256 \<and> 0 \<le> s \<and> s < 256)"

lemma pt_loop_range:
  assumes "pt_loop m is (f, bad, hh, ss) = (f', bad', hh', ss')" "f \<or> 1 \<le> hh \<and> hh \<le> 256 \<and> 0 \<le> ss \<and> ss \<le> 255"
  shows "f' \<or> 1 \<le> hh' \<and> hh' \<le> 256 \<and> 0 \<le> ss' \<and> ss' \<le> 255"
  using assms
proof (induction "is" arbitrary: f bad hh ss)
  case (Cons i "is")
  have "uint (pt_field m i 5) < 256" "uint (pt_field m i 6 AND 63) < 256"
    using uint_lt2p [of "pt_field m i 5"] uint_lt2p [of "pt_field m i 6 AND 63"] by simp_all
  then show ?case
    using Cons by (auto simp: Let_def split: if_splits)
qed simp

lemma get_geometry_never_0:
  assumes "sane_disk d ss"
  shows "get_geometry_divides d m ss"
proof -
  obtain ph ps where p: "get_partition_table_geometry m = (ph, ps)"
    by (cases "get_partition_table_geometry m")
  obtain f bad hh s where l: "pt_loop m [0, 1, 2, 3] (True, False, 0, 0) = (f, bad, hh, s)"
    by (cases "pt_loop m [0, 1, 2, 3] (True, False, 0, 0)")
  have pr: "0 \<le> ph" "ph \<le> 256" "0 \<le> ps" "ps \<le> 255"
    using p l pt_loop_range [OF l] by (auto simp: get_partition_table_geometry_def split: if_splits)
  obtain kh ks where k: "(case dk_geo d of None \<Rightarrow> (0, 0) | Some (h, s, _) \<Rightarrow> (h, s)) = (kh, ks)"
    by (cases "case dk_geo d of None \<Rightarrow> (0, 0) | Some (h, s, _) \<Rightarrow> (h, s)")
  have kr: "0 \<le> kh" "kh < 256" "0 \<le> ks" "ks < 256"
    using k assms by (auto simp: sane_disk_def split: option.splits)
  define h where "h = (if ph \<noteq> 0 then ph else if kh \<noteq> 0 then kh else 255)"
  define t where "t = (if ps \<noteq> 0 then ps else if ks \<noteq> 0 then ks else 63)"
  have r: "1 \<le> h" "h \<le> 256" "1 \<le> t" "t \<le> 256"
    using pr kr by (simp_all add: h_def t_def)
  have q: "1 \<le> ss div 512" "ss div 512 \<le> 2 ^ 7"
    using assms by (auto simp: sane_disk_def)
  have t: "h * t \<le> 256 * 256" "1 * 1 \<le> h * t"
    using r mult_mono [of h 256 t 256] mult_mono [of 1 h 1 t] by simp_all
  then have "h * t * (ss div 512) \<le> 256 * 256 * 2 ^ 7" "1 * 1 \<le> h * t * (ss div 512)"
    using q mult_mono [of "h * t" "256 * 256" "ss div 512" "2 ^ 7"] mult_mono [of 1 "h * t" 1 "ss div 512"] by simp_all
  then have "c_uint (h * t * (ss div 512)) \<noteq> 0"
    using r q by (auto simp: c_uint_def)
  then show ?thesis
    by (simp add: get_geometry_divides_def p k flip: h_def t_def)
qed

lemma length_entries:
  assumes "list_all wf_gpt_partition es"
  shows "length (concat (map gpt_partition_bytes es)) = 128 * length es"
  using assms gptp.length_enc by (intro length_blocks) (simp add: list_all_iff)

lemma gpt_part_entry:
  assumes "list_all wf_gpt_partition es" "i < length es"
  shows "gpt_part heap (concat (map gpt_partition_bytes es)) 128 i = es ! i"
proof -
  let ?arr = "concat (map gpt_partition_bytes es)"
  have "map (\<lambda>j. if j < length ?arr then ?arr ! j else heap (j - length ?arr)) [i * 128..<i * 128 + 128] = take 128 (drop (i * 128) ?arr)"
    using assms length_entries [OF assms(1)] by (intro nth_equalityI) simp_all
  also have "\<dots> = gpt_partition_bytes (es ! i)"
    using assms gptp.length_enc by (intro take_drop_blocks) (simp_all add: list_all_iff)
  finally show ?thesis
    using assms gptp.dec_enc [of "es ! i" "[]"] by (simp add: gpt_part_def list_all_length)
qed

lemma gpt_label_read:
  assumes "gpt_disk (dk_bytes d) ss h es" "512 \<le> ss" "ss \<le> 2 ^ 16" "512 \<le> length (dk_bytes d)"
  shows "check_gpt_label F d ss (take 512 (dk_bytes d)) = Go (Some (map part_view es))"
proof -
  let ?b = "dk_bytes d" and ?lba = "uint (gh_first_part_lba h)" and ?n = "length es"
  note g = assms(1) [unfolded gpt_disk_def]
  have flag: "valid_part_table_flag (take 512 ?b)" "pt_field (take 512 ?b) 0 4 = LEGACY_GPT_TYPE"
    using g assms(4) by (simp_all add: valid_part_table_flag_def pt_field_def)
  define sec where "sec = take (nat ss) (drop (nat ss) ?b)"
  have "take 92 sec = gpt_header_bytes h"
    using g assms(2) by (simp add: sec_def)
  then have "sec = gpt_header_bytes h @ drop 92 sec"
    by (metis append_take_drop_id)
  then have hdr: "gpt_header_of_bytes sec = h"
    using g gpth.dec_enc by metis
  have "nat ss + nat ss \<le> length ?b"
    using g assms(2) by linarith
  then have r1: "read_sectors d ss 1 (nat ss) = Some sec"
    using assms(2,3) by (auto simp: read_sectors_def sec_def c_uint_def Let_def)
  define arr where "arr = take (128 * ?n) (drop (nat (?lba * ss)) ?b)"
  have arr: "arr = concat (map gpt_partition_bytes es)"
    using g by (simp add: arr_def)
  have arr_len: "length arr = 128 * ?n"
    using g unfolding arr by (simp add: length_entries)
  have "?lba * ss \<le> 2 ^ 32 * 2 ^ 16"
    using g assms(2,3) by (intro mult_mono) simp_all
  then have "?lba * ss < 2 ^ 63" "0 \<le> ?lba * ss"
    using assms(2) by simp_all
  then have r2: "read_sectors d ss ?lba (nat (int ?n * 128)) = Some arr"
    using g arr_len by (simp add: read_sectors_def arr_def c_uint_def nat_mult_distrib mult.commute)
  have part: "gpt_part (fd_heap F) arr 128 i = es ! i" if "i < ?n" for i
    using g that unfolding arr by (intro gpt_part_entry) simp_all
  have "map (\<lambda>i. part_view (gpt_part (fd_heap F) arr 128 i)) [0..<?n] = map part_view es"
    by (intro nth_equalityI) (simp_all add: part)
  then show ?thesis
    using flag r1 r2 g assms(2) hdr
    by (simp add: check_gpt_label_def Let_def GPT_MAX_PARTS_def GPT_MAX_PART_ENTRY_LEN_def)
qed

lemma get_boot_label:
  assumes "fd_disk F dev = Some d" "sane_disk d ss" "gpt_disk (dk_bytes d) ss h es"
  shows "get_boot F dev ss0 = Go (ss, Some (map part_view es))"
proof -
  have ss: "dk_ssz d = Some ss" "512 \<le> ss" "ss \<le> 2 ^ 16"
    using assms(2) by (simp_all add: sane_disk_def)
  then have len: "512 \<le> length (dk_bytes d)"
    using assms(3) by (auto simp: gpt_disk_def)
  have "get_sectorsize d ss0 = ss"
    using ss by (simp add: get_sectorsize_def c_uint_def)
  then show ?thesis
    using gpt_label_read [OF assms(3) ss(2,3) len] get_geometry_never_0 [OF assms(2)] len assms(1)
    by (simp add: get_boot_def Let_def)
qed

text \<open>Disks that are passed over: they cannot be opened, are too short, or have no protective MBR.\<close>

definition unlabelled :: "fdisk_env \<Rightarrow> string \<Rightarrow> bool" where
  "unlabelled F dev \<longleftrightarrow>
     (case fd_disk F dev of
        None \<Rightarrow> True
      | Some d \<Rightarrow> length (dk_bytes d) < 512
          \<or> (\<exists>ss. sane_disk d ss) \<and> (\<not> valid_part_table_flag (dk_bytes d) \<or> pt_field (dk_bytes d) 0 4 \<noteq> LEGACY_GPT_TYPE))"

lemma get_boot_unlabelled:
  assumes "unlabelled F dev"
  obtains ss1 where "get_boot F dev ss = Go (ss1, None)"
proof (cases "\<exists>d. fd_disk F dev = Some d \<and> 512 \<le> length (dk_bytes d)")
  case False
  then show thesis
    by (intro that [of ss]) (auto simp: get_boot_def Let_def split: option.splits)
next
  case True
  then obtain d where d: "fd_disk F dev = Some d" "512 \<le> length (dk_bytes d)"
    by blast
  then obtain ss1 where ss: "sane_disk d ss1"
    and no: "\<not> valid_part_table_flag (dk_bytes d) \<or> pt_field (dk_bytes d) 0 4 \<noteq> LEGACY_GPT_TYPE"
    using assms by (auto simp: unlabelled_def)
  have "get_sectorsize d ss = ss1"
    using ss by (simp add: sane_disk_def get_sectorsize_def c_uint_def)
  moreover have "check_gpt_label F d ss1 (take 512 (dk_bytes d)) = Go None"
    using no d(2) by (auto simp: check_gpt_label_def valid_part_table_flag_def pt_field_def)
  ultimately show thesis
    using d get_geometry_never_0 [OF ss] by (intro that [of ss1]) (simp add: get_boot_def Let_def)
qed

lemma gpt_disks_unlabelled: "(\<And>d. d \<in> set devs \<Longrightarrow> unlabelled F d) \<Longrightarrow> gpt_disks F devs ss = Some []"
proof (induction devs arbitrary: ss)
  case (Cons d devs)
  obtain ss1 where "get_boot F d ss = Go (ss1, None)"
    using Cons.prems get_boot_unlabelled by (metis list.set_intros(1))
  then show ?case
    using Cons by simp
qed simp

lemma gpt_disks_one:
  assumes "fd_disk F dev = Some d" "sane_disk d ss" "gpt_disk (dk_bytes d) ss h es"
    and "\<And>d. d \<in> set pre \<Longrightarrow> unlabelled F d" "\<And>d. d \<in> set post \<Longrightarrow> unlabelled F d"
  shows "gpt_disks F (pre @ dev # post) ss0 = Some [(dev, map part_view es)]"
  using assms(4)
proof (induction pre arbitrary: ss0)
  case Nil
  then show ?case
    using get_boot_label [OF assms(1-3)] gpt_disks_unlabelled [of post F] assms(5) by simp
next
  case (Cons d' pre)
  obtain ss1 where "get_boot F d' ss0 = Go (ss1, None)"
    using Cons.prems get_boot_unlabelled by (metis list.set_intros(1))
  then show ?case
    using Cons by simp
qed

subsection \<open>The search by name\<close>

lemma gpt_first_skip:
  assumes "\<And>p. p \<in> set ps \<Longrightarrow> gp_used p \<Longrightarrow> \<not> kernel_match ns (gp_name p) \<and> \<not> rootfs_match ns (gp_name p)"
    and "\<not> user_kernel g" "\<not> user_rootfs g" "\<not> (fk \<and> fr)"
  shows "gpt_first_loop disk ns n (ps @ qs) fk fr g = gpt_first_loop disk ns (n + int (length ps)) qs fk fr g"
  using assms(1)
proof (induction ps arbitrary: n)
  case (Cons p ps)
  then show ?case
    using assms(2-4) by (auto simp: report_part_def forbidden_part_def add.assoc)
qed simp

text \<open>A table with one kernel and one rootfs partition, in whichever order.\<close>

definition named_once :: "string \<Rightarrow> gpt_part list \<Rightarrow> nat \<Rightarrow> bool" where
  "named_once name ps i \<longleftrightarrow> i < length ps \<and> (\<forall>k < length ps. gp_used (ps ! k) \<and> gp_name (ps ! k) = name \<longleftrightarrow> k = i)"

lemma named_once_split:
  assumes "named_once a ps i" "named_once b ps j" "i < j"
  obtains us vs ws where "ps = us @ ps ! i # vs @ ps ! j # ws" "length us = i" "length us + 1 + length vs = j"
    "\<And>p. p \<in> set us \<union> set vs \<Longrightarrow> gp_used p \<Longrightarrow> gp_name p \<noteq> a \<and> gp_name p \<noteq> b"
proof -
  have len: "i < length ps" "j < length ps"
    using assms by (simp_all add: named_once_def)
  let ?us = "take i ps" and ?vs = "take (j - Suc i) (drop (Suc i) ps)" and ?ws = "drop (Suc j) ps"
  have "drop (Suc i) ps = ?vs @ drop j ps"
    using assms(3) append_take_drop_id [of "j - Suc i" "drop (Suc i) ps"] by simp
  then have split: "ps = ?us @ ps ! i # ?vs @ ps ! j # ?ws"
    using len by (metis Cons_nth_drop_Suc append_take_drop_id)
  have "gp_name p \<noteq> a \<and> gp_name p \<noteq> b" if p: "p \<in> set ?us \<union> set ?vs" "gp_used p" for p
  proof -
    obtain k where "p = ps ! k" "k < length ps" "k \<noteq> i" "k \<noteq> j"
      using p(1) len assms(3) by (auto simp: in_set_conv_nth)
    then show ?thesis
      using assms(1,2) p(2) by (auto simp: named_once_def)
  qed
  then show thesis
    using split len assms(3) by (intro that [of ?us ?vs ?ws]) auto
qed

definition plain_names :: gpt_names where
  "plain_names = \<lparr>kernel_name = ''kernel'', rootfs_name = ''rootfs'', kernel_name_hd51 = '''', rootfs_name_hd51 = ''''\<rparr>"

lemma plain_match [simp]:
  "kernel_match plain_names x = (x = ''kernel'')" "rootfs_match plain_names x = (x = ''rootfs'')"
  by (simp_all add: kernel_match_def rootfs_match_def plain_names_def)

definition both_found :: "string \<Rightarrow> nat \<Rightarrow> nat \<Rightarrow> gst \<Rightarrow> bool" where
  "both_found disk i j g \<longleftrightarrow>
     found_kernel_device g \<and> kernel_flash_mode g = TARBZ2 \<and> kernel_device g = disk @ ''p'' @ fmt_d (int i + 1)
     \<and> found_rootfs_device g \<and> rootfs_flash_mode g = TARBZ2 \<and> rootfs_device g = disk @ ''p'' @ fmt_d (int j + 1)"

lemma report_keeps_user [simp]:
  "user_kernel (report_part d ns n x g) = user_kernel g" "user_rootfs (report_part d ns n x g) = user_rootfs g"
  by (simp_all add: report_part_def ext4_kernel_dev_found_def ext4_rootfs_dev_found_def found_kernel_at_def found_rootfs_at_def)

lemma gpt_first_two:
  assumes none: "\<And>p. p \<in> set us \<union> set vs \<Longrightarrow> gp_used p \<Longrightarrow> \<not> kernel_match ns (gp_name p) \<and> \<not> rootfs_match ns (gp_name p)"
    and at: "gp_used p" "gp_used q" "rootfs_match ns (gp_name p) = (\<not> kernel_match ns (gp_name p))"
      "kernel_match ns (gp_name q) = (\<not> kernel_match ns (gp_name p))" "rootfs_match ns (gp_name q) = kernel_match ns (gp_name p)"
    and g: "\<not> user_kernel g" "\<not> user_rootfs g"
  shows "gpt_first_loop disk ns n (us @ p # vs @ q # ws) False False g =
    Go (True, True, report_part disk ns (n + int (length us) + 1 + int (length vs)) (gp_name q)
      (report_part disk ns (n + int (length us)) (gp_name p) g))"
proof -
  define g1 where "g1 = report_part disk ns (n + int (length us)) (gp_name p) g"
  have g1: "\<not> user_kernel g1" "\<not> user_rootfs g1"
    using g by (simp_all add: g1_def)
  have "gpt_first_loop disk ns n (us @ p # vs @ q # ws) False False g
      = gpt_first_loop disk ns (n + int (length us)) (p # vs @ q # ws) False False g"
    using none g by (intro gpt_first_skip) auto
  also have "\<dots> = gpt_first_loop disk ns (n + int (length us) + 1) (vs @ q # ws)
      (kernel_match ns (gp_name p)) (\<not> kernel_match ns (gp_name p)) g1"
    using at g1 by (simp add: forbidden_part_def Let_def flip: g1_def)
  also have "\<dots> = gpt_first_loop disk ns (n + int (length us) + 1 + int (length vs)) (q # ws)
      (kernel_match ns (gp_name p)) (\<not> kernel_match ns (gp_name p)) g1"
    using none g1 by (intro gpt_first_skip) auto
  finally show ?thesis
    using at g1 by (simp add: forbidden_part_def Let_def flip: g1_def)
qed

lemma gpt_first_by_name:
  assumes "named_once ''kernel'' ps i" "named_once ''rootfs'' ps j" "\<not> user_kernel g" "\<not> user_rootfs g"
  obtains g' where "gpt_first_loop disk plain_names 1 ps False False g = Go (True, True, g')" "both_found disk i j g'"
proof -
  have at: "gp_used (ps ! i)" "gp_name (ps ! i) = ''kernel''" "gp_used (ps ! j)" "gp_name (ps ! j) = ''rootfs''"
    using assms(1,2) by (auto simp: named_once_def)
  then have "i \<noteq> j"
    by auto
  note found = report_part_def ext4_kernel_dev_found_def ext4_rootfs_dev_found_def found_kernel_at_def found_rootfs_at_def
    both_found_def
  consider "i < j" | "j < i"
    using \<open>i \<noteq> j\<close> by linarith
  then show thesis
  proof cases
    case 1
    obtain us vs ws where s: "ps = us @ ps ! i # vs @ ps ! j # ws" "length us = i" "length us + 1 + length vs = j"
      "\<And>p. p \<in> set us \<union> set vs \<Longrightarrow> gp_used p \<Longrightarrow> gp_name p \<noteq> ''kernel'' \<and> gp_name p \<noteq> ''rootfs''"
      using named_once_split [OF assms(1,2) 1] by blast
    have "gpt_first_loop disk plain_names 1 ps False False g = Go (True, True,
        report_part disk plain_names (int j + 1) (gp_name (ps ! j)) (report_part disk plain_names (int i + 1) (gp_name (ps ! i)) g))"
      using gpt_first_two [of us vs plain_names "ps ! i" "ps ! j" g disk 1 ws] s(2,4) at assms(3,4)
      by (subst s(1)) (simp add: algebra_simps flip: s(3))
    then show thesis
      using at by (intro that) (auto simp: found)
  next
    case 2
    obtain us vs ws where s: "ps = us @ ps ! j # vs @ ps ! i # ws" "length us = j" "length us + 1 + length vs = i"
      "\<And>p. p \<in> set us \<union> set vs \<Longrightarrow> gp_used p \<Longrightarrow> gp_name p \<noteq> ''rootfs'' \<and> gp_name p \<noteq> ''kernel''"
      using named_once_split [OF assms(2,1) 2] by blast
    have "gpt_first_loop disk plain_names 1 ps False False g = Go (True, True,
        report_part disk plain_names (int i + 1) (gp_name (ps ! i)) (report_part disk plain_names (int j + 1) (gp_name (ps ! j)) g))"
      using gpt_first_two [of us vs plain_names "ps ! j" "ps ! i" g disk 1 ws] s(2,4) at assms(3,4)
      by (subst s(1)) (simp add: algebra_simps flip: s(3))
    then show thesis
      using at by (intro that) (auto simp: found)
  qed
qed

text \<open>
  Property C28. From the bytes of the disk to the devices: when one of the disks in \<^verbatim>\<open>/proc/partitions\<close> has a GPT label
  with exactly one partition named kernel and one named rootfs, in the form the standard gives a label, with any
  sector size, number and order of entries, and the others have no label, then the search of \<^verbatim>\<open>fdisk -l\<close>
  succeeds and selects these two partitions, numbered from 1, when the user names no slot.
\<close>

theorem gpt_devices_from_disk:
  assumes "fd_proc F = Some s" "listed_disks F (c_lines 99 s) = pre @ dev # post"
    and "\<And>d. d \<in> set pre \<union> set post \<Longrightarrow> unlabelled F d"
    and "fd_disk F dev = Some d" "sane_disk d ss" "gpt_disk (dk_bytes d) ss h es"
    and "named_once ''kernel'' (map part_view es) i" "named_once ''rootfs'' (map part_view es) j"
    and "multiboot_partition g = -1" "\<not> user_kernel g" "\<not> user_rootfs g"
  shows "\<exists>g'. fdisk_main F g = Go g' \<and> both_found dev i j g'"
proof -
  have "gpt_disks F (listed_disks F (c_lines 99 s)) 512 = Some [(dev, map part_view es)]"
    unfolding assms(2) using assms(3) by (intro gpt_disks_one [OF assms(4-6)]) auto
  then have "fdisk_main F g = flow_bind (gpt_list_table dev (map part_view es) g) (fdisk_l [])"
    using fdisk_main_reads_first [OF assms(1)] by simp
  moreover obtain g' where "gpt_first_loop dev plain_names 1 (map part_view es) False False g = Go (True, True, g')" "both_found dev i j g'"
    using gpt_first_by_name [OF assms(7,8,10,11)] by blast
  ultimately show ?thesis
    using assms(9) by (simp add: gpt_list_table_def first_names_def plain_names_def)
qed

text \<open>A disk with the rootfs partition in front of the kernel partition.\<close>

definition example_entry :: "string \<Rightarrow> u64 \<Rightarrow> gpt_partition" where
  "example_entry name lba =
     \<lparr>pe_type_guid = replicate 16 1, pe_part_guid = replicate 16 2, pe_lba_start = lba, pe_lba_end = lba + 9, pe_flags = 0,
      pe_name = map (\<lambda>c. of_nat (of_char c)) name @ replicate (36 - length name) 0\<rparr>"

definition example_entries :: "gpt_partition list" where
  "example_entries = [example_entry ''rootfs'' 40, example_entry '''' 0, example_entry ''kernel'' 50]"

definition example_header :: gpt_header where
  "example_header =
     \<lparr>gh_magic = GPT_MAGIC, gh_revision = 65536, gh_hdr_size = 92, gh_hdr_crc32 = 0, gh_reserved = 0, gh_current_lba = 1,
      gh_backup_lba = 99, gh_first_usable_lba = 34, gh_last_usable_lba = 66, gh_disk_guid = replicate 16 3,
      gh_first_part_lba = 2, gh_n_parts = 3, gh_part_entry_len = 128, gh_part_array_crc32 = 0\<rparr>"

definition example_mbr :: "byte list" where
  "example_mbr = replicate 450 0 @ [0xEE] @ replicate 59 0 @ [0x55, 0xAA]"

definition example_disk :: disk where
  "example_disk =
     \<lparr>dk_bytes = example_mbr @ gpt_header_bytes example_header @ replicate 420 0 @ concat (map gpt_partition_bytes example_entries),
      dk_geo = Some (4, 16, 0), dk_ssz = Some 512\<rparr>"

definition example_fdisk :: fdisk_env where
  "example_fdisk =
     \<lparr>fd_disk = (\<lambda>d. if d = ''/dev/mmcblk0'' then Some example_disk else None),
      fd_proc = Some (''major minor #blocks name'' @ [CHR 0x0A, CHR 0x0A] @ ''179 0 100 mmcblk0'' @ [CHR 0x0A]),
      fd_line = (\<lambda>_. None), fd_mode = (\<lambda>_. None), fd_heap = (\<lambda>_. 0), fd_faults = True\<rparr>"

lemma example_disk_label: "gpt_disk (dk_bytes example_disk) 512 example_header example_entries"
proof -
  have wf: "list_all wf_gpt_partition example_entries" "wf_gpt_header example_header"
    by (simp_all add: wf_gpt_partition_def example_entries_def example_entry_def wf_gpt_header_def example_header_def)
  then have len: "length (concat (map gpt_partition_bytes example_entries)) = 384" "length (gpt_header_bytes example_header) = 92"
    by (simp_all add: example_entries_def gptp.length_enc gpth.length_enc)
  have mbr: "length example_mbr = 512" "example_mbr ! 510 = 0x55" "example_mbr ! 511 = 0xAA" "example_mbr ! 450 = 0xEE"
    by (simp_all add: example_mbr_def nth_append)
  show ?thesis
    using wf len mbr
    by (simp add: gpt_disk_def valid_part_table_flag_def pt_field_def example_disk_def nth_append LEGACY_GPT_TYPE_def)
      (simp add: example_header_def example_entries_def)
qed

lemma example_listed: "listed_disks example_fdisk (c_lines 99 (the (fd_proc example_fdisk))) = [''/dev/mmcblk0'']"
proof -
  have l: "c_lines 99 (the (fd_proc example_fdisk)) = [''major minor #blocks name'' @ [CHR 0x0A], [CHR 0x0A], ''179 0 100 mmcblk0'' @ [CHR 0x0A]]"
    by (simp add: example_fdisk_def c_lines.simps line_len_def numeral_eq_Suc)
  have n: "partition_name (''major minor #blocks name'' @ [CHR 0x0A]) = None" "partition_name [CHR 0x0A] = None"
    "partition_name (''179 0 100 mmcblk0'' @ [CHR 0x0A]) = Some ''mmcblk0''"
    by (simp_all add: partition_name_def scan_rest_def scan_name_def scan_defs of_char_def)
  show ?thesis
    unfolding l by (simp only: listed_disks_simps n) (simp add: is_whole_disk_def is_ide_cdrom_or_tape_def example_fdisk_def example_disk_def)
qed

theorem gpt_devices_from_disk_witness:
  "\<exists>g'. fdisk_main example_fdisk (initial_gst\<lparr>multiboot_partition := -1\<rparr>) = Go g'
    \<and> kernel_device g' = ''/dev/mmcblk0p3'' \<and> rootfs_device g' = ''/dev/mmcblk0p1''"
proof -
  have "\<exists>g'. fdisk_main example_fdisk (initial_gst\<lparr>multiboot_partition := -1\<rparr>) = Go g' \<and> both_found ''/dev/mmcblk0'' 2 0 g'"
  proof (rule gpt_devices_from_disk [OF _ _ _ _ _ example_disk_label])
    show "fd_proc example_fdisk = Some (the (fd_proc example_fdisk))"
      by (simp add: example_fdisk_def)
    show "listed_disks example_fdisk (c_lines 99 (the (fd_proc example_fdisk))) = [] @ ''/dev/mmcblk0'' # []"
      by (simp add: example_listed)
    show "fd_disk example_fdisk ''/dev/mmcblk0'' = Some example_disk" "sane_disk example_disk 512"
      by (simp_all add: example_fdisk_def sane_disk_def example_disk_def)
    have v: "map part_view example_entries = [\<lparr>gp_used = True, gp_name = ''rootfs''\<rparr>, \<lparr>gp_used = False, gp_name = ''''\<rparr>,
        \<lparr>gp_used = True, gp_name = ''kernel''\<rparr>]"
      by (simp add: part_view_def example_entries_def example_entry_def of_char_def) (simp add: char_of_def bit_0)
    show "named_once ''kernel'' (map part_view example_entries) 2" "named_once ''rootfs'' (map part_view example_entries) 0"
      unfolding v by (auto simp: named_once_def nth_Cons split: nat.splits)
  qed (simp_all add: initial_gst_def)
  then show ?thesis
    by (auto simp: both_found_def fmt_d_digits)
qed

end
