(* ===== verification/UbiUtils.thy ===== *)
theory UbiUtils
  imports Ubiformat
begin

text \<open>
  The helpers of \<^verbatim>\<open>ubiutils-common.c\<close> that print, what they print as strings, and the seed of the random
  numbers; and the numbers in the list of bad eraseblocks that \<^verbatim>\<open>ubiformat.c\<close> prints.
\<close>

subsection \<open>Folding text\<close>

text \<open>
  The first inner loop of \<^verbatim>\<open>ubiutils_print_text\<close>: copying a word to the line, which is printed
  whenever it is full. The results are the lines printed, the line so far and the text at \<^verbatim>\<open>p + pos\<close>.
\<close>

fun word_loop :: "int \<Rightarrow> string \<Rightarrow> string \<Rightarrow> string list \<times> string \<times> string" where
  "word_loop width line [] = ([], line, [])"
| "word_loop width line (c # s) =
     (if c_isspace c then ([], line, c # s)
      else if int (length line) + 1 = width then
        (case word_loop width [] s of (ls, line', rest) \<Rightarrow> ((line @ [c]) # ls, line', rest))
      else word_loop width (line @ [c]) s)"

text \<open>The second one looks for the last place to break: the final value of \<^verbatim>\<open>bpos\<close>.\<close>

fun break_loop :: "int \<Rightarrow> nat \<Rightarrow> string \<Rightarrow> nat \<Rightarrow> nat" where
  "break_loop width pos [] bpos = (if int pos < width then pos else bpos)"
| "break_loop width pos (c # s) bpos =
     (if int pos < width then break_loop width (Suc pos) s (if c_isspace c then pos else bpos) else bpos)"

partial_function (option) fold_loop :: "int \<Rightarrow> nat \<Rightarrow> string \<Rightarrow> string list option" where
  "fold_loop width bpos text =
     (if text = [] then Some []
      else case word_loop width [] text of (ls, line, rest) \<Rightarrow>
        let b = break_loop width (length line) rest bpos; p = line @ rest
        in do {
          out \<leftarrow> fold_loop width b (dropWhile c_isspace (drop b p));
          Some (ls @ take b p # out)
        })"

text \<open>The lines printed; \<open>None\<close> stands for printing without an end.\<close>

definition ubiutils_print_text :: "string \<Rightarrow> int \<Rightarrow> string list option" where
  "ubiutils_print_text text width = (if width > 1023 then Some [text] else fold_loop width 0 text)"

lemma word_loop_parts:
  assumes "word_loop w line s = (ls, line', rest)" "int (length line) < w"
  shows "concat ls @ line' @ rest = line @ s" "\<forall>l \<in> set ls. int (length l) = w" "int (length line') < w"
    "rest = [] \<or> c_isspace (hd rest)"
proof -
  have "concat ls @ line' @ rest = line @ s \<and> (\<forall>l \<in> set ls. int (length l) = w) \<and> int (length line') < w
      \<and> (rest = [] \<or> c_isspace (hd rest))"
    using assms
  proof (induction s arbitrary: line ls)
    case (Cons c s)
    consider "c_isspace c" | "\<not> c_isspace c" "int (length line) + 1 = w" | "\<not> c_isspace c" "int (length line) + 1 < w"
      using Cons.prems(2) by linarith
    then show ?case
    proof cases
      case 2
      obtain ls1 where w: "word_loop w [] s = (ls1, line', rest)" "ls = (line @ [c]) # ls1"
        using Cons.prems 2 by (auto split: prod.splits)
      then show ?thesis
        using Cons.IH [OF w(1)] 2 by simp
    next
      case 3
      then have "word_loop w (line @ [c]) s = (ls, line', rest)"
        using Cons.prems by simp
      then show ?thesis
        using Cons.IH [of "line @ [c]" ls] 3 by simp
    qed (use Cons.prems in auto)
  qed simp
  then show "concat ls @ line' @ rest = line @ s" "\<forall>l \<in> set ls. int (length l) = w" "int (length line') < w"
    "rest = [] \<or> c_isspace (hd rest)"
    by simp_all
qed

lemma break_loop_range:
  "int pos \<le> w \<Longrightarrow> bpos \<le> pos \<Longrightarrow>
    (break_loop w pos s bpos = bpos \<or> pos \<le> break_loop w pos s bpos)
    \<and> int (break_loop w pos s bpos) \<le> w \<and> break_loop w pos s bpos \<le> pos + length s"
proof (induction s arbitrary: pos bpos)
  case (Cons c s)
  show ?case
  proof (cases "int pos < w")
    case True
    then show ?thesis
      using Cons.IH [of "Suc pos" "if c_isspace c then pos else bpos"] Cons.prems by (auto split: if_splits)
  next
    case False
    then show ?thesis
      using Cons.prems by simp
  qed
qed auto

text \<open>Behind a word the place to break is found anew, and something is printed or skipped.\<close>

lemma break_after_word:
  assumes "int pos < w" "rest = [] \<or> c_isspace (hd rest)"
  shows "pos \<le> break_loop w pos rest bpos" "int (break_loop w pos rest bpos) \<le> w"
    "break_loop w pos rest bpos \<le> pos + length rest"
  using assms break_loop_range [of "Suc pos" w pos "tl rest"] by (cases rest; auto)+

lemma fold_progress:
  assumes "word_loop w [] s = (ls, line, rest)" "0 < w" "s \<noteq> []" "b = break_loop w (length line) rest bpos"
  shows "length (dropWhile c_isspace (drop b (line @ rest))) < length s"
proof -
  note parts = word_loop_parts [OF assms(1)]
  have w: "concat ls @ line @ rest = s" "int (length line) < w" "rest = [] \<or> c_isspace (hd rest)"
    using parts assms(2) by simp_all
  note b = break_after_word [OF w(2,3), of bpos, folded assms(4)]
  have len: "length s = length (concat ls) + length line + length rest"
    using arg_cong [OF w(1), of length] by simp
  have le: "length (dropWhile c_isspace (drop b (line @ rest))) \<le> length line + length rest - b"
    using length_dropWhile_le [of c_isspace "drop b (line @ rest)"] by simp
  show ?thesis
  proof (cases "b = 0")
    case False
    then show ?thesis
      using le len b(3) by linarith
  next
    case True
    then have "line = []"
      using b(1) by simp
    show ?thesis
    proof (cases rest)
      case Nil
      have "ls \<noteq> [] \<and> concat ls \<noteq> []"
        using w(1) assms(3) Nil \<open>line = []\<close> by auto
      then show ?thesis
        using le len Nil \<open>line = []\<close> by (cases "concat ls") auto
    next
      case (Cons c cs)
      then have "length (dropWhile c_isspace (drop b (line @ rest))) \<le> length cs"
        using w(3) True \<open>line = []\<close> length_dropWhile_le [of c_isspace cs] by simp
      then show ?thesis
        using len Cons by simp
    qed
  qed
qed

definition words_of :: "string \<Rightarrow> string" where
  "words_of s = filter (\<lambda>c. \<not> c_isspace c) s"

lemma words_of_append [simp]: "words_of (a @ b) = words_of a @ words_of b"
  by (simp add: words_of_def)

lemma words_of_dropWhile [simp]: "words_of (dropWhile c_isspace s) = words_of s"
  by (induction s) (simp_all add: words_of_def)

text \<open>
  With a positive width the folding ends; no line is longer than the width, and the lines have the
  characters of the text in order, but for white space.
\<close>

theorem fold_text_lines:
  assumes "0 < width" "width \<le> 1023"
  shows "\<exists>ls. ubiutils_print_text s width = Some ls \<and> (\<forall>l \<in> set ls. int (length l) \<le> width)
    \<and> words_of (concat ls) = words_of s"
proof -
  have "\<exists>ls. fold_loop width bpos s = Some ls \<and> (\<forall>l \<in> set ls. int (length l) \<le> width) \<and> words_of (concat ls) = words_of s" for bpos
  proof (induction "length s" arbitrary: s bpos rule: less_induct)
    case less
    show ?case
    proof (cases "s = []")
      case False
      obtain ls line rest where w: "word_loop width [] s = (ls, line, rest)"
        by (cases "word_loop width [] s")
      define b where "b = break_loop width (length line) rest bpos"
      note parts = word_loop_parts [OF w, simplified, OF assms(1)]
      note b = break_after_word [OF parts(3,4), of bpos, folded b_def]
      obtain out where out: "fold_loop width b (dropWhile c_isspace (drop b (line @ rest))) = Some out"
        "\<forall>l \<in> set out. int (length l) \<le> width" "words_of (concat out) = words_of (drop b (line @ rest))"
        using less [OF fold_progress [OF w assms(1) False b_def], of b] by auto
      have "fold_loop width bpos s = Some (ls @ take b (line @ rest) # out)"
        using False w out(1) by (subst fold_loop.simps) (simp add: Let_def flip: b_def)
      moreover have "\<forall>l \<in> set (ls @ take b (line @ rest) # out). int (length l) \<le> width"
        using parts(2) b(2) out(2) by auto
      moreover have "words_of (take b (line @ rest)) @ words_of (drop b (line @ rest)) = words_of (line @ rest)"
        by (simp only: append_take_drop_id flip: words_of_append)
      then have "words_of (concat (ls @ take b (line @ rest) # out)) = words_of (concat ls @ line @ rest)"
        using out(3) by (simp del: take_append drop_append)
      ultimately show ?thesis
        unfolding parts(1) by blast
    qed (simp add: fold_loop.simps)
  qed
  then show ?thesis
    using assms by (simp add: ubiutils_print_text_def)
qed

text \<open>A text that fills its line leaves an empty line behind.\<close>

theorem fold_text_lines_witness:
  "\<exists>ls. ubiutils_print_text ''a tool'' 4 = Some ls \<and> (\<forall>l \<in> set ls. length l \<le> 4) \<and> words_of (concat ls) = ''atool''"
proof -
  have "\<exists>ls. ubiutils_print_text ''a tool'' 4 = Some ls \<and> (\<forall>l \<in> set ls. int (length l) \<le> 4) \<and> words_of (concat ls) = words_of ''a tool''"
    by (rule fold_text_lines) simp_all
  then show ?thesis
    by (simp add: words_of_def c_isspace_def)
qed

subsection \<open>Printing sizes\<close>

text \<open>Division to the nearest integer, ties to the even one, as the floating-point unit and \<^verbatim>\<open>printf\<close> round.\<close>

definition round_even :: "int \<Rightarrow> int \<Rightarrow> int" where
  "round_even n d = (if 2 * (n mod d) < d \<or> 2 * (n mod d) = d \<and> even (n div d) then n div d else n div d + 1)"

text \<open>A positive number as a \<^verbatim>\<open>double\<close>, which has 53 bits.\<close>

fun excess_bits :: "int \<Rightarrow> nat" where
  "excess_bits n = (if n < 2 ^ 53 then 0 else Suc (excess_bits (n div 2)))"

definition to_double :: "int \<Rightarrow> int" where
  "to_double n = round_even n (2 ^ excess_bits n) * 2 ^ excess_bits n"

definition tenths :: "int \<Rightarrow> int \<Rightarrow> int" where
  "tenths bytes unit = round_even (10 * to_double bytes) unit"

definition fmt_1f :: "int \<Rightarrow> string" where
  "fmt_1f t = fmt_d (t div 10) @ ''.'' @ fmt_d (t mod 10)"

definition ubiutils_print_bytes :: "int \<Rightarrow> bool \<Rightarrow> string" where
  "ubiutils_print_bytes bytes bracket =
     (let p = (if bracket then '' ('' else '', ''); close = (if bracket then '')'' else '''');
          exact = fmt_d bytes @ '' bytes''
      in if bytes > 1024 * 1024 * 1024 then exact @ p @ fmt_1f (tenths bytes (1024 * 1024 * 1024)) @ '' GiB'' @ close
         else if bytes > 1024 * 1024 then exact @ p @ fmt_1f (tenths bytes (1024 * 1024)) @ '' MiB'' @ close
         else if bytes > 1024 then exact @ p @ fmt_1f (tenths bytes 1024) @ '' KiB'' @ close
         else exact)"

lemma round_even_near:
  assumes "0 < d"
  shows "2 * \<bar>n - round_even n d * d\<bar> \<le> d"
proof -
  have n: "n = n div d * d + n mod d" "0 \<le> n mod d" "n mod d < d"
    using assms by simp_all
  show ?thesis
  proof (cases "round_even n d = n div d")
    case True
    then have "2 * (n mod d) \<le> d"
      by (auto simp: round_even_def split: if_splits)
    moreover have "n - round_even n d * d = n mod d"
      by (simp add: True minus_div_mult_eq_mod)
    ultimately show ?thesis
      using n(2) by simp
  next
    case False
    then have "d \<le> 2 * (n mod d)" "round_even n d = n div d + 1"
      by (auto simp: round_even_def split: if_splits)
    moreover from this have "n - round_even n d * d = n mod d - d"
      using minus_div_mult_eq_mod [of n d] by (simp add: distrib_right)
    ultimately show ?thesis
      using n(3) by simp
  qed
qed

text \<open>Up to \<open>2\<^sup>5\<^sup>3\<close> bytes the size printed is off by half of the last digit at most.\<close>

lemma printed_size_near:
  assumes "bytes < 2 ^ 53" "0 < unit"
  shows "2 * \<bar>10 * bytes - tenths bytes unit * unit\<bar> \<le> unit"
proof -
  have "to_double bytes = bytes"
    using assms(1) by (simp add: to_double_def round_even_def)
  then show ?thesis
    using round_even_near [OF assms(2)] by (simp add: tenths_def)
qed

lemma print_bytes_example: "ubiutils_print_bytes 1310720 True = ''1310720 bytes (1.2 MiB)''"
  by (simp add: ubiutils_print_bytes_def tenths_def to_double_def round_even_def fmt_1f_def fmt_d_def print_nat_def digits_rev.simps
      digit_char_def char_of_def bit_0)

subsection \<open>The seed\<close>

text \<open>
  \<^verbatim>\<open>ubiutils_srand\<close>: the result, and the seed for \<^verbatim>\<open>srand\<close>; the arguments are what \<^verbatim>\<open>gettimeofday\<close> and
  \<^verbatim>\<open>getpid\<close> answer.
\<close>

definition RAND_MAX :: u32 where "RAND_MAX = 2147483647"

definition ubiutils_srand :: "(int \<times> int) option \<Rightarrow> int \<Rightarrow> int \<times> u32 option" where
  "ubiutils_srand tv pid =
     (case tv of
        None \<Rightarrow> (-1, None)
      | Some (sec, usec) \<Rightarrow> (0, Some ((word_of_int sec + word_of_int usec) * word_of_int pid mod RAND_MAX)))"

subsection \<open>The list of bad eraseblocks\<close>

text \<open>The numbers are those of the eraseblocks that the scan found bad, in order.\<close>

lemma bad_numbers_list:
  "bad_numbers ec ebs first =
     (case filter (\<lambda>eb. ec ! nat eb = EB_BAD) ebs of
        [] \<Rightarrow> ''''
      | b # bs \<Rightarrow> (if first then fmt_d b else '', '' @ fmt_d b) @ concat (map (\<lambda>b. '', '' @ fmt_d b) bs))"
  by (induction ebs arbitrary: first) (auto split: list.splits)

end
