(* ===== verification/Spec2Isabelle.thy ===== *)
theory Spec2Isabelle
  imports UbiformatProps LibmtdProps LibmtdImage LibmtdInfoProps UbiControlProps UbiUpdateProps SelectMain BootProps MountProps NfiProps NandwritePlace FlashcpProps FramebufferInit FlashTargets KernelRun RootfsRun BlockRun FdiskProps UbiUtils
begin

text \<open>
  A verification library for \<^verbatim>\<open>ofgwrite\<close>, the program that flashes image files to the flash
  partitions and block devices of set-top boxes, also those the running system is on.

  \<^bold>\<open>The program.\<close> \<^verbatim>\<open>main\<close> (\<^verbatim>\<open>ofgwrite.c\<close>) reads its command line and the image directory, finds out
  which devices kernel and rootfs are on (from \<^verbatim>\<open>/proc/cmdline\<close>, \<^verbatim>\<open>/proc/mtd\<close>, \<^verbatim>\<open>/proc/mounts\<close> and
  the partition tables: \<^verbatim>\<open>cmdline_parser.c\<close>, \<^verbatim>\<open>busybox/fdisk_gpt.c\<close>), stops the box and moves the root
  to a tmpfs if the running image is to be replaced, and flashes: files to block devices
  (\<^verbatim>\<open>flash_ext4.c\<close>), images to raw flash (\<^verbatim>\<open>flash_ubi_jffs2.c\<close>) through the mtd-utils programs that are
  linked in: \<^verbatim>\<open>flash_erase.c\<close>, \<^verbatim>\<open>nandwrite.c\<close>, \<^verbatim>\<open>flashcp.c\<close>, \<^verbatim>\<open>ubiformat.c\<close> over \<^verbatim>\<open>libscan.c\<close> and
  \<^verbatim>\<open>libubigen.c\<close>, and \<^verbatim>\<open>ubiattach.c\<close>, \<^verbatim>\<open>ubidetach.c\<close>, \<^verbatim>\<open>ubiupdatevol.c\<close> over \<^verbatim>\<open>libubi.c\<close>; all of them over
  \<^verbatim>\<open>lib/libmtd.c\<close>. What it does is shown on the framebuffer (\<^verbatim>\<open>fb.c\<close>, \<^verbatim>\<open>font.h\<close>).

  \<^bold>\<open>Foundations.\<close>
  \<^item> Prelude, CInt and CStrings: bytes and their order, the integer types of C written out
    (\<open>c_int\<close>, \<open>c_uint\<close>, division that truncates), string and number functions of the C library, and
    the number parsing of \<^verbatim>\<open>include/common.h\<close>. Getopt: \<^verbatim>\<open>getopt_long\<close>.
  \<^item> Crc32 (\<^verbatim>\<open>lib/libcrc32.c\<close>), UbiMedia (\<^verbatim>\<open>include/mtd/ubi-media.h\<close>): the structures are records with
    their fields as they are in memory, and the byte lists of their images. The locales \<open>byte_order\<close>
    and \<open>codec\<close> state what conversions and layouts promise.

  \<^bold>\<open>The flash tools.\<close>
  \<^item> Libmtd (\<^verbatim>\<open>lib/libmtd.c\<close>): the operations on eraseblocks over a record \<open>'k kernel\<close> of the
    system calls the code makes, with \<open>'k\<close> the state of the driver. Libubigen, Libscan, Ubiformat,
    FlashErase, Nandwrite, Flashcp: the programs over it. Their static option variables are arguments and
    results, as they keep their values between two calls in one run of ofgwrite. UbiUtils: what
    \<^verbatim>\<open>ubiutils-common.c\<close> and \<^verbatim>\<open>ubiformat.c\<close> print.
  \<^item> SysfsFiles, LibmtdInfo, LibmtdImage: the files under \<^verbatim>\<open>/sys\<close>, the readers of libmtd over them (also
    \<^verbatim>\<open>lib/libmtd_legacy.c\<close>), and writing a file. UbiDriver, Libubi, UbiTools: the requests to UBI, \<^verbatim>\<open>libubi.c\<close>
    and the programs over it. UbiControl: the laws of the control device, as a locale.
  \<^item> EraseblockFrame, LibubigenProps, UbiformatFrame: which eraseblocks an operation can change.
    NandSim, PerfectNand, NandPages, WornSim: NAND devices for examples, and the interfaces a device without
    failures, or with eraseblocks that wear out, promises. UbiformatFlash, UbiformatRun: ubiformat on such a device,
    from its arguments to the contents. NandwriteWorn, NandwritePlace: the same for nandwrite.
  \<^item> LibmtdProps, SysfsProps, LibmtdInfoProps, UbiProps, UbiformatProps, EraseProps, NandwriteProps, FlashcpProps,
    UbiControlProps, UbiVolumeProps, UbiUpdateProps: the properties.

  \<^bold>\<open>ofgwrite.\<close>
  \<^item> OfgState: the global variables of ofgwrite as the record \<open>gst\<close>. CmdlineParser, GptTable,
    ReadArgs, DeviceSelect: the selection phase, as functions on that record; what the code reads
    from \<^verbatim>\<open>/proc\<close>, directories and disks is the record \<open>env\<close>. FdiskGpt: how \<^verbatim>\<open>fdisk -l\<close> of busybox, as ofgwrite
    has adapted it, reads the partitions in \<open>env\<close> from the disks. SelectProps, SelectMain, FdiskProps: its properties.
  \<^item> Sys: the flashing phase as programs in a state monad over the outside world and the trace of
    system calls, with their answers a parameter \<open>'w os\<close>; two logics over it, \<open>emits\<close> (which calls a
    program can make) and \<open>ensures\<close>. FlashExt4, FlashUbi, BootImage (\<^verbatim>\<open>generate_boot_image\<close>), OfgMain
    (\<^verbatim>\<open>umount_rootfs\<close> and \<^verbatim>\<open>main\<close> from the first flashing decision on) are written in it; FlashPolicy,
    FlashProps, StopProps, MountProps, BootProps, NfiProps, FlashTargets hold the properties.
  \<^item> ToolCalls links both halves: a system whose calls of the flash tools run their models, and the locale
    \<open>linked_tools\<close> with what the flashing phase relies on. KernelRun, RootfsRun, BlockRun: the whole program, from
    the command line to the contents of the flash.
  \<^item> Framebuffer, Font (\<^verbatim>\<open>fb.c\<close>, \<^verbatim>\<open>font.h\<close>): the display as a function of its mapped memory. FramebufferProps,
    FramebufferInit: its properties.

  \<^bold>\<open>What is shown.\<close>
  \<^item> The whole program: a run that flashes a NAND or NOR partition with a kernel leaves the image there, whatever was
    there before, on the good eraseblocks in order, and leaves bad eraseblocks alone; a run that flashes a rootfs
    partition with UBI does so where the partition has no bad eraseblock, and carries the erase counters over.
    With a bad eraseblock the call of ubiformat by ofgwrite, without -q, overflows the array of a text behind the scan, so that
    its further behaviour is undefined; that is a property too, and the properties of flashing and formatting with
    bad eraseblocks are those of the functions behind that point. A kernel for a block device is
    handed to its stream byte by byte, and delivered if closing the stream succeeds, which the program does not check.
    Every call of a run, with its arguments, is in a list written down for the devices and files it has chosen.
  \<^item> Raw flash: flash_erase erases exactly the good eraseblocks, nandwrite ends on every device and places the
    image also where writes fail, flashcp keeps what is behind the image.
  \<^item> UBI: the scan counts what it finds, accepts the headers libubigen makes and no header with up to
    four damaged adjacent bytes in its checked part or in its checksum; the layout volume has its parts at their offsets and sealed records;
    the CRC is the bit-serial one and detects every change within four bytes. Attaching and detaching undo each other;
    updating a volume writes exactly the image, however short the reads and writes are.
  \<^item> The files under \<^verbatim>\<open>/sys\<close>: what the kernel prints of its devices and volumes is what libmtd and libubi report.
  \<^item> Selection: when flashing starts, the devices and files are there and images fit; partitions are
    the ones the tables name, from the bytes of the label on; image files lie in the image directory; the mounts that are released
    are all but the basic ones and those on the device of the image.
  \<^item> Flashing: nothing is flashed before enigma2 has stopped and the root has moved, the wait is
    bounded, what was set up for an UBI image is released in reverse order on every path, a dry run
    runs no program and writes nothing, but opens a kernel device for writing and releases two mount points, boot images have their layout, NFI images lose exactly their ECC bytes.
  \<^item> The display: every call stays inside its window in the mapped memory, on every mode that is large enough.
  \<^item> Errors the program makes are stated as theorems too: success reported behind failures, options
    that stay set, devices that are rejected and flashed all the same, texts that overflow their array.

  \<^bold>\<open>Bounds and termination.\<close> Loops over lists and counters are total functions. Loops that can run
  forever are \<open>partial_function (option)\<close>: reading with a driver that returns nothing
  (\<open>mtd_read_loop\<close>, \<open>read_all\<close>), the prompt, writing a volume or a file (\<open>write_volume_loop\<close>, \<open>write_img_loop\<close>),
  updating a volume (\<open>ubi_write\<close>, \<open>update_loop\<close>), folding a text (\<open>fold_loop\<close>), and the block loops of nandwrite. That they
  return is proved where the device permits it: nandwrite on devices that consist of pages, ubiformat on a device
  that can be read, ubiupdatevol on a driver that takes bytes again and again, folding for a positive width. A
  division by 0 is the value \<open>None\<close> as well, or \<open>Crash\<close> in the selection and flashing phases. There is no fuel. Integers are
  those of a 32-bit system with 64-bit file offsets: \<open>int\<close> values reduced by \<open>c_int\<close> and \<open>c_uint\<close> where the
  code can leave the range, and words where it calculates with bits.

  \<^bold>\<open>Not modelled.\<close> Messages and the syslog, except for the divisions in their arguments and the helpers in UbiUtils.
  Busybox is third-party code: its programs appear as calls with argument vectors, and of \<^verbatim>\<open>fdisk.c\<close> only what
  ofgwrite's listing reaches is modelled. \<^verbatim>\<open>lib/libfec.c\<close> is not built. Headers that only declare,
  scripts and build files are no part of the program. Releasing memory is left out; file descriptors
  appear where what happens depends on them. The buffers of the streams of the C library are not part of the state:
  \<open>written\<close> (FlashExt4) are the bytes that the calls report as taken, \<open>delivered\<close> those that a successful
  \<^verbatim>\<open>fclose\<close> has brought to the file.
\<close>

end
